(* ===== verification/Goldfish_Prelude.thy ===== *)
theory Goldfish_Prelude
  imports Main "HOL-Library.Word" "HOL-Library.Monad_Syntax"
begin

text \<open>
  Shared vocabulary of the development: the fixed-width integer types of the C and C++
  sources, byte sequences, positional byte codecs in both byte orders, the splice that a
  seek followed by a write performs on a file or buffer, a bounded search loop, and the two
  interfaces that several components share: \<^verbatim>\<open>byte_codec\<close> (a fixed-width encoding of a
  value as bytes) and \<^verbatim>\<open>invariant_system\<close> (a transition system with an inductive invariant).
\<close>

unbundle bit_operations_syntax

section \<open>Machine types\<close>

type_synonym u8 = "8 word"
type_synonym u16 = "16 word"
type_synonym u32 = "32 word"
type_synonym u64 = "64 word"
type_synonym bytes = "u8 list"

named_theorems codec_simps \<open>round trips and lengths of the byte codecs\<close>
named_theorems splice_simps \<open>lengths and reads of spliced byte sequences\<close>

section \<open>Positional byte codecs\<close>

text \<open>Little-endian digits in base 256; big-endian is the reverse.\<close>

fun nat_to_le :: "nat \<Rightarrow> nat \<Rightarrow> bytes" where
  "nat_to_le 0 k = []"
| "nat_to_le (Suc n) k = word_of_nat (k mod 256) # nat_to_le n (k div 256)"

fun le_to_nat :: "bytes \<Rightarrow> nat" where
  "le_to_nat [] = 0"
| "le_to_nat (b # bs) = unat b + 256 * le_to_nat bs"

lemma length_nat_to_le [simp, codec_simps]: "length (nat_to_le n k) = n"
  by (induction n arbitrary: k) auto

lemma unat_byte_of_mod [simp]: "unat (word_of_nat (k mod 256) :: u8) = k mod 256"
  by (simp add: unat_of_nat)

lemma le_to_nat_to_le [codec_simps]: "le_to_nat (nat_to_le n k) = k mod 256 ^ n"
proof (induction n arbitrary: k)
  case 0
  then show ?case by simp
next
  case (Suc n)
  then show ?case by (simp add: mod_mult2_eq)
qed

lemma unat_byte_less: "unat (b :: u8) < 256"
  using unsigned_less [of b] by simp

lemma nat_to_le_of_le [codec_simps]: "nat_to_le (length bs) (le_to_nat bs) = bs"
proof (induction bs)
  case Nil
  then show ?case by simp
next
  case (Cons b bs)
  have "(unat b + 256 * le_to_nat bs) mod 256 = unat b"
    and "(unat b + 256 * le_to_nat bs) div 256 = le_to_nat bs"
    using unat_byte_less [of b] by simp_all
  with Cons show ?case by simp
qed

lemma le_to_nat_bound: "le_to_nat bs < 256 ^ length bs"
proof (induction bs)
  case (Cons b bs)
  have "unat b + 256 * le_to_nat bs < 256 + 256 * le_to_nat bs"
    using unat_byte_less [of b] by simp
  also have "\<dots> = 256 * Suc (le_to_nat bs)" by simp
  also have "\<dots> \<le> 256 * 256 ^ length bs"
    using Cons by (intro mult_le_mono) auto
  finally show ?case by simp
qed simp

definition enc_le64 :: "u64 \<Rightarrow> bytes" where
  "enc_le64 w = nat_to_le 8 (unat w)"

definition dec_le64 :: "bytes \<Rightarrow> u64" where
  "dec_le64 bs = word_of_nat (le_to_nat bs)"

definition enc_be32 :: "u32 \<Rightarrow> bytes" where
  "enc_be32 w = rev (nat_to_le 4 (unat w))"

definition dec_be32 :: "bytes \<Rightarrow> u32" where
  "dec_be32 bs = word_of_nat (le_to_nat (rev bs))"

definition enc_be16 :: "u16 \<Rightarrow> bytes" where
  "enc_be16 w = rev (nat_to_le 2 (unat w))"

definition dec_be16 :: "bytes \<Rightarrow> u16" where
  "dec_be16 bs = word_of_nat (le_to_nat (rev bs))"

section \<open>Splicing: seek and write\<close>

text \<open>
  Writing \<open>ys\<close> at offset \<open>off\<close> of the contents \<open>bs\<close>: bytes before and after stay, and a
  gap between the old end and the offset reads as zero, as after a seek past the end.
\<close>

definition splice :: "bytes \<Rightarrow> nat \<Rightarrow> bytes \<Rightarrow> bytes" where
  "splice bs off ys =
     take off bs @ replicate (off - length bs) 0 @ ys @ drop (off + length ys) bs"

lemma length_splice [simp, splice_simps]:
  "length (splice bs off ys) = max (length bs) (off + length ys)"
  by (auto simp: splice_def max_def)

lemma read_splice_same [splice_simps]:
  "take (length ys) (drop off (splice bs off ys)) = ys"
  by (simp add: splice_def)

lemma splice_inside:
  "off + length ys \<le> length bs \<Longrightarrow> splice bs off ys = take off bs @ ys @ drop (off + length ys) bs"
  by (simp add: splice_def)

lemma read_splice_before [splice_simps]:
  assumes "i + n \<le> off" and "off \<le> length bs"
  shows "take n (drop i (splice bs off ys)) = take n (drop i bs)"
proof -
  have "drop i (splice bs off ys) = drop i (take off bs) @ ys @ drop (off + length ys) bs"
    using assms by (simp add: splice_def)
  then have "take n (drop i (splice bs off ys)) = take n (drop i (take off bs))"
    using assms by simp
  also have "\<dots> = take n (drop i bs)"
    using assms by (simp add: drop_take min_def)
  finally show ?thesis .
qed

lemma read_splice_after [splice_simps]:
  assumes "off + length ys \<le> i" and "off \<le> length bs"
  shows "take n (drop i (splice bs off ys)) = take n (drop i bs)"
proof -
  have "drop i (splice bs off ys) = drop (i - off - length ys) (drop (off + length ys) bs)"
    using assms by (simp add: splice_def)
  also have "\<dots> = drop i bs"
    using assms by (simp add: algebra_simps)
  finally show ?thesis by simp
qed

lemma splice_append_inside:
  "off + length ys \<le> length xs \<Longrightarrow> splice (xs @ rest) off ys = splice xs off ys @ rest"
  by (simp add: splice_def)

lemma splice_all: "length ys = length bs \<Longrightarrow> splice bs 0 ys = ys"
  by (simp add: splice_def)

section \<open>The codec interface\<close>

text \<open>Arrays of fixed-width values laid out contiguously.\<close>

definition enc_array :: "('a \<Rightarrow> bytes) \<Rightarrow> 'a list \<Rightarrow> bytes" where
  "enc_array enc xs = concat (map enc xs)"

definition dec_array :: "('a \<Rightarrow> bytes) \<Rightarrow> (bytes \<Rightarrow> 'a) \<Rightarrow> nat \<Rightarrow> nat \<Rightarrow> bytes \<Rightarrow> 'a list" where
  "dec_array enc dec width n bs = map (\<lambda>i. dec (take width (drop (i * width) bs))) [0..<n]"

locale byte_codec =
  fixes width :: nat
    and enc :: "'a \<Rightarrow> bytes"
    and dec :: "bytes \<Rightarrow> 'a"
  assumes length_enc: "length (enc x) = width"
    and dec_enc: "dec (enc x) = x"
begin

lemma length_enc_array: "length (enc_array enc xs) = length xs * width"
  by (induction xs) (auto simp: enc_array_def length_enc)

lemma enc_array_append: "enc_array enc (xs @ ys) = enc_array enc xs @ enc_array enc ys"
  by (simp add: enc_array_def)

lemma enc_inject: "enc x = enc y \<longleftrightarrow> x = y"
  by (metis dec_enc)

lemma enc_append_inject: "enc x @ bs = enc y @ cs \<longleftrightarrow> x = y \<and> bs = cs"
  by (auto simp: length_enc enc_inject)

lemma dec_prefix: "dec (take width (enc x @ bs)) = x"
  by (simp add: length_enc dec_enc)

lemma enc_array_nth:
  "i < length xs \<Longrightarrow> take width (drop (i * width) (enc_array enc xs)) = enc (xs ! i)"
proof (induction xs arbitrary: i)
  case (Cons x xs)
  then show ?case
    by (cases i) (auto simp: enc_array_def length_enc)
qed simp

lemma dec_array_enc_array: "dec_array enc dec width (length xs) (enc_array enc xs) = xs"
  by (rule nth_equalityI) (auto simp: dec_array_def enc_array_nth dec_enc)

lemma dec_array_append:
  "n * width \<le> length bs \<Longrightarrow> dec_array enc dec width n (bs @ cs) = dec_array enc dec width n bs"
proof -
  assume len: "n * width \<le> length bs"
  have chunk: "i < n \<Longrightarrow>
      take width (drop (i * width) (bs @ cs)) = take width (drop (i * width) bs)" for i
  proof -
    assume "i < n"
    then have "Suc i * width \<le> n * width"
      by (intro mult_le_mono1) simp
    with len show ?thesis by simp
  qed
  show ?thesis
    unfolding dec_array_def
    by (rule map_cong [OF refl]) (simp only: chunk set_upt atLeastLessThan_iff)
qed

lemma splice_enc_array:
  assumes "i < length xs"
  shows "splice (enc_array enc xs) (i * width) (enc x) = enc_array enc (xs[i := x])"
proof -
  have split: "xs = take i xs @ xs ! i # drop (Suc i) xs"
    using assms by (rule id_take_nth_drop)
  have pre: "length (enc_array enc (take i xs)) = i * width"
    using assms by (simp add: length_enc_array)
  have enc_split: "enc_array enc xs =
      enc_array enc (take i xs) @ enc (xs ! i) @ enc_array enc (drop (Suc i) xs)"
    by (subst split) (simp add: enc_array_def)
  have "splice (enc_array enc xs) (i * width) (enc x) =
      enc_array enc (take i xs) @ enc x @ enc_array enc (drop (Suc i) xs)"
    by (simp add: enc_split splice_def pre length_enc)
  also have "\<dots> = enc_array enc (xs[i := x])"
    using assms by (simp add: upd_conv_take_nth_drop enc_array_def)
  finally show ?thesis .
qed

end

lemma dec_le64_enc_le64 [simp, codec_simps]: "dec_le64 (enc_le64 w) = w"
proof -
  have "unat w < 256 ^ 8" using unsigned_less [of w] by simp
  then show ?thesis by (simp add: dec_le64_def enc_le64_def le_to_nat_to_le)
qed

lemma dec_be32_enc_be32 [simp, codec_simps]: "dec_be32 (enc_be32 w) = w"
proof -
  have "unat w < 256 ^ 4" using unsigned_less [of w] by simp
  then show ?thesis by (simp add: dec_be32_def enc_be32_def le_to_nat_to_le)
qed

lemma dec_be16_enc_be16 [simp, codec_simps]: "dec_be16 (enc_be16 w) = w"
proof -
  have "unat w < 256 ^ 2" using unsigned_less [of w] by simp
  then show ?thesis by (simp add: dec_be16_def enc_be16_def le_to_nat_to_le)
qed

interpretation le64: byte_codec 8 enc_le64 dec_le64
  by unfold_locales (simp_all add: enc_le64_def [THEN arg_cong [where f = length]])

interpretation be32: byte_codec 4 enc_be32 dec_be32
  by unfold_locales (simp_all add: enc_be32_def [THEN arg_cong [where f = length]])

interpretation be16: byte_codec 2 enc_be16 dec_be16
  by unfold_locales (simp_all add: enc_be16_def [THEN arg_cong [where f = length]])

section \<open>Bounded search\<close>

text \<open>
  The loop \<^verbatim>\<open>for (idx = 0; idx < N; idx++) if (P(idx)) break;\<close>: the first index below the
  bound that satisfies the test, or the bound itself.
\<close>

fun first_index_from :: "nat \<Rightarrow> (nat \<Rightarrow> bool) \<Rightarrow> nat \<Rightarrow> nat" where
  "first_index_from i P 0 = i"
| "first_index_from i P (Suc k) = (if P i then i else first_index_from (Suc i) P k)"

definition first_index :: "(nat \<Rightarrow> bool) \<Rightarrow> nat \<Rightarrow> nat" where
  "first_index P n = first_index_from 0 P n"

lemma first_index_from_le: "first_index_from i P k \<le> i + k"
proof (induction k arbitrary: i)
  case (Suc k)
  from Suc [of "Suc i"] show ?case by simp
qed simp

lemma first_index_from_ge: "i \<le> first_index_from i P k"
  by (induction k arbitrary: i) (auto intro: Suc_leD)

lemma first_index_from_hit: "first_index_from i P k < i + k \<Longrightarrow> P (first_index_from i P k)"
  by (induction k arbitrary: i) auto

lemma first_index_from_least: "i \<le> j \<Longrightarrow> j < first_index_from i P k \<Longrightarrow> \<not> P j"
proof (induction k arbitrary: i)
  case (Suc k)
  show ?case
  proof (cases "P i \<or> i = j")
    case False
    with Suc.prems have "Suc i \<le> j" and "j < first_index_from (Suc i) P k" by auto
    then show ?thesis by (rule Suc.IH)
  qed (use Suc in auto)
qed simp

lemma first_index_le: "first_index P n \<le> n"
  using first_index_from_le [of 0 P n] by (simp add: first_index_def)

lemma first_index_hit: "first_index P n < n \<Longrightarrow> P (first_index P n)"
  using first_index_from_hit [of 0 P n] by (simp add: first_index_def)

lemma first_index_least: "j < first_index P n \<Longrightarrow> \<not> P j"
  using first_index_from_least [of 0 j P n] by (simp add: first_index_def)

lemma first_index_none: "first_index P n \<ge> n \<longleftrightarrow> (\<forall>i < n. \<not> P i)"
  by (metis first_index_hit first_index_least first_index_le leD le_less_linear order_le_less_trans)

lemma first_index_cong: "(\<And>i. i < n \<Longrightarrow> P i = Q i) \<Longrightarrow> first_index P n = first_index Q n"
proof -
  have "(\<And>j. i \<le> j \<Longrightarrow> j < i + k \<Longrightarrow> P j = Q j) \<Longrightarrow>
      first_index_from i P k = first_index_from i Q k" for i k
  proof (induction k arbitrary: i)
    case (Suc k)
    have "first_index_from (Suc i) P k = first_index_from (Suc i) Q k"
      by (rule Suc.IH) (simp add: Suc.prems)
    with Suc.prems [of i] show ?case by simp
  qed simp
  from this [of 0 n] show "(\<And>i. i < n \<Longrightarrow> P i = Q i) \<Longrightarrow> ?thesis"
    by (simp add: first_index_def)
qed

section \<open>Transition systems with an invariant\<close>

locale invariant_system =
  fixes init :: "'s \<Rightarrow> bool"
    and step :: "'s \<Rightarrow> 's \<Rightarrow> bool"
    and inv :: "'s \<Rightarrow> bool"
  assumes init_inv: "init s \<Longrightarrow> inv s"
    and step_inv: "step s t \<Longrightarrow> inv s \<Longrightarrow> inv t"
begin

lemma steps_inv: "step\<^sup>*\<^sup>* s t \<Longrightarrow> inv s \<Longrightarrow> inv t"
  by (induction rule: rtranclp_induct) (auto intro: step_inv)

lemma reachable_inv: "init s \<Longrightarrow> step\<^sup>*\<^sup>* s t \<Longrightarrow> inv t"
  by (blast intro: init_inv steps_inv)

end

end
