(* ===== verification/C_Strings.thy ===== *)
theory C_Strings
  imports Goldfish_Prelude
begin

text \<open>
  The parts of the C string library that the sources use: NUL-terminated buffers,
  \<^verbatim>\<open>isspace\<close>, \<^verbatim>\<open>strncmp\<close>, \<^verbatim>\<open>strcasecmp\<close>, \<^verbatim>\<open>strtok\<close>, bounded \<^verbatim>\<open>snprintf\<close>, the
  numeric conversions of \<^verbatim>\<open>printf\<close> (\<open>%d\<close>, \<open>%u\<close> with a minimum number of digits, \<open>%x\<close>)
  and of \<^verbatim>\<open>scanf\<close> (\<open>%d\<close>, \<open>%x\<close> with a field width). A C string is a \<^typ>\<open>string\<close>
  without the terminating NUL.
\<close>

named_theorems cstring_simps \<open>evaluation of the C string functions\<close>

section \<open>Buffers and characters\<close>

definition c_str :: "string \<Rightarrow> string" where
  "c_str buf = takeWhile (\<lambda>c. c \<noteq> CHR 0x00) buf"

definition isspace :: "char \<Rightarrow> bool" where
  "isspace c \<longleftrightarrow> c \<in> {CHR '' '', CHR 0x09, CHR 0x0A, CHR 0x0B, CHR 0x0C, CHR 0x0D}"

definition skip_spaces :: "string \<Rightarrow> string" where
  "skip_spaces s = dropWhile isspace s"

text \<open>\<^verbatim>\<open>snprintf\<close> into a buffer of \<open>n\<close> bytes keeps at most \<open>n - 1\<close> characters.\<close>

definition snprintf_buf :: "nat \<Rightarrow> string \<Rightarrow> string" where
  "snprintf_buf n s = take (n - 1) s"

text \<open>\<^verbatim>\<open>strncmp(a, b, n) == 0\<close>\<close>

definition strncmp_eq :: "string \<Rightarrow> string \<Rightarrow> nat \<Rightarrow> bool" where
  "strncmp_eq a b n \<longleftrightarrow> take n a = take n b"

definition tolower :: "char \<Rightarrow> char" where
  "tolower c = (if 65 \<le> (of_char c :: nat) \<and> (of_char c :: nat) \<le> 90
                then char_of ((of_char c :: nat) + 32) else c)"

definition strcasecmp_eq :: "string \<Rightarrow> string \<Rightarrow> bool" where
  "strcasecmp_eq a b \<longleftrightarrow> map tolower a = map tolower b"

text \<open>
  \<^verbatim>\<open>strtok(s, delims)\<close> called until it returns NULL: the maximal runs of characters that
  are not delimiters.
\<close>

function strtok_all :: "(char \<Rightarrow> bool) \<Rightarrow> string \<Rightarrow> string list" where
  "strtok_all delim s =
     (case dropWhile delim s of
        [] \<Rightarrow> []
      | c # cs \<Rightarrow> (c # takeWhile (\<lambda>x. \<not> delim x) cs)
                 # strtok_all delim (dropWhile (\<lambda>x. \<not> delim x) cs))"
  by pat_completeness auto
termination
proof (relation "measure (\<lambda>(d, s). length s)", goal_cases)
  case (2 delim s c cs)
  have "length (dropWhile (\<lambda>x. \<not> delim x) cs) \<le> length cs"
    by (rule length_dropWhile_le)
  also have "\<dots> < length (dropWhile delim s)"
    using 2 by simp
  also have "\<dots> \<le> length s"
    by (rule length_dropWhile_le)
  finally show ?case by simp
qed simp

declare strtok_all.simps [simp del]

section \<open>Digits\<close>

definition digit_val :: "char \<Rightarrow> nat option" where
  "digit_val c = (let k = of_char c :: nat in
     if 48 \<le> k \<and> k \<le> 57 then Some (k - 48)
     else if 97 \<le> k \<and> k \<le> 102 then Some (k - 87)
     else if 65 \<le> k \<and> k \<le> 70 then Some (k - 55)
     else None)"

definition is_digit :: "nat \<Rightarrow> char \<Rightarrow> bool" where
  "is_digit base c \<longleftrightarrow> (case digit_val c of Some d \<Rightarrow> d < base | None \<Rightarrow> False)"

definition digit_char :: "nat \<Rightarrow> char" where
  "digit_char d = (if d < 10 then char_of (48 + d) else char_of (87 + d))"

lemma digit_val_char: "d < 16 \<Longrightarrow> digit_val (digit_char d) = Some d"
  by (auto simp: digit_val_def digit_char_def Let_def)

lemma is_digit_char: "d < base \<Longrightarrow> base \<le> 16 \<Longrightarrow> is_digit base (digit_char d)"
  by (simp add: is_digit_def digit_val_char)

fun digits_value :: "nat \<Rightarrow> nat \<Rightarrow> string \<Rightarrow> nat" where
  "digits_value base acc [] = acc"
| "digits_value base acc (c # cs) = digits_value base (base * acc + the (digit_val c)) cs"

text \<open>Printing: the digits of a number, most significant first, at least one.\<close>

function show_base :: "nat \<Rightarrow> nat \<Rightarrow> string" where
  "show_base base n =
     (if n < base \<or> base < 2 then [digit_char n]
      else show_base base (n div base) @ [digit_char (n mod base)])"
  by pat_completeness auto
termination
  by (relation "measure (\<lambda>(b, n). n)") auto

declare show_base.simps [simp del]

text \<open>\<^verbatim>\<open>%0<w>u\<close> and \<^verbatim>\<open>%0<w>x\<close>: padded on the left with zeros to width \<open>w\<close>.\<close>

definition show_padded :: "nat \<Rightarrow> nat \<Rightarrow> nat \<Rightarrow> string" where
  "show_padded base w n =
     (let s = show_base base n in replicate (w - length s) (CHR ''0'') @ s)"

definition show_int :: "int \<Rightarrow> string" where
  "show_int k = (if k < 0 then CHR ''-'' # show_base 10 (nat (- k)) else show_base 10 (nat k))"

lemma digits_value_append:
  "digits_value base acc (xs @ ys) = digits_value base (digits_value base acc xs) ys"
  by (induction xs arbitrary: acc) auto

lemma show_base_digits:
  assumes "2 \<le> base" and "base \<le> 16"
  shows "list_all (is_digit base) (show_base base n) \<and> show_base base n \<noteq> [] \<and>
         digits_value base 0 (show_base base n) = n"
proof (induction n rule: less_induct)
  case (less n)
  show ?case
  proof (cases "n < base")
    case True
    with assms show ?thesis
      by (simp add: show_base.simps [of base n] is_digit_char digit_val_char)
  next
    case False
    with assms have "n div base < n" by (intro div_less_dividend) auto
    note IH = less [OF this]
    have lt: "n mod base < base" using assms by simp
    have "is_digit base (digit_char (n mod base))"
      using lt assms(2) by (rule is_digit_char)
    moreover have "digit_val (digit_char (n mod base)) = Some (n mod base)"
      using order_less_le_trans [OF lt assms(2)] by (rule digit_val_char)
    ultimately show ?thesis
      using IH False assms by (simp add: show_base.simps [of base n] digits_value_append)
  qed
qed

lemma digits_value_zeros: "digits_value base 0 (replicate k (CHR ''0'') @ s) = digits_value base 0 s"
  by (induction k) (auto simp: digit_val_def)

lemma is_digit_zero: "0 < base \<Longrightarrow> is_digit base (CHR ''0'')"
  by (simp add: is_digit_def digit_val_def)

lemma show_padded_digits:
  assumes "2 \<le> base" and "base \<le> 16"
  shows "list_all (is_digit base) (show_padded base w n)"
    and "show_padded base w n \<noteq> []"
    and "digits_value base 0 (show_padded base w n) = n"
  using show_base_digits [OF assms, of n] assms
  by (auto simp: show_padded_def Let_def digits_value_zeros list_all_iff is_digit_zero)

lemma length_show_base:
  assumes "2 \<le> base" and "n < base ^ w" and "0 < w"
  shows "length (show_base base n) \<le> w"
  using assms
proof (induction w arbitrary: n)
  case (Suc w)
  show ?case
  proof (cases "n < base")
    case True
    then show ?thesis by (simp add: show_base.simps [of base n])
  next
    case False
    with Suc.prems have "w \<noteq> 0" by (cases w) auto
    from Suc.prems have "n div base < base ^ w"
      by (simp add: less_mult_imp_div_less mult.commute)
    with Suc \<open>w \<noteq> 0\<close> have "length (show_base base (n div base)) \<le> w" by simp
    with False Suc.prems show ?thesis by (simp add: show_base.simps [of base n])
  qed
qed simp

lemma length_show_padded:
  "2 \<le> base \<Longrightarrow> n < base ^ w \<Longrightarrow> 0 < w \<Longrightarrow> length (show_padded base w n) = w"
  using length_show_base [of base n w] by (simp add: show_padded_def Let_def)

lemma digits_value_bound:
  "list_all (is_digit base) s \<Longrightarrow> digits_value base acc s < (acc + 1) * base ^ length s"
proof (induction s arbitrary: acc)
  case (Cons c s)
  then obtain d where d: "digit_val c = Some d" "d < base"
    by (auto simp: is_digit_def split: option.splits)
  have "digits_value base (base * acc + d) s < (base * acc + d + 1) * base ^ length s"
    using Cons by simp
  also have "\<dots> \<le> ((acc + 1) * base) * base ^ length s"
    using d(2) by (intro mult_le_mono1) (simp add: algebra_simps)
  finally show ?case using d(1) by (simp add: algebra_simps)
qed simp

section \<open>Numeric scanf conversions\<close>

text \<open>An optional sign, as the numeric conversions accept it.\<close>

definition scan_sign :: "string \<Rightarrow> int \<times> string" where
  "scan_sign s = (case s of
     c # cs \<Rightarrow> if c = CHR ''-'' then (-1, cs) else if c = CHR ''+'' then (1, cs) else (1, s)
   | [] \<Rightarrow> (1, s))"

definition scan_digits :: "nat \<Rightarrow> string \<Rightarrow> (nat \<times> string) option" where
  "scan_digits base s =
     (let ds = takeWhile (is_digit base) s in
      if ds = [] then None else Some (digits_value base 0 ds, dropWhile (is_digit base) s))"

text \<open>\<^verbatim>\<open>%d\<close>: white space, an optional sign, at least one decimal digit.\<close>

definition scan_d :: "string \<Rightarrow> (int \<times> string) option" where
  "scan_d s =
     (case scan_sign (skip_spaces s) of (sg, r) \<Rightarrow>
        (case scan_digits 10 r of None \<Rightarrow> None | Some (n, rest) \<Rightarrow> Some (sg * int n, rest)))"

text \<open>
  \<^verbatim>\<open>%<w>x\<close>: white space, then within \<open>w\<close> characters an optional sign, an optional
  \<^verbatim>\<open>0x\<close> prefix (kept only when a hexadecimal digit follows) and at least one digit.
\<close>

definition strip_0x :: "string \<Rightarrow> string" where
  "strip_0x s = (case s of
     a # b # c # cs \<Rightarrow>
       if a = CHR ''0'' \<and> (b = CHR ''x'' \<or> b = CHR ''X'') \<and> is_digit 16 c then c # cs else s
   | _ \<Rightarrow> s)"

definition scan_x :: "nat \<Rightarrow> string \<Rightarrow> int option" where
  "scan_x w s =
     (case scan_sign (take w (skip_spaces s)) of (sg, r) \<Rightarrow>
        (case scan_digits 16 (strip_0x r) of
           None \<Rightarrow> None | Some (n, _) \<Rightarrow> Some (sg * int n)))"

lemma is_digit_not_space: "is_digit base c \<Longrightarrow> \<not> isspace c"
  by (auto simp: is_digit_def digit_val_def isspace_def Let_def split: if_splits)

lemma is_digit_not_sign: "is_digit base c \<Longrightarrow> c \<noteq> CHR ''-'' \<and> c \<noteq> CHR ''+''"
  by (auto simp: is_digit_def digit_val_def Let_def)

lemma scan_sign_digit: "s \<noteq> [] \<Longrightarrow> is_digit base (hd s) \<Longrightarrow> scan_sign s = (1, s)"
  by (cases s) (auto simp: scan_sign_def dest: is_digit_not_sign)

lemma skip_spaces_digit: "s \<noteq> [] \<Longrightarrow> is_digit base (hd s) \<Longrightarrow> skip_spaces s = s"
  by (cases s) (auto simp: skip_spaces_def dest: is_digit_not_space)

lemma scan_digits_app:
  assumes "list_all (is_digit base) ds" and "ds \<noteq> []"
    and "rest = [] \<or> \<not> is_digit base (hd rest)"
  shows "scan_digits base (ds @ rest) = Some (digits_value base 0 ds, rest)"
proof -
  have "takeWhile (is_digit base) (ds @ rest) = ds"
    using assms by (cases rest) (auto simp: list_all_iff takeWhile_tail)
  moreover have "dropWhile (is_digit base) (ds @ rest) = rest"
    using assms by (cases rest) (auto simp: list_all_iff dropWhile_append)
  ultimately show ?thesis using assms(2) by (simp add: scan_digits_def)
qed

lemma scan_d_show:
  assumes "rest = [] \<or> \<not> is_digit 10 (hd rest)"
  shows "scan_d (show_base 10 n @ rest) = Some (int n, rest)"
proof -
  have ds: "list_all (is_digit 10) (show_base 10 n)" "show_base 10 n \<noteq> []"
    and v: "digits_value 10 0 (show_base 10 n) = n"
    using show_base_digits [of 10 n] by auto
  then have hd: "is_digit 10 (hd (show_base 10 n @ rest))"
    by (cases "show_base 10 n") auto
  have "scan_sign (skip_spaces (show_base 10 n @ rest)) = (1, show_base 10 n @ rest)"
    using ds(2) hd by (simp add: skip_spaces_digit [of _ 10] scan_sign_digit [of _ 10])
  then show ?thesis
    using scan_digits_app [OF ds assms] v by (simp add: scan_d_def)
qed

lemma not_hex_x: "\<not> is_digit 16 (CHR ''x'')" "\<not> is_digit 16 (CHR ''X'')"
  by (simp_all add: is_digit_def digit_val_def)

lemma strip_0x_digits: "list_all (is_digit 16) s \<Longrightarrow> strip_0x s = s"
  by (auto simp: strip_0x_def not_hex_x split: list.splits)

lemma scan_x_padded:
  assumes "n < 16 ^ w" and "0 < w"
  shows "scan_x w (show_padded 16 w n) = Some (int n)"
proof -
  let ?s = "show_padded 16 w n"
  have ds: "list_all (is_digit 16) ?s" "?s \<noteq> []" "digits_value 16 0 ?s = n"
    using show_padded_digits [of 16 w n] by auto
  have len: "length ?s = w"
    using assms by (intro length_show_padded) auto
  have hd: "is_digit 16 (hd ?s)" using ds by (cases ?s) auto
  have "skip_spaces ?s = ?s" using ds(2) hd by (rule skip_spaces_digit)
  moreover have "scan_sign ?s = (1, ?s)" using ds(2) hd by (rule scan_sign_digit)
  moreover have "scan_digits 16 ?s = Some (n, [])"
    using scan_digits_app [OF ds(1,2), of "[]"] ds(3) by simp
  ultimately show ?thesis
    using len ds by (simp add: scan_x_def strip_0x_digits)
qed

lemma digit_not_nul: "is_digit base c \<Longrightarrow> c \<noteq> CHR 0x00"
  by (auto simp: is_digit_def digit_val_def Let_def)

lemma c_str_no_nul: "CHR 0x00 \<notin> set s \<Longrightarrow> c_str s = s"
  by (auto simp: c_str_def takeWhile_eq_all_conv)

lemma c_str_digits: "list_all (is_digit base) s \<Longrightarrow> c_str s = s"
  by (rule c_str_no_nul) (auto simp: list_all_iff dest: digit_not_nul)

lemma show_base_no_nul: "CHR 0x00 \<notin> set (show_base 10 n)"
  using show_base_digits [of 10 n] by (auto simp: list_all_iff dest: digit_not_nul)

end
