(* ===== verification/Fingerprint.thy ===== *)
theory Fingerprint
  imports C_Strings
begin

text \<open>
  \<^verbatim>\<open>fingerprint/fingerprint.c\<close>: the emulator's fingerprint HAL. The device object, its table
  of enrolled fingers, the files the table and the authenticator id are kept in, the HAL entry
  points and the listener thread that turns host events into notifications. The world a
  function runs in holds the device, the file system and the notifications sent so far.

  The framework's notification callback and the message types of \<^verbatim>\<open>hardware/fingerprint.h\<close>
  are not part of the repository: messages are a datatype with the fields the code fills in,
  and a call through the callback appends to the list of notifications. Calling it while it is
  null is a fault, the value \<open>None\<close>. The constants of \<^verbatim>\<open>hardware/hw_auth_token.h\<close> and the
  value \<^verbatim>\<open>sscanf\<close> stores for a number outside the range of \<^verbatim>\<open>int\<close> are the fields of
  \<open>fp_consts\<close>. Critical sections between lock and unlock are atomic.
\<close>

section \<open>Data\<close>

definition MAX_COMM_ERRORS :: int where
  "MAX_COMM_ERRORS = 8"

definition MAX_NUM_FINGERS :: nat where
  "MAX_NUM_FINGERS = 20"

definition MAX_FID_VALUE :: int where
  "MAX_FID_VALUE = 0x7FFFFFFF"

definition PATH_MAX :: nat where
  "PATH_MAX = 4096"

datatype worker_state_t = STATE_IDLE | STATE_ENROLL | STATE_SCAN | STATE_EXIT

record worker_thread_t =
  state :: worker_state_t
  samples_remaining :: int
  secureid :: "u64 list"
  fingerid :: "u64 list"
  fp_filename :: string
  authid_filename :: string

record qemu_fingerprint_device_t =
  notify_set :: bool
  listener :: worker_thread_t
  op_id :: u64
  challenge :: u64
  user_id :: u64
  group_id :: u64
  secure_user_id :: u64
  authenticator_id :: u64
  qchanfd :: int

record hw_auth_token_t =
  hat_version :: u8
  hat_challenge :: u64
  hat_user_id :: u64
  hat_authenticator_id :: u64
  hat_authenticator_type :: u32
  hat_timestamp :: u64

datatype fp_error_code = FINGERPRINT_ERROR_UNABLE_TO_PROCESS | FINGERPRINT_ERROR_CANCELED

datatype fp_acquired_info = FINGERPRINT_ACQUIRED_GOOD

datatype fingerprint_msg_t =
    FINGERPRINT_ERROR fp_error_code
  | FINGERPRINT_ACQUIRED fp_acquired_info
  | FINGERPRINT_TEMPLATE_ENROLLING (enroll_fid: u32) (enroll_samples: int)
  | FINGERPRINT_TEMPLATE_REMOVED (removed_fid: u32) (removed_gid: u32) (removed_remaining: int)
  | FINGERPRINT_AUTHENTICATED (auth_fid: u32) (auth_hat: hw_auth_token_t)
  | FINGERPRINT_TEMPLATE_ENUMERATING (enum_fid: u32) (enum_gid: u32) (enum_remaining: int)

text \<open>
  The file system as \<^verbatim>\<open>stdio\<close> shows it: contents by name, which names can be opened at all,
  and where a seek or a write succeeds.
\<close>

record fp_fs =
  files :: "string \<Rightarrow> bytes option"
  openable :: "string \<Rightarrow> bool"
  seekable :: "string \<Rightarrow> nat \<Rightarrow> bool"
  writable :: "string \<Rightarrow> nat \<Rightarrow> bool"

record fp_world =
  dev :: qemu_fingerprint_device_t
  fs :: fp_fs
  notified :: "fingerprint_msg_t list"

record fp_consts =
  HW_AUTH_TOKEN_VERSION :: u8
  HW_AUTH_FINGERPRINT :: u32
  scan_overflow :: "int \<Rightarrow> int"

section \<open>Storage\<close>

definition fopen_r :: "fp_fs \<Rightarrow> string \<Rightarrow> bytes option" where
  "fopen_r f name = (if openable f name then files f name else None)"

definition fwrite_at :: "fp_fs \<Rightarrow> string \<Rightarrow> nat \<Rightarrow> bytes \<Rightarrow> fp_fs" where
  "fwrite_at f name off bs =
     (if writable f name off
      then f\<lparr>files := (files f)(name := map_option (\<lambda>c. splice c off bs) (files f name))\<rparr>
      else f)"

text \<open>
  Open for update without truncating, or create a file of \<open>2 * MAX_NUM_FINGERS + 1\<close> zeros.
  The result says whether a stream was opened.
\<close>

definition openForWrite :: "fp_fs \<Rightarrow> string option \<Rightarrow> bool \<times> fp_fs" where
  "openForWrite f name =
     (case name of
        None \<Rightarrow> (False, f)
      | Some n \<Rightarrow>
          if \<not> openable f n then (False, f)
          else (case files f n of
                  Some _ \<Rightarrow> (True, f)
                | None \<Rightarrow> (True, f\<lparr>files := (files f)(n \<mapsto>
                    enc_array enc_le64 (replicate (2 * MAX_NUM_FINGERS) 0) @ enc_le64 0)\<rparr>)))"

definition saveFingerprint :: "fp_fs \<Rightarrow> worker_thread_t \<Rightarrow> nat \<Rightarrow> fp_fs" where
  "saveFingerprint f l idx =
     (let name = fp_filename l in
      case openForWrite f (Some name) of
        (False, f1) \<Rightarrow> f1
      | (True, f1) \<Rightarrow>
          if \<not> seekable f1 name (idx * 8) then f1
          else let f2 = fwrite_at f1 name (idx * 8) (enc_le64 (secureid l ! idx)) in
            if \<not> seekable f2 name ((MAX_NUM_FINGERS + idx) * 8) then f2
            else fwrite_at f2 name ((MAX_NUM_FINGERS + idx) * 8) (enc_le64 (fingerid l ! idx)))"

definition saveAuthenticatorId :: "fp_fs \<Rightarrow> string \<Rightarrow> u64 \<Rightarrow> fp_fs" where
  "saveAuthenticatorId f name authenid =
     (case openForWrite f (Some name) of
        (False, f1) \<Rightarrow> f1
      | (True, f1) \<Rightarrow> fwrite_at f1 name 0 (enc_le64 authenid))"

text \<open>
  \<^verbatim>\<open>fread\<close> of one item of \<open>n\<close> bytes stores the bytes that are there over the old memory.
\<close>

definition loadAuthenticatorId :: "fp_fs \<Rightarrow> string \<Rightarrow> u64 \<Rightarrow> u64" where
  "loadAuthenticatorId f name authenid =
     (case fopen_r f name of
        None \<Rightarrow> authenid
      | Some c \<Rightarrow> dec_le64 (splice (enc_le64 authenid) 0 (take 8 c)))"

definition fread_ids :: "u64 list \<Rightarrow> bytes \<Rightarrow> u64 list" where
  "fread_ids ids c =
     dec_array enc_le64 dec_le64 8 MAX_NUM_FINGERS
       (splice (enc_array enc_le64 ids) 0 (take (MAX_NUM_FINGERS * 8) c))"

definition loadFingerprints :: "fp_fs \<Rightarrow> worker_thread_t \<Rightarrow> worker_thread_t" where
  "loadFingerprints f l =
     (case fopen_r f (fp_filename l) of
        None \<Rightarrow> l
      | Some c \<Rightarrow> l\<lparr>secureid := fread_ids (secureid l) c,
                    fingerid := fread_ids (fingerid l) (drop (MAX_NUM_FINGERS * 8) c)\<rparr>)"

section \<open>HAL entry points\<close>

text \<open>The two results of \<^verbatim>\<open>rand()\<close> are arguments.\<close>

definition get_64bit_rand :: "u64 \<Rightarrow> u64 \<Rightarrow> u64" where
  "get_64bit_rand rand1 rand2 =
     (let r = (push_bit 32 rand1) OR rand2 in if r \<noteq> 0 then r else 1)"

definition notify :: "fp_world \<Rightarrow> fingerprint_msg_t \<Rightarrow> fp_world option" where
  "notify w msg = (if notify_set (dev w) then Some (w\<lparr>notified := notified w @ [msg]\<rparr>) else None)"

definition fingerprint_get_auth_id :: "fp_world \<Rightarrow> u64" where
  "fingerprint_get_auth_id w = authenticator_id (dev w)"

definition upd_listener :: "(worker_thread_t \<Rightarrow> worker_thread_t) \<Rightarrow> fp_world \<Rightarrow> fp_world" where
  "upd_listener g w = w\<lparr>dev := (dev w)\<lparr>listener := g (listener (dev w))\<rparr>\<rparr>"

definition fingerprint_set_active_group :: "u32 \<Rightarrow> string \<Rightarrow> fp_world \<Rightarrow> int \<times> fp_world" where
  "fingerprint_set_active_group gid path w =
     (let l1 = (listener (dev w))\<lparr>fp_filename := snprintf_buf PATH_MAX (path @ ''/'' @ ''emufp.bin''),
                                  authid_filename := snprintf_buf PATH_MAX (path @ ''/'' @ ''emuauthid.bin'')\<rparr>;
          l2 = loadFingerprints (fs w) l1;
          a = loadAuthenticatorId (fs w) (authid_filename l2) 0
      in (0, w\<lparr>dev := (dev w)\<lparr>group_id := ucast gid, listener := l2, authenticator_id := a\<rparr>\<rparr>))"

definition fingerprint_authenticate :: "u64 \<Rightarrow> u32 \<Rightarrow> fp_world \<Rightarrow> int \<times> fp_world" where
  "fingerprint_authenticate operation_id gid w =
     (0, upd_listener (\<lambda>l. l\<lparr>state := STATE_SCAN\<rparr>) (w\<lparr>dev := (dev w)\<lparr>op_id := operation_id\<rparr>\<rparr>))"

definition fingerprint_enroll ::
  "fp_consts \<Rightarrow> hw_auth_token_t option \<Rightarrow> u32 \<Rightarrow> u32 \<Rightarrow> fp_world \<Rightarrow> (int \<times> fp_world) option" where
  "fingerprint_enroll c hat gid timeout_sec w =
     (let msg = FINGERPRINT_ERROR FINGERPRINT_ERROR_UNABLE_TO_PROCESS in
      case hat of
        None \<Rightarrow> do { w1 \<leftarrow> notify w msg; Some (0, w1) }
      | Some h \<Rightarrow>
          let w0 = (if hat_challenge h = challenge (dev w)
                    then w\<lparr>dev := (dev w)\<lparr>secure_user_id := hat_user_id h\<rparr>\<rparr> else w) in
          if hat_version h \<noteq> HW_AUTH_TOKEN_VERSION c then do { w1 \<leftarrow> notify w0 msg; Some (0, w1) }
          else if hat_challenge h \<noteq> challenge (dev w) \<and>
                  hat_authenticator_type h AND HW_AUTH_FINGERPRINT c = 0
          then do { w1 \<leftarrow> notify w0 msg; Some (0, w1) }
          else Some (0, upd_listener (\<lambda>l. l\<lparr>state := STATE_ENROLL, samples_remaining := 2\<rparr>)
                          (w0\<lparr>dev := (dev w0)\<lparr>user_id := hat_user_id h\<rparr>\<rparr>)))"

definition fingerprint_pre_enroll :: "u64 \<Rightarrow> u64 \<Rightarrow> fp_world \<Rightarrow> u64 \<times> fp_world" where
  "fingerprint_pre_enroll rand1 rand2 w =
     (let ch = get_64bit_rand rand1 rand2 in (ch, w\<lparr>dev := (dev w)\<lparr>challenge := ch\<rparr>\<rparr>))"

definition fingerprint_post_enroll :: "fp_world \<Rightarrow> int \<times> fp_world" where
  "fingerprint_post_enroll w = (0, w\<lparr>dev := (dev w)\<lparr>challenge := 0\<rparr>\<rparr>)"

definition fingerprint_cancel :: "fp_world \<Rightarrow> (int \<times> fp_world) option" where
  "fingerprint_cancel w =
     (let w1 = upd_listener (\<lambda>l. l\<lparr>state := STATE_IDLE\<rparr>) w in
      do { w2 \<leftarrow> notify w1 (FINGERPRINT_ERROR FINGERPRINT_ERROR_CANCELED); Some (0, w2) })"

text \<open>An entry of the table counts as used when either of its ids is nonzero.\<close>

definition slot_used :: "worker_thread_t \<Rightarrow> nat \<Rightarrow> bool" where
  "slot_used l i \<longleftrightarrow> secureid l ! i \<noteq> 0 \<or> fingerid l ! i \<noteq> 0"

fun enumerate_from :: "nat list \<Rightarrow> int \<Rightarrow> fp_world \<Rightarrow> fp_world option" where
  "enumerate_from [] template_count w = Some w"
| "enumerate_from (i # is) template_count w =
     (if slot_used (listener (dev w)) i
      then do {
        w1 \<leftarrow> notify w (FINGERPRINT_TEMPLATE_ENUMERATING (ucast (fingerid (listener (dev w)) ! i))
               (ucast (group_id (dev w))) (template_count - 1));
        enumerate_from is (template_count - 1) w1 }
      else enumerate_from is template_count w)"

definition fingerprint_enumerate :: "bool \<Rightarrow> fp_world \<Rightarrow> (int \<times> fp_world) option" where
  "fingerprint_enumerate device_null w =
     (if device_null then Some (-1, w)
      else
        let template_count = length (filter (slot_used (listener (dev w))) [0..<MAX_NUM_FINGERS]) in
        if template_count = 0
        then do {
          w1 \<leftarrow> notify w (FINGERPRINT_TEMPLATE_ENUMERATING 0 (ucast (group_id (dev w))) 0);
          Some (0, w1) }
        else do {
          w1 \<leftarrow> enumerate_from [0..<MAX_NUM_FINGERS] (int template_count) w;
          Some (0, w1) })"

text \<open>Zeroing one entry of the table and saving it.\<close>

definition clear_slot :: "nat \<Rightarrow> fp_world \<Rightarrow> fp_world" where
  "clear_slot idx w =
     (let w1 = upd_listener (\<lambda>l. l\<lparr>secureid := (secureid l)[idx := 0],
                                  fingerid := (fingerid l)[idx := 0]\<rparr>) w
      in w1\<lparr>fs := saveFingerprint (fs w1) (listener (dev w1)) idx\<rparr>)"

text \<open>
  One pass of the do-while loop that deletes every template: the first entry whose finger id,
  read as a 32-bit value, is nonzero is cleared and reported. \<open>Inl\<close>: the table held none.
\<close>

definition remove_all_pass :: "fp_world \<Rightarrow> (fp_world + fp_world) option" where
  "remove_all_pass w =
     (let l = listener (dev w);
          idx = first_index (\<lambda>i. (ucast (fingerid l ! i) :: u32) \<noteq> 0) MAX_NUM_FINGERS in
      if idx \<ge> MAX_NUM_FINGERS then Some (Inl w)
      else do {
        w1 \<leftarrow> notify (clear_slot idx w)
               (FINGERPRINT_TEMPLATE_REMOVED (ucast (fingerid l ! idx)) (ucast (group_id (dev w))) 0);
        Some (Inr w1) })"

fun remove_all_loop :: "nat \<Rightarrow> fp_world \<Rightarrow> fp_world option" where
  "remove_all_loop 0 w = None"
| "remove_all_loop (Suc fuel) w =
     (case remove_all_pass w of
        None \<Rightarrow> None
      | Some (Inl w1) \<Rightarrow> Some w1
      | Some (Inr w1) \<Rightarrow> remove_all_loop fuel w1)"

text \<open>After either branch: with no enrolment left, the authenticator id becomes zero.\<close>

definition reset_auth_id :: "fp_world \<Rightarrow> fp_world" where
  "reset_auth_id w =
     (let l = listener (dev w);
          idx = first_index (\<lambda>i. (ucast (fingerid l ! i) :: u32) \<noteq> 0) MAX_NUM_FINGERS in
      if idx < MAX_NUM_FINGERS then w
      else w\<lparr>dev := (dev w)\<lparr>authenticator_id := 0\<rparr>,
             fs := saveAuthenticatorId (fs w) (authid_filename l) 0\<rparr>)"

definition ENODEV :: int where
  "ENODEV = 19"

definition fingerprint_remove :: "bool \<Rightarrow> u32 \<Rightarrow> u32 \<Rightarrow> fp_world \<Rightarrow> (int \<times> fp_world) option" where
  "fingerprint_remove device_null gid fid w =
     (if device_null then Some (- ENODEV, w)
      else if fid = 0 then do {
        w1 \<leftarrow> remove_all_loop (Suc MAX_NUM_FINGERS) w;
        let w2 = upd_listener (\<lambda>l. l\<lparr>state := STATE_IDLE\<rparr>) w1;
        w3 \<leftarrow> notify w2 (FINGERPRINT_TEMPLATE_REMOVED 0 (ucast (group_id (dev w2))) 0);
        Some (0, reset_auth_id w3) }
      else
        let l = listener (dev w);
            idx = first_index (\<lambda>i. fingerid l ! i = ucast fid \<and> secureid l ! i \<noteq> 0) MAX_NUM_FINGERS in
        if idx \<ge> MAX_NUM_FINGERS then do {
          let w1 = upd_listener (\<lambda>l. l\<lparr>state := STATE_IDLE\<rparr>) w;
          w2 \<leftarrow> notify w1 (FINGERPRINT_TEMPLATE_REMOVED 0 (ucast (group_id (dev w1))) 0);
          Some (0, w2) }
        else do {
          let w1 = upd_listener (\<lambda>l. l\<lparr>state := STATE_IDLE\<rparr>) (clear_slot idx w);
          w2 \<leftarrow> notify w1 (FINGERPRINT_TEMPLATE_REMOVED fid 0 0);
          Some (0, reset_auth_id w2) })"

definition set_notify_callback :: "bool \<Rightarrow> bool \<Rightarrow> fp_world \<Rightarrow> int \<times> fp_world" where
  "set_notify_callback device_null notify_null w =
     (if device_null \<or> notify_null then (-1, w)
      else (0, upd_listener (\<lambda>l. l\<lparr>state := STATE_IDLE\<rparr>) (w\<lparr>dev := (dev w)\<lparr>notify_set := True\<rparr>\<rparr>)))"

section \<open>Sensor events\<close>

definition is_valid_fid :: "qemu_fingerprint_device_t \<Rightarrow> u64 \<Rightarrow> bool" where
  "is_valid_fid d fid =
     (if fid = 0 then False
      else first_index (\<lambda>i. fingerid (listener d) ! i = fid) MAX_NUM_FINGERS < MAX_NUM_FINGERS)"

definition bswap32 :: "u32 \<Rightarrow> u32" where
  "bswap32 x = word_of_nat (le_to_nat (rev (nat_to_le 4 (unat x))))"

definition bswap64 :: "u64 \<Rightarrow> u64" where
  "bswap64 x = word_of_nat (le_to_nat (rev (nat_to_le 8 (unat x))))"

text \<open>
  \<open>fid\<close> is the C \<^verbatim>\<open>int\<close> as a mathematical integer; \<open>tv_sec\<close> and \<open>tv_nsec\<close> are what
  \<^verbatim>\<open>clock_gettime\<close> stored.
\<close>

definition send_scan_notice :: "fp_consts \<Rightarrow> u64 \<Rightarrow> int \<Rightarrow> int \<Rightarrow> fp_world \<Rightarrow> fp_world option" where
  "send_scan_notice c tv_sec tv_nsec fid w =
     (let d = dev w;
          hat = \<lparr>hat_version = HW_AUTH_TOKEN_VERSION c, hat_challenge = op_id d,
                 hat_user_id = secure_user_id d, hat_authenticator_id = authenticator_id d,
                 hat_authenticator_type = bswap32 (HW_AUTH_FINGERPRINT c),
                 hat_timestamp = bswap64 (tv_sec * 1000 + word_of_int (tv_nsec div 1000000))\<rparr>
      in do {
        w1 \<leftarrow> notify w (FINGERPRINT_ACQUIRED FINGERPRINT_ACQUIRED_GOOD);
        notify w1 (FINGERPRINT_AUTHENTICATED
          (if is_valid_fid d (word_of_int fid) then word_of_int fid else 0) hat) })"

definition send_enroll_notice :: "u64 \<Rightarrow> u64 \<Rightarrow> int \<Rightarrow> fp_world \<Rightarrow> fp_world option" where
  "send_enroll_notice rand1 rand2 fid w =
     (if fid = 0 then Some w
      else if secure_user_id (dev w) = 0 then Some w
      else
        let l = listener (dev w);
            idx = first_index (\<lambda>i. secureid l ! i = 0 \<or> fingerid l ! i = 0) MAX_NUM_FINGERS in
        if idx \<ge> MAX_NUM_FINGERS then Some (upd_listener (\<lambda>l. l\<lparr>state := STATE_IDLE\<rparr>) w)
        else
          let samples = samples_remaining l - 1;
              w1 = upd_listener (\<lambda>l. l\<lparr>samples_remaining := samples\<rparr>) w;
              w2 = (if samples \<le> 0 then
                      let w3 = upd_listener (\<lambda>l. l\<lparr>secureid := (secureid l)[idx := secure_user_id (dev w)],
                                                  fingerid := (fingerid l)[idx := word_of_int fid]\<rparr>) w1;
                          f1 = saveFingerprint (fs w3) (listener (dev w3)) idx;
                          a = get_64bit_rand rand1 rand2;
                          f2 = saveAuthenticatorId f1 (authid_filename (listener (dev w3))) a;
                          w4 = w3\<lparr>fs := f2, dev := (dev w3)\<lparr>authenticator_id := a\<rparr>\<rparr>
                      in upd_listener (\<lambda>l. l\<lparr>state := STATE_IDLE\<rparr>) w4
                    else w1)
          in notify w2 (FINGERPRINT_TEMPLATE_ENROLLING (word_of_int fid) (if samples > 0 then samples else 0)))"

definition getListenerState :: "fp_world \<Rightarrow> worker_state_t" where
  "getListenerState w = state (listener (dev w))"

section \<open>The listener thread\<close>

text \<open>
  What one pass of the polling loop meets: an error or a timeout of \<^verbatim>\<open>poll\<close>, a hang-up
  without input, or input, with the hang-up flag and the result of \<^verbatim>\<open>qemud_channel_recv\<close>
  (\<open>None\<close> for a result that is not positive). The clock and the two results of \<^verbatim>\<open>rand\<close>
  the pass may use come with it.
\<close>

datatype poll_result =
    Poll_error
  | Poll_timeout
  | Poll_hangup
  | Poll_input bool "string option"

record sensor_env =
  env_sec :: u64
  env_nsec :: int
  env_rand1 :: u64
  env_rand2 :: u64

datatype listener_status = Listening | Listener_done

text \<open>\<^verbatim>\<open>sscanf(buffer, "on:%d", &fid) == 1\<close>\<close>

definition scan_on :: "fp_consts \<Rightarrow> string \<Rightarrow> int option" where
  "scan_on c buf =
     (if take 3 buf = ''on:'' then
        (case scan_d (drop 3 buf) of
           None \<Rightarrow> None
         | Some (k, _) \<Rightarrow> Some (if - (2 ^ 31) \<le> k \<and> k < 2 ^ 31 then k else scan_overflow c k))
      else None)"

definition handle_buffer ::
  "fp_consts \<Rightarrow> sensor_env \<Rightarrow> bool \<Rightarrow> string \<Rightarrow> fp_world \<Rightarrow> (listener_status \<times> fp_world) option" where
  "handle_buffer c env disconnected buf w =
     (let status = (if disconnected then Listener_done else Listening) in
      case scan_on c buf of
        Some fid \<Rightarrow>
          if 0 < fid \<and> fid \<le> MAX_FID_VALUE then
            (case state (listener (dev w)) of
               STATE_ENROLL \<Rightarrow> do {
                 w1 \<leftarrow> send_enroll_notice (env_rand1 env) (env_rand2 env) fid w; Some (status, w1) }
             | STATE_SCAN \<Rightarrow> do {
                 w1 \<leftarrow> send_scan_notice c (env_sec env) (env_nsec env) fid w; Some (status, w1) }
             | _ \<Rightarrow> Some (status, w))
          else Some (Listening, w)
      | None \<Rightarrow> Some (status, w))"

text \<open>
  One pass, from the check for an exit request to the next check. \<open>comm_errors\<close> is the
  local variable of that name, compared but never changed.
\<close>

definition listener_pass ::
  "fp_consts \<Rightarrow> int \<Rightarrow> sensor_env \<Rightarrow> poll_result \<Rightarrow> fp_world \<Rightarrow> (listener_status \<times> fp_world) option" where
  "listener_pass c comm_errors env r w =
     (if getListenerState w = STATE_EXIT then Some (Listener_done, w)
      else case r of
        Poll_error \<Rightarrow> Some (Listener_done, w)
      | Poll_timeout \<Rightarrow> Some (Listening, w)
      | Poll_hangup \<Rightarrow> Some (Listener_done, w)
      | Poll_input disconnected (Some msg) \<Rightarrow> handle_buffer c env disconnected (c_str msg) w
      | Poll_input disconnected None \<Rightarrow>
          Some (if comm_errors > MAX_COMM_ERRORS then Listener_done else Listening, w))"

fun listener_loop ::
  "fp_consts \<Rightarrow> int \<Rightarrow> (sensor_env \<times> poll_result) list \<Rightarrow> fp_world \<Rightarrow> (listener_status \<times> fp_world) option" where
  "listener_loop c comm_errors [] w = Some (Listening, w)"
| "listener_loop c comm_errors ((env, r) # rs) w =
     (case listener_pass c comm_errors env r w of
        None \<Rightarrow> None
      | Some (Listener_done, w1) \<Rightarrow> Some (Listener_done, w1)
      | Some (Listening, w1) \<Rightarrow> listener_loop c comm_errors rs w1)"

text \<open>
  The thread function: \<open>fd\<close> is the result of opening the channel and \<open>sent\<close> of sending
  the command \<^verbatim>\<open>listen\<close>.
\<close>

definition listenerFunction ::
  "fp_consts \<Rightarrow> int \<Rightarrow> int \<Rightarrow> (sensor_env \<times> poll_result) list \<Rightarrow> fp_world \<Rightarrow> (listener_status \<times> fp_world) option" where
  "listenerFunction c fd sent evs w =
     (let w1 = w\<lparr>dev := (dev w)\<lparr>qchanfd := fd\<rparr>\<rparr> in
      if fd < 0 then Some (Listener_done, w1)
      else
        let w2 = upd_listener (\<lambda>l. l\<lparr>state := STATE_IDLE\<rparr>) w1 in
        if sent < 0 then Some (Listener_done, w2)
        else listener_loop c 0 evs w2)"

section \<open>Opening and closing\<close>

definition EINVAL :: int where
  "EINVAL = 22"

definition ENOMEM :: int where
  "ENOMEM = 12"

text \<open>The device as \<^verbatim>\<open>calloc\<close> leaves it.\<close>

definition fresh_device :: qemu_fingerprint_device_t where
  "fresh_device =
     \<lparr>notify_set = False,
      listener = \<lparr>state = STATE_IDLE, samples_remaining = 0,
                  secureid = replicate MAX_NUM_FINGERS 0, fingerid = replicate MAX_NUM_FINGERS 0,
                  fp_filename = [], authid_filename = []\<rparr>,
      op_id = 0, challenge = 0, user_id = 0, group_id = 0, secure_user_id = 0,
      authenticator_id = 0, qchanfd = 0\<rparr>"

definition fingerprint_open :: "bool \<Rightarrow> bool \<Rightarrow> bool \<Rightarrow> fp_fs \<Rightarrow> int \<times> fp_world option" where
  "fingerprint_open device_null calloc_ok thread_ok f =
     (if device_null then (- EINVAL, None)
      else if \<not> calloc_ok then (- ENOMEM, None)
      else if \<not> thread_ok then (-1, None)
      else (0, Some \<lparr>dev = fresh_device, fs = f, notified = []\<rparr>))"

text \<open>
  Closing asks the listener to exit and joins it. The world returned is the one the listener
  sees; the object is freed after it.
\<close>

definition fingerprint_close :: "bool \<Rightarrow> fp_world \<Rightarrow> int \<times> fp_world" where
  "fingerprint_close device_null w =
     (if device_null then (-1, w)
      else (0, upd_listener (\<lambda>l. l\<lparr>state := STATE_EXIT\<rparr>) w))"

end
