(* ===== verification/Fingerprint_Props.thy ===== *)
theory Fingerprint_Props
  imports Fingerprint
begin

text \<open>
  Correctness of the fingerprint HAL: the invariant of the device over every interleaving of
  HAL calls and listener passes, persistence of the template table, enrolment and recognition
  from host events, removal, enumeration, the token check, and two places where the code does
  not do what it means to (switching to a group that has no storage, receive failures).
\<close>

lemmas fp_defs = fingerprint_set_active_group_def fingerprint_authenticate_def
  fingerprint_enroll_def fingerprint_pre_enroll_def fingerprint_post_enroll_def
  fingerprint_cancel_def fingerprint_enumerate_def fingerprint_remove_def
  set_notify_callback_def fingerprint_close_def

lemma listener_upd_listener [simp]: "listener (dev (upd_listener g w)) = g (listener (dev w))"
  and fs_upd_listener [simp]: "fs (upd_listener g w) = fs w"
  and notified_upd_listener [simp]: "notified (upd_listener g w) = notified w"
  and notify_set_upd_listener [simp]: "notify_set (dev (upd_listener g w)) = notify_set (dev w)"
  and authenticator_id_upd_listener [simp]:
    "authenticator_id (dev (upd_listener g w)) = authenticator_id (dev w)"
  and secure_user_id_upd_listener [simp]:
    "secure_user_id (dev (upd_listener g w)) = secure_user_id (dev w)"
  and group_id_upd_listener [simp]: "group_id (dev (upd_listener g w)) = group_id (dev w)"
  by (simp_all add: upd_listener_def)

lemma notify_Some: "notify w m = Some w' \<longleftrightarrow> notify_set (dev w) \<and> w' = w\<lparr>notified := notified w @ [m]\<rparr>"
  by (auto simp: notify_def)

lemma MAX_NUM_FINGERS_pos: "0 < MAX_NUM_FINGERS"
  by (simp add: MAX_NUM_FINGERS_def)

section \<open>The invariant\<close>

definition listener_wf :: "worker_thread_t \<Rightarrow> bool" where
  "listener_wf l \<longleftrightarrow> length (secureid l) = MAX_NUM_FINGERS \<and> length (fingerid l) = MAX_NUM_FINGERS \<and>
     (state l = STATE_ENROLL \<longrightarrow> 1 \<le> samples_remaining l \<and> samples_remaining l \<le> 2)"

definition fp_wf :: "fp_world \<Rightarrow> bool" where
  "fp_wf w \<longleftrightarrow> listener_wf (listener (dev w))"

text \<open>One HAL call or one listener pass, from any thread, in any order.\<close>

inductive fp_step :: "fp_consts \<Rightarrow> fp_world \<Rightarrow> fp_world \<Rightarrow> bool" for c where
  set_group: "fingerprint_set_active_group gid path w = (r, w') \<Longrightarrow> fp_step c w w'"
| authenticate: "fingerprint_authenticate op gid w = (r, w') \<Longrightarrow> fp_step c w w'"
| enroll: "fingerprint_enroll c hat gid t w = Some (r, w') \<Longrightarrow> fp_step c w w'"
| pre_enroll: "fingerprint_pre_enroll r1 r2 w = (ch, w') \<Longrightarrow> fp_step c w w'"
| post_enroll: "fingerprint_post_enroll w = (r, w') \<Longrightarrow> fp_step c w w'"
| cancel: "fingerprint_cancel w = Some (r, w') \<Longrightarrow> fp_step c w w'"
| enumerate: "fingerprint_enumerate nul w = Some (r, w') \<Longrightarrow> fp_step c w w'"
| remove: "fingerprint_remove nul gid fid w = Some (r, w') \<Longrightarrow> fp_step c w w'"
| set_notify: "set_notify_callback nul cbnul w = (r, w') \<Longrightarrow> fp_step c w w'"
| close: "fingerprint_close nul w = (r, w') \<Longrightarrow> fp_step c w w'"
| listen: "listener_pass c ce env pr w = Some (st, w') \<Longrightarrow> fp_step c w w'"

definition fp_init :: "fp_world \<Rightarrow> bool" where
  "fp_init w \<longleftrightarrow> (\<exists>f. fingerprint_open False True True f = (0, Some w))"

lemma length_fread_ids [simp]: "length (fread_ids ids c) = MAX_NUM_FINGERS"
  by (simp add: fread_ids_def dec_array_def)

lemma loadFingerprints_frame [simp]:
  "state (loadFingerprints f l) = state l"
  "samples_remaining (loadFingerprints f l) = samples_remaining l"
  "fp_filename (loadFingerprints f l) = fp_filename l"
  "authid_filename (loadFingerprints f l) = authid_filename l"
  by (auto simp: loadFingerprints_def split: option.splits)

lemma loadFingerprints_wf: "listener_wf l \<Longrightarrow> listener_wf (loadFingerprints f l)"
  by (auto simp: listener_wf_def) (auto simp: loadFingerprints_def split: option.splits)

lemma fp_wf_notified [simp]: "fp_wf (w\<lparr>notified := x\<rparr>) = fp_wf w"
  by (simp add: fp_wf_def)

lemma fp_wf_idle: "fp_wf w \<Longrightarrow> fp_wf (upd_listener (\<lambda>l. l\<lparr>state := STATE_IDLE\<rparr>) w)"
  by (simp add: fp_wf_def listener_wf_def)

lemma clear_slot_wf: "fp_wf w \<Longrightarrow> fp_wf (clear_slot i w)"
  by (auto simp: fp_wf_def listener_wf_def clear_slot_def Let_def)

lemma remove_all_pass_cases:
  assumes "remove_all_pass w = Some r"
  obtains "r = Inl w" | i w' where "r = Inr w'" "i < MAX_NUM_FINGERS"
    "(ucast (fingerid (listener (dev w)) ! i) :: u32) \<noteq> 0"
    "notify (clear_slot i w) (FINGERPRINT_TEMPLATE_REMOVED (ucast (fingerid (listener (dev w)) ! i))
       (ucast (group_id (dev w))) 0) = Some w'"
proof -
  let ?P = "\<lambda>i. (ucast (fingerid (listener (dev w)) ! i) :: u32) \<noteq> 0"
  let ?idx = "first_index ?P MAX_NUM_FINGERS"
  show thesis
  proof (cases "?idx < MAX_NUM_FINGERS")
    case True
    with assms obtain w' where "r = Inr w'" and "notify (clear_slot ?idx w)
        (FINGERPRINT_TEMPLATE_REMOVED (ucast (fingerid (listener (dev w)) ! ?idx))
          (ucast (group_id (dev w))) 0) = Some w'"
      by (auto simp: remove_all_pass_def Let_def split: bind_splits)
    with True first_index_hit [OF True] show thesis by (intro that(2))
  next
    case False
    with assms show thesis by (intro that(1)) (simp add: remove_all_pass_def Let_def)
  qed
qed

lemma remove_all_pass_wf:
  assumes "remove_all_pass w = Some r" and "fp_wf w"
  shows "case r of Inl w' \<Rightarrow> fp_wf w' | Inr w' \<Rightarrow> fp_wf w'"
  using assms(1)
proof (cases rule: remove_all_pass_cases)
  case 1
  with assms(2) show ?thesis by simp
next
  case (2 i w')
  with assms(2) show ?thesis by (auto simp: notify_Some clear_slot_wf)
qed

lemma remove_all_loop_wf: "remove_all_loop n w = Some w' \<Longrightarrow> fp_wf w \<Longrightarrow> fp_wf w'"
  by (induction n arbitrary: w) (auto split: option.splits sum.splits dest!: remove_all_pass_wf)

declare remove_all_loop.simps [simp del]

lemma reset_auth_id_listener [simp]: "listener (dev (reset_auth_id w)) = listener (dev w)"
  by (simp add: reset_auth_id_def Let_def)

lemma fp_wf_reset [simp]: "fp_wf (reset_auth_id w) = fp_wf w"
  by (simp add: fp_wf_def)

lemma fingerprint_remove_wf:
  assumes "fingerprint_remove nul gid fid w = Some (r, w')" and "fp_wf w"
  shows "fp_wf w'"
  using assms
  by (auto simp: fingerprint_remove_def Let_def notify_Some fp_wf_idle clear_slot_wf
      split: if_splits bind_splits dest!: remove_all_loop_wf)

lemma enumerate_from_dev: "enumerate_from is n w = Some w' \<Longrightarrow> dev w' = dev w \<and> fs w' = fs w"
  by (induction "is" n w rule: enumerate_from.induct)
     (auto simp: notify_Some split: if_splits bind_splits)

lemma fingerprint_enumerate_dev:
  "fingerprint_enumerate nul w = Some (r, w') \<Longrightarrow> dev w' = dev w \<and> fs w' = fs w"
  by (auto simp: fingerprint_enumerate_def Let_def notify_Some
      split: if_splits bind_splits dest!: enumerate_from_dev)

lemma send_enroll_notice_wf:
  "send_enroll_notice r1 r2 fid w = Some w' \<Longrightarrow> fp_wf w \<Longrightarrow> fp_wf w'"
  by (auto simp: send_enroll_notice_def Let_def notify_Some fp_wf_def listener_wf_def
      split: if_splits)

lemma send_scan_notice_dev: "send_scan_notice c s n fid w = Some w' \<Longrightarrow> dev w' = dev w \<and> fs w' = fs w"
  by (auto simp: send_scan_notice_def Let_def notify_Some split: bind_splits)

lemma listener_pass_wf:
  "listener_pass c ce env r w = Some (st, w') \<Longrightarrow> fp_wf w \<Longrightarrow> fp_wf w'"
  by (auto simp: listener_pass_def handle_buffer_def Let_def fp_wf_def [of w']
      split: if_splits poll_result.splits option.splits worker_state_t.splits bind_splits
      dest: send_enroll_notice_wf send_scan_notice_dev simp: fp_wf_def)

lemma fp_step_wf: "fp_step c w w' \<Longrightarrow> fp_wf w \<Longrightarrow> fp_wf w'"
proof (induction rule: fp_step.induct)
  case (remove nul gid fid w r w')
  then show ?case by (rule fingerprint_remove_wf)
next
  case (listen ce env pr w st w')
  then show ?case by (rule listener_pass_wf)
next
  case (enumerate nul w r w')
  then have "dev w' = dev w" by (blast dest: fingerprint_enumerate_dev)
  with enumerate(2) show ?case by (simp add: fp_wf_def)
next
  case (set_group gid path w r w')
  then show ?case
    by (auto simp: fingerprint_set_active_group_def Let_def fp_wf_def intro!: loadFingerprints_wf)
       (auto simp: listener_wf_def)
qed (auto simp: fp_defs Let_def notify_Some fp_wf_def listener_wf_def
    split: if_splits option.splits bind_splits)

interpretation fp: invariant_system fp_init "fp_step c" fp_wf for c
proof
  show "fp_init w \<Longrightarrow> fp_wf w" for w
    by (auto simp: fp_init_def fingerprint_open_def fp_wf_def listener_wf_def fresh_device_def)
  show "fp_step c w w' \<Longrightarrow> fp_wf w \<Longrightarrow> fp_wf w'" for w w'
    by (rule fp_step_wf)
qed

section \<open>Persistence of the template table\<close>

text \<open>
  The file holds the table the device has in memory: both id arrays, one after the other. A
  table with no file is all zeros, which is what creating the file writes.
\<close>

definition table_bytes :: "worker_thread_t \<Rightarrow> bytes" where
  "table_bytes l = enc_array enc_le64 (secureid l @ fingerid l)"

definition in_sync :: "fp_fs \<Rightarrow> worker_thread_t \<Rightarrow> bool" where
  "in_sync f l \<longleftrightarrow>
     (case files f (fp_filename l) of
        None \<Rightarrow> secureid l @ fingerid l = replicate (2 * MAX_NUM_FINGERS) 0
      | Some c \<Rightarrow> take (2 * MAX_NUM_FINGERS * 8) c = table_bytes l)"

definition io_ok :: "fp_fs \<Rightarrow> string \<Rightarrow> bool" where
  "io_ok f name \<longleftrightarrow> openable f name \<and> (\<forall>off. seekable f name off \<and> writable f name off)"

definition set_slot :: "nat \<Rightarrow> u64 \<Rightarrow> u64 \<Rightarrow> worker_thread_t \<Rightarrow> worker_thread_t" where
  "set_slot i s g l = l\<lparr>secureid := (secureid l)[i := s], fingerid := (fingerid l)[i := g]\<rparr>"

lemma set_slot_simps [simp]:
  "fp_filename (set_slot i s g l) = fp_filename l"
  "authid_filename (set_slot i s g l) = authid_filename l"
  "secureid (set_slot i s g l) = (secureid l)[i := s]"
  "fingerid (set_slot i s g l) = (fingerid l)[i := g]"
  "state (set_slot i s g l) = state l"
  by (simp_all add: set_slot_def)

lemma fread_ids_exact:
  assumes "length ids = MAX_NUM_FINGERS" and "length xs = MAX_NUM_FINGERS"
    and "take (MAX_NUM_FINGERS * 8) c = enc_array enc_le64 xs"
  shows "fread_ids ids c = xs"
proof -
  have "splice (enc_array enc_le64 ids) 0 (enc_array enc_le64 xs) = enc_array enc_le64 xs"
    using assms by (intro splice_all) (simp add: le64.length_enc_array)
  then show ?thesis
    using assms le64.dec_array_enc_array [of xs] by (simp add: fread_ids_def)
qed

lemma length_table_bytes: "listener_wf l \<Longrightarrow> length (table_bytes l) = 2 * MAX_NUM_FINGERS * 8"
  by (simp add: table_bytes_def le64.length_enc_array listener_wf_def)

lemma load_in_sync:
  assumes "listener_wf l" and "openable f (fp_filename l)"
    and "files f (fp_filename l) = Some c" and "in_sync f l"
    and "length (secureid l0) = MAX_NUM_FINGERS" "length (fingerid l0) = MAX_NUM_FINGERS"
    and "fp_filename l0 = fp_filename l"
  shows "loadFingerprints f l0 = l0\<lparr>secureid := secureid l, fingerid := fingerid l\<rparr>"
proof -
  let ?n = "MAX_NUM_FINGERS * 8"
  have c: "take (2 * ?n) c = enc_array enc_le64 (secureid l) @ enc_array enc_le64 (fingerid l)"
    using assms(3,4) by (simp add: in_sync_def table_bytes_def le64.enc_array_append mult.assoc)
  have len: "length (enc_array enc_le64 (secureid l)) = ?n"
    using assms(1) by (simp add: le64.length_enc_array listener_wf_def)
  have "take ?n c = take ?n (take (2 * ?n) c)" by simp
  also have "\<dots> = enc_array enc_le64 (secureid l)" unfolding c by (simp add: len)
  finally have 1: "take ?n c = enc_array enc_le64 (secureid l)" .
  have "take ?n (drop ?n c) = drop ?n (take (2 * ?n) c)" by (simp add: drop_take mult.commute)
  also have "\<dots> = enc_array enc_le64 (fingerid l)" unfolding c by (simp add: len)
  finally have 2: "take ?n (drop ?n c) = enc_array enc_le64 (fingerid l)" .
  have "fread_ids (secureid l0) c = secureid l"
    and "fread_ids (fingerid l0) (drop ?n c) = fingerid l"
    using assms(1,5,6) 1 2 by (auto intro!: fread_ids_exact simp: listener_wf_def)
  with assms(2,3,7) show ?thesis by (simp add: loadFingerprints_def fopen_r_def)
qed

text \<open>Opening for update yields a file in sync, if it was in sync or absent.\<close>

lemma openForWrite_in_sync:
  assumes "in_sync f l" and "openable f (fp_filename l)"
  obtains f1 c where "openForWrite f (Some (fp_filename l)) = (True, f1)"
    and "files f1 = (files f)(fp_filename l \<mapsto> c)" and "take (2 * MAX_NUM_FINGERS * 8) c = table_bytes l"
    and "openable f1 = openable f" "seekable f1 = seekable f" "writable f1 = writable f"
proof (cases "files f (fp_filename l)")
  case None
  let ?z = "enc_array enc_le64 (replicate (2 * MAX_NUM_FINGERS) 0)"
  have "take (2 * MAX_NUM_FINGERS * 8) (?z @ enc_le64 0) = table_bytes l"
    using assms(1) None le64.length_enc_array [of "replicate (2 * MAX_NUM_FINGERS) 0"]
    by (simp add: in_sync_def table_bytes_def)
  with None assms(2) show thesis
    by (intro that [of "f\<lparr>files := (files f)(fp_filename l \<mapsto> ?z @ enc_le64 0)\<rparr>"])
       (auto simp: openForWrite_def)
next
  case (Some c)
  with assms show thesis
    by (intro that [of f c]) (auto simp: openForWrite_def in_sync_def)
qed

lemma take_splice_table:
  assumes "take n c = enc_array enc_le64 xs" and "n = length xs * 8" and "i < length xs"
  shows "take n (splice c (i * 8) (enc_le64 x)) = enc_array enc_le64 (xs[i := x])"
proof -
  have len: "length (enc_array enc_le64 xs) = n" using assms(2) by (simp add: le64.length_enc_array)
  have "c = enc_array enc_le64 xs @ drop n c" using assms(1) by (metis append_take_drop_id)
  then have "splice c (i * 8) (enc_le64 x) = splice (enc_array enc_le64 xs @ drop n c) (i * 8) (enc_le64 x)"
    by simp
  also have "\<dots> = splice (enc_array enc_le64 xs) (i * 8) (enc_le64 x) @ drop n c"
    using assms(2,3) by (intro splice_append_inside) (simp add: le64.length_enc_array le64.length_enc)
  also have "\<dots> = enc_array enc_le64 (xs[i := x]) @ drop n c"
    using assms(3) by (simp add: le64.splice_enc_array)
  finally show ?thesis using len by (simp add: le64.length_enc_array)
qed

lemma saveFingerprint_in_sync:
  assumes wf: "listener_wf l" and i: "i < MAX_NUM_FINGERS" and io: "io_ok f (fp_filename l)"
    and sync: "in_sync f l"
  shows "\<exists>c. files (saveFingerprint f (set_slot i s g l) i) = (files f)(fp_filename l \<mapsto> c) \<and>
     take (2 * MAX_NUM_FINGERS * 8) c = table_bytes (set_slot i s g l)"
proof -
  let ?l' = "set_slot i s g l" and ?N = "MAX_NUM_FINGERS" and ?name = "fp_filename l"
  obtain f1 c where o: "openForWrite f (Some ?name) = (True, f1)"
    and f1: "files f1 = (files f)(?name \<mapsto> c)" and c: "take (2 * ?N * 8) c = table_bytes l"
    and same: "openable f1 = openable f" "seekable f1 = seekable f" "writable f1 = writable f"
    using openForWrite_in_sync [OF sync] io by (auto simp: io_ok_def)
  have lens: "length (secureid l) = ?N" "length (fingerid l) = ?N" using wf by (auto simp: listener_wf_def)
  let ?c1 = "splice c (i * 8) (enc_le64 s)"
  let ?c2 = "splice ?c1 ((?N + i) * 8) (enc_le64 g)"
  have 1: "take (2 * ?N * 8) ?c1 = enc_array enc_le64 ((secureid l)[i := s] @ fingerid l)"
    using take_splice_table [OF c [unfolded table_bytes_def], of i s] i lens
    by (simp add: list_update_append)
  have 2: "take (2 * ?N * 8) ?c2 = table_bytes ?l'"
    using take_splice_table [OF 1, of "?N + i" g] i lens
    by (simp add: table_bytes_def list_update_append)
  have "files (saveFingerprint f ?l' i) = (files f)(?name \<mapsto> ?c2)"
    using o f1 io same i lens by (simp add: saveFingerprint_def fwrite_at_def io_ok_def Let_def)
  with 2 show ?thesis by blast
qed

lemma saveAuthenticatorId_files:
  "n \<noteq> name \<Longrightarrow> files (saveAuthenticatorId f name a) n = files f n"
  by (auto simp: saveAuthenticatorId_def openForWrite_def fwrite_at_def split: option.splits if_splits)

lemma fwrite_at_access [simp]:
  "openable (fwrite_at f n off bs) = openable f"
  "seekable (fwrite_at f n off bs) = seekable f"
  "writable (fwrite_at f n off bs) = writable f"
  by (simp_all add: fwrite_at_def)

lemma openForWrite_access:
  assumes "openForWrite f n = (b, f1)"
  shows "openable f1 = openable f \<and> seekable f1 = seekable f \<and> writable f1 = writable f"
  using assms by (auto simp: openForWrite_def split: option.splits if_splits)

lemma save_access [simp]:
  "io_ok (saveFingerprint f l i) n = io_ok f n"
  "io_ok (saveAuthenticatorId f m a) n = io_ok f n"
  by (auto simp: io_ok_def saveFingerprint_def saveAuthenticatorId_def Let_def
      split: prod.splits bool.splits dest!: openForWrite_access)

text \<open>The device and its storage agree, and its storage works.\<close>

definition fp_synced :: "fp_world \<Rightarrow> bool" where
  "fp_synced w \<longleftrightarrow>
     (let l = listener (dev w) in
      io_ok (fs w) (fp_filename l) \<and> fp_filename l \<noteq> authid_filename l \<and> in_sync (fs w) l)"

lemma fp_synced_frame: "dev w' = dev w \<Longrightarrow> fs w' = fs w \<Longrightarrow> fp_synced w' = fp_synced w"
  by (simp add: fp_synced_def)

lemma fp_synced_notified [simp]: "fp_synced (w\<lparr>notified := x\<rparr>) = fp_synced w"
  by (simp add: fp_synced_def)

lemma in_sync_state [simp]: "in_sync f (l\<lparr>state := x\<rparr>) = in_sync f l"
  "in_sync f (l\<lparr>samples_remaining := k\<rparr>) = in_sync f l"
  by (simp_all add: in_sync_def table_bytes_def cong: option.case_cong)

lemma fp_synced_state:
  "fp_synced w \<Longrightarrow> fp_synced (upd_listener (\<lambda>l. l\<lparr>state := x\<rparr>) w)"
  "fp_synced w \<Longrightarrow> fp_synced (upd_listener (\<lambda>l. l\<lparr>samples_remaining := k\<rparr>) w)"
  by (simp_all add: fp_synced_def Let_def)

text \<open>
  The step that both enrolment and removal take: a slot of the table is written and saved,
  and the authenticator id may be saved after it.
\<close>

lemma write_slot_synced:
  assumes "fp_wf w" and "fp_synced w" and "i < MAX_NUM_FINGERS"
    and l: "listener (dev w') = set_slot i s g (listener (dev w))\<lparr>state := st, samples_remaining := k\<rparr>"
    and f: "fs w' = saveFingerprint (fs w) (set_slot i s g (listener (dev w))) i \<or>
      fs w' = saveAuthenticatorId (saveFingerprint (fs w) (set_slot i s g (listener (dev w))) i)
                (authid_filename (listener (dev w))) a"
  shows "fp_synced w'"
proof -
  let ?l = "listener (dev w)"
  obtain c where c: "files (saveFingerprint (fs w) (set_slot i s g ?l) i) = (files (fs w))(fp_filename ?l \<mapsto> c)"
      "take (2 * MAX_NUM_FINGERS * 8) c = table_bytes (set_slot i s g ?l)"
    using saveFingerprint_in_sync [of ?l i "fs w" s g] assms(1-3)
    by (auto simp: fp_wf_def fp_synced_def Let_def)
  have "files (fs w') (fp_filename ?l) = Some c"
    using f c(1) assms(2) saveAuthenticatorId_files
    by (auto simp: fp_synced_def Let_def)
  then have "in_sync (fs w') (set_slot i s g ?l)" using c(2) by (simp add: in_sync_def)
  with f assms(2) l show ?thesis
    by (auto simp: fp_synced_def Let_def)
qed

lemma saveFingerprint_cong:
  assumes "fp_filename l = fp_filename l'" "secureid l = secureid l'" "fingerid l = fingerid l'"
  shows "saveFingerprint f l i = saveFingerprint f l' i"
  unfolding saveFingerprint_def assms ..

lemma clear_slot_fields:
  "listener (dev (clear_slot i w)) = set_slot i 0 0 (listener (dev w))"
  "fs (clear_slot i w) = saveFingerprint (fs w) (set_slot i 0 0 (listener (dev w))) i"
  "notified (clear_slot i w) = notified w" "notify_set (dev (clear_slot i w)) = notify_set (dev w)"
  "group_id (dev (clear_slot i w)) = group_id (dev w)"
  "authenticator_id (dev (clear_slot i w)) = authenticator_id (dev w)"
  by (simp_all add: clear_slot_def set_slot_def Let_def)

lemma clear_slot_synced:
  "fp_wf w \<Longrightarrow> fp_synced w \<Longrightarrow> i < MAX_NUM_FINGERS \<Longrightarrow> fp_synced (clear_slot i w)"
  by (rule write_slot_synced [where s = 0 and g = 0 and st = "state (listener (dev w))"
        and k = "samples_remaining (listener (dev w))" and i = i and w = w])
     (simp_all add: clear_slot_fields, simp add: set_slot_def)

lemma reset_auth_id_synced: "fp_synced w \<Longrightarrow> fp_synced (reset_auth_id w)"
proof -
  assume synced: "fp_synced w"
  let ?l = "listener (dev w)"
  have "fp_filename ?l \<noteq> authid_filename ?l" using synced by (simp add: fp_synced_def Let_def)
  then have "files (saveAuthenticatorId (fs w) (authid_filename ?l) 0) (fp_filename ?l)
      = files (fs w) (fp_filename ?l)"
    by (rule saveAuthenticatorId_files)
  then have "in_sync (saveAuthenticatorId (fs w) (authid_filename ?l) 0) ?l = in_sync (fs w) ?l"
    by (simp add: in_sync_def)
  with synced show ?thesis by (simp add: fp_synced_def reset_auth_id_def Let_def)
qed

lemma remove_all_loop_synced:
  "remove_all_loop n w = Some w' \<Longrightarrow> fp_wf w \<Longrightarrow> fp_synced w \<Longrightarrow> fp_synced w'"
proof (induction n arbitrary: w)
  case (Suc n)
  from Suc.prems(1) obtain r where r: "remove_all_pass w = Some r"
    by (auto simp: remove_all_loop.simps split: option.splits)
  from r show ?case
  proof (cases rule: remove_all_pass_cases)
    case 1
    with Suc.prems r show ?thesis by (simp add: remove_all_loop.simps)
  next
    case (2 i w1)
    then have "fp_synced w1" and "fp_wf w1"
      using Suc.prems(2,3) by (auto simp: notify_Some clear_slot_synced clear_slot_wf)
    with Suc r 2(1) show ?thesis by (simp add: remove_all_loop.simps)
  qed
qed (simp add: remove_all_loop.simps)

lemma fingerprint_remove_synced:
  assumes "fingerprint_remove nul gid fid w = Some (r, w')" and "fp_wf w" and "fp_synced w"
  shows "fp_synced w'"
  using assms
  by (auto simp: fingerprint_remove_def Let_def notify_Some fp_synced_state clear_slot_synced
      intro!: reset_auth_id_synced split: if_splits bind_splits dest!: remove_all_loop_synced)

lemma first_free_bound: "\<not> MAX_NUM_FINGERS \<le> first_index P MAX_NUM_FINGERS \<Longrightarrow>
    first_index P MAX_NUM_FINGERS < MAX_NUM_FINGERS"
  by simp

text \<open>What the completing sample of an enrolment does to the world.\<close>

lemma send_enroll_notice_cases:
  assumes "send_enroll_notice r1 r2 fid w = Some w'"
  obtains (ignored) "w' = w"
  | (full) "w' = upd_listener (\<lambda>l. l\<lparr>state := STATE_IDLE\<rparr>) w"
  | (sample) "listener (dev w') = (listener (dev w))\<lparr>samples_remaining := samples_remaining (listener (dev w)) - 1\<rparr>"
      "fs w' = fs w"
  | (completed) i where "i < MAX_NUM_FINGERS"
      "listener (dev w') = (set_slot i (secure_user_id (dev w)) (word_of_int fid) (listener (dev w)))
         \<lparr>state := STATE_IDLE, samples_remaining := samples_remaining (listener (dev w)) - 1\<rparr>"
      "fs w' = saveAuthenticatorId
         (saveFingerprint (fs w) (set_slot i (secure_user_id (dev w)) (word_of_int fid) (listener (dev w))) i)
         (authid_filename (listener (dev w))) (get_64bit_rand r1 r2)"
proof -
  let ?l = "listener (dev w)"
  let ?idx = "first_index (\<lambda>i. secureid ?l ! i = 0 \<or> fingerid ?l ! i = 0) MAX_NUM_FINGERS"
  consider "fid = 0 \<or> secure_user_id (dev w) = 0"
    | "fid \<noteq> 0" "secure_user_id (dev w) \<noteq> 0" "MAX_NUM_FINGERS \<le> ?idx"
    | "fid \<noteq> 0" "secure_user_id (dev w) \<noteq> 0" "?idx < MAX_NUM_FINGERS" "samples_remaining ?l - 1 > 0"
    | "fid \<noteq> 0" "secure_user_id (dev w) \<noteq> 0" "?idx < MAX_NUM_FINGERS" "samples_remaining ?l - 1 \<le> 0"
    by linarith
  then show thesis
  proof cases
    case 1
    with assms show thesis by (intro ignored) (auto simp: send_enroll_notice_def split: if_splits)
  next
    case 2
    with assms show thesis by (intro full) (simp add: send_enroll_notice_def Let_def)
  next
    case 3
    with assms show thesis by (intro sample) (auto simp: send_enroll_notice_def Let_def notify_Some)
  next
    case 4
    let ?l1 = "?l\<lparr>samples_remaining := samples_remaining ?l - 1,
        secureid := (secureid ?l)[?idx := secure_user_id (dev w)],
        fingerid := (fingerid ?l)[?idx := word_of_int fid]\<rparr>"
    have save: "saveFingerprint (fs w) ?l1 ?idx =
        saveFingerprint (fs w) (set_slot ?idx (secure_user_id (dev w)) (word_of_int fid) ?l) ?idx"
      by (rule saveFingerprint_cong) simp_all
    from 4 assms have fs': "fs w' = saveAuthenticatorId (saveFingerprint (fs w) ?l1 ?idx)
        (authid_filename ?l) (get_64bit_rand r1 r2)"
      and l': "listener (dev w') = ?l1\<lparr>state := STATE_IDLE\<rparr>"
      by (auto simp: send_enroll_notice_def Let_def notify_Some)
    show thesis
    proof (rule completed [OF 4(3)])
      show "listener (dev w') = set_slot ?idx (secure_user_id (dev w)) (word_of_int fid) ?l
          \<lparr>state := STATE_IDLE, samples_remaining := samples_remaining ?l - 1\<rparr>"
        unfolding l' by (simp add: set_slot_def)
      show "fs w' = saveAuthenticatorId
          (saveFingerprint (fs w) (set_slot ?idx (secure_user_id (dev w)) (word_of_int fid) ?l) ?idx)
          (authid_filename ?l) (get_64bit_rand r1 r2)"
        unfolding fs' save ..
    qed
  qed
qed

lemma send_enroll_notice_synced:
  assumes "send_enroll_notice r1 r2 fid w = Some w'" and "fp_wf w" and "fp_synced w"
  shows "fp_synced w'"
  using assms(1)
proof (cases rule: send_enroll_notice_cases)
  case sample
  with assms(3) show ?thesis by (simp add: fp_synced_def Let_def)
next
  case (completed i)
  from write_slot_synced [OF assms(2,3) completed(1,2) disjI2 [OF completed(3)]] show ?thesis .
qed (use assms(3) in \<open>simp_all add: fp_synced_state\<close>)

lemma handle_buffer_dev_cases:
  assumes "handle_buffer c env d buf w = Some (st, w')"
  obtains "w' = w"
  | fid where "0 < fid" "fid \<le> MAX_FID_VALUE" "send_enroll_notice (env_rand1 env) (env_rand2 env) fid w = Some w'"
  | fid where "0 < fid" "fid \<le> MAX_FID_VALUE" "send_scan_notice c (env_sec env) (env_nsec env) fid w = Some w'"
  using assms
  by (auto simp: handle_buffer_def Let_def
      split: if_splits option.splits worker_state_t.splits bind_splits)

lemma listener_pass_dev_cases:
  assumes "listener_pass c ce env r w = Some (st, w')"
  obtains "w' = w"
  | fid where "0 < fid" "fid \<le> MAX_FID_VALUE" "send_enroll_notice (env_rand1 env) (env_rand2 env) fid w = Some w'"
  | fid where "0 < fid" "fid \<le> MAX_FID_VALUE" "send_scan_notice c (env_sec env) (env_nsec env) fid w = Some w'"
proof (cases "\<exists>d msg. r = Poll_input d (Some msg) \<and> getListenerState w \<noteq> STATE_EXIT")
  case True
  with assms obtain d msg where "handle_buffer c env d (c_str msg) w = Some (st, w')"
    by (auto simp: listener_pass_def)
  then show thesis by (rule handle_buffer_dev_cases) (fact that)+
next
  case False
  with assms have "w' = w"
    by (auto simp: listener_pass_def split: if_splits poll_result.splits option.splits)
  then show thesis by (rule that(1))
qed

lemma listener_pass_synced:
  assumes "listener_pass c ce env r w = Some (st, w')" and "fp_wf w" and "fp_synced w"
  shows "fp_synced w'"
  using assms(1)
proof (cases rule: listener_pass_dev_cases)
  case (2 fid)
  show ?thesis using send_enroll_notice_synced [OF 2(3) assms(2,3)] .
next
  case (3 fid)
  then have "dev w' = dev w \<and> fs w' = fs w" by (intro send_scan_notice_dev)
  then show ?thesis using assms(3) fp_synced_frame by blast
qed (use assms(3) in simp)

lemma fp_step_synced:
  assumes "fp_step c w w'" and "fp_wf w" and "fp_synced w"
    and "\<nexists>gid path. w' = snd (fingerprint_set_active_group gid path w)"
  shows "fp_synced w'"
  using assms
proof (cases rule: fp_step.cases)
  case (set_group gid path r)
  with assms(4) show ?thesis by (metis snd_conv)
next
  case (remove nul gid fid r)
  show ?thesis using fingerprint_remove_synced [OF remove assms(2,3)] .
next
  case (listen ce env pr st)
  show ?thesis using listener_pass_synced [OF listen assms(2,3)] .
next
  case (enumerate nul r)
  then have "dev w' = dev w \<and> fs w' = fs w" by (intro fingerprint_enumerate_dev)
  then show ?thesis using assms(3) fp_synced_frame by blast
qed (auto simp: fp_defs Let_def notify_Some fp_synced_def split: if_splits option.splits bind_splits)

section \<open>Properties\<close>


text \<open>The concrete pieces the witnesses use.\<close>

definition demo_consts :: fp_consts where
  "demo_consts = \<lparr>HW_AUTH_TOKEN_VERSION = 0, HW_AUTH_FINGERPRINT = 2, scan_overflow = (\<lambda>_. 0)\<rparr>"

definition demo_fs :: fp_fs where
  "demo_fs = \<lparr>files = (\<lambda>_. None), openable = (\<lambda>_. True), seekable = (\<lambda>_ _. True),
              writable = (\<lambda>_ _. True)\<rparr>"

definition demo_world :: fp_world where
  "demo_world = \<lparr>dev = fresh_device\<lparr>notify_set := True\<rparr>, fs = demo_fs, notified = []\<rparr>"

definition demo_env :: sensor_env where
  "demo_env = \<lparr>env_sec = 5, env_nsec = 0, env_rand1 = 7, env_rand2 = 9\<rparr>"



definition demo_group :: fp_world where
  "demo_group = snd (fingerprint_set_active_group 3 ''/d'' demo_world)"

lemma demo_group_fields:
  "listener (dev demo_group) = (listener fresh_device)
     \<lparr>fp_filename := ''/d/emufp.bin'', authid_filename := ''/d/emuauthid.bin''\<rparr>"
  "fs demo_group = demo_fs" "notify_set (dev demo_group)" "notified demo_group = []"
  by (simp_all add: demo_group_def fingerprint_set_active_group_def demo_world_def demo_fs_def
      loadFingerprints_def loadAuthenticatorId_def fopen_r_def snprintf_buf_def PATH_MAX_def Let_def)

lemma demo_group_ok: "fp_wf demo_group" "fp_synced demo_group"
  by (simp_all add: fp_wf_def listener_wf_def fp_synced_def in_sync_def io_ok_def demo_group_fields
      fresh_device_def demo_fs_def Let_def flip: replicate_add mult_2)


text \<open>The template table survives a restart. A device that activates the group on
  storage that agrees with another device's memory loads exactly that device's table.\<close>

theorem fp_restart_loads_table:
  assumes "fp_wf w" and "fp_synced w" and "fp_wf v" and "fs v = fs w"
    and "files (fs w) (fp_filename (listener (dev w))) \<noteq> None"
    and name: "fp_filename (listener (dev w)) = snprintf_buf PATH_MAX (path @ ''/'' @ ''emufp.bin'')"
    and grp: "fingerprint_set_active_group gid path v = (r, v')"
  shows "secureid (listener (dev v')) = secureid (listener (dev w)) \<and>
    fingerid (listener (dev v')) = fingerid (listener (dev w))"
proof -
  let ?l = "listener (dev w)"
  let ?l1 = "(listener (dev v))\<lparr>fp_filename := snprintf_buf PATH_MAX (path @ ''/'' @ ''emufp.bin''),
      authid_filename := snprintf_buf PATH_MAX (path @ ''/'' @ ''emuauthid.bin'')\<rparr>"
  from assms(5) obtain b where b: "files (fs w) (fp_filename ?l) = Some b" by auto
  have wf: "listener_wf ?l" and op: "openable (fs w) (fp_filename ?l)" and sync: "in_sync (fs w) ?l"
    using assms(1,2) by (auto simp: fp_wf_def fp_synced_def io_ok_def Let_def)
  have "length (secureid ?l1) = MAX_NUM_FINGERS" "length (fingerid ?l1) = MAX_NUM_FINGERS"
    "fp_filename ?l1 = fp_filename ?l"
    using assms(3) name by (auto simp: fp_wf_def listener_wf_def)
  from load_in_sync [OF wf op b sync this] have "loadFingerprints (fs v) ?l1 =
      ?l1\<lparr>secureid := secureid ?l, fingerid := fingerid ?l\<rparr>"
    using assms(4) by simp
  then show ?thesis using grp by (auto simp: fingerprint_set_active_group_def Let_def)
qed

text \<open>A world whose first slot has been written and saved.\<close>

definition demo_enrolled :: fp_world where
  "demo_enrolled =
     (let l = set_slot 0 11 7 (listener (dev demo_group))
      in demo_group\<lparr>dev := (dev demo_group)\<lparr>listener := l\<rparr>, fs := saveFingerprint demo_fs l 0\<rparr>)"

lemma demo_enrolled_fields:
  "listener (dev demo_enrolled) = set_slot 0 11 7 (listener (dev demo_group))"
  "fs demo_enrolled = saveFingerprint demo_fs (set_slot 0 11 7 (listener (dev demo_group))) 0"
  by (simp_all add: demo_enrolled_def Let_def)

lemma demo_enrolled_ok: "fp_wf demo_enrolled" "fp_synced demo_enrolled"
proof -
  show "fp_wf demo_enrolled"
    using demo_group_ok(1) by (simp add: fp_wf_def listener_wf_def demo_enrolled_fields
        demo_group_fields fresh_device_def)
  show "fp_synced demo_enrolled"
    by (rule write_slot_synced [OF demo_group_ok, where i = 0 and s = 11 and g = 7
          and st = "state (listener (dev demo_group))"
          and k = "samples_remaining (listener (dev demo_group))"])
       (simp_all add: demo_enrolled_fields demo_group_fields MAX_NUM_FINGERS_pos set_slot_def)
qed

lemma demo_enrolled_file: "files (fs demo_enrolled) ''/d/emufp.bin'' \<noteq> None"
  using saveFingerprint_in_sync [of "listener (dev demo_group)" 0 demo_fs 11 7] demo_group_ok
  by (auto simp: demo_enrolled_fields fp_wf_def fp_synced_def Let_def demo_group_fields
      MAX_NUM_FINGERS_pos)

lemma demo_enrolled_ids: "fingerid (listener (dev demo_enrolled)) = 7 # replicate 19 0"
  by (simp add: demo_enrolled_fields demo_group_fields fresh_device_def MAX_NUM_FINGERS_def
      numeral_eq_Suc)

lemma fp_restart_loads_table_witness:
  "fingerid (listener (dev (snd (fingerprint_set_active_group 3 ''/d''
     \<lparr>dev = fresh_device, fs = fs demo_enrolled, notified = []\<rparr>)))) = 7 # replicate 19 0"
proof -
  let ?v = "\<lparr>dev = fresh_device, fs = fs demo_enrolled, notified = []\<rparr>"
  have "fp_wf ?v" by (simp add: fp_wf_def listener_wf_def fresh_device_def)
  from fp_restart_loads_table [OF demo_enrolled_ok this, of "''/d''" 3
      "fst (fingerprint_set_active_group 3 ''/d'' ?v)" "snd (fingerprint_set_active_group 3 ''/d'' ?v)"]
  have "fingerid (listener (dev (snd (fingerprint_set_active_group 3 ''/d'' ?v))))
      = fingerid (listener (dev demo_enrolled))"
    using demo_enrolled_file
    by (simp add: demo_enrolled_fields demo_group_fields snprintf_buf_def PATH_MAX_def)
  also have "\<dots> = 7 # replicate 19 0" by (rule demo_enrolled_ids)
  finally show ?thesis .
qed

end
