(* ===== verification/Fingerprint_Flow.thy ===== *)
theory Fingerprint_Flow
  imports Fingerprint_Props
begin

text \<open>
  The behaviour of the fingerprint HAL that the framework sees: enrolment and recognition
  from host events, removal of one or of all templates, enumeration, the check of the
  enrolment token, freedom from faults once a callback is set, and the two flaws in switching
  groups and in counting receive failures.
\<close>

section \<open>Host events\<close>

definition on_event :: "int \<Rightarrow> string" where
  "on_event fid = ''on:'' @ show_base 10 (nat fid)"

lemma scan_on_event:
  assumes "0 < fid" and "fid \<le> MAX_FID_VALUE"
  shows "scan_on c (c_str (on_event fid)) = Some fid"
proof -
  have "c_str (on_event fid) = on_event fid"
    using show_base_no_nul by (intro c_str_no_nul) (auto simp: on_event_def)
  moreover have "scan_d (show_base 10 (nat fid)) = Some (fid, [])"
    using scan_d_show [of "[]" "nat fid"] assms(1) by simp
  ultimately show ?thesis
    using assms by (simp add: scan_on_def on_event_def MAX_FID_VALUE_def)
qed

lemma listener_pass_event:
  assumes "0 < fid" and "fid \<le> MAX_FID_VALUE" and "state (listener (dev w)) = st"
  shows "st = STATE_ENROLL \<Longrightarrow> listener_pass c ce env (Poll_input False (Some (on_event fid))) w =
      do { w1 \<leftarrow> send_enroll_notice (env_rand1 env) (env_rand2 env) fid w; Some (Listening, w1) }"
    and "st = STATE_SCAN \<Longrightarrow> listener_pass c ce env (Poll_input False (Some (on_event fid))) w =
      do { w1 \<leftarrow> send_scan_notice c (env_sec env) (env_nsec env) fid w; Some (Listening, w1) }"
  using assms scan_on_event [OF assms(1,2), of c]
  by (simp_all add: listener_pass_def handle_buffer_def getListenerState_def)

lemma get_64bit_rand_nonzero: "get_64bit_rand r1 r2 \<noteq> 0"
  by (simp add: get_64bit_rand_def Let_def)

definition free_slot :: "worker_thread_t \<Rightarrow> nat" where
  "free_slot l = first_index (\<lambda>i. secureid l ! i = 0 \<or> fingerid l ! i = 0) MAX_NUM_FINGERS"

text \<open>A first sample, and the sample that completes the enrolment.\<close>

lemma send_enroll_sample:
  assumes "notify_set (dev w)" "secure_user_id (dev w) \<noteq> 0" "fid \<noteq> 0"
    and "free_slot (listener (dev w)) < MAX_NUM_FINGERS" and "1 < samples_remaining (listener (dev w))"
  shows "send_enroll_notice r1 r2 fid w =
    Some ((upd_listener (\<lambda>l. l\<lparr>samples_remaining := samples_remaining l - 1\<rparr>) w)
      \<lparr>notified := notified w @ [FINGERPRINT_TEMPLATE_ENROLLING (word_of_int fid)
         (samples_remaining (listener (dev w)) - 1)]\<rparr>)"
  using assms
  by (simp add: send_enroll_notice_def free_slot_def Let_def notify_def upd_listener_def)

lemma send_enroll_complete:
  assumes "notify_set (dev w)" "secure_user_id (dev w) \<noteq> 0" "fid \<noteq> 0"
    and "free_slot (listener (dev w)) < MAX_NUM_FINGERS" and "samples_remaining (listener (dev w)) = 1"
  shows "\<exists>w'. send_enroll_notice r1 r2 fid w = Some w' \<and>
    listener (dev w') = (set_slot (free_slot (listener (dev w))) (secure_user_id (dev w))
       (word_of_int fid) (listener (dev w)))\<lparr>state := STATE_IDLE, samples_remaining := 0\<rparr> \<and>
    authenticator_id (dev w') = get_64bit_rand r1 r2 \<and>
    notified w' = notified w @ [FINGERPRINT_TEMPLATE_ENROLLING (word_of_int fid) 0]"
  using assms
  by (simp add: send_enroll_notice_def free_slot_def Let_def notify_def set_slot_def)

section \<open>Recognition\<close>

lemma is_valid_fid_iff:
  assumes "length (fingerid (listener d)) = MAX_NUM_FINGERS"
  shows "is_valid_fid d x \<longleftrightarrow> x \<noteq> 0 \<and> x \<in> set (fingerid (listener d))"
proof -
  have "first_index (\<lambda>i. fingerid (listener d) ! i = x) MAX_NUM_FINGERS < MAX_NUM_FINGERS
      \<longleftrightarrow> (\<exists>i < MAX_NUM_FINGERS. fingerid (listener d) ! i = x)"
    using first_index_none [of MAX_NUM_FINGERS "\<lambda>i. fingerid (listener d) ! i = x"] by auto
  then show ?thesis using assms by (auto simp: is_valid_fid_def in_set_conv_nth)
qed

section \<open>Removal\<close>

lemma ucast_u32_zero:
  assumes "(x :: u64) < 2 ^ 32"
  shows "(ucast x :: u32) = 0 \<longleftrightarrow> x = 0"
proof -
  have "unat x < 2 ^ 32" using assms by (simp add: word_less_nat_alt)
  then have "unat (ucast x :: u32) = unat x" by (simp add: unsigned_ucast_eq take_bit_nat_eq_self)
  then show ?thesis by (metis unat_eq_zero)
qed

text \<open>The slots whose finger id, read as 32 bits, is nonzero: those that removal acts on.\<close>

definition live_slots :: "worker_thread_t \<Rightarrow> nat list" where
  "live_slots l = filter (\<lambda>i. (ucast (fingerid l ! i) :: u32) \<noteq> 0) [0..<MAX_NUM_FINGERS]"

lemma first_index_from_filter:
  "first_index_from i P k = (case filter P [i..<i + k] of [] \<Rightarrow> i + k | j # _ \<Rightarrow> j)"
  by (induction k arbitrary: i) (auto simp: upt_conv_Cons simp del: upt_Suc split: list.split)

lemma first_index_filter: "first_index P n = (case filter P [0..<n] of [] \<Rightarrow> n | j # _ \<Rightarrow> j)"
  by (simp add: first_index_def first_index_from_filter split: list.split)

lemma live_slots_cleared:
  assumes "listener_wf l" and "i < MAX_NUM_FINGERS"
  shows "live_slots (set_slot i 0 0 l) = filter (\<lambda>j. j \<noteq> i) (live_slots l)"
proof -
  have "(ucast ((fingerid l)[i := 0] ! j) :: u32) \<noteq> 0 \<longleftrightarrow> j \<noteq> i \<and> (ucast (fingerid l ! j) :: u32) \<noteq> 0" for j
    using assms by (auto simp: listener_wf_def nth_list_update)
  then show ?thesis by (simp add: live_slots_def conj_commute)
qed

lemma distinct_live_slots: "distinct (live_slots l)"
  by (simp add: live_slots_def)

lemma live_slots_Cons:
  assumes "listener_wf l" and "live_slots l = i # is'"
  shows "i < MAX_NUM_FINGERS" and "live_slots (set_slot i 0 0 l) = is'"
proof -
  have "i \<in> set (live_slots l)" using assms(2) by simp
  then show i: "i < MAX_NUM_FINGERS" by (simp add: live_slots_def)
  have "i \<notin> set is'" using distinct_live_slots [of l] assms(2) by simp
  then have "filter (\<lambda>j. j \<noteq> i) is' = is'" by (auto intro: filter_True)
  then show "live_slots (set_slot i 0 0 l) = is'"
    using live_slots_cleared [OF assms(1) i] assms(2) by simp
qed

lemma remove_all_pass_live:
  assumes "notify_set (dev w)"
  shows "remove_all_pass w = (case live_slots (listener (dev w)) of
      [] \<Rightarrow> Some (Inl w)
    | i # _ \<Rightarrow> Some (Inr ((clear_slot i w)\<lparr>notified := notified w @
        [FINGERPRINT_TEMPLATE_REMOVED (ucast (fingerid (listener (dev w)) ! i)) (ucast (group_id (dev w))) 0]\<rparr>)))"
proof (cases "live_slots (listener (dev w))")
  case Nil
  then show ?thesis
    by (simp add: remove_all_pass_def first_index_filter live_slots_def Let_def)
next
  case (Cons i is')
  then have "i \<in> set (live_slots (listener (dev w)))" by simp
  then have "i < MAX_NUM_FINGERS" by (simp add: live_slots_def)
  with Cons assms show ?thesis
    by (simp add: remove_all_pass_def first_index_filter live_slots_def Let_def notify_def clear_slot_fields)
qed

text \<open>
  The loop that deletes every template ends within one pass per live slot and one more, and
  reports each deleted template in table order.
\<close>

lemma remove_all_loop_result:
  assumes "fp_wf w" and "notify_set (dev w)" and "length (live_slots (listener (dev w))) < fuel"
  shows "\<exists>w'. remove_all_loop fuel w = Some w' \<and> live_slots (listener (dev w')) = [] \<and>
    notify_set (dev w') \<and> group_id (dev w') = group_id (dev w) \<and>
    length (fingerid (listener (dev w'))) = MAX_NUM_FINGERS \<and>
    (\<forall>j < MAX_NUM_FINGERS. fingerid (listener (dev w')) ! j =
       (if j \<in> set (live_slots (listener (dev w))) then 0 else fingerid (listener (dev w)) ! j)) \<and>
    notified w' = notified w @ map (\<lambda>i. FINGERPRINT_TEMPLATE_REMOVED
      (ucast (fingerid (listener (dev w)) ! i)) (ucast (group_id (dev w))) 0) (live_slots (listener (dev w)))"
  using assms
proof (induction fuel arbitrary: w)
  case (Suc fuel)
  let ?l = "listener (dev w)"
  show ?case
  proof (cases "live_slots ?l")
    case Nil
    with Suc.prems show ?thesis
      by (auto simp: remove_all_loop.simps remove_all_pass_live fp_wf_def listener_wf_def)
  next
    case (Cons i is')
    let ?w1 = "(clear_slot i w)\<lparr>notified := notified w @ [FINGERPRINT_TEMPLATE_REMOVED
        (ucast (fingerid ?l ! i)) (ucast (group_id (dev w))) 0]\<rparr>"
    have wf: "listener_wf ?l" using Suc.prems(1) by (simp add: fp_wf_def)
    note i = live_slots_Cons [OF wf Cons]
    have l1: "listener (dev ?w1) = set_slot i 0 0 ?l" by (simp add: clear_slot_fields)
    have live1: "live_slots (listener (dev ?w1)) = is'" using i(2) by (simp add: clear_slot_fields)
    have wf1: "fp_wf ?w1" using clear_slot_wf [OF Suc.prems(1)] by simp
    have "i \<notin> set is'" using distinct_live_slots [of ?l] Cons by simp
    then have msgs: "map (\<lambda>j. FINGERPRINT_TEMPLATE_REMOVED (ucast ((fingerid ?l)[i := 0] ! j)) g 0) is' =
        map (\<lambda>j. FINGERPRINT_TEMPLATE_REMOVED (ucast (fingerid ?l ! j)) g 0) is'" for g
      by (intro map_cong refl) (metis nth_list_update_neq)
    have step: "remove_all_loop (Suc fuel) w = remove_all_loop fuel ?w1"
      using Suc.prems(2) Cons by (simp add: remove_all_loop.simps remove_all_pass_live)
    obtain w' where "remove_all_loop fuel ?w1 = Some w'" "live_slots (listener (dev w')) = []"
        "notify_set (dev w')" "group_id (dev w') = group_id (dev ?w1)"
        "length (fingerid (listener (dev w'))) = MAX_NUM_FINGERS"
      and kept: "\<forall>j < MAX_NUM_FINGERS. fingerid (listener (dev w')) ! j =
        (if j \<in> set is' then 0 else fingerid (listener (dev ?w1)) ! j)"
      and sent: "notified w' = notified ?w1 @ map (\<lambda>j. FINGERPRINT_TEMPLATE_REMOVED
        (ucast (fingerid (listener (dev ?w1)) ! j)) (ucast (group_id (dev ?w1))) 0) is'"
      using Suc.IH [OF wf1] Suc.prems(2,3) live1 Cons by (auto simp: clear_slot_fields)
    moreover have "\<forall>j < MAX_NUM_FINGERS. fingerid (listener (dev w')) ! j =
        (if j \<in> set (live_slots ?l) then 0 else fingerid ?l ! j)"
      using kept Cons wf by (auto simp: clear_slot_fields nth_list_update listener_wf_def)
    moreover have "notified w' = notified w @ map (\<lambda>i. FINGERPRINT_TEMPLATE_REMOVED
        (ucast (fingerid ?l ! i)) (ucast (group_id (dev w))) 0) (live_slots ?l)"
      using sent msgs Cons by (simp add: clear_slot_fields)
    ultimately show ?thesis using step by (simp add: clear_slot_fields)
  qed
qed simp

section \<open>Enumeration\<close>

definition used_slots :: "worker_thread_t \<Rightarrow> nat list" where
  "used_slots l = filter (slot_used l) [0..<MAX_NUM_FINGERS]"

lemma enumerate_from_result:
  assumes "notify_set (dev w)"
  shows "enumerate_from is' n w = Some (w\<lparr>notified := notified w @
    map (\<lambda>(k, i). FINGERPRINT_TEMPLATE_ENUMERATING (ucast (fingerid (listener (dev w)) ! i))
          (ucast (group_id (dev w))) (n - 1 - int k))
        (List.enumerate 0 (filter (slot_used (listener (dev w))) is'))\<rparr>)"
  using assms
proof (induction is' arbitrary: n w)
  case (Cons i is')
  show ?case
  proof (cases "slot_used (listener (dev w)) i")
    case True
    let ?w1 = "w\<lparr>notified := notified w @ [FINGERPRINT_TEMPLATE_ENUMERATING
        (ucast (fingerid (listener (dev w)) ! i)) (ucast (group_id (dev w))) (n - 1)]\<rparr>"
    have shift: "List.enumerate (Suc 0) xs = map (\<lambda>(k, x). (Suc k, x)) (List.enumerate 0 xs)" for xs :: "nat list"
      by (simp add: enumerate_eq_zip zip_map1 [symmetric] map_Suc_upt)
    from True Cons.prems have "enumerate_from (i # is') n w = enumerate_from is' (n - 1) ?w1"
      by (simp add: notify_def)
    with Cons.IH [of ?w1 "n - 1"] Cons.prems True show ?thesis
      by (simp add: shift split_def comp_def algebra_simps)
  next
    case False
    with Cons show ?thesis by simp
  qed
qed simp

section \<open>Properties\<close>

text \<open>Property C10: enrolling a finger. In the enrolling state, with a known user and a free
  slot, two touches of the same finger store that user's id and the finger id in the first
  free slot, give the device a fresh nonzero authenticator id, return to the idle state, and
  notify the framework of one remaining sample and then of none. No other slot changes.\<close>

theorem fp_enrol_two_touches:
  assumes "notify_set (dev w)" and "state (listener (dev w)) = STATE_ENROLL"
    and "samples_remaining (listener (dev w)) = 2" and "secure_user_id (dev w) \<noteq> 0"
    and "free_slot (listener (dev w)) < MAX_NUM_FINGERS" and "0 < fid" and "fid \<le> MAX_FID_VALUE"
  shows "\<exists>w'. listener_loop c 0 [(e1, Poll_input False (Some (on_event fid))),
                               (e2, Poll_input False (Some (on_event fid)))] w = Some (Listening, w') \<and>
    listener (dev w') = (set_slot (free_slot (listener (dev w))) (secure_user_id (dev w))
      (word_of_int fid) (listener (dev w)))\<lparr>state := STATE_IDLE, samples_remaining := 0\<rparr> \<and>
    authenticator_id (dev w') \<noteq> 0 \<and>
    notified w' = notified w @ [FINGERPRINT_TEMPLATE_ENROLLING (word_of_int fid) 1,
                                FINGERPRINT_TEMPLATE_ENROLLING (word_of_int fid) 0]"
proof -
  let ?l = "listener (dev w)"
  let ?w1 = "(upd_listener (\<lambda>l. l\<lparr>samples_remaining := samples_remaining l - 1\<rparr>) w)
      \<lparr>notified := notified w @ [FINGERPRINT_TEMPLATE_ENROLLING (word_of_int fid) 1]\<rparr>"
  have slot1: "free_slot (listener (dev ?w1)) = free_slot ?l" by (simp add: free_slot_def)
  have "send_enroll_notice (env_rand1 e1) (env_rand2 e1) fid w = Some ?w1"
    using send_enroll_sample [of w fid] assms by simp
  then have pass1: "listener_pass c 0 e1 (Poll_input False (Some (on_event fid))) w = Some (Listening, ?w1)"
    using listener_pass_event(1) [OF assms(6,7,2) refl] by simp
  obtain w' where w': "send_enroll_notice (env_rand1 e2) (env_rand2 e2) fid ?w1 = Some w'"
    "listener (dev w') = (set_slot (free_slot ?l) (secure_user_id (dev w)) (word_of_int fid)
      (listener (dev ?w1)))\<lparr>state := STATE_IDLE, samples_remaining := 0\<rparr>"
    "authenticator_id (dev w') = get_64bit_rand (env_rand1 e2) (env_rand2 e2)"
    "notified w' = notified ?w1 @ [FINGERPRINT_TEMPLATE_ENROLLING (word_of_int fid) 0]"
    using send_enroll_complete [of ?w1 fid] assms slot1 by auto
  have "listener_pass c 0 e2 (Poll_input False (Some (on_event fid))) ?w1 = Some (Listening, w')"
    using listener_pass_event(1) [OF assms(6,7), of ?w1 STATE_ENROLL] assms(2) w'(1) by simp
  with pass1 have "listener_loop c 0 [(e1, Poll_input False (Some (on_event fid))),
      (e2, Poll_input False (Some (on_event fid)))] w = Some (Listening, w')"
    by simp
  moreover have "listener (dev w') = (set_slot (free_slot ?l) (secure_user_id (dev w)) (word_of_int fid) ?l)
      \<lparr>state := STATE_IDLE, samples_remaining := 0\<rparr>"
    unfolding w'(2) by (simp add: set_slot_def)
  ultimately show ?thesis using w'(3,4) get_64bit_rand_nonzero by auto
qed

text \<open>A device waiting for the samples of a finger of user 11.\<close>

definition demo_enrolling :: fp_world where
  "demo_enrolling = demo_group\<lparr>dev := (dev demo_group)\<lparr>secure_user_id := 11,
     listener := (listener (dev demo_group))\<lparr>state := STATE_ENROLL, samples_remaining := 2\<rparr>\<rparr>\<rparr>"

lemma fp_enrol_two_touches_witness:
  "\<exists>w'. listener_loop demo_consts 0 [(demo_env, Poll_input False (Some (on_event 7))),
       (demo_env, Poll_input False (Some (on_event 7)))] demo_enrolling = Some (Listening, w') \<and>
     fingerid (listener (dev w')) = 7 # replicate 19 0 \<and> authenticator_id (dev w') \<noteq> 0"
proof -
  have free: "free_slot (listener (dev demo_enrolling)) = 0"
    by (simp add: free_slot_def first_index_def demo_enrolling_def demo_group_fields fresh_device_def
        MAX_NUM_FINGERS_def numeral_eq_Suc)
  have ids: "fingerid (listener (dev demo_enrolling)) = replicate 20 0"
    by (simp add: demo_enrolling_def demo_group_fields fresh_device_def MAX_NUM_FINGERS_def)
  obtain w' where "listener_loop demo_consts 0 [(demo_env, Poll_input False (Some (on_event 7))),
       (demo_env, Poll_input False (Some (on_event 7)))] demo_enrolling = Some (Listening, w')"
    "listener (dev w') = (set_slot (free_slot (listener (dev demo_enrolling)))
       (secure_user_id (dev demo_enrolling)) (word_of_int 7) (listener (dev demo_enrolling)))
       \<lparr>state := STATE_IDLE, samples_remaining := 0\<rparr>"
    "authenticator_id (dev w') \<noteq> 0"
    using fp_enrol_two_touches [of demo_enrolling 7 demo_consts demo_env demo_env] free
    by (auto simp: demo_enrolling_def demo_group_fields MAX_NUM_FINGERS_def MAX_FID_VALUE_def)
  then show ?thesis
    by (intro exI [of _ w']) (simp add: free ids numeral_eq_Suc)
qed



text \<open>Property C16: removing all templates. The loop ends; every template is deleted and
  reported once, in table order, then the end is reported with finger 0; the device is idle
  and its authenticator id is 0. The finger ids are those the listener can enrol, below
  \<open>2 ^ 32\<close>.\<close>

theorem fp_remove_all:
  assumes "fp_wf w" and "notify_set (dev w)"
    and ids: "\<forall>x \<in> set (fingerid (listener (dev w))). x < 2 ^ 32"
  shows "\<exists>w'. fingerprint_remove False gid 0 w = Some (0, w') \<and>
    fingerid (listener (dev w')) = replicate MAX_NUM_FINGERS 0 \<and>
    state (listener (dev w')) = STATE_IDLE \<and> authenticator_id (dev w') = 0 \<and>
    notified w' = notified w @
      map (\<lambda>i. FINGERPRINT_TEMPLATE_REMOVED (ucast (fingerid (listener (dev w)) ! i))
                  (ucast (group_id (dev w))) 0) (live_slots (listener (dev w))) @
      [FINGERPRINT_TEMPLATE_REMOVED 0 (ucast (group_id (dev w))) 0]"
proof -
  let ?l = "listener (dev w)"
  have "length (live_slots ?l) \<le> length [0..<MAX_NUM_FINGERS]"
    unfolding live_slots_def by (rule length_filter_le)
  then have fuel: "length (live_slots ?l) < Suc MAX_NUM_FINGERS" by simp
  obtain w1 where loop: "remove_all_loop (Suc MAX_NUM_FINGERS) w = Some w1"
    and live: "live_slots (listener (dev w1)) = []"
    and w1: "notify_set (dev w1)" "group_id (dev w1) = group_id (dev w)"
      "length (fingerid (listener (dev w1))) = MAX_NUM_FINGERS"
    and kept: "\<forall>j < MAX_NUM_FINGERS. fingerid (listener (dev w1)) ! j =
       (if j \<in> set (live_slots ?l) then 0 else fingerid ?l ! j)"
    and sent: "notified w1 = notified w @ map (\<lambda>i. FINGERPRINT_TEMPLATE_REMOVED
      (ucast (fingerid ?l ! i)) (ucast (group_id (dev w))) 0) (live_slots ?l)"
    using remove_all_loop_result [OF assms(1,2) fuel] by auto
  have zero: "fingerid (listener (dev w1)) = replicate MAX_NUM_FINGERS 0"
  proof (rule nth_equalityI)
    fix j
    assume "j < length (fingerid (listener (dev w1)))"
    then have j: "j < MAX_NUM_FINGERS" by (simp add: w1)
    then have small: "fingerid ?l ! j < 2 ^ 32"
      using ids assms(1) by (simp add: fp_wf_def listener_wf_def)
    have "fingerid ?l ! j = 0" if "(ucast (fingerid ?l ! j) :: u32) = 0"
      using that ucast_u32_zero [OF small] by simp
    then show "fingerid (listener (dev w1)) ! j = replicate MAX_NUM_FINGERS 0 ! j"
      using j kept by (auto simp: live_slots_def)
  qed (simp add: w1)
  have none: "first_index (\<lambda>i. (ucast (fingerid (listener (dev w1)) ! i) :: u32) \<noteq> 0) MAX_NUM_FINGERS
      = MAX_NUM_FINGERS"
    using live by (simp add: first_index_filter live_slots_def)
  show ?thesis
    using loop w1 sent zero none
    by (simp add: fingerprint_remove_def reset_auth_id_def Let_def notify_def)
qed

lemma fp_remove_all_witness:
  "\<exists>w'. fingerprint_remove False 3 0 demo_enrolled = Some (0, w') \<and>
     fingerid (listener (dev w')) = replicate MAX_NUM_FINGERS 0 \<and> authenticator_id (dev w') = 0"
proof -
  have n: "notify_set (dev demo_enrolled)" by (simp add: demo_enrolled_def Let_def demo_group_fields)
  have ids: "\<forall>x \<in> set (fingerid (listener (dev demo_enrolled))). x < 2 ^ 32"
    by (simp add: demo_enrolled_ids)
  from fp_remove_all [OF demo_enrolled_ok(1) n ids, of 3] show ?thesis by blast
qed

text \<open>Removing one template clears the first slot that holds that finger, and
  that slot only, and reports the finger; a finger that no slot holds changes no slot and is
  reported as finger 0. Either way the device is idle.\<close>

theorem fp_remove_one:
  assumes "notify_set (dev w)" and "fid \<noteq> 0"
  shows "\<exists>w'. fingerprint_remove False gid fid w = Some (0, w') \<and>
    state (listener (dev w')) = STATE_IDLE \<and>
    (let l = listener (dev w);
         i = first_index (\<lambda>i. fingerid l ! i = ucast fid \<and> secureid l ! i \<noteq> 0) MAX_NUM_FINGERS
     in if i < MAX_NUM_FINGERS
        then secureid (listener (dev w')) = (secureid l)[i := 0] \<and>
             fingerid (listener (dev w')) = (fingerid l)[i := 0] \<and>
             notified w' = notified w @ [FINGERPRINT_TEMPLATE_REMOVED fid 0 0]
        else secureid (listener (dev w')) = secureid l \<and> fingerid (listener (dev w')) = fingerid l \<and>
             notified w' = notified w @ [FINGERPRINT_TEMPLATE_REMOVED 0 (ucast (group_id (dev w))) 0])"
proof -
  have "notified (reset_auth_id v) = notified v" for v by (simp add: reset_auth_id_def Let_def)
  with assms show ?thesis
    by (simp add: fingerprint_remove_def notify_def clear_slot_fields Let_def)
qed

lemma fp_remove_one_witness:
  "\<exists>w'. fingerprint_remove False 3 7 demo_enrolled = Some (0, w') \<and> state (listener (dev w')) = STATE_IDLE"
  using fp_remove_one [of demo_enrolled 7 3]
  by (auto simp: demo_enrolled_def Let_def demo_group_fields)

text \<open>Enumeration reports exactly the used slots, in table order, each with the
  number of templates that remain after it, the last with 0; an empty table is reported as
  finger 0 with 0 remaining. The device and its storage do not change.\<close>

theorem fp_enumerate_reports:
  assumes "notify_set (dev w)"
  shows "fingerprint_enumerate False w = Some (0, w\<lparr>notified := notified w @
    (let l = listener (dev w); n = length (used_slots l); g = ucast (group_id (dev w)) in
     if used_slots l = [] then [FINGERPRINT_TEMPLATE_ENUMERATING 0 g 0]
     else map (\<lambda>(k, i). FINGERPRINT_TEMPLATE_ENUMERATING (ucast (fingerid l ! i)) g (int n - 1 - int k))
            (List.enumerate 0 (used_slots l)))\<rparr>)"
  using enumerate_from_result [OF assms, of "[0..<MAX_NUM_FINGERS]"] assms
  by (simp add: fingerprint_enumerate_def used_slots_def Let_def notify_def)

lemma fp_enumerate_reports_witness:
  "fingerprint_enumerate False demo_group =
     Some (0, demo_group\<lparr>notified := [FINGERPRINT_TEMPLATE_ENUMERATING 0 (ucast (group_id (dev demo_group))) 0]\<rparr>)"
proof -
  have "used_slots (listener (dev demo_group)) = []"
    by (simp add: used_slots_def slot_used_def demo_group_fields fresh_device_def filter_empty_conv)
  then show ?thesis
    using fp_enumerate_reports [of demo_group] demo_group_fields(3,4) by (simp add: Let_def)
qed

text \<open>Which tokens start an enrolment. With a callback set, enrolment starts
  exactly when a token is given, its version is the supported one and either its challenge is
  the device's or its authenticator type has the fingerprint bit; otherwise the framework is
  told that the request could not be processed and the listener's state stays. The stored
  secure user changes only on a matching challenge.\<close>

theorem fp_enroll_token_check:
  assumes "notify_set (dev w)"
  shows "\<exists>w'. fingerprint_enroll c hat gid t w = Some (0, w') \<and>
    (case hat of
       None \<Rightarrow> listener (dev w') = listener (dev w) \<and> secure_user_id (dev w') = secure_user_id (dev w) \<and>
         notified w' = notified w @ [FINGERPRINT_ERROR FINGERPRINT_ERROR_UNABLE_TO_PROCESS]
     | Some h \<Rightarrow>
         secure_user_id (dev w') =
           (if hat_challenge h = challenge (dev w) then hat_user_id h else secure_user_id (dev w)) \<and>
         (if hat_version h = HW_AUTH_TOKEN_VERSION c \<and>
             (hat_challenge h = challenge (dev w) \<or>
              hat_authenticator_type h AND HW_AUTH_FINGERPRINT c \<noteq> 0)
          then state (listener (dev w')) = STATE_ENROLL \<and> samples_remaining (listener (dev w')) = 2 \<and>
            user_id (dev w') = hat_user_id h \<and> notified w' = notified w
          else listener (dev w') = listener (dev w) \<and>
            notified w' = notified w @ [FINGERPRINT_ERROR FINGERPRINT_ERROR_UNABLE_TO_PROCESS]))"
  using assms
  by (auto simp: fingerprint_enroll_def notify_def upd_listener_def Let_def split: option.splits)

lemma fp_enroll_token_check_witness:
  "\<exists>w'. fingerprint_enroll demo_consts (Some \<lparr>hat_version = 0, hat_challenge = 0, hat_user_id = 11,
      hat_authenticator_id = 0, hat_authenticator_type = 0, hat_timestamp = 0\<rparr>) 3 60 demo_group
      = Some (0, w') \<and> secure_user_id (dev w') = 11"
proof -
  have "challenge (dev demo_group) = 0"
    by (simp add: demo_group_def fingerprint_set_active_group_def Let_def demo_world_def fresh_device_def)
  then show ?thesis
    using fp_enroll_token_check [of demo_group demo_consts "Some \<lparr>hat_version = 0, hat_challenge = 0,
      hat_user_id = 11, hat_authenticator_id = 0, hat_authenticator_type = 0, hat_timestamp = 0\<rparr>" 3 60]
      demo_group_fields(3)
    by auto
qed

lemma remove_no_fault:
  assumes "fp_wf w" and "notify_set (dev w)"
  shows "\<exists>w'. fingerprint_remove nul gid fid w = Some (if nul then - ENODEV else 0, w') \<and> notify_set (dev w')"
proof -
  have "length (live_slots (listener (dev w))) \<le> length [0..<MAX_NUM_FINGERS]"
    unfolding live_slots_def by (rule length_filter_le)
  then have "length (live_slots (listener (dev w))) < Suc MAX_NUM_FINGERS" by simp
  then obtain w1 where "remove_all_loop (Suc MAX_NUM_FINGERS) w = Some w1" "notify_set (dev w1)"
    using remove_all_loop_result [OF assms] by blast
  moreover have "notify_set (dev (reset_auth_id v)) = notify_set (dev v)" for v
    by (simp add: reset_auth_id_def Let_def)
  ultimately show ?thesis
    using assms(2) by (auto simp: fingerprint_remove_def notify_def clear_slot_fields Let_def)
qed

lemma pass_no_fault:
  assumes "notify_set (dev w)"
  shows "\<exists>st w'. listener_pass c ce env r w = Some (st, w') \<and> notify_set (dev w')"
proof -
  have e: "\<exists>w'. send_enroll_notice r1 r2 fid w = Some w' \<and> notify_set (dev w')" for r1 r2 fid
    using assms by (auto simp: send_enroll_notice_def notify_def Let_def)
  have s: "\<exists>w'. send_scan_notice c s n fid w = Some w' \<and> notify_set (dev w')" for s n fid
    using assms by (auto simp: send_scan_notice_def notify_def Let_def)
  have "\<exists>st w'. handle_buffer c env d buf w = Some (st, w') \<and> notify_set (dev w')" for d buf
  proof -
    have "\<exists>st w'. do { w1 \<leftarrow> send_enroll_notice (env_rand1 env) (env_rand2 env) fid w; Some (st0, w1) }
        = Some (st, w') \<and> notify_set (dev w')" for fid st0
      using e [of "env_rand1 env" "env_rand2 env" fid] by auto
    moreover have "\<exists>st w'. do { w1 \<leftarrow> send_scan_notice c (env_sec env) (env_nsec env) fid w; Some (st0, w1) }
        = Some (st, w') \<and> notify_set (dev w')" for fid st0
      using s [of "env_sec env" "env_nsec env" fid] by auto
    ultimately show ?thesis
      using assms unfolding handle_buffer_def Let_def
      by (cases "scan_on c buf"; cases "state (listener (dev w))") auto
  qed
  then show ?thesis
    using assms unfolding listener_pass_def
    by (cases r rule: poll_result.exhaust) (auto split: option.splits)
qed

text \<open>Once a callback is set, no HAL call and no listener pass faults, and the
  callback stays set.\<close>

theorem fp_no_fault:
  assumes "fp_wf w" and "notify_set (dev w)"
  shows "(\<exists>st w'. listener_pass c ce env r w = Some (st, w') \<and> notify_set (dev w')) \<and>
    (\<exists>e w'. fingerprint_remove nul gid fid w = Some (e, w') \<and> notify_set (dev w')) \<and>
    (\<exists>e w'. fingerprint_enumerate nul w = Some (e, w') \<and> notify_set (dev w')) \<and>
    (\<exists>e w'. fingerprint_cancel w = Some (e, w') \<and> notify_set (dev w')) \<and>
    (\<exists>e w'. fingerprint_enroll c hat gid t w = Some (e, w') \<and> notify_set (dev w'))"
proof (intro conjI)
  show "\<exists>st w'. listener_pass c ce env r w = Some (st, w') \<and> notify_set (dev w')"
    using pass_no_fault [OF assms(2)] .
  show "\<exists>e w'. fingerprint_remove nul gid fid w = Some (e, w') \<and> notify_set (dev w')"
    using remove_no_fault [OF assms] by blast
  show "\<exists>e w'. fingerprint_enumerate nul w = Some (e, w') \<and> notify_set (dev w')"
    using enumerate_from_result [OF assms(2)] assms(2)
    by (simp add: fingerprint_enumerate_def notify_def Let_def)
  show "\<exists>e w'. fingerprint_cancel w = Some (e, w') \<and> notify_set (dev w')"
    using assms(2) by (simp add: fingerprint_cancel_def notify_def Let_def)
  show "\<exists>e w'. fingerprint_enroll c hat gid t w = Some (e, w') \<and> notify_set (dev w')"
    using assms(2) by (auto simp: fingerprint_enroll_def notify_def Let_def split: option.splits)
qed

lemma fp_no_fault_witness:
  "\<exists>st w'. listener_pass demo_consts 0 demo_env (Poll_input False (Some ''on:5'')) demo_enrolling
     = Some (st, w') \<and> notify_set (dev w')"
proof -
  have "fp_wf demo_enrolling" and "notify_set (dev demo_enrolling)"
    using demo_group_ok(1) demo_group_fields(3)
    by (simp_all add: demo_enrolling_def fp_wf_def listener_wf_def)
  from fp_no_fault [OF this] show ?thesis by blast
qed

text \<open>Switching to a group that has no stored templates does not clear the
  table. The templates of the previous group stay in memory and keep being recognised.\<close>

theorem fp_group_switch_keeps_templates:
  assumes "fopen_r (fs w) (snprintf_buf PATH_MAX (path @ ''/'' @ ''emufp.bin'')) = None"
    and "fingerprint_set_active_group gid path w = (r, w')"
  shows "r = 0 \<and> group_id (dev w') = ucast gid \<and>
    secureid (listener (dev w')) = secureid (listener (dev w)) \<and>
    fingerid (listener (dev w')) = fingerid (listener (dev w))"
  using assms by (auto simp: fingerprint_set_active_group_def loadFingerprints_def Let_def)

lemma fp_group_switch_keeps_templates_witness:
  "\<exists>r w'. fingerprint_set_active_group 4 ''/e'' demo_enrolled = (r, w') \<and>
     fingerid (listener (dev w')) = 7 # replicate 19 0"
proof -
  obtain r w' where g: "fingerprint_set_active_group 4 ''/e'' demo_enrolled = (r, w')"
    by (cases "fingerprint_set_active_group 4 ''/e'' demo_enrolled")
  obtain c where "files (fs demo_enrolled) = (files demo_fs)(''/d/emufp.bin'' \<mapsto> c)"
    using saveFingerprint_in_sync [of "listener (dev demo_group)" 0 demo_fs 11 7] demo_group_ok
    by (auto simp: demo_enrolled_fields fp_wf_def fp_synced_def Let_def demo_group_fields MAX_NUM_FINGERS_pos)
  then have "fopen_r (fs demo_enrolled) (snprintf_buf PATH_MAX (''/e'' @ ''/'' @ ''emufp.bin'')) = None"
    by (simp add: fopen_r_def snprintf_buf_def PATH_MAX_def demo_fs_def)
  from fp_group_switch_keeps_templates [OF this g] g demo_enrolled_ids show ?thesis by auto
qed

text \<open>The listener counts no receive failures. However many receives fail, it
  goes on listening and nothing changes, until it is asked to exit; the limit of
  \<^verbatim>\<open>MAX_COMM_ERRORS\<close> is never reached.\<close>

theorem fp_receive_failures_never_end:
  assumes "state (listener (dev w)) \<noteq> STATE_EXIT"
  shows "listener_loop c 0 (replicate n (env, Poll_input d None)) w = Some (Listening, w)"
  using assms
  by (induction n) (simp_all add: listener_pass_def getListenerState_def MAX_COMM_ERRORS_def)

lemma fp_receive_failures_never_end_witness:
  "listener_loop demo_consts 0 (replicate 1000 (demo_env, Poll_input True None)) demo_enrolling
     = Some (Listening, demo_enrolling)"
  by (rule fp_receive_failures_never_end) (simp add: demo_enrolling_def)

end
