(* ===== verification/Dhcp_Message.thy ===== *)
theory Dhcp_Message
  imports Goldfish_Prelude "HOL-Library.Monad_Syntax"
begin

text \<open>
  \<^verbatim>\<open>dhcp/common/message.cpp\<close>, \<^verbatim>\<open>include/message.h\<close> and \<^verbatim>\<open>include/dhcp.h\<close>: DHCP messages. A
  message is the memory image of \<^verbatim>\<open>struct Dhcp\<close> (1260 bytes, no padding) and its size. Values
  in network byte order are kept as the number \<^verbatim>\<open>ntohl\<close> or \<^verbatim>\<open>ntohs\<close> gives, so a read of such a
  field is a big-endian read; a value stored in host order is little endian. Building a message
  writes at the end of the options, and a write past the end of the image is the error \<open>None\<close>,
  as is a read of an option past the end of the image.
\<close>

section \<open>Protocol constants\<close>

definition PORT_BOOTP_SERVER :: u16 where "PORT_BOOTP_SERVER = 67"
definition PORT_BOOTP_CLIENT :: u16 where "PORT_BOOTP_CLIENT = 68"
definition OP_BOOTREQUEST :: u8 where "OP_BOOTREQUEST = 1"
definition OP_BOOTREPLY :: u8 where "OP_BOOTREPLY = 2"
definition FLAGS_BROADCAST :: u16 where "FLAGS_BROADCAST = 0x8000"
definition HTYPE_ETHER :: u8 where "HTYPE_ETHER = 1"
definition ETH_ALEN :: nat where "ETH_ALEN = 6"
definition OPT_COOKIE :: bytes where "OPT_COOKIE = [0x63, 0x82, 0x53, 0x63]"
definition OPT_SUBNET_MASK :: u8 where "OPT_SUBNET_MASK = 1"
definition OPT_GATEWAY :: u8 where "OPT_GATEWAY = 3"
definition OPT_DNS :: u8 where "OPT_DNS = 6"
definition OPT_MTU :: u8 where "OPT_MTU = 26"
definition OPT_BROADCAST_ADDR :: u8 where "OPT_BROADCAST_ADDR = 28"
definition OPT_REQUESTED_IP :: u8 where "OPT_REQUESTED_IP = 50"
definition OPT_LEASE_TIME :: u8 where "OPT_LEASE_TIME = 51"
definition OPT_MESSAGE_TYPE :: u8 where "OPT_MESSAGE_TYPE = 53"
definition OPT_SERVER_ID :: u8 where "OPT_SERVER_ID = 54"
definition OPT_PARAMETER_LIST :: u8 where "OPT_PARAMETER_LIST = 55"
definition OPT_T1 :: u8 where "OPT_T1 = 58"
definition OPT_T2 :: u8 where "OPT_T2 = 59"
definition OPT_END :: u8 where "OPT_END = 255"
definition DHCPDISCOVER :: u8 where "DHCPDISCOVER = 1"
definition DHCPOFFER :: u8 where "DHCPOFFER = 2"
definition DHCPREQUEST :: u8 where "DHCPREQUEST = 3"
definition DHCPACK :: u8 where "DHCPACK = 5"
definition DHCPNAK :: u8 where "DHCPNAK = 6"

lemmas dhcp_consts =
  OP_BOOTREQUEST_def OP_BOOTREPLY_def FLAGS_BROADCAST_def HTYPE_ETHER_def ETH_ALEN_def
  OPT_COOKIE_def OPT_SUBNET_MASK_def OPT_GATEWAY_def OPT_DNS_def OPT_MTU_def OPT_BROADCAST_ADDR_def
  OPT_REQUESTED_IP_def OPT_LEASE_TIME_def OPT_MESSAGE_TYPE_def OPT_SERVER_ID_def
  OPT_PARAMETER_LIST_def OPT_T1_def OPT_T2_def OPT_END_def DHCPDISCOVER_def DHCPOFFER_def
  DHCPREQUEST_def DHCPACK_def DHCPNAK_def

definition kDefaultLeaseTime :: u32 where
  "kDefaultLeaseTime = 10 * 60"

definition kRequestParameters :: bytes where
  "kRequestParameters = [OPT_SUBNET_MASK, OPT_GATEWAY, OPT_DNS, OPT_BROADCAST_ADDR, OPT_LEASE_TIME,
     OPT_T1, OPT_T2, OPT_MTU]"

section \<open>The memory image\<close>

text \<open>Offsets of \<^verbatim>\<open>struct Dhcp\<close>: the fields before the options take 236 bytes.\<close>

definition sizeof_Dhcp :: nat where "sizeof_Dhcp = 1260"
definition off_xid :: nat where "off_xid = 4"
definition off_flags :: nat where "off_flags = 10"
definition off_yiaddr :: nat where "off_yiaddr = 16"
definition off_giaddr :: nat where "off_giaddr = 24"
definition off_chaddr :: nat where "off_chaddr = 28"
definition off_options :: nat where "off_options = 236"

lemmas dhcp_offsets = sizeof_Dhcp_def off_xid_def off_flags_def off_yiaddr_def off_giaddr_def
  off_chaddr_def off_options_def

record Message =
  dhcpData :: bytes
  mSize :: nat

definition mem_at :: "nat \<Rightarrow> nat \<Rightarrow> Message \<Rightarrow> bytes" where
  "mem_at off n m = take n (drop off (dhcpData m))"

definition dhcp_op :: "Message \<Rightarrow> u8" where "dhcp_op m = dhcpData m ! 0"
definition dhcp_htype :: "Message \<Rightarrow> u8" where "dhcp_htype m = dhcpData m ! 1"
definition dhcp_hlen :: "Message \<Rightarrow> u8" where "dhcp_hlen m = dhcpData m ! 2"
definition dhcp_xid :: "Message \<Rightarrow> u32" where "dhcp_xid m = dec_be32 (mem_at off_xid 4 m)"
definition dhcp_flags :: "Message \<Rightarrow> u16" where "dhcp_flags m = dec_be16 (mem_at off_flags 2 m)"
definition dhcp_yiaddr :: "Message \<Rightarrow> u32" where "dhcp_yiaddr m = dec_be32 (mem_at off_yiaddr 4 m)"
definition dhcp_giaddr :: "Message \<Rightarrow> u32" where "dhcp_giaddr m = dec_be32 (mem_at off_giaddr 4 m)"
definition dhcp_chaddr :: "Message \<Rightarrow> bytes" where "dhcp_chaddr m = mem_at off_chaddr ETH_ALEN m"
definition dhcp_options :: "Message \<Rightarrow> bytes" where "dhcp_options m = drop off_options (dhcpData m)"

definition set_mem :: "nat \<Rightarrow> bytes \<Rightarrow> Message \<Rightarrow> Message" where
  "set_mem off bs m = m\<lparr>dhcpData := splice (dhcpData m) off bs\<rparr>"

section \<open>Construction\<close>

definition Message_empty :: Message where
  "Message_empty = \<lparr>dhcpData = replicate sizeof_Dhcp 0, mSize = 0\<rparr>"

text \<open>The bytes after a short copy keep what the memory held before: \<open>old\<close>.\<close>

definition Message_from :: "bytes \<Rightarrow> bytes \<Rightarrow> Message" where
  "Message_from old data =
     (if length data \<le> sizeof_Dhcp
      then \<lparr>dhcpData = splice old 0 data, mSize = length data\<rparr>
      else Message_empty)"

text \<open>\<^verbatim>\<open>sNextTransactionId\<close> is a static counter: the next value is returned with the message.\<close>

definition dhcp_header :: "u8 \<Rightarrow> bytes \<Rightarrow> u32 \<Rightarrow> bytes" where
  "dhcp_header operation mac xid =
     [operation, HTYPE_ETHER, word_of_nat ETH_ALEN, 0] @ enc_be32 xid @ [0, 0] @
     enc_be16 FLAGS_BROADCAST @ replicate 16 0 @ mac @ replicate (off_options - (off_chaddr + ETH_ALEN)) 0"

definition Message_new :: "u8 \<Rightarrow> bytes \<Rightarrow> u8 \<Rightarrow> u32 \<Rightarrow> Message \<times> u32" where
  "Message_new operation mac ty nextXid =
     (let opts = OPT_COOKIE @ [OPT_MESSAGE_TYPE, 1, ty] in
      (\<lparr>dhcpData = dhcp_header operation mac nextXid @ opts @
           replicate (sizeof_Dhcp - off_options - length opts) 0,
        mSize = off_options + length opts\<rparr>, nextXid + 1))"

definition put_options :: "bytes \<Rightarrow> Message \<Rightarrow> Message option" where
  "put_options bs m =
     (if mSize m + length bs \<le> sizeof_Dhcp
      then Some \<lparr>dhcpData = splice (dhcpData m) (mSize m) bs, mSize = mSize m + length bs\<rparr>
      else None)"

text \<open>The length is an 8-bit parameter: the caller's byte count is truncated to it.\<close>

definition addOption :: "u8 \<Rightarrow> bytes \<Rightarrow> u8 \<Rightarrow> Message \<Rightarrow> Message option" where
  "addOption ty data len m = put_options (ty # len # take (unat len) data) m"

definition add_array :: "u8 \<Rightarrow> bytes \<Rightarrow> Message \<Rightarrow> Message option" where
  "add_array ty items m = addOption ty items (word_of_nat (length items)) m"

definition endOptions :: "Message \<Rightarrow> Message option" where
  "endOptions m = put_options [OPT_END] m"

definition discover :: "bytes \<Rightarrow> u32 \<Rightarrow> (Message \<times> u32) option" where
  "discover sourceMac nextXid =
     (case Message_new OP_BOOTREQUEST sourceMac DHCPDISCOVER nextXid of (m, n) \<Rightarrow> do {
        m \<leftarrow> add_array OPT_PARAMETER_LIST kRequestParameters m;
        m \<leftarrow> endOptions m;
        Some (m, n) })"

definition request :: "bytes \<Rightarrow> u32 \<Rightarrow> u32 \<Rightarrow> u32 \<Rightarrow> (Message \<times> u32) option" where
  "request sourceMac requestAddress serverAddress nextXid =
     (case Message_new OP_BOOTREQUEST sourceMac DHCPREQUEST nextXid of (m, n) \<Rightarrow> do {
        m \<leftarrow> add_array OPT_PARAMETER_LIST kRequestParameters m;
        m \<leftarrow> addOption OPT_REQUESTED_IP (enc_be32 requestAddress) 4 m;
        m \<leftarrow> addOption OPT_SERVER_ID (enc_be32 serverAddress) 4 m;
        m \<leftarrow> endOptions m;
        Some (m, n) })"

text \<open>\<^verbatim>\<open>kDefaultLeaseTime\<close> is stored as it is in memory, in host order.\<close>

definition enc_host32 :: "u32 \<Rightarrow> bytes" where
  "enc_host32 w = nat_to_le 4 (unat w)"

definition server_reply :: "u8 \<Rightarrow> Message \<Rightarrow> u32 \<Rightarrow> u32 \<Rightarrow> u32 \<Rightarrow> u32 \<Rightarrow> u32 list \<Rightarrow> u32 \<Rightarrow>
    (Message \<times> u32) option" where
  "server_reply ty source serverAddress address netmask gateway dns nextXid =
     (case Message_new OP_BOOTREPLY (dhcp_chaddr source) ty nextXid of (m, n) \<Rightarrow>
        let m = set_mem off_xid (enc_be32 (dhcp_xid source)) m;
            m = set_mem off_flags (enc_be16 (dhcp_flags source)) m;
            m = set_mem off_yiaddr (enc_be32 address) m;
            m = set_mem off_giaddr (enc_be32 (dhcp_giaddr source)) m
        in do {
          m \<leftarrow> addOption OPT_SERVER_ID (enc_be32 serverAddress) 4 m;
          m \<leftarrow> addOption OPT_LEASE_TIME (enc_host32 kDefaultLeaseTime) 4 m;
          m \<leftarrow> addOption OPT_SUBNET_MASK (enc_be32 netmask) 4 m;
          m \<leftarrow> addOption OPT_GATEWAY (enc_be32 gateway) 4 m;
          m \<leftarrow> addOption OPT_DNS (enc_array enc_be32 dns) (word_of_nat (length dns * 4)) m;
          m \<leftarrow> endOptions m;
          Some (m, n) })"

definition offer :: "Message \<Rightarrow> u32 \<Rightarrow> u32 \<Rightarrow> u32 \<Rightarrow> u32 \<Rightarrow> u32 list \<Rightarrow> u32 \<Rightarrow> (Message \<times> u32) option" where
  "offer = server_reply DHCPOFFER"

definition ack :: "Message \<Rightarrow> u32 \<Rightarrow> u32 \<Rightarrow> u32 \<Rightarrow> u32 \<Rightarrow> u32 list \<Rightarrow> u32 \<Rightarrow> (Message \<times> u32) option" where
  "ack = server_reply DHCPACK"

definition nack :: "Message \<Rightarrow> u32 \<Rightarrow> u32 \<Rightarrow> (Message \<times> u32) option" where
  "nack source serverAddress nextXid =
     (case Message_new OP_BOOTREPLY (dhcp_chaddr source) DHCPNAK nextXid of (m, n) \<Rightarrow>
        let m = set_mem off_xid (enc_be32 (dhcp_xid source)) m;
            m = set_mem off_flags (enc_be16 (dhcp_flags source)) m;
            m = set_mem off_giaddr (enc_be32 (dhcp_giaddr source)) m
        in do {
          m \<leftarrow> addOption OPT_SERVER_ID (enc_be32 serverAddress) 4 m;
          m \<leftarrow> endOptions m;
          Some (m, n) })"

section \<open>Inspection\<close>

definition optionsSize :: "Message \<Rightarrow> nat" where
  "optionsSize m = mSize m - off_options"

definition isValidDhcpMessage_op :: "u8 \<Rightarrow> Message \<Rightarrow> bool" where
  "isValidDhcpMessage_op expectedOp m \<longleftrightarrow>
     \<not> off_options + 4 > mSize m \<and> dhcp_op m = expectedOp \<and> dhcp_htype m = HTYPE_ETHER \<and>
     dhcp_hlen m = word_of_nat ETH_ALEN \<and> take 4 (dhcp_options m) = OPT_COOKIE"

definition isValidDhcpMessage :: "u8 \<Rightarrow> u32 \<Rightarrow> Message \<Rightarrow> bool" where
  "isValidDhcpMessage expectedOp expectedXid m \<longleftrightarrow>
     isValidDhcpMessage_op expectedOp m \<and> dhcp_xid m = expectedXid"

function getOption_from :: "bytes \<Rightarrow> nat \<Rightarrow> u8 \<Rightarrow> nat \<Rightarrow> (nat \<times> u8) option" where
  "getOption_from opts optsSize expected i =
     (if i + 2 < optsSize then
        let optCode = opts ! i; optLen = opts ! (i + 1) in
        if optCode = OPT_END then None
        else if optCode = expected then Some (i + 2, optLen)
        else getOption_from opts optsSize expected (i + 2 + unat optLen)
      else None)"
  by pat_completeness auto
termination by (relation "measure (\<lambda>(opts, n, e, i). n - i)") auto

declare getOption_from.simps [simp del]

text \<open>The position of the option's data among the options, and its length.\<close>

definition getOption :: "u8 \<Rightarrow> Message \<Rightarrow> (nat \<times> u8) option" where
  "getOption expected m = getOption_from (dhcp_options m) (optionsSize m) expected 4"

text \<open>A read of \<open>n\<close> bytes of the options; past the end of the array it is an error.\<close>

definition opt_read :: "nat \<Rightarrow> nat \<Rightarrow> Message \<Rightarrow> bytes option" where
  "opt_read p n m = (if p + n \<le> length (dhcp_options m) then Some (take n (drop p (dhcp_options m))) else None)"

definition msg_type :: "Message \<Rightarrow> u8 option" where
  "msg_type m = (case getOption OPT_MESSAGE_TYPE m of
     Some (p, len) \<Rightarrow> if len = 1 then map_option hd (opt_read p 1 m) else Some 0
   | None \<Rightarrow> Some 0)"

definition addr_option :: "u8 \<Rightarrow> Message \<Rightarrow> u32 option" where
  "addr_option code m = (case getOption code m of
     Some (p, len) \<Rightarrow> if len = 4 then map_option dec_be32 (opt_read p 4 m) else Some 0
   | None \<Rightarrow> Some 0)"

definition serverId :: "Message \<Rightarrow> u32 option" where
  "serverId m = addr_option OPT_SERVER_ID m"

definition requestedIp :: "Message \<Rightarrow> u32 option" where
  "requestedIp m = addr_option OPT_REQUESTED_IP m"

section \<open>The option list a message carries\<close>

text \<open>
  The abstract view: a header, then the cookie, then options as pairs of a code and data, then
  what ends them. \<open>layout m hdr os fin\<close> says that the first \<open>mSize\<close> bytes of the image are
  exactly that.
\<close>

definition opt_bytes :: "u8 \<times> bytes \<Rightarrow> bytes" where
  "opt_bytes o' = fst o' # word_of_nat (length (snd o')) # snd o'"

definition opts_bytes :: "(u8 \<times> bytes) list \<Rightarrow> bytes" where
  "opts_bytes os = concat (map opt_bytes os)"

definition opt_ok :: "u8 \<times> bytes \<Rightarrow> bool" where
  "opt_ok o' \<longleftrightarrow> fst o' \<noteq> OPT_END \<and> length (snd o') < 256"

definition layout :: "Message \<Rightarrow> bytes \<Rightarrow> (u8 \<times> bytes) list \<Rightarrow> bytes \<Rightarrow> bool" where
  "layout m hdr os fin \<longleftrightarrow>
     length (dhcpData m) = sizeof_Dhcp \<and> length hdr = off_options \<and> mSize m \<le> sizeof_Dhcp \<and>
     take (mSize m) (dhcpData m) = hdr @ OPT_COOKIE @ opts_bytes os @ fin"

lemma opts_bytes_simps [simp]:
  "opts_bytes [] = []"
  "opts_bytes ((c, d) # os) = c # word_of_nat (length d) # d @ opts_bytes os"
  "opts_bytes (os @ os') = opts_bytes os @ opts_bytes os'"
  by (simp_all add: opts_bytes_def opt_bytes_def)

lemma layout_mSize: "layout m hdr os fin \<Longrightarrow> mSize m = 240 + length (opts_bytes os) + length fin"
  by (auto simp: layout_def dhcp_offsets OPT_COOKIE_def dest: arg_cong [where f = length])

lemma layout_options:
  assumes "layout m hdr os fin"
  shows "take (optionsSize m) (dhcp_options m) = OPT_COOKIE @ opts_bytes os @ fin"
    and "optionsSize m = 4 + length (opts_bytes os) + length fin"
    and "length (dhcp_options m) = 1024"
proof -
  have "take (optionsSize m) (dhcp_options m) = drop off_options (take (mSize m) (dhcpData m))"
    by (simp add: optionsSize_def dhcp_options_def drop_take)
  with assms show "take (optionsSize m) (dhcp_options m) = OPT_COOKIE @ opts_bytes os @ fin"
    by (simp add: layout_def)
  show "optionsSize m = 4 + length (opts_bytes os) + length fin"
    using layout_mSize [OF assms] by (simp add: optionsSize_def dhcp_offsets)
  show "length (dhcp_options m) = 1024"
    using assms by (simp add: layout_def dhcp_options_def dhcp_offsets)
qed

lemma layout_mem:
  assumes "layout m hdr os fin" and "off + n \<le> off_options"
  shows "mem_at off n m = take n (drop off hdr)"
proof -
  have sz: "off_options \<le> mSize m" and len: "length hdr = off_options"
    using layout_mSize [OF assms(1)] assms(1) by (auto simp: dhcp_offsets layout_def)
  have "mem_at off n m = take n (drop off (take (mSize m) (dhcpData m)))"
    using assms(2) sz by (simp add: mem_at_def drop_take min_def)
  also have "\<dots> = take n (drop off hdr)"
    using assms len by (simp add: layout_def)
  finally show ?thesis .
qed

lemma layout_nth: "layout m hdr os fin \<Longrightarrow> i < off_options \<Longrightarrow> dhcpData m ! i = hdr ! i"
proof -
  assume a: "layout m hdr os fin" "i < off_options"
  then have "i < mSize m" using layout_mSize [OF a(1)] by (simp add: dhcp_offsets)
  then have "dhcpData m ! i = take (mSize m) (dhcpData m) ! i" by simp
  also have "\<dots> = hdr ! i" using a by (simp add: layout_def nth_append)
  finally show ?thesis .
qed

section \<open>Looking an option up\<close>

lemma nth_of_drop_take:
  assumes "drop i (take n xs) = y # ys" shows "i < n" and "xs ! i = y" and "drop (Suc i) (take n xs) = ys"
proof -
  have "i < length (take n xs)" using assms by (metis drop_all list.distinct(1) not_le)
  then show "i < n" by simp
  with \<open>i < length (take n xs)\<close> show "xs ! i = y"
    using assms by (metis Cons_nth_drop_Suc list.inject nth_take)
  show "drop (Suc i) (take n xs) = ys" using assms by (metis drop_Suc list.sel(3) tl_drop)
qed

text \<open>One option at the front of what is left: its two header bytes, its data, and the rest.\<close>

lemma opts_bytes_step:
  assumes "drop i (take n opts) = opts_bytes ((c, d) # os) @ fin" and "fin \<noteq> []" and "length d < 256"
    and "n \<le> length opts"
  shows "opts ! i = c" and "opts ! (i + 1) = word_of_nat (length d)"
    and "unat (word_of_nat (length d) :: u8) = length d"
    and "drop (i + 2 + length d) (take n opts) = opts_bytes os @ fin" and "i + 2 + length d < n"
    and "take (length d) (drop (i + 2) opts) = d"
proof -
  note s1 = nth_of_drop_take [OF assms(1) [unfolded opts_bytes_simps append_Cons]]
  note s2 = nth_of_drop_take [OF s1(3)]
  show "opts ! i = c" using s1(2) .
  show "opts ! (i + 1) = word_of_nat (length d)" using s2(2) by simp
  show "unat (word_of_nat (length d) :: u8) = length d" using assms(3) by (simp add: unat_of_nat)
  have "drop (i + 2 + length d) (take n opts) = drop (length d) (drop (i + 2) (take n opts))"
    by (simp add: add.commute)
  then show rest: "drop (i + 2 + length d) (take n opts) = opts_bytes os @ fin" using s2(3) by simp
  have "0 < length (drop (i + 2 + length d) (take n opts))" unfolding rest using assms(2) by simp
  then show pos: "i + 2 + length d < n" using assms(4) by simp
  have "take (length d) (drop (i + 2) (take n opts)) = d" using s2(3) by simp
  moreover have "length d \<le> n - (i + 2)" using pos by simp
  ultimately show "take (length d) (drop (i + 2) opts) = d" by (simp add: drop_take min.absorb1)
qed

text \<open>The scanning loop finds the first option with the code, and its data and length are those
  of the list.\<close>

lemma getOption_from_list:
  assumes "drop i (take n opts) = opts_bytes os @ [OPT_END]" and "list_all opt_ok os"
    and "n \<le> length opts"
  shows "case map_of os code of
     None \<Rightarrow> getOption_from opts n code i = None
   | Some d \<Rightarrow> (\<exists>p. getOption_from opts n code i = Some (p, word_of_nat (length d)) \<and>
       p + length d < n \<and> take (length d) (drop p opts) = d)"
  using assms
proof (induction os arbitrary: i)
  case Nil
  then have "i + 1 = n \<or> n = 0 \<or> n \<le> i"
    by (auto dest: arg_cong [where f = length])
  then have "\<not> i + 2 < n" by auto
  then show ?case by (simp add: getOption_from.simps)
next
  case (Cons o' os)
  obtain c d where o': "o' = (c, d)" by (cases o')
  have ok: "c \<noteq> OPT_END" "length d < 256" "list_all opt_ok os"
    using Cons.prems(2) by (simp_all add: o' opt_ok_def [of "(c, d)"])
  note st = opts_bytes_step [OF Cons.prems(1) [unfolded o'] list.distinct(2) ok(2) Cons.prems(3)]
  show ?case
  proof (cases "c = code")
    case True
    then show ?thesis
      using ok(1) st by (simp add: o' getOption_from.simps Let_def)
  next
    case False
    then have "getOption_from opts n code i = getOption_from opts n code (i + 2 + length d)"
      using ok(1) st(1,2,3,5) by (simp add: getOption_from.simps [of opts n code i] Let_def)
    moreover have "map_of (o' # os) code = map_of os code" using False by (simp add: o')
    ultimately show ?thesis
      using Cons.IH [OF st(4) ok(3) Cons.prems(3)] by (simp only:)
  qed
qed

lemma getOption_list:
  assumes "layout m hdr os [OPT_END]" and "list_all opt_ok os"
  shows "case map_of os code of
     None \<Rightarrow> getOption code m = None
   | Some d \<Rightarrow> (\<exists>p. getOption code m = Some (p, word_of_nat (length d)) \<and> opt_read p (length d) m = Some d)"
proof -
  note lo = layout_options [OF assms(1)]
  have sz: "optionsSize m \<le> length (dhcp_options m)"
    using assms(1) lo(3) by (auto simp: layout_def optionsSize_def dhcp_offsets)
  have "drop 4 (take (optionsSize m) (dhcp_options m)) = opts_bytes os @ [OPT_END]"
    unfolding lo(1) by (simp add: OPT_COOKIE_def)
  from getOption_from_list [OF this assms(2) sz, of code] sz show ?thesis
    by (auto simp: getOption_def opt_read_def split: option.splits)
qed

lemma option_lookup:
  assumes "layout m hdr os [OPT_END]" and "list_all opt_ok os" and "map_of os code = Some d"
  obtains p where "getOption code m = Some (p, word_of_nat (length d))"
    and "opt_read p (length d) m = Some d"
  using getOption_list [OF assms(1,2), of code] assms(3) by auto

lemma addr_option_list:
  assumes "layout m hdr os [OPT_END]" and "list_all opt_ok os" and "map_of os code = Some (enc_be32 a)"
  shows "addr_option code m = Some a"
proof -
  obtain p where "getOption code m = Some (p, word_of_nat (length (enc_be32 a)))"
    and "opt_read p (length (enc_be32 a)) m = Some (enc_be32 a)"
    using option_lookup [OF assms] .
  then show ?thesis by (simp add: addr_option_def be32.length_enc)
qed

lemma msg_type_list:
  assumes "layout m hdr os [OPT_END]" and "list_all opt_ok os" and "map_of os OPT_MESSAGE_TYPE = Some [ty]"
  shows "msg_type m = Some ty"
proof -
  obtain p where "getOption OPT_MESSAGE_TYPE m = Some (p, word_of_nat (length [ty]))"
    and "opt_read p (length [ty]) m = Some [ty]"
    using option_lookup [OF assms] .
  then show ?thesis by (simp add: msg_type_def)
qed

section \<open>What the builders produce\<close>

lemma take_splice_end:
  assumes "n \<le> length img" shows "take (n + length bs) (splice img n bs) = take n img @ bs"
  using assms by (simp add: splice_def)

lemma put_options_layout:
  assumes "layout m hdr os fin" and "mSize m + length bs \<le> sizeof_Dhcp"
    and "opts_bytes os @ fin @ bs = opts_bytes os' @ fin'"
  shows "\<exists>m'. put_options bs m = Some m' \<and> layout m' hdr os' fin' \<and> mSize m' = mSize m + length bs"
proof -
  have "mSize m \<le> length (dhcpData m)" using assms(1) by (simp add: layout_def)
  from take_splice_end [OF this, of bs] show ?thesis
    using assms by (simp add: put_options_def layout_def max_def)
qed

lemma addOption_layout:
  assumes "layout m hdr os []" and "mSize m + 2 + length d \<le> sizeof_Dhcp" and "length d < 256"
    and "len = word_of_nat (length d)"
  shows "\<exists>m'. addOption c d len m = Some m' \<and> layout m' hdr (os @ [(c, d)]) [] \<and>
    mSize m' = mSize m + 2 + length d"
proof -
  have "unat len = length d" using assms(3,4) by (simp add: unat_of_nat)
  then show ?thesis
    using put_options_layout [OF assms(1), of "c # len # d" "os @ [(c, d)]" "[]"] assms(2,4)
    by (simp add: addOption_def)
qed

lemma endOptions_layout:
  assumes "layout m hdr os []" and "mSize m < sizeof_Dhcp"
  shows "\<exists>m'. endOptions m = Some m' \<and> layout m' hdr os [OPT_END]"
  using put_options_layout [OF assms(1), of "[OPT_END]" os "[OPT_END]"] assms(2)
  by (auto simp: endOptions_def)

lemma length_dhcp_header: "length mac = ETH_ALEN \<Longrightarrow> length (dhcp_header op mac xid) = off_options"
  by (simp add: dhcp_header_def be32.length_enc be16.length_enc dhcp_offsets ETH_ALEN_def)

lemma Message_new_layout:
  assumes "length mac = ETH_ALEN"
  shows "layout (fst (Message_new op mac ty xid)) (dhcp_header op mac xid) [(OPT_MESSAGE_TYPE, [ty])] []"
    and "mSize (fst (Message_new op mac ty xid)) = 243" and "snd (Message_new op mac ty xid) = xid + 1"
  using length_dhcp_header [OF assms, of op xid]
  by (simp_all add: Message_new_def Let_def layout_def dhcp_offsets OPT_COOKIE_def)

lemma kRequestParameters_length [simp]: "length kRequestParameters = 8"
  by (simp add: kRequestParameters_def)

text \<open>A sequence of additions, closed by the end marker, appends its list.\<close>

fun add_options :: "(u8 \<times> bytes) list \<Rightarrow> Message \<Rightarrow> Message option" where
  "add_options [] m = endOptions m"
| "add_options ((c, d) # os) m = do { m \<leftarrow> addOption c d (word_of_nat (length d)) m; add_options os m }"

lemma add_options_fun:
  "add_options [] = endOptions"
  "add_options ((c, d) # os) = (\<lambda>m. do { m \<leftarrow> addOption c d (word_of_nat (length d)) m; add_options os m })"
  by (auto simp: fun_eq_iff)

lemma add_options_layout:
  assumes "layout m hdr os []" and "list_all (\<lambda>o'. length (snd o') < 256) os'"
    and "mSize m + length (opts_bytes os') < sizeof_Dhcp"
  shows "\<exists>m'. add_options os' m = Some m' \<and> layout m' hdr (os @ os') [OPT_END]"
  using assms
proof (induction os' arbitrary: m os)
  case Nil
  then show ?case using endOptions_layout by simp
next
  case (Cons o' os')
  obtain c d where o': "o' = (c, d)" by (cases o')
  with Cons.prems obtain m1 where m1: "addOption c d (word_of_nat (length d)) m = Some m1"
      "layout m1 hdr (os @ [(c, d)]) []" "mSize m1 = mSize m + 2 + length d"
    using addOption_layout [OF Cons.prems(1) _ _ refl, of d c] by auto
  have "list_all (\<lambda>o'. length (snd o') < 256) os'" and "mSize m1 + length (opts_bytes os') < sizeof_Dhcp"
    using Cons.prems(2,3) m1(3) by (simp_all add: o')
  from Cons.IH [OF m1(2) this] show ?case using m1(1) by (auto simp: o')
qed

lemma Message_new_built:
  assumes "length mac = ETH_ALEN" and "list_all (\<lambda>o'. length (snd o') < 256) os"
    and "243 + length (opts_bytes os) < sizeof_Dhcp"
  shows "\<exists>m. do { m \<leftarrow> add_options os (fst (Message_new op mac ty xid)); Some (m, xid + 1) } = Some (m, xid + 1) \<and>
    layout m (dhcp_header op mac xid) ((OPT_MESSAGE_TYPE, [ty]) # os) [OPT_END]"
  using add_options_layout [OF Message_new_layout(1) [OF assms(1)] assms(2), of op ty xid] assms(3)
    Message_new_layout(2) [OF assms(1), of op ty xid] by auto

lemma discover_layout:
  assumes "length mac = ETH_ALEN"
  shows "\<exists>m. discover mac xid = Some (m, xid + 1) \<and>
    layout m (dhcp_header OP_BOOTREQUEST mac xid)
      [(OPT_MESSAGE_TYPE, [DHCPDISCOVER]), (OPT_PARAMETER_LIST, kRequestParameters)] [OPT_END]"
  using Message_new_built [OF assms, of "[(OPT_PARAMETER_LIST, kRequestParameters)]"
      OP_BOOTREQUEST DHCPDISCOVER xid] Message_new_layout(3) [OF assms, of OP_BOOTREQUEST DHCPDISCOVER xid]
  by (simp add: discover_def add_array_def case_prod_beta dhcp_offsets)

lemma request_layout:
  assumes "length mac = ETH_ALEN"
  shows "\<exists>m. request mac a b xid = Some (m, xid + 1) \<and>
    layout m (dhcp_header OP_BOOTREQUEST mac xid)
      [(OPT_MESSAGE_TYPE, [DHCPREQUEST]), (OPT_PARAMETER_LIST, kRequestParameters),
       (OPT_REQUESTED_IP, enc_be32 a), (OPT_SERVER_ID, enc_be32 b)] [OPT_END]"
  using Message_new_built [OF assms, of "[(OPT_PARAMETER_LIST, kRequestParameters),
      (OPT_REQUESTED_IP, enc_be32 a), (OPT_SERVER_ID, enc_be32 b)]" OP_BOOTREQUEST DHCPREQUEST xid]
    Message_new_layout(3) [OF assms, of OP_BOOTREQUEST DHCPREQUEST xid]
  by (simp add: request_def add_array_def case_prod_beta dhcp_offsets be32.length_enc)

lemma dhcp_header_fields:
  assumes "length mac = ETH_ALEN" and "layout m (dhcp_header op mac xid) os fin"
  shows "isValidDhcpMessage op xid m" and "dhcp_chaddr m = mac" and "dhcp_flags m = FLAGS_BROADCAST"
proof -
  note mem = layout_mem [OF assms(2)] and nth = layout_nth [OF assms(2)]
  have "dhcp_xid m = xid"
    by (simp add: dhcp_xid_def mem dhcp_offsets dhcp_header_def be32.length_enc)
  moreover have "take 4 (dhcp_options m) = take 4 (take (optionsSize m) (dhcp_options m))"
    using layout_options(2) [OF assms(2)] by simp
  then have "take 4 (dhcp_options m) = OPT_COOKIE"
    using layout_options(1) [OF assms(2)] by (simp add: OPT_COOKIE_def)
  moreover have "\<not> mSize m < off_options + 4"
    using layout_mSize [OF assms(2)] by (simp add: dhcp_offsets)
  ultimately show "isValidDhcpMessage op xid m"
    by (simp add: isValidDhcpMessage_def isValidDhcpMessage_op_def dhcp_op_def dhcp_htype_def
      dhcp_hlen_def nth dhcp_offsets dhcp_header_def)
  show "dhcp_chaddr m = mac"
    using assms(1) by (simp add: dhcp_chaddr_def mem dhcp_offsets ETH_ALEN_def dhcp_header_def
      be32.length_enc be16.length_enc)
  show "dhcp_flags m = FLAGS_BROADCAST"
    by (simp add: dhcp_flags_def mem dhcp_offsets dhcp_header_def be32.length_enc be16.length_enc)
qed

text \<open>A server's reply: the header of a new message with four fields overwritten.\<close>

definition reply_header :: "Message \<Rightarrow> u32 \<Rightarrow> u32 \<Rightarrow> bytes" where
  "reply_header source address xid =
     splice (splice (splice (splice (dhcp_header OP_BOOTREPLY (dhcp_chaddr source) xid)
       off_xid (enc_be32 (dhcp_xid source))) off_flags (enc_be16 (dhcp_flags source)))
       off_yiaddr (enc_be32 address)) off_giaddr (enc_be32 (dhcp_giaddr source))"

lemma set_mem_layout:
  assumes "layout m hdr os fin" and "off + length bs \<le> off_options"
  shows "layout (set_mem off bs m) (splice hdr off bs) os fin" and "mSize (set_mem off bs m) = mSize m"
proof -
  have len: "length hdr = off_options" and sz: "off_options \<le> mSize m" "mSize m \<le> length (dhcpData m)"
    using assms(1) layout_mSize [OF assms(1)] by (auto simp: layout_def dhcp_offsets)
  have "take (mSize m) (splice (dhcpData m) off bs) = splice (take (mSize m) (dhcpData m)) off bs"
  proof -
    have le: "off + length bs \<le> mSize m" using assms(2) sz(1) by simp
    then have "off - mSize m = 0" "off - length (dhcpData m) = 0" using sz(2) by simp_all
    then show ?thesis using le by (simp add: splice_def min.absorb1 drop_take)
  qed
  then show "layout (set_mem off bs m) (splice hdr off bs) os fin"
    using assms len sz by (simp add: layout_def set_mem_def splice_append_inside max_def)
  show "mSize (set_mem off bs m) = mSize m" by (simp add: set_mem_def)
qed

lemma server_reply_layout:
  assumes "length (dhcpData source) = sizeof_Dhcp" and "length dns \<le> 63"
  shows "\<exists>m. server_reply ty source server address nmask gw dns xid = Some (m, xid + 1) \<and>
    layout m (reply_header source address xid)
      [(OPT_MESSAGE_TYPE, [ty]), (OPT_SERVER_ID, enc_be32 server),
       (OPT_LEASE_TIME, enc_host32 kDefaultLeaseTime), (OPT_SUBNET_MASK, enc_be32 nmask),
       (OPT_GATEWAY, enc_be32 gw), (OPT_DNS, enc_array enc_be32 dns)] [OPT_END]"
proof -
  have mac: "length (dhcp_chaddr source) = ETH_ALEN"
    using assms(1) by (simp add: dhcp_chaddr_def mem_at_def dhcp_offsets ETH_ALEN_def)
  define m0 where "m0 = fst (Message_new OP_BOOTREPLY (dhcp_chaddr source) ty xid)"
  note l0 = Message_new_layout [OF mac, of OP_BOOTREPLY ty xid, folded m0_def]
  define m4 where "m4 = set_mem off_giaddr (enc_be32 (dhcp_giaddr source)) (set_mem off_yiaddr (enc_be32 address)
    (set_mem off_flags (enc_be16 (dhcp_flags source)) (set_mem off_xid (enc_be32 (dhcp_xid source)) m0)))"
  have l4: "layout m4 (reply_header source address xid) [(OPT_MESSAGE_TYPE, [ty])] []"
    unfolding m4_def reply_header_def
    by (intro set_mem_layout(1) l0(1)) (simp_all add: dhcp_offsets be32.length_enc be16.length_enc)
  have s4: "mSize m4 = 243" using l0(2) by (simp add: m4_def set_mem_def)
  have dl: "length (enc_array enc_be32 dns) = length dns * 4" by (rule be32.length_enc_array)
  have "\<exists>m. add_options [(OPT_SERVER_ID, enc_be32 server),
       (OPT_LEASE_TIME, enc_host32 kDefaultLeaseTime), (OPT_SUBNET_MASK, enc_be32 nmask),
       (OPT_GATEWAY, enc_be32 gw), (OPT_DNS, enc_array enc_be32 dns)] m4 = Some m \<and>
    layout m (reply_header source address xid)
      ([(OPT_MESSAGE_TYPE, [ty])] @ [(OPT_SERVER_ID, enc_be32 server),
       (OPT_LEASE_TIME, enc_host32 kDefaultLeaseTime), (OPT_SUBNET_MASK, enc_be32 nmask),
       (OPT_GATEWAY, enc_be32 gw), (OPT_DNS, enc_array enc_be32 dns)]) [OPT_END]"
    by (rule add_options_layout [OF l4])
      (use assms(2) in \<open>simp_all add: s4 dl be32.length_enc enc_host32_def dhcp_offsets\<close>)
  moreover have "Message_new OP_BOOTREPLY (dhcp_chaddr source) ty xid = (m0, xid + 1)"
    using l0(3) by (simp add: m0_def prod_eq_iff)
  ultimately show ?thesis
    by (auto simp: server_reply_def Let_def m4_def [symmetric] be32.length_enc enc_host32_def dl
      add_options_fun Option.bind_eq_Some_conv)
qed

lemma length_reply_header [simp]:
  "length (dhcpData source) = sizeof_Dhcp \<Longrightarrow> length (reply_header source address xid) = off_options"
proof -
  assume "length (dhcpData source) = sizeof_Dhcp"
  then have "length (dhcp_chaddr source) = ETH_ALEN"
    by (simp add: dhcp_chaddr_def mem_at_def dhcp_offsets ETH_ALEN_def)
  from length_dhcp_header [OF this] show ?thesis
    by (simp add: reply_header_def be32.length_enc be16.length_enc dhcp_offsets)
qed

lemma reply_header_fields:
  assumes "length (dhcpData source) = sizeof_Dhcp" and "layout m (reply_header source address xid) os fin"
  shows "isValidDhcpMessage OP_BOOTREPLY (dhcp_xid source) m" and "dhcp_chaddr m = dhcp_chaddr source"
    and "dhcp_yiaddr m = address" and "dhcp_giaddr m = dhcp_giaddr source"
    and "dhcp_flags m = dhcp_flags source"
proof -
  define h where "h = dhcp_header OP_BOOTREPLY (dhcp_chaddr source) xid"
  have mac: "length (dhcp_chaddr source) = ETH_ALEN"
    using assms(1) by (simp add: dhcp_chaddr_def mem_at_def dhcp_offsets ETH_ALEN_def)
  have lh: "length h = 236" using length_dhcp_header [OF mac] by (simp add: h_def dhcp_offsets)
  have rh: "reply_header source address xid = take 4 h @ enc_be32 (dhcp_xid source) @ [0, 0] @
      enc_be16 (dhcp_flags source) @ replicate 4 0 @ enc_be32 address @ replicate 4 0 @
      enc_be32 (dhcp_giaddr source) @ drop 28 h"
    by (simp add: reply_header_def h_def [symmetric] lh splice_def be32.length_enc be16.length_enc dhcp_offsets)
      (simp add: h_def dhcp_header_def be32.length_enc be16.length_enc numeral_eq_Suc)
  have h4: "take 4 h = [OP_BOOTREPLY, HTYPE_ETHER, word_of_nat ETH_ALEN, 0]"
    by (simp add: h_def dhcp_header_def)
  have h28: "take 6 (drop 28 h) = dhcp_chaddr source"
    using mac by (simp add: h_def dhcp_header_def be32.length_enc be16.length_enc ETH_ALEN_def)
  note mem = layout_mem [OF assms(2)] and nth = layout_nth [OF assms(2)]
  have "dhcp_xid m = dhcp_xid source"
    by (simp add: dhcp_xid_def [of m] mem dhcp_offsets rh lh be32.length_enc)
  moreover have "take 4 (dhcp_options m) = take 4 (take (optionsSize m) (dhcp_options m))"
    using layout_options(2) [OF assms(2)] by simp
  then have "take 4 (dhcp_options m) = OPT_COOKIE"
    using layout_options(1) [OF assms(2)] by (simp add: OPT_COOKIE_def)
  moreover have "\<not> mSize m < off_options + 4"
    using layout_mSize [OF assms(2)] by (simp add: dhcp_offsets)
  ultimately show "isValidDhcpMessage OP_BOOTREPLY (dhcp_xid source) m"
    by (simp add: isValidDhcpMessage_def isValidDhcpMessage_op_def dhcp_op_def dhcp_htype_def
      dhcp_hlen_def nth dhcp_offsets rh h4)
  show "dhcp_chaddr m = dhcp_chaddr source"
    using h28 by (simp add: dhcp_chaddr_def [of m] mem dhcp_offsets ETH_ALEN_def rh lh
      be32.length_enc be16.length_enc)
  show "dhcp_yiaddr m = address" and "dhcp_giaddr m = dhcp_giaddr source"
    and "dhcp_flags m = dhcp_flags source"
    by (simp_all add: dhcp_yiaddr_def [of m] dhcp_giaddr_def [of m] dhcp_flags_def [of m] mem
      dhcp_offsets rh lh be32.length_enc be16.length_enc)
qed

lemma nat_to_le_4: "nat_to_le 4 k = [word_of_nat (k mod 256), word_of_nat (k div 256 mod 256),
    word_of_nat (k div 256 div 256 mod 256), word_of_nat (k div 256 div 256 div 256 mod 256)]"
proof -
  have "nat_to_le (Suc (Suc (Suc (Suc 0)))) k = [word_of_nat (k mod 256), word_of_nat (k div 256 mod 256),
    word_of_nat (k div 256 div 256 mod 256), word_of_nat (k div 256 div 256 div 256 mod 256)]"
    by (simp only: nat_to_le.simps)
  moreover have "Suc (Suc (Suc (Suc 0))) = 4" by simp
  ultimately show ?thesis by (simp only:)
qed

section \<open>Properties\<close>

text \<open>Property C24: the request a client builds parses back to what it was built from. It is a
  valid request with the transaction id of the counter, it carries the client's hardware address,
  its type is \<^verbatim>\<open>DHCPREQUEST\<close>, and the requested address and the server are the ones given.\<close>

theorem dhcp_request_parses_back:
  assumes "length mac = ETH_ALEN"
  shows "\<exists>m. request mac address server xid = Some (m, xid + 1) \<and>
    isValidDhcpMessage OP_BOOTREQUEST xid m \<and> dhcp_chaddr m = mac \<and>
    msg_type m = Some DHCPREQUEST \<and> requestedIp m = Some address \<and> serverId m = Some server"
proof -
  obtain m where r: "request mac address server xid = Some (m, xid + 1)"
    and l: "layout m (dhcp_header OP_BOOTREQUEST mac xid)
      [(OPT_MESSAGE_TYPE, [DHCPREQUEST]), (OPT_PARAMETER_LIST, kRequestParameters),
       (OPT_REQUESTED_IP, enc_be32 address), (OPT_SERVER_ID, enc_be32 server)] [OPT_END]"
    using request_layout [OF assms] by blast
  have ok: "list_all opt_ok [(OPT_MESSAGE_TYPE, [DHCPREQUEST]), (OPT_PARAMETER_LIST, kRequestParameters),
       (OPT_REQUESTED_IP, enc_be32 address), (OPT_SERVER_ID, enc_be32 server)]"
    by (simp add: opt_ok_def be32.length_enc dhcp_consts)
  have "msg_type m = Some DHCPREQUEST" by (rule msg_type_list [OF l ok]) simp
  moreover have "requestedIp m = Some address"
    unfolding requestedIp_def by (rule addr_option_list [OF l ok]) (simp add: dhcp_consts)
  moreover have "serverId m = Some server"
    unfolding serverId_def by (rule addr_option_list [OF l ok]) (simp add: dhcp_consts)
  ultimately show ?thesis using r dhcp_header_fields [OF assms l] by blast
qed

lemma dhcp_request_parses_back_witness:
  "\<exists>m. request [2, 0, 0, 0x44, 0x55, 0x66] 0x0A00020F 0x0A000202 7 = Some (m, 8) \<and>
    requestedIp m = Some 0x0A00020F"
  using dhcp_request_parses_back [of "[2, 0, 0, 0x44, 0x55, 0x66]" "0x0A00020F" "0x0A000202" 7]
  by (auto simp: ETH_ALEN_def)

text \<open>A server's offer or acknowledgement answers the message it was built from. It
  is a valid reply for that message's transaction and hardware address, assigns the given address,
  names the server, and carries the server's addresses as options. The lease time is the exception:
  it is stored in host order, so the 600 seconds of \<^verbatim>\<open>kDefaultLeaseTime\<close> read as 1476526080.\<close>

theorem dhcp_reply_parses_back:
  assumes "length (dhcpData source) = sizeof_Dhcp" and "length dns \<le> 63"
    and "reply = offer \<and> ty = DHCPOFFER \<or> reply = ack \<and> ty = DHCPACK"
  shows "\<exists>m. reply source server address netmask gateway dns xid = Some (m, xid + 1) \<and>
    isValidDhcpMessage OP_BOOTREPLY (dhcp_xid source) m \<and> dhcp_chaddr m = dhcp_chaddr source \<and>
    dhcp_yiaddr m = address \<and> msg_type m = Some ty \<and> serverId m = Some server \<and>
    addr_option OPT_SUBNET_MASK m = Some netmask \<and> addr_option OPT_GATEWAY m = Some gateway \<and>
    addr_option OPT_LEASE_TIME m = Some 1476526080"
proof -
  define os where "os = [(OPT_MESSAGE_TYPE, [ty]), (OPT_SERVER_ID, enc_be32 server),
       (OPT_LEASE_TIME, enc_host32 kDefaultLeaseTime), (OPT_SUBNET_MASK, enc_be32 netmask),
       (OPT_GATEWAY, enc_be32 gateway), (OPT_DNS, enc_array enc_be32 dns)]"
  have "reply = server_reply ty" using assms(3) by (auto simp: offer_def ack_def)
  then obtain m where r: "reply source server address netmask gateway dns xid = Some (m, xid + 1)"
    and l: "layout m (reply_header source address xid) os [OPT_END]"
    using server_reply_layout [OF assms(1,2)] unfolding os_def by blast
  have ok: "list_all opt_ok os"
    using assms(2)
    by (simp add: os_def opt_ok_def be32.length_enc be32.length_enc_array dhcp_consts enc_host32_def)
  have lease: "enc_host32 kDefaultLeaseTime = enc_be32 1476526080"
    by (simp add: enc_host32_def enc_be32_def kDefaultLeaseTime_def nat_to_le_4)
  have "msg_type m = Some ty" by (rule msg_type_list [OF l ok]) (simp add: os_def)
  moreover have "serverId m = Some server" unfolding serverId_def
    by (rule addr_option_list [OF l ok]) (simp add: os_def dhcp_consts)
  moreover have "addr_option OPT_SUBNET_MASK m = Some netmask"
    by (rule addr_option_list [OF l ok]) (simp add: os_def dhcp_consts)
  moreover have "addr_option OPT_GATEWAY m = Some gateway"
    by (rule addr_option_list [OF l ok]) (simp add: os_def dhcp_consts)
  moreover have "addr_option OPT_LEASE_TIME m = Some 1476526080"
    by (rule addr_option_list [OF l ok]) (simp add: os_def lease dhcp_consts)
  ultimately show ?thesis using r reply_header_fields [OF assms(1) l] by blast
qed

lemma dhcp_reply_parses_back_witness:
  "\<exists>m. ack Message_empty 1 0x0A00020F 0xFFFFFF00 0x0A000202 [0x08080808] 5 = Some (m, 6) \<and>
    dhcp_yiaddr m = 0x0A00020F \<and> msg_type m = Some DHCPACK"
  using dhcp_reply_parses_back [of Message_empty "[0x08080808]" ack DHCPACK 1 "0x0A00020F" "0xFFFFFF00"
      "0x0A000202" 5]
  by (auto simp: Message_empty_def)

end
