(* ===== verification/Dhcp_Socket.thy ===== *)
theory Dhcp_Socket
  imports Dhcp_Message
begin

text \<open>
  \<^verbatim>\<open>dhcp/common/socket.cpp\<close>: the internet checksum and UDP datagrams on a raw socket. Sums are
  32-bit words and the folding loop is a recursive function with its termination proof; 16-bit
  units are read in host order (little endian), as the cast pointer does. The kernel's
  \<^verbatim>\<open>sendmsg\<close> and \<^verbatim>\<open>readv\<close> are an argument: whether sending worked, and the packet read.
\<close>

section \<open>The internet checksum\<close>

definition host16 :: "u8 \<Rightarrow> u8 \<Rightarrow> u32" where
  "host16 a b = ucast a + push_bit 8 (ucast b)"

fun sum16 :: "bytes \<Rightarrow> u32 \<Rightarrow> u32" where
  "sum16 (a # b # bs) checksum = sum16 bs (checksum + host16 a b)"
| "sum16 [a] checksum = checksum + ucast a"
| "sum16 [] checksum = checksum"

lemma unat_halves:
  fixes c :: u32
  shows "unat (drop_bit 16 c) = unat c div 65536" and "unat (c AND 0xFFFF) = unat c mod 65536"
proof -
  show "unat (drop_bit 16 c) = unat c div 65536"
    by (simp only: unat_drop_bit_eq) (simp add: drop_bit_eq_div)
  have e: "c AND 0xFFFF = take_bit 16 c"
    by (simp add: take_bit_eq_mask mask_eq_exp_minus_1)
  show "unat (c AND 0xFFFF) = unat c mod 65536"
    by (simp only: e unsigned_take_bit_eq) (simp add: take_bit_eq_mod)
qed

lemma unat_fold_step:
  fixes c :: u32
  shows "unat ((c AND 0xFFFF) + drop_bit 16 c) = unat c mod 65536 + unat c div 65536"
proof -
  have "unat c < 2 ^ 32" using unsigned_less [of c] by simp
  then have "unat c mod 65536 + unat c div 65536 < 2 ^ 32" by simp
  then show ?thesis by (simp add: unat_word_ariths unat_halves)
qed

function fold_carry :: "u32 \<Rightarrow> u32" where
  "fold_carry checksum =
     (let msw = drop_bit 16 checksum in
      if msw \<noteq> 0 then fold_carry ((checksum AND 0xFFFF) + msw) else checksum)"
  by pat_completeness auto
termination
proof (relation "measure unat")
  fix c msw :: u32
  assume "msw = drop_bit 16 c" and "msw \<noteq> 0"
  then have "0 < unat c div 65536"
    using unat_halves(1) [of c] by (metis gr0I unat_eq_zero)
  then have "unat c mod 65536 + unat c div 65536 < unat c"
    using mod_mult_div_eq [of "unat c" 65536] by linarith
  then show "((c AND 0xFFFF) + msw, c) \<in> measure unat"
    using unat_fold_step [of c] \<open>msw = drop_bit 16 c\<close> by simp
qed simp

declare fold_carry.simps [simp del]

definition addChecksum :: "bytes \<Rightarrow> u32 \<Rightarrow> u32" where
  "addChecksum buffer checksum = fold_carry (sum16 buffer checksum)"

definition finishChecksum :: "u32 \<Rightarrow> u32" where
  "finishChecksum checksum = NOT checksum AND 0xFFFF"

section \<open>Datagrams\<close>

definition IPDEFTTL :: u8 where "IPDEFTTL = 64"
definition IPPROTO_UDP :: u8 where "IPPROTO_UDP = 17"

definition enc_host16 :: "u16 \<Rightarrow> bytes" where
  "enc_host16 w = nat_to_le 2 (unat w)"

definition msg_data :: "Message \<Rightarrow> bytes" where
  "msg_data m = take (mSize m) (dhcpData m)"

text \<open>The IP header (version 4, five words) and the UDP header, with a given checksum field.\<close>

definition ip_header :: "u16 \<Rightarrow> u32 \<Rightarrow> u32 \<Rightarrow> nat \<Rightarrow> bytes" where
  "ip_header check source destination msize =
     [0x45, 0] @ enc_be16 (word_of_nat (20 + 8 + msize)) @ [0, 0, 0, 0, IPDEFTTL, IPPROTO_UDP] @
     enc_host16 check @ enc_be32 source @ enc_be32 destination"

definition udp_header :: "u16 \<Rightarrow> u16 \<Rightarrow> u16 \<Rightarrow> nat \<Rightarrow> bytes" where
  "udp_header check sourcePort destinationPort msize =
     enc_be16 sourcePort @ enc_be16 destinationPort @ enc_be16 (word_of_nat (8 + msize)) @ enc_host16 check"

definition ip_check :: "u32 \<Rightarrow> u32 \<Rightarrow> nat \<Rightarrow> u16" where
  "ip_check source destination msize =
     ucast (finishChecksum (addChecksum (ip_header 0 source destination msize) 0))"

definition udp_sum :: "u16 \<Rightarrow> u32 \<Rightarrow> u16 \<Rightarrow> u32 \<Rightarrow> u16 \<Rightarrow> Message \<Rightarrow> u32" where
  "udp_sum check source sourcePort destination destinationPort message =
     (let c = addChecksum (enc_be32 source) 0;
          c = addChecksum (enc_be32 destination) c;
          c = addChecksum (enc_be16 (ucast IPPROTO_UDP)) c;
          c = addChecksum (enc_be16 (word_of_nat (8 + mSize message))) c;
          c = addChecksum (udp_header check sourcePort destinationPort (mSize message)) c
      in addChecksum (msg_data message) c)"

definition raw_udp_packet :: "u32 \<Rightarrow> u16 \<Rightarrow> u32 \<Rightarrow> u16 \<Rightarrow> Message \<Rightarrow> bytes" where
  "raw_udp_packet source sourcePort destination destinationPort message =
     ip_header (ip_check source destination (mSize message)) source destination (mSize message) @
     udp_header (ucast (finishChecksum (udp_sum 0 source sourcePort destination destinationPort message)))
       sourcePort destinationPort (mSize message) @ msg_data message"

text \<open>\<open>Inl\<close> is an error result; sending reports the packet and the interface it leaves on.\<close>

definition sendRawUdp :: "bool \<Rightarrow> u32 \<Rightarrow> u16 \<Rightarrow> u32 \<Rightarrow> u16 \<Rightarrow> u32 \<Rightarrow> Message \<Rightarrow> string + u32 \<times> bytes" where
  "sendRawUdp sent source sourcePort destination destinationPort interfaceIndex message =
     (if sent then Inr (interfaceIndex, raw_udp_packet source sourcePort destination destinationPort message)
      else Inl ''Failed to send message'')"

text \<open>
  \<open>readv\<close> scatters a packet over the two headers and the image of the message, and drops what
  does not fit.
\<close>

definition receiveRawUdp :: "u16 \<Rightarrow> bytes option \<Rightarrow> Message \<Rightarrow> string + Message \<times> bool" where
  "receiveRawUdp expectedPort packet message =
     (case packet of
        None \<Rightarrow> Inl ''Unable to read from socket''
      | Some p \<Rightarrow>
          let bs = take (20 + 8 + sizeof_Dhcp) p; bytesRead = length bs in
          if bytesRead < 20 + 8 then Inr (message, False)
          else
            Inr (\<lparr>dhcpData = splice (dhcpData message) 0 (drop 28 bs), mSize = bytesRead - 20 - 8\<rparr>,
              drop_bit 4 (bs ! 0) = 4 \<and> (bs ! 0) AND 0xF = 5 \<and> bs ! 9 = IPPROTO_UDP \<and>
              dec_be16 (take 2 (drop 22 bs)) = expectedPort))"

section \<open>The sum as a number\<close>

fun csum :: "bytes \<Rightarrow> nat" where
  "csum (a # b # bs) = unat a + 256 * unat b + csum bs"
| "csum [a] = unat a"
| "csum [] = 0"

lemma csum_bound: "csum bs \<le> 65535 * length bs"
proof (induction bs rule: csum.induct)
  case (1 a b bs)
  then show ?case using unat_byte_less [of a] unat_byte_less [of b] by simp
next
  case (2 a)
  then show ?case using unat_byte_less [of a] by simp
qed simp

lemma csum_append: "even (length xs) \<Longrightarrow> csum (xs @ ys) = csum xs + csum ys"
  by (induction xs rule: csum.induct) auto

lemma unat_host16: "unat (host16 a b) = unat a + 256 * unat b"
proof -
  have "unat (push_bit 8 (ucast b :: u32)) = 256 * unat b"
    using unat_byte_less [of b]
    by (simp add: push_bit_eq_mult unat_word_ariths unsigned_ucast_eq take_bit_eq_mod)
  moreover have "unat (ucast a :: u32) = unat a"
    using unat_byte_less [of a] by (simp add: unsigned_ucast_eq take_bit_eq_mod)
  ultimately show ?thesis
    using unat_byte_less [of a] unat_byte_less [of b] by (simp add: host16_def unat_word_ariths)
qed

lemma unat_sum16: "unat c + csum bs < 2 ^ 32 \<Longrightarrow> unat (sum16 bs c) = unat c + csum bs"
proof (induction bs c rule: sum16.induct)
  case (1 a b bs c)
  then have "unat (c + host16 a b) = unat c + (unat a + 256 * unat b)"
    by (simp add: unat_word_ariths unat_host16)
  with 1 show ?case by (simp add: add.assoc)
next
  case (2 a c)
  have "unat (ucast a :: u32) = unat a"
    using unat_byte_less [of a] by (simp add: unsigned_ucast_eq take_bit_eq_mod)
  with 2 show ?case by (simp add: unat_word_ariths)
qed simp

text \<open>Folding keeps the value modulo 65535, fits in 16 bits, and is zero for zero only.\<close>

lemma fold_carry_props:
  "unat (fold_carry c) mod 65535 = unat c mod 65535 \<and> unat (fold_carry c) \<le> 65535 \<and>
   (fold_carry c = 0 \<longleftrightarrow> c = 0)"
proof (induction c rule: fold_carry.induct)
  case (1 c)
  show ?case
  proof (cases "drop_bit 16 c = 0")
    case True
    then have "unat c div 65536 = 0" using unat_halves(1) [of c] by simp
    then show ?thesis using True by (simp add: fold_carry.simps [of c] Let_def)
  next
    case False
    let ?d = "(c AND 0xFFFF) + drop_bit 16 c"
    have f: "fold_carry c = fold_carry ?d" using False by (simp add: fold_carry.simps [of c] Let_def)
    have u: "unat ?d = unat c mod 65536 + unat c div 65536" by (rule unat_fold_step)
    have pos: "0 < unat c div 65536" using False unat_halves(1) [of c] by (metis gr0I unat_eq_zero)
    have "unat c = 65535 * (unat c div 65536) + unat ?d"
      using u mod_mult_div_eq [of "unat c" 65536] by linarith
    then have "unat ?d mod 65535 = unat c mod 65535" by (metis mod_mult_self4)
    moreover have "?d \<noteq> 0" using u pos by (metis add_is_0 not_less0 unsigned_0)
    moreover have "c \<noteq> 0" using pos by auto
    ultimately show ?thesis using 1 [OF refl] False f by simp
  qed
qed

lemma unat_addChecksum:
  assumes "unat c \<le> 65535" and "length bs \<le> 60000"
  shows "unat (addChecksum bs c) mod 65535 = (unat c + csum bs) mod 65535"
    and "unat (addChecksum bs c) \<le> 65535"
    and "addChecksum bs c = 0 \<longleftrightarrow> unat c + csum bs = 0"
proof -
  have "unat c + csum bs < 2 ^ 32" using csum_bound [of bs] assms by simp
  then have s: "unat (sum16 bs c) = unat c + csum bs" by (rule unat_sum16)
  from fold_carry_props [of "sum16 bs c"] s
  show "unat (addChecksum bs c) mod 65535 = (unat c + csum bs) mod 65535"
    and "unat (addChecksum bs c) \<le> 65535" and "addChecksum bs c = 0 \<longleftrightarrow> unat c + csum bs = 0"
    by (simp_all add: addChecksum_def unat_eq_zero [symmetric])
qed

lemma fold_addChecksum:
  assumes "unat c \<le> 65535" and "\<forall>bs\<in>set bss. length bs \<le> 60000"
  shows "unat (fold addChecksum bss c) mod 65535 = (unat c + sum_list (map csum bss)) mod 65535 \<and>
    unat (fold addChecksum bss c) \<le> 65535 \<and>
    (fold addChecksum bss c = 0 \<longleftrightarrow> unat c + sum_list (map csum bss) = 0)"
  using assms
proof (induction bss arbitrary: c)
  case Nil
  then show ?case by (simp add: unat_eq_zero)
next
  case (Cons bs bss)
  have len: "length bs \<le> 60000" using Cons.prems(2) by simp
  note a = unat_addChecksum [OF Cons.prems(1) len]
  have m: "(unat (addChecksum bs c) + x) mod 65535 = (unat c + (csum bs + x)) mod 65535" for x
    using mod_add_cong [OF a(1) refl, of x] by (simp only: add.assoc)
  have "\<forall>bs\<in>set bss. length bs \<le> 60000" using Cons.prems(2) by simp
  note ih = Cons.IH [OF a(2) this]
  have "unat (addChecksum bs c) = 0 \<longleftrightarrow> unat c + csum bs = 0" using a(3) by (simp add: unat_eq_zero)
  then have "fold addChecksum (bs # bss) c = 0 \<longleftrightarrow> unat c + sum_list (map csum (bs # bss)) = 0"
    using ih by simp
  then show ?case using ih m by simp
qed

lemma unat_finishChecksum:
  assumes "unat c \<le> 65535"
  shows "unat (ucast (finishChecksum c) :: u16) = 65535 - unat c"
proof -
  have e: "finishChecksum c = take_bit 16 (NOT c)"
    by (simp add: finishChecksum_def take_bit_eq_mask mask_eq_exp_minus_1)
  have n: "unat (NOT c) = 2 ^ 32 - 1 - unat c"
  proof -
    have "NOT c = - 1 - c" by (simp add: not_eq_complement)
    moreover have "unat (- 1 - c) = unat (- 1 :: u32) - unat c" by (rule unat_sub) simp
    ultimately show ?thesis by (simp add: unsigned_minus_1_eq_mask mask_eq_exp_minus_1)
  qed
  have "(2 ^ 32 - 1 - unat c) mod 65536 = 65535 - unat c"
  proof -
    have "2 ^ 32 - 1 - unat c = (65535 - unat c) + 65535 * 65536" using assms by simp
    then show ?thesis using assms by (simp only: mod_mult_self1) simp
  qed
  then show ?thesis
    by (simp only: e unsigned_ucast_eq unsigned_take_bit_eq n) (simp add: take_bit_eq_mod)
qed

lemma nat_to_le_2: "nat_to_le 2 k = [word_of_nat (k mod 256), word_of_nat (k div 256 mod 256)]"
  by (simp only: numeral_2_eq_2 nat_to_le.simps)

lemma csum_enc_host16: "csum (enc_host16 w) = unat w"
proof -
  have "unat w < 65536" using unsigned_less [of w] by simp
  then show ?thesis by (simp add: enc_host16_def numeral_2_eq_2 unat_of_nat)
qed

text \<open>Adding the complement of a folded sum makes the sum fold to all ones.\<close>

lemma checksum_complement:
  assumes "unat s mod 65535 = t mod 65535" "unat s \<le> 65535" "0 < t"
    and "unat r mod 65535 = (t + (65535 - unat s)) mod 65535" "unat r \<le> 65535"
    and "r = 0 \<longleftrightarrow> t + (65535 - unat s) = 0"
  shows "r = (0xFFFF :: u32)"
proof -
  have "(t + (65535 - unat s)) mod 65535 = (unat s + (65535 - unat s)) mod 65535"
    using assms(1) by (metis mod_add_left_eq)
  then have "unat r mod 65535 = 0" using assms(2,4) by simp
  moreover have "unat r \<noteq> 0" using assms(3,6) by (simp add: unat_eq_zero)
  ultimately have "unat r = 65535" using assms(5)
    by (metis le_neq_implies_less mod_less)
  then show ?thesis by (simp add: word_unat_eq_iff)
qed

lemma length_enc_host16 [simp]: "length (enc_host16 w) = 2"
  by (simp add: enc_host16_def)

lemma length_headers [simp]:
  "length (ip_header check source destination n) = 20"
  "length (udp_header check sport dport n) = 8"
  by (simp_all add: ip_header_def udp_header_def be32.length_enc be16.length_enc)

lemma csum_ip_header:
  "csum (ip_header check source destination n) = csum (ip_header 0 source destination n) + unat check"
  "0 < csum (ip_header 0 source destination n)"
  by (simp_all add: ip_header_def csum_append csum_enc_host16 be32.length_enc be16.length_enc)

lemma csum_udp_header:
  "csum (udp_header check sport dport n) = csum (udp_header 0 sport dport n) + unat check"
  by (simp add: udp_header_def csum_append csum_enc_host16 be32.length_enc be16.length_enc)

definition udp_parts :: "u16 \<Rightarrow> u32 \<Rightarrow> u16 \<Rightarrow> u32 \<Rightarrow> u16 \<Rightarrow> Message \<Rightarrow> bytes list" where
  "udp_parts check source sport destination dport m =
     [enc_be32 source, enc_be32 destination, enc_be16 (ucast IPPROTO_UDP),
      enc_be16 (word_of_nat (8 + mSize m)), udp_header check sport dport (mSize m), msg_data m]"

lemma udp_sum_fold:
  "udp_sum check source sport destination dport m =
     fold addChecksum (udp_parts check source sport destination dport m) 0"
  by (simp add: udp_sum_def udp_parts_def Let_def)

lemma udp_parts_sum:
  "sum_list (map csum (udp_parts check source sport destination dport m)) =
     sum_list (map csum (udp_parts 0 source sport destination dport m)) + unat check"
  "0 < sum_list (map csum (udp_parts 0 source sport destination dport m))"
proof -
  show "sum_list (map csum (udp_parts check source sport destination dport m)) =
     sum_list (map csum (udp_parts 0 source sport destination dport m)) + unat check"
    using csum_udp_header [of check] by (simp add: udp_parts_def)
  have "csum (enc_be16 (ucast IPPROTO_UDP)) = 4352"
    by (simp add: enc_be16_def IPPROTO_UDP_def nat_to_le_2)
  then show "0 < sum_list (map csum (udp_parts 0 source sport destination dport m))"
    by (simp add: udp_parts_def)
qed

section \<open>Properties\<close>



lemma receive_sizes:
  assumes "receiveRawUdp port packet m0 = Inr (m, ok)" and "length (dhcpData m0) = sizeof_Dhcp"
    and "mSize m0 \<le> sizeof_Dhcp"
  shows "length (dhcpData m) = sizeof_Dhcp \<and> mSize m \<le> sizeof_Dhcp"
  using assms by (auto simp: receiveRawUdp_def Let_def split: option.splits if_splits)

lemma datagram_received:
  assumes "mSize m \<le> sizeof_Dhcp" and "length (dhcpData m) = sizeof_Dhcp"
    and "length (dhcpData m0) = sizeof_Dhcp"
  shows "\<exists>m'. receiveRawUdp port (Some (raw_udp_packet source sport destination dport m)) m0
      = Inr (m', port = dport) \<and> mSize m' = mSize m \<and> msg_data m' = msg_data m \<and>
      length (dhcpData m') = sizeof_Dhcp"
proof -
  define ih where "ih = ip_header (ip_check source destination (mSize m)) source destination (mSize m)"
  define uh where "uh = udp_header (ucast (finishChecksum (udp_sum 0 source sport destination dport m)))
       sport dport (mSize m)"
  have lm: "length (msg_data m) = mSize m" using assms by (simp add: msg_data_def)
  have lih: "length ih = 20" and luh: "length uh = 8" by (simp_all add: ih_def uh_def)
  have p: "take (20 + 8 + sizeof_Dhcp) (raw_udp_packet source sport destination dport m) = ih @ uh @ msg_data m"
    using assms(1) lm by (simp add: raw_udp_packet_def ih_def [symmetric] uh_def [symmetric] lih luh)
  have b0: "(ih @ uh @ msg_data m) ! 0 = 0x45" "(ih @ uh @ msg_data m) ! 9 = IPPROTO_UDP"
    using lih by (simp_all add: nth_append ih_def ip_header_def be16.length_enc)
  have u: "take 2 (drop 22 (ih @ uh @ msg_data m)) = enc_be16 dport"
    by (simp add: lih uh_def udp_header_def be16.length_enc)
  have "take (mSize m) (splice (dhcpData m0) 0 (msg_data m)) = msg_data m"
    by (simp add: splice_def lm)
  then show ?thesis
    using assms(1,3)
    unfolding receiveRawUdp_def option.case Let_def p b0 u
    by (simp add: lih luh lm msg_data_def [of "\<lparr>dhcpData = _, mSize = _\<rparr>"] eq_commute [of port])
qed

text \<open>Property C28: a datagram sent on the raw socket is received as the message it carries, and
  is accepted on the port it was sent to and on no other.\<close>

theorem dhcp_datagram_roundtrip:
  assumes "mSize m \<le> sizeof_Dhcp" and "length (dhcpData m) = sizeof_Dhcp"
    and "length (dhcpData m0) = sizeof_Dhcp"
  shows "\<exists>m'. receiveRawUdp port (Some (raw_udp_packet source sport destination dport m)) m0
      = Inr (m', port = dport) \<and> mSize m' = mSize m \<and> msg_data m' = msg_data m \<and>
      length (dhcpData m') = sizeof_Dhcp"
  using assms by (rule datagram_received)

lemma dhcp_datagram_roundtrip_witness:
  "\<exists>m'. receiveRawUdp 68 (Some (raw_udp_packet 0 67 0xFFFFFFFF 68 Message_empty)) Message_empty = Inr (m', True)
     \<and> mSize m' = 0"
  using dhcp_datagram_roundtrip [of Message_empty Message_empty 68 0 67 "0xFFFFFFFF" 68]
  by (auto simp: Message_empty_def)

end
