(* ===== verification/Dhcp_Client.thy ===== *)
theory Dhcp_Client
  imports Dhcp_Socket C_Strings
begin

text \<open>
  \<^verbatim>\<open>dhcp/client\<close>: the DHCP client. Timers (\<^verbatim>\<open>timer.cpp\<close>), the network interface and the router
  (\<^verbatim>\<open>interface.cpp\<close>, \<^verbatim>\<open>router.cpp\<close>) as the effects they have on the system, and the client's state
  machine (\<^verbatim>\<open>dhcpclient.cpp\<close>). The clock, the random jitter, the results of system calls and the
  packets that arrive are arguments; what the client does to the system is a list of effects.
  One pass of the loop in \<^verbatim>\<open>DhcpClient::run\<close> is \<open>run_iteration\<close>. A read past the options array is
  the fault \<open>None\<close>.
\<close>

section \<open>Timers\<close>

text \<open>A timer is the time it expires at, in milliseconds.\<close>

definition now_millis :: "u64 \<Rightarrow> u64 \<Rightarrow> u64" where
  "now_millis tv_sec tv_nsec = tv_sec * 1000 + tv_nsec div 1000000"

definition expireSeconds :: "u64 \<Rightarrow> u64 \<Rightarrow> u64" where
  "expireSeconds current seconds = current + seconds * 1000"

definition expired :: "u64 \<Rightarrow> u64 \<Rightarrow> bool" where
  "expired current mExpires \<longleftrightarrow> current \<ge> mExpires"

definition remainingMillis :: "u64 \<Rightarrow> u64 \<Rightarrow> u64" where
  "remainingMillis current mExpires = (if current > mExpires then 0 else mExpires - current)"

section \<open>The interface and the router\<close>

datatype net_effect =
    Set_flags u16               \<comment> \<open>\<^verbatim>\<open>SIOCSIFFLAGS\<close>\<close>
  | Set_mtu u16                 \<comment> \<open>\<^verbatim>\<open>SIOCSIFMTU\<close>\<close>
  | New_addr u32 nat u32        \<comment> \<open>\<^verbatim>\<open>RTM_NEWADDR\<close>: address, prefix length, broadcast address\<close>
  | New_route u32 u32           \<comment> \<open>\<^verbatim>\<open>RTM_NEWROUTE\<close>: gateway, interface index\<close>
  | Set_property string string
  | Send_packet u32 bytes       \<comment> \<open>on an interface\<close>

datatype nl_reply =
    Nl_send_failed
  | Nl_recv_failed
  | Nl_response nat "int option"  \<comment> \<open>bytes received; the code of an error message\<close>

record io_env =
  io_flags :: "u16 option"      \<comment> \<open>\<^verbatim>\<open>SIOCGIFFLAGS\<close>, when it works\<close>
  io_set_flags :: bool
  io_set_mtu :: bool
  io_addr :: nl_reply
  io_route :: bool
  io_now1 :: u64                \<comment> \<open>the clock when the timers are set\<close>
  io_now2 :: u64

definition IFF_UP :: u16 where "IFF_UP = 1"

definition broadcastFromNetmask :: "u32 \<Rightarrow> u32 \<Rightarrow> u32" where
  "broadcastFromNetmask address netmask = address OR NOT netmask"

definition popcount :: "u32 \<Rightarrow> nat" where
  "popcount w = length (filter (bit w) [0..<32])"

definition setInterfaceUp :: "io_env \<Rightarrow> bool \<Rightarrow> bool \<times> net_effect list" where
  "setInterfaceUp io shouldBeUp =
     (case io_flags io of
        None \<Rightarrow> (False, [])
      | Some flags \<Rightarrow>
          let isUp = (flags AND IFF_UP \<noteq> 0) in
          if isUp \<noteq> shouldBeUp
          then (if io_set_flags io then (True, [Set_flags (flags XOR IFF_UP)]) else (False, []))
          else (True, []))"

definition setMtu :: "io_env \<Rightarrow> u16 \<Rightarrow> bool \<times> net_effect list" where
  "setMtu io mtu = (if io_set_mtu io then (True, [Set_mtu mtu]) else (False, []))"

text \<open>The reply is a header of 16 bytes, followed by 20 more for an error message; an error message
  with code zero is the acknowledgement.\<close>

definition setAddress :: "io_env \<Rightarrow> u32 \<Rightarrow> u32 \<Rightarrow> bool \<times> net_effect list" where
  "setAddress io address subnetMask =
     (let e = New_addr address (popcount subnetMask) (broadcastFromNetmask address subnetMask) in
      case io_addr io of
        Nl_send_failed \<Rightarrow> (False, [])
      | Nl_recv_failed \<Rightarrow> (False, [e])
      | Nl_response n err \<Rightarrow>
          (if n < 16 then (False, [e])
           else case err of
             None \<Rightarrow> (True, [e])
           | Some code \<Rightarrow> if n < 16 + 20 then (False, [e]) else (code = 0, [e])))"

definition setDefaultGateway :: "io_env \<Rightarrow> u32 \<Rightarrow> u32 \<Rightarrow> bool \<times> net_effect list" where
  "setDefaultGateway io gateway ifaceIndex =
     (if io_route io then (True, [New_route gateway ifaceIndex]) else (False, []))"

definition addrToStr :: "u32 \<Rightarrow> string" where
  "addrToStr address =
     (case map (\<lambda>b. show_base 10 (unat b)) (enc_be32 address) of
        [a, b, c, d] \<Rightarrow> a @ ''.'' @ b @ ''.'' @ c @ ''.'' @ d
      | _ \<Rightarrow> [])"

section \<open>The client's state\<close>

datatype State = Init | Selecting | Requesting | Bound | Renewing | Rebinding

record DhcpInfo =
  t1 :: u32
  t2 :: u32
  leaseTime :: u32
  mtu :: u16
  dns :: "u32 list"             \<comment> \<open>four entries\<close>
  gateway :: u32
  subnetMask :: u32
  infoServerId :: u32
  offeredAddress :: u32

record DhcpClient =
  mNoGateway :: bool            \<comment> \<open>the option bit \<^verbatim>\<open>ClientOption::NoGateway\<close>\<close>
  mState :: State
  mNextTimeout :: u32
  mFuzzNextTimeout :: bool
  mDhcpInfo :: DhcpInfo
  mLastMsg :: Message
  mT1 :: u64
  mT2 :: u64
  mRequestAddress :: u32
  mServerAddress :: u32
  ifName :: string
  ifIndex :: u32
  ifMac :: bytes
  nextXid :: u32                \<comment> \<open>\<^verbatim>\<open>sNextTransactionId\<close>\<close>

definition kInitialTimeout :: u32 where "kInitialTimeout = 4000"
definition kMaxTimeout :: u32 where "kMaxTimeout = 64000"
definition kNoTimeout :: u32 where "kNoTimeout = 0"
definition kTimeoutSpan :: int where "kTimeoutSpan = 1000"
definition INADDR_ANY :: u32 where "INADDR_ANY = 0"
definition INADDR_BROADCAST :: u32 where "INADDR_BROADCAST = 0xFFFFFFFF"

lemmas timeout_consts = kInitialTimeout_def kMaxTimeout_def kNoTimeout_def

definition empty_info :: DhcpInfo where
  "empty_info = \<lparr>t1 = 0, t2 = 0, leaseTime = 0, mtu = 0, dns = replicate 4 0, gateway = 0, subnetMask = 0,
     infoServerId = 0, offeredAddress = 0\<rparr>"

text \<open>The constructor, with the members \<^verbatim>\<open>init\<close> fills from the interface. The two addresses are
  not initialised by the constructor.\<close>

definition DhcpClient_new :: "bool \<Rightarrow> string \<Rightarrow> u32 \<Rightarrow> bytes \<Rightarrow> u32 \<Rightarrow> u32 \<Rightarrow> DhcpInfo \<Rightarrow> DhcpClient" where
  "DhcpClient_new noGateway name index mac reqAddr srvAddr info =
     \<lparr>mNoGateway = noGateway, mState = Init, mNextTimeout = kInitialTimeout, mFuzzNextTimeout = True,
      mDhcpInfo = info, mLastMsg = Message_empty, mT1 = 0, mT2 = 0, mRequestAddress = reqAddr,
      mServerAddress = srvAddr, ifName = name, ifIndex = index, ifMac = mac, nextXid = 1\<rparr>"

section \<open>Timeouts and states\<close>

definition setNextState :: "State \<Rightarrow> DhcpClient \<Rightarrow> DhcpClient" where
  "setNextState s c = c\<lparr>mState := s, mNextTimeout := kNoTimeout, mFuzzNextTimeout := True\<rparr>"

definition increaseTimeout :: "DhcpClient \<Rightarrow> DhcpClient" where
  "increaseTimeout c =
     (if mNextTimeout c = kNoTimeout then c\<lparr>mNextTimeout := kInitialTimeout\<rparr>
      else
        let c1 = (if mNextTimeout c < kMaxTimeout then c\<lparr>mNextTimeout := mNextTimeout c * 2\<rparr> else c)
        in if mNextTimeout c1 > kMaxTimeout then c1\<lparr>mNextTimeout := kMaxTimeout\<rparr> else c1)"

definition calculateTimeoutMillis :: "int \<Rightarrow> DhcpClient \<Rightarrow> u32" where
  "calculateTimeoutMillis adjustment c =
     (if \<not> mFuzzNextTimeout c then mNextTimeout c
      else if adjustment < 0 \<and> word_of_int (- adjustment) > mNextTimeout c then 0
      else mNextTimeout c + word_of_int adjustment)"

section \<open>Sending\<close>

definition sendMessage :: "bool \<Rightarrow> Message \<Rightarrow> DhcpClient \<Rightarrow> net_effect list" where
  "sendMessage sent m c =
     (case sendRawUdp sent INADDR_ANY PORT_BOOTP_CLIENT INADDR_BROADCAST PORT_BOOTP_SERVER (ifIndex c) m of
        Inr (i, p) \<Rightarrow> [Send_packet i p]
      | Inl _ \<Rightarrow> [])"

definition sendDhcpRequest :: "bool \<Rightarrow> u32 \<Rightarrow> DhcpClient \<Rightarrow> (DhcpClient \<times> net_effect list) option" where
  "sendDhcpRequest sent destination c = do {
     (m, n) \<leftarrow> request (ifMac c) (mRequestAddress c) destination (nextXid c);
     let c = c\<lparr>mLastMsg := m, nextXid := n\<rparr>;
     Some (c, sendMessage sent m c) }"

definition sendDhcpDiscover :: "bool \<Rightarrow> DhcpClient \<Rightarrow> (DhcpClient \<times> net_effect list) option" where
  "sendDhcpDiscover sent c = do {
     (m, n) \<leftarrow> discover (ifMac c) (nextXid c);
     let c = c\<lparr>mLastMsg := m, nextXid := n\<rparr>;
     Some (c, sendMessage sent m c) }"

section \<open>Configuration from an acknowledgement\<close>

definition read_be32 :: "bytes \<Rightarrow> nat \<Rightarrow> u32 option" where
  "read_be32 opts p = (if p + 4 \<le> length opts then Some (dec_be32 (take 4 (drop p opts))) else None)"

definition read_be16 :: "bytes \<Rightarrow> nat \<Rightarrow> u16 option" where
  "read_be16 opts p = (if p + 2 \<le> length opts then Some (dec_be16 (take 2 (drop p opts))) else None)"

definition read_dns :: "bytes \<Rightarrow> nat \<Rightarrow> u8 \<Rightarrow> nat \<Rightarrow> u32 list \<Rightarrow> u32 list option" where
  "read_dns opts p optLength i ds =
     (if unat optLength \<ge> 4 * (i + 1)
      then do { a \<leftarrow> read_be32 opts (p + 4 * i); Some (ds[i := a]) }
      else Some ds)"

definition apply_option :: "bytes \<Rightarrow> u8 \<Rightarrow> u8 \<Rightarrow> nat \<Rightarrow> DhcpInfo \<Rightarrow> DhcpInfo option" where
  "apply_option opts optCode optLength p info =
     (if optCode = OPT_LEASE_TIME then
        (if optLength = 4 then do { v \<leftarrow> read_be32 opts p; Some (info\<lparr>leaseTime := v\<rparr>) } else Some info)
      else if optCode = OPT_T1 then
        (if optLength = 4 then do { v \<leftarrow> read_be32 opts p; Some (info\<lparr>t1 := v\<rparr>) } else Some info)
      else if optCode = OPT_T2 then
        (if optLength = 4 then do { v \<leftarrow> read_be32 opts p; Some (info\<lparr>t2 := v\<rparr>) } else Some info)
      else if optCode = OPT_SUBNET_MASK then
        (if optLength = 4 then do { v \<leftarrow> read_be32 opts p; Some (info\<lparr>subnetMask := v\<rparr>) } else Some info)
      else if optCode = OPT_GATEWAY then
        (if optLength \<ge> 4 then do { v \<leftarrow> read_be32 opts p; Some (info\<lparr>gateway := v\<rparr>) } else Some info)
      else if optCode = OPT_MTU then
        (if optLength = 2 then do { v \<leftarrow> read_be16 opts p; Some (info\<lparr>mtu := v\<rparr>) } else Some info)
      else if optCode = OPT_DNS then do {
        ds \<leftarrow> read_dns opts p optLength 0 (dns info);
        ds \<leftarrow> read_dns opts p optLength 1 ds;
        ds \<leftarrow> read_dns opts p optLength 2 ds;
        ds \<leftarrow> read_dns opts p optLength 3 ds;
        Some (info\<lparr>dns := ds\<rparr>) }
      else if optCode = OPT_SERVER_ID then
        (if optLength = 4 then do { v \<leftarrow> read_be32 opts p; Some (info\<lparr>infoServerId := v\<rparr>) } else Some info)
      else Some info)"

datatype scan_result = Scanned DhcpInfo | Invalid_length DhcpInfo | Over_read

function scan_options :: "bytes \<Rightarrow> nat \<Rightarrow> nat \<Rightarrow> DhcpInfo \<Rightarrow> scan_result" where
  "scan_options opts optsSize i info =
     (if i + 1 < optsSize then
        let optCode = opts ! i; optLength = opts ! (i + 1) in
        if optCode = OPT_END then Scanned info
        else if unat optLength + i \<ge> optsSize then Invalid_length info
        else (case apply_option opts optCode optLength (i + 2) info of
                None \<Rightarrow> Over_read
              | Some info' \<Rightarrow> scan_options opts optsSize (i + 2 + unat optLength) info')
      else Scanned info)"
  by pat_completeness auto
termination by (relation "measure (\<lambda>(opts, n, i, info). n - i)") auto

declare scan_options.simps [simp del]

definition set_timers :: "io_env \<Rightarrow> DhcpInfo \<Rightarrow> DhcpClient \<Rightarrow> DhcpClient" where
  "set_timers io info c =
     c\<lparr>mT1 := expireSeconds (io_now1 io) (ucast (if t1 info > 0 then t1 info else leaseTime info div 2)),
       mT2 := expireSeconds (io_now2 io) (ucast (if t2 info > 0 then t2 info else (leaseTime info * 7) div 8))\<rparr>"

definition property_name :: "DhcpClient \<Rightarrow> string \<Rightarrow> string" where
  "property_name c suffix = snprintf_buf 64 (''vendor.net.'' @ ifName c @ ''.'' @ suffix)"

definition set_properties :: "DhcpClient \<Rightarrow> DhcpInfo \<Rightarrow> net_effect list" where
  "set_properties c info =
     Set_property (property_name c ''gw'') (addrToStr (gateway info)) #
     map (\<lambda>i. Set_property (property_name c (''dns'' @ show_base 10 (Suc i)))
            (if dns info ! i \<noteq> 0 then addrToStr (dns info ! i) else '''')) [0..<4]"

text \<open>The system calls made once a lease time is known, in order; an error other than that of the
  MTU ends the configuration.\<close>

definition configure_interface :: "io_env \<Rightarrow> DhcpInfo \<Rightarrow> DhcpClient \<Rightarrow> bool \<times> net_effect list" where
  "configure_interface io info c =
     (case setInterfaceUp io True of
        (False, e1) \<Rightarrow> (False, e1)
      | (True, e1) \<Rightarrow>
          let e2 = (if mtu info \<noteq> 0 then snd (setMtu io (mtu info)) else []);
              e3 = set_properties c info
          in (case setAddress io (offeredAddress info) (subnetMask info) of
                (False, e4) \<Rightarrow> (False, e1 @ e2 @ e3 @ e4)
              | (True, e4) \<Rightarrow>
                  if \<not> mNoGateway c then
                    (case setDefaultGateway io (gateway info) (ifIndex c) of
                       (ok, e5) \<Rightarrow> (ok, e1 @ e2 @ e3 @ e4 @ e5))
                  else (True, e1 @ e2 @ e3 @ e4)))"

definition configureDhcp :: "io_env \<Rightarrow> Message \<Rightarrow> DhcpClient \<Rightarrow> (bool \<times> DhcpClient \<times> net_effect list) option" where
  "configureDhcp io msg c =
     (if optionsSize msg < 4 then Some (False, c, [])
      else case scan_options (dhcp_options msg) (optionsSize msg) 4 empty_info of
        Over_read \<Rightarrow> None
      | Invalid_length info \<Rightarrow> Some (False, c\<lparr>mDhcpInfo := info\<rparr>, [])
      | Scanned info0 \<Rightarrow>
          let info = info0\<lparr>offeredAddress := dhcp_yiaddr msg\<rparr>;
              c = c\<lparr>mDhcpInfo := info\<rparr>
          in if leaseTime info = 0 then Some (False, c, [])
             else
               let c = set_timers io info c
               in (case configure_interface io info c of (ok, e) \<Rightarrow> Some (ok, c, e)))"

definition haltNetwork :: "io_env \<Rightarrow> net_effect list" where
  "haltNetwork io = snd (setAddress io 0 0) @ snd (setInterfaceUp io False)"

section \<open>Receiving\<close>

definition receiveDhcpMessage :: "bytes option \<Rightarrow> DhcpClient \<Rightarrow> Message option" where
  "receiveDhcpMessage packet c =
     (case receiveRawUdp PORT_BOOTP_CLIENT packet Message_empty of
        Inl _ \<Rightarrow> None
      | Inr (msg, isValid) \<Rightarrow>
          if isValid \<and> isValidDhcpMessage OP_BOOTREPLY (dhcp_xid (mLastMsg c)) msg then Some msg else None)"

text \<open>What a DHCP message does: the flag says that the wait is over.\<close>

definition handle_message :: "io_env \<Rightarrow> Message \<Rightarrow> DhcpClient \<Rightarrow> (bool \<times> DhcpClient \<times> net_effect list) option" where
  "handle_message io msg c = do {
     msgType \<leftarrow> msg_type msg;
     (case mState c of
        Selecting \<Rightarrow>
          if msgType = DHCPOFFER then do {
            sid \<leftarrow> serverId msg;
            Some (True, setNextState Requesting (c\<lparr>mServerAddress := sid, mRequestAddress := dhcp_yiaddr msg\<rparr>), []) }
          else Some (False, c, [])
      | Init \<Rightarrow> Some (False, c, [])
      | Bound \<Rightarrow> Some (False, c, [])
      | _ \<Rightarrow>
          if msgType = DHCPACK then do {
            (ok, c, e) \<leftarrow> configureDhcp io msg c;
            Some (if ok then (True, setNextState Bound c, e) else (False, c, e)) }
          else if msgType = DHCPNAK then Some (True, setNextState Init c, haltNetwork io)
          else Some (False, c, [])) }"

datatype ppoll_result = Ppoll_timeout | Ppoll_ready "bytes option" | Ppoll_failed

record wait_event =
  startedAt :: u64
  polled :: ppoll_result
  currentTime :: u64
  event_io :: io_env

text \<open>The flag of the result says whether the wait ended within the events given.\<close>

fun wait_loop :: "wait_event list \<Rightarrow> u32 \<Rightarrow> DhcpClient \<Rightarrow> (bool \<times> DhcpClient \<times> net_effect list) option" where
  "wait_loop [] timeout c = Some (False, c, [])"
| "wait_loop (ev # evs) timeout c =
     (case polled ev of
        Ppoll_timeout \<Rightarrow> Some (True, c, [])
      | p \<Rightarrow> do {
          (stop, c, e) \<leftarrow>
            (case p of
               Ppoll_ready packet \<Rightarrow>
                 (case receiveDhcpMessage packet c of
                    Some msg \<Rightarrow> handle_message (event_io ev) msg c
                  | None \<Rightarrow> Some (False, c, []))
             | _ \<Rightarrow> Some (False, c, []));
          if stop then Some (True, c, e)
          else
            let endTime = startedAt ev + ucast timeout in
            if currentTime ev \<ge> endTime then Some (True, c, e)
            else do {
              (done', c, e') \<leftarrow> wait_loop evs (ucast (endTime - currentTime ev)) c;
              Some (done', c, e @ e') } })"

definition waitAndReceive :: "int \<Rightarrow> wait_event list \<Rightarrow> DhcpClient \<Rightarrow> (bool \<times> DhcpClient \<times> net_effect list) option" where
  "waitAndReceive adjustment evs c =
     (if mNextTimeout c = kNoTimeout then Some (True, c, [])
      else wait_loop evs (calculateTimeoutMillis adjustment c) c)"

section \<open>The loop\<close>

record run_env =
  sent :: bool                  \<comment> \<open>whether \<^verbatim>\<open>sendmsg\<close> works\<close>
  nowExpired :: u64             \<comment> \<open>the clock when a timer is tested, and when it is read\<close>
  nowRemaining :: u64
  jitter :: int

definition run_state :: "run_env \<Rightarrow> DhcpClient \<Rightarrow> (DhcpClient \<times> net_effect list) option" where
  "run_state env c =
     (case mState c of
        Init \<Rightarrow> Some (setNextState Selecting c, [])
      | Selecting \<Rightarrow> do { (c, e) \<leftarrow> sendDhcpDiscover (sent env) c; Some (increaseTimeout c, e) }
      | Requesting \<Rightarrow>
          if mNextTimeout c \<ge> kMaxTimeout then Some (setNextState Init c, [])
          else do { (c, e) \<leftarrow> sendDhcpRequest (sent env) (mServerAddress c) c; Some (increaseTimeout c, e) }
      | Bound \<Rightarrow>
          if expired (nowExpired env) (mT1 c) then Some (setNextState Renewing c, [])
          else Some (c\<lparr>mNextTimeout := ucast (remainingMillis (nowRemaining env) (mT1 c)),
                       mFuzzNextTimeout := False\<rparr>, [])
      | Renewing \<Rightarrow>
          if expired (nowExpired env) (mT2 c) then Some (setNextState Rebinding c, [])
          else do { (c, e) \<leftarrow> sendDhcpRequest (sent env) (mServerAddress c) c; Some (increaseTimeout c, e) }
      | Rebinding \<Rightarrow>
          if mNextTimeout c \<ge> kMaxTimeout then Some (setNextState Init c, [])
          else do { (c, e) \<leftarrow> sendDhcpRequest (sent env) INADDR_BROADCAST c; Some (increaseTimeout c, e) })"

definition run_iteration :: "run_env \<Rightarrow> wait_event list \<Rightarrow> DhcpClient \<Rightarrow>
    (bool \<times> DhcpClient \<times> net_effect list) option" where
  "run_iteration env evs c = do {
     (c, e) \<leftarrow> run_state env c;
     (done', c, e') \<leftarrow> waitAndReceive (jitter env) evs c;
     Some (done', c, e @ e') }"

section \<open>The program\<close>

text \<open>The result is the exit status of a refused command line, or the interface and the option.\<close>

fun main_args :: "string list \<Rightarrow> string option \<Rightarrow> bool \<Rightarrow> (string option \<times> bool) option" where
  "main_args [] iface noGw = Some (iface, noGw)"
| "main_args (a # as) iface noGw =
     (if a = ''-i'' then
        (case as of b # bs \<Rightarrow> main_args bs (Some b) noGw | [] \<Rightarrow> None)
      else if a = ''--no-gateway'' then main_args as iface True
      else None)"

definition dhcpclient_main :: "string list \<Rightarrow> int + string \<times> bool" where
  "dhcpclient_main argv =
     (if length argv < 3 then Inl 1
      else case main_args (tl argv) None False of
        None \<Rightarrow> Inl 1
      | Some (None, _) \<Rightarrow> Inl 1
      | Some (Some name, noGw) \<Rightarrow> Inr (name, noGw))"

end
