(* ===== verification/Dhcp_Client_Props.thy ===== *)
theory Dhcp_Client_Props
  imports Dhcp_Client
begin

text \<open>
  Properties of the DHCP client: the invariant of its reachable states, the transitions of its
  state machine, how a lease is acquired from a server of the same repository, retries and
  timeouts, and the bounds of option parsing.
\<close>

section \<open>Frame lemmas\<close>

lemma setNextState_fields [simp]:
  "mState (setNextState s c) = s" "mNextTimeout (setNextState s c) = kNoTimeout"
  "mFuzzNextTimeout (setNextState s c) = True" "mLastMsg (setNextState s c) = mLastMsg c"
  "mDhcpInfo (setNextState s c) = mDhcpInfo c" "ifMac (setNextState s c) = ifMac c"
  "mNoGateway (setNextState s c) = mNoGateway c" "nextXid (setNextState s c) = nextXid c"
  "mRequestAddress (setNextState s c) = mRequestAddress c" "mServerAddress (setNextState s c) = mServerAddress c"
  "ifIndex (setNextState s c) = ifIndex c" "ifName (setNextState s c) = ifName c"
  "mT1 (setNextState s c) = mT1 c" "mT2 (setNextState s c) = mT2 c"
  by (simp_all add: setNextState_def)

definition next_timeout :: "u32 \<Rightarrow> u32" where
  "next_timeout t = (if t = 0 then 4000 else if t < 64000 then (if t * 2 > 64000 then 64000 else t * 2)
     else if t > 64000 then 64000 else t)"

lemma increaseTimeout_eq: "increaseTimeout c = c\<lparr>mNextTimeout := next_timeout (mNextTimeout c)\<rparr>"
  by (auto simp: increaseTimeout_def next_timeout_def timeout_consts Let_def)

lemma next_timeout_le: "next_timeout t \<le> 64000"
  by (auto simp: next_timeout_def not_less)

lemma next_timeout_nonzero: "next_timeout t \<noteq> 0"
proof -
  have "t * 2 \<noteq> 0" if "t \<noteq> 0" and "t < 64000"
  proof -
    have "unat (t * 2) = unat t * 2"
      using that by (simp add: word_less_nat_alt unat_word_ariths)
    then show ?thesis using that(1) by (metis mult_eq_0_iff unat_eq_zero zero_neq_numeral)
  qed
  then show ?thesis by (simp add: next_timeout_def)
qed

text \<open>The fields configuration leaves alone.\<close>

lemma configureDhcp_frame:
  assumes "configureDhcp io msg c = Some (ok, c', e)"
  shows "mState c' = mState c" "mNextTimeout c' = mNextTimeout c" "mLastMsg c' = mLastMsg c"
    "ifMac c' = ifMac c"
  using assms
  by (auto simp: configureDhcp_def set_timers_def Let_def split: if_splits scan_result.splits prod.splits)

lemma read_dns_length: "read_dns opts p len i ds = Some ds' \<Longrightarrow> length ds' = length ds"
  by (auto simp: read_dns_def Option.bind_eq_Some_conv split: if_splits)

lemma apply_option_dns:
  assumes "apply_option opts code len p info = Some info'" shows "length (dns info') = length (dns info)"
proof (cases "code = OPT_DNS")
  case True
  then show ?thesis
    using assms by (auto simp: apply_option_def dhcp_consts Option.bind_eq_Some_conv dest!: read_dns_length)
next
  case False
  then show ?thesis
    using assms by (auto simp: apply_option_def Option.bind_eq_Some_conv split: if_splits)
qed

lemma scan_options_dns:
  "scan_options opts n i info = Scanned info' \<or> scan_options opts n i info = Invalid_length info' \<Longrightarrow>
   length (dns info') = length (dns info)"
proof (induction opts n i info rule: scan_options.induct)
  case (1 opts n i info)
  show ?case
    using 1 apply_option_dns
    by (subst (asm) (1 2) scan_options.simps [of opts n i info])
      (fastforce simp: Let_def split: if_splits option.splits)
qed

lemma configureDhcp_dns:
  assumes "configureDhcp io msg c = Some (ok, c', e)" and "length (dns (mDhcpInfo c)) = 4"
  shows "length (dns (mDhcpInfo c')) = 4"
  using assms scan_options_dns [of "dhcp_options msg" "optionsSize msg" 4 empty_info]
  by (auto simp: configureDhcp_def set_timers_def Let_def empty_info_def
      split: if_splits scan_result.splits prod.splits)

section \<open>Messages and waiting\<close>

definition reply_edges :: "(State \<times> State) set" where
  "reply_edges = {(Selecting, Requesting), (Requesting, Bound), (Requesting, Init), (Renewing, Bound),
     (Renewing, Init), (Rebinding, Bound), (Rebinding, Init)}"

definition timer_edges :: "(State \<times> State) set" where
  "timer_edges = {(Init, Selecting), (Requesting, Init), (Bound, Renewing), (Renewing, Rebinding),
     (Rebinding, Init)}"

lemma handle_message_cases:
  assumes "handle_message io msg c = Some (stop, c', e)"
  shows "if stop then (mState c, mState c') \<in> reply_edges \<and> mNextTimeout c' = 0
     else mState c' = mState c \<and> mNextTimeout c' = mNextTimeout c"
    and "mLastMsg c' = mLastMsg c" and "ifMac c' = ifMac c"
    and "length (dns (mDhcpInfo c)) = 4 \<Longrightarrow> length (dns (mDhcpInfo c')) = 4"
  using assms
  by (cases "mState c"; auto simp: handle_message_def reply_edges_def timeout_consts Option.bind_eq_Some_conv
      configureDhcp_frame configureDhcp_dns split: if_splits)+

text \<open>One event of the wait: what the client becomes and whether the wait ends at once.\<close>

definition event_result :: "wait_event \<Rightarrow> DhcpClient \<Rightarrow> (bool \<times> DhcpClient \<times> net_effect list) option" where
  "event_result ev c =
     (case polled ev of
        Ppoll_ready packet \<Rightarrow>
          (case receiveDhcpMessage packet c of
             Some msg \<Rightarrow> handle_message (event_io ev) msg c
           | None \<Rightarrow> Some (False, c, []))
      | _ \<Rightarrow> Some (False, c, []))"

lemma wait_loop_Cons:
  "wait_loop (ev # evs) timeout c =
     (if polled ev = Ppoll_timeout then Some (True, c, [])
      else do {
        (stop, c, e) \<leftarrow> event_result ev c;
        if stop \<or> currentTime ev \<ge> startedAt ev + ucast timeout then Some (True, c, e)
        else do {
          (done', c, e') \<leftarrow> wait_loop evs (ucast (startedAt ev + ucast timeout - currentTime ev)) c;
          Some (done', c, e @ e') } })"
  by (cases "polled ev") (auto simp: event_result_def Let_def intro!: bind_option_cong split: option.splits)

declare wait_loop.simps(2) [simp del]

lemma event_result_cases:
  assumes "event_result ev c = Some (stop, c', e)"
  shows "if stop then (mState c, mState c') \<in> reply_edges \<and> mNextTimeout c' = 0
     else mState c' = mState c \<and> mNextTimeout c' = mNextTimeout c"
    and "mLastMsg c' = mLastMsg c" and "ifMac c' = ifMac c"
    and "length (dns (mDhcpInfo c)) = 4 \<Longrightarrow> length (dns (mDhcpInfo c')) = 4"
  using assms handle_message_cases
  by (fastforce simp: event_result_def split: ppoll_result.splits option.splits)+

lemma wait_loop_cases:
  assumes "wait_loop evs timeout c = Some (d, c', e)"
  shows "(mState c, mState c') \<in> reply_edges \<and> mNextTimeout c' = 0 \<or>
      mState c' = mState c \<and> mNextTimeout c' = mNextTimeout c"
    and "mLastMsg c' = mLastMsg c \<and> ifMac c' = ifMac c"
    and "length (dns (mDhcpInfo c)) = 4 \<Longrightarrow> length (dns (mDhcpInfo c')) = 4"
proof -
  have "((mState c, mState c') \<in> reply_edges \<and> mNextTimeout c' = 0 \<or>
      mState c' = mState c \<and> mNextTimeout c' = mNextTimeout c) \<and>
    mLastMsg c' = mLastMsg c \<and> ifMac c' = ifMac c \<and>
    (length (dns (mDhcpInfo c)) = 4 \<longrightarrow> length (dns (mDhcpInfo c')) = 4)"
    using assms
  proof (induction evs arbitrary: timeout c e)
    case (Cons ev evs)
    show ?case
    proof (cases "polled ev = Ppoll_timeout")
      case False
      then obtain stop c1 e1 where ev: "event_result ev c = Some (stop, c1, e1)"
        using Cons.prems by (cases "event_result ev c") (auto simp: wait_loop_Cons)
      note ec = event_result_cases [OF ev]
      show ?thesis
      proof (cases "stop \<or> currentTime ev \<ge> startedAt ev + ucast timeout")
        case True
        then show ?thesis using Cons.prems False ev ec by (auto simp: wait_loop_Cons split: if_splits)
      next
        case again: False
        then obtain t' e' where "wait_loop evs t' c1 = Some (d, c', e')"
          using Cons.prems False ev by (auto simp: wait_loop_Cons Option.bind_eq_Some_conv)
        with Cons.IH [of t' c1 e'] again ec show ?thesis by auto
      qed
    qed (use Cons.prems in \<open>auto simp: wait_loop_Cons\<close>)
  qed simp
  then show "(mState c, mState c') \<in> reply_edges \<and> mNextTimeout c' = 0 \<or>
      mState c' = mState c \<and> mNextTimeout c' = mNextTimeout c"
    and "mLastMsg c' = mLastMsg c \<and> ifMac c' = ifMac c"
    and "length (dns (mDhcpInfo c)) = 4 \<Longrightarrow> length (dns (mDhcpInfo c')) = 4"
    by blast+
qed

section \<open>One pass of the loop\<close>

definition client_wf :: "DhcpClient \<Rightarrow> bool" where
  "client_wf c \<longleftrightarrow> length (ifMac c) = ETH_ALEN \<and> length (dhcpData (mLastMsg c)) = sizeof_Dhcp \<and>
     mSize (mLastMsg c) \<le> sizeof_Dhcp \<and> length (dns (mDhcpInfo c)) = 4 \<and>
     (mState c \<noteq> Bound \<longrightarrow> mNextTimeout c \<le> kMaxTimeout)"

lemma sendDhcpRequest_sends:
  assumes "length (ifMac c) = ETH_ALEN"
  shows "\<exists>m. sendDhcpRequest ok dst c = Some (c\<lparr>mLastMsg := m, nextXid := nextXid c + 1\<rparr>,
      if ok then [Send_packet (ifIndex c)
        (raw_udp_packet INADDR_ANY PORT_BOOTP_CLIENT INADDR_BROADCAST PORT_BOOTP_SERVER m)] else []) \<and>
    request (ifMac c) (mRequestAddress c) dst (nextXid c) = Some (m, nextXid c + 1) \<and>
    length (dhcpData m) = sizeof_Dhcp \<and> mSize m \<le> sizeof_Dhcp"
  using request_layout [OF assms, of "mRequestAddress c" dst "nextXid c"]
  by (auto simp: sendDhcpRequest_def sendMessage_def sendRawUdp_def layout_def)

lemma sendDhcpDiscover_sends:
  assumes "length (ifMac c) = ETH_ALEN"
  shows "\<exists>m. sendDhcpDiscover ok c = Some (c\<lparr>mLastMsg := m, nextXid := nextXid c + 1\<rparr>,
      if ok then [Send_packet (ifIndex c)
        (raw_udp_packet INADDR_ANY PORT_BOOTP_CLIENT INADDR_BROADCAST PORT_BOOTP_SERVER m)] else []) \<and>
    discover (ifMac c) (nextXid c) = Some (m, nextXid c + 1) \<and>
    length (dhcpData m) = sizeof_Dhcp \<and> mSize m \<le> sizeof_Dhcp"
  using discover_layout [OF assms, of "nextXid c"]
  by (auto simp: sendDhcpDiscover_def sendMessage_def sendRawUdp_def layout_def)

text \<open>The state's action either keeps the state, or moves along an edge of the timers with no wait.
  It never faults, and it keeps the invariant.\<close>

lemma run_state_total:
  assumes "client_wf c"
  obtains c' e where "run_state env c = Some (c', e)" and "client_wf c'"
    and "(mState c, mState c') \<in> timer_edges \<and> mNextTimeout c' = 0 \<or> mState c' = mState c"
proof -
  have mac: "length (ifMac c) = ETH_ALEN" using assms by (simp add: client_wf_def)
  have "\<exists>c' e. run_state env c = Some (c', e) \<and> client_wf c' \<and>
    ((mState c, mState c') \<in> timer_edges \<and> mNextTimeout c' = 0 \<or> mState c' = mState c)"
  proof (cases "mState c")
    case Selecting
    then show ?thesis
      using sendDhcpDiscover_sends [OF mac, of "sent env"] assms
      by (auto simp: run_state_def increaseTimeout_eq client_wf_def next_timeout_le kMaxTimeout_def)
  next
    case Requesting
    then show ?thesis
      using sendDhcpRequest_sends [OF mac, of "sent env" "mServerAddress c"] assms
      by (auto simp: run_state_def increaseTimeout_eq client_wf_def next_timeout_le timeout_consts timer_edges_def)
  next
    case Renewing
    then show ?thesis
      using sendDhcpRequest_sends [OF mac, of "sent env" "mServerAddress c"] assms
      by (auto simp: run_state_def increaseTimeout_eq client_wf_def next_timeout_le timeout_consts timer_edges_def)
  next
    case Rebinding
    then show ?thesis
      using sendDhcpRequest_sends [OF mac, of "sent env" INADDR_BROADCAST] assms
      by (auto simp: run_state_def increaseTimeout_eq client_wf_def next_timeout_le timeout_consts timer_edges_def)
  qed (use assms in \<open>auto simp: run_state_def client_wf_def timeout_consts timer_edges_def\<close>)
  then show thesis using that by blast
qed

lemma run_iteration_cases:
  assumes "client_wf c" and "run_iteration env evs c = Some (d, c', e)"
  shows "client_wf c'" and "mState c' = mState c \<or> (mState c, mState c') \<in> reply_edges \<union> timer_edges"
proof -
  obtain c1 e1 where r: "run_state env c = Some (c1, e1)" and wf: "client_wf c1"
    and ed: "(mState c, mState c1) \<in> timer_edges \<and> mNextTimeout c1 = 0 \<or> mState c1 = mState c"
    using run_state_total [OF assms(1)] .
  from assms(2) r obtain e2 where w: "waitAndReceive (jitter env) evs c1 = Some (d, c', e2)"
    by (auto simp: run_iteration_def Option.bind_eq_Some_conv)
  have "client_wf c' \<and> (mState c' = mState c \<or> (mState c, mState c') \<in> reply_edges \<union> timer_edges)"
  proof (cases "mNextTimeout c1 = 0")
    case True
    then show ?thesis using w wf ed by (auto simp: waitAndReceive_def timeout_consts)
  next
    case False
    then have "wait_loop evs (calculateTimeoutMillis (jitter env) c1) c1 = Some (d, c', e2)"
      using w by (simp add: waitAndReceive_def timeout_consts)
    note wc = wait_loop_cases [OF this]
    from False ed have "mState c1 = mState c" by auto
    then show ?thesis using wc wf by (auto simp: client_wf_def timeout_consts)
  qed
  then show "client_wf c'" and "mState c' = mState c \<or> (mState c, mState c') \<in> reply_edges \<union> timer_edges"
    by blast+
qed

section \<open>Reachable states\<close>

inductive client_step :: "DhcpClient \<Rightarrow> DhcpClient \<Rightarrow> bool" where
  "run_iteration env evs c = Some (d, c', e) \<Longrightarrow> client_step c c'"

inductive_cases client_stepE: "client_step c c'"

definition client_init :: "DhcpClient \<Rightarrow> bool" where
  "client_init c \<longleftrightarrow> (\<exists>noGw name index mac ra sa info. length mac = ETH_ALEN \<and> length (dns info) = 4 \<and>
     c = DhcpClient_new noGw name index mac ra sa info)"

interpretation dhcp: invariant_system client_init client_step client_wf
proof
  show "client_wf c" if "client_init c" for c
    using that by (auto simp: client_init_def client_wf_def DhcpClient_new_def Message_empty_def timeout_consts)
  show "client_wf c'" if "client_step c c'" and "client_wf c" for c c'
    using that by (auto elim!: client_stepE dest: run_iteration_cases(1))
qed

definition demo_client :: DhcpClient where
  "demo_client = DhcpClient_new False ''eth0'' 2 [2, 0, 0, 0x44, 0x55, 0x66] 0 0 empty_info"

lemma demo_client_init: "client_init demo_client"
proof -
  have "length [2, 0, 0, 0x44, 0x55, 0x66 :: u8] = ETH_ALEN" and "length (dns empty_info) = 4"
    by (simp_all add: ETH_ALEN_def empty_info_def)
  then show ?thesis unfolding client_init_def demo_client_def by blast
qed

text \<open>Property C29: in every state the client can reach, its last message fits the message image, and
  outside the bound state its timeout is at most the maximum of 64 seconds. From such a state, a pass
  of the loop keeps the state or moves along one of the transitions of the protocol: a reply moves
  selecting to requesting, and requesting, renewing or rebinding to bound or back to the start; a
  timer moves bound to renewing, renewing to rebinding, and the states that give up to the start.\<close>

theorem dhcp_reachable:
  assumes "client_init c0" and "client_step\<^sup>*\<^sup>* c0 c"
  shows "client_wf c \<and>
    (\<forall>c'. client_step c c' \<longrightarrow> mState c' = mState c \<or> (mState c, mState c') \<in> reply_edges \<union> timer_edges)"
proof -
  have "client_wf c" using dhcp.reachable_inv [OF assms] .
  then show ?thesis by (auto elim!: client_stepE dest: run_iteration_cases(2))
qed

lemma demo_client_step: "client_step demo_client (setNextState Selecting demo_client)"
proof (rule client_step.intros)
  show "run_iteration env [] demo_client = Some (True, setNextState Selecting demo_client, [])" for env
    by (simp add: run_iteration_def run_state_def demo_client_def DhcpClient_new_def waitAndReceive_def
        setNextState_def)
qed

lemma dhcp_reachable_witness:
  "client_wf demo_client \<and> client_step demo_client (setNextState Selecting demo_client) \<and>
     (Init, Selecting) \<in> reply_edges \<union> timer_edges"
  using dhcp_reachable [OF demo_client_init rtranclp.rtrancl_refl] demo_client_step
  by (auto simp: demo_client_def DhcpClient_new_def setNextState_def)

section \<open>Acquiring a lease\<close>

definition acked :: "DhcpClient \<Rightarrow> net_effect list \<Rightarrow> wait_event \<Rightarrow> bool" where
  "acked c' e ev \<longleftrightarrow> (\<exists>packet msg. polled ev = Ppoll_ready packet \<and>
     receiveRawUdp PORT_BOOTP_CLIENT packet Message_empty = Inr (msg, True) \<and>
     isValidDhcpMessage OP_BOOTREPLY (dhcp_xid (mLastMsg c')) msg \<and> msg_type msg = Some DHCPACK \<and>
     offeredAddress (mDhcpInfo c') = dhcp_yiaddr msg \<and> leaseTime (mDhcpInfo c') \<noteq> 0 \<and>
     New_addr (dhcp_yiaddr msg) (popcount (subnetMask (mDhcpInfo c')))
       (broadcastFromNetmask (dhcp_yiaddr msg) (subnetMask (mDhcpInfo c'))) \<in> set e)"

lemma setAddress_ok: "setAddress io a m = (True, e) \<Longrightarrow> e = [New_addr a (popcount m) (broadcastFromNetmask a m)]"
  by (auto simp: setAddress_def Let_def split: nl_reply.splits if_splits option.splits)

lemma configure_interface_ok:
  assumes "configure_interface io info c = (True, e)"
  shows "New_addr (offeredAddress info) (popcount (subnetMask info))
    (broadcastFromNetmask (offeredAddress info) (subnetMask info)) \<in> set e"
  using assms setAddress_ok
  by (fastforce simp: configure_interface_def Let_def split: prod.splits bool.splits if_splits)

lemma configureDhcp_ok:
  assumes "configureDhcp io msg c = Some (True, c', e)"
  shows "offeredAddress (mDhcpInfo c') = dhcp_yiaddr msg \<and> leaseTime (mDhcpInfo c') \<noteq> 0 \<and>
    New_addr (dhcp_yiaddr msg) (popcount (subnetMask (mDhcpInfo c')))
      (broadcastFromNetmask (dhcp_yiaddr msg) (subnetMask (mDhcpInfo c'))) \<in> set e"
proof -
  from assms obtain info0 where "scan_options (dhcp_options msg) (optionsSize msg) 4 empty_info = Scanned info0"
    by (auto simp: configureDhcp_def split: if_splits scan_result.splits)
  with assms show ?thesis
    using configure_interface_ok
    by (fastforce simp: configureDhcp_def Let_def set_timers_def split: if_splits prod.splits)
qed

lemma event_result_bound:
  assumes "event_result ev c = Some (stop, c', e)" and "mState c \<noteq> Bound" and "mState c' = Bound"
  shows "acked c' e ev"
proof -
  from assms obtain packet msg where p: "polled ev = Ppoll_ready packet" "receiveDhcpMessage packet c = Some msg"
      "handle_message (event_io ev) msg c = Some (stop, c', e)"
    by (auto simp: event_result_def split: ppoll_result.splits option.splits)
  then have h: "msg_type msg = Some DHCPACK \<and>
      (\<exists>c1. configureDhcp (event_io ev) msg c = Some (True, c1, e) \<and> c' = setNextState Bound c1)"
    using assms(2,3)
    by (cases "mState c") (auto simp: handle_message_def Option.bind_eq_Some_conv
        dest: configureDhcp_frame(1) split: if_splits)
  then obtain c1 where c1: "configureDhcp (event_io ev) msg c = Some (True, c1, e)" "c' = setNextState Bound c1"
    by blast
  from p(2) have "receiveRawUdp PORT_BOOTP_CLIENT packet Message_empty = Inr (msg, True)"
    and "isValidDhcpMessage OP_BOOTREPLY (dhcp_xid (mLastMsg c)) msg"
    by (auto simp: receiveDhcpMessage_def split: sum.splits if_splits)
  then show ?thesis
    unfolding acked_def using p(1) h configureDhcp_ok [OF c1(1)] configureDhcp_frame(3) [OF c1(1)] c1(2)
    by (intro exI [of _ packet] exI [of _ msg]) simp
qed

lemma acked_append: "acked c' e ev \<Longrightarrow> acked c' (e0 @ e) ev" "acked c' e ev \<Longrightarrow> acked c' (e @ e0) ev"
  by (auto simp: acked_def)

lemma wait_loop_bound:
  assumes "wait_loop evs timeout c = Some (d, c', e)" and "mState c \<noteq> Bound" and "mState c' = Bound"
  shows "\<exists>ev\<in>set evs. acked c' e ev"
  using assms
proof (induction evs arbitrary: timeout c e)
  case (Cons ev evs)
  then have nt: "polled ev \<noteq> Ppoll_timeout" by (auto simp: wait_loop_Cons)
  then obtain stop c1 e1 where ev: "event_result ev c = Some (stop, c1, e1)"
    using Cons.prems(1) by (cases "event_result ev c") (auto simp: wait_loop_Cons)
  show ?case
  proof (cases "stop \<or> currentTime ev \<ge> startedAt ev + ucast timeout")
    case True
    then have "c' = c1" "e = e1" using Cons.prems(1) nt ev by (auto simp: wait_loop_Cons split: if_splits)
    then show ?thesis using event_result_bound [OF ev Cons.prems(2)] Cons.prems(3) by simp
  next
    case False
    then obtain t' e' where r: "wait_loop evs t' c1 = Some (d, c', e')" "e = e1 @ e'"
      using Cons.prems(1) nt ev by (auto simp: wait_loop_Cons Option.bind_eq_Some_conv)
    have "mState c1 \<noteq> Bound" using event_result_cases(1) [OF ev] False Cons.prems(2) by simp
    from Cons.IH [OF r(1) this Cons.prems(3)] show ?thesis by (auto simp: r(2) intro: acked_append(1))
  qed
qed simp

text \<open>Property C30: the client becomes bound in one way only. If a pass of the loop ends in the bound
  state from another state, then one of the packets received in it is a UDP datagram for the client's
  port that holds a valid DHCP reply to the transaction of the last request, of type acknowledgement;
  the lease has a nonzero time and the address of that reply, and that address was set on the
  interface with the prefix and broadcast address of the netmask.\<close>

theorem dhcp_bound_only_by_ack:
  assumes "client_wf c" and "run_iteration env evs c = Some (d, c', e)"
    and "mState c \<noteq> Bound" and "mState c' = Bound"
  shows "\<exists>ev\<in>set evs. acked c' e ev"
proof -
  obtain c1 e1 where r: "run_state env c = Some (c1, e1)"
    and ed: "(mState c, mState c1) \<in> timer_edges \<and> mNextTimeout c1 = 0 \<or> mState c1 = mState c"
    using run_state_total [OF assms(1)] .
  then obtain e2 where w: "waitAndReceive (jitter env) evs c1 = Some (d, c', e2)" and e: "e = e1 @ e2"
    using assms(2) by (auto simp: run_iteration_def Option.bind_eq_Some_conv)
  have nb: "mState c1 \<noteq> Bound" using ed assms(3) by (auto simp: timer_edges_def)
  then have "wait_loop evs (calculateTimeoutMillis (jitter env) c1) c1 = Some (d, c', e2)"
    using w assms(4) by (auto simp: waitAndReceive_def split: if_splits)
  from wait_loop_bound [OF this nb assms(4)] show ?thesis by (auto simp: e intro: acked_append(1))
qed

section \<open>Parsing the options of a built message\<close>

lemma read_be32_part:
  assumes "take (length d) (drop p opts) = d" and "p + length d \<le> length opts" and "k + 4 \<le> length d"
  shows "read_be32 opts (p + k) = read_be32 d k"
proof -
  have "take 4 (drop k (take (length d) (drop p opts))) = take 4 (drop (p + k) opts)"
    using assms(3) by (simp add: drop_take min_def add.commute)
  then show ?thesis using assms by (simp add: read_be32_def)
qed

lemma read_be16_part:
  assumes "take (length d) (drop p opts) = d" and "p + length d \<le> length opts" and "2 \<le> length d"
  shows "read_be16 opts p = read_be16 d 0"
proof -
  have "take 2 (take (length d) (drop p opts)) = take 2 (drop p opts)"
    using assms(3) by (simp add: min_def)
  then show ?thesis using assms by (simp add: read_be16_def)
qed

lemma read_dns_part:
  assumes "take (length d) (drop p opts) = d" and "p + length d \<le> length opts" and "unat len = length d"
  shows "read_dns opts p len i ds = read_dns d 0 len i ds"
  using read_be32_part [OF assms(1,2), of "4 * i"] assms(3) by (simp add: read_dns_def)

text \<open>Applying an option depends on its own bytes only.\<close>

lemma apply_option_part:
  assumes "take (length d) (drop p opts) = d" and "p + length d \<le> length opts" and "unat len = length d"
  shows "apply_option opts code len p info = apply_option d code len 0 info"
proof -
  note r32 = read_be32_part [OF assms(1,2), of 0, simplified] and r16 = read_be16_part [OF assms(1,2)]
  have l: "len = 4 \<Longrightarrow> 4 \<le> length d" "len = 2 \<Longrightarrow> 2 \<le> length d" "4 \<le> len \<Longrightarrow> 4 \<le> length d"
    using assms(3) by (auto simp: word_le_nat_alt)
  show ?thesis
    unfolding apply_option_def read_dns_part [OF assms] using l r32 r16 by simp
qed

definition apply_pair :: "u8 \<times> bytes \<Rightarrow> DhcpInfo \<Rightarrow> DhcpInfo option" where
  "apply_pair o' info = apply_option (snd o') (fst o') (word_of_nat (length (snd o'))) 0 info"

fun apply_list :: "(u8 \<times> bytes) list \<Rightarrow> DhcpInfo \<Rightarrow> DhcpInfo option" where
  "apply_list [] info = Some info"
| "apply_list (o' # os) info = do { info \<leftarrow> apply_pair o' info; apply_list os info }"

lemma scan_options_prefix:
  assumes "drop i (take n opts) = opts_bytes os @ fin" and "fin \<noteq> []" and "list_all opt_ok os"
    and "n \<le> length opts" and "apply_list os info = Some info'"
  shows "scan_options opts n i info = scan_options opts n (i + length (opts_bytes os)) info' \<and>
    drop (i + length (opts_bytes os)) (take n opts) = fin"
  using assms
proof (induction os arbitrary: i info)
  case Nil
  then show ?case by simp
next
  case (Cons o' os)
  obtain c d where o': "o' = (c, d)" by (cases o')
  have ok: "c \<noteq> OPT_END" "length d < 256" "list_all opt_ok os"
    using Cons.prems(3) by (simp_all add: o' opt_ok_def [of "(c, d)"])
  note st = opts_bytes_step [OF Cons.prems(1) [unfolded o'] Cons.prems(2) ok(2) Cons.prems(4)]
  from Cons.prems(5) obtain info1 where a: "apply_pair (c, d) info = Some info1" "apply_list os info1 = Some info'"
    by (auto simp: o' Option.bind_eq_Some_conv)
  have "apply_option opts c (word_of_nat (length d)) (i + 2) info = Some info1"
    using apply_option_part [OF st(6) _ st(3), of c info] st(5) Cons.prems(4) a(1) by (simp add: apply_pair_def)
  then have "scan_options opts n i info = scan_options opts n (i + 2 + length d) info1"
    using ok(1) st(1,2,3,5) by (simp add: scan_options.simps [of opts n i info] Let_def)
  moreover have "i + length (opts_bytes (o' # os)) = i + 2 + length d + length (opts_bytes os)"
    by (simp add: o')
  ultimately show ?case using Cons.IH [OF st(4) Cons.prems(2) ok(3) Cons.prems(4) a(2)] by (simp only:)
qed

lemma scan_options_list:
  assumes "drop i (take n opts) = opts_bytes os @ [OPT_END]" and "list_all opt_ok os" and "n \<le> length opts"
    and "apply_list os info = Some info'"
  shows "scan_options opts n i info = Scanned info'"
proof -
  let ?j = "i + length (opts_bytes os)"
  note p = scan_options_prefix [OF assms(1) list.distinct(2) assms(2-4)]
  from p have "length (drop ?j (take n opts)) = 1" by simp
  then have "\<not> ?j + 1 < n" using assms(3) by (auto simp: min_def split: if_splits)
  then have "scan_options opts n ?j info' = Scanned info'" by (simp add: scan_options.simps)
  then show ?thesis using p by (simp only:)
qed

lemma read_be32_enc [simp]: "read_be32 (enc_be32 a) 0 = Some a"
  by (simp add: read_be32_def be32.length_enc)

lemma read_dns_some:
  assumes "unat len \<le> length d" shows "\<exists>ds'. read_dns d 0 len i ds = Some ds'"
  using assms by (simp add: read_dns_def read_be32_def)

lemma apply_dns_some:
  assumes "length d < 256"
  shows "\<exists>ds. apply_pair (OPT_DNS, d) info = Some (info\<lparr>dns := ds\<rparr>)"
proof -
  have "unat (word_of_nat (length d) :: u8) \<le> length d" using assms by (simp add: unat_of_nat)
  note r = read_dns_some [OF this]
  obtain a where a: "read_dns d 0 (word_of_nat (length d)) 0 (dns info) = Some a" using r by blast
  obtain b where b: "read_dns d 0 (word_of_nat (length d)) 1 a = Some b" using r by blast
  obtain e where e: "read_dns d 0 (word_of_nat (length d)) 2 b = Some e" using r by blast
  obtain f where "read_dns d 0 (word_of_nat (length d)) 3 e = Some f" using r by blast
  with a b e have "apply_pair (OPT_DNS, d) info = Some (info\<lparr>dns := f\<rparr>)"
    by (simp add: apply_pair_def apply_option_def dhcp_consts)
  then show ?thesis by blast
qed

lemma apply_server_options:
  assumes "length ds \<le> 63"
  shows "\<exists>info. apply_list [(OPT_MESSAGE_TYPE, [ty]), (OPT_SERVER_ID, enc_be32 server),
       (OPT_LEASE_TIME, enc_host32 kDefaultLeaseTime), (OPT_SUBNET_MASK, enc_be32 netmask),
       (OPT_GATEWAY, enc_be32 gw), (OPT_DNS, enc_array enc_be32 ds)] empty_info = Some info \<and>
     leaseTime info = 1476526080 \<and> subnetMask info = netmask \<and> gateway info = gw \<and>
     infoServerId info = server \<and> t1 info = 0 \<and> t2 info = 0 \<and> mtu info = 0"
proof -
  have lease: "enc_host32 kDefaultLeaseTime = enc_be32 1476526080"
    by (simp add: enc_host32_def enc_be32_def kDefaultLeaseTime_def nat_to_le_4)
  have four: "apply_list [(OPT_MESSAGE_TYPE, [ty]), (OPT_SERVER_ID, enc_be32 server),
       (OPT_LEASE_TIME, enc_be32 1476526080), (OPT_SUBNET_MASK, enc_be32 netmask),
       (OPT_GATEWAY, enc_be32 gw)] empty_info =
     Some (empty_info\<lparr>infoServerId := server, leaseTime := 1476526080, subnetMask := netmask, gateway := gw\<rparr>)"
    by (simp add: apply_pair_def apply_option_def be32.length_enc dhcp_consts)
  have app: "apply_list (os @ os') info = apply_list os info \<bind> apply_list os'" for os os' info
    by (induction os arbitrary: info) (auto intro!: bind_option_cong)
  have "length (enc_array enc_be32 ds) < 256" using assms by (simp add: be32.length_enc_array)
  then obtain d' where "apply_pair (OPT_DNS, enc_array enc_be32 ds)
      (empty_info\<lparr>infoServerId := server, leaseTime := 1476526080, subnetMask := netmask, gateway := gw\<rparr>) =
    Some (empty_info\<lparr>infoServerId := server, leaseTime := 1476526080, subnetMask := netmask, gateway := gw,
      dns := d'\<rparr>)"
    using apply_dns_some by blast
  with four show ?thesis
    using app [of "[(OPT_MESSAGE_TYPE, [ty]), (OPT_SERVER_ID, enc_be32 server),
       (OPT_LEASE_TIME, enc_be32 1476526080), (OPT_SUBNET_MASK, enc_be32 netmask),
       (OPT_GATEWAY, enc_be32 gw)]" "[(OPT_DNS, enc_array enc_be32 ds)]" empty_info]
    unfolding lease by (simp add: empty_info_def)
qed

section \<open>A lease from the repository's own server messages\<close>

definition io_works :: "io_env \<Rightarrow> bool" where
  "io_works io \<longleftrightarrow> io_flags io = Some IFF_UP \<and> io_addr io = Nl_response 36 (Some 0) \<and> io_route io"

lemma configure_interface_works: "io_works io \<Longrightarrow> fst (configure_interface io info c)"
  by (simp add: io_works_def configure_interface_def setInterfaceUp_def setAddress_def setDefaultGateway_def
      IFF_UP_def Let_def)

lemma layout_transfer:
  assumes "layout a hdr os fin" and "mSize m = mSize a" and "msg_data m = msg_data a"
    and "length (dhcpData m) = sizeof_Dhcp"
  shows "layout m hdr os fin"
  using assms by (simp add: layout_def msg_data_def)

lemma configure_from_ack:
  assumes "layout m (reply_header source addr sx)
      [(OPT_MESSAGE_TYPE, [DHCPACK]), (OPT_SERVER_ID, enc_be32 server),
       (OPT_LEASE_TIME, enc_host32 kDefaultLeaseTime), (OPT_SUBNET_MASK, enc_be32 netmask),
       (OPT_GATEWAY, enc_be32 gw), (OPT_DNS, enc_array enc_be32 ds)] [OPT_END]" (is "layout m ?h ?os _")
    and "length ds \<le> 63" and "dhcp_yiaddr m = addr" and "io_works io"
  shows "\<exists>c' e. configureDhcp io m c = Some (True, c', e) \<and> offeredAddress (mDhcpInfo c') = addr \<and>
    subnetMask (mDhcpInfo c') = netmask \<and> gateway (mDhcpInfo c') = gw \<and>
    leaseTime (mDhcpInfo c') = 1476526080 \<and> mT1 c' = io_now1 io + 738263040000 \<and> mT2 c' = io_now2 io + 218218496000"
proof -
  note lo = layout_options [OF assms(1)]
  have ok: "list_all opt_ok ?os"
    using assms(2) by (simp add: opt_ok_def be32.length_enc be32.length_enc_array dhcp_consts enc_host32_def)
  obtain info where ap: "apply_list ?os empty_info = Some info" and
    f: "leaseTime info = 1476526080" "subnetMask info = netmask" "gateway info = gw" "t1 info = 0" "t2 info = 0"
    using apply_server_options [OF assms(2), of DHCPACK server netmask gw] by blast
  have n: "optionsSize m \<le> length (dhcp_options m)"
    using assms(1) lo(3) by (auto simp: layout_def optionsSize_def dhcp_offsets)
  have "drop 4 (take (optionsSize m) (dhcp_options m)) = opts_bytes ?os @ [OPT_END]"
    unfolding lo(1) by (simp add: OPT_COOKIE_def)
  from scan_options_list [OF this ok n ap]
  have sc: "scan_options (dhcp_options m) (optionsSize m) 4 empty_info = Scanned info" .
  have sz: "\<not> optionsSize m < 4" using lo(2) by simp
  let ?info = "info\<lparr>offeredAddress := addr\<rparr>"
  let ?c = "set_timers io ?info (c\<lparr>mDhcpInfo := ?info\<rparr>)"
  obtain e where "configure_interface io ?info ?c = (True, e)"
    using configure_interface_works [OF assms(4), of ?info ?c] by (cases "configure_interface io ?info ?c") auto
  then have "configureDhcp io m c = Some (True, ?c, e)"
    using f(1) by (simp add: configureDhcp_def sz sc assms(3) Let_def)
  then show ?thesis using f by (simp add: set_timers_def expireSeconds_def)
qed

lemma lease_acquired:
  assumes "client_wf c" and "mState c = Requesting" and "mNextTimeout c < kMaxTimeout"
    and "run_state env c = Some (c1, e1)" and "ack (mLastMsg c1) server addr netmask gw ds sx = Some (a, sx')"
    and "length ds \<le> 63" and "io_works (event_io ev)"
    and "polled ev = Ppoll_ready (Some (raw_udp_packet server PORT_BOOTP_SERVER INADDR_BROADCAST PORT_BOOTP_CLIENT a))"
  shows "\<exists>c' e. run_iteration env (ev # evs) c = Some (True, c', e) \<and> mState c' = Bound \<and>
    offeredAddress (mDhcpInfo c') = addr \<and> subnetMask (mDhcpInfo c') = netmask \<and> gateway (mDhcpInfo c') = gw \<and>
    leaseTime (mDhcpInfo c') = 1476526080 \<and> mT1 c' = io_now1 (event_io ev) + 738263040000 \<and>
    mT2 c' = io_now2 (event_io ev) + 218218496000"
proof -
  have mac: "length (ifMac c) = ETH_ALEN" using assms(1) by (simp add: client_wf_def)
  obtain m where "sendDhcpRequest (sent env) (mServerAddress c) c =
      Some (c\<lparr>mLastMsg := m, nextXid := nextXid c + 1\<rparr>, if sent env then [Send_packet (ifIndex c)
        (raw_udp_packet INADDR_ANY PORT_BOOTP_CLIENT INADDR_BROADCAST PORT_BOOTP_SERVER m)] else [])"
    and m: "length (dhcpData m) = sizeof_Dhcp"
    using sendDhcpRequest_sends [OF mac] by blast
  then have c1: "mState c1 = Requesting" "mLastMsg c1 = m" "mNextTimeout c1 \<noteq> kNoTimeout"
    using assms(2-4) next_timeout_nonzero
    by (auto simp: run_state_def increaseTimeout_eq kNoTimeout_def not_le [symmetric])
  have a: "layout a (reply_header m addr sx)
      [(OPT_MESSAGE_TYPE, [DHCPACK]), (OPT_SERVER_ID, enc_be32 server),
       (OPT_LEASE_TIME, enc_host32 kDefaultLeaseTime), (OPT_SUBNET_MASK, enc_be32 netmask),
       (OPT_GATEWAY, enc_be32 gw), (OPT_DNS, enc_array enc_be32 ds)] [OPT_END]" (is "layout a ?h ?os _")
    using server_reply_layout [OF m assms(6), of DHCPACK server addr netmask gw sx] assms(5) c1(2)
    by (auto simp: ack_def)
  then have "mSize a \<le> sizeof_Dhcp" "length (dhcpData a) = sizeof_Dhcp" by (simp_all add: layout_def)
  from datagram_received [OF this, of Message_empty PORT_BOOTP_CLIENT server PORT_BOOTP_SERVER INADDR_BROADCAST
      PORT_BOOTP_CLIENT]
  obtain r where r: "receiveRawUdp PORT_BOOTP_CLIENT (Some (raw_udp_packet server PORT_BOOTP_SERVER
      INADDR_BROADCAST PORT_BOOTP_CLIENT a)) Message_empty = Inr (r, True)"
    and rs: "mSize r = mSize a" "msg_data r = msg_data a" "length (dhcpData r) = sizeof_Dhcp"
    by (auto simp: Message_empty_def)
  have lr: "layout r ?h ?os [OPT_END]" using layout_transfer [OF a rs] .
  note rf = reply_header_fields [OF m lr]
  have ok: "list_all opt_ok ?os"
    using assms(6) by (simp add: opt_ok_def be32.length_enc be32.length_enc_array dhcp_consts enc_host32_def)
  have ty: "msg_type r = Some DHCPACK" by (rule msg_type_list [OF lr ok]) simp
  obtain c2 e2 where c2: "configureDhcp (event_io ev) r c1 = Some (True, c2, e2)"
      "offeredAddress (mDhcpInfo c2) = addr" "subnetMask (mDhcpInfo c2) = netmask" "gateway (mDhcpInfo c2) = gw"
      "leaseTime (mDhcpInfo c2) = 1476526080" "mT1 c2 = io_now1 (event_io ev) + 738263040000"
      "mT2 c2 = io_now2 (event_io ev) + 218218496000"
    using configure_from_ack [OF lr assms(6) rf(3) assms(7), of c1] by blast
  have "event_result ev c1 = Some (True, setNextState Bound c2, e2)"
    using rf(1) r ty c1(1,2) c2(1)
    by (simp add: event_result_def assms(8) receiveDhcpMessage_def handle_message_def)
  then have "wait_loop (ev # evs) t c1 = Some (True, setNextState Bound c2, e2)" for t
    by (simp add: wait_loop_Cons assms(8))
  then have "run_iteration env (ev # evs) c = Some (True, setNextState Bound c2, e1 @ e2)"
    using assms(4) c1(3) by (simp add: run_iteration_def waitAndReceive_def)
  then show ?thesis using c2 by simp
qed

text \<open>Property C31: a lease end to end. A client in the requesting state sends its request; a server
  that answers it with the repository's own acknowledgement binds the client: the pass ends in the
  bound state with the server's address, netmask and gateway. The lease time is read as 1476526080
  seconds instead of the server's 600, because the server stores it in host order, and its seven
  eighths overflow 32 bits, so the rebinding timer \<^verbatim>\<open>mT2\<close> is set to expire before the renewal
  timer \<^verbatim>\<open>mT1\<close>.\<close>

theorem dhcp_lease_end_to_end:
  assumes "client_wf c" and "mState c = Requesting" and "mNextTimeout c < kMaxTimeout"
    and "run_state env c = Some (c1, e1)" and "ack (mLastMsg c1) server addr netmask gw ds sx = Some (a, sx')"
    and "length ds \<le> 63" and "io_works (event_io ev)"
    and "polled ev = Ppoll_ready (Some (raw_udp_packet server PORT_BOOTP_SERVER INADDR_BROADCAST PORT_BOOTP_CLIENT a))"
  shows "\<exists>c' e. run_iteration env (ev # evs) c = Some (True, c', e) \<and> mState c' = Bound \<and>
    offeredAddress (mDhcpInfo c') = addr \<and> subnetMask (mDhcpInfo c') = netmask \<and> gateway (mDhcpInfo c') = gw \<and>
    leaseTime (mDhcpInfo c') = 1476526080 \<and> mT1 c' = io_now1 (event_io ev) + 738263040000 \<and>
    mT2 c' = io_now2 (event_io ev) + 218218496000"
  using assms by (rule lease_acquired)

definition demo_requesting :: DhcpClient where
  "demo_requesting = setNextState Requesting (demo_client\<lparr>mServerAddress := 0x0A000202, mRequestAddress := 0x0A00020F\<rparr>)"

definition demo_run_env :: run_env where
  "demo_run_env = \<lparr>sent = True, nowExpired = 0, nowRemaining = 0, jitter = 0\<rparr>"

definition demo_io :: io_env where
  "demo_io = \<lparr>io_flags = Some IFF_UP, io_set_flags = True, io_set_mtu = True, io_addr = Nl_response 36 (Some 0),
     io_route = True, io_now1 = 5, io_now2 = 6\<rparr>"

lemma demo_requesting_wf:
  "client_wf demo_requesting" "mState demo_requesting = Requesting" "mNextTimeout demo_requesting < kMaxTimeout"
  by (simp_all add: demo_requesting_def demo_client_def DhcpClient_new_def client_wf_def Message_empty_def
      ETH_ALEN_def empty_info_def timeout_consts)

lemma demo_ack:
  "\<exists>c1 e1 a sx'. run_state demo_run_env demo_requesting = Some (c1, e1) \<and>
     ack (mLastMsg c1) 0x0A000202 0x0A00020F 0xFFFFFF00 0x0A000202 [0x08080808] 1 = Some (a, sx')"
proof -
  obtain c1 e1 where r: "run_state demo_run_env demo_requesting = Some (c1, e1)" and "client_wf c1"
    using run_state_total [OF demo_requesting_wf(1)] .
  then have "length (dhcpData (mLastMsg c1)) = sizeof_Dhcp" by (simp add: client_wf_def)
  from server_reply_layout [OF this, of "[0x08080808]" DHCPACK "0x0A000202" "0x0A00020F" "0xFFFFFF00" "0x0A000202" 1] r
  show ?thesis by (auto simp: ack_def)
qed

lemma dhcp_lease_end_to_end_witness:
  "\<exists>evs c' e. run_iteration demo_run_env evs demo_requesting = Some (True, c', e) \<and> mState c' = Bound \<and>
     offeredAddress (mDhcpInfo c') = 0x0A00020F \<and> mT2 c' < mT1 c'"
proof -
  obtain c1 e1 a sx' where d: "run_state demo_run_env demo_requesting = Some (c1, e1)"
     "ack (mLastMsg c1) 0x0A000202 0x0A00020F 0xFFFFFF00 0x0A000202 [0x08080808] 1 = Some (a, sx')"
    using demo_ack by blast
  define ev where "ev = \<lparr>startedAt = 0, polled = Ppoll_ready (Some (raw_udp_packet 0x0A000202 PORT_BOOTP_SERVER
    INADDR_BROADCAST PORT_BOOTP_CLIENT a)), currentTime = 1, event_io = demo_io\<rparr>"
  have "io_works (event_io ev)" by (simp add: ev_def demo_io_def io_works_def)
  from dhcp_lease_end_to_end [OF demo_requesting_wf d, of ev "[]"] this show ?thesis
    by (auto simp: ev_def demo_io_def intro!: exI [of _ "[ev]"])
qed

lemma dhcp_bound_only_by_ack_witness:
  "\<exists>evs c' e. run_iteration demo_run_env evs demo_requesting = Some (True, c', e) \<and>
     (\<exists>ev\<in>set evs. acked c' e ev)"
proof -
  obtain c1 e1 a sx' where d: "run_state demo_run_env demo_requesting = Some (c1, e1)"
     "ack (mLastMsg c1) 0x0A000202 0x0A00020F 0xFFFFFF00 0x0A000202 [0x08080808] 1 = Some (a, sx')"
    using demo_ack by blast
  define ev where "ev = \<lparr>startedAt = 0, polled = Ppoll_ready (Some (raw_udp_packet 0x0A000202 PORT_BOOTP_SERVER
    INADDR_BROADCAST PORT_BOOTP_CLIENT a)), currentTime = 1, event_io = demo_io\<rparr>"
  have "io_works (event_io ev)" by (simp add: ev_def demo_io_def io_works_def)
  with lease_acquired [OF demo_requesting_wf d, of ev "[]"]
  obtain c' e where "run_iteration demo_run_env [ev] demo_requesting = Some (True, c', e)" "mState c' = Bound"
    by (auto simp: ev_def)
  with dhcp_bound_only_by_ack [OF demo_requesting_wf(1) this(1)] demo_requesting_wf(2) show ?thesis
    by (intro exI [of _ "[ev]"] exI [of _ c'] exI [of _ e]) auto
qed

section \<open>Retries\<close>

fun run_many :: "(run_env \<times> wait_event list) list \<Rightarrow> DhcpClient \<Rightarrow> (DhcpClient \<times> net_effect list) option" where
  "run_many [] c = Some (c, [])"
| "run_many ((env, evs) # xs) c = do {
     (d, c, e) \<leftarrow> run_iteration env evs c;
     (c, e') \<leftarrow> run_many xs c;
     Some (c, e @ e') }"

definition silent :: "run_env \<times> wait_event list \<Rightarrow> bool" where
  "silent p \<longleftrightarrow> sent (fst p) \<and> (case snd p of ev # _ \<Rightarrow> polled ev = Ppoll_timeout | [] \<Rightarrow> False)"

lemma requesting_silent:
  assumes "client_wf c" and "mState c = Requesting" and "mNextTimeout c < 64000" and "silent (env, evs)"
  shows "\<exists>c' p. run_iteration env evs c = Some (True, c', [Send_packet (ifIndex c) p]) \<and> client_wf c' \<and>
    mState c' = Requesting \<and> mNextTimeout c' = next_timeout (mNextTimeout c) \<and> ifIndex c' = ifIndex c"
proof -
  have mac: "length (ifMac c) = ETH_ALEN" using assms(1) by (simp add: client_wf_def)
  obtain m where m: "sendDhcpRequest (sent env) (mServerAddress c) c =
      Some (c\<lparr>mLastMsg := m, nextXid := nextXid c + 1\<rparr>, if sent env then [Send_packet (ifIndex c)
        (raw_udp_packet INADDR_ANY PORT_BOOTP_CLIENT INADDR_BROADCAST PORT_BOOTP_SERVER m)] else [])"
    "length (dhcpData m) = sizeof_Dhcp" "mSize m \<le> sizeof_Dhcp"
    using sendDhcpRequest_sends [OF mac] by blast
  from assms(4) obtain ev evs' where evs: "evs = ev # evs'" "polled ev = Ppoll_timeout" "sent env"
    by (auto simp: silent_def split: list.splits)
  let ?c = "c\<lparr>mLastMsg := m, nextXid := nextXid c + 1, mNextTimeout := next_timeout (mNextTimeout c)\<rparr>"
  have "run_state env c = Some (?c, [Send_packet (ifIndex c)
      (raw_udp_packet INADDR_ANY PORT_BOOTP_CLIENT INADDR_BROADCAST PORT_BOOTP_SERVER m)])"
    using assms(2,3) m(1) evs(3) by (simp add: run_state_def increaseTimeout_eq kMaxTimeout_def not_le)
  then have "run_iteration env evs c = Some (True, ?c, [Send_packet (ifIndex c)
      (raw_udp_packet INADDR_ANY PORT_BOOTP_CLIENT INADDR_BROADCAST PORT_BOOTP_SERVER m)])"
    using next_timeout_nonzero by (simp add: run_iteration_def waitAndReceive_def kNoTimeout_def evs wait_loop_Cons)
  moreover have "client_wf ?c"
    using assms(1) m(2,3) next_timeout_le by (simp add: client_wf_def kMaxTimeout_def)
  ultimately show ?thesis using assms(2) by auto
qed

lemma run_many_silent:
  assumes "client_wf c" and "mState c = Requesting" and "list_all silent ps"
    and "\<forall>k < length ps. (next_timeout ^^ k) (mNextTimeout c) < 64000"
  shows "\<exists>c' es. run_many ps c = Some (c', map (Send_packet (ifIndex c)) es) \<and> length es = length ps \<and>
    client_wf c' \<and> mState c' = Requesting \<and> mNextTimeout c' = (next_timeout ^^ length ps) (mNextTimeout c)"
  using assms
proof (induction ps arbitrary: c)
  case Nil
  then show ?case by simp
next
  case (Cons q ps)
  obtain env evs where q: "q = (env, evs)" by (cases q)
  have "mNextTimeout c < 64000" using Cons.prems(4) by (metis funpow_0 length_greater_0_conv list.distinct(1))
  moreover have "silent (env, evs)" using Cons.prems(3) by (simp add: q)
  ultimately obtain c1 p where c1: "run_iteration env evs c = Some (True, c1, [Send_packet (ifIndex c) p])"
      "client_wf c1" "mState c1 = Requesting" "mNextTimeout c1 = next_timeout (mNextTimeout c)" "ifIndex c1 = ifIndex c"
    using requesting_silent [OF Cons.prems(1,2)] by blast
  have "\<forall>k < length ps. (next_timeout ^^ k) (mNextTimeout c1) < 64000"
    using Cons.prems(4) by (metis Suc_less_eq c1(4) comp_apply funpow_Suc_right length_Cons)
  with Cons.IH [OF c1(2,3)] Cons.prems(3) obtain c' es where
    "run_many ps c1 = Some (c', map (Send_packet (ifIndex c)) es)" "length es = length ps" "client_wf c'"
    "mState c' = Requesting" "mNextTimeout c' = (next_timeout ^^ length ps) (mNextTimeout c1)"
    by (auto simp: c1(5))
  then show ?case using c1(1,4) by (intro exI [of _ c'] exI [of _ "p # es"]) (simp add: q funpow_swap1)
qed



text \<open>The randomised timeout is the timeout plus the jitter, and zero where that would
  be negative. The 32-bit computation never wraps.\<close>

theorem dhcp_jitter_exact:
  assumes "mFuzzNextTimeout c" and "mNextTimeout c \<le> kMaxTimeout" and "\<bar>adjustment\<bar> \<le> kTimeoutSpan"
  shows "uint (calculateTimeoutMillis adjustment c) = max 0 (uint (mNextTimeout c) + adjustment)"
proof -
  have t: "uint (mNextTimeout c) \<le> 64000" using assms(2) by (simp add: word_le_def kMaxTimeout_def)
  have a: "\<bar>adjustment\<bar> \<le> 1000" using assms(3) by (simp add: kTimeoutSpan_def)
  have neg: "uint (word_of_int (- adjustment) :: u32) = - adjustment" if "adjustment < 0"
    using that a by (subst uint_word_of_int) simp
  have sum: "uint (mNextTimeout c + word_of_int adjustment) = uint (mNextTimeout c) + adjustment"
    if "0 \<le> uint (mNextTimeout c) + adjustment"
  proof -
    have "uint (mNextTimeout c + word_of_int adjustment) = (uint (mNextTimeout c) + adjustment) mod 2 ^ 32"
      by (simp add: uint_word_ariths uint_word_of_int mod_add_right_eq)
    then show ?thesis using that t a by simp
  qed
  show ?thesis
    using assms(1) neg sum t a unsigned_greater_eq [of "mNextTimeout c"]
    by (auto simp: calculateTimeoutMillis_def word_less_def max_def)
qed

lemma dhcp_jitter_exact_witness:
  "uint (calculateTimeoutMillis (- 700) demo_requesting) = 0"
  using dhcp_jitter_exact [of demo_requesting "- 700"]
  by (simp add: demo_requesting_def kTimeoutSpan_def timeout_consts)

section \<open>Bounds of option parsing\<close>

lemma getOption_from_bound: "getOption_from opts n code i = Some (p, l) \<Longrightarrow> p < n"
  by (induction opts n code i rule: getOption_from.induct)
    (subst (asm) (2) getOption_from.simps, auto simp: Let_def split: if_splits)

lemma apply_option_total: "p + unat len \<le> length opts \<Longrightarrow> apply_option opts code len p info \<noteq> None"
proof -
  assume p: "p + unat len \<le> length opts"
  have r4: "read_be32 opts p = None \<Longrightarrow> len < 4" using p by (auto simp: read_be32_def word_less_nat_alt split: if_splits)
  have r2: "read_be16 opts p = None \<Longrightarrow> len < 2" using p by (auto simp: read_be16_def word_less_nat_alt split: if_splits)
  have rd: "\<exists>ds'. read_dns opts p len i ds = Some ds'" for i ds
    using p by (auto simp: read_dns_def read_be32_def)
  obtain a where a: "read_dns opts p len 0 (dns info) = Some a" using rd by blast
  obtain b where b: "read_dns opts p len 1 a = Some b" using rd by blast
  obtain e where e: "read_dns opts p len 2 b = Some e" using rd by blast
  obtain f where f: "read_dns opts p len 3 e = Some f" using rd by blast
  show ?thesis
    unfolding apply_option_def a b e f bind.simps
    using r4 r2 by (cases "read_be32 opts p"; cases "read_be16 opts p") (auto split: if_splits)
qed

lemma scan_options_no_over_read:
  "n < length opts \<Longrightarrow> scan_options opts n i info \<noteq> Over_read"
proof (induction opts n i info rule: scan_options.induct)
  case (1 opts n i info)
  have "apply_option opts (opts ! i) (opts ! (i + 1)) (i + 2) info \<noteq> None"
    if "\<not> n \<le> unat (opts ! (i + 1)) + i"
    by (rule apply_option_total) (use that 1(2) in simp)
  then show ?case
    using 1 by (subst scan_options.simps) (auto simp: Let_def split: option.splits)
qed

lemma message_no_fault:
  assumes "length (dhcpData m) = sizeof_Dhcp" and "mSize m \<le> 1257"
  shows "\<exists>r. handle_message io m c = Some r"
proof -
  have lo: "length (dhcp_options m) = 1024" "optionsSize m \<le> 1021"
    using assms by (simp_all add: dhcp_options_def optionsSize_def dhcp_offsets)
  have g: "getOption code m = Some (p, l) \<Longrightarrow> p < 1021" for code p l
    using getOption_from_bound [of "dhcp_options m" "optionsSize m" code 4 p l] lo by (simp add: getOption_def)
  have ty: "\<exists>t. msg_type m = Some t"
    using g [of OPT_MESSAGE_TYPE] lo by (auto simp: msg_type_def opt_read_def split: option.splits)
  have sid: "\<exists>s. serverId m = Some s"
    using g [of OPT_SERVER_ID] lo by (auto simp: serverId_def addr_option_def opt_read_def split: option.splits)
  have "\<exists>r. configureDhcp io m c = Some r" for c
    using scan_options_no_over_read [of "optionsSize m" "dhcp_options m" 4 empty_info] lo
    by (auto simp: configureDhcp_def Let_def split: scan_result.splits prod.splits)
  then obtain r where r: "configureDhcp io m c = Some r" by blast
  obtain t s where "msg_type m = Some t" "serverId m = Some s" using ty sid by blast
  with r show ?thesis
    by (cases "mState c"; cases r) (auto simp: handle_message_def)
qed

text \<open>An acknowledgement that fills the image, with a lease option whose last byte is missing.\<close>

definition long_opts :: "(u8 \<times> bytes) list" where
  "long_opts = [(OPT_MESSAGE_TYPE, [DHCPACK]), (224, replicate 255 0), (224, replicate 255 0),
     (224, replicate 255 0), (224, replicate 239 0)]"

definition long_ack :: "bytes \<Rightarrow> u32 \<Rightarrow> Message" where
  "long_ack mac xid = \<lparr>dhcpData = dhcp_header OP_BOOTREPLY mac xid @ OPT_COOKIE @ opts_bytes long_opts @
     [OPT_LEASE_TIME, 4, 0, 0, 0], mSize = sizeof_Dhcp\<rparr>"

lemma long_ack_layout:
  assumes "length mac = ETH_ALEN"
  shows "layout (long_ack mac xid) (dhcp_header OP_BOOTREPLY mac xid) long_opts [OPT_LEASE_TIME, 4, 0, 0, 0]"
  using length_dhcp_header [OF assms]
  by (simp add: layout_def long_ack_def long_opts_def OPT_COOKIE_def dhcp_offsets)

lemma long_ack_faults:
  assumes "length mac = ETH_ALEN" and "mState c = Requesting"
  shows "handle_message io (long_ack mac xid) c = None"
proof -
  let ?m = "long_ack mac xid"
  note lo = layout_options [OF long_ack_layout [OF assms(1), of xid]]
  have lob: "length (opts_bytes long_opts) = 1015" by (simp add: long_opts_def)
  have sz: "optionsSize ?m = 1024" using lo(2) lob by simp
  have ok: "list_all opt_ok long_opts" by (simp add: long_opts_def opt_ok_def dhcp_consts)
  have ap: "apply_list long_opts empty_info = Some empty_info"
    by (simp add: long_opts_def apply_pair_def apply_option_def dhcp_consts)
  have dr: "drop 4 (take (optionsSize ?m) (dhcp_options ?m)) = opts_bytes long_opts @ [OPT_LEASE_TIME, 4, 0, 0, 0]"
    unfolding lo(1) by (simp add: OPT_COOKIE_def)
  note p = scan_options_prefix [OF dr list.distinct(2) ok _ ap]
  have p1: "scan_options (dhcp_options ?m) 1024 4 empty_info = scan_options (dhcp_options ?m) 1024 1019 empty_info"
    and p2: "drop 1019 (take 1024 (dhcp_options ?m)) = [OPT_LEASE_TIME, 4, 0, 0, 0]"
    using p lo(3) lob sz by simp_all
  note n1 = nth_of_drop_take [OF p2]
  note n2 = nth_of_drop_take [OF n1(3)]
  have "scan_options (dhcp_options ?m) 1024 1019 empty_info = Over_read"
    using n1(2) n2(2) lo(3)
    by (simp add: scan_options.simps [of _ _ 1019] Let_def apply_option_def read_be32_def dhcp_consts)
  then have conf: "configureDhcp io ?m c = None" using p1 sz by (simp add: configureDhcp_def)
  have dr1: "drop 4 (take (optionsSize ?m) (dhcp_options ?m)) =
      opts_bytes ((OPT_MESSAGE_TYPE, [DHCPACK]) # tl long_opts) @ [OPT_LEASE_TIME, 4, 0, 0, 0]"
    unfolding dr by (simp add: long_opts_def)
  note st = opts_bytes_step [OF dr1 list.distinct(2)]
  have "getOption OPT_MESSAGE_TYPE ?m = Some (6, 1)" and "take 1 (drop 6 (dhcp_options ?m)) = [DHCPACK]"
    using st(1,2,6) sz lo(3) by (simp_all add: getOption_def getOption_from.simps [of _ _ _ 4] dhcp_consts)
  then have "msg_type ?m = Some DHCPACK" using lo(3) by (simp add: msg_type_def opt_read_def)
  then show ?thesis using assms(2) conf by (simp add: handle_message_def)
qed

text \<open>A reply of at most 1257 bytes is handled without reading outside the options
  array, whatever its options. The bound cannot be dropped: the length test admits an option whose
  last byte lies one past the end of the message, so an acknowledgement that fills the 1260 bytes
  makes a requesting client read past the array.\<close>

theorem dhcp_option_reads:
  assumes "mState c = Requesting"
  shows "(\<forall>m io c. length (dhcpData m) = sizeof_Dhcp \<and> mSize m \<le> 1257 \<longrightarrow> handle_message io m c \<noteq> None) \<and>
    (\<exists>m. length (dhcpData m) = sizeof_Dhcp \<and> mSize m = sizeof_Dhcp \<and>
      isValidDhcpMessage OP_BOOTREPLY xid m \<and> handle_message io m c = None)"
proof (intro conjI allI impI exI)
  show "handle_message io m c \<noteq> None" if "length (dhcpData m) = sizeof_Dhcp \<and> mSize m \<le> 1257" for m io c
    using message_no_fault [of m io c] that by auto
  let ?mac = "replicate ETH_ALEN (0 :: u8)"
  have mac: "length ?mac = ETH_ALEN" by simp
  note lay = long_ack_layout [OF mac, of xid]
  show "length (dhcpData (long_ack ?mac xid)) = sizeof_Dhcp" using lay by (simp add: layout_def)
  show "mSize (long_ack ?mac xid) = sizeof_Dhcp" by (simp add: long_ack_def)
  show "isValidDhcpMessage OP_BOOTREPLY xid (long_ack ?mac xid)"
    using dhcp_header_fields(1) [OF mac lay] .
  show "handle_message io (long_ack ?mac xid) c = None" using long_ack_faults [OF mac assms] .
qed

lemma dhcp_option_reads_witness:
  "\<exists>m. isValidDhcpMessage OP_BOOTREPLY 1 m \<and> handle_message demo_io m demo_requesting = None"
  using dhcp_option_reads [OF demo_requesting_wf(2), of 1 demo_io] by auto

end
