(* ===== verification/Framing.thy ===== *)
theory Framing
  imports C_Strings
begin

text \<open>
  Length-prefixed framing of messages on a byte stream, the contract that the radio record
  stream (\<^verbatim>\<open>radio/librilutils/record_stream.c\<close>, a 4-byte big-endian length) and the qemud
  channel (\<^verbatim>\<open>qemud/qemud.cpp\<close>, four hexadecimal digits) both implement. The locale
  \<^verbatim>\<open>length_prefix\<close> asks for a header of fixed length that determines the payload length up
  to a limit; inside it the stream of frames is shown to be uniquely decodable, whatever
  prefix of it has arrived.
\<close>

definition frame :: "(nat \<Rightarrow> 'c list) \<Rightarrow> 'c list \<Rightarrow> 'c list" where
  "frame hdr m = hdr (length m) @ m"

text \<open>The first complete frame of a stream and what follows it.\<close>

definition next_frame :: "nat \<Rightarrow> ('c list \<Rightarrow> nat) \<Rightarrow> 'c list \<Rightarrow> ('c list \<times> 'c list) option" where
  "next_frame hlen plen s =
     (if length s < hlen then None
      else let n = plen (take hlen s) in
        if length s < hlen + n then None
        else Some (take n (drop hlen s), drop (hlen + n) s))"

text \<open>All complete frames, and the incomplete rest.\<close>

function parse_frames :: "nat \<Rightarrow> ('c list \<Rightarrow> nat) \<Rightarrow> 'c list \<Rightarrow> 'c list list \<times> 'c list" where
  "parse_frames hlen plen s =
     (if hlen = 0 then ([], s)
      else case next_frame hlen plen s of
        None \<Rightarrow> ([], s)
      | Some (m, rest) \<Rightarrow> (let (ms, r) = parse_frames hlen plen rest in (m # ms, r)))"
  by pat_completeness auto
termination
  by (relation "measure (\<lambda>(h, f, s). length s)")
     (auto simp: next_frame_def Let_def split: if_splits)

declare parse_frames.simps [simp del]

lemma next_frame_split:
  assumes "next_frame hlen plen s = Some (m, rest)"
  shows "s = take hlen s @ m @ rest \<and> length m = plen (take hlen s) \<and> hlen \<le> length s"
proof -
  let ?n = "plen (take hlen s)"
  from assms have len: "hlen \<le> length s" "hlen + ?n \<le> length s"
    and m: "m = take ?n (drop hlen s)" and rest: "rest = drop (hlen + ?n) s"
    by (auto simp: next_frame_def Let_def not_less split: if_splits)
  have "drop hlen s = m @ rest"
    unfolding m rest by (metis add.commute append_take_drop_id drop_drop)
  then have "s = take hlen s @ m @ rest"
    by (metis append_take_drop_id)
  with len m show ?thesis by auto
qed

lemma next_frame_extend:
  assumes "next_frame hlen plen s = Some (m, rest)"
  shows "next_frame hlen plen (s @ t) = Some (m, rest @ t)"
  using assms by (auto simp: next_frame_def Let_def split: if_splits)

lemma parse_frames_append:
  assumes "parse_frames hlen plen s = (ms, r)"
  shows "parse_frames hlen plen (s @ t) =
           (let (ns, r') = parse_frames hlen plen (r @ t) in (ms @ ns, r'))"
  using assms
proof (induction hlen plen s arbitrary: ms r rule: parse_frames.induct)
  case (1 hlen plen s)
  show ?case
  proof (cases "hlen = 0")
    case True
    with 1 show ?thesis by (simp add: parse_frames.simps)
  next
    case nonzero: False
    show ?thesis
    proof (cases "next_frame hlen plen s")
      case None
      with 1 nonzero show ?thesis by (simp add: parse_frames.simps [of hlen plen s])
    next
      case (Some p)
      obtain m rest where p: "p = (m, rest)" by (cases p)
      obtain ms' where rest: "parse_frames hlen plen rest = (ms', r)" and ms: "ms = m # ms'"
        using 1(2) Some p nonzero
        by (auto simp: parse_frames.simps [of hlen plen s] split: prod.splits)
      have "parse_frames hlen plen (rest @ t) =
          (let (ns, r') = parse_frames hlen plen (r @ t) in (ms' @ ns, r'))"
        using 1(1) [OF nonzero Some p [symmetric] rest] .
      then show ?thesis
        using next_frame_extend [OF Some [unfolded p], of t] nonzero
        by (simp add: parse_frames.simps [of hlen plen "s @ t"] ms split: prod.splits)
    qed
  qed
qed

locale length_prefix =
  fixes hlen :: nat
    and hdr :: "nat \<Rightarrow> 'c list"
    and plen :: "'c list \<Rightarrow> nat"
    and limit :: nat
  assumes hlen_pos: "0 < hlen"
    and length_hdr: "n \<le> limit \<Longrightarrow> length (hdr n) = hlen"
    and plen_hdr: "n \<le> limit \<Longrightarrow> plen (hdr n) = n"
begin

lemma next_frame_frame:
  "length m \<le> limit \<Longrightarrow> next_frame hlen plen (frame hdr m @ rest) = Some (m, rest)"
  by (simp add: next_frame_def frame_def length_hdr plen_hdr)

lemma next_frame_incomplete:
  assumes "length m \<le> limit" and "frame hdr m = p @ q" and "q \<noteq> []"
  shows "next_frame hlen plen p = None"
proof (rule ccontr)
  assume "next_frame hlen plen p \<noteq> None"
  then obtain m' rest where p: "next_frame hlen plen p = Some (m', rest)" by auto
  from next_frame_extend [OF p, of q] have "next_frame hlen plen (frame hdr m) = Some (m', rest @ q)"
    by (simp add: assms(2))
  moreover have "next_frame hlen plen (frame hdr m) = Some (m, [])"
    using next_frame_frame [OF assms(1), of "[]"] by simp
  ultimately show False using assms(3) by simp
qed

lemma parse_frames_concat:
  assumes "\<forall>m \<in> set ms. length m \<le> limit"
  shows "parse_frames hlen plen (concat (map (frame hdr) ms)) = (ms, [])"
  using assms
proof (induction ms)
  case Nil
  show ?case
    using hlen_pos by (simp add: parse_frames.simps [of _ _ "[]"] next_frame_def)
next
  case (Cons m ms)
  then have "next_frame hlen plen (frame hdr m @ concat (map (frame hdr) ms))
      = Some (m, concat (map (frame hdr) ms))"
    by (simp add: next_frame_frame)
  with Cons show ?case
    using hlen_pos by (simp add: parse_frames.simps [of _ _ "frame hdr m @ _"])
qed

lemma parse_frames_prefix:
  assumes "\<forall>m \<in> set ms. length m \<le> limit" and "length m \<le> limit"
    and "frame hdr m = p @ q" and "q \<noteq> []"
  shows "parse_frames hlen plen (concat (map (frame hdr) ms) @ p) = (ms, p)"
proof -
  have "parse_frames hlen plen p = ([], p)"
    using next_frame_incomplete [OF assms(2-4)] hlen_pos
    by (simp add: parse_frames.simps [of _ _ p])
  with parse_frames_append [OF parse_frames_concat [OF assms(1)], of p] show ?thesis by simp
qed

end

end
