(* ===== verification/Record_Stream.thy ===== *)
theory Record_Stream
  imports Framing
begin

text \<open>
  \<^verbatim>\<open>radio/librilutils/record_stream.c\<close>: a buffered reader of length-prefixed records. The
  pointers \<^verbatim>\<open>unconsumed\<close>, \<^verbatim>\<open>read_end\<close> and \<^verbatim>\<open>buffer_end\<close> into the allocation are offsets
  from \<^verbatim>\<open>buffer\<close>; the result of \<^verbatim>\<open>read(2)\<close> is an argument (\<open>None\<close> for an error,
  \<open>Some bs\<close> for the bytes delivered, \<open>Some []\<close> for end of stream). Also here:
  \<^verbatim>\<open>ril_nano_time\<close> of \<^verbatim>\<open>librilutils.c\<close>.
\<close>

section \<open>The stream object\<close>

definition HEADER_SIZE :: nat where
  "HEADER_SIZE = 4"

record RecordStream =
  rs_fd :: int
  maxRecordLen :: nat
  rs_buffer :: bytes
  unconsumed :: nat
  read_end :: nat
  buffer_end :: nat

text \<open>
  \<open>None\<close> is the failed assertion on the maximal length. The contents of the fresh
  allocation (\<^verbatim>\<open>malloc\<close> leaves them unspecified) are the argument \<open>junk\<close>.
\<close>

definition record_stream_new :: "(nat \<Rightarrow> u8) \<Rightarrow> int \<Rightarrow> nat \<Rightarrow> RecordStream option" where
  "record_stream_new junk fd maxLen =
     (if maxLen \<le> 0xffff
      then Some \<lparr>rs_fd = fd, maxRecordLen = maxLen,
                 rs_buffer = map junk [0..<maxLen + HEADER_SIZE],
                 unconsumed = 0, read_end = 0, buffer_end = maxLen + HEADER_SIZE\<rparr>
      else None)"

text \<open>The bytes received and not yet handed out.\<close>

definition pending :: "RecordStream \<Rightarrow> bytes" where
  "pending rs = drop (unconsumed rs) (take (read_end rs) (rs_buffer rs))"

text \<open>\<^verbatim>\<open>ntohl\<close> of the four bytes at the start of the record.\<close>

definition record_len :: "bytes \<Rightarrow> nat" where
  "record_len bs = unat (dec_be32 bs)"

definition getEndOfRecord :: "bytes \<Rightarrow> nat \<Rightarrow> nat \<Rightarrow> nat option" where
  "getEndOfRecord buf p_begin p_end =
     (if p_end < p_begin + HEADER_SIZE then None
      else let len = record_len (take HEADER_SIZE (drop p_begin buf));
               p_ret = p_begin + HEADER_SIZE + len
           in if p_end < p_ret then None else Some p_ret)"

text \<open>
  The record handed out is the pair of its start offset and its length, pointing into the
  buffer, as the C code returns it.
\<close>

definition getNextRecord :: "RecordStream \<Rightarrow> (nat \<times> nat) option \<times> RecordStream" where
  "getNextRecord rs =
     (case getEndOfRecord (rs_buffer rs) (unconsumed rs) (read_end rs) of
        Some record_end \<Rightarrow>
          let record_start = unconsumed rs + HEADER_SIZE in
          (Some (record_start, record_end - record_start), rs\<lparr>unconsumed := record_end\<rparr>)
      | None \<Rightarrow> (None, rs))"

datatype rs_result =
    Record nat nat     \<comment> \<open>returns 0; offset and length of the record\<close>
  | End_of_stream      \<comment> \<open>returns 0 with a null record\<close>
  | Read_error         \<comment> \<open>returns -1, the value of read\<close>
  | Again              \<comment> \<open>returns -1 with errno EAGAIN\<close>
  | Assert_failed      \<comment> \<open>the assertion that the buffer is never full\<close>

text \<open>Moving the remainder to the beginning of the buffer.\<close>

definition rs_compact :: "RecordStream \<Rightarrow> RecordStream" where
  "rs_compact rs =
     (if unconsumed rs \<noteq> 0 then
        let toMove = read_end rs - unconsumed rs in
        rs\<lparr>rs_buffer := (if toMove \<noteq> 0 then splice (rs_buffer rs) 0 (pending rs) else rs_buffer rs),
           read_end := toMove, unconsumed := 0\<rparr>
      else rs)"

text \<open>
  \<open>rd n\<close> is what \<^verbatim>\<open>read\<close> delivers when asked for \<open>n\<close> bytes.
\<close>

definition record_stream_get_next ::
  "(nat \<Rightarrow> bytes option) \<Rightarrow> RecordStream \<Rightarrow> rs_result \<times> RecordStream" where
  "record_stream_get_next rd rs =
     (case getNextRecord rs of
        (Some (start, len), rs1) \<Rightarrow> (Record start len, rs1)
      | (None, rs1) \<Rightarrow>
          if unconsumed rs1 = 0 \<and> read_end rs1 = buffer_end rs1 then (Assert_failed, rs1)
          else
            let rs2 = rs_compact rs1 in
            (case rd (buffer_end rs2 - read_end rs2) of
               None \<Rightarrow> (Read_error, rs2)
             | Some [] \<Rightarrow> (End_of_stream, rs2)
             | Some bs \<Rightarrow>
                 let rs3 = rs2\<lparr>rs_buffer := splice (rs_buffer rs2) (read_end rs2) bs,
                               read_end := read_end rs2 + length bs\<rparr>
                 in (case getNextRecord rs3 of
                       (None, rs4) \<Rightarrow> (Again, rs4)
                     | (Some (start, len), rs4) \<Rightarrow> (Record start len, rs4))))"

text \<open>\<^verbatim>\<open>librilutils.c\<close>: the monotonic clock in nanoseconds, in 64-bit unsigned arithmetic.\<close>

definition ril_nano_time :: "u64 \<Rightarrow> u64 \<Rightarrow> u64" where
  "ril_nano_time tv_sec tv_nsec = tv_sec * 1000000000 + tv_nsec"

section \<open>The framing the stream implements\<close>

definition be32_header :: "nat \<Rightarrow> bytes" where
  "be32_header n = enc_be32 (word_of_nat n)"

interpretation ril_frame: length_prefix HEADER_SIZE be32_header record_len "2 ^ 32 - 1"
proof
  show "0 < HEADER_SIZE" by (simp add: HEADER_SIZE_def)
next
  fix n :: nat
  assume "n \<le> 2 ^ 32 - 1"
  then show "length (be32_header n) = HEADER_SIZE" and "record_len (be32_header n) = n"
    by (simp_all add: be32_header_def HEADER_SIZE_def record_len_def be32.length_enc
        unat_of_nat)
qed

section \<open>Well-formedness and the functional behaviour\<close>

definition rs_wf :: "RecordStream \<Rightarrow> bool" where
  "rs_wf rs \<longleftrightarrow> unconsumed rs \<le> read_end rs \<and> read_end rs \<le> buffer_end rs \<and>
     buffer_end rs = maxRecordLen rs + HEADER_SIZE \<and> length (rs_buffer rs) = buffer_end rs \<and>
     maxRecordLen rs \<le> 0xffff"

lemma record_stream_new_wf:
  "record_stream_new junk fd n = Some rs \<Longrightarrow> rs_wf rs \<and> pending rs = [] \<and> maxRecordLen rs = n"
  by (auto simp: record_stream_new_def rs_wf_def pending_def split: if_splits)

lemma length_pending: "rs_wf rs \<Longrightarrow> length (pending rs) = read_end rs - unconsumed rs"
  by (auto simp: rs_wf_def pending_def)

lemma header_bytes:
  assumes "rs_wf rs" and "unconsumed rs + HEADER_SIZE \<le> read_end rs"
  shows "take HEADER_SIZE (drop (unconsumed rs) (rs_buffer rs)) = take HEADER_SIZE (pending rs)"
proof -
  have "HEADER_SIZE \<le> read_end rs - unconsumed rs" using assms(2) by simp
  then show ?thesis by (simp add: pending_def drop_take min_def)
qed

text \<open>The record that an offset and a length denote.\<close>

definition record_at :: "RecordStream \<Rightarrow> nat \<Rightarrow> nat \<Rightarrow> bytes" where
  "record_at rs start len = take len (drop start (rs_buffer rs))"

lemma pending_short_iff:
  assumes "rs_wf rs" and "0 < n"
  shows "length (pending rs) < n \<longleftrightarrow> read_end rs < unconsumed rs + n"
  using assms by (auto simp: length_pending rs_wf_def)

lemma HEADER_SIZE_pos: "0 < HEADER_SIZE"
  by (simp add: HEADER_SIZE_def)

lemma getNextRecord_None:
  assumes "rs_wf rs"
  shows "getNextRecord rs = (None, rs') \<longleftrightarrow>
           rs' = rs \<and> next_frame HEADER_SIZE record_len (pending rs) = None"
proof (cases "read_end rs < unconsumed rs + HEADER_SIZE")
  case True
  with assms show ?thesis
    by (auto simp: getNextRecord_def getEndOfRecord_def next_frame_def
        pending_short_iff HEADER_SIZE_pos)
next
  case False
  with assms header_bytes [OF assms] show ?thesis
    by (auto simp: getNextRecord_def getEndOfRecord_def next_frame_def Let_def
        pending_short_iff HEADER_SIZE_pos add.assoc)
qed

lemma getNextRecord_Some:
  assumes wf: "rs_wf rs" and r: "getNextRecord rs = (Some (start, len), rs')"
  shows "rs_wf rs'"
    and "next_frame HEADER_SIZE record_len (pending rs) = Some (record_at rs' start len, pending rs')"
    and "start + len \<le> read_end rs'" and "maxRecordLen rs' = maxRecordLen rs"
    and "rs_fd rs' = rs_fd rs"
proof -
  let ?u = "unconsumed rs" and ?n = "record_len (take HEADER_SIZE (pending rs))"
  from r have hdr: "?u + HEADER_SIZE \<le> read_end rs"
    by (auto simp: getNextRecord_def getEndOfRecord_def split: if_splits)
  note hb = header_bytes [OF wf hdr]
  from r hdr have full: "?u + HEADER_SIZE + ?n \<le> read_end rs"
    and start: "start = ?u + HEADER_SIZE" and len: "len = ?n"
    and rs': "rs' = rs\<lparr>unconsumed := ?u + HEADER_SIZE + ?n\<rparr>"
    by (auto simp: getNextRecord_def getEndOfRecord_def Let_def hb split: if_splits)
  from wf full show "rs_wf rs'" by (simp add: rs' rs_wf_def)
  from full show "start + len \<le> read_end rs'" by (simp add: rs' start len)
  show "maxRecordLen rs' = maxRecordLen rs" "rs_fd rs' = rs_fd rs" by (simp_all add: rs')
  have rec: "take ?n (drop HEADER_SIZE (pending rs)) = record_at rs' start len"
    using wf full by (simp add: record_at_def rs' start len pending_def rs_wf_def
        drop_take min_def algebra_simps)
  have rest: "drop (HEADER_SIZE + ?n) (pending rs) = pending rs'"
    by (simp add: rs' pending_def algebra_simps)
  show "next_frame HEADER_SIZE record_len (pending rs) = Some (record_at rs' start len, pending rs')"
    using wf hdr full
    by (simp add: next_frame_def Let_def pending_short_iff HEADER_SIZE_pos rec rest)
qed

lemma rs_compact_wf: "rs_wf rs \<Longrightarrow> rs_wf (rs_compact rs)"
  by (auto simp: rs_compact_def rs_wf_def Let_def pending_def)

lemma rs_compact_pending: "rs_wf rs \<Longrightarrow> pending (rs_compact rs) = pending rs"
  by (auto simp: rs_compact_def rs_wf_def Let_def pending_def splice_def)

lemma rs_compact_fields:
  "rs_wf rs \<Longrightarrow> unconsumed (rs_compact rs) = 0 \<and> buffer_end (rs_compact rs) = buffer_end rs \<and>
     maxRecordLen (rs_compact rs) = maxRecordLen rs \<and> read_end (rs_compact rs) = length (pending rs)"
  by (auto simp: rs_compact_def Let_def length_pending)

text \<open>The three behaviours of \<^verbatim>\<open>record_stream_get_next\<close>, by what is pending.\<close>

lemma get_next_buffered:
  assumes wf: "rs_wf rs" and nf: "next_frame HEADER_SIZE record_len (pending rs) = Some (m, r)"
  shows "\<exists>st len rs'. record_stream_get_next rd rs = (Record st len, rs') \<and> rs_wf rs' \<and>
           record_at rs' st len = m \<and> pending rs' = r \<and> maxRecordLen rs' = maxRecordLen rs"
proof -
  obtain res rs' where g: "getNextRecord rs = (res, rs')" by (cases "getNextRecord rs")
  with nf getNextRecord_None [OF wf] obtain st len where res: "res = Some (st, len)"
    by (cases res) auto
  note some = getNextRecord_Some [OF wf g [unfolded res]]
  have "record_at rs' st len = m \<and> pending rs' = r"
    using nf some(2) by auto
  moreover have "record_stream_get_next rd rs = (Record st len, rs')"
    by (simp add: record_stream_get_next_def g res)
  ultimately show ?thesis using some(1,4) by blast
qed

lemma pending_full_iff:
  "rs_wf rs \<Longrightarrow> (unconsumed rs = 0 \<and> read_end rs = buffer_end rs) \<longleftrightarrow> length (pending rs) = buffer_end rs"
  using HEADER_SIZE_pos by (auto simp: length_pending rs_wf_def)

lemma get_next_full:
  assumes wf: "rs_wf rs" and nf: "next_frame HEADER_SIZE record_len (pending rs) = None"
    and full: "length (pending rs) = buffer_end rs"
  shows "record_stream_get_next rd rs = (Assert_failed, rs)"
proof -
  have "getNextRecord rs = (None, rs)"
    using getNextRecord_None [OF wf] nf by blast
  then show ?thesis
    using full pending_full_iff [OF wf] by (simp add: record_stream_get_next_def)
qed

lemma append_received_wf:
  assumes "rs_wf rs" and "unconsumed rs = 0" and "length bs \<le> buffer_end rs - read_end rs"
  shows "rs_wf (rs\<lparr>rs_buffer := splice (rs_buffer rs) (read_end rs) bs,
                    read_end := read_end rs + length bs\<rparr>)"
    and "pending (rs\<lparr>rs_buffer := splice (rs_buffer rs) (read_end rs) bs,
                      read_end := read_end rs + length bs\<rparr>) = pending rs @ bs"
  using assms by (auto simp: rs_wf_def pending_def splice_def)

lemma get_next_reads:
  assumes wf: "rs_wf rs" and nf: "next_frame HEADER_SIZE record_len (pending rs) = None"
    and room: "length (pending rs) < buffer_end rs"
    and rd: "rd (buffer_end rs - length (pending rs)) = Some bs" and ne: "bs \<noteq> []"
    and len: "length bs \<le> buffer_end rs - length (pending rs)"
  shows "case next_frame HEADER_SIZE record_len (pending rs @ bs) of
      None \<Rightarrow> \<exists>rs'. record_stream_get_next rd rs = (Again, rs') \<and> rs_wf rs' \<and>
        pending rs' = pending rs @ bs \<and> maxRecordLen rs' = maxRecordLen rs
    | Some (m, r) \<Rightarrow> \<exists>st l rs'. record_stream_get_next rd rs = (Record st l, rs') \<and> rs_wf rs' \<and>
        record_at rs' st l = m \<and> pending rs' = r \<and> maxRecordLen rs' = maxRecordLen rs"
proof -
  let ?rs2 = "rs_compact rs"
  let ?rs3 = "?rs2\<lparr>rs_buffer := splice (rs_buffer ?rs2) (read_end ?rs2) bs,
                   read_end := read_end ?rs2 + length bs\<rparr>"
  have none: "getNextRecord rs = (None, rs)" using getNextRecord_None [OF wf] nf by blast
  note f2 = rs_compact_fields [OF wf] and wf2 = rs_compact_wf [OF wf]
  from f2 len have l2: "length bs \<le> buffer_end ?rs2 - read_end ?rs2" by simp
  note a3 = append_received_wf [OF wf2 _ l2]
  have wf3: "rs_wf ?rs3" and p3: "pending ?rs3 = pending rs @ bs"
    using a3 f2 rs_compact_pending [OF wf] by auto
  have m3: "maxRecordLen ?rs3 = maxRecordLen rs" using f2 by simp
  obtain b bs' where bs: "bs = b # bs'" using ne by (cases bs) auto
  have step: "record_stream_get_next rd rs =
      (case getNextRecord ?rs3 of (None, rs4) \<Rightarrow> (Again, rs4)
       | (Some (start, len), rs4) \<Rightarrow> (Record start len, rs4))"
    using room pending_full_iff [OF wf] f2 rd
    by (simp add: record_stream_get_next_def none Let_def bs split: option.splits prod.splits)
  show ?thesis
  proof (cases "getNextRecord ?rs3")
    case (Pair res rs4)
    show ?thesis
    proof (cases res)
      case None
      then have "rs4 = ?rs3" and "next_frame HEADER_SIZE record_len (pending rs @ bs) = None"
        using Pair getNextRecord_None [OF wf3, of rs4] p3 by auto
      with wf3 p3 m3 None Pair step show ?thesis by auto
    next
      case (Some q)
      obtain st l where q: "q = (st, l)" by (cases q)
      note some = getNextRecord_Some [OF wf3 Pair [unfolded Some q]]
      have "next_frame HEADER_SIZE record_len (pending rs @ bs) = Some (record_at rs4 st l, pending rs4)"
        using some(2) p3 by simp
      moreover have "record_stream_get_next rd rs = (Record st l, rs4)"
        using step Pair Some q by simp
      ultimately show ?thesis using some(1,4) m3 by auto
    qed
  qed
qed

section \<open>Draining a stream\<close>

text \<open>
  A client that calls \<^verbatim>\<open>record_stream_get_next\<close> repeatedly, as the socket callback does,
  against a peer that has \<open>src\<close> still to deliver: the \<open>i\<close>-th call's \<^verbatim>\<open>read\<close>, if it is
  made, delivers at most \<open>ks ! i\<close> bytes. The results are the records returned, the bytes not
  yet read and the final stream object; the client stops at end of stream or on an error.
\<close>

definition read_upto :: "nat \<Rightarrow> bytes \<Rightarrow> nat \<Rightarrow> bytes option" where
  "read_upto k src n = Some (take (min n k) src)"

definition unread_after :: "nat \<Rightarrow> bytes \<Rightarrow> RecordStream \<Rightarrow> bytes" where
  "unread_after k src rs =
     (if fst (getNextRecord rs) = None
      then drop (min (buffer_end rs - length (pending rs)) k) src else src)"

fun rs_run :: "nat list \<Rightarrow> bytes \<Rightarrow> RecordStream \<Rightarrow> bytes list \<times> bytes \<times> RecordStream" where
  "rs_run [] src rs = ([], src, rs)"
| "rs_run (k # ks) src rs =
     (case record_stream_get_next (read_upto k src) rs of
        (Record st len, rs') \<Rightarrow>
          (let (out, rest) = rs_run ks (unread_after k src rs) rs' in (record_at rs' st len # out, rest))
      | (Again, rs') \<Rightarrow> rs_run ks (unread_after k src rs) rs'
      | (_, rs') \<Rightarrow> ([], unread_after k src rs, rs'))"

lemma frame_prefix_complete:
  assumes "length m \<le> 2 ^ 32 - 1" and "p @ s = frame be32_header m @ rest"
    and "length (frame be32_header m) \<le> length p"
  shows "\<exists>r. next_frame HEADER_SIZE record_len p = Some (m, r) \<and> r @ s = rest"
proof -
  have "frame be32_header m @ drop (length (frame be32_header m)) p = p"
    using assms(2,3) by (metis append_eq_append_conv_if append_take_drop_id)
  then have p: "p = frame be32_header m @ drop (length (frame be32_header m)) p" by simp
  then have "next_frame HEADER_SIZE record_len p = Some (m, drop (length (frame be32_header m)) p)"
    using ril_frame.next_frame_frame [OF assms(1)] by metis
  moreover have "drop (length (frame be32_header m)) p @ s = rest"
    using assms(2) p by (metis append_assoc same_append_eq)
  ultimately show ?thesis by blast
qed

lemma frame_prefix_incomplete:
  assumes "length m \<le> 2 ^ 32 - 1" and "p @ s = frame be32_header m @ rest"
    and "length p < length (frame be32_header m)"
  shows "next_frame HEADER_SIZE record_len p = None"
proof -
  have "frame be32_header m = p @ drop (length p) (frame be32_header m)"
    using assms(2,3) by (metis append_eq_append_conv_if append_take_drop_id less_imp_le)
  then show ?thesis
    using ril_frame.next_frame_incomplete [OF assms(1)] assms(3) by (metis drop_eq_Nil leD)
qed

lemma length_frame: "length m \<le> 2 ^ 32 - 1 \<Longrightarrow> length (frame be32_header m) = HEADER_SIZE + length m"
  using ril_frame.length_hdr by (simp add: frame_def)

text \<open>A read makes progress: the pending bytes followed by the unread ones stay the same.\<close>

lemma read_upto_progress:
  assumes wf: "rs_wf rs" and nf: "next_frame HEADER_SIZE record_len (pending rs) = None"
    and room: "length (pending rs) < buffer_end rs" and k: "0 < k" and src: "src \<noteq> []"
  shows "\<exists>bs. read_upto k src (buffer_end rs - length (pending rs)) = Some bs \<and> bs \<noteq> [] \<and>
     length bs \<le> buffer_end rs - length (pending rs) \<and> bs @ unread_after k src rs = src \<and>
     length (unread_after k src rs) < length src"
proof -
  let ?n = "min (buffer_end rs - length (pending rs)) k"
  have "fst (getNextRecord rs) = None" using getNextRecord_None [OF wf, of rs] nf by simp
  then have "unread_after k src rs = drop ?n src" by (simp add: unread_after_def)
  moreover have "0 < ?n" using room k by simp
  ultimately show ?thesis
    using src by (intro exI [of _ "take ?n src"]) (auto simp: read_upto_def)
qed

lemma unread_after_buffered:
  assumes "rs_wf rs" and "next_frame HEADER_SIZE record_len (pending rs) = Some mr"
  shows "unread_after k src rs = src"
proof -
  have "fst (getNextRecord rs) \<noteq> None"
    using getNextRecord_None [OF assms(1)] assms(2) by (metis option.distinct(1) prod.collapse)
  then show ?thesis unfolding unread_after_def by (rule if_not_P)
qed

lemma get_next_at_eof:
  assumes wf: "rs_wf rs" and p: "pending rs = []"
  shows "\<exists>rs'. rs_run (k # ks) [] rs = ([], [], rs') \<and> rs_wf rs' \<and> pending rs' = []"
proof -
  have nf: "next_frame HEADER_SIZE record_len (pending rs) = None"
    by (simp add: p next_frame_def HEADER_SIZE_pos)
  have none: "getNextRecord rs = (None, rs)" using getNextRecord_None [OF wf] nf by blast
  have "buffer_end rs \<noteq> 0" using wf HEADER_SIZE_pos by (auto simp: rs_wf_def)
  then have "record_stream_get_next (read_upto k []) rs = (End_of_stream, rs_compact rs)"
    using pending_full_iff [OF wf] p
    by (simp add: record_stream_get_next_def none Let_def read_upto_def split: option.splits)
  then show ?thesis
    using none rs_compact_wf [OF wf] rs_compact_pending [OF wf] p
    by (simp add: unread_after_def)
qed

text \<open>
  One call against a stream whose next frame is \<open>m\<close>: it returns \<open>m\<close>, or asks to be
  called again with fewer bytes left to read. The assertion never fails.
\<close>

lemma get_next_progress:
  assumes wf: "rs_wf rs" and m: "length m \<le> maxRecordLen rs" and k: "0 < k"
    and stream: "pending rs @ src = frame be32_header m @ rest"
  shows "\<exists>rs'. rs_wf rs' \<and> maxRecordLen rs' = maxRecordLen rs \<and>
     ((\<exists>st l. record_stream_get_next (read_upto k src) rs = (Record st l, rs') \<and>
         record_at rs' st l = m \<and> pending rs' @ unread_after k src rs = rest \<and>
         length (unread_after k src rs) \<le> length src) \<or>
      record_stream_get_next (read_upto k src) rs = (Again, rs') \<and>
         pending rs' @ unread_after k src rs = frame be32_header m @ rest \<and>
         length (unread_after k src rs) < length src)"
proof -
  have m32: "length m \<le> 2 ^ 32 - 1" using m wf by (simp add: rs_wf_def)
  show ?thesis
  proof (cases "length (frame be32_header m) \<le> length (pending rs)")
    case True
    then obtain r where nf: "next_frame HEADER_SIZE record_len (pending rs) = Some (m, r)"
      and r: "r @ src = rest"
      using frame_prefix_complete [OF m32 stream] by blast
    from get_next_buffered [OF wf nf, of "read_upto k src"] unread_after_buffered [OF wf nf] r
    show ?thesis by (metis order_refl)
  next
    case False
    then have nf: "next_frame HEADER_SIZE record_len (pending rs) = None"
      using frame_prefix_incomplete [OF m32 stream] by simp
    have room: "length (pending rs) < buffer_end rs"
      using False m wf by (simp add: length_frame [OF m32] rs_wf_def)
    have "src \<noteq> []" using False arg_cong [OF stream, of length] by auto
    then obtain bs where rd: "read_upto k src (buffer_end rs - length (pending rs)) = Some bs"
      and bs: "bs \<noteq> []" "length bs \<le> buffer_end rs - length (pending rs)"
      and src: "bs @ unread_after k src rs = src"
      and less: "length (unread_after k src rs) < length src"
      using read_upto_progress [OF wf nf room k] by blast
    have stream2: "(pending rs @ bs) @ unread_after k src rs = frame be32_header m @ rest"
      using stream src by (metis append_assoc)
    show ?thesis
    proof (cases "next_frame HEADER_SIZE record_len (pending rs @ bs)")
      case None
      with get_next_reads [where rd = "read_upto k src", OF wf nf room rd bs] stream2 less
      show ?thesis by auto
    next
      case (Some p)
      then have "length (frame be32_header m) \<le> length (pending rs @ bs)"
        using frame_prefix_incomplete [OF m32 stream2] by (metis not_le option.distinct(1))
      then obtain r where p: "p = (m, r)" and r: "r @ unread_after k src rs = rest"
        using frame_prefix_complete [OF m32 stream2] Some by auto
      with get_next_reads [where rd = "read_upto k src", OF wf nf room rd bs] Some less
      show ?thesis by (auto intro: less_imp_le)
    qed
  qed
qed

lemma rs_run_drains:
  assumes "rs_wf rs" and "\<forall>m \<in> set ms. length m \<le> maxRecordLen rs"
    and "pending rs @ src = concat (map (frame be32_header) ms)"
    and "\<forall>k \<in> set ks. 0 < k" and "length src + length ms \<le> length ks"
  shows "\<exists>rs'. rs_run ks src rs = (ms, [], rs') \<and> rs_wf rs' \<and> pending rs' = []"
  using assms
proof (induction ks arbitrary: src rs ms)
  case Nil
  then show ?case by simp
next
  case (Cons k ks)
  note wf = Cons.prems(1) and ks = Cons.prems(4)
  show ?case
  proof (cases ms)
    case Nil
    with Cons.prems(3) get_next_at_eof [OF wf] show ?thesis by simp
  next
    case ms: (Cons m ms')
    let ?src' = "unread_after k src rs"
    obtain rs' where rs': "rs_wf rs'" "maxRecordLen rs' = maxRecordLen rs"
      and cases: "(\<exists>st l. record_stream_get_next (read_upto k src) rs = (Record st l, rs') \<and>
          record_at rs' st l = m \<and> pending rs' @ ?src' = concat (map (frame be32_header) ms') \<and>
          length ?src' \<le> length src) \<or>
        record_stream_get_next (read_upto k src) rs = (Again, rs') \<and>
          pending rs' @ ?src' = frame be32_header m @ concat (map (frame be32_header) ms') \<and>
          length ?src' < length src"
      using get_next_progress [OF wf, of m k src "concat (map (frame be32_header) ms')"]
        Cons.prems(2-4) ms by auto
    from cases show ?thesis
    proof (elim disjE exE conjE)
      fix st l
      assume g: "record_stream_get_next (read_upto k src) rs = (Record st l, rs')"
        and m: "record_at rs' st l = m"
        and more: "pending rs' @ ?src' = concat (map (frame be32_header) ms')"
          "length ?src' \<le> length src"
      have "\<exists>rs''. rs_run ks ?src' rs' = (ms', [], rs'') \<and> rs_wf rs'' \<and> pending rs'' = []"
        using Cons.prems(2,5) ms rs' more ks by (intro Cons.IH) auto
      then show ?thesis using g m ms by auto
    next
      assume g: "record_stream_get_next (read_upto k src) rs = (Again, rs')"
        and more: "pending rs' @ ?src' = frame be32_header m @ concat (map (frame be32_header) ms')"
          "length ?src' < length src"
      have "\<exists>rs''. rs_run ks ?src' rs' = (ms, [], rs'') \<and> rs_wf rs'' \<and> pending rs'' = []"
        using Cons.prems(2,5) ms rs' more ks by (intro Cons.IH) auto
      then show ?thesis using g by simp
    qed
  qed
qed

section \<open>Properties\<close>

lemma get_next_cases:
  assumes wf: "rs_wf rs" and rd: "\<And>n bs. rd n = Some bs \<Longrightarrow> length bs \<le> n"
  shows "rs_wf (snd (record_stream_get_next rd rs)) \<and>
     maxRecordLen (snd (record_stream_get_next rd rs)) = maxRecordLen rs"
proof (cases "next_frame HEADER_SIZE record_len (pending rs)")
  case (Some p)
  then show ?thesis
    using get_next_buffered [OF wf, of "fst p" "snd p" rd] by auto
next
  case nf: None
  then have none: "getNextRecord rs = (None, rs)" using getNextRecord_None [OF wf] by blast
  let ?n = "buffer_end rs - length (pending rs)"
  note f2 = rs_compact_fields [OF wf] and wf2 = rs_compact_wf [OF wf]
  show ?thesis
  proof (cases "length (pending rs) = buffer_end rs")
    case True
    with get_next_full [OF wf nf] wf show ?thesis by simp
  next
    case False
    then have room: "length (pending rs) < buffer_end rs"
      using wf by (auto simp: length_pending rs_wf_def)
    show ?thesis
    proof (cases "rd ?n = None \<or> rd ?n = Some []")
      case True
      with room pending_full_iff [OF wf] f2 wf2 show ?thesis
        by (auto simp: record_stream_get_next_def none Let_def)
    next
      case False
      then obtain bs where bs: "rd ?n = Some bs" "bs \<noteq> []" by auto
      from get_next_reads [where rd = rd, OF wf nf room bs rd [OF bs(1)]] show ?thesis
        by (auto split: option.splits)
    qed
  qed
qed





text \<open>The assertion that the buffer is never full fails exactly when the peer
  has announced a record longer than the maximum and has filled the buffer with its start.\<close>

theorem record_stream_assert_iff:
  assumes wf: "rs_wf rs"
  shows "fst (record_stream_get_next rd rs) = Assert_failed \<longleftrightarrow>
     length (pending rs) = maxRecordLen rs + HEADER_SIZE \<and>
     maxRecordLen rs < record_len (take HEADER_SIZE (pending rs))"
proof -
  have be: "buffer_end rs = maxRecordLen rs + HEADER_SIZE" using wf by (simp add: rs_wf_def)
  have nf: "next_frame HEADER_SIZE record_len (pending rs) = None \<longleftrightarrow>
      maxRecordLen rs < record_len (take HEADER_SIZE (pending rs))"
    if "length (pending rs) = maxRecordLen rs + HEADER_SIZE"
    using that by (auto simp: next_frame_def Let_def)
  show ?thesis
  proof (cases "next_frame HEADER_SIZE record_len (pending rs)")
    case (Some p)
    with get_next_buffered [OF wf, of "fst p" "snd p" rd] nf show ?thesis by auto
  next
    case None
    then have none: "getNextRecord rs = (None, rs)" using getNextRecord_None [OF wf] by blast
    have "fst (record_stream_get_next rd rs) = Assert_failed \<longleftrightarrow> length (pending rs) = buffer_end rs"
      using pending_full_iff [OF wf]
      by (auto simp: record_stream_get_next_def none Let_def split: option.splits list.splits prod.splits)
    with nf None be show ?thesis by auto
  qed
qed

lemma record_stream_assert_iff_witness:
  "\<exists>rs. rs_wf rs \<and> fst (record_stream_get_next (\<lambda>_. None) rs) = Assert_failed"
proof -
  let ?rs = "\<lparr>rs_fd = 0, maxRecordLen = 1, rs_buffer = [0, 0, 0, 2, 9], unconsumed = 0,
      read_end = 5, buffer_end = 5\<rparr>"
  have wf: "rs_wf ?rs" by (simp add: rs_wf_def HEADER_SIZE_def)
  have "length (pending ?rs) = maxRecordLen ?rs + HEADER_SIZE \<and>
      maxRecordLen ?rs < record_len (take HEADER_SIZE (pending ?rs))"
    by (simp add: pending_def HEADER_SIZE_def record_len_def dec_be32_def)
  with wf record_stream_assert_iff [OF wf, of "\<lambda>_. None"] show ?thesis by blast
qed

end
