(* ===== verification/Qemud.thy ===== *)
theory Qemud
  imports Framing
begin

text \<open>
  \<^verbatim>\<open>qemud/qemud.cpp\<close>: messages to the emulator host over a qemu pipe, each preceded by its
  length as four hexadecimal digits. The pipe primitives of \<^verbatim>\<open>qemu_pipe_bp.h\<close> are not part
  of this repository and are parameters: \<open>wr p xs\<close> writes \<open>xs\<close> fully (nonzero is an error),
  \<open>rd p n\<close> reads \<open>n\<close> bytes fully (\<open>None\<close> is an error). \<^verbatim>\<open>pipe_fifo\<close> names what is
  relied on: bytes come out in the order they went in.
\<close>

section \<open>The channel operations\<close>

type_synonym 'p pipe_write = "'p \<Rightarrow> string \<Rightarrow> int \<times> 'p"
type_synonym 'p pipe_read = "'p \<Rightarrow> nat \<Rightarrow> string option \<times> 'p"

text \<open>\<^verbatim>\<open>snprintf(header, 5, "%04x", size)\<close>: at most four characters are kept.\<close>

definition qemud_header :: "nat \<Rightarrow> string" where
  "qemud_header n = snprintf_buf 5 (show_padded 16 4 n)"

text \<open>
  \<open>msg\<close> is the memory at the message pointer; its C string length is used when the caller
  passes a negative size.
\<close>

definition qemud_channel_send :: "'p pipe_write \<Rightarrow> 'p \<Rightarrow> string \<Rightarrow> int \<Rightarrow> int \<times> 'p" where
  "qemud_channel_send wr pipe msg sz0 =
     (let sz = (if sz0 < 0 then int (length (c_str msg)) else sz0) in
      if sz = 0 then (0, pipe)
      else case wr pipe (qemud_header (nat sz)) of (e1, pipe1) \<Rightarrow>
        if e1 \<noteq> 0 then (-1, pipe1)
        else case wr pipe1 (take (nat sz) msg) of (e2, pipe2) \<Rightarrow>
          if e2 \<noteq> 0 then (-1, pipe2) else (0, pipe2))"

text \<open>
  The length is scanned as an \<^verbatim>\<open>int\<close>; passed to \<^verbatim>\<open>qemu_pipe_read_fully\<close> it is converted to
  \<^verbatim>\<open>size_t\<close>, so a negative value becomes a huge one. The result is the return value and the
  bytes stored at \<^verbatim>\<open>msg\<close>.
\<close>

definition to_size_t :: "int \<Rightarrow> nat" where
  "to_size_t k = nat (k mod 2 ^ 64)"

definition qemud_channel_recv :: "'p pipe_read \<Rightarrow> 'p \<Rightarrow> int \<Rightarrow> (int \<times> string) \<times> 'p" where
  "qemud_channel_recv rd pipe maxsize =
     (case rd pipe 4 of
        (None, pipe1) \<Rightarrow> ((-1, []), pipe1)
      | (Some header, pipe1) \<Rightarrow>
          (case scan_x 4 (c_str header) of
             None \<Rightarrow> ((-1, []), pipe1)
           | Some sz \<Rightarrow>
               if sz > maxsize then ((-1, []), pipe1)
               else case rd pipe1 (to_size_t sz) of
                 (None, pipe2) \<Rightarrow> ((-1, []), pipe2)
               | (Some msg, pipe2) \<Rightarrow> ((sz, msg), pipe2)))"

section \<open>What the pipe promises\<close>

definition pipe_fifo :: "'p pipe_write \<Rightarrow> 'p pipe_read \<Rightarrow> ('p \<Rightarrow> string) \<Rightarrow> bool" where
  "pipe_fifo wr rd contents \<longleftrightarrow>
     (\<forall>p xs. fst (wr p xs) = 0 \<and> contents (snd (wr p xs)) = contents p @ xs) \<and>
     (\<forall>p n. n \<le> length (contents p) \<longrightarrow>
        fst (rd p n) = Some (take n (contents p)) \<and> contents (snd (rd p n)) = drop n (contents p))"

text \<open>The receiving side alone: \<open>contents\<close> is what there is to read.\<close>

definition pipe_reads :: "'p pipe_read \<Rightarrow> ('p \<Rightarrow> string) \<Rightarrow> bool" where
  "pipe_reads rd contents \<longleftrightarrow> (\<forall>p n. n \<le> length (contents p) \<longrightarrow>
     fst (rd p n) = Some (take n (contents p)) \<and> contents (snd (rd p n)) = drop n (contents p))"

lemma fifo_reads: "pipe_fifo wr rd contents \<Longrightarrow> pipe_reads rd contents"
  by (simp add: pipe_fifo_def pipe_reads_def)

lemma pipe_write_ok:
  assumes "pipe_fifo wr rd contents"
  obtains p' where "wr p xs = (0, p')" and "contents p' = contents p @ xs"
  using assms unfolding pipe_fifo_def by (metis prod.collapse)

lemma pipe_read_ok:
  assumes "pipe_reads rd contents" and "n \<le> length (contents p)"
  obtains p' where "rd p n = (Some (take n (contents p)), p')" and "contents p' = drop n (contents p)"
  using assms unfolding pipe_reads_def by (metis prod.collapse)

section \<open>Framing\<close>

definition hex_len :: "string \<Rightarrow> nat" where
  "hex_len h = (case scan_x 4 h of Some k \<Rightarrow> nat k | None \<Rightarrow> 0)"

lemma qemud_header_small: "n < 16 ^ 4 \<Longrightarrow> qemud_header n = show_padded 16 4 n"
  using length_show_padded [of 16 n 4] by (simp add: qemud_header_def snprintf_buf_def)

interpretation qemud_frame: length_prefix 4 qemud_header hex_len "2 ^ 16 - 1"
proof
  fix n :: nat
  assume "n \<le> 2 ^ 16 - 1"
  then have n: "n < 16 ^ 4" by simp
  show "length (qemud_header n) = 4"
    using length_show_padded [of 16 n 4] n by (simp add: qemud_header_small)
  show "hex_len (qemud_header n) = n"
    using n scan_x_padded [of n 4] by (simp add: qemud_header_small hex_len_def)
qed simp

lemma c_str_header: "n < 16 ^ 4 \<Longrightarrow> c_str (qemud_header n) = qemud_header n"
proof -
  have "c_str (show_padded 16 4 n) = show_padded 16 4 n"
    by (rule c_str_digits [of 16]) (rule show_padded_digits, simp_all)
  then show "n < 16 ^ 4 \<Longrightarrow> ?thesis" by (simp only: qemud_header_small)
qed

lemma hex_len_bound:
  assumes "list_all (is_digit 16) s" and "s \<noteq> []"
  shows "hex_len s < 16 ^ length s"
proof -
  let ?t = "take 4 s"
  have t: "list_all (is_digit 16) ?t" "?t \<noteq> []" "is_digit 16 (hd s)"
    using assms by (auto simp: list_all_iff dest: in_set_takeD)
  then have hd: "is_digit 16 (hd ?t)" using assms(2) by (simp add: hd_take)
  have "scan_x 4 s = Some (int (digits_value 16 0 ?t))"
    using scan_digits_app [OF t(1,2), of "[]"] skip_spaces_digit [OF assms(2) t(3)]
      scan_sign_digit [OF t(2) hd]
    by (simp add: scan_x_def strip_0x_digits t)
  then have "hex_len s = digits_value 16 0 ?t" by (simp add: hex_len_def)
  also have "\<dots> < 16 ^ length ?t" using digits_value_bound [OF t(1), of 0] by simp
  also have "\<dots> \<le> 16 ^ length s" by (rule power_increasing) auto
  finally show ?thesis .
qed

text \<open>What a successful send puts on the pipe.\<close>

lemma send_contents:
  assumes "pipe_fifo wr rd contents" and "0 < sz"
  obtains p' where "qemud_channel_send wr p msg sz = (0, p')"
    and "contents p' = contents p @ qemud_header (nat sz) @ take (nat sz) msg"
proof -
  obtain p1 where 1: "wr p (qemud_header (nat sz)) = (0, p1)"
    "contents p1 = contents p @ qemud_header (nat sz)"
    using pipe_write_ok [OF assms(1)] .
  obtain p2 where 2: "wr p1 (take (nat sz) msg) = (0, p2)"
    "contents p2 = contents p1 @ take (nat sz) msg"
    using pipe_write_ok [OF assms(1)] .
  show thesis
    using 1 2 assms(2) by (intro that [of p2]) (simp_all add: qemud_channel_send_def)
qed

text \<open>A frame on the pipe is received as its message.\<close>

lemma recv_frame:
  assumes "pipe_reads rd contents" and "length msg < 2 ^ 16" and "int (length msg) \<le> maxsize"
    and "contents q = frame qemud_header msg @ rest"
  obtains q' where "qemud_channel_recv rd q maxsize = ((int (length msg), msg), q')" and "contents q' = rest"
proof -
  let ?n = "length msg" and ?h = "qemud_header (length msg)"
  have n: "?n < 16 ^ 4" using assms(2) by simp
  have h: "length ?h = 4" using qemud_frame.length_hdr [of ?n] assms(2) by simp
  have q: "contents q = ?h @ msg @ rest" using assms(4) by (simp add: frame_def)
  obtain q1 where 1: "rd q 4 = (Some ?h, q1)" "contents q1 = msg @ rest"
    using pipe_read_ok [OF assms(1), of 4 q] q h by auto
  obtain q2 where 2: "rd q1 ?n = (Some msg, q2)" "contents q2 = rest"
    using pipe_read_ok [OF assms(1), of ?n q1] 1(2) by auto
  have "scan_x 4 (c_str ?h) = Some (int ?n)"
    using scan_x_padded [of ?n 4] n by (simp only: c_str_header) (simp add: qemud_header_small)
  moreover have "to_size_t (int ?n) = ?n" using assms(2) by (simp add: to_size_t_def)
  ultimately show thesis
    using 1 2 assms(3) by (intro that [of q2]) (simp_all add: qemud_channel_recv_def)
qed

text \<open>Property C4: a message of 1 to 65535 bytes sent over a first-in first-out pipe is received
  unchanged, with its length, by a receiver whose buffer is large enough, and the bytes that
  follow it on the pipe are left for the next receive.\<close>

theorem qemud_send_recv:
  assumes fifo: "pipe_fifo wr rd contents"
    and msg: "msg \<noteq> []" "length msg < 2 ^ 16" "int (length msg) \<le> maxsize"
    and sent: "qemud_channel_send wr p msg (int (length msg)) = (e, p')"
    and head: "contents p = []" "contents q = contents p' @ rest"
  shows "e = 0 \<and> (\<exists>q'. qemud_channel_recv rd q maxsize = ((int (length msg), msg), q') \<and>
     contents q' = rest)"
proof -
  obtain p1 where "qemud_channel_send wr p msg (int (length msg)) = (0, p1)"
    "contents p1 = contents p @ qemud_header (length msg) @ msg"
    using send_contents [OF fifo, of "int (length msg)" p msg] msg(1) by auto
  then have e: "e = 0" and "contents q = frame qemud_header msg @ rest" using sent head by (auto simp: frame_def)
  then show ?thesis using recv_frame [OF fifo_reads [OF fifo] msg(2,3)] by metis
qed

text \<open>A pipe that keeps its contents as a string, to instantiate the hypotheses.\<close>

definition loop_write :: "string pipe_write" where
  "loop_write p xs = (0, p @ xs)"

definition loop_read :: "string pipe_read" where
  "loop_read p n = (if n \<le> length p then (Some (take n p), drop n p) else (None, p))"

lemma loop_fifo: "pipe_fifo loop_write loop_read (\<lambda>p. p)"
  by (simp add: pipe_fifo_def loop_write_def loop_read_def)

lemma qemud_send_recv_witness:
  "\<exists>q'. qemud_channel_recv loop_read (snd (qemud_channel_send loop_write [] ''on:7'' 4) @ ''ab'') 127
      = ((4, ''on:7''), q') \<and> q' = ''ab''"
  using qemud_send_recv [OF loop_fifo, of "''on:7''" 127 "[]"
      "fst (qemud_channel_send loop_write [] ''on:7'' 4)"
      "snd (qemud_channel_send loop_write [] ''on:7'' 4)"
      "snd (qemud_channel_send loop_write [] ''on:7'' 4) @ ''ab''" "''ab''"]
  by simp

text \<open>The header has four digits, so the length of a message of 65536 bytes or
  more is cut to its four leading hexadecimal digits: the header of such a message never tells
  its length.\<close>

theorem qemud_header_truncated:
  assumes "2 ^ 16 \<le> n"
  shows "length (qemud_header n) = 4 \<and> hex_len (qemud_header n) \<noteq> n"
proof -
  let ?s = "show_padded 16 4 n"
  have ds: "list_all (is_digit 16) ?s" "digits_value 16 0 ?s = n"
    using show_padded_digits [of 16 4 n] by auto
  have "\<not> length ?s < 4" by (simp add: show_padded_def Let_def)
  then have len: "length (qemud_header n) = 4"
    by (simp add: qemud_header_def snprintf_buf_def)
  have digs: "list_all (is_digit 16) (qemud_header n)"
    using ds(1) by (auto simp: qemud_header_def snprintf_buf_def list_all_iff dest: in_set_takeD)
  have "hex_len (qemud_header n) < 16 ^ 4"
    using hex_len_bound [OF digs] len by (cases "qemud_header n") auto
  with len assms show ?thesis by auto
qed

lemma qemud_header_truncated_witness: "hex_len (qemud_header 65536) \<noteq> 65536"
  using qemud_header_truncated [of 65536] by simp

text \<open>The receiver rejects a length above its buffer size but not a negative one:
  on the header \<^verbatim>\<open>-001\<close> it goes on to ask the pipe for \<open>2 ^ 64 - 1\<close> bytes, whatever the
  size of its buffer.\<close>

theorem qemud_recv_negative_length:
  assumes "rd q 4 = (Some ''-001'', q1)" and "0 \<le> maxsize"
  shows "qemud_channel_recv rd q maxsize =
     (case rd q1 (2 ^ 64 - 1) of (None, q2) \<Rightarrow> ((-1, []), q2)
      | (Some msg, q2) \<Rightarrow> ((-1, msg), q2))"
proof -
  have "scan_x 4 (c_str ''-001'') = Some (-1)" by code_simp
  with assms show ?thesis by (simp add: qemud_channel_recv_def to_size_t_def)
qed

lemma qemud_recv_negative_length_witness:
  "qemud_channel_recv (\<lambda>q n. if n = 4 then (Some ''-001'', q) else (Some q, q)) ''overrun'' 3
     = ((-1, ''overrun''), ''overrun'')"
  using qemud_recv_negative_length [of "\<lambda>q n. if n = 4 then (Some ''-001'', q) else (Some q, q)"
      "''overrun''" "''overrun''" 3]
  by simp

end
