(* ===== verification/RIL_Daemon.thy ===== *)
theory RIL_Daemon
  imports C_Strings
begin

text \<open>
  \<^verbatim>\<open>radio/rild/rild_goldfish.c\<close>: the radio daemon's start-up. Command line parsing, the choice
  of the vendor library, and the construction of the argument vector handed to the vendor's
  \<^verbatim>\<open>RIL_Init\<close>. Arrays of argument pointers have their C size, and a store past the end is the
  error \<open>Out_of_bounds\<close>. The system properties, the dynamic linker and the names defined in
  libril are the fields of \<open>rild_env\<close>.
\<close>

section \<open>Constants and environment\<close>

definition MAX_LIB_ARGS :: nat where
  "MAX_LIB_ARGS = 16"

definition MAX_RILDS :: int where
  "MAX_RILDS = 3"

definition MAX_SERVICE_NAME_LENGTH :: nat where
  "MAX_SERVICE_NAME_LENGTH = 6"

definition MAX_CLIENT_ID_LENGTH :: nat where
  "MAX_CLIENT_ID_LENGTH = 2"

record rild_env =
  lib_path_property :: string
  lib_args_property :: string
  dlopen_ok :: "string \<Rightarrow> bool"
  has_RIL_Init :: bool
  has_RIL_SAP_Init :: bool
  ril_service_name_base :: string
  ril_service_name :: string

record rild_run =
  run_library :: string
  run_argv :: "string option list"
  run_argc :: nat
  run_sap :: bool
  run_service_name :: string

datatype rild_outcome =
    Usage_exit            \<comment> \<open>\<^verbatim>\<open>exit(EXIT_FAILURE)\<close> after the usage message\<close>
  | Max_rilds_exit        \<comment> \<open>\<^verbatim>\<open>exit(0)\<close>\<close>
  | No_ril                \<comment> \<open>no library: straight to the sleep loop\<close>
  | Dlopen_failed
  | RIL_Init_missing
  | Out_of_bounds nat     \<comment> \<open>a store past the end of the argument array\<close>
  | Running rild_run

section \<open>Argument vectors\<close>

definition argv_store :: "string option list \<Rightarrow> nat \<Rightarrow> string \<Rightarrow> nat + string option list" where
  "argv_store arr i v = (if i < length arr then Inr (arr[i := Some v]) else Inl i)"

fun store_tokens :: "string list \<Rightarrow> nat \<Rightarrow> string option list \<Rightarrow> nat + nat \<times> string option list" where
  "store_tokens [] count argv = Inr (count, argv)"
| "store_tokens (tok # toks) count argv =
     (case argv_store argv count tok of
        Inl i \<Rightarrow> Inl i
      | Inr argv1 \<Rightarrow> store_tokens toks (Suc count) argv1)"

text \<open>The delimiter string \<^verbatim>\<open>" \0"\<close> is a single blank: the NUL ends it.\<close>

definition make_argv :: "string \<Rightarrow> string option list \<Rightarrow> nat + nat \<times> string option list" where
  "make_argv args argv = store_tokens (strtok_all (\<lambda>c. c = CHR '' '') args) 1 argv"

record rild_args =
  arg_lib :: "string option"
  arg_client :: "string option"
  arg_rest :: "string list option"  \<comment> \<open>what follows \<^verbatim>\<open>--\<close>, when it is there\<close>

fun parse_args :: "string list \<Rightarrow> rild_args \<Rightarrow> rild_args option" where
  "parse_args [] a = Some a"
| "parse_args [x] a = (if x = ''--'' then Some (a\<lparr>arg_rest := Some []\<rparr>) else None)"
| "parse_args (x # y # zs) a =
     (if x = ''-l'' then parse_args zs (a\<lparr>arg_lib := Some y\<rparr>)
      else if x = ''--'' then Some (a\<lparr>arg_rest := Some (y # zs)\<rparr>)
      else if x = ''-c'' then parse_args zs (a\<lparr>arg_client := Some y\<rparr>)
      else None)"

definition atoi :: "string \<Rightarrow> int" where
  "atoi s = (case scan_d s of Some (k, _) \<Rightarrow> k | None \<Rightarrow> 0)"

text \<open>
  The vector for \<^verbatim>\<open>RIL_Init\<close>. After \<^verbatim>\<open>--\<close> it is the tail of \<^verbatim>\<open>argv\<close> itself, starting at the
  \<^verbatim>\<open>--\<close>, whose last slot is the terminating null pointer; otherwise a static array of
  \<^verbatim>\<open>MAX_LIB_ARGS\<close> pointers filled from the property. The client id is appended to either.
\<close>

definition build_argv :: "rild_env \<Rightarrow> string list option \<Rightarrow> nat + nat \<times> string option list" where
  "build_argv env rest =
     (case rest of
        Some xs \<Rightarrow> Inr (Suc (length xs), map Some (''--'' # xs) @ [None])
      | None \<Rightarrow> make_argv (lib_args_property env) (replicate MAX_LIB_ARGS None))"

definition append_client :: "string \<Rightarrow> nat \<times> string option list \<Rightarrow> nat + nat \<times> string option list" where
  "append_client client av =
     (case av of (argc, arr) \<Rightarrow>
        (case argv_store arr argc ''-c'' of
           Inl i \<Rightarrow> Inl i
         | Inr arr1 \<Rightarrow>
             (case argv_store arr1 (Suc argc) client of
                Inl i \<Rightarrow> Inl i
              | Inr arr2 \<Rightarrow> Inr (argc + 2, arr2))))"

definition service_name :: "rild_env \<Rightarrow> string \<Rightarrow> string" where
  "service_name env client =
     (if strncmp_eq client ''0'' MAX_CLIENT_ID_LENGTH then ril_service_name env
      else snprintf_buf MAX_SERVICE_NAME_LENGTH (ril_service_name_base env @ client))"

definition rild_main :: "rild_env \<Rightarrow> string list \<Rightarrow> rild_outcome" where
  "rild_main env argv =
     (case parse_args (tl argv) \<lparr>arg_lib = None, arg_client = None, arg_rest = None\<rparr> of
        None \<Rightarrow> Usage_exit
      | Some a \<Rightarrow>
          let client = (case arg_client a of None \<Rightarrow> ''0'' | Some s \<Rightarrow> s) in
          if arg_client a \<noteq> None \<and> atoi client \<ge> MAX_RILDS then Max_rilds_exit
          else if arg_lib a = None \<and> lib_path_property env = [] then No_ril
          else
            let lib = ''libcuttlefish-ril-2.so'' in
            if \<not> dlopen_ok env lib then Dlopen_failed
            else if \<not> has_RIL_Init env then RIL_Init_missing
            else (case build_argv env (arg_rest a) of
              Inl i \<Rightarrow> Out_of_bounds i
            | Inr av \<Rightarrow>
                (case append_client client av of
                   Inl i \<Rightarrow> Out_of_bounds i
                 | Inr (argc, arr) \<Rightarrow>
                     Running \<lparr>run_library = lib, run_argv = arr[0 := Some (hd argv)], run_argc = argc,
                              run_sap = has_RIL_SAP_Init env, run_service_name = service_name env client\<rparr>)))"

section \<open>Filling the array\<close>

definition lib_tokens :: "string \<Rightarrow> string list" where
  "lib_tokens args = strtok_all (\<lambda>c. c = CHR '' '') args"

lemma store_tokens_fit:
  assumes "count + length toks \<le> length arr"
  shows "store_tokens toks count arr =
    Inr (count + length toks, take count arr @ map Some toks @ drop (count + length toks) arr)"
  using assms
proof (induction toks arbitrary: count arr)
  case (Cons t toks)
  then have "argv_store arr count t = Inr (arr[count := Some t])" by (simp add: argv_store_def)
  moreover have "store_tokens toks (Suc count) (arr[count := Some t]) =
      Inr (Suc count + length toks, take (Suc count) (arr[count := Some t]) @ map Some toks @
        drop (Suc count + length toks) (arr[count := Some t]))"
    using Cons by simp
  moreover have "take (Suc count) (arr[count := Some t]) = take count arr @ [Some t]"
    using Cons.prems by (simp add: take_Suc_conv_app_nth)
  ultimately show ?case by simp
qed simp

lemma store_tokens_overflow:
  assumes "count \<le> length arr" and "length arr < count + length toks"
  shows "store_tokens toks count arr = Inl (length arr)"
  using assms
proof (induction toks arbitrary: count arr)
  case (Cons t toks)
  then show ?case
    by (cases "count < length arr") (auto simp: argv_store_def)
qed simp

lemma make_argv_cases:
  "make_argv args (replicate MAX_LIB_ARGS None) =
    (if length (lib_tokens args) < MAX_LIB_ARGS
     then Inr (Suc (length (lib_tokens args)),
       None # map Some (lib_tokens args) @ replicate (MAX_LIB_ARGS - Suc (length (lib_tokens args))) None)
     else Inl MAX_LIB_ARGS)"
proof -
  have pos: "0 < MAX_LIB_ARGS" by (simp add: MAX_LIB_ARGS_def)
  then have "take 1 (replicate MAX_LIB_ARGS None) = [None :: string option]"
    by (cases MAX_LIB_ARGS) auto
  with pos show ?thesis
    using store_tokens_fit [of 1 "lib_tokens args" "replicate MAX_LIB_ARGS None"]
      store_tokens_overflow [of 1 "replicate MAX_LIB_ARGS None" "lib_tokens args"]
    by (simp add: make_argv_def lib_tokens_def)
qed

text \<open>With at most 13 library arguments in the property, and none on the command
  line, the vendor library is initialised with exactly the program name, those arguments in
  order, and the client id option.\<close>

theorem rild_passes_arguments:
  assumes parsed: "parse_args (tl argv) \<lparr>arg_lib = None, arg_client = None, arg_rest = None\<rparr> = Some a"
    and "arg_rest a = None" and "length (lib_tokens (lib_args_property env)) + 3 \<le> MAX_LIB_ARGS"
    and "rild_main env argv = Running r"
  shows "take (run_argc r) (run_argv r) = Some (hd argv) # map Some (lib_tokens (lib_args_property env)) @
      [Some ''-c'', Some (case arg_client a of None \<Rightarrow> ''0'' | Some s \<Rightarrow> s)]
    \<and> run_argc r \<le> MAX_LIB_ARGS"
proof -
  let ?toks = "lib_tokens (lib_args_property env)" and ?n = "length (lib_tokens (lib_args_property env))"
  let ?client = "case arg_client a of None \<Rightarrow> ''0'' | Some s \<Rightarrow> s"
  let ?arr = "None # map Some ?toks @ replicate (MAX_LIB_ARGS - Suc ?n) None"
  have n: "?n + 3 \<le> 16" using assms(3) by (simp add: MAX_LIB_ARGS_def)
  have "build_argv env (arg_rest a) = Inr (Suc ?n, ?arr)"
    using make_argv_cases [of "lib_args_property env"] assms(2) n
    by (simp add: build_argv_def MAX_LIB_ARGS_def)
  moreover have app: "append_client ?client (Suc ?n, ?arr) =
      Inr (?n + 3, None # map Some ?toks @ [Some ''-c'', Some ?client] @ replicate (13 - ?n) None)"
  proof -
    have "16 - Suc ?n = Suc (Suc (13 - ?n))" using n by arith
    then show ?thesis
      by (simp add: append_client_def argv_store_def MAX_LIB_ARGS_def list_update_append)
  qed
  ultimately have "run_argc r = ?n + 3"
    and "run_argv r = Some (hd argv) # map Some ?toks @ [Some ''-c'', Some ?client] @ replicate (13 - ?n) None"
    using assms(4) parsed by (auto simp: rild_main_def Let_def split: if_splits)
  with n show ?thesis by (simp add: MAX_LIB_ARGS_def eval_nat_numeral)
qed

lemma rild_passes_arguments_witness:
  "\<exists>r. rild_main \<lparr>lib_path_property = ''libril.so'', lib_args_property = ''-d /dev/ttyS0'',
       dlopen_ok = (\<lambda>_. True), has_RIL_Init = True, has_RIL_SAP_Init = True,
       ril_service_name_base = ''rild'', ril_service_name = ''rild''\<rparr> [''rild'', ''-c'', ''1''] = Running r \<and>
     take (run_argc r) (run_argv r) =
       [Some ''rild'', Some ''-d'', Some ''/dev/ttyS0'', Some ''-c'', Some ''1'']"
proof -
  let ?env = "\<lparr>lib_path_property = ''libril.so'', lib_args_property = ''-d /dev/ttyS0'',
       dlopen_ok = (\<lambda>_. True), has_RIL_Init = True, has_RIL_SAP_Init = True,
       ril_service_name_base = ''rild'', ril_service_name = ''rild''\<rparr>"
  have p: "parse_args (tl [''rild'', ''-c'', ''1'']) \<lparr>arg_lib = None, arg_client = None, arg_rest = None\<rparr>
      = Some \<lparr>arg_lib = None, arg_client = Some ''1'', arg_rest = None\<rparr>"
    by simp
  have toks: "lib_tokens ''-d /dev/ttyS0'' = [''-d'', ''/dev/ttyS0'']" by code_simp
  obtain r where r: "rild_main ?env [''rild'', ''-c'', ''1''] = Running r"
  proof -
    have atoi: "atoi ''1'' = 1" by code_simp
    have "build_argv ?env None = Inr (3, None # Some ''-d'' # Some ''/dev/ttyS0'' # replicate 13 None)"
      using make_argv_cases [of "''-d /dev/ttyS0''"] by (simp add: build_argv_def toks MAX_LIB_ARGS_def)
    then have "\<exists>argc arr. (case build_argv ?env None of Inl i \<Rightarrow> Inl i | Inr av \<Rightarrow> append_client ''1'' av)
        = Inr (argc, arr)"
      by (simp add: append_client_def argv_store_def)
    with that show thesis
      by (auto simp: rild_main_def atoi MAX_RILDS_def split: sum.splits)
  qed
  from rild_passes_arguments [OF p, of ?env] r toks show ?thesis
    by (auto simp: MAX_LIB_ARGS_def)
qed

text \<open>The argument vector overflows on inputs the daemon accepts. With 14 or more
  library arguments in the property the static array of \<^verbatim>\<open>MAX_LIB_ARGS\<close> pointers is written
  past its end, and with \<^verbatim>\<open>--\<close> on the command line the client id is always written past the
  end of \<^verbatim>\<open>argv\<close>, whatever the arguments are.\<close>

theorem rild_argv_overflow:
  assumes parsed: "parse_args (tl argv) \<lparr>arg_lib = None, arg_client = None, arg_rest = None\<rparr> = Some a"
    and "arg_rest a \<noteq> None \<or> 14 \<le> length (lib_tokens (lib_args_property env))"
    and "arg_client a = None" and "arg_lib a \<noteq> None"
    and "dlopen_ok env ''libcuttlefish-ril-2.so''" and "has_RIL_Init env"
  shows "\<exists>i. rild_main env argv = Out_of_bounds i"
proof -
  let ?toks = "lib_tokens (lib_args_property env)"
  have "\<exists>i. (case build_argv env (arg_rest a) of Inl i \<Rightarrow> Inl i | Inr av \<Rightarrow> append_client ''0'' av) = Inl i"
  proof (cases "arg_rest a")
    case None
    with assms(2) have "14 \<le> length ?toks" by simp
    then show ?thesis
      using make_argv_cases [of "lib_args_property env"] None
      by (auto simp: build_argv_def append_client_def argv_store_def MAX_LIB_ARGS_def)
  next
    case (Some xs)
    then show ?thesis
      by (auto simp: build_argv_def append_client_def argv_store_def)
  qed
  with assms(3-6) parsed show ?thesis
    by (auto simp: rild_main_def Let_def split: sum.splits)
qed

lemma rild_argv_overflow_witness:
  "\<exists>i. rild_main \<lparr>lib_path_property = [], lib_args_property = [], dlopen_ok = (\<lambda>_. True),
       has_RIL_Init = True, has_RIL_SAP_Init = False, ril_service_name_base = ''rild'',
       ril_service_name = ''rild''\<rparr> [''rild'', ''-l'', ''lib.so'', ''--'', ''-d''] = Out_of_bounds i"
  by (rule rild_argv_overflow
      [of _ "\<lparr>arg_lib = Some ''lib.so'', arg_client = None, arg_rest = Some [''-d'']\<rparr>"]) simp_all

end
