(* ===== verification/RIL_Codes.thy ===== *)
theory RIL_Codes
  imports C_Strings "HOL-Library.Signed_Division"
begin

text \<open>
  \<^verbatim>\<open>radio/include/telephony/ril_mnc.h\<close> and \<^verbatim>\<open>ril_mcc.h\<close>: mobile network and country codes
  as strings and as 32-bit integers. A network code keeps its number of digits in the top
  four bits, so that leading zeros survive. \<^verbatim>\<open>int\<close> is a \<^typ>\<open>u32\<close> read with
  \<^const>\<open>sint\<close>; \<^verbatim>\<open>std::stoi\<close> on a string with no number throws, the value \<open>None\<close>.
\<close>

section \<open>Network codes\<close>

definition INT_MAX32 :: u32 where
  "INT_MAX32 = 0x7FFFFFFF"

definition mnc_decode :: "u32 \<Rightarrow> string" where
  "mnc_decode mnc =
     (if mnc = INT_MAX32 \<or> sint mnc < 0 then ''''
      else
        let digits = (drop_bit 28 mnc) AND 0xF;
            umnc = drop_bit 4 (push_bit 4 mnc)
        in if umnc > 999 then ''''
           else if digits = 0 then show_base 10 (unat umnc)
           else if digits = 2 then drop 1 (snprintf_buf 4 (show_padded 10 3 (unat umnc)))
           else if digits = 3 then snprintf_buf 4 (show_padded 10 3 (unat umnc))
           else '''')"

definition mnc_encode :: "int \<Rightarrow> int \<Rightarrow> u32" where
  "mnc_encode mnc numDigits =
     (if mnc > 999 \<or> mnc < 0 then INT_MAX32
      else if numDigits = 0 \<or> numDigits = 2 \<or> numDigits = 3
      then (push_bit 28 (word_of_int numDigits)) OR word_of_int mnc
      else INT_MAX32)"

definition stoi :: "string \<Rightarrow> int option" where
  "stoi s = (case scan_d s of
     Some (k, _) \<Rightarrow> if - (2 ^ 31) \<le> k \<and> k < 2 ^ 31 then Some k else None
   | None \<Rightarrow> None)"

definition mnc_encode_str :: "string \<Rightarrow> u32 option" where
  "mnc_encode_str s = map_option (\<lambda>k. mnc_encode k (int (length s))) (stoi s)"

section \<open>Country codes\<close>

definition mcc_decode :: "int \<Rightarrow> string" where
  "mcc_decode mcc = (if mcc > 999 \<or> mcc < 0 then '''' else snprintf_buf 4 (show_padded 10 3 (nat mcc)))"

section \<open>The packed representation\<close>

lemma not_bit_ge: "n < 2 ^ m \<Longrightarrow> m \<le> k \<Longrightarrow> \<not> bit (n :: nat) k"
  by (metis bit_take_bit_iff linorder_not_le take_bit_nat_eq_self)

definition pack :: "nat \<Rightarrow> nat \<Rightarrow> u32" where
  "pack d n = push_bit 28 (word_of_nat d) OR word_of_nat n"

lemma bit_pack:
  assumes "n < 2 ^ 28" and "d < 2 ^ 3"
  shows "bit (pack d n) k \<longleftrightarrow> (if k < 28 then bit n k else bit d (k - 28))"
proof (cases "k < 28")
  case True
  then show ?thesis by (simp add: pack_def bit_simps)
next
  case False
  then have "\<not> bit n k" using not_bit_ge [OF assms(1), of k] by simp
  moreover have "bit d (k - 28) \<longrightarrow> k < 32"
    using not_bit_ge [OF assms(2), of "k - 28"] by (cases "3 \<le> k - 28") auto
  ultimately show ?thesis using False by (auto simp: pack_def bit_simps)
qed

lemma pack_fields:
  assumes "n \<le> 999" and "d < 2 ^ 3"
  shows "drop_bit 28 (pack d n) AND 0xF = word_of_nat d"
    and "drop_bit 4 (push_bit 4 (pack d n)) = word_of_nat n"
    and "0 \<le> sint (pack d n)" and "pack d n \<noteq> INT_MAX32"
proof -
  have n28: "n < 2 ^ 28" using assms(1) by simp
  note b = bit_pack [OF n28 assms(2)]
  have m4: "(0xF :: u32) = mask 4" by (simp add: mask_eq_exp_minus_1)
  have "bit d k \<Longrightarrow> k < 4" for k using not_bit_ge [OF assms(2), of k] by (cases "k < 4") auto
  then show "drop_bit 28 (pack d n) AND 0xF = word_of_nat d"
    unfolding m4 by (intro bit_word_eqI) (auto simp: b bit_simps)
  show "drop_bit 4 (push_bit 4 (pack d n)) = word_of_nat n"
    using not_bit_ge [OF n28]
    by (intro bit_word_eqI) (auto simp: b bit_simps)
  have "\<not> bit (pack d n) 31" using not_bit_ge [OF assms(2), of 3] by (simp add: b)
  then show "0 \<le> sint (pack d n)" using bit_last_iff [of "pack d n"] by simp
  have "n < 2 ^ 10" using assms(1) by simp
  then have "\<not> bit (pack d n) 20" using not_bit_ge [of n 10 20] by (simp add: b)
  moreover have "bit INT_MAX32 20" by (simp add: INT_MAX32_def)
  ultimately show "pack d n \<noteq> INT_MAX32" by metis
qed

lemma mnc_decode_pack:
  assumes "n \<le> 999"
  shows "mnc_decode (pack 0 n) = show_base 10 n"
    and "mnc_decode (pack 2 n) = drop 1 (snprintf_buf 4 (show_padded 10 3 n))"
    and "mnc_decode (pack 3 n) = snprintf_buf 4 (show_padded 10 3 n)"
proof -
  have un: "unat (word_of_nat n :: u32) = n"
    using assms by (simp add: unat_of_nat)
  then have small: "\<not> (word_of_nat n :: u32) > 999"
    using assms by (simp add: word_less_nat_alt)
  show "mnc_decode (pack 0 n) = show_base 10 n"
    and "mnc_decode (pack 2 n) = drop 1 (snprintf_buf 4 (show_padded 10 3 n))"
    and "mnc_decode (pack 3 n) = snprintf_buf 4 (show_padded 10 3 n)"
    using pack_fields [OF assms, of 0] pack_fields [OF assms, of 2] pack_fields [OF assms, of 3] small
    by (simp_all add: mnc_decode_def Let_def un)
qed

lemma mnc_encode_pack:
  "n \<le> 999 \<Longrightarrow> d \<in> {0, 2, 3} \<Longrightarrow> mnc_encode (int n) (int d) = pack d n"
  by (auto simp: mnc_encode_def pack_def)

section \<open>Digit strings\<close>

lemma digit_char_val: "is_digit 10 c \<Longrightarrow> digit_char (the (digit_val c)) = c"
  by (auto simp: is_digit_def digit_val_def digit_char_def Let_def split: if_splits)

lemma digit_char_zero: "digit_char 0 = CHR ''0''"
  by code_simp

lemma show_base_step: "v \<noteq> 0 \<Longrightarrow> d < 10 \<Longrightarrow> show_base 10 (10 * v + d) = show_base 10 v @ [digit_char d]"
  by (subst show_base.simps) simp

lemma show_base_small: "d < 10 \<Longrightarrow> show_base 10 d = [digit_char d]"
  by (subst show_base.simps) simp

text \<open>Printing the value of a digit string to its own length gives the string back.\<close>

lemma show_padded_value:
  assumes "list_all (is_digit 10) s" and "s \<noteq> []"
  shows "show_padded 10 (length s) (digits_value 10 0 s) = s"
  using assms
proof (induction s rule: rev_induct)
  case (snoc c s)
  let ?v = "digits_value 10 0 s" and ?d = "the (digit_val c)"
  have c: "is_digit 10 c" and s: "list_all (is_digit 10) s" using snoc.prems by auto
  have d: "?d < 10" using c by (auto simp: is_digit_def split: option.splits)
  have val: "digits_value 10 0 (s @ [c]) = 10 * ?v + ?d" by (simp add: digits_value_append)
  show ?case
  proof (cases "?v = 0")
    case True
    have "replicate (length s) (CHR ''0'') = s"
    proof (cases "s = []")
      case False
      have z: "show_base 10 0 = [CHR ''0'']" by (simp add: show_base_small digit_char_zero)
      have "replicate (length s - 1) (CHR ''0'') @ [CHR ''0''] = s"
        using snoc.IH [OF s False] True by (simp add: show_padded_def z)
      moreover have "replicate (length s - 1) (CHR ''0'') @ [CHR ''0''] = replicate (length s) (CHR ''0'')"
        using False by (cases s) (simp_all add: replicate_append_same)
      ultimately show ?thesis by simp
    qed simp
    then show ?thesis
      using True d c by (simp add: val show_padded_def show_base_small digit_char_val)
  next
    case False
    then have "s \<noteq> []" by auto
    with snoc.IH [OF s] False d c show ?thesis
      by (simp add: val show_padded_def show_base_step digit_char_val Let_def)
  qed
qed simp

lemma stoi_digits:
  assumes "list_all (is_digit 10) s" and "s \<noteq> []" and "length s \<le> 9"
  shows "stoi s = Some (int (digits_value 10 0 s))" and "digits_value 10 0 s < 10 ^ length s"
proof -
  show bound: "digits_value 10 0 s < 10 ^ length s"
    using digits_value_bound [OF assms(1), of 0] by simp
  also have "(10 :: nat) ^ length s \<le> 10 ^ 9" using assms(3) by (intro power_increasing) auto
  finally have "digits_value 10 0 s < 10 ^ 9" .
  then have small: "int (digits_value 10 0 s) < 2 ^ 31" by simp
  have hd: "is_digit 10 (hd s)" using assms by (cases s) auto
  have "scan_d s = Some (int (digits_value 10 0 s), [])"
    using scan_digits_app [OF assms(1,2), of "[]"] skip_spaces_digit [OF assms(2) hd]
      scan_sign_digit [OF assms(2) hd] by (simp add: scan_d_def)
  with small show "stoi s = Some (int (digits_value 10 0 s))" by (simp add: stoi_def)
qed

text \<open>Encoding a network code of two or three decimal digits and decoding it
  gives the same string back, leading zeros included; a code of any other length up to nine
  digits is encoded as the invalid value, which decodes to the empty string.\<close>

theorem mnc_roundtrip:
  assumes digits: "list_all (is_digit 10) s" and "s \<noteq> []" and "length s \<le> 9"
  shows "\<exists>w. mnc_encode_str s = Some w \<and>
    mnc_decode w = (if length s = 2 \<or> length s = 3 then s else [])"
proof -
  let ?v = "digits_value 10 0 s"
  note v = stoi_digits [OF assms]
  have enc: "mnc_encode_str s = Some (mnc_encode (int ?v) (int (length s)))"
    using v(1) by (simp add: mnc_encode_str_def)
  note shown = show_padded_value [OF assms(1,2)]
  consider "length s = 2" | "length s = 3" | "length s \<noteq> 2" "length s \<noteq> 3" by blast
  then show ?thesis
  proof cases
    case 1
    with v(2) have v99: "?v < 10 ^ 2" by simp
    then have "length (show_base 10 ?v) \<le> 2" by (intro length_show_base) auto
    then have "show_padded 10 3 ?v = CHR ''0'' # show_padded 10 2 ?v"
      by (simp add: show_padded_def Let_def eval_nat_numeral Suc_diff_le)
    then have "mnc_decode (pack 2 ?v) = s"
      using mnc_decode_pack(2) [of ?v] v99 shown 1 by (simp add: snprintf_buf_def)
    moreover have "mnc_encode (int ?v) (int (length s)) = pack 2 ?v"
      using mnc_encode_pack [of ?v 2] v99 1 by simp
    ultimately show ?thesis using enc 1 by simp
  next
    case 2
    with v(2) have v999: "?v \<le> 999" by simp
    then have "mnc_decode (pack 3 ?v) = s"
      using mnc_decode_pack(3) [of ?v] shown 2 by (simp add: snprintf_buf_def)
    moreover have "mnc_encode (int ?v) (int (length s)) = pack 3 ?v"
      using mnc_encode_pack [of ?v 3] v999 2 by simp
    ultimately show ?thesis using enc 2 by simp
  next
    case 3
    then have "mnc_encode (int ?v) (int (length s)) = INT_MAX32"
      using assms(2) by (auto simp: mnc_encode_def)
    with enc 3 show ?thesis by (simp add: mnc_decode_def)
  qed
qed

lemma mnc_roundtrip_witness:
  "\<exists>w. mnc_encode_str ''099'' = Some w \<and> mnc_decode w = ''099''"
  using mnc_roundtrip [of "''099''"] by (simp add: is_digit_def digit_val_def)

lemma mcc_decode_value:
  assumes "list_all (is_digit 10) s" and "length s = 3"
  shows "mcc_decode (int (digits_value 10 0 s)) = s"
proof -
  have "s \<noteq> []" using assms(2) by auto
  with assms stoi_digits(2) [of s] have "digits_value 10 0 s \<le> 999" by simp
  then show ?thesis
    using show_padded_value [OF assms(1) \<open>s \<noteq> []\<close>] assms(2) by (simp add: mcc_decode_def snprintf_buf_def)
qed

end
