(* ===== verification/Wifi_Driver.thy ===== *)
theory Wifi_Driver
  imports C_Strings
begin

text \<open>
  \<^verbatim>\<open>wifi/wpa_supplicant_8_lib/driver_cmd_nl80211.c\<close>: the private driver commands the
  supplicant accepts. The interface ioctls and the supplicant's message function are not part
  of the repository: an interface flag change and a message are recorded as effects, and the
  result of reading the hardware address is an argument.
\<close>

datatype wpa_effect =
    Set_iface_flags string bool   \<comment> \<open>\<^verbatim>\<open>linux_set_iface_flags\<close> of the interface, up or down\<close>
  | Driver_state string           \<comment> \<open>\<^verbatim>\<open>wpa_msg\<close> with \<^verbatim>\<open>WPA_EVENT_DRIVER_STATE\<close>\<close>

text \<open>\<^verbatim>\<open>MACSTR\<close>: six bytes in hexadecimal, two digits each, separated by colons.\<close>

definition macstr :: "bytes \<Rightarrow> string" where
  "macstr mac =
     (case map (\<lambda>b. show_padded 16 2 (unat b)) mac of
        [] \<Rightarrow> []
      | x # xs \<Rightarrow> x @ concat (map (\<lambda>y. CHR '':'' # y) xs))"

record wpa_result =
  wpa_ret :: int
  wpa_buf :: string
  wpa_effects :: "wpa_effect list"

text \<open>
  \<open>hw\<close> is the result of \<^verbatim>\<open>linux_get_ifhwaddr\<close> (\<open>Inl\<close> its nonzero error code);
  \<^verbatim>\<open>os_snprintf\<close> returns the length of the whole text and stores what fits.
\<close>

definition wpa_driver_nl80211_driver_cmd ::
  "string \<Rightarrow> (int + bytes) \<Rightarrow> string \<Rightarrow> string \<Rightarrow> nat \<Rightarrow> wpa_result" where
  "wpa_driver_nl80211_driver_cmd ifname hw cmd buf buf_len =
     (if strcasecmp_eq cmd ''STOP'' then
        \<lparr>wpa_ret = 0, wpa_buf = buf,
         wpa_effects = [Set_iface_flags ifname False, Driver_state ''STOPPED'']\<rparr>
      else if strcasecmp_eq cmd ''START'' then
        \<lparr>wpa_ret = 0, wpa_buf = buf,
         wpa_effects = [Set_iface_flags ifname True, Driver_state ''STARTED'']\<rparr>
      else if strcasecmp_eq cmd ''MACADDR'' then
        (case hw of
           Inl e \<Rightarrow> \<lparr>wpa_ret = e, wpa_buf = buf, wpa_effects = []\<rparr>
         | Inr mac \<Rightarrow>
             let text = ''Macaddr = '' @ macstr mac @ [CHR 0x0A] in
             \<lparr>wpa_ret = int (length text), wpa_buf = snprintf_buf buf_len text, wpa_effects = []\<rparr>)
      else if strcasecmp_eq cmd ''RELOAD'' then
        \<lparr>wpa_ret = 0, wpa_buf = buf, wpa_effects = [Driver_state ''HANGED'']\<rparr>
      else \<lparr>wpa_ret = 0, wpa_buf = buf, wpa_effects = []\<rparr>)"

definition wpa_driver_set_p2p_noa :: "u8 \<Rightarrow> int \<Rightarrow> int \<Rightarrow> int" where
  "wpa_driver_set_p2p_noa count start duration = 0"

definition wpa_driver_get_p2p_noa :: "string \<Rightarrow> nat \<Rightarrow> int" where
  "wpa_driver_get_p2p_noa buf len = 0"

definition wpa_driver_set_p2p_ps :: "int \<Rightarrow> int \<Rightarrow> int \<Rightarrow> int" where
  "wpa_driver_set_p2p_ps legacy_ps opp_ps ctwindow = -1"

definition wpa_driver_set_ap_wps_p2p_ie :: "bytes \<Rightarrow> bytes \<Rightarrow> bytes \<Rightarrow> int" where
  "wpa_driver_set_ap_wps_p2p_ie beacon proberesp assocresp = 0"

section \<open>Behaviour\<close>

lemma length_mac_byte: "length (show_padded 16 2 (unat (b :: u8))) = 2"
  using unat_byte_less [of b] by (intro length_show_padded) auto

lemma length_macstr: "mac \<noteq> [] \<Longrightarrow> length (macstr mac) = 3 * length mac - 1"
proof (cases mac)
  case (Cons b bs)
  have "length (concat (map (\<lambda>y. CHR '':'' # y) (map (\<lambda>b. show_padded 16 2 (unat b)) bs))) = 3 * length bs"
    by (induction bs) (simp_all add: length_mac_byte)
  with Cons show ?thesis by (simp add: macstr_def length_mac_byte)
qed simp

text \<open>Commands are recognised in any mixture of upper and lower case.\<close>

lemma driver_cmd_case:
  "map tolower cmd = map tolower cmd' \<Longrightarrow>
   wpa_driver_nl80211_driver_cmd ifname hw cmd buf n = wpa_driver_nl80211_driver_cmd ifname hw cmd' buf n"
  by (simp add: wpa_driver_nl80211_driver_cmd_def strcasecmp_eq_def)

lemma command_names:
  "strcasecmp_eq c ''STOP'' \<longleftrightarrow> map tolower c = ''stop''"
  "strcasecmp_eq c ''START'' \<longleftrightarrow> map tolower c = ''start''"
  "strcasecmp_eq c ''MACADDR'' \<longleftrightarrow> map tolower c = ''macaddr''"
  "strcasecmp_eq c ''RELOAD'' \<longleftrightarrow> map tolower c = ''reload''"
proof -
  have low: "map tolower ''STOP'' = ''stop''" "map tolower ''START'' = ''start''"
      "map tolower ''MACADDR'' = ''macaddr''" "map tolower ''RELOAD'' = ''reload''"
    by code_simp+
  show "strcasecmp_eq c ''STOP'' \<longleftrightarrow> map tolower c = ''stop''"
    "strcasecmp_eq c ''START'' \<longleftrightarrow> map tolower c = ''start''"
    "strcasecmp_eq c ''MACADDR'' \<longleftrightarrow> map tolower c = ''macaddr''"
    "strcasecmp_eq c ''RELOAD'' \<longleftrightarrow> map tolower c = ''reload''"
    unfolding strcasecmp_eq_def low by simp_all
qed

text \<open>The driver command \<^verbatim>\<open>MACADDR\<close>, in any case, returns the length of the
  answer, which for a six-byte address is always 28, and fills a buffer of at least 29 bytes
  with the whole answer; it changes no interface. The interface goes down exactly on
  \<^verbatim>\<open>STOP\<close> and up exactly on \<^verbatim>\<open>START\<close>.\<close>

theorem driver_cmd_macaddr:
  assumes "map tolower cmd = ''macaddr''" and "length mac = 6" and "29 \<le> buf_len"
  shows "wpa_driver_nl80211_driver_cmd ifname (Inr mac) cmd buf buf_len =
    \<lparr>wpa_ret = 28, wpa_buf = ''Macaddr = '' @ macstr mac @ [CHR 0x0A], wpa_effects = []\<rparr>
    \<and> (Set_iface_flags ifname up \<in> set (wpa_effects (wpa_driver_nl80211_driver_cmd ifname hw c buf n))
       \<longleftrightarrow> strcasecmp_eq c (if up then ''START'' else ''STOP''))"
proof (intro conjI)
  have "length (macstr mac) = 17" using length_macstr [of mac] assms(2) by (cases "mac = []") auto
  then show "wpa_driver_nl80211_driver_cmd ifname (Inr mac) cmd buf buf_len =
      \<lparr>wpa_ret = 28, wpa_buf = ''Macaddr = '' @ macstr mac @ [CHR 0x0A], wpa_effects = []\<rparr>"
    using assms by (simp add: wpa_driver_nl80211_driver_cmd_def command_names snprintf_buf_def)
  show "Set_iface_flags ifname up \<in> set (wpa_effects (wpa_driver_nl80211_driver_cmd ifname hw c buf n))
       \<longleftrightarrow> strcasecmp_eq c (if up then ''START'' else ''STOP'')"
    by (auto simp: wpa_driver_nl80211_driver_cmd_def command_names Let_def split: sum.splits)
qed

lemma driver_cmd_macaddr_witness:
  "wpa_ret (wpa_driver_nl80211_driver_cmd ''wlan0'' (Inr [2, 21, 178, 0, 0, 0]) ''MacAddr'' [] 64) = 28"
proof -
  have "map tolower ''MacAddr'' = ''macaddr''" by code_simp
  from driver_cmd_macaddr [OF this, of "[2, 21, 178, 0, 0, 0]" 64 "''wlan0''"] show ?thesis by simp
qed

end
