(* ===== verification/RIL_Enums.thy ===== *)
theory RIL_Enums
  imports Goldfish_Prelude
begin

text \<open>
  The enumerations of \<^verbatim>\<open>radio/include/telephony/ril.h\<close>, which a radio library and the daemon
  exchange as plain integers: one datatype per \<^verbatim>\<open>typedef enum\<close>, the list of its values in the
  order of the header, and the integer each has; the four enumerations with more than thirty values
  are integer constants. The interface \<open>enum_code\<close> says that the list
  is complete and the integers are distinct; it gives the decoding of an integer and its round trip,
  and every enumeration is an instance of it or of \<open>enum_constants\<close>.
\<close>

section \<open>The interface of an enumeration\<close>

definition enum_decode :: "'a list \<Rightarrow> ('a \<Rightarrow> int) \<Rightarrow> int \<Rightarrow> 'a option" where
  "enum_decode values code n = find (\<lambda>x. code x = n) values"

locale enum_code =
  fixes "values" :: "'a list"
    and code :: "'a \<Rightarrow> int"
  assumes complete: "x \<in> set values"
    and distinct_codes: "distinct (map code values)"
begin

lemma code_inject: "code x = code y \<longleftrightarrow> x = y"
  using distinct_codes complete by (auto simp: distinct_map inj_on_def)

lemma decode_code: "enum_decode values code (code x) = Some x"
proof -
  obtain y where y: "find (\<lambda>y. code y = code x) values = Some y"
    using complete [of x] by (cases "find (\<lambda>y. code y = code x) values") (auto simp: find_None_iff)
  then have "code y = code x" by (auto simp: find_Some_iff)
  then show ?thesis using y code_inject by (simp add: enum_decode_def)
qed

lemma decode_Some: "enum_decode values code n = Some x \<longleftrightarrow> code x = n"
  using decode_code by (auto simp: enum_decode_def find_Some_iff)

lemma decode_None: "enum_decode values code n = None \<longleftrightarrow> n \<notin> range code"
  using decode_Some [of n] by (metis (no_types, lifting) image_iff not_None_eq rangeE rangeI)

end

text \<open>The large enumerations are integer constants, as in C: here the list of values is distinct.\<close>

locale enum_constants =
  fixes "values" :: "int list"
  assumes distinct_values: "distinct values"
begin

lemma index_unique: "i < length values \<Longrightarrow> j < length values \<Longrightarrow> values ! i = values ! j \<longleftrightarrow> i = j"
  using distinct_values by (rule nth_eq_iff_index_eq)

end

section \<open>The enumerations\<close>

datatype RIL_SOCKET_ID =
    RIL_SOCKET_1 | RIL_SOCKET_NUM

definition RIL_SOCKET_ID_values :: "RIL_SOCKET_ID list" where
  "RIL_SOCKET_ID_values = [
     RIL_SOCKET_1, RIL_SOCKET_NUM]"

primrec RIL_SOCKET_ID_code :: "RIL_SOCKET_ID \<Rightarrow> int" where
  "RIL_SOCKET_ID_code RIL_SOCKET_1 = 0"
| "RIL_SOCKET_ID_code RIL_SOCKET_NUM = 1"

interpretation RIL_SOCKET_ID: enum_code RIL_SOCKET_ID_values RIL_SOCKET_ID_code
proof
  show "x \<in> set RIL_SOCKET_ID_values" for x by (cases x) (simp_all add: RIL_SOCKET_ID_values_def)
  show "distinct (map RIL_SOCKET_ID_code RIL_SOCKET_ID_values)" by (simp add: RIL_SOCKET_ID_values_def)
qed

type_synonym RIL_Errno = int

definition RIL_E_SUCCESS :: RIL_Errno where "RIL_E_SUCCESS = 0"
definition RIL_E_RADIO_NOT_AVAILABLE :: RIL_Errno where "RIL_E_RADIO_NOT_AVAILABLE = 1"
definition RIL_E_GENERIC_FAILURE :: RIL_Errno where "RIL_E_GENERIC_FAILURE = 2"
definition RIL_E_PASSWORD_INCORRECT :: RIL_Errno where "RIL_E_PASSWORD_INCORRECT = 3"
definition RIL_E_SIM_PIN2 :: RIL_Errno where "RIL_E_SIM_PIN2 = 4"
definition RIL_E_SIM_PUK2 :: RIL_Errno where "RIL_E_SIM_PUK2 = 5"
definition RIL_E_REQUEST_NOT_SUPPORTED :: RIL_Errno where "RIL_E_REQUEST_NOT_SUPPORTED = 6"
definition RIL_E_CANCELLED :: RIL_Errno where "RIL_E_CANCELLED = 7"
definition RIL_E_OP_NOT_ALLOWED_DURING_VOICE_CALL :: RIL_Errno where "RIL_E_OP_NOT_ALLOWED_DURING_VOICE_CALL = 8"
definition RIL_E_OP_NOT_ALLOWED_BEFORE_REG_TO_NW :: RIL_Errno where "RIL_E_OP_NOT_ALLOWED_BEFORE_REG_TO_NW = 9"
definition RIL_E_SMS_SEND_FAIL_RETRY :: RIL_Errno where "RIL_E_SMS_SEND_FAIL_RETRY = 10"
definition RIL_E_SIM_ABSENT :: RIL_Errno where "RIL_E_SIM_ABSENT = 11"
definition RIL_E_SUBSCRIPTION_NOT_AVAILABLE :: RIL_Errno where "RIL_E_SUBSCRIPTION_NOT_AVAILABLE = 12"
definition RIL_E_MODE_NOT_SUPPORTED :: RIL_Errno where "RIL_E_MODE_NOT_SUPPORTED = 13"
definition RIL_E_FDN_CHECK_FAILURE :: RIL_Errno where "RIL_E_FDN_CHECK_FAILURE = 14"
definition RIL_E_ILLEGAL_SIM_OR_ME :: RIL_Errno where "RIL_E_ILLEGAL_SIM_OR_ME = 15"
definition RIL_E_MISSING_RESOURCE :: RIL_Errno where "RIL_E_MISSING_RESOURCE = 16"
definition RIL_E_NO_SUCH_ELEMENT :: RIL_Errno where "RIL_E_NO_SUCH_ELEMENT = 17"
definition RIL_E_DIAL_MODIFIED_TO_USSD :: RIL_Errno where "RIL_E_DIAL_MODIFIED_TO_USSD = 18"
definition RIL_E_DIAL_MODIFIED_TO_SS :: RIL_Errno where "RIL_E_DIAL_MODIFIED_TO_SS = 19"
definition RIL_E_DIAL_MODIFIED_TO_DIAL :: RIL_Errno where "RIL_E_DIAL_MODIFIED_TO_DIAL = 20"
definition RIL_E_USSD_MODIFIED_TO_DIAL :: RIL_Errno where "RIL_E_USSD_MODIFIED_TO_DIAL = 21"
definition RIL_E_USSD_MODIFIED_TO_SS :: RIL_Errno where "RIL_E_USSD_MODIFIED_TO_SS = 22"
definition RIL_E_USSD_MODIFIED_TO_USSD :: RIL_Errno where "RIL_E_USSD_MODIFIED_TO_USSD = 23"
definition RIL_E_SS_MODIFIED_TO_DIAL :: RIL_Errno where "RIL_E_SS_MODIFIED_TO_DIAL = 24"
definition RIL_E_SS_MODIFIED_TO_USSD :: RIL_Errno where "RIL_E_SS_MODIFIED_TO_USSD = 25"
definition RIL_E_SUBSCRIPTION_NOT_SUPPORTED :: RIL_Errno where "RIL_E_SUBSCRIPTION_NOT_SUPPORTED = 26"
definition RIL_E_SS_MODIFIED_TO_SS :: RIL_Errno where "RIL_E_SS_MODIFIED_TO_SS = 27"
definition RIL_E_LCE_NOT_SUPPORTED :: RIL_Errno where "RIL_E_LCE_NOT_SUPPORTED = 36"
definition RIL_E_NO_MEMORY :: RIL_Errno where "RIL_E_NO_MEMORY = 37"
definition RIL_E_INTERNAL_ERR :: RIL_Errno where "RIL_E_INTERNAL_ERR = 38"
definition RIL_E_SYSTEM_ERR :: RIL_Errno where "RIL_E_SYSTEM_ERR = 39"
definition RIL_E_MODEM_ERR :: RIL_Errno where "RIL_E_MODEM_ERR = 40"
definition RIL_E_INVALID_STATE :: RIL_Errno where "RIL_E_INVALID_STATE = 41"
definition RIL_E_NO_RESOURCES :: RIL_Errno where "RIL_E_NO_RESOURCES = 42"
definition RIL_E_SIM_ERR :: RIL_Errno where "RIL_E_SIM_ERR = 43"
definition RIL_E_INVALID_ARGUMENTS :: RIL_Errno where "RIL_E_INVALID_ARGUMENTS = 44"
definition RIL_E_INVALID_SIM_STATE :: RIL_Errno where "RIL_E_INVALID_SIM_STATE = 45"
definition RIL_E_INVALID_MODEM_STATE :: RIL_Errno where "RIL_E_INVALID_MODEM_STATE = 46"
definition RIL_E_INVALID_CALL_ID :: RIL_Errno where "RIL_E_INVALID_CALL_ID = 47"
definition RIL_E_NO_SMS_TO_ACK :: RIL_Errno where "RIL_E_NO_SMS_TO_ACK = 48"
definition RIL_E_NETWORK_ERR :: RIL_Errno where "RIL_E_NETWORK_ERR = 49"
definition RIL_E_REQUEST_RATE_LIMITED :: RIL_Errno where "RIL_E_REQUEST_RATE_LIMITED = 50"
definition RIL_E_SIM_BUSY :: RIL_Errno where "RIL_E_SIM_BUSY = 51"
definition RIL_E_SIM_FULL :: RIL_Errno where "RIL_E_SIM_FULL = 52"
definition RIL_E_NETWORK_REJECT :: RIL_Errno where "RIL_E_NETWORK_REJECT = 53"
definition RIL_E_OPERATION_NOT_ALLOWED :: RIL_Errno where "RIL_E_OPERATION_NOT_ALLOWED = 54"
definition RIL_E_EMPTY_RECORD :: RIL_Errno where "RIL_E_EMPTY_RECORD = 55"
definition RIL_E_INVALID_SMS_FORMAT :: RIL_Errno where "RIL_E_INVALID_SMS_FORMAT = 56"
definition RIL_E_ENCODING_ERR :: RIL_Errno where "RIL_E_ENCODING_ERR = 57"
definition RIL_E_INVALID_SMSC_ADDRESS :: RIL_Errno where "RIL_E_INVALID_SMSC_ADDRESS = 58"
definition RIL_E_NO_SUCH_ENTRY :: RIL_Errno where "RIL_E_NO_SUCH_ENTRY = 59"
definition RIL_E_NETWORK_NOT_READY :: RIL_Errno where "RIL_E_NETWORK_NOT_READY = 60"
definition RIL_E_NOT_PROVISIONED :: RIL_Errno where "RIL_E_NOT_PROVISIONED = 61"
definition RIL_E_NO_SUBSCRIPTION :: RIL_Errno where "RIL_E_NO_SUBSCRIPTION = 62"
definition RIL_E_NO_NETWORK_FOUND :: RIL_Errno where "RIL_E_NO_NETWORK_FOUND = 63"
definition RIL_E_DEVICE_IN_USE :: RIL_Errno where "RIL_E_DEVICE_IN_USE = 64"
definition RIL_E_ABORTED :: RIL_Errno where "RIL_E_ABORTED = 65"
definition RIL_E_INVALID_RESPONSE :: RIL_Errno where "RIL_E_INVALID_RESPONSE = 66"
definition RIL_E_OEM_ERROR_1 :: RIL_Errno where "RIL_E_OEM_ERROR_1 = 501"
definition RIL_E_OEM_ERROR_2 :: RIL_Errno where "RIL_E_OEM_ERROR_2 = 502"
definition RIL_E_OEM_ERROR_3 :: RIL_Errno where "RIL_E_OEM_ERROR_3 = 503"
definition RIL_E_OEM_ERROR_4 :: RIL_Errno where "RIL_E_OEM_ERROR_4 = 504"
definition RIL_E_OEM_ERROR_5 :: RIL_Errno where "RIL_E_OEM_ERROR_5 = 505"
definition RIL_E_OEM_ERROR_6 :: RIL_Errno where "RIL_E_OEM_ERROR_6 = 506"
definition RIL_E_OEM_ERROR_7 :: RIL_Errno where "RIL_E_OEM_ERROR_7 = 507"
definition RIL_E_OEM_ERROR_8 :: RIL_Errno where "RIL_E_OEM_ERROR_8 = 508"
definition RIL_E_OEM_ERROR_9 :: RIL_Errno where "RIL_E_OEM_ERROR_9 = 509"
definition RIL_E_OEM_ERROR_10 :: RIL_Errno where "RIL_E_OEM_ERROR_10 = 510"
definition RIL_E_OEM_ERROR_11 :: RIL_Errno where "RIL_E_OEM_ERROR_11 = 511"
definition RIL_E_OEM_ERROR_12 :: RIL_Errno where "RIL_E_OEM_ERROR_12 = 512"
definition RIL_E_OEM_ERROR_13 :: RIL_Errno where "RIL_E_OEM_ERROR_13 = 513"
definition RIL_E_OEM_ERROR_14 :: RIL_Errno where "RIL_E_OEM_ERROR_14 = 514"
definition RIL_E_OEM_ERROR_15 :: RIL_Errno where "RIL_E_OEM_ERROR_15 = 515"
definition RIL_E_OEM_ERROR_16 :: RIL_Errno where "RIL_E_OEM_ERROR_16 = 516"
definition RIL_E_OEM_ERROR_17 :: RIL_Errno where "RIL_E_OEM_ERROR_17 = 517"
definition RIL_E_OEM_ERROR_18 :: RIL_Errno where "RIL_E_OEM_ERROR_18 = 518"
definition RIL_E_OEM_ERROR_19 :: RIL_Errno where "RIL_E_OEM_ERROR_19 = 519"
definition RIL_E_OEM_ERROR_20 :: RIL_Errno where "RIL_E_OEM_ERROR_20 = 520"
definition RIL_E_OEM_ERROR_21 :: RIL_Errno where "RIL_E_OEM_ERROR_21 = 521"
definition RIL_E_OEM_ERROR_22 :: RIL_Errno where "RIL_E_OEM_ERROR_22 = 522"
definition RIL_E_OEM_ERROR_23 :: RIL_Errno where "RIL_E_OEM_ERROR_23 = 523"
definition RIL_E_OEM_ERROR_24 :: RIL_Errno where "RIL_E_OEM_ERROR_24 = 524"
definition RIL_E_OEM_ERROR_25 :: RIL_Errno where "RIL_E_OEM_ERROR_25 = 525"

definition RIL_Errno_values :: "RIL_Errno list" where
  "RIL_Errno_values = [
     RIL_E_SUCCESS, RIL_E_RADIO_NOT_AVAILABLE, RIL_E_GENERIC_FAILURE, RIL_E_PASSWORD_INCORRECT
     , RIL_E_SIM_PIN2, RIL_E_SIM_PUK2, RIL_E_REQUEST_NOT_SUPPORTED, RIL_E_CANCELLED
     , RIL_E_OP_NOT_ALLOWED_DURING_VOICE_CALL, RIL_E_OP_NOT_ALLOWED_BEFORE_REG_TO_NW
     , RIL_E_SMS_SEND_FAIL_RETRY, RIL_E_SIM_ABSENT, RIL_E_SUBSCRIPTION_NOT_AVAILABLE
     , RIL_E_MODE_NOT_SUPPORTED, RIL_E_FDN_CHECK_FAILURE, RIL_E_ILLEGAL_SIM_OR_ME
     , RIL_E_MISSING_RESOURCE, RIL_E_NO_SUCH_ELEMENT, RIL_E_DIAL_MODIFIED_TO_USSD
     , RIL_E_DIAL_MODIFIED_TO_SS, RIL_E_DIAL_MODIFIED_TO_DIAL, RIL_E_USSD_MODIFIED_TO_DIAL
     , RIL_E_USSD_MODIFIED_TO_SS, RIL_E_USSD_MODIFIED_TO_USSD, RIL_E_SS_MODIFIED_TO_DIAL
     , RIL_E_SS_MODIFIED_TO_USSD, RIL_E_SUBSCRIPTION_NOT_SUPPORTED, RIL_E_SS_MODIFIED_TO_SS
     , RIL_E_LCE_NOT_SUPPORTED, RIL_E_NO_MEMORY, RIL_E_INTERNAL_ERR, RIL_E_SYSTEM_ERR
     , RIL_E_MODEM_ERR, RIL_E_INVALID_STATE, RIL_E_NO_RESOURCES, RIL_E_SIM_ERR
     , RIL_E_INVALID_ARGUMENTS, RIL_E_INVALID_SIM_STATE, RIL_E_INVALID_MODEM_STATE
     , RIL_E_INVALID_CALL_ID, RIL_E_NO_SMS_TO_ACK, RIL_E_NETWORK_ERR, RIL_E_REQUEST_RATE_LIMITED
     , RIL_E_SIM_BUSY, RIL_E_SIM_FULL, RIL_E_NETWORK_REJECT, RIL_E_OPERATION_NOT_ALLOWED
     , RIL_E_EMPTY_RECORD, RIL_E_INVALID_SMS_FORMAT, RIL_E_ENCODING_ERR, RIL_E_INVALID_SMSC_ADDRESS
     , RIL_E_NO_SUCH_ENTRY, RIL_E_NETWORK_NOT_READY, RIL_E_NOT_PROVISIONED, RIL_E_NO_SUBSCRIPTION
     , RIL_E_NO_NETWORK_FOUND, RIL_E_DEVICE_IN_USE, RIL_E_ABORTED, RIL_E_INVALID_RESPONSE
     , RIL_E_OEM_ERROR_1, RIL_E_OEM_ERROR_2, RIL_E_OEM_ERROR_3, RIL_E_OEM_ERROR_4, RIL_E_OEM_ERROR_5
     , RIL_E_OEM_ERROR_6, RIL_E_OEM_ERROR_7, RIL_E_OEM_ERROR_8, RIL_E_OEM_ERROR_9
     , RIL_E_OEM_ERROR_10, RIL_E_OEM_ERROR_11, RIL_E_OEM_ERROR_12, RIL_E_OEM_ERROR_13
     , RIL_E_OEM_ERROR_14, RIL_E_OEM_ERROR_15, RIL_E_OEM_ERROR_16, RIL_E_OEM_ERROR_17
     , RIL_E_OEM_ERROR_18, RIL_E_OEM_ERROR_19, RIL_E_OEM_ERROR_20, RIL_E_OEM_ERROR_21
     , RIL_E_OEM_ERROR_22, RIL_E_OEM_ERROR_23, RIL_E_OEM_ERROR_24, RIL_E_OEM_ERROR_25]"

lemmas RIL_Errno_defs =
  RIL_E_SUCCESS_def RIL_E_RADIO_NOT_AVAILABLE_def RIL_E_GENERIC_FAILURE_def
  RIL_E_PASSWORD_INCORRECT_def RIL_E_SIM_PIN2_def RIL_E_SIM_PUK2_def RIL_E_REQUEST_NOT_SUPPORTED_def
  RIL_E_CANCELLED_def RIL_E_OP_NOT_ALLOWED_DURING_VOICE_CALL_def
  RIL_E_OP_NOT_ALLOWED_BEFORE_REG_TO_NW_def RIL_E_SMS_SEND_FAIL_RETRY_def RIL_E_SIM_ABSENT_def
  RIL_E_SUBSCRIPTION_NOT_AVAILABLE_def RIL_E_MODE_NOT_SUPPORTED_def RIL_E_FDN_CHECK_FAILURE_def
  RIL_E_ILLEGAL_SIM_OR_ME_def RIL_E_MISSING_RESOURCE_def RIL_E_NO_SUCH_ELEMENT_def
  RIL_E_DIAL_MODIFIED_TO_USSD_def RIL_E_DIAL_MODIFIED_TO_SS_def RIL_E_DIAL_MODIFIED_TO_DIAL_def
  RIL_E_USSD_MODIFIED_TO_DIAL_def RIL_E_USSD_MODIFIED_TO_SS_def RIL_E_USSD_MODIFIED_TO_USSD_def
  RIL_E_SS_MODIFIED_TO_DIAL_def RIL_E_SS_MODIFIED_TO_USSD_def RIL_E_SUBSCRIPTION_NOT_SUPPORTED_def
  RIL_E_SS_MODIFIED_TO_SS_def RIL_E_LCE_NOT_SUPPORTED_def RIL_E_NO_MEMORY_def RIL_E_INTERNAL_ERR_def
  RIL_E_SYSTEM_ERR_def RIL_E_MODEM_ERR_def RIL_E_INVALID_STATE_def RIL_E_NO_RESOURCES_def
  RIL_E_SIM_ERR_def RIL_E_INVALID_ARGUMENTS_def RIL_E_INVALID_SIM_STATE_def
  RIL_E_INVALID_MODEM_STATE_def RIL_E_INVALID_CALL_ID_def RIL_E_NO_SMS_TO_ACK_def
  RIL_E_NETWORK_ERR_def RIL_E_REQUEST_RATE_LIMITED_def RIL_E_SIM_BUSY_def RIL_E_SIM_FULL_def
  RIL_E_NETWORK_REJECT_def RIL_E_OPERATION_NOT_ALLOWED_def RIL_E_EMPTY_RECORD_def
  RIL_E_INVALID_SMS_FORMAT_def RIL_E_ENCODING_ERR_def RIL_E_INVALID_SMSC_ADDRESS_def
  RIL_E_NO_SUCH_ENTRY_def RIL_E_NETWORK_NOT_READY_def RIL_E_NOT_PROVISIONED_def
  RIL_E_NO_SUBSCRIPTION_def RIL_E_NO_NETWORK_FOUND_def RIL_E_DEVICE_IN_USE_def RIL_E_ABORTED_def
  RIL_E_INVALID_RESPONSE_def RIL_E_OEM_ERROR_1_def RIL_E_OEM_ERROR_2_def RIL_E_OEM_ERROR_3_def
  RIL_E_OEM_ERROR_4_def RIL_E_OEM_ERROR_5_def RIL_E_OEM_ERROR_6_def RIL_E_OEM_ERROR_7_def
  RIL_E_OEM_ERROR_8_def RIL_E_OEM_ERROR_9_def RIL_E_OEM_ERROR_10_def RIL_E_OEM_ERROR_11_def
  RIL_E_OEM_ERROR_12_def RIL_E_OEM_ERROR_13_def RIL_E_OEM_ERROR_14_def RIL_E_OEM_ERROR_15_def
  RIL_E_OEM_ERROR_16_def RIL_E_OEM_ERROR_17_def RIL_E_OEM_ERROR_18_def RIL_E_OEM_ERROR_19_def
  RIL_E_OEM_ERROR_20_def RIL_E_OEM_ERROR_21_def RIL_E_OEM_ERROR_22_def RIL_E_OEM_ERROR_23_def
  RIL_E_OEM_ERROR_24_def RIL_E_OEM_ERROR_25_def

interpretation RIL_Errno: enum_constants RIL_Errno_values
  by unfold_locales (simp add: RIL_Errno_values_def RIL_Errno_defs)

datatype RIL_CallState =
    RIL_CALL_ACTIVE | RIL_CALL_HOLDING | RIL_CALL_DIALING | RIL_CALL_ALERTING | RIL_CALL_INCOMING
     | RIL_CALL_WAITING

definition RIL_CallState_values :: "RIL_CallState list" where
  "RIL_CallState_values = [
     RIL_CALL_ACTIVE, RIL_CALL_HOLDING, RIL_CALL_DIALING, RIL_CALL_ALERTING, RIL_CALL_INCOMING
     , RIL_CALL_WAITING]"

primrec RIL_CallState_code :: "RIL_CallState \<Rightarrow> int" where
  "RIL_CallState_code RIL_CALL_ACTIVE = 0"
| "RIL_CallState_code RIL_CALL_HOLDING = 1"
| "RIL_CallState_code RIL_CALL_DIALING = 2"
| "RIL_CallState_code RIL_CALL_ALERTING = 3"
| "RIL_CallState_code RIL_CALL_INCOMING = 4"
| "RIL_CallState_code RIL_CALL_WAITING = 5"

interpretation RIL_CallState: enum_code RIL_CallState_values RIL_CallState_code
proof
  show "x \<in> set RIL_CallState_values" for x by (cases x) (simp_all add: RIL_CallState_values_def)
  show "distinct (map RIL_CallState_code RIL_CallState_values)" by (simp add: RIL_CallState_values_def)
qed

datatype RIL_RadioState =
    RADIO_STATE_OFF | RADIO_STATE_UNAVAILABLE | RADIO_STATE_ON

definition RIL_RadioState_values :: "RIL_RadioState list" where
  "RIL_RadioState_values = [
     RADIO_STATE_OFF, RADIO_STATE_UNAVAILABLE, RADIO_STATE_ON]"

primrec RIL_RadioState_code :: "RIL_RadioState \<Rightarrow> int" where
  "RIL_RadioState_code RADIO_STATE_OFF = 0"
| "RIL_RadioState_code RADIO_STATE_UNAVAILABLE = 1"
| "RIL_RadioState_code RADIO_STATE_ON = 10"

interpretation RIL_RadioState: enum_code RIL_RadioState_values RIL_RadioState_code
proof
  show "x \<in> set RIL_RadioState_values" for x by (cases x) (simp_all add: RIL_RadioState_values_def)
  show "distinct (map RIL_RadioState_code RIL_RadioState_values)" by (simp add: RIL_RadioState_values_def)
qed

datatype RIL_RadioTechnology =
    RADIO_TECH_UNKNOWN | RADIO_TECH_GPRS | RADIO_TECH_EDGE | RADIO_TECH_UMTS | RADIO_TECH_IS95A
     | RADIO_TECH_IS95B | RADIO_TECH_1xRTT | RADIO_TECH_EVDO_0 | RADIO_TECH_EVDO_A
     | RADIO_TECH_HSDPA | RADIO_TECH_HSUPA | RADIO_TECH_HSPA | RADIO_TECH_EVDO_B | RADIO_TECH_EHRPD
     | RADIO_TECH_LTE | RADIO_TECH_HSPAP | RADIO_TECH_GSM | RADIO_TECH_TD_SCDMA | RADIO_TECH_IWLAN
     | RADIO_TECH_LTE_CA

definition RIL_RadioTechnology_values :: "RIL_RadioTechnology list" where
  "RIL_RadioTechnology_values = [
     RADIO_TECH_UNKNOWN, RADIO_TECH_GPRS, RADIO_TECH_EDGE, RADIO_TECH_UMTS, RADIO_TECH_IS95A
     , RADIO_TECH_IS95B, RADIO_TECH_1xRTT, RADIO_TECH_EVDO_0, RADIO_TECH_EVDO_A, RADIO_TECH_HSDPA
     , RADIO_TECH_HSUPA, RADIO_TECH_HSPA, RADIO_TECH_EVDO_B, RADIO_TECH_EHRPD, RADIO_TECH_LTE
     , RADIO_TECH_HSPAP, RADIO_TECH_GSM, RADIO_TECH_TD_SCDMA, RADIO_TECH_IWLAN, RADIO_TECH_LTE_CA]"

primrec RIL_RadioTechnology_code :: "RIL_RadioTechnology \<Rightarrow> int" where
  "RIL_RadioTechnology_code RADIO_TECH_UNKNOWN = 0"
| "RIL_RadioTechnology_code RADIO_TECH_GPRS = 1"
| "RIL_RadioTechnology_code RADIO_TECH_EDGE = 2"
| "RIL_RadioTechnology_code RADIO_TECH_UMTS = 3"
| "RIL_RadioTechnology_code RADIO_TECH_IS95A = 4"
| "RIL_RadioTechnology_code RADIO_TECH_IS95B = 5"
| "RIL_RadioTechnology_code RADIO_TECH_1xRTT = 6"
| "RIL_RadioTechnology_code RADIO_TECH_EVDO_0 = 7"
| "RIL_RadioTechnology_code RADIO_TECH_EVDO_A = 8"
| "RIL_RadioTechnology_code RADIO_TECH_HSDPA = 9"
| "RIL_RadioTechnology_code RADIO_TECH_HSUPA = 10"
| "RIL_RadioTechnology_code RADIO_TECH_HSPA = 11"
| "RIL_RadioTechnology_code RADIO_TECH_EVDO_B = 12"
| "RIL_RadioTechnology_code RADIO_TECH_EHRPD = 13"
| "RIL_RadioTechnology_code RADIO_TECH_LTE = 14"
| "RIL_RadioTechnology_code RADIO_TECH_HSPAP = 15"
| "RIL_RadioTechnology_code RADIO_TECH_GSM = 16"
| "RIL_RadioTechnology_code RADIO_TECH_TD_SCDMA = 17"
| "RIL_RadioTechnology_code RADIO_TECH_IWLAN = 18"
| "RIL_RadioTechnology_code RADIO_TECH_LTE_CA = 19"

interpretation RIL_RadioTechnology: enum_code RIL_RadioTechnology_values RIL_RadioTechnology_code
proof
  show "x \<in> set RIL_RadioTechnology_values" for x by (cases x) (simp_all add: RIL_RadioTechnology_values_def)
  show "distinct (map RIL_RadioTechnology_code RIL_RadioTechnology_values)" by (simp add: RIL_RadioTechnology_values_def)
qed

datatype RIL_RadioAccessFamily =
    RAF_UNKNOWN | RAF_GPRS | RAF_EDGE | RAF_UMTS | RAF_IS95A | RAF_IS95B | RAF_1xRTT | RAF_EVDO_0
     | RAF_EVDO_A | RAF_HSDPA | RAF_HSUPA | RAF_HSPA | RAF_EVDO_B | RAF_EHRPD | RAF_LTE | RAF_HSPAP
     | RAF_GSM | RAF_TD_SCDMA | RAF_LTE_CA

definition RIL_RadioAccessFamily_values :: "RIL_RadioAccessFamily list" where
  "RIL_RadioAccessFamily_values = [
     RAF_UNKNOWN, RAF_GPRS, RAF_EDGE, RAF_UMTS, RAF_IS95A, RAF_IS95B, RAF_1xRTT, RAF_EVDO_0
     , RAF_EVDO_A, RAF_HSDPA, RAF_HSUPA, RAF_HSPA, RAF_EVDO_B, RAF_EHRPD, RAF_LTE, RAF_HSPAP
     , RAF_GSM, RAF_TD_SCDMA, RAF_LTE_CA]"

primrec RIL_RadioAccessFamily_code :: "RIL_RadioAccessFamily \<Rightarrow> int" where
  "RIL_RadioAccessFamily_code RAF_UNKNOWN = 1"
| "RIL_RadioAccessFamily_code RAF_GPRS = 2"
| "RIL_RadioAccessFamily_code RAF_EDGE = 4"
| "RIL_RadioAccessFamily_code RAF_UMTS = 8"
| "RIL_RadioAccessFamily_code RAF_IS95A = 16"
| "RIL_RadioAccessFamily_code RAF_IS95B = 32"
| "RIL_RadioAccessFamily_code RAF_1xRTT = 64"
| "RIL_RadioAccessFamily_code RAF_EVDO_0 = 128"
| "RIL_RadioAccessFamily_code RAF_EVDO_A = 256"
| "RIL_RadioAccessFamily_code RAF_HSDPA = 512"
| "RIL_RadioAccessFamily_code RAF_HSUPA = 1024"
| "RIL_RadioAccessFamily_code RAF_HSPA = 2048"
| "RIL_RadioAccessFamily_code RAF_EVDO_B = 4096"
| "RIL_RadioAccessFamily_code RAF_EHRPD = 8192"
| "RIL_RadioAccessFamily_code RAF_LTE = 16384"
| "RIL_RadioAccessFamily_code RAF_HSPAP = 32768"
| "RIL_RadioAccessFamily_code RAF_GSM = 65536"
| "RIL_RadioAccessFamily_code RAF_TD_SCDMA = 131072"
| "RIL_RadioAccessFamily_code RAF_LTE_CA = 524288"

interpretation RIL_RadioAccessFamily: enum_code RIL_RadioAccessFamily_values RIL_RadioAccessFamily_code
proof
  show "x \<in> set RIL_RadioAccessFamily_values" for x by (cases x) (simp_all add: RIL_RadioAccessFamily_values_def)
  show "distinct (map RIL_RadioAccessFamily_code RIL_RadioAccessFamily_values)" by (simp add: RIL_RadioAccessFamily_values_def)
qed

datatype RIL_RadioBandMode =
    BAND_MODE_UNSPECIFIED | BAND_MODE_EURO | BAND_MODE_USA | BAND_MODE_JPN | BAND_MODE_AUS
     | BAND_MODE_AUS_2 | BAND_MODE_CELL_800 | BAND_MODE_PCS | BAND_MODE_JTACS | BAND_MODE_KOREA_PCS
     | BAND_MODE_5_450M | BAND_MODE_IMT2000 | BAND_MODE_7_700M_2 | BAND_MODE_8_1800M
     | BAND_MODE_9_900M | BAND_MODE_10_800M_2 | BAND_MODE_EURO_PAMR_400M | BAND_MODE_AWS
     | BAND_MODE_USA_2500M

definition RIL_RadioBandMode_values :: "RIL_RadioBandMode list" where
  "RIL_RadioBandMode_values = [
     BAND_MODE_UNSPECIFIED, BAND_MODE_EURO, BAND_MODE_USA, BAND_MODE_JPN, BAND_MODE_AUS
     , BAND_MODE_AUS_2, BAND_MODE_CELL_800, BAND_MODE_PCS, BAND_MODE_JTACS, BAND_MODE_KOREA_PCS
     , BAND_MODE_5_450M, BAND_MODE_IMT2000, BAND_MODE_7_700M_2, BAND_MODE_8_1800M, BAND_MODE_9_900M
     , BAND_MODE_10_800M_2, BAND_MODE_EURO_PAMR_400M, BAND_MODE_AWS, BAND_MODE_USA_2500M]"

primrec RIL_RadioBandMode_code :: "RIL_RadioBandMode \<Rightarrow> int" where
  "RIL_RadioBandMode_code BAND_MODE_UNSPECIFIED = 0"
| "RIL_RadioBandMode_code BAND_MODE_EURO = 1"
| "RIL_RadioBandMode_code BAND_MODE_USA = 2"
| "RIL_RadioBandMode_code BAND_MODE_JPN = 3"
| "RIL_RadioBandMode_code BAND_MODE_AUS = 4"
| "RIL_RadioBandMode_code BAND_MODE_AUS_2 = 5"
| "RIL_RadioBandMode_code BAND_MODE_CELL_800 = 6"
| "RIL_RadioBandMode_code BAND_MODE_PCS = 7"
| "RIL_RadioBandMode_code BAND_MODE_JTACS = 8"
| "RIL_RadioBandMode_code BAND_MODE_KOREA_PCS = 9"
| "RIL_RadioBandMode_code BAND_MODE_5_450M = 10"
| "RIL_RadioBandMode_code BAND_MODE_IMT2000 = 11"
| "RIL_RadioBandMode_code BAND_MODE_7_700M_2 = 12"
| "RIL_RadioBandMode_code BAND_MODE_8_1800M = 13"
| "RIL_RadioBandMode_code BAND_MODE_9_900M = 14"
| "RIL_RadioBandMode_code BAND_MODE_10_800M_2 = 15"
| "RIL_RadioBandMode_code BAND_MODE_EURO_PAMR_400M = 16"
| "RIL_RadioBandMode_code BAND_MODE_AWS = 17"
| "RIL_RadioBandMode_code BAND_MODE_USA_2500M = 18"

interpretation RIL_RadioBandMode: enum_code RIL_RadioBandMode_values RIL_RadioBandMode_code
proof
  show "x \<in> set RIL_RadioBandMode_values" for x by (cases x) (simp_all add: RIL_RadioBandMode_values_def)
  show "distinct (map RIL_RadioBandMode_code RIL_RadioBandMode_values)" by (simp add: RIL_RadioBandMode_values_def)
qed

datatype RadioCapabilityPhase =
    RC_PHASE_CONFIGURED | RC_PHASE_START | RC_PHASE_APPLY | RC_PHASE_UNSOL_RSP | RC_PHASE_FINISH

definition RadioCapabilityPhase_values :: "RadioCapabilityPhase list" where
  "RadioCapabilityPhase_values = [
     RC_PHASE_CONFIGURED, RC_PHASE_START, RC_PHASE_APPLY, RC_PHASE_UNSOL_RSP, RC_PHASE_FINISH]"

primrec RadioCapabilityPhase_code :: "RadioCapabilityPhase \<Rightarrow> int" where
  "RadioCapabilityPhase_code RC_PHASE_CONFIGURED = 0"
| "RadioCapabilityPhase_code RC_PHASE_START = 1"
| "RadioCapabilityPhase_code RC_PHASE_APPLY = 2"
| "RadioCapabilityPhase_code RC_PHASE_UNSOL_RSP = 3"
| "RadioCapabilityPhase_code RC_PHASE_FINISH = 4"

interpretation RadioCapabilityPhase: enum_code RadioCapabilityPhase_values RadioCapabilityPhase_code
proof
  show "x \<in> set RadioCapabilityPhase_values" for x by (cases x) (simp_all add: RadioCapabilityPhase_values_def)
  show "distinct (map RadioCapabilityPhase_code RadioCapabilityPhase_values)" by (simp add: RadioCapabilityPhase_values_def)
qed

datatype RadioCapabilityStatus =
    RC_STATUS_NONE | RC_STATUS_SUCCESS | RC_STATUS_FAIL

definition RadioCapabilityStatus_values :: "RadioCapabilityStatus list" where
  "RadioCapabilityStatus_values = [
     RC_STATUS_NONE, RC_STATUS_SUCCESS, RC_STATUS_FAIL]"

primrec RadioCapabilityStatus_code :: "RadioCapabilityStatus \<Rightarrow> int" where
  "RadioCapabilityStatus_code RC_STATUS_NONE = 0"
| "RadioCapabilityStatus_code RC_STATUS_SUCCESS = 1"
| "RadioCapabilityStatus_code RC_STATUS_FAIL = 2"

interpretation RadioCapabilityStatus: enum_code RadioCapabilityStatus_values RadioCapabilityStatus_code
proof
  show "x \<in> set RadioCapabilityStatus_values" for x by (cases x) (simp_all add: RadioCapabilityStatus_values_def)
  show "distinct (map RadioCapabilityStatus_code RadioCapabilityStatus_values)" by (simp add: RadioCapabilityStatus_values_def)
qed

datatype RIL_PreferredNetworkType =
    PREF_NET_TYPE_GSM_WCDMA | PREF_NET_TYPE_GSM_ONLY | PREF_NET_TYPE_WCDMA
     | PREF_NET_TYPE_GSM_WCDMA_AUTO | PREF_NET_TYPE_CDMA_EVDO_AUTO | PREF_NET_TYPE_CDMA_ONLY
     | PREF_NET_TYPE_EVDO_ONLY | PREF_NET_TYPE_GSM_WCDMA_CDMA_EVDO_AUTO
     | PREF_NET_TYPE_LTE_CDMA_EVDO | PREF_NET_TYPE_LTE_GSM_WCDMA
     | PREF_NET_TYPE_LTE_CMDA_EVDO_GSM_WCDMA | PREF_NET_TYPE_LTE_ONLY | PREF_NET_TYPE_LTE_WCDMA
     | PREF_NET_TYPE_TD_SCDMA_ONLY | PREF_NET_TYPE_TD_SCDMA_WCDMA | PREF_NET_TYPE_TD_SCDMA_LTE
     | PREF_NET_TYPE_TD_SCDMA_GSM | PREF_NET_TYPE_TD_SCDMA_GSM_LTE
     | PREF_NET_TYPE_TD_SCDMA_GSM_WCDMA | PREF_NET_TYPE_TD_SCDMA_WCDMA_LTE
     | PREF_NET_TYPE_TD_SCDMA_GSM_WCDMA_LTE | PREF_NET_TYPE_TD_SCDMA_GSM_WCDMA_CDMA_EVDO_AUTO
     | PREF_NET_TYPE_TD_SCDMA_LTE_CDMA_EVDO_GSM_WCDMA

definition RIL_PreferredNetworkType_values :: "RIL_PreferredNetworkType list" where
  "RIL_PreferredNetworkType_values = [
     PREF_NET_TYPE_GSM_WCDMA, PREF_NET_TYPE_GSM_ONLY, PREF_NET_TYPE_WCDMA
     , PREF_NET_TYPE_GSM_WCDMA_AUTO, PREF_NET_TYPE_CDMA_EVDO_AUTO, PREF_NET_TYPE_CDMA_ONLY
     , PREF_NET_TYPE_EVDO_ONLY, PREF_NET_TYPE_GSM_WCDMA_CDMA_EVDO_AUTO, PREF_NET_TYPE_LTE_CDMA_EVDO
     , PREF_NET_TYPE_LTE_GSM_WCDMA, PREF_NET_TYPE_LTE_CMDA_EVDO_GSM_WCDMA, PREF_NET_TYPE_LTE_ONLY
     , PREF_NET_TYPE_LTE_WCDMA, PREF_NET_TYPE_TD_SCDMA_ONLY, PREF_NET_TYPE_TD_SCDMA_WCDMA
     , PREF_NET_TYPE_TD_SCDMA_LTE, PREF_NET_TYPE_TD_SCDMA_GSM, PREF_NET_TYPE_TD_SCDMA_GSM_LTE
     , PREF_NET_TYPE_TD_SCDMA_GSM_WCDMA, PREF_NET_TYPE_TD_SCDMA_WCDMA_LTE
     , PREF_NET_TYPE_TD_SCDMA_GSM_WCDMA_LTE, PREF_NET_TYPE_TD_SCDMA_GSM_WCDMA_CDMA_EVDO_AUTO
     , PREF_NET_TYPE_TD_SCDMA_LTE_CDMA_EVDO_GSM_WCDMA]"

primrec RIL_PreferredNetworkType_code :: "RIL_PreferredNetworkType \<Rightarrow> int" where
  "RIL_PreferredNetworkType_code PREF_NET_TYPE_GSM_WCDMA = 0"
| "RIL_PreferredNetworkType_code PREF_NET_TYPE_GSM_ONLY = 1"
| "RIL_PreferredNetworkType_code PREF_NET_TYPE_WCDMA = 2"
| "RIL_PreferredNetworkType_code PREF_NET_TYPE_GSM_WCDMA_AUTO = 3"
| "RIL_PreferredNetworkType_code PREF_NET_TYPE_CDMA_EVDO_AUTO = 4"
| "RIL_PreferredNetworkType_code PREF_NET_TYPE_CDMA_ONLY = 5"
| "RIL_PreferredNetworkType_code PREF_NET_TYPE_EVDO_ONLY = 6"
| "RIL_PreferredNetworkType_code PREF_NET_TYPE_GSM_WCDMA_CDMA_EVDO_AUTO = 7"
| "RIL_PreferredNetworkType_code PREF_NET_TYPE_LTE_CDMA_EVDO = 8"
| "RIL_PreferredNetworkType_code PREF_NET_TYPE_LTE_GSM_WCDMA = 9"
| "RIL_PreferredNetworkType_code PREF_NET_TYPE_LTE_CMDA_EVDO_GSM_WCDMA = 10"
| "RIL_PreferredNetworkType_code PREF_NET_TYPE_LTE_ONLY = 11"
| "RIL_PreferredNetworkType_code PREF_NET_TYPE_LTE_WCDMA = 12"
| "RIL_PreferredNetworkType_code PREF_NET_TYPE_TD_SCDMA_ONLY = 13"
| "RIL_PreferredNetworkType_code PREF_NET_TYPE_TD_SCDMA_WCDMA = 14"
| "RIL_PreferredNetworkType_code PREF_NET_TYPE_TD_SCDMA_LTE = 15"
| "RIL_PreferredNetworkType_code PREF_NET_TYPE_TD_SCDMA_GSM = 16"
| "RIL_PreferredNetworkType_code PREF_NET_TYPE_TD_SCDMA_GSM_LTE = 17"
| "RIL_PreferredNetworkType_code PREF_NET_TYPE_TD_SCDMA_GSM_WCDMA = 18"
| "RIL_PreferredNetworkType_code PREF_NET_TYPE_TD_SCDMA_WCDMA_LTE = 19"
| "RIL_PreferredNetworkType_code PREF_NET_TYPE_TD_SCDMA_GSM_WCDMA_LTE = 20"
| "RIL_PreferredNetworkType_code PREF_NET_TYPE_TD_SCDMA_GSM_WCDMA_CDMA_EVDO_AUTO = 21"
| "RIL_PreferredNetworkType_code PREF_NET_TYPE_TD_SCDMA_LTE_CDMA_EVDO_GSM_WCDMA = 22"

interpretation RIL_PreferredNetworkType: enum_code RIL_PreferredNetworkType_values RIL_PreferredNetworkType_code
proof
  show "x \<in> set RIL_PreferredNetworkType_values" for x by (cases x) (simp_all add: RIL_PreferredNetworkType_values_def)
  show "distinct (map RIL_PreferredNetworkType_code RIL_PreferredNetworkType_values)" by (simp add: RIL_PreferredNetworkType_values_def)
qed

datatype RIL_CdmaSubscriptionSource =
    CDMA_SUBSCRIPTION_SOURCE_RUIM_SIM | CDMA_SUBSCRIPTION_SOURCE_NV

definition RIL_CdmaSubscriptionSource_values :: "RIL_CdmaSubscriptionSource list" where
  "RIL_CdmaSubscriptionSource_values = [
     CDMA_SUBSCRIPTION_SOURCE_RUIM_SIM, CDMA_SUBSCRIPTION_SOURCE_NV]"

primrec RIL_CdmaSubscriptionSource_code :: "RIL_CdmaSubscriptionSource \<Rightarrow> int" where
  "RIL_CdmaSubscriptionSource_code CDMA_SUBSCRIPTION_SOURCE_RUIM_SIM = 0"
| "RIL_CdmaSubscriptionSource_code CDMA_SUBSCRIPTION_SOURCE_NV = 1"

interpretation RIL_CdmaSubscriptionSource: enum_code RIL_CdmaSubscriptionSource_values RIL_CdmaSubscriptionSource_code
proof
  show "x \<in> set RIL_CdmaSubscriptionSource_values" for x by (cases x) (simp_all add: RIL_CdmaSubscriptionSource_values_def)
  show "distinct (map RIL_CdmaSubscriptionSource_code RIL_CdmaSubscriptionSource_values)" by (simp add: RIL_CdmaSubscriptionSource_values_def)
qed

datatype RIL_UUS_Type =
    RIL_UUS_TYPE1_IMPLICIT | RIL_UUS_TYPE1_REQUIRED | RIL_UUS_TYPE1_NOT_REQUIRED
     | RIL_UUS_TYPE2_REQUIRED | RIL_UUS_TYPE2_NOT_REQUIRED | RIL_UUS_TYPE3_REQUIRED
     | RIL_UUS_TYPE3_NOT_REQUIRED

definition RIL_UUS_Type_values :: "RIL_UUS_Type list" where
  "RIL_UUS_Type_values = [
     RIL_UUS_TYPE1_IMPLICIT, RIL_UUS_TYPE1_REQUIRED, RIL_UUS_TYPE1_NOT_REQUIRED
     , RIL_UUS_TYPE2_REQUIRED, RIL_UUS_TYPE2_NOT_REQUIRED, RIL_UUS_TYPE3_REQUIRED
     , RIL_UUS_TYPE3_NOT_REQUIRED]"

primrec RIL_UUS_Type_code :: "RIL_UUS_Type \<Rightarrow> int" where
  "RIL_UUS_Type_code RIL_UUS_TYPE1_IMPLICIT = 0"
| "RIL_UUS_Type_code RIL_UUS_TYPE1_REQUIRED = 1"
| "RIL_UUS_Type_code RIL_UUS_TYPE1_NOT_REQUIRED = 2"
| "RIL_UUS_Type_code RIL_UUS_TYPE2_REQUIRED = 3"
| "RIL_UUS_Type_code RIL_UUS_TYPE2_NOT_REQUIRED = 4"
| "RIL_UUS_Type_code RIL_UUS_TYPE3_REQUIRED = 5"
| "RIL_UUS_Type_code RIL_UUS_TYPE3_NOT_REQUIRED = 6"

interpretation RIL_UUS_Type: enum_code RIL_UUS_Type_values RIL_UUS_Type_code
proof
  show "x \<in> set RIL_UUS_Type_values" for x by (cases x) (simp_all add: RIL_UUS_Type_values_def)
  show "distinct (map RIL_UUS_Type_code RIL_UUS_Type_values)" by (simp add: RIL_UUS_Type_values_def)
qed

datatype RIL_UUS_DCS =
    RIL_UUS_DCS_USP | RIL_UUS_DCS_OSIHLP | RIL_UUS_DCS_X244 | RIL_UUS_DCS_RMCF | RIL_UUS_DCS_IA5c

definition RIL_UUS_DCS_values :: "RIL_UUS_DCS list" where
  "RIL_UUS_DCS_values = [
     RIL_UUS_DCS_USP, RIL_UUS_DCS_OSIHLP, RIL_UUS_DCS_X244, RIL_UUS_DCS_RMCF, RIL_UUS_DCS_IA5c]"

primrec RIL_UUS_DCS_code :: "RIL_UUS_DCS \<Rightarrow> int" where
  "RIL_UUS_DCS_code RIL_UUS_DCS_USP = 0"
| "RIL_UUS_DCS_code RIL_UUS_DCS_OSIHLP = 1"
| "RIL_UUS_DCS_code RIL_UUS_DCS_X244 = 2"
| "RIL_UUS_DCS_code RIL_UUS_DCS_RMCF = 3"
| "RIL_UUS_DCS_code RIL_UUS_DCS_IA5c = 4"

interpretation RIL_UUS_DCS: enum_code RIL_UUS_DCS_values RIL_UUS_DCS_code
proof
  show "x \<in> set RIL_UUS_DCS_values" for x by (cases x) (simp_all add: RIL_UUS_DCS_values_def)
  show "distinct (map RIL_UUS_DCS_code RIL_UUS_DCS_values)" by (simp add: RIL_UUS_DCS_values_def)
qed

datatype RIL_RadioTechnologyFamily =
    RADIO_TECH_3GPP | RADIO_TECH_3GPP2

definition RIL_RadioTechnologyFamily_values :: "RIL_RadioTechnologyFamily list" where
  "RIL_RadioTechnologyFamily_values = [
     RADIO_TECH_3GPP, RADIO_TECH_3GPP2]"

primrec RIL_RadioTechnologyFamily_code :: "RIL_RadioTechnologyFamily \<Rightarrow> int" where
  "RIL_RadioTechnologyFamily_code RADIO_TECH_3GPP = 1"
| "RIL_RadioTechnologyFamily_code RADIO_TECH_3GPP2 = 2"

interpretation RIL_RadioTechnologyFamily: enum_code RIL_RadioTechnologyFamily_values RIL_RadioTechnologyFamily_code
proof
  show "x \<in> set RIL_RadioTechnologyFamily_values" for x by (cases x) (simp_all add: RIL_RadioTechnologyFamily_values_def)
  show "distinct (map RIL_RadioTechnologyFamily_code RIL_RadioTechnologyFamily_values)" by (simp add: RIL_RadioTechnologyFamily_values_def)
qed

datatype RIL_CarrierMatchType =
    RIL_MATCH_ALL | RIL_MATCH_SPN | RIL_MATCH_IMSI_PREFIX | RIL_MATCH_GID1 | RIL_MATCH_GID2

definition RIL_CarrierMatchType_values :: "RIL_CarrierMatchType list" where
  "RIL_CarrierMatchType_values = [
     RIL_MATCH_ALL, RIL_MATCH_SPN, RIL_MATCH_IMSI_PREFIX, RIL_MATCH_GID1, RIL_MATCH_GID2]"

primrec RIL_CarrierMatchType_code :: "RIL_CarrierMatchType \<Rightarrow> int" where
  "RIL_CarrierMatchType_code RIL_MATCH_ALL = 0"
| "RIL_CarrierMatchType_code RIL_MATCH_SPN = 1"
| "RIL_CarrierMatchType_code RIL_MATCH_IMSI_PREFIX = 2"
| "RIL_CarrierMatchType_code RIL_MATCH_GID1 = 3"
| "RIL_CarrierMatchType_code RIL_MATCH_GID2 = 4"

interpretation RIL_CarrierMatchType: enum_code RIL_CarrierMatchType_values RIL_CarrierMatchType_code
proof
  show "x \<in> set RIL_CarrierMatchType_values" for x by (cases x) (simp_all add: RIL_CarrierMatchType_values_def)
  show "distinct (map RIL_CarrierMatchType_code RIL_CarrierMatchType_values)" by (simp add: RIL_CarrierMatchType_values_def)
qed

type_synonym RIL_LastCallFailCause = int

definition CALL_FAIL_UNOBTAINABLE_NUMBER :: RIL_LastCallFailCause where "CALL_FAIL_UNOBTAINABLE_NUMBER = 1"
definition CALL_FAIL_NO_ROUTE_TO_DESTINATION :: RIL_LastCallFailCause where "CALL_FAIL_NO_ROUTE_TO_DESTINATION = 3"
definition CALL_FAIL_CHANNEL_UNACCEPTABLE :: RIL_LastCallFailCause where "CALL_FAIL_CHANNEL_UNACCEPTABLE = 6"
definition CALL_FAIL_OPERATOR_DETERMINED_BARRING :: RIL_LastCallFailCause where "CALL_FAIL_OPERATOR_DETERMINED_BARRING = 8"
definition CALL_FAIL_NORMAL :: RIL_LastCallFailCause where "CALL_FAIL_NORMAL = 16"
definition CALL_FAIL_BUSY :: RIL_LastCallFailCause where "CALL_FAIL_BUSY = 17"
definition CALL_FAIL_NO_USER_RESPONDING :: RIL_LastCallFailCause where "CALL_FAIL_NO_USER_RESPONDING = 18"
definition CALL_FAIL_NO_ANSWER_FROM_USER :: RIL_LastCallFailCause where "CALL_FAIL_NO_ANSWER_FROM_USER = 19"
definition CALL_FAIL_CALL_REJECTED :: RIL_LastCallFailCause where "CALL_FAIL_CALL_REJECTED = 21"
definition CALL_FAIL_NUMBER_CHANGED :: RIL_LastCallFailCause where "CALL_FAIL_NUMBER_CHANGED = 22"
definition CALL_FAIL_PREEMPTION :: RIL_LastCallFailCause where "CALL_FAIL_PREEMPTION = 25"
definition CALL_FAIL_DESTINATION_OUT_OF_ORDER :: RIL_LastCallFailCause where "CALL_FAIL_DESTINATION_OUT_OF_ORDER = 27"
definition CALL_FAIL_INVALID_NUMBER_FORMAT :: RIL_LastCallFailCause where "CALL_FAIL_INVALID_NUMBER_FORMAT = 28"
definition CALL_FAIL_FACILITY_REJECTED :: RIL_LastCallFailCause where "CALL_FAIL_FACILITY_REJECTED = 29"
definition CALL_FAIL_RESP_TO_STATUS_ENQUIRY :: RIL_LastCallFailCause where "CALL_FAIL_RESP_TO_STATUS_ENQUIRY = 30"
definition CALL_FAIL_NORMAL_UNSPECIFIED :: RIL_LastCallFailCause where "CALL_FAIL_NORMAL_UNSPECIFIED = 31"
definition CALL_FAIL_CONGESTION :: RIL_LastCallFailCause where "CALL_FAIL_CONGESTION = 34"
definition CALL_FAIL_NETWORK_OUT_OF_ORDER :: RIL_LastCallFailCause where "CALL_FAIL_NETWORK_OUT_OF_ORDER = 38"
definition CALL_FAIL_TEMPORARY_FAILURE :: RIL_LastCallFailCause where "CALL_FAIL_TEMPORARY_FAILURE = 41"
definition CALL_FAIL_SWITCHING_EQUIPMENT_CONGESTION :: RIL_LastCallFailCause where "CALL_FAIL_SWITCHING_EQUIPMENT_CONGESTION = 42"
definition CALL_FAIL_ACCESS_INFORMATION_DISCARDED :: RIL_LastCallFailCause where "CALL_FAIL_ACCESS_INFORMATION_DISCARDED = 43"
definition CALL_FAIL_REQUESTED_CIRCUIT_OR_CHANNEL_NOT_AVAILABLE :: RIL_LastCallFailCause where "CALL_FAIL_REQUESTED_CIRCUIT_OR_CHANNEL_NOT_AVAILABLE = 44"
definition CALL_FAIL_RESOURCES_UNAVAILABLE_OR_UNSPECIFIED :: RIL_LastCallFailCause where "CALL_FAIL_RESOURCES_UNAVAILABLE_OR_UNSPECIFIED = 47"
definition CALL_FAIL_QOS_UNAVAILABLE :: RIL_LastCallFailCause where "CALL_FAIL_QOS_UNAVAILABLE = 49"
definition CALL_FAIL_REQUESTED_FACILITY_NOT_SUBSCRIBED :: RIL_LastCallFailCause where "CALL_FAIL_REQUESTED_FACILITY_NOT_SUBSCRIBED = 50"
definition CALL_FAIL_INCOMING_CALLS_BARRED_WITHIN_CUG :: RIL_LastCallFailCause where "CALL_FAIL_INCOMING_CALLS_BARRED_WITHIN_CUG = 55"
definition CALL_FAIL_BEARER_CAPABILITY_NOT_AUTHORIZED :: RIL_LastCallFailCause where "CALL_FAIL_BEARER_CAPABILITY_NOT_AUTHORIZED = 57"
definition CALL_FAIL_BEARER_CAPABILITY_UNAVAILABLE :: RIL_LastCallFailCause where "CALL_FAIL_BEARER_CAPABILITY_UNAVAILABLE = 58"
definition CALL_FAIL_SERVICE_OPTION_NOT_AVAILABLE :: RIL_LastCallFailCause where "CALL_FAIL_SERVICE_OPTION_NOT_AVAILABLE = 63"
definition CALL_FAIL_BEARER_SERVICE_NOT_IMPLEMENTED :: RIL_LastCallFailCause where "CALL_FAIL_BEARER_SERVICE_NOT_IMPLEMENTED = 65"
definition CALL_FAIL_ACM_LIMIT_EXCEEDED :: RIL_LastCallFailCause where "CALL_FAIL_ACM_LIMIT_EXCEEDED = 68"
definition CALL_FAIL_REQUESTED_FACILITY_NOT_IMPLEMENTED :: RIL_LastCallFailCause where "CALL_FAIL_REQUESTED_FACILITY_NOT_IMPLEMENTED = 69"
definition CALL_FAIL_ONLY_DIGITAL_INFORMATION_BEARER_AVAILABLE :: RIL_LastCallFailCause where "CALL_FAIL_ONLY_DIGITAL_INFORMATION_BEARER_AVAILABLE = 70"
definition CALL_FAIL_SERVICE_OR_OPTION_NOT_IMPLEMENTED :: RIL_LastCallFailCause where "CALL_FAIL_SERVICE_OR_OPTION_NOT_IMPLEMENTED = 79"
definition CALL_FAIL_INVALID_TRANSACTION_IDENTIFIER :: RIL_LastCallFailCause where "CALL_FAIL_INVALID_TRANSACTION_IDENTIFIER = 81"
definition CALL_FAIL_USER_NOT_MEMBER_OF_CUG :: RIL_LastCallFailCause where "CALL_FAIL_USER_NOT_MEMBER_OF_CUG = 87"
definition CALL_FAIL_INCOMPATIBLE_DESTINATION :: RIL_LastCallFailCause where "CALL_FAIL_INCOMPATIBLE_DESTINATION = 88"
definition CALL_FAIL_INVALID_TRANSIT_NW_SELECTION :: RIL_LastCallFailCause where "CALL_FAIL_INVALID_TRANSIT_NW_SELECTION = 91"
definition CALL_FAIL_SEMANTICALLY_INCORRECT_MESSAGE :: RIL_LastCallFailCause where "CALL_FAIL_SEMANTICALLY_INCORRECT_MESSAGE = 95"
definition CALL_FAIL_INVALID_MANDATORY_INFORMATION :: RIL_LastCallFailCause where "CALL_FAIL_INVALID_MANDATORY_INFORMATION = 96"
definition CALL_FAIL_MESSAGE_TYPE_NON_IMPLEMENTED :: RIL_LastCallFailCause where "CALL_FAIL_MESSAGE_TYPE_NON_IMPLEMENTED = 97"
definition CALL_FAIL_MESSAGE_TYPE_NOT_COMPATIBLE_WITH_PROTOCOL_STATE :: RIL_LastCallFailCause where "CALL_FAIL_MESSAGE_TYPE_NOT_COMPATIBLE_WITH_PROTOCOL_STATE = 98"
definition CALL_FAIL_INFORMATION_ELEMENT_NON_EXISTENT :: RIL_LastCallFailCause where "CALL_FAIL_INFORMATION_ELEMENT_NON_EXISTENT = 99"
definition CALL_FAIL_CONDITIONAL_IE_ERROR :: RIL_LastCallFailCause where "CALL_FAIL_CONDITIONAL_IE_ERROR = 100"
definition CALL_FAIL_MESSAGE_NOT_COMPATIBLE_WITH_PROTOCOL_STATE :: RIL_LastCallFailCause where "CALL_FAIL_MESSAGE_NOT_COMPATIBLE_WITH_PROTOCOL_STATE = 101"
definition CALL_FAIL_RECOVERY_ON_TIMER_EXPIRED :: RIL_LastCallFailCause where "CALL_FAIL_RECOVERY_ON_TIMER_EXPIRED = 102"
definition CALL_FAIL_PROTOCOL_ERROR_UNSPECIFIED :: RIL_LastCallFailCause where "CALL_FAIL_PROTOCOL_ERROR_UNSPECIFIED = 111"
definition CALL_FAIL_INTERWORKING_UNSPECIFIED :: RIL_LastCallFailCause where "CALL_FAIL_INTERWORKING_UNSPECIFIED = 127"
definition CALL_FAIL_CALL_BARRED :: RIL_LastCallFailCause where "CALL_FAIL_CALL_BARRED = 240"
definition CALL_FAIL_FDN_BLOCKED :: RIL_LastCallFailCause where "CALL_FAIL_FDN_BLOCKED = 241"
definition CALL_FAIL_IMSI_UNKNOWN_IN_VLR :: RIL_LastCallFailCause where "CALL_FAIL_IMSI_UNKNOWN_IN_VLR = 242"
definition CALL_FAIL_IMEI_NOT_ACCEPTED :: RIL_LastCallFailCause where "CALL_FAIL_IMEI_NOT_ACCEPTED = 243"
definition CALL_FAIL_DIAL_MODIFIED_TO_USSD :: RIL_LastCallFailCause where "CALL_FAIL_DIAL_MODIFIED_TO_USSD = 244"
definition CALL_FAIL_DIAL_MODIFIED_TO_SS :: RIL_LastCallFailCause where "CALL_FAIL_DIAL_MODIFIED_TO_SS = 245"
definition CALL_FAIL_DIAL_MODIFIED_TO_DIAL :: RIL_LastCallFailCause where "CALL_FAIL_DIAL_MODIFIED_TO_DIAL = 246"
definition CALL_FAIL_RADIO_OFF :: RIL_LastCallFailCause where "CALL_FAIL_RADIO_OFF = 247"
definition CALL_FAIL_OUT_OF_SERVICE :: RIL_LastCallFailCause where "CALL_FAIL_OUT_OF_SERVICE = 248"
definition CALL_FAIL_NO_VALID_SIM :: RIL_LastCallFailCause where "CALL_FAIL_NO_VALID_SIM = 249"
definition CALL_FAIL_RADIO_INTERNAL_ERROR :: RIL_LastCallFailCause where "CALL_FAIL_RADIO_INTERNAL_ERROR = 250"
definition CALL_FAIL_NETWORK_RESP_TIMEOUT :: RIL_LastCallFailCause where "CALL_FAIL_NETWORK_RESP_TIMEOUT = 251"
definition CALL_FAIL_NETWORK_REJECT :: RIL_LastCallFailCause where "CALL_FAIL_NETWORK_REJECT = 252"
definition CALL_FAIL_RADIO_ACCESS_FAILURE :: RIL_LastCallFailCause where "CALL_FAIL_RADIO_ACCESS_FAILURE = 253"
definition CALL_FAIL_RADIO_LINK_FAILURE :: RIL_LastCallFailCause where "CALL_FAIL_RADIO_LINK_FAILURE = 254"
definition CALL_FAIL_RADIO_LINK_LOST :: RIL_LastCallFailCause where "CALL_FAIL_RADIO_LINK_LOST = 255"
definition CALL_FAIL_RADIO_UPLINK_FAILURE :: RIL_LastCallFailCause where "CALL_FAIL_RADIO_UPLINK_FAILURE = 256"
definition CALL_FAIL_RADIO_SETUP_FAILURE :: RIL_LastCallFailCause where "CALL_FAIL_RADIO_SETUP_FAILURE = 257"
definition CALL_FAIL_RADIO_RELEASE_NORMAL :: RIL_LastCallFailCause where "CALL_FAIL_RADIO_RELEASE_NORMAL = 258"
definition CALL_FAIL_RADIO_RELEASE_ABNORMAL :: RIL_LastCallFailCause where "CALL_FAIL_RADIO_RELEASE_ABNORMAL = 259"
definition CALL_FAIL_ACCESS_CLASS_BLOCKED :: RIL_LastCallFailCause where "CALL_FAIL_ACCESS_CLASS_BLOCKED = 260"
definition CALL_FAIL_NETWORK_DETACH :: RIL_LastCallFailCause where "CALL_FAIL_NETWORK_DETACH = 261"
definition CALL_FAIL_CDMA_LOCKED_UNTIL_POWER_CYCLE :: RIL_LastCallFailCause where "CALL_FAIL_CDMA_LOCKED_UNTIL_POWER_CYCLE = 1000"
definition CALL_FAIL_CDMA_DROP :: RIL_LastCallFailCause where "CALL_FAIL_CDMA_DROP = 1001"
definition CALL_FAIL_CDMA_INTERCEPT :: RIL_LastCallFailCause where "CALL_FAIL_CDMA_INTERCEPT = 1002"
definition CALL_FAIL_CDMA_REORDER :: RIL_LastCallFailCause where "CALL_FAIL_CDMA_REORDER = 1003"
definition CALL_FAIL_CDMA_SO_REJECT :: RIL_LastCallFailCause where "CALL_FAIL_CDMA_SO_REJECT = 1004"
definition CALL_FAIL_CDMA_RETRY_ORDER :: RIL_LastCallFailCause where "CALL_FAIL_CDMA_RETRY_ORDER = 1005"
definition CALL_FAIL_CDMA_ACCESS_FAILURE :: RIL_LastCallFailCause where "CALL_FAIL_CDMA_ACCESS_FAILURE = 1006"
definition CALL_FAIL_CDMA_PREEMPTED :: RIL_LastCallFailCause where "CALL_FAIL_CDMA_PREEMPTED = 1007"
definition CALL_FAIL_CDMA_NOT_EMERGENCY :: RIL_LastCallFailCause where "CALL_FAIL_CDMA_NOT_EMERGENCY = 1008"
definition CALL_FAIL_CDMA_ACCESS_BLOCKED :: RIL_LastCallFailCause where "CALL_FAIL_CDMA_ACCESS_BLOCKED = 1009"
definition CALL_FAIL_OEM_CAUSE_1 :: RIL_LastCallFailCause where "CALL_FAIL_OEM_CAUSE_1 = 61441"
definition CALL_FAIL_OEM_CAUSE_2 :: RIL_LastCallFailCause where "CALL_FAIL_OEM_CAUSE_2 = 61442"
definition CALL_FAIL_OEM_CAUSE_3 :: RIL_LastCallFailCause where "CALL_FAIL_OEM_CAUSE_3 = 61443"
definition CALL_FAIL_OEM_CAUSE_4 :: RIL_LastCallFailCause where "CALL_FAIL_OEM_CAUSE_4 = 61444"
definition CALL_FAIL_OEM_CAUSE_5 :: RIL_LastCallFailCause where "CALL_FAIL_OEM_CAUSE_5 = 61445"
definition CALL_FAIL_OEM_CAUSE_6 :: RIL_LastCallFailCause where "CALL_FAIL_OEM_CAUSE_6 = 61446"
definition CALL_FAIL_OEM_CAUSE_7 :: RIL_LastCallFailCause where "CALL_FAIL_OEM_CAUSE_7 = 61447"
definition CALL_FAIL_OEM_CAUSE_8 :: RIL_LastCallFailCause where "CALL_FAIL_OEM_CAUSE_8 = 61448"
definition CALL_FAIL_OEM_CAUSE_9 :: RIL_LastCallFailCause where "CALL_FAIL_OEM_CAUSE_9 = 61449"
definition CALL_FAIL_OEM_CAUSE_10 :: RIL_LastCallFailCause where "CALL_FAIL_OEM_CAUSE_10 = 61450"
definition CALL_FAIL_OEM_CAUSE_11 :: RIL_LastCallFailCause where "CALL_FAIL_OEM_CAUSE_11 = 61451"
definition CALL_FAIL_OEM_CAUSE_12 :: RIL_LastCallFailCause where "CALL_FAIL_OEM_CAUSE_12 = 61452"
definition CALL_FAIL_OEM_CAUSE_13 :: RIL_LastCallFailCause where "CALL_FAIL_OEM_CAUSE_13 = 61453"
definition CALL_FAIL_OEM_CAUSE_14 :: RIL_LastCallFailCause where "CALL_FAIL_OEM_CAUSE_14 = 61454"
definition CALL_FAIL_OEM_CAUSE_15 :: RIL_LastCallFailCause where "CALL_FAIL_OEM_CAUSE_15 = 61455"
definition CALL_FAIL_ERROR_UNSPECIFIED :: RIL_LastCallFailCause where "CALL_FAIL_ERROR_UNSPECIFIED = 65535"

definition RIL_LastCallFailCause_values :: "RIL_LastCallFailCause list" where
  "RIL_LastCallFailCause_values = [
     CALL_FAIL_UNOBTAINABLE_NUMBER, CALL_FAIL_NO_ROUTE_TO_DESTINATION
     , CALL_FAIL_CHANNEL_UNACCEPTABLE, CALL_FAIL_OPERATOR_DETERMINED_BARRING, CALL_FAIL_NORMAL
     , CALL_FAIL_BUSY, CALL_FAIL_NO_USER_RESPONDING, CALL_FAIL_NO_ANSWER_FROM_USER
     , CALL_FAIL_CALL_REJECTED, CALL_FAIL_NUMBER_CHANGED, CALL_FAIL_PREEMPTION
     , CALL_FAIL_DESTINATION_OUT_OF_ORDER, CALL_FAIL_INVALID_NUMBER_FORMAT
     , CALL_FAIL_FACILITY_REJECTED, CALL_FAIL_RESP_TO_STATUS_ENQUIRY, CALL_FAIL_NORMAL_UNSPECIFIED
     , CALL_FAIL_CONGESTION, CALL_FAIL_NETWORK_OUT_OF_ORDER, CALL_FAIL_TEMPORARY_FAILURE
     , CALL_FAIL_SWITCHING_EQUIPMENT_CONGESTION, CALL_FAIL_ACCESS_INFORMATION_DISCARDED
     , CALL_FAIL_REQUESTED_CIRCUIT_OR_CHANNEL_NOT_AVAILABLE
     , CALL_FAIL_RESOURCES_UNAVAILABLE_OR_UNSPECIFIED, CALL_FAIL_QOS_UNAVAILABLE
     , CALL_FAIL_REQUESTED_FACILITY_NOT_SUBSCRIBED, CALL_FAIL_INCOMING_CALLS_BARRED_WITHIN_CUG
     , CALL_FAIL_BEARER_CAPABILITY_NOT_AUTHORIZED, CALL_FAIL_BEARER_CAPABILITY_UNAVAILABLE
     , CALL_FAIL_SERVICE_OPTION_NOT_AVAILABLE, CALL_FAIL_BEARER_SERVICE_NOT_IMPLEMENTED
     , CALL_FAIL_ACM_LIMIT_EXCEEDED, CALL_FAIL_REQUESTED_FACILITY_NOT_IMPLEMENTED
     , CALL_FAIL_ONLY_DIGITAL_INFORMATION_BEARER_AVAILABLE
     , CALL_FAIL_SERVICE_OR_OPTION_NOT_IMPLEMENTED, CALL_FAIL_INVALID_TRANSACTION_IDENTIFIER
     , CALL_FAIL_USER_NOT_MEMBER_OF_CUG, CALL_FAIL_INCOMPATIBLE_DESTINATION
     , CALL_FAIL_INVALID_TRANSIT_NW_SELECTION, CALL_FAIL_SEMANTICALLY_INCORRECT_MESSAGE
     , CALL_FAIL_INVALID_MANDATORY_INFORMATION, CALL_FAIL_MESSAGE_TYPE_NON_IMPLEMENTED
     , CALL_FAIL_MESSAGE_TYPE_NOT_COMPATIBLE_WITH_PROTOCOL_STATE
     , CALL_FAIL_INFORMATION_ELEMENT_NON_EXISTENT, CALL_FAIL_CONDITIONAL_IE_ERROR
     , CALL_FAIL_MESSAGE_NOT_COMPATIBLE_WITH_PROTOCOL_STATE, CALL_FAIL_RECOVERY_ON_TIMER_EXPIRED
     , CALL_FAIL_PROTOCOL_ERROR_UNSPECIFIED, CALL_FAIL_INTERWORKING_UNSPECIFIED
     , CALL_FAIL_CALL_BARRED, CALL_FAIL_FDN_BLOCKED, CALL_FAIL_IMSI_UNKNOWN_IN_VLR
     , CALL_FAIL_IMEI_NOT_ACCEPTED, CALL_FAIL_DIAL_MODIFIED_TO_USSD, CALL_FAIL_DIAL_MODIFIED_TO_SS
     , CALL_FAIL_DIAL_MODIFIED_TO_DIAL, CALL_FAIL_RADIO_OFF, CALL_FAIL_OUT_OF_SERVICE
     , CALL_FAIL_NO_VALID_SIM, CALL_FAIL_RADIO_INTERNAL_ERROR, CALL_FAIL_NETWORK_RESP_TIMEOUT
     , CALL_FAIL_NETWORK_REJECT, CALL_FAIL_RADIO_ACCESS_FAILURE, CALL_FAIL_RADIO_LINK_FAILURE
     , CALL_FAIL_RADIO_LINK_LOST, CALL_FAIL_RADIO_UPLINK_FAILURE, CALL_FAIL_RADIO_SETUP_FAILURE
     , CALL_FAIL_RADIO_RELEASE_NORMAL, CALL_FAIL_RADIO_RELEASE_ABNORMAL
     , CALL_FAIL_ACCESS_CLASS_BLOCKED, CALL_FAIL_NETWORK_DETACH
     , CALL_FAIL_CDMA_LOCKED_UNTIL_POWER_CYCLE, CALL_FAIL_CDMA_DROP, CALL_FAIL_CDMA_INTERCEPT
     , CALL_FAIL_CDMA_REORDER, CALL_FAIL_CDMA_SO_REJECT, CALL_FAIL_CDMA_RETRY_ORDER
     , CALL_FAIL_CDMA_ACCESS_FAILURE, CALL_FAIL_CDMA_PREEMPTED, CALL_FAIL_CDMA_NOT_EMERGENCY
     , CALL_FAIL_CDMA_ACCESS_BLOCKED, CALL_FAIL_OEM_CAUSE_1, CALL_FAIL_OEM_CAUSE_2
     , CALL_FAIL_OEM_CAUSE_3, CALL_FAIL_OEM_CAUSE_4, CALL_FAIL_OEM_CAUSE_5, CALL_FAIL_OEM_CAUSE_6
     , CALL_FAIL_OEM_CAUSE_7, CALL_FAIL_OEM_CAUSE_8, CALL_FAIL_OEM_CAUSE_9, CALL_FAIL_OEM_CAUSE_10
     , CALL_FAIL_OEM_CAUSE_11, CALL_FAIL_OEM_CAUSE_12, CALL_FAIL_OEM_CAUSE_13
     , CALL_FAIL_OEM_CAUSE_14, CALL_FAIL_OEM_CAUSE_15, CALL_FAIL_ERROR_UNSPECIFIED]"

lemmas RIL_LastCallFailCause_defs =
  CALL_FAIL_UNOBTAINABLE_NUMBER_def CALL_FAIL_NO_ROUTE_TO_DESTINATION_def
  CALL_FAIL_CHANNEL_UNACCEPTABLE_def CALL_FAIL_OPERATOR_DETERMINED_BARRING_def CALL_FAIL_NORMAL_def
  CALL_FAIL_BUSY_def CALL_FAIL_NO_USER_RESPONDING_def CALL_FAIL_NO_ANSWER_FROM_USER_def
  CALL_FAIL_CALL_REJECTED_def CALL_FAIL_NUMBER_CHANGED_def CALL_FAIL_PREEMPTION_def
  CALL_FAIL_DESTINATION_OUT_OF_ORDER_def CALL_FAIL_INVALID_NUMBER_FORMAT_def
  CALL_FAIL_FACILITY_REJECTED_def CALL_FAIL_RESP_TO_STATUS_ENQUIRY_def
  CALL_FAIL_NORMAL_UNSPECIFIED_def CALL_FAIL_CONGESTION_def CALL_FAIL_NETWORK_OUT_OF_ORDER_def
  CALL_FAIL_TEMPORARY_FAILURE_def CALL_FAIL_SWITCHING_EQUIPMENT_CONGESTION_def
  CALL_FAIL_ACCESS_INFORMATION_DISCARDED_def
  CALL_FAIL_REQUESTED_CIRCUIT_OR_CHANNEL_NOT_AVAILABLE_def
  CALL_FAIL_RESOURCES_UNAVAILABLE_OR_UNSPECIFIED_def CALL_FAIL_QOS_UNAVAILABLE_def
  CALL_FAIL_REQUESTED_FACILITY_NOT_SUBSCRIBED_def CALL_FAIL_INCOMING_CALLS_BARRED_WITHIN_CUG_def
  CALL_FAIL_BEARER_CAPABILITY_NOT_AUTHORIZED_def CALL_FAIL_BEARER_CAPABILITY_UNAVAILABLE_def
  CALL_FAIL_SERVICE_OPTION_NOT_AVAILABLE_def CALL_FAIL_BEARER_SERVICE_NOT_IMPLEMENTED_def
  CALL_FAIL_ACM_LIMIT_EXCEEDED_def CALL_FAIL_REQUESTED_FACILITY_NOT_IMPLEMENTED_def
  CALL_FAIL_ONLY_DIGITAL_INFORMATION_BEARER_AVAILABLE_def
  CALL_FAIL_SERVICE_OR_OPTION_NOT_IMPLEMENTED_def CALL_FAIL_INVALID_TRANSACTION_IDENTIFIER_def
  CALL_FAIL_USER_NOT_MEMBER_OF_CUG_def CALL_FAIL_INCOMPATIBLE_DESTINATION_def
  CALL_FAIL_INVALID_TRANSIT_NW_SELECTION_def CALL_FAIL_SEMANTICALLY_INCORRECT_MESSAGE_def
  CALL_FAIL_INVALID_MANDATORY_INFORMATION_def CALL_FAIL_MESSAGE_TYPE_NON_IMPLEMENTED_def
  CALL_FAIL_MESSAGE_TYPE_NOT_COMPATIBLE_WITH_PROTOCOL_STATE_def
  CALL_FAIL_INFORMATION_ELEMENT_NON_EXISTENT_def CALL_FAIL_CONDITIONAL_IE_ERROR_def
  CALL_FAIL_MESSAGE_NOT_COMPATIBLE_WITH_PROTOCOL_STATE_def CALL_FAIL_RECOVERY_ON_TIMER_EXPIRED_def
  CALL_FAIL_PROTOCOL_ERROR_UNSPECIFIED_def CALL_FAIL_INTERWORKING_UNSPECIFIED_def
  CALL_FAIL_CALL_BARRED_def CALL_FAIL_FDN_BLOCKED_def CALL_FAIL_IMSI_UNKNOWN_IN_VLR_def
  CALL_FAIL_IMEI_NOT_ACCEPTED_def CALL_FAIL_DIAL_MODIFIED_TO_USSD_def
  CALL_FAIL_DIAL_MODIFIED_TO_SS_def CALL_FAIL_DIAL_MODIFIED_TO_DIAL_def CALL_FAIL_RADIO_OFF_def
  CALL_FAIL_OUT_OF_SERVICE_def CALL_FAIL_NO_VALID_SIM_def CALL_FAIL_RADIO_INTERNAL_ERROR_def
  CALL_FAIL_NETWORK_RESP_TIMEOUT_def CALL_FAIL_NETWORK_REJECT_def CALL_FAIL_RADIO_ACCESS_FAILURE_def
  CALL_FAIL_RADIO_LINK_FAILURE_def CALL_FAIL_RADIO_LINK_LOST_def CALL_FAIL_RADIO_UPLINK_FAILURE_def
  CALL_FAIL_RADIO_SETUP_FAILURE_def CALL_FAIL_RADIO_RELEASE_NORMAL_def
  CALL_FAIL_RADIO_RELEASE_ABNORMAL_def CALL_FAIL_ACCESS_CLASS_BLOCKED_def
  CALL_FAIL_NETWORK_DETACH_def CALL_FAIL_CDMA_LOCKED_UNTIL_POWER_CYCLE_def CALL_FAIL_CDMA_DROP_def
  CALL_FAIL_CDMA_INTERCEPT_def CALL_FAIL_CDMA_REORDER_def CALL_FAIL_CDMA_SO_REJECT_def
  CALL_FAIL_CDMA_RETRY_ORDER_def CALL_FAIL_CDMA_ACCESS_FAILURE_def CALL_FAIL_CDMA_PREEMPTED_def
  CALL_FAIL_CDMA_NOT_EMERGENCY_def CALL_FAIL_CDMA_ACCESS_BLOCKED_def CALL_FAIL_OEM_CAUSE_1_def
  CALL_FAIL_OEM_CAUSE_2_def CALL_FAIL_OEM_CAUSE_3_def CALL_FAIL_OEM_CAUSE_4_def
  CALL_FAIL_OEM_CAUSE_5_def CALL_FAIL_OEM_CAUSE_6_def CALL_FAIL_OEM_CAUSE_7_def
  CALL_FAIL_OEM_CAUSE_8_def CALL_FAIL_OEM_CAUSE_9_def CALL_FAIL_OEM_CAUSE_10_def
  CALL_FAIL_OEM_CAUSE_11_def CALL_FAIL_OEM_CAUSE_12_def CALL_FAIL_OEM_CAUSE_13_def
  CALL_FAIL_OEM_CAUSE_14_def CALL_FAIL_OEM_CAUSE_15_def CALL_FAIL_ERROR_UNSPECIFIED_def

interpretation RIL_LastCallFailCause: enum_constants RIL_LastCallFailCause_values
  by unfold_locales (simp add: RIL_LastCallFailCause_values_def RIL_LastCallFailCause_defs)

type_synonym RIL_DataCallFailCause = int

definition PDP_FAIL_NONE :: RIL_DataCallFailCause where "PDP_FAIL_NONE = 0"
definition PDP_FAIL_OPERATOR_BARRED :: RIL_DataCallFailCause where "PDP_FAIL_OPERATOR_BARRED = 8"
definition PDP_FAIL_NAS_SIGNALLING :: RIL_DataCallFailCause where "PDP_FAIL_NAS_SIGNALLING = 14"
definition PDP_FAIL_LLC_SNDCP :: RIL_DataCallFailCause where "PDP_FAIL_LLC_SNDCP = 25"
definition PDP_FAIL_INSUFFICIENT_RESOURCES :: RIL_DataCallFailCause where "PDP_FAIL_INSUFFICIENT_RESOURCES = 26"
definition PDP_FAIL_MISSING_UKNOWN_APN :: RIL_DataCallFailCause where "PDP_FAIL_MISSING_UKNOWN_APN = 27"
definition PDP_FAIL_UNKNOWN_PDP_ADDRESS_TYPE :: RIL_DataCallFailCause where "PDP_FAIL_UNKNOWN_PDP_ADDRESS_TYPE = 28"
definition PDP_FAIL_USER_AUTHENTICATION :: RIL_DataCallFailCause where "PDP_FAIL_USER_AUTHENTICATION = 29"
definition PDP_FAIL_ACTIVATION_REJECT_GGSN :: RIL_DataCallFailCause where "PDP_FAIL_ACTIVATION_REJECT_GGSN = 30"
definition PDP_FAIL_ACTIVATION_REJECT_UNSPECIFIED :: RIL_DataCallFailCause where "PDP_FAIL_ACTIVATION_REJECT_UNSPECIFIED = 31"
definition PDP_FAIL_SERVICE_OPTION_NOT_SUPPORTED :: RIL_DataCallFailCause where "PDP_FAIL_SERVICE_OPTION_NOT_SUPPORTED = 32"
definition PDP_FAIL_SERVICE_OPTION_NOT_SUBSCRIBED :: RIL_DataCallFailCause where "PDP_FAIL_SERVICE_OPTION_NOT_SUBSCRIBED = 33"
definition PDP_FAIL_SERVICE_OPTION_OUT_OF_ORDER :: RIL_DataCallFailCause where "PDP_FAIL_SERVICE_OPTION_OUT_OF_ORDER = 34"
definition PDP_FAIL_NSAPI_IN_USE :: RIL_DataCallFailCause where "PDP_FAIL_NSAPI_IN_USE = 35"
definition PDP_FAIL_REGULAR_DEACTIVATION :: RIL_DataCallFailCause where "PDP_FAIL_REGULAR_DEACTIVATION = 36"
definition PDP_FAIL_QOS_NOT_ACCEPTED :: RIL_DataCallFailCause where "PDP_FAIL_QOS_NOT_ACCEPTED = 37"
definition PDP_FAIL_NETWORK_FAILURE :: RIL_DataCallFailCause where "PDP_FAIL_NETWORK_FAILURE = 38"
definition PDP_FAIL_UMTS_REACTIVATION_REQ :: RIL_DataCallFailCause where "PDP_FAIL_UMTS_REACTIVATION_REQ = 39"
definition PDP_FAIL_FEATURE_NOT_SUPP :: RIL_DataCallFailCause where "PDP_FAIL_FEATURE_NOT_SUPP = 40"
definition PDP_FAIL_TFT_SEMANTIC_ERROR :: RIL_DataCallFailCause where "PDP_FAIL_TFT_SEMANTIC_ERROR = 41"
definition PDP_FAIL_TFT_SYTAX_ERROR :: RIL_DataCallFailCause where "PDP_FAIL_TFT_SYTAX_ERROR = 42"
definition PDP_FAIL_UNKNOWN_PDP_CONTEXT :: RIL_DataCallFailCause where "PDP_FAIL_UNKNOWN_PDP_CONTEXT = 43"
definition PDP_FAIL_FILTER_SEMANTIC_ERROR :: RIL_DataCallFailCause where "PDP_FAIL_FILTER_SEMANTIC_ERROR = 44"
definition PDP_FAIL_FILTER_SYTAX_ERROR :: RIL_DataCallFailCause where "PDP_FAIL_FILTER_SYTAX_ERROR = 45"
definition PDP_FAIL_PDP_WITHOUT_ACTIVE_TFT :: RIL_DataCallFailCause where "PDP_FAIL_PDP_WITHOUT_ACTIVE_TFT = 46"
definition PDP_FAIL_ONLY_IPV4_ALLOWED :: RIL_DataCallFailCause where "PDP_FAIL_ONLY_IPV4_ALLOWED = 50"
definition PDP_FAIL_ONLY_IPV6_ALLOWED :: RIL_DataCallFailCause where "PDP_FAIL_ONLY_IPV6_ALLOWED = 51"
definition PDP_FAIL_ONLY_SINGLE_BEARER_ALLOWED :: RIL_DataCallFailCause where "PDP_FAIL_ONLY_SINGLE_BEARER_ALLOWED = 52"
definition PDP_FAIL_ESM_INFO_NOT_RECEIVED :: RIL_DataCallFailCause where "PDP_FAIL_ESM_INFO_NOT_RECEIVED = 53"
definition PDP_FAIL_PDN_CONN_DOES_NOT_EXIST :: RIL_DataCallFailCause where "PDP_FAIL_PDN_CONN_DOES_NOT_EXIST = 54"
definition PDP_FAIL_MULTI_CONN_TO_SAME_PDN_NOT_ALLOWED :: RIL_DataCallFailCause where "PDP_FAIL_MULTI_CONN_TO_SAME_PDN_NOT_ALLOWED = 55"
definition PDP_FAIL_MAX_ACTIVE_PDP_CONTEXT_REACHED :: RIL_DataCallFailCause where "PDP_FAIL_MAX_ACTIVE_PDP_CONTEXT_REACHED = 65"
definition PDP_FAIL_UNSUPPORTED_APN_IN_CURRENT_PLMN :: RIL_DataCallFailCause where "PDP_FAIL_UNSUPPORTED_APN_IN_CURRENT_PLMN = 66"
definition PDP_FAIL_INVALID_TRANSACTION_ID :: RIL_DataCallFailCause where "PDP_FAIL_INVALID_TRANSACTION_ID = 81"
definition PDP_FAIL_MESSAGE_INCORRECT_SEMANTIC :: RIL_DataCallFailCause where "PDP_FAIL_MESSAGE_INCORRECT_SEMANTIC = 95"
definition PDP_FAIL_INVALID_MANDATORY_INFO :: RIL_DataCallFailCause where "PDP_FAIL_INVALID_MANDATORY_INFO = 96"
definition PDP_FAIL_MESSAGE_TYPE_UNSUPPORTED :: RIL_DataCallFailCause where "PDP_FAIL_MESSAGE_TYPE_UNSUPPORTED = 97"
definition PDP_FAIL_MSG_TYPE_NONCOMPATIBLE_STATE :: RIL_DataCallFailCause where "PDP_FAIL_MSG_TYPE_NONCOMPATIBLE_STATE = 98"
definition PDP_FAIL_UNKNOWN_INFO_ELEMENT :: RIL_DataCallFailCause where "PDP_FAIL_UNKNOWN_INFO_ELEMENT = 99"
definition PDP_FAIL_CONDITIONAL_IE_ERROR :: RIL_DataCallFailCause where "PDP_FAIL_CONDITIONAL_IE_ERROR = 100"
definition PDP_FAIL_MSG_AND_PROTOCOL_STATE_UNCOMPATIBLE :: RIL_DataCallFailCause where "PDP_FAIL_MSG_AND_PROTOCOL_STATE_UNCOMPATIBLE = 101"
definition PDP_FAIL_PROTOCOL_ERRORS :: RIL_DataCallFailCause where "PDP_FAIL_PROTOCOL_ERRORS = 111"
definition PDP_FAIL_APN_TYPE_CONFLICT :: RIL_DataCallFailCause where "PDP_FAIL_APN_TYPE_CONFLICT = 112"
definition PDP_FAIL_INVALID_PCSCF_ADDR :: RIL_DataCallFailCause where "PDP_FAIL_INVALID_PCSCF_ADDR = 113"
definition PDP_FAIL_INTERNAL_CALL_PREEMPT_BY_HIGH_PRIO_APN :: RIL_DataCallFailCause where "PDP_FAIL_INTERNAL_CALL_PREEMPT_BY_HIGH_PRIO_APN = 114"
definition PDP_FAIL_EMM_ACCESS_BARRED :: RIL_DataCallFailCause where "PDP_FAIL_EMM_ACCESS_BARRED = 115"
definition PDP_FAIL_EMERGENCY_IFACE_ONLY :: RIL_DataCallFailCause where "PDP_FAIL_EMERGENCY_IFACE_ONLY = 116"
definition PDP_FAIL_IFACE_MISMATCH :: RIL_DataCallFailCause where "PDP_FAIL_IFACE_MISMATCH = 117"
definition PDP_FAIL_COMPANION_IFACE_IN_USE :: RIL_DataCallFailCause where "PDP_FAIL_COMPANION_IFACE_IN_USE = 118"
definition PDP_FAIL_IP_ADDRESS_MISMATCH :: RIL_DataCallFailCause where "PDP_FAIL_IP_ADDRESS_MISMATCH = 119"
definition PDP_FAIL_IFACE_AND_POL_FAMILY_MISMATCH :: RIL_DataCallFailCause where "PDP_FAIL_IFACE_AND_POL_FAMILY_MISMATCH = 120"
definition PDP_FAIL_EMM_ACCESS_BARRED_INFINITE_RETRY :: RIL_DataCallFailCause where "PDP_FAIL_EMM_ACCESS_BARRED_INFINITE_RETRY = 121"
definition PDP_FAIL_AUTH_FAILURE_ON_EMERGENCY_CALL :: RIL_DataCallFailCause where "PDP_FAIL_AUTH_FAILURE_ON_EMERGENCY_CALL = 122"
definition PDP_FAIL_OEM_DCFAILCAUSE_1 :: RIL_DataCallFailCause where "PDP_FAIL_OEM_DCFAILCAUSE_1 = 4097"
definition PDP_FAIL_OEM_DCFAILCAUSE_2 :: RIL_DataCallFailCause where "PDP_FAIL_OEM_DCFAILCAUSE_2 = 4098"
definition PDP_FAIL_OEM_DCFAILCAUSE_3 :: RIL_DataCallFailCause where "PDP_FAIL_OEM_DCFAILCAUSE_3 = 4099"
definition PDP_FAIL_OEM_DCFAILCAUSE_4 :: RIL_DataCallFailCause where "PDP_FAIL_OEM_DCFAILCAUSE_4 = 4100"
definition PDP_FAIL_OEM_DCFAILCAUSE_5 :: RIL_DataCallFailCause where "PDP_FAIL_OEM_DCFAILCAUSE_5 = 4101"
definition PDP_FAIL_OEM_DCFAILCAUSE_6 :: RIL_DataCallFailCause where "PDP_FAIL_OEM_DCFAILCAUSE_6 = 4102"
definition PDP_FAIL_OEM_DCFAILCAUSE_7 :: RIL_DataCallFailCause where "PDP_FAIL_OEM_DCFAILCAUSE_7 = 4103"
definition PDP_FAIL_OEM_DCFAILCAUSE_8 :: RIL_DataCallFailCause where "PDP_FAIL_OEM_DCFAILCAUSE_8 = 4104"
definition PDP_FAIL_OEM_DCFAILCAUSE_9 :: RIL_DataCallFailCause where "PDP_FAIL_OEM_DCFAILCAUSE_9 = 4105"
definition PDP_FAIL_OEM_DCFAILCAUSE_10 :: RIL_DataCallFailCause where "PDP_FAIL_OEM_DCFAILCAUSE_10 = 4106"
definition PDP_FAIL_OEM_DCFAILCAUSE_11 :: RIL_DataCallFailCause where "PDP_FAIL_OEM_DCFAILCAUSE_11 = 4107"
definition PDP_FAIL_OEM_DCFAILCAUSE_12 :: RIL_DataCallFailCause where "PDP_FAIL_OEM_DCFAILCAUSE_12 = 4108"
definition PDP_FAIL_OEM_DCFAILCAUSE_13 :: RIL_DataCallFailCause where "PDP_FAIL_OEM_DCFAILCAUSE_13 = 4109"
definition PDP_FAIL_OEM_DCFAILCAUSE_14 :: RIL_DataCallFailCause where "PDP_FAIL_OEM_DCFAILCAUSE_14 = 4110"
definition PDP_FAIL_OEM_DCFAILCAUSE_15 :: RIL_DataCallFailCause where "PDP_FAIL_OEM_DCFAILCAUSE_15 = 4111"
definition PDP_FAIL_VOICE_REGISTRATION_FAIL :: RIL_DataCallFailCause where "PDP_FAIL_VOICE_REGISTRATION_FAIL = - 1"
definition PDP_FAIL_DATA_REGISTRATION_FAIL :: RIL_DataCallFailCause where "PDP_FAIL_DATA_REGISTRATION_FAIL = - 2"
definition PDP_FAIL_SIGNAL_LOST :: RIL_DataCallFailCause where "PDP_FAIL_SIGNAL_LOST = - 3"
definition PDP_FAIL_PREF_RADIO_TECH_CHANGED :: RIL_DataCallFailCause where "PDP_FAIL_PREF_RADIO_TECH_CHANGED = - 4"
definition PDP_FAIL_RADIO_POWER_OFF :: RIL_DataCallFailCause where "PDP_FAIL_RADIO_POWER_OFF = - 5"
definition PDP_FAIL_TETHERED_CALL_ACTIVE :: RIL_DataCallFailCause where "PDP_FAIL_TETHERED_CALL_ACTIVE = - 6"
definition PDP_FAIL_ERROR_UNSPECIFIED :: RIL_DataCallFailCause where "PDP_FAIL_ERROR_UNSPECIFIED = 65535"

definition RIL_DataCallFailCause_values :: "RIL_DataCallFailCause list" where
  "RIL_DataCallFailCause_values = [
     PDP_FAIL_NONE, PDP_FAIL_OPERATOR_BARRED, PDP_FAIL_NAS_SIGNALLING, PDP_FAIL_LLC_SNDCP
     , PDP_FAIL_INSUFFICIENT_RESOURCES, PDP_FAIL_MISSING_UKNOWN_APN
     , PDP_FAIL_UNKNOWN_PDP_ADDRESS_TYPE, PDP_FAIL_USER_AUTHENTICATION
     , PDP_FAIL_ACTIVATION_REJECT_GGSN, PDP_FAIL_ACTIVATION_REJECT_UNSPECIFIED
     , PDP_FAIL_SERVICE_OPTION_NOT_SUPPORTED, PDP_FAIL_SERVICE_OPTION_NOT_SUBSCRIBED
     , PDP_FAIL_SERVICE_OPTION_OUT_OF_ORDER, PDP_FAIL_NSAPI_IN_USE, PDP_FAIL_REGULAR_DEACTIVATION
     , PDP_FAIL_QOS_NOT_ACCEPTED, PDP_FAIL_NETWORK_FAILURE, PDP_FAIL_UMTS_REACTIVATION_REQ
     , PDP_FAIL_FEATURE_NOT_SUPP, PDP_FAIL_TFT_SEMANTIC_ERROR, PDP_FAIL_TFT_SYTAX_ERROR
     , PDP_FAIL_UNKNOWN_PDP_CONTEXT, PDP_FAIL_FILTER_SEMANTIC_ERROR, PDP_FAIL_FILTER_SYTAX_ERROR
     , PDP_FAIL_PDP_WITHOUT_ACTIVE_TFT, PDP_FAIL_ONLY_IPV4_ALLOWED, PDP_FAIL_ONLY_IPV6_ALLOWED
     , PDP_FAIL_ONLY_SINGLE_BEARER_ALLOWED, PDP_FAIL_ESM_INFO_NOT_RECEIVED
     , PDP_FAIL_PDN_CONN_DOES_NOT_EXIST, PDP_FAIL_MULTI_CONN_TO_SAME_PDN_NOT_ALLOWED
     , PDP_FAIL_MAX_ACTIVE_PDP_CONTEXT_REACHED, PDP_FAIL_UNSUPPORTED_APN_IN_CURRENT_PLMN
     , PDP_FAIL_INVALID_TRANSACTION_ID, PDP_FAIL_MESSAGE_INCORRECT_SEMANTIC
     , PDP_FAIL_INVALID_MANDATORY_INFO, PDP_FAIL_MESSAGE_TYPE_UNSUPPORTED
     , PDP_FAIL_MSG_TYPE_NONCOMPATIBLE_STATE, PDP_FAIL_UNKNOWN_INFO_ELEMENT
     , PDP_FAIL_CONDITIONAL_IE_ERROR, PDP_FAIL_MSG_AND_PROTOCOL_STATE_UNCOMPATIBLE
     , PDP_FAIL_PROTOCOL_ERRORS, PDP_FAIL_APN_TYPE_CONFLICT, PDP_FAIL_INVALID_PCSCF_ADDR
     , PDP_FAIL_INTERNAL_CALL_PREEMPT_BY_HIGH_PRIO_APN, PDP_FAIL_EMM_ACCESS_BARRED
     , PDP_FAIL_EMERGENCY_IFACE_ONLY, PDP_FAIL_IFACE_MISMATCH, PDP_FAIL_COMPANION_IFACE_IN_USE
     , PDP_FAIL_IP_ADDRESS_MISMATCH, PDP_FAIL_IFACE_AND_POL_FAMILY_MISMATCH
     , PDP_FAIL_EMM_ACCESS_BARRED_INFINITE_RETRY, PDP_FAIL_AUTH_FAILURE_ON_EMERGENCY_CALL
     , PDP_FAIL_OEM_DCFAILCAUSE_1, PDP_FAIL_OEM_DCFAILCAUSE_2, PDP_FAIL_OEM_DCFAILCAUSE_3
     , PDP_FAIL_OEM_DCFAILCAUSE_4, PDP_FAIL_OEM_DCFAILCAUSE_5, PDP_FAIL_OEM_DCFAILCAUSE_6
     , PDP_FAIL_OEM_DCFAILCAUSE_7, PDP_FAIL_OEM_DCFAILCAUSE_8, PDP_FAIL_OEM_DCFAILCAUSE_9
     , PDP_FAIL_OEM_DCFAILCAUSE_10, PDP_FAIL_OEM_DCFAILCAUSE_11, PDP_FAIL_OEM_DCFAILCAUSE_12
     , PDP_FAIL_OEM_DCFAILCAUSE_13, PDP_FAIL_OEM_DCFAILCAUSE_14, PDP_FAIL_OEM_DCFAILCAUSE_15
     , PDP_FAIL_VOICE_REGISTRATION_FAIL, PDP_FAIL_DATA_REGISTRATION_FAIL, PDP_FAIL_SIGNAL_LOST
     , PDP_FAIL_PREF_RADIO_TECH_CHANGED, PDP_FAIL_RADIO_POWER_OFF, PDP_FAIL_TETHERED_CALL_ACTIVE
     , PDP_FAIL_ERROR_UNSPECIFIED]"

lemmas RIL_DataCallFailCause_defs =
  PDP_FAIL_NONE_def PDP_FAIL_OPERATOR_BARRED_def PDP_FAIL_NAS_SIGNALLING_def PDP_FAIL_LLC_SNDCP_def
  PDP_FAIL_INSUFFICIENT_RESOURCES_def PDP_FAIL_MISSING_UKNOWN_APN_def
  PDP_FAIL_UNKNOWN_PDP_ADDRESS_TYPE_def PDP_FAIL_USER_AUTHENTICATION_def
  PDP_FAIL_ACTIVATION_REJECT_GGSN_def PDP_FAIL_ACTIVATION_REJECT_UNSPECIFIED_def
  PDP_FAIL_SERVICE_OPTION_NOT_SUPPORTED_def PDP_FAIL_SERVICE_OPTION_NOT_SUBSCRIBED_def
  PDP_FAIL_SERVICE_OPTION_OUT_OF_ORDER_def PDP_FAIL_NSAPI_IN_USE_def
  PDP_FAIL_REGULAR_DEACTIVATION_def PDP_FAIL_QOS_NOT_ACCEPTED_def PDP_FAIL_NETWORK_FAILURE_def
  PDP_FAIL_UMTS_REACTIVATION_REQ_def PDP_FAIL_FEATURE_NOT_SUPP_def PDP_FAIL_TFT_SEMANTIC_ERROR_def
  PDP_FAIL_TFT_SYTAX_ERROR_def PDP_FAIL_UNKNOWN_PDP_CONTEXT_def PDP_FAIL_FILTER_SEMANTIC_ERROR_def
  PDP_FAIL_FILTER_SYTAX_ERROR_def PDP_FAIL_PDP_WITHOUT_ACTIVE_TFT_def PDP_FAIL_ONLY_IPV4_ALLOWED_def
  PDP_FAIL_ONLY_IPV6_ALLOWED_def PDP_FAIL_ONLY_SINGLE_BEARER_ALLOWED_def
  PDP_FAIL_ESM_INFO_NOT_RECEIVED_def PDP_FAIL_PDN_CONN_DOES_NOT_EXIST_def
  PDP_FAIL_MULTI_CONN_TO_SAME_PDN_NOT_ALLOWED_def PDP_FAIL_MAX_ACTIVE_PDP_CONTEXT_REACHED_def
  PDP_FAIL_UNSUPPORTED_APN_IN_CURRENT_PLMN_def PDP_FAIL_INVALID_TRANSACTION_ID_def
  PDP_FAIL_MESSAGE_INCORRECT_SEMANTIC_def PDP_FAIL_INVALID_MANDATORY_INFO_def
  PDP_FAIL_MESSAGE_TYPE_UNSUPPORTED_def PDP_FAIL_MSG_TYPE_NONCOMPATIBLE_STATE_def
  PDP_FAIL_UNKNOWN_INFO_ELEMENT_def PDP_FAIL_CONDITIONAL_IE_ERROR_def
  PDP_FAIL_MSG_AND_PROTOCOL_STATE_UNCOMPATIBLE_def PDP_FAIL_PROTOCOL_ERRORS_def
  PDP_FAIL_APN_TYPE_CONFLICT_def PDP_FAIL_INVALID_PCSCF_ADDR_def
  PDP_FAIL_INTERNAL_CALL_PREEMPT_BY_HIGH_PRIO_APN_def PDP_FAIL_EMM_ACCESS_BARRED_def
  PDP_FAIL_EMERGENCY_IFACE_ONLY_def PDP_FAIL_IFACE_MISMATCH_def PDP_FAIL_COMPANION_IFACE_IN_USE_def
  PDP_FAIL_IP_ADDRESS_MISMATCH_def PDP_FAIL_IFACE_AND_POL_FAMILY_MISMATCH_def
  PDP_FAIL_EMM_ACCESS_BARRED_INFINITE_RETRY_def PDP_FAIL_AUTH_FAILURE_ON_EMERGENCY_CALL_def
  PDP_FAIL_OEM_DCFAILCAUSE_1_def PDP_FAIL_OEM_DCFAILCAUSE_2_def PDP_FAIL_OEM_DCFAILCAUSE_3_def
  PDP_FAIL_OEM_DCFAILCAUSE_4_def PDP_FAIL_OEM_DCFAILCAUSE_5_def PDP_FAIL_OEM_DCFAILCAUSE_6_def
  PDP_FAIL_OEM_DCFAILCAUSE_7_def PDP_FAIL_OEM_DCFAILCAUSE_8_def PDP_FAIL_OEM_DCFAILCAUSE_9_def
  PDP_FAIL_OEM_DCFAILCAUSE_10_def PDP_FAIL_OEM_DCFAILCAUSE_11_def PDP_FAIL_OEM_DCFAILCAUSE_12_def
  PDP_FAIL_OEM_DCFAILCAUSE_13_def PDP_FAIL_OEM_DCFAILCAUSE_14_def PDP_FAIL_OEM_DCFAILCAUSE_15_def
  PDP_FAIL_VOICE_REGISTRATION_FAIL_def PDP_FAIL_DATA_REGISTRATION_FAIL_def PDP_FAIL_SIGNAL_LOST_def
  PDP_FAIL_PREF_RADIO_TECH_CHANGED_def PDP_FAIL_RADIO_POWER_OFF_def
  PDP_FAIL_TETHERED_CALL_ACTIVE_def PDP_FAIL_ERROR_UNSPECIFIED_def

interpretation RIL_DataCallFailCause: enum_constants RIL_DataCallFailCause_values
  by unfold_locales (simp add: RIL_DataCallFailCause_values_def RIL_DataCallFailCause_defs)

datatype RIL_DataProfile =
    RIL_DATA_PROFILE_DEFAULT | RIL_DATA_PROFILE_TETHERED | RIL_DATA_PROFILE_IMS
     | RIL_DATA_PROFILE_FOTA | RIL_DATA_PROFILE_CBS | RIL_DATA_PROFILE_OEM_BASE
     | RIL_DATA_PROFILE_INVALID

definition RIL_DataProfile_values :: "RIL_DataProfile list" where
  "RIL_DataProfile_values = [
     RIL_DATA_PROFILE_DEFAULT, RIL_DATA_PROFILE_TETHERED, RIL_DATA_PROFILE_IMS
     , RIL_DATA_PROFILE_FOTA, RIL_DATA_PROFILE_CBS, RIL_DATA_PROFILE_OEM_BASE
     , RIL_DATA_PROFILE_INVALID]"

primrec RIL_DataProfile_code :: "RIL_DataProfile \<Rightarrow> int" where
  "RIL_DataProfile_code RIL_DATA_PROFILE_DEFAULT = 0"
| "RIL_DataProfile_code RIL_DATA_PROFILE_TETHERED = 1"
| "RIL_DataProfile_code RIL_DATA_PROFILE_IMS = 2"
| "RIL_DataProfile_code RIL_DATA_PROFILE_FOTA = 3"
| "RIL_DataProfile_code RIL_DATA_PROFILE_CBS = 4"
| "RIL_DataProfile_code RIL_DATA_PROFILE_OEM_BASE = 1000"
| "RIL_DataProfile_code RIL_DATA_PROFILE_INVALID = 4294967295"

interpretation RIL_DataProfile: enum_code RIL_DataProfile_values RIL_DataProfile_code
proof
  show "x \<in> set RIL_DataProfile_values" for x by (cases x) (simp_all add: RIL_DataProfile_values_def)
  show "distinct (map RIL_DataProfile_code RIL_DataProfile_values)" by (simp add: RIL_DataProfile_values_def)
qed

datatype RIL_CardState =
    RIL_CARDSTATE_ABSENT | RIL_CARDSTATE_PRESENT | RIL_CARDSTATE_ERROR | RIL_CARDSTATE_RESTRICTED

definition RIL_CardState_values :: "RIL_CardState list" where
  "RIL_CardState_values = [
     RIL_CARDSTATE_ABSENT, RIL_CARDSTATE_PRESENT, RIL_CARDSTATE_ERROR, RIL_CARDSTATE_RESTRICTED]"

primrec RIL_CardState_code :: "RIL_CardState \<Rightarrow> int" where
  "RIL_CardState_code RIL_CARDSTATE_ABSENT = 0"
| "RIL_CardState_code RIL_CARDSTATE_PRESENT = 1"
| "RIL_CardState_code RIL_CARDSTATE_ERROR = 2"
| "RIL_CardState_code RIL_CARDSTATE_RESTRICTED = 3"

interpretation RIL_CardState: enum_code RIL_CardState_values RIL_CardState_code
proof
  show "x \<in> set RIL_CardState_values" for x by (cases x) (simp_all add: RIL_CardState_values_def)
  show "distinct (map RIL_CardState_code RIL_CardState_values)" by (simp add: RIL_CardState_values_def)
qed

datatype RIL_PersoSubstate =
    RIL_PERSOSUBSTATE_UNKNOWN | RIL_PERSOSUBSTATE_IN_PROGRESS | RIL_PERSOSUBSTATE_READY
     | RIL_PERSOSUBSTATE_SIM_NETWORK | RIL_PERSOSUBSTATE_SIM_NETWORK_SUBSET
     | RIL_PERSOSUBSTATE_SIM_CORPORATE | RIL_PERSOSUBSTATE_SIM_SERVICE_PROVIDER
     | RIL_PERSOSUBSTATE_SIM_SIM | RIL_PERSOSUBSTATE_SIM_NETWORK_PUK
     | RIL_PERSOSUBSTATE_SIM_NETWORK_SUBSET_PUK | RIL_PERSOSUBSTATE_SIM_CORPORATE_PUK
     | RIL_PERSOSUBSTATE_SIM_SERVICE_PROVIDER_PUK | RIL_PERSOSUBSTATE_SIM_SIM_PUK
     | RIL_PERSOSUBSTATE_RUIM_NETWORK1 | RIL_PERSOSUBSTATE_RUIM_NETWORK2
     | RIL_PERSOSUBSTATE_RUIM_HRPD | RIL_PERSOSUBSTATE_RUIM_CORPORATE
     | RIL_PERSOSUBSTATE_RUIM_SERVICE_PROVIDER | RIL_PERSOSUBSTATE_RUIM_RUIM
     | RIL_PERSOSUBSTATE_RUIM_NETWORK1_PUK | RIL_PERSOSUBSTATE_RUIM_NETWORK2_PUK
     | RIL_PERSOSUBSTATE_RUIM_HRPD_PUK | RIL_PERSOSUBSTATE_RUIM_CORPORATE_PUK
     | RIL_PERSOSUBSTATE_RUIM_SERVICE_PROVIDER_PUK | RIL_PERSOSUBSTATE_RUIM_RUIM_PUK

definition RIL_PersoSubstate_values :: "RIL_PersoSubstate list" where
  "RIL_PersoSubstate_values = [
     RIL_PERSOSUBSTATE_UNKNOWN, RIL_PERSOSUBSTATE_IN_PROGRESS, RIL_PERSOSUBSTATE_READY
     , RIL_PERSOSUBSTATE_SIM_NETWORK, RIL_PERSOSUBSTATE_SIM_NETWORK_SUBSET
     , RIL_PERSOSUBSTATE_SIM_CORPORATE, RIL_PERSOSUBSTATE_SIM_SERVICE_PROVIDER
     , RIL_PERSOSUBSTATE_SIM_SIM, RIL_PERSOSUBSTATE_SIM_NETWORK_PUK
     , RIL_PERSOSUBSTATE_SIM_NETWORK_SUBSET_PUK, RIL_PERSOSUBSTATE_SIM_CORPORATE_PUK
     , RIL_PERSOSUBSTATE_SIM_SERVICE_PROVIDER_PUK, RIL_PERSOSUBSTATE_SIM_SIM_PUK
     , RIL_PERSOSUBSTATE_RUIM_NETWORK1, RIL_PERSOSUBSTATE_RUIM_NETWORK2, RIL_PERSOSUBSTATE_RUIM_HRPD
     , RIL_PERSOSUBSTATE_RUIM_CORPORATE, RIL_PERSOSUBSTATE_RUIM_SERVICE_PROVIDER
     , RIL_PERSOSUBSTATE_RUIM_RUIM, RIL_PERSOSUBSTATE_RUIM_NETWORK1_PUK
     , RIL_PERSOSUBSTATE_RUIM_NETWORK2_PUK, RIL_PERSOSUBSTATE_RUIM_HRPD_PUK
     , RIL_PERSOSUBSTATE_RUIM_CORPORATE_PUK, RIL_PERSOSUBSTATE_RUIM_SERVICE_PROVIDER_PUK
     , RIL_PERSOSUBSTATE_RUIM_RUIM_PUK]"

primrec RIL_PersoSubstate_code :: "RIL_PersoSubstate \<Rightarrow> int" where
  "RIL_PersoSubstate_code RIL_PERSOSUBSTATE_UNKNOWN = 0"
| "RIL_PersoSubstate_code RIL_PERSOSUBSTATE_IN_PROGRESS = 1"
| "RIL_PersoSubstate_code RIL_PERSOSUBSTATE_READY = 2"
| "RIL_PersoSubstate_code RIL_PERSOSUBSTATE_SIM_NETWORK = 3"
| "RIL_PersoSubstate_code RIL_PERSOSUBSTATE_SIM_NETWORK_SUBSET = 4"
| "RIL_PersoSubstate_code RIL_PERSOSUBSTATE_SIM_CORPORATE = 5"
| "RIL_PersoSubstate_code RIL_PERSOSUBSTATE_SIM_SERVICE_PROVIDER = 6"
| "RIL_PersoSubstate_code RIL_PERSOSUBSTATE_SIM_SIM = 7"
| "RIL_PersoSubstate_code RIL_PERSOSUBSTATE_SIM_NETWORK_PUK = 8"
| "RIL_PersoSubstate_code RIL_PERSOSUBSTATE_SIM_NETWORK_SUBSET_PUK = 9"
| "RIL_PersoSubstate_code RIL_PERSOSUBSTATE_SIM_CORPORATE_PUK = 10"
| "RIL_PersoSubstate_code RIL_PERSOSUBSTATE_SIM_SERVICE_PROVIDER_PUK = 11"
| "RIL_PersoSubstate_code RIL_PERSOSUBSTATE_SIM_SIM_PUK = 12"
| "RIL_PersoSubstate_code RIL_PERSOSUBSTATE_RUIM_NETWORK1 = 13"
| "RIL_PersoSubstate_code RIL_PERSOSUBSTATE_RUIM_NETWORK2 = 14"
| "RIL_PersoSubstate_code RIL_PERSOSUBSTATE_RUIM_HRPD = 15"
| "RIL_PersoSubstate_code RIL_PERSOSUBSTATE_RUIM_CORPORATE = 16"
| "RIL_PersoSubstate_code RIL_PERSOSUBSTATE_RUIM_SERVICE_PROVIDER = 17"
| "RIL_PersoSubstate_code RIL_PERSOSUBSTATE_RUIM_RUIM = 18"
| "RIL_PersoSubstate_code RIL_PERSOSUBSTATE_RUIM_NETWORK1_PUK = 19"
| "RIL_PersoSubstate_code RIL_PERSOSUBSTATE_RUIM_NETWORK2_PUK = 20"
| "RIL_PersoSubstate_code RIL_PERSOSUBSTATE_RUIM_HRPD_PUK = 21"
| "RIL_PersoSubstate_code RIL_PERSOSUBSTATE_RUIM_CORPORATE_PUK = 22"
| "RIL_PersoSubstate_code RIL_PERSOSUBSTATE_RUIM_SERVICE_PROVIDER_PUK = 23"
| "RIL_PersoSubstate_code RIL_PERSOSUBSTATE_RUIM_RUIM_PUK = 24"

interpretation RIL_PersoSubstate: enum_code RIL_PersoSubstate_values RIL_PersoSubstate_code
proof
  show "x \<in> set RIL_PersoSubstate_values" for x by (cases x) (simp_all add: RIL_PersoSubstate_values_def)
  show "distinct (map RIL_PersoSubstate_code RIL_PersoSubstate_values)" by (simp add: RIL_PersoSubstate_values_def)
qed

datatype RIL_AppState =
    RIL_APPSTATE_UNKNOWN | RIL_APPSTATE_DETECTED | RIL_APPSTATE_PIN | RIL_APPSTATE_PUK
     | RIL_APPSTATE_SUBSCRIPTION_PERSO | RIL_APPSTATE_READY

definition RIL_AppState_values :: "RIL_AppState list" where
  "RIL_AppState_values = [
     RIL_APPSTATE_UNKNOWN, RIL_APPSTATE_DETECTED, RIL_APPSTATE_PIN, RIL_APPSTATE_PUK
     , RIL_APPSTATE_SUBSCRIPTION_PERSO, RIL_APPSTATE_READY]"

primrec RIL_AppState_code :: "RIL_AppState \<Rightarrow> int" where
  "RIL_AppState_code RIL_APPSTATE_UNKNOWN = 0"
| "RIL_AppState_code RIL_APPSTATE_DETECTED = 1"
| "RIL_AppState_code RIL_APPSTATE_PIN = 2"
| "RIL_AppState_code RIL_APPSTATE_PUK = 3"
| "RIL_AppState_code RIL_APPSTATE_SUBSCRIPTION_PERSO = 4"
| "RIL_AppState_code RIL_APPSTATE_READY = 5"

interpretation RIL_AppState: enum_code RIL_AppState_values RIL_AppState_code
proof
  show "x \<in> set RIL_AppState_values" for x by (cases x) (simp_all add: RIL_AppState_values_def)
  show "distinct (map RIL_AppState_code RIL_AppState_values)" by (simp add: RIL_AppState_values_def)
qed

datatype RIL_PinState =
    RIL_PINSTATE_UNKNOWN | RIL_PINSTATE_ENABLED_NOT_VERIFIED | RIL_PINSTATE_ENABLED_VERIFIED
     | RIL_PINSTATE_DISABLED | RIL_PINSTATE_ENABLED_BLOCKED | RIL_PINSTATE_ENABLED_PERM_BLOCKED

definition RIL_PinState_values :: "RIL_PinState list" where
  "RIL_PinState_values = [
     RIL_PINSTATE_UNKNOWN, RIL_PINSTATE_ENABLED_NOT_VERIFIED, RIL_PINSTATE_ENABLED_VERIFIED
     , RIL_PINSTATE_DISABLED, RIL_PINSTATE_ENABLED_BLOCKED, RIL_PINSTATE_ENABLED_PERM_BLOCKED]"

primrec RIL_PinState_code :: "RIL_PinState \<Rightarrow> int" where
  "RIL_PinState_code RIL_PINSTATE_UNKNOWN = 0"
| "RIL_PinState_code RIL_PINSTATE_ENABLED_NOT_VERIFIED = 1"
| "RIL_PinState_code RIL_PINSTATE_ENABLED_VERIFIED = 2"
| "RIL_PinState_code RIL_PINSTATE_DISABLED = 3"
| "RIL_PinState_code RIL_PINSTATE_ENABLED_BLOCKED = 4"
| "RIL_PinState_code RIL_PINSTATE_ENABLED_PERM_BLOCKED = 5"

interpretation RIL_PinState: enum_code RIL_PinState_values RIL_PinState_code
proof
  show "x \<in> set RIL_PinState_values" for x by (cases x) (simp_all add: RIL_PinState_values_def)
  show "distinct (map RIL_PinState_code RIL_PinState_values)" by (simp add: RIL_PinState_values_def)
qed

datatype RIL_AppType =
    RIL_APPTYPE_UNKNOWN | RIL_APPTYPE_SIM | RIL_APPTYPE_USIM | RIL_APPTYPE_RUIM | RIL_APPTYPE_CSIM
     | RIL_APPTYPE_ISIM

definition RIL_AppType_values :: "RIL_AppType list" where
  "RIL_AppType_values = [
     RIL_APPTYPE_UNKNOWN, RIL_APPTYPE_SIM, RIL_APPTYPE_USIM, RIL_APPTYPE_RUIM, RIL_APPTYPE_CSIM
     , RIL_APPTYPE_ISIM]"

primrec RIL_AppType_code :: "RIL_AppType \<Rightarrow> int" where
  "RIL_AppType_code RIL_APPTYPE_UNKNOWN = 0"
| "RIL_AppType_code RIL_APPTYPE_SIM = 1"
| "RIL_AppType_code RIL_APPTYPE_USIM = 2"
| "RIL_AppType_code RIL_APPTYPE_RUIM = 3"
| "RIL_AppType_code RIL_APPTYPE_CSIM = 4"
| "RIL_AppType_code RIL_APPTYPE_ISIM = 5"

interpretation RIL_AppType: enum_code RIL_AppType_values RIL_AppType_code
proof
  show "x \<in> set RIL_AppType_values" for x by (cases x) (simp_all add: RIL_AppType_values_def)
  show "distinct (map RIL_AppType_code RIL_AppType_values)" by (simp add: RIL_AppType_values_def)
qed

datatype RIL_RegState =
    RIL_NOT_REG_AND_NOT_SEARCHING | RIL_REG_HOME | RIL_NOT_REG_AND_SEARCHING | RIL_REG_DENIED
     | RIL_UNKNOWN | RIL_REG_ROAMING | RIL_NOT_REG_AND_EMERGENCY_AVAILABLE_AND_NOT_SEARCHING
     | RIL_NOT_REG_AND_EMERGENCY_AVAILABLE_AND_SEARCHING | RIL_REG_DENIED_AND_EMERGENCY_AVAILABLE
     | RIL_UNKNOWN_AND_EMERGENCY_AVAILABLE

definition RIL_RegState_values :: "RIL_RegState list" where
  "RIL_RegState_values = [
     RIL_NOT_REG_AND_NOT_SEARCHING, RIL_REG_HOME, RIL_NOT_REG_AND_SEARCHING, RIL_REG_DENIED
     , RIL_UNKNOWN, RIL_REG_ROAMING, RIL_NOT_REG_AND_EMERGENCY_AVAILABLE_AND_NOT_SEARCHING
     , RIL_NOT_REG_AND_EMERGENCY_AVAILABLE_AND_SEARCHING, RIL_REG_DENIED_AND_EMERGENCY_AVAILABLE
     , RIL_UNKNOWN_AND_EMERGENCY_AVAILABLE]"

primrec RIL_RegState_code :: "RIL_RegState \<Rightarrow> int" where
  "RIL_RegState_code RIL_NOT_REG_AND_NOT_SEARCHING = 0"
| "RIL_RegState_code RIL_REG_HOME = 1"
| "RIL_RegState_code RIL_NOT_REG_AND_SEARCHING = 2"
| "RIL_RegState_code RIL_REG_DENIED = 3"
| "RIL_RegState_code RIL_UNKNOWN = 4"
| "RIL_RegState_code RIL_REG_ROAMING = 5"
| "RIL_RegState_code RIL_NOT_REG_AND_EMERGENCY_AVAILABLE_AND_NOT_SEARCHING = 10"
| "RIL_RegState_code RIL_NOT_REG_AND_EMERGENCY_AVAILABLE_AND_SEARCHING = 12"
| "RIL_RegState_code RIL_REG_DENIED_AND_EMERGENCY_AVAILABLE = 13"
| "RIL_RegState_code RIL_UNKNOWN_AND_EMERGENCY_AVAILABLE = 14"

interpretation RIL_RegState: enum_code RIL_RegState_values RIL_RegState_code
proof
  show "x \<in> set RIL_RegState_values" for x by (cases x) (simp_all add: RIL_RegState_values_def)
  show "distinct (map RIL_RegState_code RIL_RegState_values)" by (simp add: RIL_RegState_values_def)
qed

datatype RIL_SimRefreshResult =
    SIM_FILE_UPDATE | SIM_INIT | SIM_RESET

definition RIL_SimRefreshResult_values :: "RIL_SimRefreshResult list" where
  "RIL_SimRefreshResult_values = [
     SIM_FILE_UPDATE, SIM_INIT, SIM_RESET]"

primrec RIL_SimRefreshResult_code :: "RIL_SimRefreshResult \<Rightarrow> int" where
  "RIL_SimRefreshResult_code SIM_FILE_UPDATE = 0"
| "RIL_SimRefreshResult_code SIM_INIT = 1"
| "RIL_SimRefreshResult_code SIM_RESET = 2"

interpretation RIL_SimRefreshResult: enum_code RIL_SimRefreshResult_values RIL_SimRefreshResult_code
proof
  show "x \<in> set RIL_SimRefreshResult_values" for x by (cases x) (simp_all add: RIL_SimRefreshResult_values_def)
  show "distinct (map RIL_SimRefreshResult_code RIL_SimRefreshResult_values)" by (simp add: RIL_SimRefreshResult_values_def)
qed

datatype RIL_CDMA_OTA_ProvisionStatus =
    CDMA_OTA_PROVISION_STATUS_SPL_UNLOCKED | CDMA_OTA_PROVISION_STATUS_SPC_RETRIES_EXCEEDED
     | CDMA_OTA_PROVISION_STATUS_A_KEY_EXCHANGED | CDMA_OTA_PROVISION_STATUS_SSD_UPDATED
     | CDMA_OTA_PROVISION_STATUS_NAM_DOWNLOADED | CDMA_OTA_PROVISION_STATUS_MDN_DOWNLOADED
     | CDMA_OTA_PROVISION_STATUS_IMSI_DOWNLOADED | CDMA_OTA_PROVISION_STATUS_PRL_DOWNLOADED
     | CDMA_OTA_PROVISION_STATUS_COMMITTED | CDMA_OTA_PROVISION_STATUS_OTAPA_STARTED
     | CDMA_OTA_PROVISION_STATUS_OTAPA_STOPPED | CDMA_OTA_PROVISION_STATUS_OTAPA_ABORTED

definition RIL_CDMA_OTA_ProvisionStatus_values :: "RIL_CDMA_OTA_ProvisionStatus list" where
  "RIL_CDMA_OTA_ProvisionStatus_values = [
     CDMA_OTA_PROVISION_STATUS_SPL_UNLOCKED, CDMA_OTA_PROVISION_STATUS_SPC_RETRIES_EXCEEDED
     , CDMA_OTA_PROVISION_STATUS_A_KEY_EXCHANGED, CDMA_OTA_PROVISION_STATUS_SSD_UPDATED
     , CDMA_OTA_PROVISION_STATUS_NAM_DOWNLOADED, CDMA_OTA_PROVISION_STATUS_MDN_DOWNLOADED
     , CDMA_OTA_PROVISION_STATUS_IMSI_DOWNLOADED, CDMA_OTA_PROVISION_STATUS_PRL_DOWNLOADED
     , CDMA_OTA_PROVISION_STATUS_COMMITTED, CDMA_OTA_PROVISION_STATUS_OTAPA_STARTED
     , CDMA_OTA_PROVISION_STATUS_OTAPA_STOPPED, CDMA_OTA_PROVISION_STATUS_OTAPA_ABORTED]"

primrec RIL_CDMA_OTA_ProvisionStatus_code :: "RIL_CDMA_OTA_ProvisionStatus \<Rightarrow> int" where
  "RIL_CDMA_OTA_ProvisionStatus_code CDMA_OTA_PROVISION_STATUS_SPL_UNLOCKED = 0"
| "RIL_CDMA_OTA_ProvisionStatus_code CDMA_OTA_PROVISION_STATUS_SPC_RETRIES_EXCEEDED = 1"
| "RIL_CDMA_OTA_ProvisionStatus_code CDMA_OTA_PROVISION_STATUS_A_KEY_EXCHANGED = 2"
| "RIL_CDMA_OTA_ProvisionStatus_code CDMA_OTA_PROVISION_STATUS_SSD_UPDATED = 3"
| "RIL_CDMA_OTA_ProvisionStatus_code CDMA_OTA_PROVISION_STATUS_NAM_DOWNLOADED = 4"
| "RIL_CDMA_OTA_ProvisionStatus_code CDMA_OTA_PROVISION_STATUS_MDN_DOWNLOADED = 5"
| "RIL_CDMA_OTA_ProvisionStatus_code CDMA_OTA_PROVISION_STATUS_IMSI_DOWNLOADED = 6"
| "RIL_CDMA_OTA_ProvisionStatus_code CDMA_OTA_PROVISION_STATUS_PRL_DOWNLOADED = 7"
| "RIL_CDMA_OTA_ProvisionStatus_code CDMA_OTA_PROVISION_STATUS_COMMITTED = 8"
| "RIL_CDMA_OTA_ProvisionStatus_code CDMA_OTA_PROVISION_STATUS_OTAPA_STARTED = 9"
| "RIL_CDMA_OTA_ProvisionStatus_code CDMA_OTA_PROVISION_STATUS_OTAPA_STOPPED = 10"
| "RIL_CDMA_OTA_ProvisionStatus_code CDMA_OTA_PROVISION_STATUS_OTAPA_ABORTED = 11"

interpretation RIL_CDMA_OTA_ProvisionStatus: enum_code RIL_CDMA_OTA_ProvisionStatus_values RIL_CDMA_OTA_ProvisionStatus_code
proof
  show "x \<in> set RIL_CDMA_OTA_ProvisionStatus_values" for x by (cases x) (simp_all add: RIL_CDMA_OTA_ProvisionStatus_values_def)
  show "distinct (map RIL_CDMA_OTA_ProvisionStatus_code RIL_CDMA_OTA_ProvisionStatus_values)" by (simp add: RIL_CDMA_OTA_ProvisionStatus_values_def)
qed

datatype RIL_CellInfoType =
    RIL_CELL_INFO_TYPE_NONE | RIL_CELL_INFO_TYPE_GSM | RIL_CELL_INFO_TYPE_CDMA
     | RIL_CELL_INFO_TYPE_LTE | RIL_CELL_INFO_TYPE_WCDMA | RIL_CELL_INFO_TYPE_TD_SCDMA

definition RIL_CellInfoType_values :: "RIL_CellInfoType list" where
  "RIL_CellInfoType_values = [
     RIL_CELL_INFO_TYPE_NONE, RIL_CELL_INFO_TYPE_GSM, RIL_CELL_INFO_TYPE_CDMA
     , RIL_CELL_INFO_TYPE_LTE, RIL_CELL_INFO_TYPE_WCDMA, RIL_CELL_INFO_TYPE_TD_SCDMA]"

primrec RIL_CellInfoType_code :: "RIL_CellInfoType \<Rightarrow> int" where
  "RIL_CellInfoType_code RIL_CELL_INFO_TYPE_NONE = 0"
| "RIL_CellInfoType_code RIL_CELL_INFO_TYPE_GSM = 1"
| "RIL_CellInfoType_code RIL_CELL_INFO_TYPE_CDMA = 2"
| "RIL_CellInfoType_code RIL_CELL_INFO_TYPE_LTE = 3"
| "RIL_CellInfoType_code RIL_CELL_INFO_TYPE_WCDMA = 4"
| "RIL_CellInfoType_code RIL_CELL_INFO_TYPE_TD_SCDMA = 5"

interpretation RIL_CellInfoType: enum_code RIL_CellInfoType_values RIL_CellInfoType_code
proof
  show "x \<in> set RIL_CellInfoType_values" for x by (cases x) (simp_all add: RIL_CellInfoType_values_def)
  show "distinct (map RIL_CellInfoType_code RIL_CellInfoType_values)" by (simp add: RIL_CellInfoType_values_def)
qed

datatype RIL_TimeStampType =
    RIL_TIMESTAMP_TYPE_UNKNOWN | RIL_TIMESTAMP_TYPE_ANTENNA | RIL_TIMESTAMP_TYPE_MODEM
     | RIL_TIMESTAMP_TYPE_OEM_RIL | RIL_TIMESTAMP_TYPE_JAVA_RIL

definition RIL_TimeStampType_values :: "RIL_TimeStampType list" where
  "RIL_TimeStampType_values = [
     RIL_TIMESTAMP_TYPE_UNKNOWN, RIL_TIMESTAMP_TYPE_ANTENNA, RIL_TIMESTAMP_TYPE_MODEM
     , RIL_TIMESTAMP_TYPE_OEM_RIL, RIL_TIMESTAMP_TYPE_JAVA_RIL]"

primrec RIL_TimeStampType_code :: "RIL_TimeStampType \<Rightarrow> int" where
  "RIL_TimeStampType_code RIL_TIMESTAMP_TYPE_UNKNOWN = 0"
| "RIL_TimeStampType_code RIL_TIMESTAMP_TYPE_ANTENNA = 1"
| "RIL_TimeStampType_code RIL_TIMESTAMP_TYPE_MODEM = 2"
| "RIL_TimeStampType_code RIL_TIMESTAMP_TYPE_OEM_RIL = 3"
| "RIL_TimeStampType_code RIL_TIMESTAMP_TYPE_JAVA_RIL = 4"

interpretation RIL_TimeStampType: enum_code RIL_TimeStampType_values RIL_TimeStampType_code
proof
  show "x \<in> set RIL_TimeStampType_values" for x by (cases x) (simp_all add: RIL_TimeStampType_values_def)
  show "distinct (map RIL_TimeStampType_code RIL_TimeStampType_values)" by (simp add: RIL_TimeStampType_values_def)
qed

datatype RIL_CDMA_InfoRecName =
    RIL_CDMA_DISPLAY_INFO_REC | RIL_CDMA_CALLED_PARTY_NUMBER_INFO_REC
     | RIL_CDMA_CALLING_PARTY_NUMBER_INFO_REC | RIL_CDMA_CONNECTED_NUMBER_INFO_REC
     | RIL_CDMA_SIGNAL_INFO_REC | RIL_CDMA_REDIRECTING_NUMBER_INFO_REC
     | RIL_CDMA_LINE_CONTROL_INFO_REC | RIL_CDMA_EXTENDED_DISPLAY_INFO_REC
     | RIL_CDMA_T53_CLIR_INFO_REC | RIL_CDMA_T53_RELEASE_INFO_REC
     | RIL_CDMA_T53_AUDIO_CONTROL_INFO_REC

definition RIL_CDMA_InfoRecName_values :: "RIL_CDMA_InfoRecName list" where
  "RIL_CDMA_InfoRecName_values = [
     RIL_CDMA_DISPLAY_INFO_REC, RIL_CDMA_CALLED_PARTY_NUMBER_INFO_REC
     , RIL_CDMA_CALLING_PARTY_NUMBER_INFO_REC, RIL_CDMA_CONNECTED_NUMBER_INFO_REC
     , RIL_CDMA_SIGNAL_INFO_REC, RIL_CDMA_REDIRECTING_NUMBER_INFO_REC
     , RIL_CDMA_LINE_CONTROL_INFO_REC, RIL_CDMA_EXTENDED_DISPLAY_INFO_REC
     , RIL_CDMA_T53_CLIR_INFO_REC, RIL_CDMA_T53_RELEASE_INFO_REC
     , RIL_CDMA_T53_AUDIO_CONTROL_INFO_REC]"

primrec RIL_CDMA_InfoRecName_code :: "RIL_CDMA_InfoRecName \<Rightarrow> int" where
  "RIL_CDMA_InfoRecName_code RIL_CDMA_DISPLAY_INFO_REC = 0"
| "RIL_CDMA_InfoRecName_code RIL_CDMA_CALLED_PARTY_NUMBER_INFO_REC = 1"
| "RIL_CDMA_InfoRecName_code RIL_CDMA_CALLING_PARTY_NUMBER_INFO_REC = 2"
| "RIL_CDMA_InfoRecName_code RIL_CDMA_CONNECTED_NUMBER_INFO_REC = 3"
| "RIL_CDMA_InfoRecName_code RIL_CDMA_SIGNAL_INFO_REC = 4"
| "RIL_CDMA_InfoRecName_code RIL_CDMA_REDIRECTING_NUMBER_INFO_REC = 5"
| "RIL_CDMA_InfoRecName_code RIL_CDMA_LINE_CONTROL_INFO_REC = 6"
| "RIL_CDMA_InfoRecName_code RIL_CDMA_EXTENDED_DISPLAY_INFO_REC = 7"
| "RIL_CDMA_InfoRecName_code RIL_CDMA_T53_CLIR_INFO_REC = 8"
| "RIL_CDMA_InfoRecName_code RIL_CDMA_T53_RELEASE_INFO_REC = 9"
| "RIL_CDMA_InfoRecName_code RIL_CDMA_T53_AUDIO_CONTROL_INFO_REC = 10"

interpretation RIL_CDMA_InfoRecName: enum_code RIL_CDMA_InfoRecName_values RIL_CDMA_InfoRecName_code
proof
  show "x \<in> set RIL_CDMA_InfoRecName_values" for x by (cases x) (simp_all add: RIL_CDMA_InfoRecName_values_def)
  show "distinct (map RIL_CDMA_InfoRecName_code RIL_CDMA_InfoRecName_values)" by (simp add: RIL_CDMA_InfoRecName_values_def)
qed

datatype RIL_CDMA_RedirectingReason =
    RIL_REDIRECTING_REASON_UNKNOWN | RIL_REDIRECTING_REASON_CALL_FORWARDING_BUSY
     | RIL_REDIRECTING_REASON_CALL_FORWARDING_NO_REPLY
     | RIL_REDIRECTING_REASON_CALLED_DTE_OUT_OF_ORDER
     | RIL_REDIRECTING_REASON_CALL_FORWARDING_BY_THE_CALLED_DTE
     | RIL_REDIRECTING_REASON_CALL_FORWARDING_UNCONDITIONAL | RIL_REDIRECTING_REASON_RESERVED

definition RIL_CDMA_RedirectingReason_values :: "RIL_CDMA_RedirectingReason list" where
  "RIL_CDMA_RedirectingReason_values = [
     RIL_REDIRECTING_REASON_UNKNOWN, RIL_REDIRECTING_REASON_CALL_FORWARDING_BUSY
     , RIL_REDIRECTING_REASON_CALL_FORWARDING_NO_REPLY
     , RIL_REDIRECTING_REASON_CALLED_DTE_OUT_OF_ORDER
     , RIL_REDIRECTING_REASON_CALL_FORWARDING_BY_THE_CALLED_DTE
     , RIL_REDIRECTING_REASON_CALL_FORWARDING_UNCONDITIONAL, RIL_REDIRECTING_REASON_RESERVED]"

primrec RIL_CDMA_RedirectingReason_code :: "RIL_CDMA_RedirectingReason \<Rightarrow> int" where
  "RIL_CDMA_RedirectingReason_code RIL_REDIRECTING_REASON_UNKNOWN = 0"
| "RIL_CDMA_RedirectingReason_code RIL_REDIRECTING_REASON_CALL_FORWARDING_BUSY = 1"
| "RIL_CDMA_RedirectingReason_code RIL_REDIRECTING_REASON_CALL_FORWARDING_NO_REPLY = 2"
| "RIL_CDMA_RedirectingReason_code RIL_REDIRECTING_REASON_CALLED_DTE_OUT_OF_ORDER = 9"
| "RIL_CDMA_RedirectingReason_code RIL_REDIRECTING_REASON_CALL_FORWARDING_BY_THE_CALLED_DTE = 10"
| "RIL_CDMA_RedirectingReason_code RIL_REDIRECTING_REASON_CALL_FORWARDING_UNCONDITIONAL = 15"
| "RIL_CDMA_RedirectingReason_code RIL_REDIRECTING_REASON_RESERVED = 16"

interpretation RIL_CDMA_RedirectingReason: enum_code RIL_CDMA_RedirectingReason_values RIL_CDMA_RedirectingReason_code
proof
  show "x \<in> set RIL_CDMA_RedirectingReason_values" for x by (cases x) (simp_all add: RIL_CDMA_RedirectingReason_values_def)
  show "distinct (map RIL_CDMA_RedirectingReason_code RIL_CDMA_RedirectingReason_values)" by (simp add: RIL_CDMA_RedirectingReason_values_def)
qed

datatype RIL_SrvccState =
    HANDOVER_STARTED | HANDOVER_COMPLETED | HANDOVER_FAILED | HANDOVER_CANCELED

definition RIL_SrvccState_values :: "RIL_SrvccState list" where
  "RIL_SrvccState_values = [
     HANDOVER_STARTED, HANDOVER_COMPLETED, HANDOVER_FAILED, HANDOVER_CANCELED]"

primrec RIL_SrvccState_code :: "RIL_SrvccState \<Rightarrow> int" where
  "RIL_SrvccState_code HANDOVER_STARTED = 0"
| "RIL_SrvccState_code HANDOVER_COMPLETED = 1"
| "RIL_SrvccState_code HANDOVER_FAILED = 2"
| "RIL_SrvccState_code HANDOVER_CANCELED = 3"

interpretation RIL_SrvccState: enum_code RIL_SrvccState_values RIL_SrvccState_code
proof
  show "x \<in> set RIL_SrvccState_values" for x by (cases x) (simp_all add: RIL_SrvccState_values_def)
  show "distinct (map RIL_SrvccState_code RIL_SrvccState_values)" by (simp add: RIL_SrvccState_values_def)
qed

datatype RIL_HardwareConfig_Type =
    RIL_HARDWARE_CONFIG_MODEM | RIL_HARDWARE_CONFIG_SIM

definition RIL_HardwareConfig_Type_values :: "RIL_HardwareConfig_Type list" where
  "RIL_HardwareConfig_Type_values = [
     RIL_HARDWARE_CONFIG_MODEM, RIL_HARDWARE_CONFIG_SIM]"

primrec RIL_HardwareConfig_Type_code :: "RIL_HardwareConfig_Type \<Rightarrow> int" where
  "RIL_HardwareConfig_Type_code RIL_HARDWARE_CONFIG_MODEM = 0"
| "RIL_HardwareConfig_Type_code RIL_HARDWARE_CONFIG_SIM = 1"

interpretation RIL_HardwareConfig_Type: enum_code RIL_HardwareConfig_Type_values RIL_HardwareConfig_Type_code
proof
  show "x \<in> set RIL_HardwareConfig_Type_values" for x by (cases x) (simp_all add: RIL_HardwareConfig_Type_values_def)
  show "distinct (map RIL_HardwareConfig_Type_code RIL_HardwareConfig_Type_values)" by (simp add: RIL_HardwareConfig_Type_values_def)
qed

datatype RIL_HardwareConfig_State =
    RIL_HARDWARE_CONFIG_STATE_ENABLED | RIL_HARDWARE_CONFIG_STATE_STANDBY
     | RIL_HARDWARE_CONFIG_STATE_DISABLED

definition RIL_HardwareConfig_State_values :: "RIL_HardwareConfig_State list" where
  "RIL_HardwareConfig_State_values = [
     RIL_HARDWARE_CONFIG_STATE_ENABLED, RIL_HARDWARE_CONFIG_STATE_STANDBY
     , RIL_HARDWARE_CONFIG_STATE_DISABLED]"

primrec RIL_HardwareConfig_State_code :: "RIL_HardwareConfig_State \<Rightarrow> int" where
  "RIL_HardwareConfig_State_code RIL_HARDWARE_CONFIG_STATE_ENABLED = 0"
| "RIL_HardwareConfig_State_code RIL_HARDWARE_CONFIG_STATE_STANDBY = 1"
| "RIL_HardwareConfig_State_code RIL_HARDWARE_CONFIG_STATE_DISABLED = 2"

interpretation RIL_HardwareConfig_State: enum_code RIL_HardwareConfig_State_values RIL_HardwareConfig_State_code
proof
  show "x \<in> set RIL_HardwareConfig_State_values" for x by (cases x) (simp_all add: RIL_HardwareConfig_State_values_def)
  show "distinct (map RIL_HardwareConfig_State_code RIL_HardwareConfig_State_values)" by (simp add: RIL_HardwareConfig_State_values_def)
qed

datatype RIL_SsServiceType =
    SS_CFU | SS_CF_BUSY | SS_CF_NO_REPLY | SS_CF_NOT_REACHABLE | SS_CF_ALL | SS_CF_ALL_CONDITIONAL
     | SS_CLIP | SS_CLIR | SS_COLP | SS_COLR | SS_WAIT | SS_BAOC | SS_BAOIC | SS_BAOIC_EXC_HOME
     | SS_BAIC | SS_BAIC_ROAMING | SS_ALL_BARRING | SS_OUTGOING_BARRING | SS_INCOMING_BARRING

definition RIL_SsServiceType_values :: "RIL_SsServiceType list" where
  "RIL_SsServiceType_values = [
     SS_CFU, SS_CF_BUSY, SS_CF_NO_REPLY, SS_CF_NOT_REACHABLE, SS_CF_ALL, SS_CF_ALL_CONDITIONAL
     , SS_CLIP, SS_CLIR, SS_COLP, SS_COLR, SS_WAIT, SS_BAOC, SS_BAOIC, SS_BAOIC_EXC_HOME, SS_BAIC
     , SS_BAIC_ROAMING, SS_ALL_BARRING, SS_OUTGOING_BARRING, SS_INCOMING_BARRING]"

primrec RIL_SsServiceType_code :: "RIL_SsServiceType \<Rightarrow> int" where
  "RIL_SsServiceType_code SS_CFU = 0"
| "RIL_SsServiceType_code SS_CF_BUSY = 1"
| "RIL_SsServiceType_code SS_CF_NO_REPLY = 2"
| "RIL_SsServiceType_code SS_CF_NOT_REACHABLE = 3"
| "RIL_SsServiceType_code SS_CF_ALL = 4"
| "RIL_SsServiceType_code SS_CF_ALL_CONDITIONAL = 5"
| "RIL_SsServiceType_code SS_CLIP = 6"
| "RIL_SsServiceType_code SS_CLIR = 7"
| "RIL_SsServiceType_code SS_COLP = 8"
| "RIL_SsServiceType_code SS_COLR = 9"
| "RIL_SsServiceType_code SS_WAIT = 10"
| "RIL_SsServiceType_code SS_BAOC = 11"
| "RIL_SsServiceType_code SS_BAOIC = 12"
| "RIL_SsServiceType_code SS_BAOIC_EXC_HOME = 13"
| "RIL_SsServiceType_code SS_BAIC = 14"
| "RIL_SsServiceType_code SS_BAIC_ROAMING = 15"
| "RIL_SsServiceType_code SS_ALL_BARRING = 16"
| "RIL_SsServiceType_code SS_OUTGOING_BARRING = 17"
| "RIL_SsServiceType_code SS_INCOMING_BARRING = 18"

interpretation RIL_SsServiceType: enum_code RIL_SsServiceType_values RIL_SsServiceType_code
proof
  show "x \<in> set RIL_SsServiceType_values" for x by (cases x) (simp_all add: RIL_SsServiceType_values_def)
  show "distinct (map RIL_SsServiceType_code RIL_SsServiceType_values)" by (simp add: RIL_SsServiceType_values_def)
qed

datatype RIL_SsRequestType =
    SS_ACTIVATION | SS_DEACTIVATION | SS_INTERROGATION | SS_REGISTRATION | SS_ERASURE

definition RIL_SsRequestType_values :: "RIL_SsRequestType list" where
  "RIL_SsRequestType_values = [
     SS_ACTIVATION, SS_DEACTIVATION, SS_INTERROGATION, SS_REGISTRATION, SS_ERASURE]"

primrec RIL_SsRequestType_code :: "RIL_SsRequestType \<Rightarrow> int" where
  "RIL_SsRequestType_code SS_ACTIVATION = 0"
| "RIL_SsRequestType_code SS_DEACTIVATION = 1"
| "RIL_SsRequestType_code SS_INTERROGATION = 2"
| "RIL_SsRequestType_code SS_REGISTRATION = 3"
| "RIL_SsRequestType_code SS_ERASURE = 4"

interpretation RIL_SsRequestType: enum_code RIL_SsRequestType_values RIL_SsRequestType_code
proof
  show "x \<in> set RIL_SsRequestType_values" for x by (cases x) (simp_all add: RIL_SsRequestType_values_def)
  show "distinct (map RIL_SsRequestType_code RIL_SsRequestType_values)" by (simp add: RIL_SsRequestType_values_def)
qed

datatype RIL_SsTeleserviceType =
    SS_ALL_TELE_AND_BEARER_SERVICES | SS_ALL_TELESEVICES | SS_TELEPHONY | SS_ALL_DATA_TELESERVICES
     | SS_SMS_SERVICES | SS_ALL_TELESERVICES_EXCEPT_SMS

definition RIL_SsTeleserviceType_values :: "RIL_SsTeleserviceType list" where
  "RIL_SsTeleserviceType_values = [
     SS_ALL_TELE_AND_BEARER_SERVICES, SS_ALL_TELESEVICES, SS_TELEPHONY, SS_ALL_DATA_TELESERVICES
     , SS_SMS_SERVICES, SS_ALL_TELESERVICES_EXCEPT_SMS]"

primrec RIL_SsTeleserviceType_code :: "RIL_SsTeleserviceType \<Rightarrow> int" where
  "RIL_SsTeleserviceType_code SS_ALL_TELE_AND_BEARER_SERVICES = 0"
| "RIL_SsTeleserviceType_code SS_ALL_TELESEVICES = 1"
| "RIL_SsTeleserviceType_code SS_TELEPHONY = 2"
| "RIL_SsTeleserviceType_code SS_ALL_DATA_TELESERVICES = 3"
| "RIL_SsTeleserviceType_code SS_SMS_SERVICES = 4"
| "RIL_SsTeleserviceType_code SS_ALL_TELESERVICES_EXCEPT_SMS = 5"

interpretation RIL_SsTeleserviceType: enum_code RIL_SsTeleserviceType_values RIL_SsTeleserviceType_code
proof
  show "x \<in> set RIL_SsTeleserviceType_values" for x by (cases x) (simp_all add: RIL_SsTeleserviceType_values_def)
  show "distinct (map RIL_SsTeleserviceType_code RIL_SsTeleserviceType_values)" by (simp add: RIL_SsTeleserviceType_values_def)
qed

datatype RIL_DcPowerStates =
    RIL_DC_POWER_STATE_LOW | RIL_DC_POWER_STATE_MEDIUM | RIL_DC_POWER_STATE_HIGH
     | RIL_DC_POWER_STATE_UNKNOWN

definition RIL_DcPowerStates_values :: "RIL_DcPowerStates list" where
  "RIL_DcPowerStates_values = [
     RIL_DC_POWER_STATE_LOW, RIL_DC_POWER_STATE_MEDIUM, RIL_DC_POWER_STATE_HIGH
     , RIL_DC_POWER_STATE_UNKNOWN]"

primrec RIL_DcPowerStates_code :: "RIL_DcPowerStates \<Rightarrow> int" where
  "RIL_DcPowerStates_code RIL_DC_POWER_STATE_LOW = 1"
| "RIL_DcPowerStates_code RIL_DC_POWER_STATE_MEDIUM = 2"
| "RIL_DcPowerStates_code RIL_DC_POWER_STATE_HIGH = 3"
| "RIL_DcPowerStates_code RIL_DC_POWER_STATE_UNKNOWN = 2147483647"

interpretation RIL_DcPowerStates: enum_code RIL_DcPowerStates_values RIL_DcPowerStates_code
proof
  show "x \<in> set RIL_DcPowerStates_values" for x by (cases x) (simp_all add: RIL_DcPowerStates_values_def)
  show "distinct (map RIL_DcPowerStates_code RIL_DcPowerStates_values)" by (simp add: RIL_DcPowerStates_values_def)
qed

datatype RIL_ApnTypes =
    RIL_APN_TYPE_UNKNOWN | RIL_APN_TYPE_DEFAULT | RIL_APN_TYPE_MMS | RIL_APN_TYPE_SUPL
     | RIL_APN_TYPE_DUN | RIL_APN_TYPE_HIPRI | RIL_APN_TYPE_FOTA | RIL_APN_TYPE_IMS
     | RIL_APN_TYPE_CBS | RIL_APN_TYPE_IA | RIL_APN_TYPE_EMERGENCY | RIL_APN_TYPE_ALL

definition RIL_ApnTypes_values :: "RIL_ApnTypes list" where
  "RIL_ApnTypes_values = [
     RIL_APN_TYPE_UNKNOWN, RIL_APN_TYPE_DEFAULT, RIL_APN_TYPE_MMS, RIL_APN_TYPE_SUPL
     , RIL_APN_TYPE_DUN, RIL_APN_TYPE_HIPRI, RIL_APN_TYPE_FOTA, RIL_APN_TYPE_IMS, RIL_APN_TYPE_CBS
     , RIL_APN_TYPE_IA, RIL_APN_TYPE_EMERGENCY, RIL_APN_TYPE_ALL]"

primrec RIL_ApnTypes_code :: "RIL_ApnTypes \<Rightarrow> int" where
  "RIL_ApnTypes_code RIL_APN_TYPE_UNKNOWN = 0"
| "RIL_ApnTypes_code RIL_APN_TYPE_DEFAULT = 1"
| "RIL_ApnTypes_code RIL_APN_TYPE_MMS = 2"
| "RIL_ApnTypes_code RIL_APN_TYPE_SUPL = 4"
| "RIL_ApnTypes_code RIL_APN_TYPE_DUN = 8"
| "RIL_ApnTypes_code RIL_APN_TYPE_HIPRI = 16"
| "RIL_ApnTypes_code RIL_APN_TYPE_FOTA = 32"
| "RIL_ApnTypes_code RIL_APN_TYPE_IMS = 64"
| "RIL_ApnTypes_code RIL_APN_TYPE_CBS = 128"
| "RIL_ApnTypes_code RIL_APN_TYPE_IA = 256"
| "RIL_ApnTypes_code RIL_APN_TYPE_EMERGENCY = 512"
| "RIL_ApnTypes_code RIL_APN_TYPE_ALL = 4294967295"

interpretation RIL_ApnTypes: enum_code RIL_ApnTypes_values RIL_ApnTypes_code
proof
  show "x \<in> set RIL_ApnTypes_values" for x by (cases x) (simp_all add: RIL_ApnTypes_values_def)
  show "distinct (map RIL_ApnTypes_code RIL_ApnTypes_values)" by (simp add: RIL_ApnTypes_values_def)
qed

datatype RIL_DeviceStateType =
    RIL_DST_POWER_SAVE_MODE | RIL_DST_CHARGING_STATE | RIL_DST_LOW_DATA_EXPECTED

definition RIL_DeviceStateType_values :: "RIL_DeviceStateType list" where
  "RIL_DeviceStateType_values = [
     RIL_DST_POWER_SAVE_MODE, RIL_DST_CHARGING_STATE, RIL_DST_LOW_DATA_EXPECTED]"

primrec RIL_DeviceStateType_code :: "RIL_DeviceStateType \<Rightarrow> int" where
  "RIL_DeviceStateType_code RIL_DST_POWER_SAVE_MODE = 0"
| "RIL_DeviceStateType_code RIL_DST_CHARGING_STATE = 1"
| "RIL_DeviceStateType_code RIL_DST_LOW_DATA_EXPECTED = 2"

interpretation RIL_DeviceStateType: enum_code RIL_DeviceStateType_values RIL_DeviceStateType_code
proof
  show "x \<in> set RIL_DeviceStateType_values" for x by (cases x) (simp_all add: RIL_DeviceStateType_values_def)
  show "distinct (map RIL_DeviceStateType_code RIL_DeviceStateType_values)" by (simp add: RIL_DeviceStateType_values_def)
qed

datatype RIL_UnsolicitedResponseFilter =
    RIL_UR_SIGNAL_STRENGTH | RIL_UR_FULL_NETWORK_STATE | RIL_UR_DATA_CALL_DORMANCY_CHANGED

definition RIL_UnsolicitedResponseFilter_values :: "RIL_UnsolicitedResponseFilter list" where
  "RIL_UnsolicitedResponseFilter_values = [
     RIL_UR_SIGNAL_STRENGTH, RIL_UR_FULL_NETWORK_STATE, RIL_UR_DATA_CALL_DORMANCY_CHANGED]"

primrec RIL_UnsolicitedResponseFilter_code :: "RIL_UnsolicitedResponseFilter \<Rightarrow> int" where
  "RIL_UnsolicitedResponseFilter_code RIL_UR_SIGNAL_STRENGTH = 1"
| "RIL_UnsolicitedResponseFilter_code RIL_UR_FULL_NETWORK_STATE = 2"
| "RIL_UnsolicitedResponseFilter_code RIL_UR_DATA_CALL_DORMANCY_CHANGED = 4"

interpretation RIL_UnsolicitedResponseFilter: enum_code RIL_UnsolicitedResponseFilter_values RIL_UnsolicitedResponseFilter_code
proof
  show "x \<in> set RIL_UnsolicitedResponseFilter_values" for x by (cases x) (simp_all add: RIL_UnsolicitedResponseFilter_values_def)
  show "distinct (map RIL_UnsolicitedResponseFilter_code RIL_UnsolicitedResponseFilter_values)" by (simp add: RIL_UnsolicitedResponseFilter_values_def)
qed

datatype RIL_ScanType =
    RIL_ONE_SHOT | RIL_PERIODIC

definition RIL_ScanType_values :: "RIL_ScanType list" where
  "RIL_ScanType_values = [
     RIL_ONE_SHOT, RIL_PERIODIC]"

primrec RIL_ScanType_code :: "RIL_ScanType \<Rightarrow> int" where
  "RIL_ScanType_code RIL_ONE_SHOT = 1"
| "RIL_ScanType_code RIL_PERIODIC = 2"

interpretation RIL_ScanType: enum_code RIL_ScanType_values RIL_ScanType_code
proof
  show "x \<in> set RIL_ScanType_values" for x by (cases x) (simp_all add: RIL_ScanType_values_def)
  show "distinct (map RIL_ScanType_code RIL_ScanType_values)" by (simp add: RIL_ScanType_values_def)
qed

datatype RIL_RadioAccessNetworks =
    GERAN | UTRAN | EUTRAN

definition RIL_RadioAccessNetworks_values :: "RIL_RadioAccessNetworks list" where
  "RIL_RadioAccessNetworks_values = [
     GERAN, UTRAN, EUTRAN]"

primrec RIL_RadioAccessNetworks_code :: "RIL_RadioAccessNetworks \<Rightarrow> int" where
  "RIL_RadioAccessNetworks_code GERAN = 1"
| "RIL_RadioAccessNetworks_code UTRAN = 2"
| "RIL_RadioAccessNetworks_code EUTRAN = 3"

interpretation RIL_RadioAccessNetworks: enum_code RIL_RadioAccessNetworks_values RIL_RadioAccessNetworks_code
proof
  show "x \<in> set RIL_RadioAccessNetworks_values" for x by (cases x) (simp_all add: RIL_RadioAccessNetworks_values_def)
  show "distinct (map RIL_RadioAccessNetworks_code RIL_RadioAccessNetworks_values)" by (simp add: RIL_RadioAccessNetworks_values_def)
qed

datatype RIL_GeranBands =
    GERAN_BAND_T380 | GERAN_BAND_T410 | GERAN_BAND_450 | GERAN_BAND_480 | GERAN_BAND_710
     | GERAN_BAND_750 | GERAN_BAND_T810 | GERAN_BAND_850 | GERAN_BAND_P900 | GERAN_BAND_E900
     | GERAN_BAND_R900 | GERAN_BAND_DCS1800 | GERAN_BAND_PCS1900 | GERAN_BAND_ER900

definition RIL_GeranBands_values :: "RIL_GeranBands list" where
  "RIL_GeranBands_values = [
     GERAN_BAND_T380, GERAN_BAND_T410, GERAN_BAND_450, GERAN_BAND_480, GERAN_BAND_710
     , GERAN_BAND_750, GERAN_BAND_T810, GERAN_BAND_850, GERAN_BAND_P900, GERAN_BAND_E900
     , GERAN_BAND_R900, GERAN_BAND_DCS1800, GERAN_BAND_PCS1900, GERAN_BAND_ER900]"

primrec RIL_GeranBands_code :: "RIL_GeranBands \<Rightarrow> int" where
  "RIL_GeranBands_code GERAN_BAND_T380 = 1"
| "RIL_GeranBands_code GERAN_BAND_T410 = 2"
| "RIL_GeranBands_code GERAN_BAND_450 = 3"
| "RIL_GeranBands_code GERAN_BAND_480 = 4"
| "RIL_GeranBands_code GERAN_BAND_710 = 5"
| "RIL_GeranBands_code GERAN_BAND_750 = 6"
| "RIL_GeranBands_code GERAN_BAND_T810 = 7"
| "RIL_GeranBands_code GERAN_BAND_850 = 8"
| "RIL_GeranBands_code GERAN_BAND_P900 = 9"
| "RIL_GeranBands_code GERAN_BAND_E900 = 10"
| "RIL_GeranBands_code GERAN_BAND_R900 = 11"
| "RIL_GeranBands_code GERAN_BAND_DCS1800 = 12"
| "RIL_GeranBands_code GERAN_BAND_PCS1900 = 13"
| "RIL_GeranBands_code GERAN_BAND_ER900 = 14"

interpretation RIL_GeranBands: enum_code RIL_GeranBands_values RIL_GeranBands_code
proof
  show "x \<in> set RIL_GeranBands_values" for x by (cases x) (simp_all add: RIL_GeranBands_values_def)
  show "distinct (map RIL_GeranBands_code RIL_GeranBands_values)" by (simp add: RIL_GeranBands_values_def)
qed

datatype RIL_UtranBands =
    UTRAN_BAND_1 | UTRAN_BAND_2 | UTRAN_BAND_3 | UTRAN_BAND_4 | UTRAN_BAND_5 | UTRAN_BAND_6
     | UTRAN_BAND_7 | UTRAN_BAND_8 | UTRAN_BAND_9 | UTRAN_BAND_10 | UTRAN_BAND_11 | UTRAN_BAND_12
     | UTRAN_BAND_13 | UTRAN_BAND_14 | UTRAN_BAND_19 | UTRAN_BAND_20 | UTRAN_BAND_21 | UTRAN_BAND_22
     | UTRAN_BAND_25 | UTRAN_BAND_26

definition RIL_UtranBands_values :: "RIL_UtranBands list" where
  "RIL_UtranBands_values = [
     UTRAN_BAND_1, UTRAN_BAND_2, UTRAN_BAND_3, UTRAN_BAND_4, UTRAN_BAND_5, UTRAN_BAND_6
     , UTRAN_BAND_7, UTRAN_BAND_8, UTRAN_BAND_9, UTRAN_BAND_10, UTRAN_BAND_11, UTRAN_BAND_12
     , UTRAN_BAND_13, UTRAN_BAND_14, UTRAN_BAND_19, UTRAN_BAND_20, UTRAN_BAND_21, UTRAN_BAND_22
     , UTRAN_BAND_25, UTRAN_BAND_26]"

primrec RIL_UtranBands_code :: "RIL_UtranBands \<Rightarrow> int" where
  "RIL_UtranBands_code UTRAN_BAND_1 = 1"
| "RIL_UtranBands_code UTRAN_BAND_2 = 2"
| "RIL_UtranBands_code UTRAN_BAND_3 = 3"
| "RIL_UtranBands_code UTRAN_BAND_4 = 4"
| "RIL_UtranBands_code UTRAN_BAND_5 = 5"
| "RIL_UtranBands_code UTRAN_BAND_6 = 6"
| "RIL_UtranBands_code UTRAN_BAND_7 = 7"
| "RIL_UtranBands_code UTRAN_BAND_8 = 8"
| "RIL_UtranBands_code UTRAN_BAND_9 = 9"
| "RIL_UtranBands_code UTRAN_BAND_10 = 10"
| "RIL_UtranBands_code UTRAN_BAND_11 = 11"
| "RIL_UtranBands_code UTRAN_BAND_12 = 12"
| "RIL_UtranBands_code UTRAN_BAND_13 = 13"
| "RIL_UtranBands_code UTRAN_BAND_14 = 14"
| "RIL_UtranBands_code UTRAN_BAND_19 = 19"
| "RIL_UtranBands_code UTRAN_BAND_20 = 20"
| "RIL_UtranBands_code UTRAN_BAND_21 = 21"
| "RIL_UtranBands_code UTRAN_BAND_22 = 22"
| "RIL_UtranBands_code UTRAN_BAND_25 = 25"
| "RIL_UtranBands_code UTRAN_BAND_26 = 26"

interpretation RIL_UtranBands: enum_code RIL_UtranBands_values RIL_UtranBands_code
proof
  show "x \<in> set RIL_UtranBands_values" for x by (cases x) (simp_all add: RIL_UtranBands_values_def)
  show "distinct (map RIL_UtranBands_code RIL_UtranBands_values)" by (simp add: RIL_UtranBands_values_def)
qed

type_synonym RIL_EutranBands = int

definition EUTRAN_BAND_1 :: RIL_EutranBands where "EUTRAN_BAND_1 = 1"
definition EUTRAN_BAND_2 :: RIL_EutranBands where "EUTRAN_BAND_2 = 2"
definition EUTRAN_BAND_3 :: RIL_EutranBands where "EUTRAN_BAND_3 = 3"
definition EUTRAN_BAND_4 :: RIL_EutranBands where "EUTRAN_BAND_4 = 4"
definition EUTRAN_BAND_5 :: RIL_EutranBands where "EUTRAN_BAND_5 = 5"
definition EUTRAN_BAND_6 :: RIL_EutranBands where "EUTRAN_BAND_6 = 6"
definition EUTRAN_BAND_7 :: RIL_EutranBands where "EUTRAN_BAND_7 = 7"
definition EUTRAN_BAND_8 :: RIL_EutranBands where "EUTRAN_BAND_8 = 8"
definition EUTRAN_BAND_9 :: RIL_EutranBands where "EUTRAN_BAND_9 = 9"
definition EUTRAN_BAND_10 :: RIL_EutranBands where "EUTRAN_BAND_10 = 10"
definition EUTRAN_BAND_11 :: RIL_EutranBands where "EUTRAN_BAND_11 = 11"
definition EUTRAN_BAND_12 :: RIL_EutranBands where "EUTRAN_BAND_12 = 12"
definition EUTRAN_BAND_13 :: RIL_EutranBands where "EUTRAN_BAND_13 = 13"
definition EUTRAN_BAND_14 :: RIL_EutranBands where "EUTRAN_BAND_14 = 14"
definition EUTRAN_BAND_17 :: RIL_EutranBands where "EUTRAN_BAND_17 = 17"
definition EUTRAN_BAND_18 :: RIL_EutranBands where "EUTRAN_BAND_18 = 18"
definition EUTRAN_BAND_19 :: RIL_EutranBands where "EUTRAN_BAND_19 = 19"
definition EUTRAN_BAND_20 :: RIL_EutranBands where "EUTRAN_BAND_20 = 20"
definition EUTRAN_BAND_21 :: RIL_EutranBands where "EUTRAN_BAND_21 = 21"
definition EUTRAN_BAND_22 :: RIL_EutranBands where "EUTRAN_BAND_22 = 22"
definition EUTRAN_BAND_23 :: RIL_EutranBands where "EUTRAN_BAND_23 = 23"
definition EUTRAN_BAND_24 :: RIL_EutranBands where "EUTRAN_BAND_24 = 24"
definition EUTRAN_BAND_25 :: RIL_EutranBands where "EUTRAN_BAND_25 = 25"
definition EUTRAN_BAND_26 :: RIL_EutranBands where "EUTRAN_BAND_26 = 26"
definition EUTRAN_BAND_27 :: RIL_EutranBands where "EUTRAN_BAND_27 = 27"
definition EUTRAN_BAND_28 :: RIL_EutranBands where "EUTRAN_BAND_28 = 28"
definition EUTRAN_BAND_30 :: RIL_EutranBands where "EUTRAN_BAND_30 = 30"
definition EUTRAN_BAND_31 :: RIL_EutranBands where "EUTRAN_BAND_31 = 31"
definition EUTRAN_BAND_33 :: RIL_EutranBands where "EUTRAN_BAND_33 = 33"
definition EUTRAN_BAND_34 :: RIL_EutranBands where "EUTRAN_BAND_34 = 34"
definition EUTRAN_BAND_35 :: RIL_EutranBands where "EUTRAN_BAND_35 = 35"
definition EUTRAN_BAND_36 :: RIL_EutranBands where "EUTRAN_BAND_36 = 36"
definition EUTRAN_BAND_37 :: RIL_EutranBands where "EUTRAN_BAND_37 = 37"
definition EUTRAN_BAND_38 :: RIL_EutranBands where "EUTRAN_BAND_38 = 38"
definition EUTRAN_BAND_39 :: RIL_EutranBands where "EUTRAN_BAND_39 = 39"
definition EUTRAN_BAND_40 :: RIL_EutranBands where "EUTRAN_BAND_40 = 40"
definition EUTRAN_BAND_41 :: RIL_EutranBands where "EUTRAN_BAND_41 = 41"
definition EUTRAN_BAND_42 :: RIL_EutranBands where "EUTRAN_BAND_42 = 42"
definition EUTRAN_BAND_43 :: RIL_EutranBands where "EUTRAN_BAND_43 = 43"
definition EUTRAN_BAND_44 :: RIL_EutranBands where "EUTRAN_BAND_44 = 44"
definition EUTRAN_BAND_45 :: RIL_EutranBands where "EUTRAN_BAND_45 = 45"
definition EUTRAN_BAND_46 :: RIL_EutranBands where "EUTRAN_BAND_46 = 46"
definition EUTRAN_BAND_47 :: RIL_EutranBands where "EUTRAN_BAND_47 = 47"
definition EUTRAN_BAND_48 :: RIL_EutranBands where "EUTRAN_BAND_48 = 48"
definition EUTRAN_BAND_65 :: RIL_EutranBands where "EUTRAN_BAND_65 = 65"
definition EUTRAN_BAND_66 :: RIL_EutranBands where "EUTRAN_BAND_66 = 66"
definition EUTRAN_BAND_68 :: RIL_EutranBands where "EUTRAN_BAND_68 = 68"
definition EUTRAN_BAND_70 :: RIL_EutranBands where "EUTRAN_BAND_70 = 70"

definition RIL_EutranBands_values :: "RIL_EutranBands list" where
  "RIL_EutranBands_values = [
     EUTRAN_BAND_1, EUTRAN_BAND_2, EUTRAN_BAND_3, EUTRAN_BAND_4, EUTRAN_BAND_5, EUTRAN_BAND_6
     , EUTRAN_BAND_7, EUTRAN_BAND_8, EUTRAN_BAND_9, EUTRAN_BAND_10, EUTRAN_BAND_11, EUTRAN_BAND_12
     , EUTRAN_BAND_13, EUTRAN_BAND_14, EUTRAN_BAND_17, EUTRAN_BAND_18, EUTRAN_BAND_19
     , EUTRAN_BAND_20, EUTRAN_BAND_21, EUTRAN_BAND_22, EUTRAN_BAND_23, EUTRAN_BAND_24
     , EUTRAN_BAND_25, EUTRAN_BAND_26, EUTRAN_BAND_27, EUTRAN_BAND_28, EUTRAN_BAND_30
     , EUTRAN_BAND_31, EUTRAN_BAND_33, EUTRAN_BAND_34, EUTRAN_BAND_35, EUTRAN_BAND_36
     , EUTRAN_BAND_37, EUTRAN_BAND_38, EUTRAN_BAND_39, EUTRAN_BAND_40, EUTRAN_BAND_41
     , EUTRAN_BAND_42, EUTRAN_BAND_43, EUTRAN_BAND_44, EUTRAN_BAND_45, EUTRAN_BAND_46
     , EUTRAN_BAND_47, EUTRAN_BAND_48, EUTRAN_BAND_65, EUTRAN_BAND_66, EUTRAN_BAND_68
     , EUTRAN_BAND_70]"

lemmas RIL_EutranBands_defs =
  EUTRAN_BAND_1_def EUTRAN_BAND_2_def EUTRAN_BAND_3_def EUTRAN_BAND_4_def EUTRAN_BAND_5_def
  EUTRAN_BAND_6_def EUTRAN_BAND_7_def EUTRAN_BAND_8_def EUTRAN_BAND_9_def EUTRAN_BAND_10_def
  EUTRAN_BAND_11_def EUTRAN_BAND_12_def EUTRAN_BAND_13_def EUTRAN_BAND_14_def EUTRAN_BAND_17_def
  EUTRAN_BAND_18_def EUTRAN_BAND_19_def EUTRAN_BAND_20_def EUTRAN_BAND_21_def EUTRAN_BAND_22_def
  EUTRAN_BAND_23_def EUTRAN_BAND_24_def EUTRAN_BAND_25_def EUTRAN_BAND_26_def EUTRAN_BAND_27_def
  EUTRAN_BAND_28_def EUTRAN_BAND_30_def EUTRAN_BAND_31_def EUTRAN_BAND_33_def EUTRAN_BAND_34_def
  EUTRAN_BAND_35_def EUTRAN_BAND_36_def EUTRAN_BAND_37_def EUTRAN_BAND_38_def EUTRAN_BAND_39_def
  EUTRAN_BAND_40_def EUTRAN_BAND_41_def EUTRAN_BAND_42_def EUTRAN_BAND_43_def EUTRAN_BAND_44_def
  EUTRAN_BAND_45_def EUTRAN_BAND_46_def EUTRAN_BAND_47_def EUTRAN_BAND_48_def EUTRAN_BAND_65_def
  EUTRAN_BAND_66_def EUTRAN_BAND_68_def EUTRAN_BAND_70_def

interpretation RIL_EutranBands: enum_constants RIL_EutranBands_values
  by unfold_locales (simp add: RIL_EutranBands_values_def RIL_EutranBands_defs)

datatype RIL_ScanStatus =
    PARTIAL | COMPLETE

definition RIL_ScanStatus_values :: "RIL_ScanStatus list" where
  "RIL_ScanStatus_values = [
     PARTIAL, COMPLETE]"

primrec RIL_ScanStatus_code :: "RIL_ScanStatus \<Rightarrow> int" where
  "RIL_ScanStatus_code PARTIAL = 1"
| "RIL_ScanStatus_code COMPLETE = 2"

interpretation RIL_ScanStatus: enum_code RIL_ScanStatus_values RIL_ScanStatus_code
proof
  show "x \<in> set RIL_ScanStatus_values" for x by (cases x) (simp_all add: RIL_ScanStatus_values_def)
  show "distinct (map RIL_ScanStatus_code RIL_ScanStatus_values)" by (simp add: RIL_ScanStatus_values_def)
qed

datatype RIL_KeepaliveType =
    NATT_IPV4 | NATT_IPV6

definition RIL_KeepaliveType_values :: "RIL_KeepaliveType list" where
  "RIL_KeepaliveType_values = [
     NATT_IPV4, NATT_IPV6]"

primrec RIL_KeepaliveType_code :: "RIL_KeepaliveType \<Rightarrow> int" where
  "RIL_KeepaliveType_code NATT_IPV4 = 0"
| "RIL_KeepaliveType_code NATT_IPV6 = 1"

interpretation RIL_KeepaliveType: enum_code RIL_KeepaliveType_values RIL_KeepaliveType_code
proof
  show "x \<in> set RIL_KeepaliveType_values" for x by (cases x) (simp_all add: RIL_KeepaliveType_values_def)
  show "distinct (map RIL_KeepaliveType_code RIL_KeepaliveType_values)" by (simp add: RIL_KeepaliveType_values_def)
qed

datatype RIL_KeepaliveStatusCode =
    KEEPALIVE_ACTIVE | KEEPALIVE_INACTIVE | KEEPALIVE_PENDING

definition RIL_KeepaliveStatusCode_values :: "RIL_KeepaliveStatusCode list" where
  "RIL_KeepaliveStatusCode_values = [
     KEEPALIVE_ACTIVE, KEEPALIVE_INACTIVE, KEEPALIVE_PENDING]"

primrec RIL_KeepaliveStatusCode_code :: "RIL_KeepaliveStatusCode \<Rightarrow> int" where
  "RIL_KeepaliveStatusCode_code KEEPALIVE_ACTIVE = 0"
| "RIL_KeepaliveStatusCode_code KEEPALIVE_INACTIVE = 1"
| "RIL_KeepaliveStatusCode_code KEEPALIVE_PENDING = 2"

interpretation RIL_KeepaliveStatusCode: enum_code RIL_KeepaliveStatusCode_values RIL_KeepaliveStatusCode_code
proof
  show "x \<in> set RIL_KeepaliveStatusCode_values" for x by (cases x) (simp_all add: RIL_KeepaliveStatusCode_values_def)
  show "distinct (map RIL_KeepaliveStatusCode_code RIL_KeepaliveStatusCode_values)" by (simp add: RIL_KeepaliveStatusCode_values_def)
qed

end
