(* ===== verification/RIL_Requests.thy ===== *)
theory RIL_Requests
  imports RIL_Enums
begin

text \<open>
  The requests and unsolicited responses of \<^verbatim>\<open>radio/include/telephony/ril.h\<close>. A request is its
  number together with the errors its contract in the header names under \<^verbatim>\<open>Valid errors\<close>, in that
  order; the name \<^verbatim>\<open>MODEM_INTERNAL_FAILURE\<close> in the contract of
  \<^verbatim>\<open>RIL_REQUEST_SET_CARRIER_INFO_IMSI_ENCRYPTION\<close> is no value of \<^verbatim>\<open>RIL_Errno\<close> and is left out. Where the header says that all errors are valid, the list is that of the whole enumeration. An
  unsolicited response has a number only.
\<close>

record ril_request =
  req_code :: int
  valid_errors :: "RIL_Errno list"

section \<open>Requests\<close>

definition RIL_REQUEST_GET_SIM_STATUS :: ril_request where
  "RIL_REQUEST_GET_SIM_STATUS = \<lparr>req_code = 1, valid_errors = [
     RIL_E_SUCCESS, RIL_E_RADIO_NOT_AVAILABLE, RIL_E_INTERNAL_ERR, RIL_E_NO_MEMORY
     , RIL_E_NO_RESOURCES, RIL_E_CANCELLED, RIL_E_REQUEST_NOT_SUPPORTED]\<rparr>"

definition RIL_REQUEST_ENTER_SIM_PIN :: ril_request where
  "RIL_REQUEST_ENTER_SIM_PIN = \<lparr>req_code = 2, valid_errors = [
     RIL_E_SUCCESS, RIL_E_RADIO_NOT_AVAILABLE, RIL_E_PASSWORD_INCORRECT, RIL_E_INTERNAL_ERR
     , RIL_E_NO_MEMORY, RIL_E_NO_RESOURCES, RIL_E_CANCELLED, RIL_E_INVALID_ARGUMENTS
     , RIL_E_INVALID_SIM_STATE, RIL_E_REQUEST_NOT_SUPPORTED]\<rparr>"

definition RIL_REQUEST_ENTER_SIM_PUK :: ril_request where
  "RIL_REQUEST_ENTER_SIM_PUK = \<lparr>req_code = 3, valid_errors = [
     RIL_E_SUCCESS, RIL_E_RADIO_NOT_AVAILABLE, RIL_E_PASSWORD_INCORRECT, RIL_E_INTERNAL_ERR
     , RIL_E_NO_MEMORY, RIL_E_NO_RESOURCES, RIL_E_CANCELLED, RIL_E_INVALID_ARGUMENTS
     , RIL_E_INVALID_SIM_STATE, RIL_E_REQUEST_NOT_SUPPORTED]\<rparr>"

definition RIL_REQUEST_ENTER_SIM_PIN2 :: ril_request where
  "RIL_REQUEST_ENTER_SIM_PIN2 = \<lparr>req_code = 4, valid_errors = [
     RIL_E_SUCCESS, RIL_E_RADIO_NOT_AVAILABLE, RIL_E_PASSWORD_INCORRECT, RIL_E_INTERNAL_ERR
     , RIL_E_NO_MEMORY, RIL_E_NO_RESOURCES, RIL_E_CANCELLED, RIL_E_INVALID_ARGUMENTS
     , RIL_E_INVALID_SIM_STATE, RIL_E_REQUEST_NOT_SUPPORTED]\<rparr>"

definition RIL_REQUEST_ENTER_SIM_PUK2 :: ril_request where
  "RIL_REQUEST_ENTER_SIM_PUK2 = \<lparr>req_code = 5, valid_errors = [
     RIL_E_SUCCESS, RIL_E_RADIO_NOT_AVAILABLE, RIL_E_PASSWORD_INCORRECT, RIL_E_INTERNAL_ERR
     , RIL_E_NO_MEMORY, RIL_E_NO_RESOURCES, RIL_E_CANCELLED, RIL_E_INVALID_ARGUMENTS
     , RIL_E_INVALID_SIM_STATE, RIL_E_REQUEST_NOT_SUPPORTED]\<rparr>"

definition RIL_REQUEST_CHANGE_SIM_PIN :: ril_request where
  "RIL_REQUEST_CHANGE_SIM_PIN = \<lparr>req_code = 6, valid_errors = [
     RIL_E_SUCCESS, RIL_E_RADIO_NOT_AVAILABLE, RIL_E_PASSWORD_INCORRECT, RIL_E_INTERNAL_ERR
     , RIL_E_NO_MEMORY, RIL_E_NO_RESOURCES, RIL_E_CANCELLED, RIL_E_INVALID_ARGUMENTS
     , RIL_E_INVALID_SIM_STATE, RIL_E_REQUEST_NOT_SUPPORTED]\<rparr>"

definition RIL_REQUEST_CHANGE_SIM_PIN2 :: ril_request where
  "RIL_REQUEST_CHANGE_SIM_PIN2 = \<lparr>req_code = 7, valid_errors = [
     RIL_E_SUCCESS, RIL_E_RADIO_NOT_AVAILABLE, RIL_E_PASSWORD_INCORRECT, RIL_E_INTERNAL_ERR
     , RIL_E_NO_MEMORY, RIL_E_NO_RESOURCES, RIL_E_CANCELLED, RIL_E_INVALID_ARGUMENTS
     , RIL_E_INVALID_SIM_STATE, RIL_E_REQUEST_NOT_SUPPORTED]\<rparr>"

definition RIL_REQUEST_ENTER_NETWORK_DEPERSONALIZATION :: ril_request where
  "RIL_REQUEST_ENTER_NETWORK_DEPERSONALIZATION = \<lparr>req_code = 8, valid_errors = [
     RIL_E_SUCCESS, RIL_E_RADIO_NOT_AVAILABLE, RIL_E_PASSWORD_INCORRECT, RIL_E_SIM_ABSENT
     , RIL_E_INTERNAL_ERR, RIL_E_NO_MEMORY, RIL_E_NO_RESOURCES, RIL_E_CANCELLED
     , RIL_E_REQUEST_NOT_SUPPORTED]\<rparr>"

definition RIL_REQUEST_GET_CURRENT_CALLS :: ril_request where
  "RIL_REQUEST_GET_CURRENT_CALLS = \<lparr>req_code = 9, valid_errors = [
     RIL_E_SUCCESS, RIL_E_RADIO_NOT_AVAILABLE, RIL_E_NO_MEMORY, RIL_E_INTERNAL_ERR
     , RIL_E_NO_RESOURCES, RIL_E_CANCELLED, RIL_E_REQUEST_NOT_SUPPORTED]\<rparr>"

definition RIL_REQUEST_DIAL :: ril_request where
  "RIL_REQUEST_DIAL = \<lparr>req_code = 10, valid_errors = [
     RIL_E_SUCCESS, RIL_E_RADIO_NOT_AVAILABLE, RIL_E_DIAL_MODIFIED_TO_USSD
     , RIL_E_DIAL_MODIFIED_TO_SS, RIL_E_DIAL_MODIFIED_TO_DIAL, RIL_E_INVALID_ARGUMENTS
     , RIL_E_NO_MEMORY, RIL_E_INVALID_STATE, RIL_E_NO_RESOURCES, RIL_E_INTERNAL_ERR
     , RIL_E_FDN_CHECK_FAILURE, RIL_E_MODEM_ERR, RIL_E_NO_SUBSCRIPTION, RIL_E_NO_NETWORK_FOUND
     , RIL_E_INVALID_CALL_ID, RIL_E_DEVICE_IN_USE, RIL_E_OPERATION_NOT_ALLOWED, RIL_E_ABORTED
     , RIL_E_CANCELLED, RIL_E_REQUEST_NOT_SUPPORTED]\<rparr>"

definition RIL_REQUEST_GET_IMSI :: ril_request where
  "RIL_REQUEST_GET_IMSI = \<lparr>req_code = 11, valid_errors = [
     RIL_E_SUCCESS, RIL_E_RADIO_NOT_AVAILABLE, RIL_E_INTERNAL_ERR, RIL_E_NO_MEMORY
     , RIL_E_NO_RESOURCES, RIL_E_CANCELLED, RIL_E_INVALID_SIM_STATE, RIL_E_REQUEST_NOT_SUPPORTED]\<rparr>"

definition RIL_REQUEST_HANGUP :: ril_request where
  "RIL_REQUEST_HANGUP = \<lparr>req_code = 12, valid_errors = [
     RIL_E_SUCCESS, RIL_E_RADIO_NOT_AVAILABLE, RIL_E_INVALID_ARGUMENTS, RIL_E_NO_MEMORY
     , RIL_E_INVALID_STATE, RIL_E_MODEM_ERR, RIL_E_INTERNAL_ERR, RIL_E_NO_MEMORY
     , RIL_E_INVALID_CALL_ID, RIL_E_INVALID_ARGUMENTS, RIL_E_NO_RESOURCES, RIL_E_CANCELLED
     , RIL_E_REQUEST_NOT_SUPPORTED]\<rparr>"

definition RIL_REQUEST_HANGUP_WAITING_OR_BACKGROUND :: ril_request where
  "RIL_REQUEST_HANGUP_WAITING_OR_BACKGROUND = \<lparr>req_code = 13, valid_errors = [
     RIL_E_SUCCESS, RIL_E_RADIO_NOT_AVAILABLE, RIL_E_INVALID_STATE, RIL_E_NO_MEMORY, RIL_E_MODEM_ERR
     , RIL_E_INTERNAL_ERR, RIL_E_NO_MEMORY, RIL_E_INVALID_CALL_ID, RIL_E_NO_RESOURCES
     , RIL_E_OPERATION_NOT_ALLOWED, RIL_E_INVALID_ARGUMENTS, RIL_E_NO_RESOURCES, RIL_E_CANCELLED
     , RIL_E_REQUEST_NOT_SUPPORTED]\<rparr>"

definition RIL_REQUEST_HANGUP_FOREGROUND_RESUME_BACKGROUND :: ril_request where
  "RIL_REQUEST_HANGUP_FOREGROUND_RESUME_BACKGROUND = \<lparr>req_code = 14, valid_errors = [
     RIL_E_SUCCESS, RIL_E_RADIO_NOT_AVAILABLE, RIL_E_INVALID_STATE, RIL_E_NO_MEMORY, RIL_E_MODEM_ERR
     , RIL_E_INTERNAL_ERR, RIL_E_INVALID_CALL_ID, RIL_E_OPERATION_NOT_ALLOWED
     , RIL_E_INVALID_ARGUMENTS, RIL_E_NO_RESOURCES, RIL_E_CANCELLED, RIL_E_REQUEST_NOT_SUPPORTED]\<rparr>"

definition RIL_REQUEST_SWITCH_WAITING_OR_HOLDING_AND_ACTIVE :: ril_request where
  "RIL_REQUEST_SWITCH_WAITING_OR_HOLDING_AND_ACTIVE = \<lparr>req_code = 15, valid_errors = [
     RIL_E_SUCCESS, RIL_E_RADIO_NOT_AVAILABLE, RIL_E_INVALID_STATE, RIL_E_NO_MEMORY, RIL_E_MODEM_ERR
     , RIL_E_INTERNAL_ERR, RIL_E_INVALID_STATE, RIL_E_INVALID_ARGUMENTS, RIL_E_INVALID_CALL_ID
     , RIL_E_OPERATION_NOT_ALLOWED, RIL_E_NO_RESOURCES, RIL_E_CANCELLED, RIL_E_REQUEST_NOT_SUPPORTED]\<rparr>"

definition RIL_REQUEST_CONFERENCE :: ril_request where
  "RIL_REQUEST_CONFERENCE = \<lparr>req_code = 16, valid_errors = [
     RIL_E_SUCCESS, RIL_E_RADIO_NOT_AVAILABLE, RIL_E_NO_MEMORY, RIL_E_MODEM_ERR, RIL_E_INTERNAL_ERR
     , RIL_E_INVALID_STATE, RIL_E_INVALID_CALL_ID, RIL_E_INVALID_ARGUMENTS
     , RIL_E_OPERATION_NOT_ALLOWED, RIL_E_NO_RESOURCES, RIL_E_CANCELLED, RIL_E_REQUEST_NOT_SUPPORTED]\<rparr>"

definition RIL_REQUEST_UDUB :: ril_request where
  "RIL_REQUEST_UDUB = \<lparr>req_code = 17, valid_errors = [
     RIL_E_SUCCESS, RIL_E_RADIO_NOT_AVAILABLE, RIL_E_INVALID_STATE, RIL_E_NO_RESOURCES
     , RIL_E_NO_MEMORY, RIL_E_MODEM_ERR, RIL_E_INTERNAL_ERR, RIL_E_INVALID_CALL_ID
     , RIL_E_OPERATION_NOT_ALLOWED, RIL_E_INVALID_ARGUMENTS, RIL_E_CANCELLED
     , RIL_E_REQUEST_NOT_SUPPORTED]\<rparr>"

definition RIL_REQUEST_LAST_CALL_FAIL_CAUSE :: ril_request where
  "RIL_REQUEST_LAST_CALL_FAIL_CAUSE = \<lparr>req_code = 18, valid_errors = [
     RIL_E_SUCCESS, RIL_E_RADIO_NOT_AVAILABLE, RIL_E_NO_MEMORY, RIL_E_INTERNAL_ERR
     , RIL_E_NO_RESOURCES, RIL_E_CANCELLED, RIL_E_REQUEST_NOT_SUPPORTED]\<rparr>"

definition RIL_REQUEST_SIGNAL_STRENGTH :: ril_request where
  "RIL_REQUEST_SIGNAL_STRENGTH = \<lparr>req_code = 19, valid_errors = [
     RIL_E_SUCCESS, RIL_E_RADIO_NOT_AVAILABLE, RIL_E_NO_MEMORY, RIL_E_INTERNAL_ERR, RIL_E_SYSTEM_ERR
     , RIL_E_MODEM_ERR, RIL_E_NOT_PROVISIONED, RIL_E_REQUEST_NOT_SUPPORTED, RIL_E_NO_RESOURCES
     , RIL_E_CANCELLED]\<rparr>"

definition RIL_REQUEST_VOICE_REGISTRATION_STATE :: ril_request where
  "RIL_REQUEST_VOICE_REGISTRATION_STATE = \<lparr>req_code = 20, valid_errors = [
     RIL_E_SUCCESS, RIL_E_RADIO_NOT_AVAILABLE, RIL_E_INTERNAL_ERR, RIL_E_NO_MEMORY
     , RIL_E_NO_RESOURCES, RIL_E_CANCELLED, RIL_E_REQUEST_NOT_SUPPORTED]\<rparr>"

definition RIL_REQUEST_DATA_REGISTRATION_STATE :: ril_request where
  "RIL_REQUEST_DATA_REGISTRATION_STATE = \<lparr>req_code = 21, valid_errors = [
     RIL_E_SUCCESS, RIL_E_RADIO_NOT_AVAILABLE, RIL_E_NO_MEMORY, RIL_E_INTERNAL_ERR, RIL_E_SYSTEM_ERR
     , RIL_E_MODEM_ERR, RIL_E_NOT_PROVISIONED, RIL_E_REQUEST_NOT_SUPPORTED, RIL_E_NO_RESOURCES
     , RIL_E_CANCELLED]\<rparr>"

definition RIL_REQUEST_OPERATOR :: ril_request where
  "RIL_REQUEST_OPERATOR = \<lparr>req_code = 22, valid_errors = [
     RIL_E_SUCCESS, RIL_E_RADIO_NOT_AVAILABLE, RIL_E_NO_MEMORY, RIL_E_INTERNAL_ERR, RIL_E_SYSTEM_ERR
     , RIL_E_REQUEST_NOT_SUPPORTED, RIL_E_NO_RESOURCES, RIL_E_CANCELLED]\<rparr>"

definition RIL_REQUEST_RADIO_POWER :: ril_request where
  "RIL_REQUEST_RADIO_POWER = \<lparr>req_code = 23, valid_errors = [
     RIL_E_SUCCESS, RIL_E_RADIO_NOT_AVAILABLE, RIL_E_OPERATION_NOT_ALLOWED, RIL_E_INVALID_STATE
     , RIL_E_NO_MEMORY, RIL_E_INTERNAL_ERR, RIL_E_SYSTEM_ERR, RIL_E_INVALID_ARGUMENTS
     , RIL_E_MODEM_ERR, RIL_E_DEVICE_IN_USE, RIL_E_OPERATION_NOT_ALLOWED, RIL_E_INVALID_MODEM_STATE
     , RIL_E_REQUEST_NOT_SUPPORTED, RIL_E_NO_RESOURCES, RIL_E_CANCELLED]\<rparr>"

definition RIL_REQUEST_DTMF :: ril_request where
  "RIL_REQUEST_DTMF = \<lparr>req_code = 24, valid_errors = [
     RIL_E_SUCCESS, RIL_E_RADIO_NOT_AVAILABLE, RIL_E_INVALID_ARGUMENTS, RIL_E_NO_RESOURCES
     , RIL_E_NO_MEMORY, RIL_E_MODEM_ERR, RIL_E_INTERNAL_ERR, RIL_E_INVALID_CALL_ID
     , RIL_E_NO_RESOURCES, RIL_E_CANCELLED, RIL_E_INVALID_MODEM_STATE, RIL_E_REQUEST_NOT_SUPPORTED]\<rparr>"

definition RIL_REQUEST_SEND_SMS :: ril_request where
  "RIL_REQUEST_SEND_SMS = \<lparr>req_code = 25, valid_errors = [
     RIL_E_SUCCESS, RIL_E_RADIO_NOT_AVAILABLE, RIL_E_SMS_SEND_FAIL_RETRY, RIL_E_FDN_CHECK_FAILURE
     , RIL_E_NETWORK_REJECT, RIL_E_INVALID_STATE, RIL_E_INVALID_ARGUMENTS, RIL_E_NO_MEMORY
     , RIL_E_REQUEST_RATE_LIMITED, RIL_E_INVALID_SMS_FORMAT, RIL_E_SYSTEM_ERR, RIL_E_ENCODING_ERR
     , RIL_E_INVALID_SMSC_ADDRESS, RIL_E_MODEM_ERR, RIL_E_NETWORK_ERR, RIL_E_OPERATION_NOT_ALLOWED
     , RIL_E_NO_MEMORY, RIL_E_NO_RESOURCES, RIL_E_CANCELLED, RIL_E_REQUEST_NOT_SUPPORTED
     , RIL_E_MODE_NOT_SUPPORTED, RIL_E_SIM_ABSENT]\<rparr>"

definition RIL_REQUEST_SEND_SMS_EXPECT_MORE :: ril_request where
  "RIL_REQUEST_SEND_SMS_EXPECT_MORE = \<lparr>req_code = 26, valid_errors = [
     RIL_E_SUCCESS, RIL_E_RADIO_NOT_AVAILABLE, RIL_E_SMS_SEND_FAIL_RETRY, RIL_E_NETWORK_REJECT
     , RIL_E_INVALID_STATE, RIL_E_INVALID_ARGUMENTS, RIL_E_NO_MEMORY, RIL_E_INVALID_SMS_FORMAT
     , RIL_E_SYSTEM_ERR, RIL_E_REQUEST_RATE_LIMITED, RIL_E_FDN_CHECK_FAILURE, RIL_E_MODEM_ERR
     , RIL_E_NETWORK_ERR, RIL_E_ENCODING_ERR, RIL_E_INVALID_SMSC_ADDRESS
     , RIL_E_OPERATION_NOT_ALLOWED, RIL_E_INTERNAL_ERR, RIL_E_NO_RESOURCES, RIL_E_CANCELLED
     , RIL_E_REQUEST_NOT_SUPPORTED, RIL_E_MODE_NOT_SUPPORTED, RIL_E_SIM_ABSENT]\<rparr>"

definition RIL_REQUEST_SETUP_DATA_CALL :: ril_request where
  "RIL_REQUEST_SETUP_DATA_CALL = \<lparr>req_code = 27, valid_errors = [
     RIL_E_SUCCESS, RIL_E_RADIO_NOT_AVAILABLE, RIL_E_OP_NOT_ALLOWED_BEFORE_REG_TO_NW
     , RIL_E_OP_NOT_ALLOWED_DURING_VOICE_CALL, RIL_E_REQUEST_NOT_SUPPORTED, RIL_E_INVALID_ARGUMENTS
     , RIL_E_INTERNAL_ERR, RIL_E_NO_MEMORY, RIL_E_NO_RESOURCES, RIL_E_CANCELLED, RIL_E_SIM_ABSENT]\<rparr>"

definition RIL_REQUEST_SIM_IO :: ril_request where
  "RIL_REQUEST_SIM_IO = \<lparr>req_code = 28, valid_errors = [
     RIL_E_SUCCESS, RIL_E_RADIO_NOT_AVAILABLE, RIL_E_SIM_PIN2, RIL_E_SIM_PUK2
     , RIL_E_INVALID_SIM_STATE, RIL_E_SIM_ERR, RIL_E_REQUEST_NOT_SUPPORTED]\<rparr>"

definition RIL_REQUEST_SEND_USSD :: ril_request where
  "RIL_REQUEST_SEND_USSD = \<lparr>req_code = 29, valid_errors = [
     RIL_E_SUCCESS, RIL_E_RADIO_NOT_AVAILABLE, RIL_E_FDN_CHECK_FAILURE, RIL_E_USSD_MODIFIED_TO_DIAL
     , RIL_E_USSD_MODIFIED_TO_SS, RIL_E_USSD_MODIFIED_TO_USSD, RIL_E_SIM_BUSY
     , RIL_E_OPERATION_NOT_ALLOWED, RIL_E_INVALID_ARGUMENTS, RIL_E_NO_MEMORY, RIL_E_MODEM_ERR
     , RIL_E_INTERNAL_ERR, RIL_E_ABORTED, RIL_E_SYSTEM_ERR, RIL_E_INVALID_STATE, RIL_E_NO_RESOURCES
     , RIL_E_CANCELLED, RIL_E_REQUEST_NOT_SUPPORTED]\<rparr>"

definition RIL_REQUEST_CANCEL_USSD :: ril_request where
  "RIL_REQUEST_CANCEL_USSD = \<lparr>req_code = 30, valid_errors = [
     RIL_E_SUCCESS, RIL_E_RADIO_NOT_AVAILABLE, RIL_E_SIM_BUSY, RIL_E_OPERATION_NOT_ALLOWED
     , RIL_E_MODEM_ERR, RIL_E_INTERNAL_ERR, RIL_E_NO_MEMORY, RIL_E_INVALID_STATE, RIL_E_NO_RESOURCES
     , RIL_E_CANCELLED, RIL_E_REQUEST_NOT_SUPPORTED]\<rparr>"

definition RIL_REQUEST_GET_CLIR :: ril_request where
  "RIL_REQUEST_GET_CLIR = \<lparr>req_code = 31, valid_errors = [
     RIL_E_SUCCESS, RIL_E_RADIO_NOT_AVAILABLE, RIL_E_SS_MODIFIED_TO_DIAL, RIL_E_SS_MODIFIED_TO_USSD
     , RIL_E_SS_MODIFIED_TO_SS, RIL_E_NO_MEMORY, RIL_E_MODEM_ERR, RIL_E_INTERNAL_ERR
     , RIL_E_FDN_CHECK_FAILURE, RIL_E_SYSTEM_ERR, RIL_E_NO_RESOURCES, RIL_E_CANCELLED
     , RIL_E_REQUEST_NOT_SUPPORTED]\<rparr>"

definition RIL_REQUEST_SET_CLIR :: ril_request where
  "RIL_REQUEST_SET_CLIR = \<lparr>req_code = 32, valid_errors = [
     RIL_E_SUCCESS, RIL_E_RADIO_NOT_AVAILABLE, RIL_E_SS_MODIFIED_TO_DIAL, RIL_E_SS_MODIFIED_TO_USSD
     , RIL_E_SS_MODIFIED_TO_SS, RIL_E_INVALID_ARGUMENTS, RIL_E_SYSTEM_ERR, RIL_E_INTERNAL_ERR
     , RIL_E_NO_MEMORY, RIL_E_NO_RESOURCES, RIL_E_CANCELLED, RIL_E_REQUEST_NOT_SUPPORTED]\<rparr>"

definition RIL_REQUEST_QUERY_CALL_FORWARD_STATUS :: ril_request where
  "RIL_REQUEST_QUERY_CALL_FORWARD_STATUS = \<lparr>req_code = 33, valid_errors = [
     RIL_E_SUCCESS, RIL_E_RADIO_NOT_AVAILABLE, RIL_E_SS_MODIFIED_TO_DIAL, RIL_E_SS_MODIFIED_TO_USSD
     , RIL_E_SS_MODIFIED_TO_SS, RIL_E_INVALID_ARGUMENTS, RIL_E_NO_MEMORY, RIL_E_SYSTEM_ERR
     , RIL_E_MODEM_ERR, RIL_E_INTERNAL_ERR, RIL_E_NO_MEMORY, RIL_E_FDN_CHECK_FAILURE
     , RIL_E_NO_RESOURCES, RIL_E_CANCELLED, RIL_E_REQUEST_NOT_SUPPORTED]\<rparr>"

definition RIL_REQUEST_SET_CALL_FORWARD :: ril_request where
  "RIL_REQUEST_SET_CALL_FORWARD = \<lparr>req_code = 34, valid_errors = [
     RIL_E_SUCCESS, RIL_E_RADIO_NOT_AVAILABLE, RIL_E_SS_MODIFIED_TO_DIAL, RIL_E_SS_MODIFIED_TO_USSD
     , RIL_E_SS_MODIFIED_TO_SS, RIL_E_INVALID_ARGUMENTS, RIL_E_NO_MEMORY, RIL_E_SYSTEM_ERR
     , RIL_E_MODEM_ERR, RIL_E_INTERNAL_ERR, RIL_E_INVALID_STATE, RIL_E_FDN_CHECK_FAILURE
     , RIL_E_NO_RESOURCES, RIL_E_CANCELLED, RIL_E_REQUEST_NOT_SUPPORTED]\<rparr>"

definition RIL_REQUEST_QUERY_CALL_WAITING :: ril_request where
  "RIL_REQUEST_QUERY_CALL_WAITING = \<lparr>req_code = 35, valid_errors = [
     RIL_E_SUCCESS, RIL_E_RADIO_NOT_AVAILABLE, RIL_E_SS_MODIFIED_TO_DIAL, RIL_E_SS_MODIFIED_TO_USSD
     , RIL_E_SS_MODIFIED_TO_SS, RIL_E_NO_MEMORY, RIL_E_MODEM_ERR, RIL_E_INTERNAL_ERR
     , RIL_E_NO_MEMORY, RIL_E_FDN_CHECK_FAILURE, RIL_E_INVALID_ARGUMENTS, RIL_E_NO_RESOURCES
     , RIL_E_CANCELLED, RIL_E_REQUEST_NOT_SUPPORTED]\<rparr>"

definition RIL_REQUEST_SET_CALL_WAITING :: ril_request where
  "RIL_REQUEST_SET_CALL_WAITING = \<lparr>req_code = 36, valid_errors = [
     RIL_E_SUCCESS, RIL_E_RADIO_NOT_AVAILABLE, RIL_E_SS_MODIFIED_TO_DIAL, RIL_E_SS_MODIFIED_TO_USSD
     , RIL_E_SS_MODIFIED_TO_SS, RIL_E_INVALID_ARGUMENTS, RIL_E_NO_MEMORY, RIL_E_MODEM_ERR
     , RIL_E_INTERNAL_ERR, RIL_E_INVALID_STATE, RIL_E_FDN_CHECK_FAILURE, RIL_E_NO_RESOURCES
     , RIL_E_CANCELLED, RIL_E_REQUEST_NOT_SUPPORTED]\<rparr>"

definition RIL_REQUEST_SMS_ACKNOWLEDGE :: ril_request where
  "RIL_REQUEST_SMS_ACKNOWLEDGE = \<lparr>req_code = 37, valid_errors = [
     RIL_E_SUCCESS, RIL_E_RADIO_NOT_AVAILABLE, RIL_E_INTERNAL_ERR, RIL_E_NO_MEMORY
     , RIL_E_NO_RESOURCES, RIL_E_CANCELLED, RIL_E_REQUEST_NOT_SUPPORTED]\<rparr>"

definition RIL_REQUEST_GET_IMEI :: ril_request where
  "RIL_REQUEST_GET_IMEI = \<lparr>req_code = 38, valid_errors = [
     RIL_E_SUCCESS, RIL_E_RADIO_NOT_AVAILABLE, RIL_E_NO_MEMORY, RIL_E_INTERNAL_ERR, RIL_E_SYSTEM_ERR
     , RIL_E_MODEM_ERR, RIL_E_NOT_PROVISIONED, RIL_E_REQUEST_NOT_SUPPORTED, RIL_E_NO_RESOURCES
     , RIL_E_CANCELLED]\<rparr>"

definition RIL_REQUEST_GET_IMEISV :: ril_request where
  "RIL_REQUEST_GET_IMEISV = \<lparr>req_code = 39, valid_errors = [
     RIL_E_SUCCESS, RIL_E_RADIO_NOT_AVAILABLE, RIL_E_NO_MEMORY, RIL_E_INTERNAL_ERR, RIL_E_SYSTEM_ERR
     , RIL_E_MODEM_ERR, RIL_E_NOT_PROVISIONED, RIL_E_REQUEST_NOT_SUPPORTED, RIL_E_NO_RESOURCES
     , RIL_E_CANCELLED]\<rparr>"

definition RIL_REQUEST_ANSWER :: ril_request where
  "RIL_REQUEST_ANSWER = \<lparr>req_code = 40, valid_errors = [
     RIL_E_SUCCESS, RIL_E_RADIO_NOT_AVAILABLE, RIL_E_INVALID_STATE, RIL_E_NO_MEMORY
     , RIL_E_SYSTEM_ERR, RIL_E_MODEM_ERR, RIL_E_INTERNAL_ERR, RIL_E_INVALID_CALL_ID
     , RIL_E_NO_RESOURCES, RIL_E_CANCELLED, RIL_E_REQUEST_NOT_SUPPORTED]\<rparr>"

definition RIL_REQUEST_DEACTIVATE_DATA_CALL :: ril_request where
  "RIL_REQUEST_DEACTIVATE_DATA_CALL = \<lparr>req_code = 41, valid_errors = [
     RIL_E_SUCCESS, RIL_E_RADIO_NOT_AVAILABLE, RIL_E_INVALID_CALL_ID, RIL_E_INVALID_STATE
     , RIL_E_INVALID_ARGUMENTS, RIL_E_REQUEST_NOT_SUPPORTED, RIL_E_INTERNAL_ERR, RIL_E_NO_MEMORY
     , RIL_E_NO_RESOURCES, RIL_E_CANCELLED, RIL_E_SIM_ABSENT]\<rparr>"

definition RIL_REQUEST_QUERY_FACILITY_LOCK :: ril_request where
  "RIL_REQUEST_QUERY_FACILITY_LOCK = \<lparr>req_code = 42, valid_errors = [
     RIL_E_SUCCESS, RIL_E_RADIO_NOT_AVAILABLE, RIL_E_SS_MODIFIED_TO_DIAL, RIL_E_SS_MODIFIED_TO_USSD
     , RIL_E_SS_MODIFIED_TO_SS, RIL_E_INVALID_ARGUMENTS, RIL_E_NO_MEMORY, RIL_E_INTERNAL_ERR
     , RIL_E_SYSTEM_ERR, RIL_E_MODEM_ERR, RIL_E_FDN_CHECK_FAILURE, RIL_E_NO_RESOURCES
     , RIL_E_CANCELLED, RIL_E_REQUEST_NOT_SUPPORTED]\<rparr>"

definition RIL_REQUEST_SET_FACILITY_LOCK :: ril_request where
  "RIL_REQUEST_SET_FACILITY_LOCK = \<lparr>req_code = 43, valid_errors = [
     RIL_E_SUCCESS, RIL_E_RADIO_NOT_AVAILABLE, RIL_E_SS_MODIFIED_TO_DIAL, RIL_E_SS_MODIFIED_TO_USSD
     , RIL_E_SS_MODIFIED_TO_SS, RIL_E_INVALID_ARGUMENTS, RIL_E_INTERNAL_ERR, RIL_E_NO_MEMORY
     , RIL_E_MODEM_ERR, RIL_E_INVALID_STATE, RIL_E_FDN_CHECK_FAILURE, RIL_E_NO_RESOURCES
     , RIL_E_CANCELLED, RIL_E_REQUEST_NOT_SUPPORTED]\<rparr>"

definition RIL_REQUEST_CHANGE_BARRING_PASSWORD :: ril_request where
  "RIL_REQUEST_CHANGE_BARRING_PASSWORD = \<lparr>req_code = 44, valid_errors = [
     RIL_E_SUCCESS, RIL_E_RADIO_NOT_AVAILABLE, RIL_E_SS_MODIFIED_TO_DIAL, RIL_E_SS_MODIFIED_TO_USSD
     , RIL_E_SS_MODIFIED_TO_SS, RIL_E_INVALID_ARGUMENTS, RIL_E_NO_MEMORY, RIL_E_MODEM_ERR
     , RIL_E_INTERNAL_ERR, RIL_E_SYSTEM_ERR, RIL_E_FDN_CHECK_FAILURE, RIL_E_NO_RESOURCES
     , RIL_E_CANCELLED, RIL_E_REQUEST_NOT_SUPPORTED]\<rparr>"

definition RIL_REQUEST_QUERY_NETWORK_SELECTION_MODE :: ril_request where
  "RIL_REQUEST_QUERY_NETWORK_SELECTION_MODE = \<lparr>req_code = 45, valid_errors = [
     RIL_E_SUCCESS, RIL_E_RADIO_NOT_AVAILABLE, RIL_E_NO_MEMORY, RIL_E_INTERNAL_ERR, RIL_E_SYSTEM_ERR
     , RIL_E_INVALID_ARGUMENTS, RIL_E_MODEM_ERR, RIL_E_REQUEST_NOT_SUPPORTED, RIL_E_NO_RESOURCES
     , RIL_E_CANCELLED]\<rparr>"

definition RIL_REQUEST_SET_NETWORK_SELECTION_AUTOMATIC :: ril_request where
  "RIL_REQUEST_SET_NETWORK_SELECTION_AUTOMATIC = \<lparr>req_code = 46, valid_errors = [
     RIL_E_SUCCESS, RIL_E_RADIO_NOT_AVAILABLE, RIL_E_ILLEGAL_SIM_OR_ME, RIL_E_OPERATION_NOT_ALLOWED
     , RIL_E_NO_MEMORY, RIL_E_INTERNAL_ERR, RIL_E_SYSTEM_ERR, RIL_E_INVALID_ARGUMENTS
     , RIL_E_MODEM_ERR, RIL_E_REQUEST_NOT_SUPPORTED, RIL_E_NO_RESOURCES, RIL_E_CANCELLED]\<rparr>"

definition RIL_REQUEST_SET_NETWORK_SELECTION_MANUAL :: ril_request where
  "RIL_REQUEST_SET_NETWORK_SELECTION_MANUAL = \<lparr>req_code = 47, valid_errors = [
     RIL_E_SUCCESS, RIL_E_RADIO_NOT_AVAILABLE, RIL_E_ILLEGAL_SIM_OR_ME, RIL_E_OPERATION_NOT_ALLOWED
     , RIL_E_INVALID_STATE, RIL_E_NO_MEMORY, RIL_E_INTERNAL_ERR, RIL_E_SYSTEM_ERR
     , RIL_E_INVALID_ARGUMENTS, RIL_E_MODEM_ERR, RIL_E_REQUEST_NOT_SUPPORTED, RIL_E_NO_RESOURCES
     , RIL_E_CANCELLED]\<rparr>"

definition RIL_REQUEST_QUERY_AVAILABLE_NETWORKS :: ril_request where
  "RIL_REQUEST_QUERY_AVAILABLE_NETWORKS = \<lparr>req_code = 48, valid_errors = [
     RIL_E_SUCCESS, RIL_E_RADIO_NOT_AVAILABLE, RIL_E_OPERATION_NOT_ALLOWED, RIL_E_ABORTED
     , RIL_E_DEVICE_IN_USE, RIL_E_INTERNAL_ERR, RIL_E_NO_MEMORY, RIL_E_MODEM_ERR
     , RIL_E_REQUEST_NOT_SUPPORTED, RIL_E_CANCELLED, RIL_E_OPERATION_NOT_ALLOWED, RIL_E_NO_RESOURCES
     , RIL_E_CANCELLED]\<rparr>"

definition RIL_REQUEST_DTMF_START :: ril_request where
  "RIL_REQUEST_DTMF_START = \<lparr>req_code = 49, valid_errors = [
     RIL_E_SUCCESS, RIL_E_RADIO_NOT_AVAILABLE, RIL_E_INVALID_ARGUMENTS, RIL_E_NO_RESOURCES
     , RIL_E_NO_MEMORY, RIL_E_SYSTEM_ERR, RIL_E_MODEM_ERR, RIL_E_INTERNAL_ERR, RIL_E_INVALID_CALL_ID
     , RIL_E_CANCELLED, RIL_E_INVALID_MODEM_STATE, RIL_E_REQUEST_NOT_SUPPORTED]\<rparr>"

definition RIL_REQUEST_DTMF_STOP :: ril_request where
  "RIL_REQUEST_DTMF_STOP = \<lparr>req_code = 50, valid_errors = [
     RIL_E_SUCCESS, RIL_E_RADIO_NOT_AVAILABLE, RIL_E_OPERATION_NOT_ALLOWED, RIL_E_NO_RESOURCES
     , RIL_E_NO_MEMORY, RIL_E_INVALID_ARGUMENTS, RIL_E_SYSTEM_ERR, RIL_E_MODEM_ERR
     , RIL_E_INTERNAL_ERR, RIL_E_INVALID_CALL_ID, RIL_E_CANCELLED, RIL_E_INVALID_MODEM_STATE
     , RIL_E_REQUEST_NOT_SUPPORTED]\<rparr>"

definition RIL_REQUEST_BASEBAND_VERSION :: ril_request where
  "RIL_REQUEST_BASEBAND_VERSION = \<lparr>req_code = 51, valid_errors = [
     RIL_E_SUCCESS, RIL_E_RADIO_NOT_AVAILABLE, RIL_E_EMPTY_RECORD, RIL_E_NO_MEMORY
     , RIL_E_INTERNAL_ERR, RIL_E_SYSTEM_ERR, RIL_E_MODEM_ERR, RIL_E_NOT_PROVISIONED
     , RIL_E_REQUEST_NOT_SUPPORTED, RIL_E_NO_RESOURCES, RIL_E_CANCELLED]\<rparr>"

definition RIL_REQUEST_SEPARATE_CONNECTION :: ril_request where
  "RIL_REQUEST_SEPARATE_CONNECTION = \<lparr>req_code = 52, valid_errors = [
     RIL_E_SUCCESS, RIL_E_RADIO_NOT_AVAILABLE, RIL_E_INVALID_ARGUMENTS, RIL_E_INVALID_STATE
     , RIL_E_NO_RESOURCES, RIL_E_NO_MEMORY, RIL_E_SYSTEM_ERR, RIL_E_MODEM_ERR, RIL_E_INTERNAL_ERR
     , RIL_E_INVALID_CALL_ID, RIL_E_INVALID_STATE, RIL_E_OPERATION_NOT_ALLOWED, RIL_E_CANCELLED
     , RIL_E_REQUEST_NOT_SUPPORTED]\<rparr>"

definition RIL_REQUEST_SET_MUTE :: ril_request where
  "RIL_REQUEST_SET_MUTE = \<lparr>req_code = 53, valid_errors = [
     RIL_E_SUCCESS, RIL_E_RADIO_NOT_AVAILABLE, RIL_E_INVALID_ARGUMENTS, RIL_E_NO_MEMORY
     , RIL_E_REQUEST_RATE_LIMITED, RIL_E_INTERNAL_ERR, RIL_E_NO_RESOURCES, RIL_E_CANCELLED
     , RIL_E_REQUEST_NOT_SUPPORTED]\<rparr>"

definition RIL_REQUEST_GET_MUTE :: ril_request where
  "RIL_REQUEST_GET_MUTE = \<lparr>req_code = 54, valid_errors = [
     RIL_E_SUCCESS, RIL_E_RADIO_NOT_AVAILABLE, RIL_E_SS_MODIFIED_TO_DIAL, RIL_E_SS_MODIFIED_TO_USSD
     , RIL_E_SS_MODIFIED_TO_SS, RIL_E_NO_MEMORY, RIL_E_REQUEST_RATE_LIMITED, RIL_E_INTERNAL_ERR
     , RIL_E_NO_RESOURCES, RIL_E_CANCELLED, RIL_E_REQUEST_NOT_SUPPORTED]\<rparr>"

definition RIL_REQUEST_QUERY_CLIP :: ril_request where
  "RIL_REQUEST_QUERY_CLIP = \<lparr>req_code = 55, valid_errors = [
     RIL_E_SUCCESS, RIL_E_RADIO_NOT_AVAILABLE, RIL_E_NO_MEMORY, RIL_E_SYSTEM_ERR, RIL_E_MODEM_ERR
     , RIL_E_INTERNAL_ERR, RIL_E_FDN_CHECK_FAILURE, RIL_E_NO_RESOURCES, RIL_E_CANCELLED
     , RIL_E_REQUEST_NOT_SUPPORTED]\<rparr>"

definition RIL_REQUEST_LAST_DATA_CALL_FAIL_CAUSE :: ril_request where
  "RIL_REQUEST_LAST_DATA_CALL_FAIL_CAUSE = \<lparr>req_code = 56, valid_errors = [
     RIL_E_SUCCESS, RIL_E_RADIO_NOT_AVAILABLE, RIL_E_INTERNAL_ERR, RIL_E_NO_MEMORY
     , RIL_E_NO_RESOURCES, RIL_E_CANCELLED, RIL_E_REQUEST_NOT_SUPPORTED]\<rparr>"

definition RIL_REQUEST_DATA_CALL_LIST :: ril_request where
  "RIL_REQUEST_DATA_CALL_LIST = \<lparr>req_code = 57, valid_errors = [
     RIL_E_SUCCESS, RIL_E_RADIO_NOT_AVAILABLE, RIL_E_INTERNAL_ERR, RIL_E_NO_MEMORY
     , RIL_E_NO_RESOURCES, RIL_E_CANCELLED, RIL_E_REQUEST_NOT_SUPPORTED, RIL_E_SIM_ABSENT]\<rparr>"

definition RIL_REQUEST_RESET_RADIO :: ril_request where
  "RIL_REQUEST_RESET_RADIO = \<lparr>req_code = 58, valid_errors = [
     RIL_E_SUCCESS, RIL_E_RADIO_NOT_AVAILABLE, RIL_E_REQUEST_NOT_SUPPORTED]\<rparr>"

definition RIL_REQUEST_OEM_HOOK_RAW :: ril_request where
  "RIL_REQUEST_OEM_HOOK_RAW = \<lparr>req_code = 59, valid_errors = RIL_Errno_values\<rparr>"

definition RIL_REQUEST_OEM_HOOK_STRINGS :: ril_request where
  "RIL_REQUEST_OEM_HOOK_STRINGS = \<lparr>req_code = 60, valid_errors = RIL_Errno_values\<rparr>"

definition RIL_REQUEST_SCREEN_STATE :: ril_request where
  "RIL_REQUEST_SCREEN_STATE = \<lparr>req_code = 61, valid_errors = [
     RIL_E_SUCCESS, RIL_E_NO_MEMORY, RIL_E_INTERNAL_ERR, RIL_E_SYSTEM_ERR, RIL_E_INVALID_ARGUMENTS
     , RIL_E_NO_RESOURCES, RIL_E_CANCELLED, RIL_E_REQUEST_NOT_SUPPORTED]\<rparr>"

definition RIL_REQUEST_SET_SUPP_SVC_NOTIFICATION :: ril_request where
  "RIL_REQUEST_SET_SUPP_SVC_NOTIFICATION = \<lparr>req_code = 62, valid_errors = [
     RIL_E_SUCCESS, RIL_E_RADIO_NOT_AVAILABLE, RIL_E_SIM_BUSY, RIL_E_INVALID_ARGUMENTS
     , RIL_E_NO_MEMORY, RIL_E_SYSTEM_ERR, RIL_E_MODEM_ERR, RIL_E_INTERNAL_ERR, RIL_E_NO_RESOURCES
     , RIL_E_CANCELLED, RIL_E_REQUEST_NOT_SUPPORTED]\<rparr>"

definition RIL_REQUEST_WRITE_SMS_TO_SIM :: ril_request where
  "RIL_REQUEST_WRITE_SMS_TO_SIM = \<lparr>req_code = 63, valid_errors = [
     RIL_E_SUCCESS, RIL_E_SIM_FULL, RIL_E_INVALID_ARGUMENTS, RIL_E_INVALID_SMS_FORMAT
     , RIL_E_INTERNAL_ERR, RIL_E_MODEM_ERR, RIL_E_ENCODING_ERR, RIL_E_NO_MEMORY, RIL_E_NO_RESOURCES
     , RIL_E_INVALID_MODEM_STATE, RIL_E_OPERATION_NOT_ALLOWED, RIL_E_INVALID_SMSC_ADDRESS
     , RIL_E_CANCELLED, RIL_E_INVALID_MODEM_STATE, RIL_E_REQUEST_NOT_SUPPORTED, RIL_E_SIM_ABSENT]\<rparr>"

definition RIL_REQUEST_DELETE_SMS_ON_SIM :: ril_request where
  "RIL_REQUEST_DELETE_SMS_ON_SIM = \<lparr>req_code = 64, valid_errors = [
     RIL_E_SUCCESS, RIL_E_SIM_FULL, RIL_E_INVALID_ARGUMENTS, RIL_E_NO_MEMORY
     , RIL_E_REQUEST_RATE_LIMITED, RIL_E_SYSTEM_ERR, RIL_E_MODEM_ERR, RIL_E_NO_SUCH_ENTRY
     , RIL_E_INTERNAL_ERR, RIL_E_NO_RESOURCES, RIL_E_CANCELLED, RIL_E_INVALID_MODEM_STATE
     , RIL_E_REQUEST_NOT_SUPPORTED, RIL_E_SIM_ABSENT]\<rparr>"

definition RIL_REQUEST_SET_BAND_MODE :: ril_request where
  "RIL_REQUEST_SET_BAND_MODE = \<lparr>req_code = 65, valid_errors = [
     RIL_E_SUCCESS, RIL_E_RADIO_NOT_AVAILABLE, RIL_E_OPERATION_NOT_ALLOWED, RIL_E_NO_MEMORY
     , RIL_E_INTERNAL_ERR, RIL_E_SYSTEM_ERR, RIL_E_INVALID_ARGUMENTS, RIL_E_MODEM_ERR
     , RIL_E_REQUEST_NOT_SUPPORTED, RIL_E_NO_RESOURCES, RIL_E_CANCELLED]\<rparr>"

definition RIL_REQUEST_QUERY_AVAILABLE_BAND_MODE :: ril_request where
  "RIL_REQUEST_QUERY_AVAILABLE_BAND_MODE = \<lparr>req_code = 66, valid_errors = [
     RIL_E_SUCCESS, RIL_E_RADIO_NOT_AVAILABLE, RIL_E_NO_MEMORY, RIL_E_INTERNAL_ERR, RIL_E_SYSTEM_ERR
     , RIL_E_MODEM_ERR, RIL_E_REQUEST_NOT_SUPPORTED, RIL_E_NO_RESOURCES, RIL_E_CANCELLED]\<rparr>"

definition RIL_REQUEST_STK_GET_PROFILE :: ril_request where
  "RIL_REQUEST_STK_GET_PROFILE = \<lparr>req_code = 67, valid_errors = [
     RIL_E_SUCCESS, RIL_E_RADIO_NOT_AVAILABLE, RIL_E_INTERNAL_ERR, RIL_E_NO_MEMORY
     , RIL_E_NO_RESOURCES, RIL_E_CANCELLED, RIL_E_REQUEST_NOT_SUPPORTED]\<rparr>"

definition RIL_REQUEST_STK_SET_PROFILE :: ril_request where
  "RIL_REQUEST_STK_SET_PROFILE = \<lparr>req_code = 68, valid_errors = [
     RIL_E_SUCCESS, RIL_E_RADIO_NOT_AVAILABLE, RIL_E_INTERNAL_ERR, RIL_E_NO_MEMORY
     , RIL_E_NO_RESOURCES, RIL_E_CANCELLED, RIL_E_REQUEST_NOT_SUPPORTED]\<rparr>"

definition RIL_REQUEST_STK_SEND_ENVELOPE_COMMAND :: ril_request where
  "RIL_REQUEST_STK_SEND_ENVELOPE_COMMAND = \<lparr>req_code = 69, valid_errors = [
     RIL_E_SUCCESS, RIL_E_RADIO_NOT_AVAILABLE, RIL_E_SIM_BUSY, RIL_E_OPERATION_NOT_ALLOWED
     , RIL_E_INTERNAL_ERR, RIL_E_NO_MEMORY, RIL_E_NO_RESOURCES, RIL_E_CANCELLED
     , RIL_E_INVALID_ARGUMENTS, RIL_E_MODEM_ERR, RIL_E_REQUEST_NOT_SUPPORTED]\<rparr>"

definition RIL_REQUEST_STK_SEND_TERMINAL_RESPONSE :: ril_request where
  "RIL_REQUEST_STK_SEND_TERMINAL_RESPONSE = \<lparr>req_code = 70, valid_errors = [
     RIL_E_SUCCESS, RIL_E_RADIO_NOT_AVAILABLE, RIL_E_OPERATION_NOT_ALLOWED, RIL_E_INTERNAL_ERR
     , RIL_E_NO_MEMORY, RIL_E_NO_RESOURCES, RIL_E_CANCELLED, RIL_E_INVALID_MODEM_STATE
     , RIL_E_REQUEST_NOT_SUPPORTED]\<rparr>"

definition RIL_REQUEST_STK_HANDLE_CALL_SETUP_REQUESTED_FROM_SIM :: ril_request where
  "RIL_REQUEST_STK_HANDLE_CALL_SETUP_REQUESTED_FROM_SIM = \<lparr>req_code = 71, valid_errors = [
     RIL_E_SUCCESS, RIL_E_RADIO_NOT_AVAILABLE, RIL_E_OPERATION_NOT_ALLOWED, RIL_E_INTERNAL_ERR
     , RIL_E_NO_MEMORY, RIL_E_NO_RESOURCES, RIL_E_CANCELLED, RIL_E_REQUEST_NOT_SUPPORTED]\<rparr>"

definition RIL_REQUEST_EXPLICIT_CALL_TRANSFER :: ril_request where
  "RIL_REQUEST_EXPLICIT_CALL_TRANSFER = \<lparr>req_code = 72, valid_errors = [
     RIL_E_SUCCESS, RIL_E_RADIO_NOT_AVAILABLE, RIL_E_INVALID_STATE, RIL_E_NO_RESOURCES
     , RIL_E_NO_MEMORY, RIL_E_INVALID_ARGUMENTS, RIL_E_SYSTEM_ERR, RIL_E_MODEM_ERR
     , RIL_E_INTERNAL_ERR, RIL_E_INVALID_CALL_ID, RIL_E_INVALID_STATE, RIL_E_OPERATION_NOT_ALLOWED
     , RIL_E_NO_RESOURCES, RIL_E_CANCELLED, RIL_E_REQUEST_NOT_SUPPORTED]\<rparr>"

definition RIL_REQUEST_SET_PREFERRED_NETWORK_TYPE :: ril_request where
  "RIL_REQUEST_SET_PREFERRED_NETWORK_TYPE = \<lparr>req_code = 73, valid_errors = [
     RIL_E_SUCCESS, RIL_E_RADIO_NOT_AVAILABLE, RIL_E_OPERATION_NOT_ALLOWED, RIL_E_MODE_NOT_SUPPORTED
     , RIL_E_NO_MEMORY, RIL_E_INTERNAL_ERR, RIL_E_SYSTEM_ERR, RIL_E_INVALID_ARGUMENTS
     , RIL_E_MODEM_ERR, RIL_E_REQUEST_NOT_SUPPORTED, RIL_E_NO_RESOURCES, RIL_E_CANCELLED]\<rparr>"

definition RIL_REQUEST_GET_PREFERRED_NETWORK_TYPE :: ril_request where
  "RIL_REQUEST_GET_PREFERRED_NETWORK_TYPE = \<lparr>req_code = 74, valid_errors = [
     RIL_E_SUCCESS, RIL_E_RADIO_NOT_AVAILABLE, RIL_E_NO_MEMORY, RIL_E_INTERNAL_ERR, RIL_E_SYSTEM_ERR
     , RIL_E_INVALID_ARGUMENTS, RIL_E_MODEM_ERR, RIL_E_REQUEST_NOT_SUPPORTED, RIL_E_NO_RESOURCES
     , RIL_E_CANCELLED]\<rparr>"

definition RIL_REQUEST_GET_NEIGHBORING_CELL_IDS :: ril_request where
  "RIL_REQUEST_GET_NEIGHBORING_CELL_IDS = \<lparr>req_code = 75, valid_errors = [
     RIL_E_SUCCESS, RIL_E_RADIO_NOT_AVAILABLE, RIL_E_NO_MEMORY, RIL_E_INTERNAL_ERR, RIL_E_SYSTEM_ERR
     , RIL_E_MODEM_ERR, RIL_E_NO_NETWORK_FOUND, RIL_E_REQUEST_NOT_SUPPORTED, RIL_E_NO_RESOURCES
     , RIL_E_CANCELLED]\<rparr>"

definition RIL_REQUEST_SET_LOCATION_UPDATES :: ril_request where
  "RIL_REQUEST_SET_LOCATION_UPDATES = \<lparr>req_code = 76, valid_errors = [
     RIL_E_SUCCESS, RIL_E_RADIO_NOT_AVAILABLE, RIL_E_NO_MEMORY, RIL_E_INTERNAL_ERR, RIL_E_SYSTEM_ERR
     , RIL_E_INVALID_ARGUMENTS, RIL_E_MODEM_ERR, RIL_E_REQUEST_NOT_SUPPORTED, RIL_E_NO_RESOURCES
     , RIL_E_CANCELLED]\<rparr>"

definition RIL_REQUEST_CDMA_SET_SUBSCRIPTION_SOURCE :: ril_request where
  "RIL_REQUEST_CDMA_SET_SUBSCRIPTION_SOURCE = \<lparr>req_code = 77, valid_errors = [
     RIL_E_SUCCESS, RIL_E_RADIO_NOT_AVAILABLE, RIL_E_SIM_ABSENT, RIL_E_SUBSCRIPTION_NOT_AVAILABLE
     , RIL_E_INTERNAL_ERR, RIL_E_NO_MEMORY, RIL_E_NO_RESOURCES, RIL_E_CANCELLED
     , RIL_E_REQUEST_NOT_SUPPORTED]\<rparr>"

definition RIL_REQUEST_CDMA_SET_ROAMING_PREFERENCE :: ril_request where
  "RIL_REQUEST_CDMA_SET_ROAMING_PREFERENCE = \<lparr>req_code = 78, valid_errors = [
     RIL_E_SUCCESS, RIL_E_RADIO_NOT_AVAILABLE, RIL_E_NO_MEMORY, RIL_E_INTERNAL_ERR, RIL_E_SYSTEM_ERR
     , RIL_E_INVALID_ARGUMENTS, RIL_E_MODEM_ERR, RIL_E_REQUEST_NOT_SUPPORTED
     , RIL_E_OPERATION_NOT_ALLOWED, RIL_E_NO_RESOURCES, RIL_E_CANCELLED]\<rparr>"

definition RIL_REQUEST_CDMA_QUERY_ROAMING_PREFERENCE :: ril_request where
  "RIL_REQUEST_CDMA_QUERY_ROAMING_PREFERENCE = \<lparr>req_code = 79, valid_errors = [
     RIL_E_SUCCESS, RIL_E_RADIO_NOT_AVAILABLE, RIL_E_NO_MEMORY, RIL_E_INTERNAL_ERR, RIL_E_SYSTEM_ERR
     , RIL_E_INVALID_ARGUMENTS, RIL_E_MODEM_ERR, RIL_E_REQUEST_NOT_SUPPORTED, RIL_E_NO_RESOURCES
     , RIL_E_CANCELLED]\<rparr>"

definition RIL_REQUEST_SET_TTY_MODE :: ril_request where
  "RIL_REQUEST_SET_TTY_MODE = \<lparr>req_code = 80, valid_errors = [
     RIL_E_SUCCESS, RIL_E_RADIO_NOT_AVAILABLE, RIL_E_INVALID_ARGUMENTS, RIL_E_MODEM_ERR
     , RIL_E_INTERNAL_ERR, RIL_E_NO_MEMORY, RIL_E_INVALID_ARGUMENTS, RIL_E_MODEM_ERR
     , RIL_E_INTERNAL_ERR, RIL_E_NO_MEMORY, RIL_E_NO_RESOURCES, RIL_E_CANCELLED
     , RIL_E_REQUEST_NOT_SUPPORTED]\<rparr>"

definition RIL_REQUEST_QUERY_TTY_MODE :: ril_request where
  "RIL_REQUEST_QUERY_TTY_MODE = \<lparr>req_code = 81, valid_errors = [
     RIL_E_SUCCESS, RIL_E_RADIO_NOT_AVAILABLE, RIL_E_MODEM_ERR, RIL_E_INTERNAL_ERR, RIL_E_NO_MEMORY
     , RIL_E_INVALID_ARGUMENTS, RIL_E_NO_RESOURCES, RIL_E_CANCELLED, RIL_E_REQUEST_NOT_SUPPORTED]\<rparr>"

definition RIL_REQUEST_CDMA_SET_PREFERRED_VOICE_PRIVACY_MODE :: ril_request where
  "RIL_REQUEST_CDMA_SET_PREFERRED_VOICE_PRIVACY_MODE = \<lparr>req_code = 82, valid_errors = [
     RIL_E_SUCCESS, RIL_E_RADIO_NOT_AVAILABLE, RIL_E_INVALID_ARGUMENTS, RIL_E_SYSTEM_ERR
     , RIL_E_MODEM_ERR, RIL_E_INTERNAL_ERR, RIL_E_NO_MEMORY, RIL_E_INVALID_CALL_ID
     , RIL_E_NO_RESOURCES, RIL_E_CANCELLED, RIL_E_REQUEST_NOT_SUPPORTED]\<rparr>"

definition RIL_REQUEST_CDMA_QUERY_PREFERRED_VOICE_PRIVACY_MODE :: ril_request where
  "RIL_REQUEST_CDMA_QUERY_PREFERRED_VOICE_PRIVACY_MODE = \<lparr>req_code = 83, valid_errors = [
     RIL_E_SUCCESS, RIL_E_RADIO_NOT_AVAILABLE, RIL_E_MODEM_ERR, RIL_E_INTERNAL_ERR, RIL_E_NO_MEMORY
     , RIL_E_INVALID_ARGUMENTS, RIL_E_NO_RESOURCES, RIL_E_CANCELLED, RIL_E_REQUEST_NOT_SUPPORTED]\<rparr>"

definition RIL_REQUEST_CDMA_FLASH :: ril_request where
  "RIL_REQUEST_CDMA_FLASH = \<lparr>req_code = 84, valid_errors = [
     RIL_E_SUCCESS, RIL_E_RADIO_NOT_AVAILABLE, RIL_E_INVALID_ARGUMENTS, RIL_E_NO_MEMORY
     , RIL_E_SYSTEM_ERR, RIL_E_MODEM_ERR, RIL_E_INTERNAL_ERR, RIL_E_INVALID_CALL_ID
     , RIL_E_INVALID_STATE, RIL_E_NO_RESOURCES, RIL_E_CANCELLED, RIL_E_REQUEST_NOT_SUPPORTED]\<rparr>"

definition RIL_REQUEST_CDMA_BURST_DTMF :: ril_request where
  "RIL_REQUEST_CDMA_BURST_DTMF = \<lparr>req_code = 85, valid_errors = [
     RIL_E_SUCCESS, RIL_E_RADIO_NOT_AVAILABLE, RIL_E_INVALID_ARGUMENTS, RIL_E_NO_MEMORY
     , RIL_E_SYSTEM_ERR, RIL_E_MODEM_ERR, RIL_E_INTERNAL_ERR, RIL_E_INVALID_CALL_ID
     , RIL_E_NO_RESOURCES, RIL_E_CANCELLED, RIL_E_OPERATION_NOT_ALLOWED, RIL_E_REQUEST_NOT_SUPPORTED]\<rparr>"

definition RIL_REQUEST_CDMA_VALIDATE_AND_WRITE_AKEY :: ril_request where
  "RIL_REQUEST_CDMA_VALIDATE_AND_WRITE_AKEY = \<lparr>req_code = 86, valid_errors = [
     RIL_E_SUCCESS, RIL_E_RADIO_NOT_AVAILABLE, RIL_E_NO_MEMORY, RIL_E_INTERNAL_ERR, RIL_E_SYSTEM_ERR
     , RIL_E_INVALID_ARGUMENTS, RIL_E_MODEM_ERR, RIL_E_REQUEST_NOT_SUPPORTED, RIL_E_NO_RESOURCES
     , RIL_E_CANCELLED]\<rparr>"

definition RIL_REQUEST_CDMA_SEND_SMS :: ril_request where
  "RIL_REQUEST_CDMA_SEND_SMS = \<lparr>req_code = 87, valid_errors = [
     RIL_E_SUCCESS, RIL_E_RADIO_NOT_AVAILABLE, RIL_E_SMS_SEND_FAIL_RETRY, RIL_E_NETWORK_REJECT
     , RIL_E_INVALID_STATE, RIL_E_INVALID_ARGUMENTS, RIL_E_NO_MEMORY, RIL_E_REQUEST_RATE_LIMITED
     , RIL_E_INVALID_SMS_FORMAT, RIL_E_SYSTEM_ERR, RIL_E_FDN_CHECK_FAILURE, RIL_E_MODEM_ERR
     , RIL_E_NETWORK_ERR, RIL_E_ENCODING_ERR, RIL_E_INVALID_SMSC_ADDRESS
     , RIL_E_OPERATION_NOT_ALLOWED, RIL_E_NO_RESOURCES, RIL_E_CANCELLED, RIL_E_REQUEST_NOT_SUPPORTED
     , RIL_E_MODE_NOT_SUPPORTED, RIL_E_SIM_ABSENT]\<rparr>"

definition RIL_REQUEST_CDMA_SMS_ACKNOWLEDGE :: ril_request where
  "RIL_REQUEST_CDMA_SMS_ACKNOWLEDGE = \<lparr>req_code = 88, valid_errors = [
     RIL_E_SUCCESS, RIL_E_RADIO_NOT_AVAILABLE, RIL_E_INVALID_ARGUMENTS, RIL_E_NO_SMS_TO_ACK
     , RIL_E_INVALID_STATE, RIL_E_NO_MEMORY, RIL_E_REQUEST_RATE_LIMITED, RIL_E_SYSTEM_ERR
     , RIL_E_MODEM_ERR, RIL_E_INVALID_STATE, RIL_E_OPERATION_NOT_ALLOWED, RIL_E_NETWORK_NOT_READY
     , RIL_E_INVALID_MODEM_STATE, RIL_E_REQUEST_NOT_SUPPORTED]\<rparr>"

definition RIL_REQUEST_GSM_GET_BROADCAST_SMS_CONFIG :: ril_request where
  "RIL_REQUEST_GSM_GET_BROADCAST_SMS_CONFIG = \<lparr>req_code = 89, valid_errors = [
     RIL_E_SUCCESS, RIL_E_RADIO_NOT_AVAILABLE, RIL_E_INVALID_STATE, RIL_E_NO_MEMORY
     , RIL_E_REQUEST_RATE_LIMITED, RIL_E_SYSTEM_ERR, RIL_E_NO_RESOURCES, RIL_E_MODEM_ERR
     , RIL_E_SYSTEM_ERR, RIL_E_INTERNAL_ERR, RIL_E_NO_RESOURCES, RIL_E_CANCELLED
     , RIL_E_INVALID_MODEM_STATE, RIL_E_REQUEST_NOT_SUPPORTED]\<rparr>"

definition RIL_REQUEST_GSM_SET_BROADCAST_SMS_CONFIG :: ril_request where
  "RIL_REQUEST_GSM_SET_BROADCAST_SMS_CONFIG = \<lparr>req_code = 90, valid_errors = [
     RIL_E_SUCCESS, RIL_E_RADIO_NOT_AVAILABLE, RIL_E_INVALID_STATE, RIL_E_INVALID_ARGUMENTS
     , RIL_E_NO_MEMORY, RIL_E_SYSTEM_ERR, RIL_E_REQUEST_RATE_LIMITED, RIL_E_MODEM_ERR
     , RIL_E_SYSTEM_ERR, RIL_E_INTERNAL_ERR, RIL_E_NO_RESOURCES, RIL_E_CANCELLED
     , RIL_E_INVALID_MODEM_STATE, RIL_E_REQUEST_NOT_SUPPORTED]\<rparr>"

definition RIL_REQUEST_GSM_SMS_BROADCAST_ACTIVATION :: ril_request where
  "RIL_REQUEST_GSM_SMS_BROADCAST_ACTIVATION = \<lparr>req_code = 91, valid_errors = [
     RIL_E_SUCCESS, RIL_E_RADIO_NOT_AVAILABLE, RIL_E_INVALID_STATE, RIL_E_INVALID_ARGUMENTS
     , RIL_E_NO_MEMORY, RIL_E_SYSTEM_ERR, RIL_E_REQUEST_RATE_LIMITED, RIL_E_MODEM_ERR
     , RIL_E_INTERNAL_ERR, RIL_E_NO_RESOURCES, RIL_E_CANCELLED, RIL_E_INVALID_MODEM_STATE
     , RIL_E_REQUEST_NOT_SUPPORTED]\<rparr>"

definition RIL_REQUEST_CDMA_GET_BROADCAST_SMS_CONFIG :: ril_request where
  "RIL_REQUEST_CDMA_GET_BROADCAST_SMS_CONFIG = \<lparr>req_code = 92, valid_errors = [
     RIL_E_SUCCESS, RIL_E_RADIO_NOT_AVAILABLE, RIL_E_INVALID_STATE, RIL_E_NO_MEMORY
     , RIL_E_REQUEST_RATE_LIMITED, RIL_E_SYSTEM_ERR, RIL_E_NO_RESOURCES, RIL_E_MODEM_ERR
     , RIL_E_SYSTEM_ERR, RIL_E_INTERNAL_ERR, RIL_E_NO_RESOURCES, RIL_E_CANCELLED
     , RIL_E_INVALID_MODEM_STATE, RIL_E_REQUEST_NOT_SUPPORTED]\<rparr>"

definition RIL_REQUEST_CDMA_SET_BROADCAST_SMS_CONFIG :: ril_request where
  "RIL_REQUEST_CDMA_SET_BROADCAST_SMS_CONFIG = \<lparr>req_code = 93, valid_errors = [
     RIL_E_SUCCESS, RIL_E_RADIO_NOT_AVAILABLE, RIL_E_INVALID_STATE, RIL_E_INVALID_ARGUMENTS
     , RIL_E_NO_MEMORY, RIL_E_SYSTEM_ERR, RIL_E_REQUEST_RATE_LIMITED, RIL_E_MODEM_ERR
     , RIL_E_SYSTEM_ERR, RIL_E_INTERNAL_ERR, RIL_E_NO_RESOURCES, RIL_E_CANCELLED
     , RIL_E_INVALID_MODEM_STATE, RIL_E_REQUEST_NOT_SUPPORTED]\<rparr>"

definition RIL_REQUEST_CDMA_SMS_BROADCAST_ACTIVATION :: ril_request where
  "RIL_REQUEST_CDMA_SMS_BROADCAST_ACTIVATION = \<lparr>req_code = 94, valid_errors = [
     RIL_E_SUCCESS, RIL_E_RADIO_NOT_AVAILABLE, RIL_E_INVALID_STATE, RIL_E_INVALID_ARGUMENTS
     , RIL_E_NO_MEMORY, RIL_E_SYSTEM_ERR, RIL_E_REQUEST_RATE_LIMITED, RIL_E_MODEM_ERR
     , RIL_E_INTERNAL_ERR, RIL_E_NO_RESOURCES, RIL_E_CANCELLED, RIL_E_INVALID_MODEM_STATE
     , RIL_E_REQUEST_NOT_SUPPORTED]\<rparr>"

definition RIL_REQUEST_CDMA_SUBSCRIPTION :: ril_request where
  "RIL_REQUEST_CDMA_SUBSCRIPTION = \<lparr>req_code = 95, valid_errors = [
     RIL_E_SUCCESS, RIL_E_SUBSCRIPTION_NOT_AVAILABLE, RIL_E_NO_MEMORY, RIL_E_INTERNAL_ERR
     , RIL_E_SYSTEM_ERR, RIL_E_INVALID_ARGUMENTS, RIL_E_MODEM_ERR, RIL_E_NOT_PROVISIONED
     , RIL_E_REQUEST_NOT_SUPPORTED, RIL_E_INTERNAL_ERR, RIL_E_NO_RESOURCES, RIL_E_CANCELLED]\<rparr>"

definition RIL_REQUEST_CDMA_WRITE_SMS_TO_RUIM :: ril_request where
  "RIL_REQUEST_CDMA_WRITE_SMS_TO_RUIM = \<lparr>req_code = 96, valid_errors = [
     RIL_E_SUCCESS, RIL_E_RADIO_NOT_AVAILABLE, RIL_E_SIM_FULL, RIL_E_INVALID_ARGUMENTS
     , RIL_E_INVALID_SMS_FORMAT, RIL_E_INTERNAL_ERR, RIL_E_MODEM_ERR, RIL_E_ENCODING_ERR
     , RIL_E_NO_MEMORY, RIL_E_NO_RESOURCES, RIL_E_INVALID_MODEM_STATE, RIL_E_OPERATION_NOT_ALLOWED
     , RIL_E_INVALID_SMSC_ADDRESS, RIL_E_CANCELLED, RIL_E_INVALID_MODEM_STATE
     , RIL_E_REQUEST_NOT_SUPPORTED, RIL_E_SIM_ABSENT]\<rparr>"

definition RIL_REQUEST_CDMA_DELETE_SMS_ON_RUIM :: ril_request where
  "RIL_REQUEST_CDMA_DELETE_SMS_ON_RUIM = \<lparr>req_code = 97, valid_errors = [
     RIL_E_SUCCESS, RIL_E_RADIO_NOT_AVAILABLE, RIL_E_INVALID_ARGUMENTS, RIL_E_NO_MEMORY
     , RIL_E_REQUEST_RATE_LIMITED, RIL_E_SYSTEM_ERR, RIL_E_MODEM_ERR, RIL_E_NO_SUCH_ENTRY
     , RIL_E_INTERNAL_ERR, RIL_E_NO_RESOURCES, RIL_E_CANCELLED, RIL_E_INVALID_MODEM_STATE
     , RIL_E_REQUEST_NOT_SUPPORTED, RIL_E_SIM_ABSENT]\<rparr>"

definition RIL_REQUEST_DEVICE_IDENTITY :: ril_request where
  "RIL_REQUEST_DEVICE_IDENTITY = \<lparr>req_code = 98, valid_errors = [
     RIL_E_SUCCESS, RIL_E_RADIO_NOT_AVAILABLE, RIL_E_NO_MEMORY, RIL_E_INTERNAL_ERR, RIL_E_SYSTEM_ERR
     , RIL_E_INVALID_ARGUMENTS, RIL_E_MODEM_ERR, RIL_E_NOT_PROVISIONED, RIL_E_REQUEST_NOT_SUPPORTED
     , RIL_E_NO_RESOURCES, RIL_E_CANCELLED]\<rparr>"

definition RIL_REQUEST_EXIT_EMERGENCY_CALLBACK_MODE :: ril_request where
  "RIL_REQUEST_EXIT_EMERGENCY_CALLBACK_MODE = \<lparr>req_code = 99, valid_errors = [
     RIL_E_SUCCESS, RIL_E_RADIO_NOT_AVAILABLE, RIL_E_OPERATION_NOT_ALLOWED, RIL_E_NO_MEMORY
     , RIL_E_INTERNAL_ERR, RIL_E_SYSTEM_ERR, RIL_E_INVALID_ARGUMENTS, RIL_E_MODEM_ERR
     , RIL_E_REQUEST_NOT_SUPPORTED, RIL_E_NO_RESOURCES, RIL_E_CANCELLED]\<rparr>"

definition RIL_REQUEST_GET_SMSC_ADDRESS :: ril_request where
  "RIL_REQUEST_GET_SMSC_ADDRESS = \<lparr>req_code = 100, valid_errors = [
     RIL_E_SUCCESS, RIL_E_RADIO_NOT_AVAILABLE, RIL_E_NO_MEMORY, RIL_E_REQUEST_RATE_LIMITED
     , RIL_E_SYSTEM_ERR, RIL_E_INTERNAL_ERR, RIL_E_MODEM_ERR, RIL_E_INVALID_ARGUMENTS
     , RIL_E_INVALID_MODEM_STATE, RIL_E_NOT_PROVISIONED, RIL_E_NO_RESOURCES, RIL_E_CANCELLED
     , RIL_E_REQUEST_NOT_SUPPORTED, RIL_E_SIM_ABSENT]\<rparr>"

definition RIL_REQUEST_SET_SMSC_ADDRESS :: ril_request where
  "RIL_REQUEST_SET_SMSC_ADDRESS = \<lparr>req_code = 101, valid_errors = [
     RIL_E_SUCCESS, RIL_E_RADIO_NOT_AVAILABLE, RIL_E_INVALID_ARGUMENTS, RIL_E_INVALID_SMS_FORMAT
     , RIL_E_NO_MEMORY, RIL_E_SYSTEM_ERR, RIL_E_REQUEST_RATE_LIMITED, RIL_E_MODEM_ERR
     , RIL_E_NO_RESOURCES, RIL_E_INTERNAL_ERR, RIL_E_CANCELLED, RIL_E_REQUEST_NOT_SUPPORTED
     , RIL_E_SIM_ABSENT]\<rparr>"

definition RIL_REQUEST_REPORT_SMS_MEMORY_STATUS :: ril_request where
  "RIL_REQUEST_REPORT_SMS_MEMORY_STATUS = \<lparr>req_code = 102, valid_errors = [
     RIL_E_SUCCESS, RIL_E_RADIO_NOT_AVAILABLE, RIL_E_INVALID_ARGUMENTS, RIL_E_NO_MEMORY
     , RIL_E_INVALID_STATE, RIL_E_SYSTEM_ERR, RIL_E_REQUEST_RATE_LIMITED, RIL_E_MODEM_ERR
     , RIL_E_INTERNAL_ERR, RIL_E_NO_RESOURCES, RIL_E_CANCELLED, RIL_E_REQUEST_NOT_SUPPORTED]\<rparr>"

definition RIL_REQUEST_REPORT_STK_SERVICE_IS_RUNNING :: ril_request where
  "RIL_REQUEST_REPORT_STK_SERVICE_IS_RUNNING = \<lparr>req_code = 103, valid_errors = [
     RIL_E_SUCCESS, RIL_E_RADIO_NOT_AVAILABLE, RIL_E_INTERNAL_ERR, RIL_E_NO_MEMORY
     , RIL_E_NO_RESOURCES, RIL_E_CANCELLED, RIL_E_REQUEST_NOT_SUPPORTED]\<rparr>"

definition RIL_REQUEST_CDMA_GET_SUBSCRIPTION_SOURCE :: ril_request where
  "RIL_REQUEST_CDMA_GET_SUBSCRIPTION_SOURCE = \<lparr>req_code = 104, valid_errors = [
     RIL_E_SUCCESS, RIL_E_RADIO_NOT_AVAILABLE, RIL_E_SUBSCRIPTION_NOT_AVAILABLE, RIL_E_INTERNAL_ERR
     , RIL_E_NO_MEMORY, RIL_E_NO_RESOURCES, RIL_E_CANCELLED, RIL_E_REQUEST_NOT_SUPPORTED]\<rparr>"

definition RIL_REQUEST_ISIM_AUTHENTICATION :: ril_request where
  "RIL_REQUEST_ISIM_AUTHENTICATION = \<lparr>req_code = 105, valid_errors = [
     RIL_E_SUCCESS, RIL_E_RADIO_NOT_AVAILABLE, RIL_E_INTERNAL_ERR, RIL_E_NO_MEMORY
     , RIL_E_NO_RESOURCES, RIL_E_CANCELLED, RIL_E_REQUEST_NOT_SUPPORTED]\<rparr>"

definition RIL_REQUEST_ACKNOWLEDGE_INCOMING_GSM_SMS_WITH_PDU :: ril_request where
  "RIL_REQUEST_ACKNOWLEDGE_INCOMING_GSM_SMS_WITH_PDU = \<lparr>req_code = 106, valid_errors = [
     RIL_E_SUCCESS, RIL_E_RADIO_NOT_AVAILABLE, RIL_E_INTERNAL_ERR, RIL_E_NO_MEMORY
     , RIL_E_NO_RESOURCES, RIL_E_CANCELLED, RIL_E_REQUEST_NOT_SUPPORTED]\<rparr>"

definition RIL_REQUEST_STK_SEND_ENVELOPE_WITH_STATUS :: ril_request where
  "RIL_REQUEST_STK_SEND_ENVELOPE_WITH_STATUS = \<lparr>req_code = 107, valid_errors = [
     RIL_E_SUCCESS, RIL_E_RADIO_NOT_AVAILABLE, RIL_E_SIM_BUSY, RIL_E_OPERATION_NOT_ALLOWED
     , RIL_E_INTERNAL_ERR, RIL_E_NO_MEMORY, RIL_E_NO_RESOURCES, RIL_E_CANCELLED
     , RIL_E_REQUEST_NOT_SUPPORTED, RIL_E_SIM_ABSENT]\<rparr>"

definition RIL_REQUEST_VOICE_RADIO_TECH :: ril_request where
  "RIL_REQUEST_VOICE_RADIO_TECH = \<lparr>req_code = 108, valid_errors = [
     RIL_E_SUCCESS, RIL_E_RADIO_NOT_AVAILABLE, RIL_E_INTERNAL_ERR, RIL_E_NO_MEMORY
     , RIL_E_NO_RESOURCES, RIL_E_CANCELLED, RIL_E_REQUEST_NOT_SUPPORTED]\<rparr>"

definition RIL_REQUEST_GET_CELL_INFO_LIST :: ril_request where
  "RIL_REQUEST_GET_CELL_INFO_LIST = \<lparr>req_code = 109, valid_errors = [
     RIL_E_SUCCESS, RIL_E_RADIO_NOT_AVAILABLE, RIL_E_NO_MEMORY, RIL_E_INTERNAL_ERR, RIL_E_SYSTEM_ERR
     , RIL_E_MODEM_ERR, RIL_E_NO_NETWORK_FOUND, RIL_E_REQUEST_NOT_SUPPORTED, RIL_E_NO_RESOURCES
     , RIL_E_CANCELLED]\<rparr>"

definition RIL_REQUEST_SET_UNSOL_CELL_INFO_LIST_RATE :: ril_request where
  "RIL_REQUEST_SET_UNSOL_CELL_INFO_LIST_RATE = \<lparr>req_code = 110, valid_errors = [
     RIL_E_SUCCESS, RIL_E_RADIO_NOT_AVAILABLE, RIL_E_NO_MEMORY, RIL_E_INTERNAL_ERR, RIL_E_SYSTEM_ERR
     , RIL_E_INVALID_ARGUMENTS, RIL_E_REQUEST_NOT_SUPPORTED, RIL_E_NO_RESOURCES, RIL_E_CANCELLED]\<rparr>"

definition RIL_REQUEST_SET_INITIAL_ATTACH_APN :: ril_request where
  "RIL_REQUEST_SET_INITIAL_ATTACH_APN = \<lparr>req_code = 111, valid_errors = [
     RIL_E_SUCCESS, RIL_E_RADIO_NOT_AVAILABLE, RIL_E_SUBSCRIPTION_NOT_AVAILABLE, RIL_E_NO_MEMORY
     , RIL_E_INTERNAL_ERR, RIL_E_SYSTEM_ERR, RIL_E_INVALID_ARGUMENTS, RIL_E_MODEM_ERR
     , RIL_E_NOT_PROVISIONED, RIL_E_REQUEST_NOT_SUPPORTED, RIL_E_NO_RESOURCES, RIL_E_CANCELLED]\<rparr>"

definition RIL_REQUEST_IMS_REGISTRATION_STATE :: ril_request where
  "RIL_REQUEST_IMS_REGISTRATION_STATE = \<lparr>req_code = 112, valid_errors = [
     RIL_E_SUCCESS, RIL_E_RADIO_NOT_AVAILABLE, RIL_E_INTERNAL_ERR, RIL_E_NO_MEMORY
     , RIL_E_NO_RESOURCES, RIL_E_CANCELLED, RIL_E_INVALID_MODEM_STATE, RIL_E_REQUEST_NOT_SUPPORTED]\<rparr>"

definition RIL_REQUEST_IMS_SEND_SMS :: ril_request where
  "RIL_REQUEST_IMS_SEND_SMS = \<lparr>req_code = 113, valid_errors = [
     RIL_E_SUCCESS, RIL_E_RADIO_NOT_AVAILABLE, RIL_E_SMS_SEND_FAIL_RETRY, RIL_E_FDN_CHECK_FAILURE
     , RIL_E_NETWORK_REJECT, RIL_E_INVALID_ARGUMENTS, RIL_E_INVALID_STATE, RIL_E_NO_MEMORY
     , RIL_E_INVALID_SMS_FORMAT, RIL_E_SYSTEM_ERR, RIL_E_REQUEST_RATE_LIMITED, RIL_E_MODEM_ERR
     , RIL_E_NETWORK_ERR, RIL_E_ENCODING_ERR, RIL_E_INVALID_SMSC_ADDRESS
     , RIL_E_OPERATION_NOT_ALLOWED, RIL_E_INTERNAL_ERR, RIL_E_NO_RESOURCES, RIL_E_CANCELLED
     , RIL_E_REQUEST_NOT_SUPPORTED]\<rparr>"

definition RIL_REQUEST_SIM_TRANSMIT_APDU_BASIC :: ril_request where
  "RIL_REQUEST_SIM_TRANSMIT_APDU_BASIC = \<lparr>req_code = 114, valid_errors = [
     RIL_E_SUCCESS, RIL_E_RADIO_NOT_AVAILABLE, RIL_E_INTERNAL_ERR, RIL_E_NO_MEMORY
     , RIL_E_NO_RESOURCES, RIL_E_CANCELLED, RIL_E_REQUEST_NOT_SUPPORTED]\<rparr>"

definition RIL_REQUEST_SIM_OPEN_CHANNEL :: ril_request where
  "RIL_REQUEST_SIM_OPEN_CHANNEL = \<lparr>req_code = 115, valid_errors = [
     RIL_E_SUCCESS, RIL_E_RADIO_NOT_AVAILABLE, RIL_E_MISSING_RESOURCE, RIL_E_NO_SUCH_ELEMENT
     , RIL_E_INTERNAL_ERR, RIL_E_NO_MEMORY, RIL_E_NO_RESOURCES, RIL_E_CANCELLED, RIL_E_SIM_ERR
     , RIL_E_INVALID_SIM_STATE, RIL_E_MISSING_RESOURCE, RIL_E_REQUEST_NOT_SUPPORTED]\<rparr>"

definition RIL_REQUEST_SIM_CLOSE_CHANNEL :: ril_request where
  "RIL_REQUEST_SIM_CLOSE_CHANNEL = \<lparr>req_code = 116, valid_errors = [
     RIL_E_SUCCESS, RIL_E_RADIO_NOT_AVAILABLE, RIL_E_INTERNAL_ERR, RIL_E_NO_MEMORY
     , RIL_E_NO_RESOURCES, RIL_E_CANCELLED, RIL_E_REQUEST_NOT_SUPPORTED]\<rparr>"

definition RIL_REQUEST_SIM_TRANSMIT_APDU_CHANNEL :: ril_request where
  "RIL_REQUEST_SIM_TRANSMIT_APDU_CHANNEL = \<lparr>req_code = 117, valid_errors = [
     RIL_E_SUCCESS, RIL_E_RADIO_NOT_AVAILABLE, RIL_E_INTERNAL_ERR, RIL_E_NO_MEMORY
     , RIL_E_NO_RESOURCES, RIL_E_CANCELLED, RIL_E_REQUEST_NOT_SUPPORTED]\<rparr>"

definition RIL_REQUEST_NV_READ_ITEM :: ril_request where
  "RIL_REQUEST_NV_READ_ITEM = \<lparr>req_code = 118, valid_errors = [
     RIL_E_SUCCESS, RIL_E_RADIO_NOT_AVAILABLE, RIL_E_REQUEST_NOT_SUPPORTED]\<rparr>"

definition RIL_REQUEST_NV_WRITE_ITEM :: ril_request where
  "RIL_REQUEST_NV_WRITE_ITEM = \<lparr>req_code = 119, valid_errors = [
     RIL_E_SUCCESS, RIL_E_RADIO_NOT_AVAILABLE, RIL_E_REQUEST_NOT_SUPPORTED]\<rparr>"

definition RIL_REQUEST_NV_WRITE_CDMA_PRL :: ril_request where
  "RIL_REQUEST_NV_WRITE_CDMA_PRL = \<lparr>req_code = 120, valid_errors = [
     RIL_E_SUCCESS, RIL_E_RADIO_NOT_AVAILABLE, RIL_E_REQUEST_NOT_SUPPORTED]\<rparr>"

definition RIL_REQUEST_NV_RESET_CONFIG :: ril_request where
  "RIL_REQUEST_NV_RESET_CONFIG = \<lparr>req_code = 121, valid_errors = [
     RIL_E_SUCCESS, RIL_E_RADIO_NOT_AVAILABLE, RIL_E_REQUEST_NOT_SUPPORTED]\<rparr>"

definition RIL_REQUEST_SET_UICC_SUBSCRIPTION :: ril_request where
  "RIL_REQUEST_SET_UICC_SUBSCRIPTION = \<lparr>req_code = 122, valid_errors = [
     RIL_E_SUCCESS, RIL_E_RADIO_NOT_AVAILABLE, RIL_E_SUBSCRIPTION_NOT_SUPPORTED, RIL_E_NO_MEMORY
     , RIL_E_INTERNAL_ERR, RIL_E_SYSTEM_ERR, RIL_E_INVALID_ARGUMENTS, RIL_E_MODEM_ERR
     , RIL_E_REQUEST_NOT_SUPPORTED, RIL_E_NO_RESOURCES, RIL_E_CANCELLED]\<rparr>"

definition RIL_REQUEST_ALLOW_DATA :: ril_request where
  "RIL_REQUEST_ALLOW_DATA = \<lparr>req_code = 123, valid_errors = [
     RIL_E_SUCCESS, RIL_E_RADIO_NOT_AVAILABLE, RIL_E_NO_MEMORY, RIL_E_INTERNAL_ERR, RIL_E_SYSTEM_ERR
     , RIL_E_MODEM_ERR, RIL_E_INVALID_ARGUMENTS, RIL_E_DEVICE_IN_USE, RIL_E_INVALID_MODEM_STATE
     , RIL_E_REQUEST_NOT_SUPPORTED, RIL_E_NO_RESOURCES, RIL_E_CANCELLED]\<rparr>"

definition RIL_REQUEST_GET_HARDWARE_CONFIG :: ril_request where
  "RIL_REQUEST_GET_HARDWARE_CONFIG = \<lparr>req_code = 124, valid_errors = [
     RIL_E_RADIO_NOT_AVAILABLE, RIL_E_REQUEST_NOT_SUPPORTED]\<rparr>"

definition RIL_REQUEST_SIM_AUTHENTICATION :: ril_request where
  "RIL_REQUEST_SIM_AUTHENTICATION = \<lparr>req_code = 125, valid_errors = [
     RIL_E_RADIO_NOT_AVAILABLE, RIL_E_INTERNAL_ERR, RIL_E_NO_MEMORY, RIL_E_NO_RESOURCES
     , RIL_E_CANCELLED, RIL_E_INVALID_MODEM_STATE, RIL_E_INVALID_ARGUMENTS, RIL_E_SIM_ERR
     , RIL_E_REQUEST_NOT_SUPPORTED]\<rparr>"

definition RIL_REQUEST_GET_DC_RT_INFO :: ril_request where
  "RIL_REQUEST_GET_DC_RT_INFO = \<lparr>req_code = 126, valid_errors = [
     RIL_E_SUCCESS, RIL_E_RADIO_NOT_AVAILABLE, RIL_E_REQUEST_NOT_SUPPORTED, RIL_E_INTERNAL_ERR
     , RIL_E_NO_MEMORY, RIL_E_NO_RESOURCES, RIL_E_CANCELLED]\<rparr>"

definition RIL_REQUEST_SET_DC_RT_INFO_RATE :: ril_request where
  "RIL_REQUEST_SET_DC_RT_INFO_RATE = \<lparr>req_code = 127, valid_errors = [
     RIL_E_SUCCESS]\<rparr>"

definition RIL_REQUEST_SET_DATA_PROFILE :: ril_request where
  "RIL_REQUEST_SET_DATA_PROFILE = \<lparr>req_code = 128, valid_errors = [
     RIL_E_SUCCESS, RIL_E_RADIO_NOT_AVAILABLE, RIL_E_SUBSCRIPTION_NOT_AVAILABLE, RIL_E_INTERNAL_ERR
     , RIL_E_NO_MEMORY, RIL_E_NO_RESOURCES, RIL_E_CANCELLED, RIL_E_REQUEST_NOT_SUPPORTED
     , RIL_E_SIM_ABSENT]\<rparr>"

definition RIL_REQUEST_SHUTDOWN :: ril_request where
  "RIL_REQUEST_SHUTDOWN = \<lparr>req_code = 129, valid_errors = [
     RIL_E_SUCCESS, RIL_E_RADIO_NOT_AVAILABLE, RIL_E_OPERATION_NOT_ALLOWED, RIL_E_NO_MEMORY
     , RIL_E_INTERNAL_ERR, RIL_E_SYSTEM_ERR, RIL_E_REQUEST_NOT_SUPPORTED, RIL_E_NO_RESOURCES
     , RIL_E_CANCELLED]\<rparr>"

definition RIL_REQUEST_GET_RADIO_CAPABILITY :: ril_request where
  "RIL_REQUEST_GET_RADIO_CAPABILITY = \<lparr>req_code = 130, valid_errors = [
     RIL_E_SUCCESS, RIL_E_RADIO_NOT_AVAILABLE, RIL_E_OPERATION_NOT_ALLOWED, RIL_E_INVALID_STATE
     , RIL_E_REQUEST_NOT_SUPPORTED, RIL_E_INTERNAL_ERR, RIL_E_NO_MEMORY, RIL_E_NO_RESOURCES
     , RIL_E_CANCELLED]\<rparr>"

definition RIL_REQUEST_SET_RADIO_CAPABILITY :: ril_request where
  "RIL_REQUEST_SET_RADIO_CAPABILITY = \<lparr>req_code = 131, valid_errors = [
     RIL_E_SUCCESS, RIL_E_RADIO_NOT_AVAILABLE, RIL_E_OPERATION_NOT_ALLOWED, RIL_E_NO_MEMORY
     , RIL_E_INTERNAL_ERR, RIL_E_SYSTEM_ERR, RIL_E_INVALID_ARGUMENTS, RIL_E_MODEM_ERR
     , RIL_E_INVALID_STATE, RIL_E_REQUEST_NOT_SUPPORTED, RIL_E_NO_RESOURCES, RIL_E_CANCELLED]\<rparr>"

definition RIL_REQUEST_START_LCE :: ril_request where
  "RIL_REQUEST_START_LCE = \<lparr>req_code = 132, valid_errors = [
     RIL_E_SUCCESS, RIL_E_RADIO_NOT_AVAILABLE, RIL_E_LCE_NOT_SUPPORTED, RIL_E_INTERNAL_ERR
     , RIL_E_REQUEST_NOT_SUPPORTED, RIL_E_NO_MEMORY, RIL_E_NO_RESOURCES, RIL_E_CANCELLED
     , RIL_E_SIM_ABSENT]\<rparr>"

definition RIL_REQUEST_STOP_LCE :: ril_request where
  "RIL_REQUEST_STOP_LCE = \<lparr>req_code = 133, valid_errors = [
     RIL_E_SUCCESS, RIL_E_RADIO_NOT_AVAILABLE, RIL_E_LCE_NOT_SUPPORTED, RIL_E_INTERNAL_ERR
     , RIL_E_NO_MEMORY, RIL_E_NO_RESOURCES, RIL_E_CANCELLED, RIL_E_REQUEST_NOT_SUPPORTED
     , RIL_E_SIM_ABSENT]\<rparr>"

definition RIL_REQUEST_PULL_LCEDATA :: ril_request where
  "RIL_REQUEST_PULL_LCEDATA = \<lparr>req_code = 134, valid_errors = [
     RIL_E_SUCCESS, RIL_E_RADIO_NOT_AVAILABLE, RIL_E_LCE_NOT_SUPPORTED, RIL_E_INTERNAL_ERR
     , RIL_E_NO_MEMORY, RIL_E_NO_RESOURCES, RIL_E_CANCELLED, RIL_E_REQUEST_NOT_SUPPORTED
     , RIL_E_SIM_ABSENT]\<rparr>"

definition RIL_REQUEST_GET_ACTIVITY_INFO :: ril_request where
  "RIL_REQUEST_GET_ACTIVITY_INFO = \<lparr>req_code = 135, valid_errors = [
     RIL_E_SUCCESS, RIL_E_RADIO_NOT_AVAILABLE, RIL_E_NO_MEMORY, RIL_E_INTERNAL_ERR, RIL_E_SYSTEM_ERR
     , RIL_E_MODEM_ERR, RIL_E_NOT_PROVISIONED, RIL_E_REQUEST_NOT_SUPPORTED, RIL_E_NO_RESOURCES
     , RIL_E_CANCELLED]\<rparr>"

definition RIL_REQUEST_SET_CARRIER_RESTRICTIONS :: ril_request where
  "RIL_REQUEST_SET_CARRIER_RESTRICTIONS = \<lparr>req_code = 136, valid_errors = [
     RIL_E_SUCCESS, RIL_E_INVALID_ARGUMENTS, RIL_E_RADIO_NOT_AVAILABLE, RIL_E_REQUEST_NOT_SUPPORTED
     , RIL_E_INTERNAL_ERR, RIL_E_NO_MEMORY, RIL_E_NO_RESOURCES, RIL_E_CANCELLED]\<rparr>"

definition RIL_REQUEST_GET_CARRIER_RESTRICTIONS :: ril_request where
  "RIL_REQUEST_GET_CARRIER_RESTRICTIONS = \<lparr>req_code = 137, valid_errors = [
     RIL_E_SUCCESS, RIL_E_RADIO_NOT_AVAILABLE, RIL_E_REQUEST_NOT_SUPPORTED, RIL_E_INTERNAL_ERR
     , RIL_E_NO_MEMORY, RIL_E_NO_RESOURCES, RIL_E_CANCELLED]\<rparr>"

definition RIL_REQUEST_SEND_DEVICE_STATE :: ril_request where
  "RIL_REQUEST_SEND_DEVICE_STATE = \<lparr>req_code = 138, valid_errors = [
     RIL_E_SUCCESS, RIL_E_RADIO_NOT_AVAILABLE, RIL_E_NO_MEMORY, RIL_E_INTERNAL_ERR, RIL_E_SYSTEM_ERR
     , RIL_E_INVALID_ARGUMENTS, RIL_E_REQUEST_NOT_SUPPORTED, RIL_E_NO_RESOURCES, RIL_E_CANCELLED]\<rparr>"

definition RIL_REQUEST_SET_UNSOLICITED_RESPONSE_FILTER :: ril_request where
  "RIL_REQUEST_SET_UNSOLICITED_RESPONSE_FILTER = \<lparr>req_code = 139, valid_errors = [
     RIL_E_SUCCESS, RIL_E_INVALID_ARGUMENTS, RIL_E_RADIO_NOT_AVAILABLE, RIL_E_NO_MEMORY
     , RIL_E_INTERNAL_ERR, RIL_E_SYSTEM_ERR, RIL_E_REQUEST_NOT_SUPPORTED, RIL_E_NO_RESOURCES
     , RIL_E_CANCELLED]\<rparr>"

definition RIL_REQUEST_SET_SIM_CARD_POWER :: ril_request where
  "RIL_REQUEST_SET_SIM_CARD_POWER = \<lparr>req_code = 140, valid_errors = [
     RIL_E_SUCCESS, RIL_E_RADIO_NOT_AVAILABLE, RIL_E_REQUEST_NOT_SUPPORTED, RIL_E_SIM_ABSENT
     , RIL_E_INVALID_ARGUMENTS, RIL_E_INTERNAL_ERR, RIL_E_NO_MEMORY, RIL_E_NO_RESOURCES
     , RIL_E_CANCELLED]\<rparr>"

definition RIL_REQUEST_SET_CARRIER_INFO_IMSI_ENCRYPTION :: ril_request where
  "RIL_REQUEST_SET_CARRIER_INFO_IMSI_ENCRYPTION = \<lparr>req_code = 141, valid_errors = [
     RIL_E_SUCCESS, RIL_E_RADIO_NOT_AVAILABLE, RIL_E_SIM_ABSENT, RIL_E_REQUEST_NOT_SUPPORTED
     , RIL_E_INVALID_ARGUMENTS, RIL_E_INTERNAL_ERR, RIL_E_NO_MEMORY, RIL_E_NO_RESOURCES
     , RIL_E_CANCELLED]\<rparr>"

definition RIL_REQUEST_START_NETWORK_SCAN :: ril_request where
  "RIL_REQUEST_START_NETWORK_SCAN = \<lparr>req_code = 142, valid_errors = [
     RIL_E_SUCCESS, RIL_E_RADIO_NOT_AVAILABLE, RIL_E_OPERATION_NOT_ALLOWED, RIL_E_DEVICE_IN_USE
     , RIL_E_INTERNAL_ERR, RIL_E_NO_MEMORY, RIL_E_MODEM_ERR, RIL_E_INVALID_ARGUMENTS
     , RIL_E_REQUEST_NOT_SUPPORTED, RIL_E_NO_RESOURCES, RIL_E_CANCELLED]\<rparr>"

definition RIL_REQUEST_STOP_NETWORK_SCAN :: ril_request where
  "RIL_REQUEST_STOP_NETWORK_SCAN = \<lparr>req_code = 143, valid_errors = [
     RIL_E_SUCCESS, RIL_E_INTERNAL_ERR, RIL_E_MODEM_ERR, RIL_E_NO_MEMORY, RIL_E_NO_RESOURCES
     , RIL_E_CANCELLED, RIL_E_REQUEST_NOT_SUPPORTED]\<rparr>"

definition RIL_REQUEST_START_KEEPALIVE :: ril_request where
  "RIL_REQUEST_START_KEEPALIVE = \<lparr>req_code = 144, valid_errors = [
     RIL_E_SUCCESS, RIL_E_NO_RESOURCES, RIL_E_INVALID_ARGUMENTS]\<rparr>"

definition RIL_REQUEST_STOP_KEEPALIVE :: ril_request where
  "RIL_REQUEST_STOP_KEEPALIVE = \<lparr>req_code = 145, valid_errors = [
     RIL_E_SUCCESS, RIL_E_INVALID_ARGUMENTS]\<rparr>"

definition RIL_REQUEST_SWITCH_HOLDING_AND_ACTIVE :: ril_request where
  "RIL_REQUEST_SWITCH_HOLDING_AND_ACTIVE = RIL_REQUEST_SWITCH_WAITING_OR_HOLDING_AND_ACTIVE"

definition ril_requests :: "ril_request list" where
  "ril_requests = [
     RIL_REQUEST_GET_SIM_STATUS, RIL_REQUEST_ENTER_SIM_PIN, RIL_REQUEST_ENTER_SIM_PUK
     , RIL_REQUEST_ENTER_SIM_PIN2, RIL_REQUEST_ENTER_SIM_PUK2, RIL_REQUEST_CHANGE_SIM_PIN
     , RIL_REQUEST_CHANGE_SIM_PIN2, RIL_REQUEST_ENTER_NETWORK_DEPERSONALIZATION
     , RIL_REQUEST_GET_CURRENT_CALLS, RIL_REQUEST_DIAL, RIL_REQUEST_GET_IMSI, RIL_REQUEST_HANGUP
     , RIL_REQUEST_HANGUP_WAITING_OR_BACKGROUND, RIL_REQUEST_HANGUP_FOREGROUND_RESUME_BACKGROUND
     , RIL_REQUEST_SWITCH_WAITING_OR_HOLDING_AND_ACTIVE, RIL_REQUEST_CONFERENCE, RIL_REQUEST_UDUB
     , RIL_REQUEST_LAST_CALL_FAIL_CAUSE, RIL_REQUEST_SIGNAL_STRENGTH
     , RIL_REQUEST_VOICE_REGISTRATION_STATE, RIL_REQUEST_DATA_REGISTRATION_STATE
     , RIL_REQUEST_OPERATOR, RIL_REQUEST_RADIO_POWER, RIL_REQUEST_DTMF, RIL_REQUEST_SEND_SMS
     , RIL_REQUEST_SEND_SMS_EXPECT_MORE, RIL_REQUEST_SETUP_DATA_CALL, RIL_REQUEST_SIM_IO
     , RIL_REQUEST_SEND_USSD, RIL_REQUEST_CANCEL_USSD, RIL_REQUEST_GET_CLIR, RIL_REQUEST_SET_CLIR
     , RIL_REQUEST_QUERY_CALL_FORWARD_STATUS, RIL_REQUEST_SET_CALL_FORWARD
     , RIL_REQUEST_QUERY_CALL_WAITING, RIL_REQUEST_SET_CALL_WAITING, RIL_REQUEST_SMS_ACKNOWLEDGE
     , RIL_REQUEST_GET_IMEI, RIL_REQUEST_GET_IMEISV, RIL_REQUEST_ANSWER
     , RIL_REQUEST_DEACTIVATE_DATA_CALL, RIL_REQUEST_QUERY_FACILITY_LOCK
     , RIL_REQUEST_SET_FACILITY_LOCK, RIL_REQUEST_CHANGE_BARRING_PASSWORD
     , RIL_REQUEST_QUERY_NETWORK_SELECTION_MODE, RIL_REQUEST_SET_NETWORK_SELECTION_AUTOMATIC
     , RIL_REQUEST_SET_NETWORK_SELECTION_MANUAL, RIL_REQUEST_QUERY_AVAILABLE_NETWORKS
     , RIL_REQUEST_DTMF_START, RIL_REQUEST_DTMF_STOP, RIL_REQUEST_BASEBAND_VERSION
     , RIL_REQUEST_SEPARATE_CONNECTION, RIL_REQUEST_SET_MUTE, RIL_REQUEST_GET_MUTE
     , RIL_REQUEST_QUERY_CLIP, RIL_REQUEST_LAST_DATA_CALL_FAIL_CAUSE, RIL_REQUEST_DATA_CALL_LIST
     , RIL_REQUEST_RESET_RADIO, RIL_REQUEST_OEM_HOOK_RAW, RIL_REQUEST_OEM_HOOK_STRINGS
     , RIL_REQUEST_SCREEN_STATE, RIL_REQUEST_SET_SUPP_SVC_NOTIFICATION, RIL_REQUEST_WRITE_SMS_TO_SIM
     , RIL_REQUEST_DELETE_SMS_ON_SIM, RIL_REQUEST_SET_BAND_MODE
     , RIL_REQUEST_QUERY_AVAILABLE_BAND_MODE, RIL_REQUEST_STK_GET_PROFILE
     , RIL_REQUEST_STK_SET_PROFILE, RIL_REQUEST_STK_SEND_ENVELOPE_COMMAND
     , RIL_REQUEST_STK_SEND_TERMINAL_RESPONSE, RIL_REQUEST_STK_HANDLE_CALL_SETUP_REQUESTED_FROM_SIM
     , RIL_REQUEST_EXPLICIT_CALL_TRANSFER, RIL_REQUEST_SET_PREFERRED_NETWORK_TYPE
     , RIL_REQUEST_GET_PREFERRED_NETWORK_TYPE, RIL_REQUEST_GET_NEIGHBORING_CELL_IDS
     , RIL_REQUEST_SET_LOCATION_UPDATES, RIL_REQUEST_CDMA_SET_SUBSCRIPTION_SOURCE
     , RIL_REQUEST_CDMA_SET_ROAMING_PREFERENCE, RIL_REQUEST_CDMA_QUERY_ROAMING_PREFERENCE
     , RIL_REQUEST_SET_TTY_MODE, RIL_REQUEST_QUERY_TTY_MODE
     , RIL_REQUEST_CDMA_SET_PREFERRED_VOICE_PRIVACY_MODE
     , RIL_REQUEST_CDMA_QUERY_PREFERRED_VOICE_PRIVACY_MODE, RIL_REQUEST_CDMA_FLASH
     , RIL_REQUEST_CDMA_BURST_DTMF, RIL_REQUEST_CDMA_VALIDATE_AND_WRITE_AKEY
     , RIL_REQUEST_CDMA_SEND_SMS, RIL_REQUEST_CDMA_SMS_ACKNOWLEDGE
     , RIL_REQUEST_GSM_GET_BROADCAST_SMS_CONFIG, RIL_REQUEST_GSM_SET_BROADCAST_SMS_CONFIG
     , RIL_REQUEST_GSM_SMS_BROADCAST_ACTIVATION, RIL_REQUEST_CDMA_GET_BROADCAST_SMS_CONFIG
     , RIL_REQUEST_CDMA_SET_BROADCAST_SMS_CONFIG, RIL_REQUEST_CDMA_SMS_BROADCAST_ACTIVATION
     , RIL_REQUEST_CDMA_SUBSCRIPTION, RIL_REQUEST_CDMA_WRITE_SMS_TO_RUIM
     , RIL_REQUEST_CDMA_DELETE_SMS_ON_RUIM, RIL_REQUEST_DEVICE_IDENTITY
     , RIL_REQUEST_EXIT_EMERGENCY_CALLBACK_MODE, RIL_REQUEST_GET_SMSC_ADDRESS
     , RIL_REQUEST_SET_SMSC_ADDRESS, RIL_REQUEST_REPORT_SMS_MEMORY_STATUS
     , RIL_REQUEST_REPORT_STK_SERVICE_IS_RUNNING, RIL_REQUEST_CDMA_GET_SUBSCRIPTION_SOURCE
     , RIL_REQUEST_ISIM_AUTHENTICATION, RIL_REQUEST_ACKNOWLEDGE_INCOMING_GSM_SMS_WITH_PDU
     , RIL_REQUEST_STK_SEND_ENVELOPE_WITH_STATUS, RIL_REQUEST_VOICE_RADIO_TECH
     , RIL_REQUEST_GET_CELL_INFO_LIST, RIL_REQUEST_SET_UNSOL_CELL_INFO_LIST_RATE
     , RIL_REQUEST_SET_INITIAL_ATTACH_APN, RIL_REQUEST_IMS_REGISTRATION_STATE
     , RIL_REQUEST_IMS_SEND_SMS, RIL_REQUEST_SIM_TRANSMIT_APDU_BASIC, RIL_REQUEST_SIM_OPEN_CHANNEL
     , RIL_REQUEST_SIM_CLOSE_CHANNEL, RIL_REQUEST_SIM_TRANSMIT_APDU_CHANNEL
     , RIL_REQUEST_NV_READ_ITEM, RIL_REQUEST_NV_WRITE_ITEM, RIL_REQUEST_NV_WRITE_CDMA_PRL
     , RIL_REQUEST_NV_RESET_CONFIG, RIL_REQUEST_SET_UICC_SUBSCRIPTION, RIL_REQUEST_ALLOW_DATA
     , RIL_REQUEST_GET_HARDWARE_CONFIG, RIL_REQUEST_SIM_AUTHENTICATION, RIL_REQUEST_GET_DC_RT_INFO
     , RIL_REQUEST_SET_DC_RT_INFO_RATE, RIL_REQUEST_SET_DATA_PROFILE, RIL_REQUEST_SHUTDOWN
     , RIL_REQUEST_GET_RADIO_CAPABILITY, RIL_REQUEST_SET_RADIO_CAPABILITY, RIL_REQUEST_START_LCE
     , RIL_REQUEST_STOP_LCE, RIL_REQUEST_PULL_LCEDATA, RIL_REQUEST_GET_ACTIVITY_INFO
     , RIL_REQUEST_SET_CARRIER_RESTRICTIONS, RIL_REQUEST_GET_CARRIER_RESTRICTIONS
     , RIL_REQUEST_SEND_DEVICE_STATE, RIL_REQUEST_SET_UNSOLICITED_RESPONSE_FILTER
     , RIL_REQUEST_SET_SIM_CARD_POWER, RIL_REQUEST_SET_CARRIER_INFO_IMSI_ENCRYPTION
     , RIL_REQUEST_START_NETWORK_SCAN, RIL_REQUEST_STOP_NETWORK_SCAN, RIL_REQUEST_START_KEEPALIVE
     , RIL_REQUEST_STOP_KEEPALIVE]"

lemmas ril_request_defs =
  RIL_REQUEST_GET_SIM_STATUS_def RIL_REQUEST_ENTER_SIM_PIN_def RIL_REQUEST_ENTER_SIM_PUK_def
  RIL_REQUEST_ENTER_SIM_PIN2_def RIL_REQUEST_ENTER_SIM_PUK2_def RIL_REQUEST_CHANGE_SIM_PIN_def
  RIL_REQUEST_CHANGE_SIM_PIN2_def RIL_REQUEST_ENTER_NETWORK_DEPERSONALIZATION_def
  RIL_REQUEST_GET_CURRENT_CALLS_def RIL_REQUEST_DIAL_def RIL_REQUEST_GET_IMSI_def
  RIL_REQUEST_HANGUP_def RIL_REQUEST_HANGUP_WAITING_OR_BACKGROUND_def
  RIL_REQUEST_HANGUP_FOREGROUND_RESUME_BACKGROUND_def
  RIL_REQUEST_SWITCH_WAITING_OR_HOLDING_AND_ACTIVE_def RIL_REQUEST_CONFERENCE_def
  RIL_REQUEST_UDUB_def RIL_REQUEST_LAST_CALL_FAIL_CAUSE_def RIL_REQUEST_SIGNAL_STRENGTH_def
  RIL_REQUEST_VOICE_REGISTRATION_STATE_def RIL_REQUEST_DATA_REGISTRATION_STATE_def
  RIL_REQUEST_OPERATOR_def RIL_REQUEST_RADIO_POWER_def RIL_REQUEST_DTMF_def RIL_REQUEST_SEND_SMS_def
  RIL_REQUEST_SEND_SMS_EXPECT_MORE_def RIL_REQUEST_SETUP_DATA_CALL_def RIL_REQUEST_SIM_IO_def
  RIL_REQUEST_SEND_USSD_def RIL_REQUEST_CANCEL_USSD_def RIL_REQUEST_GET_CLIR_def
  RIL_REQUEST_SET_CLIR_def RIL_REQUEST_QUERY_CALL_FORWARD_STATUS_def
  RIL_REQUEST_SET_CALL_FORWARD_def RIL_REQUEST_QUERY_CALL_WAITING_def
  RIL_REQUEST_SET_CALL_WAITING_def RIL_REQUEST_SMS_ACKNOWLEDGE_def RIL_REQUEST_GET_IMEI_def
  RIL_REQUEST_GET_IMEISV_def RIL_REQUEST_ANSWER_def RIL_REQUEST_DEACTIVATE_DATA_CALL_def
  RIL_REQUEST_QUERY_FACILITY_LOCK_def RIL_REQUEST_SET_FACILITY_LOCK_def
  RIL_REQUEST_CHANGE_BARRING_PASSWORD_def RIL_REQUEST_QUERY_NETWORK_SELECTION_MODE_def
  RIL_REQUEST_SET_NETWORK_SELECTION_AUTOMATIC_def RIL_REQUEST_SET_NETWORK_SELECTION_MANUAL_def
  RIL_REQUEST_QUERY_AVAILABLE_NETWORKS_def RIL_REQUEST_DTMF_START_def RIL_REQUEST_DTMF_STOP_def
  RIL_REQUEST_BASEBAND_VERSION_def RIL_REQUEST_SEPARATE_CONNECTION_def RIL_REQUEST_SET_MUTE_def
  RIL_REQUEST_GET_MUTE_def RIL_REQUEST_QUERY_CLIP_def RIL_REQUEST_LAST_DATA_CALL_FAIL_CAUSE_def
  RIL_REQUEST_DATA_CALL_LIST_def RIL_REQUEST_RESET_RADIO_def RIL_REQUEST_OEM_HOOK_RAW_def
  RIL_REQUEST_OEM_HOOK_STRINGS_def RIL_REQUEST_SCREEN_STATE_def
  RIL_REQUEST_SET_SUPP_SVC_NOTIFICATION_def RIL_REQUEST_WRITE_SMS_TO_SIM_def
  RIL_REQUEST_DELETE_SMS_ON_SIM_def RIL_REQUEST_SET_BAND_MODE_def
  RIL_REQUEST_QUERY_AVAILABLE_BAND_MODE_def RIL_REQUEST_STK_GET_PROFILE_def
  RIL_REQUEST_STK_SET_PROFILE_def RIL_REQUEST_STK_SEND_ENVELOPE_COMMAND_def
  RIL_REQUEST_STK_SEND_TERMINAL_RESPONSE_def
  RIL_REQUEST_STK_HANDLE_CALL_SETUP_REQUESTED_FROM_SIM_def RIL_REQUEST_EXPLICIT_CALL_TRANSFER_def
  RIL_REQUEST_SET_PREFERRED_NETWORK_TYPE_def RIL_REQUEST_GET_PREFERRED_NETWORK_TYPE_def
  RIL_REQUEST_GET_NEIGHBORING_CELL_IDS_def RIL_REQUEST_SET_LOCATION_UPDATES_def
  RIL_REQUEST_CDMA_SET_SUBSCRIPTION_SOURCE_def RIL_REQUEST_CDMA_SET_ROAMING_PREFERENCE_def
  RIL_REQUEST_CDMA_QUERY_ROAMING_PREFERENCE_def RIL_REQUEST_SET_TTY_MODE_def
  RIL_REQUEST_QUERY_TTY_MODE_def RIL_REQUEST_CDMA_SET_PREFERRED_VOICE_PRIVACY_MODE_def
  RIL_REQUEST_CDMA_QUERY_PREFERRED_VOICE_PRIVACY_MODE_def RIL_REQUEST_CDMA_FLASH_def
  RIL_REQUEST_CDMA_BURST_DTMF_def RIL_REQUEST_CDMA_VALIDATE_AND_WRITE_AKEY_def
  RIL_REQUEST_CDMA_SEND_SMS_def RIL_REQUEST_CDMA_SMS_ACKNOWLEDGE_def
  RIL_REQUEST_GSM_GET_BROADCAST_SMS_CONFIG_def RIL_REQUEST_GSM_SET_BROADCAST_SMS_CONFIG_def
  RIL_REQUEST_GSM_SMS_BROADCAST_ACTIVATION_def RIL_REQUEST_CDMA_GET_BROADCAST_SMS_CONFIG_def
  RIL_REQUEST_CDMA_SET_BROADCAST_SMS_CONFIG_def RIL_REQUEST_CDMA_SMS_BROADCAST_ACTIVATION_def
  RIL_REQUEST_CDMA_SUBSCRIPTION_def RIL_REQUEST_CDMA_WRITE_SMS_TO_RUIM_def
  RIL_REQUEST_CDMA_DELETE_SMS_ON_RUIM_def RIL_REQUEST_DEVICE_IDENTITY_def
  RIL_REQUEST_EXIT_EMERGENCY_CALLBACK_MODE_def RIL_REQUEST_GET_SMSC_ADDRESS_def
  RIL_REQUEST_SET_SMSC_ADDRESS_def RIL_REQUEST_REPORT_SMS_MEMORY_STATUS_def
  RIL_REQUEST_REPORT_STK_SERVICE_IS_RUNNING_def RIL_REQUEST_CDMA_GET_SUBSCRIPTION_SOURCE_def
  RIL_REQUEST_ISIM_AUTHENTICATION_def RIL_REQUEST_ACKNOWLEDGE_INCOMING_GSM_SMS_WITH_PDU_def
  RIL_REQUEST_STK_SEND_ENVELOPE_WITH_STATUS_def RIL_REQUEST_VOICE_RADIO_TECH_def
  RIL_REQUEST_GET_CELL_INFO_LIST_def RIL_REQUEST_SET_UNSOL_CELL_INFO_LIST_RATE_def
  RIL_REQUEST_SET_INITIAL_ATTACH_APN_def RIL_REQUEST_IMS_REGISTRATION_STATE_def
  RIL_REQUEST_IMS_SEND_SMS_def RIL_REQUEST_SIM_TRANSMIT_APDU_BASIC_def
  RIL_REQUEST_SIM_OPEN_CHANNEL_def RIL_REQUEST_SIM_CLOSE_CHANNEL_def
  RIL_REQUEST_SIM_TRANSMIT_APDU_CHANNEL_def RIL_REQUEST_NV_READ_ITEM_def
  RIL_REQUEST_NV_WRITE_ITEM_def RIL_REQUEST_NV_WRITE_CDMA_PRL_def RIL_REQUEST_NV_RESET_CONFIG_def
  RIL_REQUEST_SET_UICC_SUBSCRIPTION_def RIL_REQUEST_ALLOW_DATA_def
  RIL_REQUEST_GET_HARDWARE_CONFIG_def RIL_REQUEST_SIM_AUTHENTICATION_def
  RIL_REQUEST_GET_DC_RT_INFO_def RIL_REQUEST_SET_DC_RT_INFO_RATE_def
  RIL_REQUEST_SET_DATA_PROFILE_def RIL_REQUEST_SHUTDOWN_def RIL_REQUEST_GET_RADIO_CAPABILITY_def
  RIL_REQUEST_SET_RADIO_CAPABILITY_def RIL_REQUEST_START_LCE_def RIL_REQUEST_STOP_LCE_def
  RIL_REQUEST_PULL_LCEDATA_def RIL_REQUEST_GET_ACTIVITY_INFO_def
  RIL_REQUEST_SET_CARRIER_RESTRICTIONS_def RIL_REQUEST_GET_CARRIER_RESTRICTIONS_def
  RIL_REQUEST_SEND_DEVICE_STATE_def RIL_REQUEST_SET_UNSOLICITED_RESPONSE_FILTER_def
  RIL_REQUEST_SET_SIM_CARD_POWER_def RIL_REQUEST_SET_CARRIER_INFO_IMSI_ENCRYPTION_def
  RIL_REQUEST_START_NETWORK_SCAN_def RIL_REQUEST_STOP_NETWORK_SCAN_def
  RIL_REQUEST_START_KEEPALIVE_def RIL_REQUEST_STOP_KEEPALIVE_def

section \<open>Unsolicited responses\<close>

definition RIL_UNSOL_RESPONSE_BASE :: int where "RIL_UNSOL_RESPONSE_BASE = 1000"
definition RIL_UNSOL_RESPONSE_RADIO_STATE_CHANGED :: int where "RIL_UNSOL_RESPONSE_RADIO_STATE_CHANGED = 1000"
definition RIL_UNSOL_RESPONSE_CALL_STATE_CHANGED :: int where "RIL_UNSOL_RESPONSE_CALL_STATE_CHANGED = 1001"
definition RIL_UNSOL_RESPONSE_VOICE_NETWORK_STATE_CHANGED :: int where "RIL_UNSOL_RESPONSE_VOICE_NETWORK_STATE_CHANGED = 1002"
definition RIL_UNSOL_RESPONSE_NEW_SMS :: int where "RIL_UNSOL_RESPONSE_NEW_SMS = 1003"
definition RIL_UNSOL_RESPONSE_NEW_SMS_STATUS_REPORT :: int where "RIL_UNSOL_RESPONSE_NEW_SMS_STATUS_REPORT = 1004"
definition RIL_UNSOL_RESPONSE_NEW_SMS_ON_SIM :: int where "RIL_UNSOL_RESPONSE_NEW_SMS_ON_SIM = 1005"
definition RIL_UNSOL_ON_USSD :: int where "RIL_UNSOL_ON_USSD = 1006"
definition RIL_UNSOL_ON_USSD_REQUEST :: int where "RIL_UNSOL_ON_USSD_REQUEST = 1007"
definition RIL_UNSOL_NITZ_TIME_RECEIVED :: int where "RIL_UNSOL_NITZ_TIME_RECEIVED = 1008"
definition RIL_UNSOL_SIGNAL_STRENGTH :: int where "RIL_UNSOL_SIGNAL_STRENGTH = 1009"
definition RIL_UNSOL_DATA_CALL_LIST_CHANGED :: int where "RIL_UNSOL_DATA_CALL_LIST_CHANGED = 1010"
definition RIL_UNSOL_SUPP_SVC_NOTIFICATION :: int where "RIL_UNSOL_SUPP_SVC_NOTIFICATION = 1011"
definition RIL_UNSOL_STK_SESSION_END :: int where "RIL_UNSOL_STK_SESSION_END = 1012"
definition RIL_UNSOL_STK_PROACTIVE_COMMAND :: int where "RIL_UNSOL_STK_PROACTIVE_COMMAND = 1013"
definition RIL_UNSOL_STK_EVENT_NOTIFY :: int where "RIL_UNSOL_STK_EVENT_NOTIFY = 1014"
definition RIL_UNSOL_STK_CALL_SETUP :: int where "RIL_UNSOL_STK_CALL_SETUP = 1015"
definition RIL_UNSOL_SIM_SMS_STORAGE_FULL :: int where "RIL_UNSOL_SIM_SMS_STORAGE_FULL = 1016"
definition RIL_UNSOL_SIM_REFRESH :: int where "RIL_UNSOL_SIM_REFRESH = 1017"
definition RIL_UNSOL_CALL_RING :: int where "RIL_UNSOL_CALL_RING = 1018"
definition RIL_UNSOL_RESPONSE_SIM_STATUS_CHANGED :: int where "RIL_UNSOL_RESPONSE_SIM_STATUS_CHANGED = 1019"
definition RIL_UNSOL_RESPONSE_CDMA_NEW_SMS :: int where "RIL_UNSOL_RESPONSE_CDMA_NEW_SMS = 1020"
definition RIL_UNSOL_RESPONSE_NEW_BROADCAST_SMS :: int where "RIL_UNSOL_RESPONSE_NEW_BROADCAST_SMS = 1021"
definition RIL_UNSOL_CDMA_RUIM_SMS_STORAGE_FULL :: int where "RIL_UNSOL_CDMA_RUIM_SMS_STORAGE_FULL = 1022"
definition RIL_UNSOL_RESTRICTED_STATE_CHANGED :: int where "RIL_UNSOL_RESTRICTED_STATE_CHANGED = 1023"
definition RIL_UNSOL_ENTER_EMERGENCY_CALLBACK_MODE :: int where "RIL_UNSOL_ENTER_EMERGENCY_CALLBACK_MODE = 1024"
definition RIL_UNSOL_CDMA_CALL_WAITING :: int where "RIL_UNSOL_CDMA_CALL_WAITING = 1025"
definition RIL_UNSOL_CDMA_OTA_PROVISION_STATUS :: int where "RIL_UNSOL_CDMA_OTA_PROVISION_STATUS = 1026"
definition RIL_UNSOL_CDMA_INFO_REC :: int where "RIL_UNSOL_CDMA_INFO_REC = 1027"
definition RIL_UNSOL_OEM_HOOK_RAW :: int where "RIL_UNSOL_OEM_HOOK_RAW = 1028"
definition RIL_UNSOL_RINGBACK_TONE :: int where "RIL_UNSOL_RINGBACK_TONE = 1029"
definition RIL_UNSOL_RESEND_INCALL_MUTE :: int where "RIL_UNSOL_RESEND_INCALL_MUTE = 1030"
definition RIL_UNSOL_CDMA_SUBSCRIPTION_SOURCE_CHANGED :: int where "RIL_UNSOL_CDMA_SUBSCRIPTION_SOURCE_CHANGED = 1031"
definition RIL_UNSOL_CDMA_PRL_CHANGED :: int where "RIL_UNSOL_CDMA_PRL_CHANGED = 1032"
definition RIL_UNSOL_EXIT_EMERGENCY_CALLBACK_MODE :: int where "RIL_UNSOL_EXIT_EMERGENCY_CALLBACK_MODE = 1033"
definition RIL_UNSOL_RIL_CONNECTED :: int where "RIL_UNSOL_RIL_CONNECTED = 1034"
definition RIL_UNSOL_VOICE_RADIO_TECH_CHANGED :: int where "RIL_UNSOL_VOICE_RADIO_TECH_CHANGED = 1035"
definition RIL_UNSOL_CELL_INFO_LIST :: int where "RIL_UNSOL_CELL_INFO_LIST = 1036"
definition RIL_UNSOL_RESPONSE_IMS_NETWORK_STATE_CHANGED :: int where "RIL_UNSOL_RESPONSE_IMS_NETWORK_STATE_CHANGED = 1037"
definition RIL_UNSOL_UICC_SUBSCRIPTION_STATUS_CHANGED :: int where "RIL_UNSOL_UICC_SUBSCRIPTION_STATUS_CHANGED = 1038"
definition RIL_UNSOL_SRVCC_STATE_NOTIFY :: int where "RIL_UNSOL_SRVCC_STATE_NOTIFY = 1039"
definition RIL_UNSOL_HARDWARE_CONFIG_CHANGED :: int where "RIL_UNSOL_HARDWARE_CONFIG_CHANGED = 1040"
definition RIL_UNSOL_DC_RT_INFO_CHANGED :: int where "RIL_UNSOL_DC_RT_INFO_CHANGED = 1041"
definition RIL_UNSOL_RADIO_CAPABILITY :: int where "RIL_UNSOL_RADIO_CAPABILITY = 1042"
definition RIL_UNSOL_ON_SS :: int where "RIL_UNSOL_ON_SS = 1043"
definition RIL_UNSOL_STK_CC_ALPHA_NOTIFY :: int where "RIL_UNSOL_STK_CC_ALPHA_NOTIFY = 1044"
definition RIL_UNSOL_LCEDATA_RECV :: int where "RIL_UNSOL_LCEDATA_RECV = 1045"
definition RIL_UNSOL_PCO_DATA :: int where "RIL_UNSOL_PCO_DATA = 1046"
definition RIL_UNSOL_MODEM_RESTART :: int where "RIL_UNSOL_MODEM_RESTART = 1047"
definition RIL_UNSOL_CARRIER_INFO_IMSI_ENCRYPTION :: int where "RIL_UNSOL_CARRIER_INFO_IMSI_ENCRYPTION = 1048"
definition RIL_UNSOL_NETWORK_SCAN_RESULT :: int where "RIL_UNSOL_NETWORK_SCAN_RESULT = 1049"
definition RIL_UNSOL_KEEPALIVE_STATUS :: int where "RIL_UNSOL_KEEPALIVE_STATUS = 1050"

definition ril_unsolicited :: "int list" where
  "ril_unsolicited = [
     RIL_UNSOL_RESPONSE_RADIO_STATE_CHANGED, RIL_UNSOL_RESPONSE_CALL_STATE_CHANGED
     , RIL_UNSOL_RESPONSE_VOICE_NETWORK_STATE_CHANGED, RIL_UNSOL_RESPONSE_NEW_SMS
     , RIL_UNSOL_RESPONSE_NEW_SMS_STATUS_REPORT, RIL_UNSOL_RESPONSE_NEW_SMS_ON_SIM
     , RIL_UNSOL_ON_USSD, RIL_UNSOL_ON_USSD_REQUEST, RIL_UNSOL_NITZ_TIME_RECEIVED
     , RIL_UNSOL_SIGNAL_STRENGTH, RIL_UNSOL_DATA_CALL_LIST_CHANGED, RIL_UNSOL_SUPP_SVC_NOTIFICATION
     , RIL_UNSOL_STK_SESSION_END, RIL_UNSOL_STK_PROACTIVE_COMMAND, RIL_UNSOL_STK_EVENT_NOTIFY
     , RIL_UNSOL_STK_CALL_SETUP, RIL_UNSOL_SIM_SMS_STORAGE_FULL, RIL_UNSOL_SIM_REFRESH
     , RIL_UNSOL_CALL_RING, RIL_UNSOL_RESPONSE_SIM_STATUS_CHANGED, RIL_UNSOL_RESPONSE_CDMA_NEW_SMS
     , RIL_UNSOL_RESPONSE_NEW_BROADCAST_SMS, RIL_UNSOL_CDMA_RUIM_SMS_STORAGE_FULL
     , RIL_UNSOL_RESTRICTED_STATE_CHANGED, RIL_UNSOL_ENTER_EMERGENCY_CALLBACK_MODE
     , RIL_UNSOL_CDMA_CALL_WAITING, RIL_UNSOL_CDMA_OTA_PROVISION_STATUS, RIL_UNSOL_CDMA_INFO_REC
     , RIL_UNSOL_OEM_HOOK_RAW, RIL_UNSOL_RINGBACK_TONE, RIL_UNSOL_RESEND_INCALL_MUTE
     , RIL_UNSOL_CDMA_SUBSCRIPTION_SOURCE_CHANGED, RIL_UNSOL_CDMA_PRL_CHANGED
     , RIL_UNSOL_EXIT_EMERGENCY_CALLBACK_MODE, RIL_UNSOL_RIL_CONNECTED
     , RIL_UNSOL_VOICE_RADIO_TECH_CHANGED, RIL_UNSOL_CELL_INFO_LIST
     , RIL_UNSOL_RESPONSE_IMS_NETWORK_STATE_CHANGED, RIL_UNSOL_UICC_SUBSCRIPTION_STATUS_CHANGED
     , RIL_UNSOL_SRVCC_STATE_NOTIFY, RIL_UNSOL_HARDWARE_CONFIG_CHANGED, RIL_UNSOL_DC_RT_INFO_CHANGED
     , RIL_UNSOL_RADIO_CAPABILITY, RIL_UNSOL_ON_SS, RIL_UNSOL_STK_CC_ALPHA_NOTIFY
     , RIL_UNSOL_LCEDATA_RECV, RIL_UNSOL_PCO_DATA, RIL_UNSOL_MODEM_RESTART
     , RIL_UNSOL_CARRIER_INFO_IMSI_ENCRYPTION, RIL_UNSOL_NETWORK_SCAN_RESULT
     , RIL_UNSOL_KEEPALIVE_STATUS]"

lemmas ril_unsolicited_defs =
  RIL_UNSOL_RESPONSE_BASE_def RIL_UNSOL_RESPONSE_RADIO_STATE_CHANGED_def
  RIL_UNSOL_RESPONSE_CALL_STATE_CHANGED_def RIL_UNSOL_RESPONSE_VOICE_NETWORK_STATE_CHANGED_def
  RIL_UNSOL_RESPONSE_NEW_SMS_def RIL_UNSOL_RESPONSE_NEW_SMS_STATUS_REPORT_def
  RIL_UNSOL_RESPONSE_NEW_SMS_ON_SIM_def RIL_UNSOL_ON_USSD_def RIL_UNSOL_ON_USSD_REQUEST_def
  RIL_UNSOL_NITZ_TIME_RECEIVED_def RIL_UNSOL_SIGNAL_STRENGTH_def
  RIL_UNSOL_DATA_CALL_LIST_CHANGED_def RIL_UNSOL_SUPP_SVC_NOTIFICATION_def
  RIL_UNSOL_STK_SESSION_END_def RIL_UNSOL_STK_PROACTIVE_COMMAND_def RIL_UNSOL_STK_EVENT_NOTIFY_def
  RIL_UNSOL_STK_CALL_SETUP_def RIL_UNSOL_SIM_SMS_STORAGE_FULL_def RIL_UNSOL_SIM_REFRESH_def
  RIL_UNSOL_CALL_RING_def RIL_UNSOL_RESPONSE_SIM_STATUS_CHANGED_def
  RIL_UNSOL_RESPONSE_CDMA_NEW_SMS_def RIL_UNSOL_RESPONSE_NEW_BROADCAST_SMS_def
  RIL_UNSOL_CDMA_RUIM_SMS_STORAGE_FULL_def RIL_UNSOL_RESTRICTED_STATE_CHANGED_def
  RIL_UNSOL_ENTER_EMERGENCY_CALLBACK_MODE_def RIL_UNSOL_CDMA_CALL_WAITING_def
  RIL_UNSOL_CDMA_OTA_PROVISION_STATUS_def RIL_UNSOL_CDMA_INFO_REC_def RIL_UNSOL_OEM_HOOK_RAW_def
  RIL_UNSOL_RINGBACK_TONE_def RIL_UNSOL_RESEND_INCALL_MUTE_def
  RIL_UNSOL_CDMA_SUBSCRIPTION_SOURCE_CHANGED_def RIL_UNSOL_CDMA_PRL_CHANGED_def
  RIL_UNSOL_EXIT_EMERGENCY_CALLBACK_MODE_def RIL_UNSOL_RIL_CONNECTED_def
  RIL_UNSOL_VOICE_RADIO_TECH_CHANGED_def RIL_UNSOL_CELL_INFO_LIST_def
  RIL_UNSOL_RESPONSE_IMS_NETWORK_STATE_CHANGED_def RIL_UNSOL_UICC_SUBSCRIPTION_STATUS_CHANGED_def
  RIL_UNSOL_SRVCC_STATE_NOTIFY_def RIL_UNSOL_HARDWARE_CONFIG_CHANGED_def
  RIL_UNSOL_DC_RT_INFO_CHANGED_def RIL_UNSOL_RADIO_CAPABILITY_def RIL_UNSOL_ON_SS_def
  RIL_UNSOL_STK_CC_ALPHA_NOTIFY_def RIL_UNSOL_LCEDATA_RECV_def RIL_UNSOL_PCO_DATA_def
  RIL_UNSOL_MODEM_RESTART_def RIL_UNSOL_CARRIER_INFO_IMSI_ENCRYPTION_def
  RIL_UNSOL_NETWORK_SCAN_RESULT_def RIL_UNSOL_KEEPALIVE_STATUS_def

section \<open>The table\<close>

definition request_by_code :: "int \<Rightarrow> ril_request option" where
  "request_by_code n = find (\<lambda>r. req_code r = n) ril_requests"

lemma request_codes: "map req_code ril_requests = map int [1..<146]"
  by (simp add: ril_requests_def ril_request_defs upt_conv_Cons)

lemma unsolicited_codes: "ril_unsolicited = map int [1000..<1051]"
  by (simp add: ril_unsolicited_def ril_unsolicited_defs upt_conv_Cons)

lemma request_by_code_nth:
  assumes "1 \<le> n" and "n \<le> 145"
  shows "request_by_code n = Some (ril_requests ! nat (n - 1)) \<and> req_code (ril_requests ! nat (n - 1)) = n"
proof -
  have len: "length ril_requests = 145" using arg_cong [OF request_codes, of length] by simp
  have code: "req_code (ril_requests ! i) = int i + 1" if "i < 145" for i
  proof -
    have "map req_code ril_requests ! i = map int [1..<146] ! i" by (simp only: request_codes)
    then show ?thesis using that len by simp
  qed
  have "nat (n - 1) < 145" and "int (nat (n - 1)) + 1 = n" using assms by auto
  moreover from this have "request_by_code n = Some (ril_requests ! nat (n - 1))"
    unfolding request_by_code_def find_Some_iff using code len by (intro exI [of _ "nat (n - 1)"]) auto
  ultimately show ?thesis using code by simp
qed

lemma request_by_code_none: "n < 1 \<or> 145 < n \<Longrightarrow> request_by_code n = None"
proof -
  assume n: "n < 1 \<or> 145 < n"
  have "req_code ` set ril_requests = set (map int [1..<146])"
    by (simp only: set_map [symmetric] request_codes)
  then have "n \<notin> req_code ` set ril_requests" using n by auto
  then show ?thesis by (auto simp: request_by_code_def find_None_iff)
qed

definition contract_ok :: "ril_request \<Rightarrow> bool" where
  "contract_ok r \<longleftrightarrow> list_all (\<lambda>e. e \<in> set RIL_Errno_values) (valid_errors r) \<and>
     (RIL_E_SUCCESS \<in> set (valid_errors r) \<or>
      req_code r \<in> {req_code RIL_REQUEST_GET_HARDWARE_CONFIG, req_code RIL_REQUEST_SIM_AUTHENTICATION})"

lemma contracts: "list_all contract_ok ril_requests"
  by (simp add: ril_requests_def contract_ok_def ril_request_defs) (simp add: RIL_Errno_values_def)



end
