(* ===== verification/Camera_Converters.thy ===== *)
theory Camera_Converters
  imports Goldfish_Prelude "HOL-Library.Monad_Syntax"
begin

text \<open>
  \<^verbatim>\<open>camera/Converters.h\<close> and \<^verbatim>\<open>Converters.cpp\<close>: colour conversion of camera frames, for a little
  endian machine. Colours are computed in \<^typ>\<open>int\<close> (no intermediate value leaves the 32-bit range)
  and stored in words of their width. A frame is a byte list; the pointers of the C code are
  positions in it, and a read past its end is the error \<open>None\<close>. The two loops
  \<^verbatim>\<open>_YUV420SToRGB565\<close> and \<^verbatim>\<open>_YUV420SToRGB32\<close> differ in the pixel function only, which is a
  parameter here.
\<close>

section \<open>Pixels\<close>

definition kRed5 :: u16 where "kRed5 = 0x001f"
definition kGreen6 :: u16 where "kGreen6 = 0x07e0"
definition kBlue5 :: u16 where "kBlue5 = 0xf800"

definition R16 :: "u16 \<Rightarrow> u8" where "R16 rgb = ucast (rgb AND kRed5)"
definition G16 :: "u16 \<Rightarrow> u8" where "G16 rgb = ucast (drop_bit 5 (rgb AND kGreen6))"
definition B16 :: "u16 \<Rightarrow> u8" where "B16 rgb = ucast (drop_bit 11 (rgb AND kBlue5))"

definition R16_32 :: "u16 \<Rightarrow> u8" where
  "R16_32 rgb = ucast (push_bit 3 (rgb AND kRed5) OR drop_bit 2 (rgb AND kRed5))"

definition G16_32 :: "u16 \<Rightarrow> u8" where
  "G16_32 rgb = ucast (drop_bit 3 (rgb AND kGreen6) OR drop_bit 9 (rgb AND kGreen6))"

definition B16_32 :: "u16 \<Rightarrow> u8" where
  "B16_32 rgb = ucast (drop_bit 8 (rgb AND kBlue5) OR drop_bit 14 (rgb AND kBlue5))"

definition RGB565 :: "u16 \<Rightarrow> u16 \<Rightarrow> u16 \<Rightarrow> u16" where
  "RGB565 r g b = push_bit 5 (push_bit 6 b OR g) OR r"

text \<open>The union \<^verbatim>\<open>RGB32_t\<close>: four bytes, red first; the alpha byte is the one already there.\<close>

record RGB32_t =
  px_r :: u8
  px_g :: u8
  px_b :: u8

definition clamp :: "int \<Rightarrow> int" where
  "clamp x = (if x > 255 then 255 else if x < 0 then 0 else x)"

definition RGB2Y :: "int \<Rightarrow> int \<Rightarrow> int \<Rightarrow> u8" where
  "RGB2Y r g b = word_of_int ((66 * r + 129 * g + 25 * b + 128) div 256 + 16)"

definition RGB2U :: "int \<Rightarrow> int \<Rightarrow> int \<Rightarrow> u8" where
  "RGB2U r g b = word_of_int ((- 38 * r - 74 * g + 112 * b + 128) div 256 + 128)"

definition RGB2V :: "int \<Rightarrow> int \<Rightarrow> int \<Rightarrow> u8" where
  "RGB2V r g b = word_of_int ((112 * r - 94 * g - 18 * b + 128) div 256 + 128)"

definition R8G8B8ToYUV :: "u8 \<Rightarrow> u8 \<Rightarrow> u8 \<Rightarrow> u8 \<times> u8 \<times> u8" where
  "R8G8B8ToYUV r g b = (RGB2Y (uint r) (uint g) (uint b), RGB2U (uint r) (uint g) (uint b),
     RGB2V (uint r) (uint g) (uint b))"

definition RGB565ToYUV :: "u16 \<Rightarrow> u8 \<times> u8 \<times> u8" where
  "RGB565ToYUV rgb = R8G8B8ToYUV (R16_32 rgb) (G16_32 rgb) (B16_32 rgb)"

definition RGB32ToYUV :: "RGB32_t \<Rightarrow> u8 \<times> u8 \<times> u8" where
  "RGB32ToYUV rgb = R8G8B8ToYUV (px_r rgb) (px_g rgb) (px_b rgb)"

definition YUV2RO :: "int \<Rightarrow> int \<Rightarrow> int \<Rightarrow> int" where
  "YUV2RO C D E = clamp ((298 * C + 409 * E + 128) div 256)"

definition YUV2GO :: "int \<Rightarrow> int \<Rightarrow> int \<Rightarrow> int" where
  "YUV2GO C D E = clamp ((298 * C - 100 * D - 208 * E + 128) div 256)"

definition YUV2BO :: "int \<Rightarrow> int \<Rightarrow> int \<Rightarrow> int" where
  "YUV2BO C D E = clamp ((298 * C + 516 * D + 128) div 256)"

definition YUVToRGB565 :: "u8 \<Rightarrow> u8 \<Rightarrow> u8 \<Rightarrow> u16" where
  "YUVToRGB565 y0 u0 v0 =
     (let y = uint y0 - 16; u = uint u0 - 128; v = uint v0 - 128;
          r = word_of_int (YUV2RO y u v div 8 mod 32);
          g = word_of_int (YUV2GO y u v div 4 mod 64);
          b = word_of_int (YUV2BO y u v div 8 mod 32)
      in RGB565 r g b)"

definition YUVToRGB32 :: "u8 \<Rightarrow> u8 \<Rightarrow> u8 \<Rightarrow> RGB32_t" where
  "YUVToRGB32 y0 u0 v0 =
     (let y = uint y0 - 16; u = uint u0 - 128; v = uint v0 - 128
      in \<lparr>px_r = word_of_int (YUV2RO y u v mod 256), px_g = word_of_int (YUV2GO y u v mod 256),
          px_b = word_of_int (YUV2BO y u v mod 256)\<rparr>)"

section \<open>Frames\<close>

definition rd8 :: "bytes \<Rightarrow> nat \<Rightarrow> u8 option" where
  "rd8 buf p = (if p < length buf then Some (buf ! p) else None)"

text \<open>The inner loop: \<open>n\<close> passes, two pixels each with the same chroma.\<close>

fun yuv_row :: "(u8 \<Rightarrow> u8 \<Rightarrow> u8 \<Rightarrow> 'p) \<Rightarrow> bytes \<Rightarrow> nat \<Rightarrow> nat \<Rightarrow> nat \<Rightarrow> nat \<Rightarrow> nat \<Rightarrow> 'p list option" where
  "yuv_row conv buf dUV 0 Y U V = Some []"
| "yuv_row conv buf dUV (Suc n) Y U V = do {
     nU \<leftarrow> rd8 buf U;
     nV \<leftarrow> rd8 buf V;
     y0 \<leftarrow> rd8 buf Y;
     y1 \<leftarrow> rd8 buf (Y + 1);
     ps \<leftarrow> yuv_row conv buf dUV n (Y + 2) (U + dUV) (V + dUV);
     Some (conv y0 nU nV # conv y1 nU nV # ps) }"

fun yuv_rows :: "(u8 \<Rightarrow> u8 \<Rightarrow> u8 \<Rightarrow> 'p) \<Rightarrow> bytes \<Rightarrow> nat \<Rightarrow> nat \<Rightarrow> nat \<Rightarrow> nat \<Rightarrow> nat \<Rightarrow> nat \<Rightarrow> nat \<Rightarrow> nat list \<Rightarrow>
    'p list option" where
  "yuv_rows conv buf dUV width ys uvs Y U V [] = Some []"
| "yuv_rows conv buf dUV width ys uvs Y U V (y # rows) = do {
     ps \<leftarrow> yuv_row conv buf dUV ((width + 1) div 2) (Y + ys * y) (U + uvs * (y div 2)) (V + uvs * (y div 2));
     qs \<leftarrow> yuv_rows conv buf dUV width ys uvs Y U V rows;
     Some (ps @ qs) }"

definition YUV420S :: "(u8 \<Rightarrow> u8 \<Rightarrow> u8 \<Rightarrow> 'p) \<Rightarrow> bytes \<Rightarrow> nat \<Rightarrow> nat \<Rightarrow> nat \<Rightarrow> nat \<Rightarrow> nat \<Rightarrow> nat \<Rightarrow> nat \<Rightarrow> nat \<Rightarrow>
    'p list option" where
  "YUV420S conv buf Y U V dUV width height y_stride uv_stride =
     yuv_rows conv buf dUV width y_stride uv_stride Y U V [0..<height]"

definition align16 :: "nat \<Rightarrow> nat" where
  "align16 x = (x + 15) div 16 * 16"

definition YV12ToRGB565 :: "bytes \<Rightarrow> nat \<Rightarrow> nat \<Rightarrow> u16 list option" where
  "YV12ToRGB565 yv12 width height =
     (let y_stride = align16 width; uv_stride = align16 (y_stride div 2);
          U = y_stride * height; V = U + uv_stride * (height div 2)
      in YUV420S YUVToRGB565 yv12 0 U V 1 width height y_stride uv_stride)"

definition YV12ToRGB32 :: "bytes \<Rightarrow> nat \<Rightarrow> nat \<Rightarrow> RGB32_t list option" where
  "YV12ToRGB32 yv12 width height =
     (let y_stride = align16 width; uv_stride = align16 (y_stride div 2);
          V = y_stride * height; U = V + uv_stride * (height div 2)
      in YUV420S YUVToRGB32 yv12 0 U V 1 width height y_stride uv_stride)"

definition YU12ToRGB32 :: "bytes \<Rightarrow> nat \<Rightarrow> nat \<Rightarrow> RGB32_t list option" where
  "YU12ToRGB32 yu12 width height =
     (let y_stride = align16 width; uv_stride = align16 (y_stride div 2);
          U = y_stride * height; V = U + uv_stride * (height div 2)
      in YUV420S YUVToRGB32 yu12 0 U V 1 width height y_stride uv_stride)"

definition NVXX :: "(u8 \<Rightarrow> u8 \<Rightarrow> u8 \<Rightarrow> 'p) \<Rightarrow> bytes \<Rightarrow> nat \<Rightarrow> nat \<Rightarrow> nat \<Rightarrow> nat \<Rightarrow> nat \<Rightarrow> 'p list option" where
  "NVXX conv buf Y U V width height = YUV420S conv buf Y U V 2 width height width width"

definition NV12ToRGB565 :: "bytes \<Rightarrow> nat \<Rightarrow> nat \<Rightarrow> u16 list option" where
  "NV12ToRGB565 nv12 width height =
     (let pix_total = width * height in NVXX YUVToRGB565 nv12 0 pix_total (pix_total + 1) width height)"

definition NV12ToRGB32 :: "bytes \<Rightarrow> nat \<Rightarrow> nat \<Rightarrow> RGB32_t list option" where
  "NV12ToRGB32 nv12 width height =
     (let pix_total = width * height in NVXX YUVToRGB32 nv12 0 pix_total (pix_total + 1) width height)"

definition NV21ToRGB565 :: "bytes \<Rightarrow> nat \<Rightarrow> nat \<Rightarrow> u16 list option" where
  "NV21ToRGB565 nv21 width height =
     (let pix_total = width * height in NVXX YUVToRGB565 nv21 0 (pix_total + 1) pix_total width height)"

definition NV21ToRGB32 :: "bytes \<Rightarrow> nat \<Rightarrow> nat \<Rightarrow> RGB32_t list option" where
  "NV21ToRGB32 nv21 width height =
     (let pix_total = width * height in NVXX YUVToRGB32 nv21 0 (pix_total + 1) pix_total width height)"

section \<open>The loops compute the pixel formula\<close>

text \<open>The reference: pixel \<open>(x, y)\<close> takes its own luma and the chroma of its two by two block.\<close>

definition pixel_at :: "(u8 \<Rightarrow> u8 \<Rightarrow> u8 \<Rightarrow> 'p) \<Rightarrow> bytes \<Rightarrow> nat \<Rightarrow> nat \<Rightarrow> nat \<Rightarrow> nat \<Rightarrow> nat \<Rightarrow> nat \<Rightarrow> nat \<Rightarrow> nat \<Rightarrow> 'p" where
  "pixel_at conv buf Y U V dUV ys uvs y x =
     conv (buf ! (Y + ys * y + x)) (buf ! (U + uvs * (y div 2) + dUV * (x div 2)))
       (buf ! (V + uvs * (y div 2) + dUV * (x div 2)))"

lemma upt_double: "[0..<2 * Suc n] = 0 # 1 # map (\<lambda>x. x + 2) [0..<2 * n]"
proof -
  have "[0..<2 * Suc n] = [0..<2] @ [2..<2 * Suc n]"
    by (metis le_add1 mult_2 mult_Suc_right numeral_Bit0 one_add_one upt_add_eq_append zero_le numeral_plus_one add.commute)
  moreover have "map (\<lambda>x. x + 2) [0..<2 * n] = [2..<2 * Suc n]"
    using map_add_upt [of 2 "2 * n"] by simp
  ultimately show ?thesis by (simp add: numeral_2_eq_2)
qed

lemma yuv_row_pixels:
  assumes "Y + 2 * n \<le> length buf" and "n = 0 \<or> U + dUV * (n - 1) < length buf"
    and "n = 0 \<or> V + dUV * (n - 1) < length buf"
  shows "yuv_row conv buf dUV n Y U V =
    Some (map (\<lambda>x. conv (buf ! (Y + x)) (buf ! (U + dUV * (x div 2))) (buf ! (V + dUV * (x div 2)))) [0..<2 * n])"
  using assms
proof (induction n arbitrary: Y U V)
  case (Suc n)
  have le: "U \<le> U + dUV * n" "V \<le> V + dUV * n" by simp_all
  have r: "rd8 buf U = Some (buf ! U)" "rd8 buf V = Some (buf ! V)" "rd8 buf Y = Some (buf ! Y)"
    "rd8 buf (Y + 1) = Some (buf ! (Y + 1))"
    using Suc.prems le by (auto simp: rd8_def intro: le_less_trans)
  have "n = 0 \<or> U + dUV + dUV * (n - 1) < length buf" "n = 0 \<or> V + dUV + dUV * (n - 1) < length buf"
    using Suc.prems(2,3) by (cases n; simp)+
  with Suc.IH [of "Y + 2" "U + dUV" "V + dUV"] Suc.prems(1) have
    ih: "yuv_row conv buf dUV n (Y + 2) (U + dUV) (V + dUV) =
      Some (map (\<lambda>x. conv (buf ! (Y + 2 + x)) (buf ! (U + dUV + dUV * (x div 2)))
        (buf ! (V + dUV + dUV * (x div 2)))) [0..<2 * n])"
    by simp
  show ?case
    unfolding yuv_row.simps r ih bind.simps upt_double list.map map_map
    by (simp add: comp_def algebra_simps)
qed simp

lemma yuv_rows_pixels:
  assumes "even width" and "\<forall>y\<in>set rows. Y + ys * y + width \<le> length buf"
    and "\<forall>y\<in>set rows. width = 0 \<or> U + uvs * (y div 2) + dUV * (width div 2 - 1) < length buf"
    and "\<forall>y\<in>set rows. width = 0 \<or> V + uvs * (y div 2) + dUV * (width div 2 - 1) < length buf"
  shows "yuv_rows conv buf dUV width ys uvs Y U V rows =
    Some (concat (map (\<lambda>y. map (pixel_at conv buf Y U V dUV ys uvs y) [0..<width]) rows))"
  using assms(2-4)
proof (induction rows)
  case (Cons y rows)
  obtain h where w: "width = 2 * h" using assms(1) by (auto elim: evenE)
  have "yuv_row conv buf dUV ((width + 1) div 2) (Y + ys * y) (U + uvs * (y div 2)) (V + uvs * (y div 2)) =
    Some (map (pixel_at conv buf Y U V dUV ys uvs y) [0..<width])"
    using yuv_row_pixels [of "Y + ys * y" h buf "U + uvs * (y div 2)" dUV "V + uvs * (y div 2)" conv] Cons.prems
    by (auto simp: w pixel_at_def)
  then show ?case using Cons by auto
qed simp

text \<open>Both planes of chroma have a row for every two rows of luma; the last row may lack its final
  \<open>k\<close> bytes, as in the interleaved formats, where the second plane starts one byte later.\<close>

lemma YUV420S_pixels:
  assumes "even width" and "even height" and "width \<le> ys" and "Y + ys * height \<le> length buf"
    and "U + uvs * (height div 2) \<le> length buf + k" and "V + uvs * (height div 2) \<le> length buf + k"
    and "0 < width \<longrightarrow> dUV * (width div 2 - 1) + k < uvs"
  shows "YUV420S conv buf Y U V dUV width height ys uvs =
    Some (concat (map (\<lambda>y. map (pixel_at conv buf Y U V dUV ys uvs y) [0..<width]) [0..<height]))"
proof -
  have row: "a * (y div 2) + a \<le> a * (height div 2)" if "y < height" for y a :: nat
  proof -
    have "Suc (y div 2) \<le> height div 2" using that assms(2) by (auto elim!: evenE)
    then have "a * Suc (y div 2) \<le> a * (height div 2)" by (rule mult_le_mono2)
    then show ?thesis by simp
  qed
  have lum: "ys * y + ys \<le> ys * height" if "y < height" for y
    using mult_le_mono2 [of "Suc y" height ys] that by simp
  show ?thesis
    unfolding YUV420S_def
  proof (rule yuv_rows_pixels [OF assms(1)]; intro ballI)
    fix y assume "y \<in> set [0..<height]"
    then have y: "y < height" by simp
    show "Y + ys * y + width \<le> length buf" using lum [OF y] assms(3,4) by linarith
    show "width = 0 \<or> U + uvs * (y div 2) + dUV * (width div 2 - 1) < length buf"
      using row [OF y, of uvs] assms(5,7) by (cases "width = 0"; linarith)
    show "width = 0 \<or> V + uvs * (y div 2) + dUV * (width div 2 - 1) < length buf"
      using row [OF y, of uvs] assms(6,7) by (cases "width = 0"; linarith)
  qed
qed

definition frame_pixels :: "(u8 \<Rightarrow> u8 \<Rightarrow> u8 \<Rightarrow> 'p) \<Rightarrow> bytes \<Rightarrow> nat \<Rightarrow> nat \<Rightarrow> nat \<Rightarrow> nat \<Rightarrow> nat \<Rightarrow> nat \<Rightarrow> nat \<Rightarrow> 'p list" where
  "frame_pixels conv buf U V dUV ys uvs width height =
     concat (map (\<lambda>y. map (pixel_at conv buf 0 U V dUV ys uvs y) [0..<width]) [0..<height])"

lemma align16_ge: "x \<le> align16 x"
proof -
  have "x + 15 = (x + 15) div 16 * 16 + (x + 15) mod 16" by simp
  moreover have "(x + 15) mod 16 < 16" by simp
  ultimately show ?thesis unfolding align16_def by linarith
qed

lemma NVXX_pixels:
  assumes "even width" and "even height" and "width * height + width * (height div 2) \<le> length buf"
    and "{U, V} \<subseteq> {width * height, width * height + 1}"
  shows "NVXX conv buf 0 U V width height = Some (frame_pixels conv buf U V 2 width width width height)"
proof -
  have "0 < width \<longrightarrow> 2 * (width div 2 - 1) + 1 < width" using assms(1) by (auto elim!: evenE)
  then show ?thesis
    unfolding NVXX_def frame_pixels_def
    using assms by (intro YUV420S_pixels [where k = 1]) auto
qed

lemma planar_pixels:
  fixes width height :: nat
  defines "ys \<equiv> align16 width" defines "uvs \<equiv> align16 (ys div 2)"
  assumes "even width" and "even height" and "ys * height + 2 * (uvs * (height div 2)) \<le> length buf"
    and "{U, V} \<subseteq> {ys * height, ys * height + uvs * (height div 2)}"
  shows "YUV420S conv buf 0 U V 1 width height ys uvs = Some (frame_pixels conv buf U V 1 ys uvs width height)"
proof -
  have "width \<le> ys" unfolding ys_def by (rule align16_ge)
  moreover have "ys div 2 \<le> uvs" unfolding uvs_def by (rule align16_ge)
  ultimately have "0 < width \<longrightarrow> width div 2 - 1 < uvs" using assms(3) by (auto elim!: evenE)
  then show ?thesis
    unfolding frame_pixels_def
    using assms(3-6) \<open>width \<le> ys\<close> by (intro YUV420S_pixels [where k = 0]) auto
qed

text \<open>Property C38: conversion of the semi-planar formats. For a frame of even dimensions that holds
  its luma plane and its interleaved chroma plane, the pointer-walking loops read no byte outside the
  frame and produce, in row order, the pixel formula: own luma, and the chroma pair of the two by two
  block, blue difference first in NV12 and second in NV21.\<close>

theorem nv_conversion:
  assumes "even width" and "even height" and "width * height + width * (height div 2) \<le> length frame"
  shows "NV12ToRGB32 frame width height =
      Some (frame_pixels YUVToRGB32 frame (width * height) (width * height + 1) 2 width width width height) \<and>
    NV21ToRGB32 frame width height =
      Some (frame_pixels YUVToRGB32 frame (width * height + 1) (width * height) 2 width width width height) \<and>
    NV12ToRGB565 frame width height =
      Some (frame_pixels YUVToRGB565 frame (width * height) (width * height + 1) 2 width width width height) \<and>
    NV21ToRGB565 frame width height =
      Some (frame_pixels YUVToRGB565 frame (width * height + 1) (width * height) 2 width width width height)"
  by (simp add: NV12ToRGB32_def NV21ToRGB32_def NV12ToRGB565_def NV21ToRGB565_def Let_def
      NVXX_pixels [OF assms])

lemma nv_conversion_witness:
  "NV21ToRGB32 (replicate 4 235 @ [128, 128]) 2 2 = Some (replicate 4 \<lparr>px_r = 255, px_g = 255, px_b = 255\<rparr>)"
proof -
  have "frame_pixels YUVToRGB32 (replicate 4 235 @ [128, 128]) (2 * 2 + 1) (2 * 2) 2 2 2 2 2 =
      replicate 4 \<lparr>px_r = 255, px_g = 255, px_b = 255\<rparr>"
    by code_simp
  then show ?thesis using nv_conversion [of 2 2 "replicate 4 235 @ [128, 128]"] by simp
qed

text \<open>Conversion of the planar formats, whose strides are rounded up to 16 bytes. The
  32-bit conversions of YU12 and YV12 read the blue difference plane first and second, as the formats
  demand. The 16-bit conversion of YV12 takes the planes in the order of YU12, so it exchanges the two
  colour differences: it yields a different colour than the 32-bit conversion of the same frame.\<close>

theorem planar_conversion:
  assumes "even width" and "even height"
    and "align16 width * height + 2 * (align16 (align16 width div 2) * (height div 2)) \<le> length frame"
  shows "let ys = align16 width; uvs = align16 (ys div 2); p1 = ys * height; p2 = p1 + uvs * (height div 2) in
    YU12ToRGB32 frame width height = Some (frame_pixels YUVToRGB32 frame p1 p2 1 ys uvs width height) \<and>
    YV12ToRGB32 frame width height = Some (frame_pixels YUVToRGB32 frame p2 p1 1 ys uvs width height) \<and>
    YV12ToRGB565 frame width height = Some (frame_pixels YUVToRGB565 frame p1 p2 1 ys uvs width height)"
  unfolding YU12ToRGB32_def YV12ToRGB32_def YV12ToRGB565_def Let_def
  by (intro conjI planar_pixels [OF assms]) auto

lemma planar_conversion_witness:
  "YV12ToRGB565 (replicate 32 100 @ replicate 16 128 @ replicate 16 255) 2 2 = Some (replicate 4 (RGB565 31 0 12)) \<and>
   YV12ToRGB32 (replicate 32 100 @ replicate 16 128 @ replicate 16 255) 2 2 =
     Some (replicate 4 \<lparr>px_r = 98, px_g = 48, px_b = 255\<rparr>)"
proof -
  let ?f = "replicate 32 100 @ replicate 16 128 @ replicate 16 255 :: bytes"
  have al: "align16 2 = 16" "align16 8 = 16" by (simp_all add: align16_def)
  have "frame_pixels YUVToRGB565 ?f 32 48 1 16 16 2 2 = replicate 4 (RGB565 31 0 12)" by code_simp
  moreover have "frame_pixels YUVToRGB32 ?f 48 32 1 16 16 2 2 = replicate 4 \<lparr>px_r = 98, px_g = 48, px_b = 255\<rparr>"
    by code_simp
  ultimately show ?thesis using planar_conversion [of 2 2 ?f] by (simp add: al Let_def)
qed

end
