(* ===== verification/Camera_Rotating.thy ===== *)
theory Camera_Rotating
  imports Camera_Converters
begin

text \<open>
  \<^verbatim>\<open>camera/EmulatedFakeRotatingCameraDevice.cpp\<close>: the pixel work of the rotating test camera. The
  pattern image is converted from NV21 to 32-bit colour, put in the middle of a square texture, and
  the rendered frame is converted back. Rendering itself is OpenGL and is left out. A read past the
  end of an image is the error \<open>None\<close>.
\<close>

section \<open>Conversion of the rendered frame\<close>

definition rgb_y :: "RGB32_t \<Rightarrow> u8" where
  "rgb_y p = word_of_int (clamp ((77 * uint (px_r p) + 150 * uint (px_g p) + 29 * uint (px_b p)) div 256))"

definition rgb_v :: "RGB32_t \<Rightarrow> u8" where
  "rgb_v p = word_of_int (clamp ((128 * uint (px_r p) - 107 * uint (px_g p) - 21 * uint (px_b p)) div 256 + 128))"

definition rgb_u :: "RGB32_t \<Rightarrow> u8" where
  "rgb_u p = word_of_int (clamp ((- 43 * uint (px_r p) - 85 * uint (px_g p) + 128 * uint (px_b p)) div 256 + 128))"

text \<open>The loop over the pixels in row order, with the output and the position of the next chroma
  byte as its state.\<close>

fun to_nv21_loop :: "RGB32_t list \<Rightarrow> nat \<Rightarrow> nat \<Rightarrow> (nat \<times> nat) list \<Rightarrow> bytes \<times> nat \<Rightarrow> bytes \<times> nat" where
  "to_nv21_loop input width yStride [] st = st"
| "to_nv21_loop input width yStride ((j, i) # ps) (out, vu) =
     (let p = input ! (j * width + i);
          out = out[j * yStride + i := rgb_y p]
      in if even j \<and> even i
         then to_nv21_loop input width yStride ps (out[vu := rgb_v p, vu + 1 := rgb_u p], vu + 2)
         else to_nv21_loop input width yStride ps (out, vu))"

definition rgba8888_to_nv21 :: "RGB32_t list \<Rightarrow> bytes \<Rightarrow> nat \<Rightarrow> nat \<Rightarrow> bytes" where
  "rgba8888_to_nv21 input output width height =
     fst (to_nv21_loop input width (align16 width) (List.product [0..<height] [0..<width])
       (output, height * align16 width))"

section \<open>Conversion of the pattern\<close>

text \<open>The state of the loop: the position of the next chroma pair, and the last \<open>U\<close> and \<open>V\<close> read.
  They are read again only in the even columns of even rows.\<close>

fun nv21_cols :: "bytes \<Rightarrow> bool \<Rightarrow> nat \<Rightarrow> nat list \<Rightarrow> nat \<times> u8 \<times> u8 \<Rightarrow> (RGB32_t list \<times> nat \<times> u8 \<times> u8) option" where
  "nv21_cols input jeven inputY [] st = Some ([], st)"
| "nv21_cols input jeven inputY (i # is) (vu, U, V) = do {
     Y \<leftarrow> rd8 input (inputY + i);
     st \<leftarrow> (if jeven \<and> even i
            then do { V \<leftarrow> rd8 input vu; U \<leftarrow> rd8 input (vu + 1); Some (vu + 2, U, V) }
            else Some (vu, U, V));
     (ps, st') \<leftarrow> nv21_cols input jeven inputY is st;
     Some (YUVToRGB32 Y (fst (snd st)) (snd (snd st)) # ps, st') }"

fun nv21_rows :: "bytes \<Rightarrow> nat \<Rightarrow> nat \<Rightarrow> nat list \<Rightarrow> nat \<times> u8 \<times> u8 \<Rightarrow> RGB32_t list option" where
  "nv21_rows input yStride width [] st = Some []"
| "nv21_rows input yStride width (j # js) st = do {
     (ps, st') \<leftarrow> nv21_cols input (even j) (j * yStride) [0..<width] st;
     qs \<leftarrow> nv21_rows input yStride width js st';
     Some (ps @ qs) }"

text \<open>\<open>u0\<close> and \<open>v0\<close> are what the uninitialised variables hold.\<close>

definition nv21_to_rgba8888 :: "u8 \<Rightarrow> u8 \<Rightarrow> bytes \<Rightarrow> nat \<Rightarrow> nat \<Rightarrow> RGB32_t list option" where
  "nv21_to_rgba8888 u0 v0 input width height =
     nv21_rows input (align16 width) width [0..<height] (height * align16 width, u0, v0)"

section \<open>The square texture\<close>

definition get_color :: "'c list \<Rightarrow> int \<Rightarrow> int \<Rightarrow> int \<Rightarrow> int \<Rightarrow> int \<Rightarrow> 'c \<Rightarrow> 'c option" where
  "get_color img i j w h dw color =
     (let mini = dw div 2 - w div 2; minj = dw div 2 - h div 2;
          maxi = mini + w - 1; maxj = minj + h - 1
      in if i \<ge> mini \<and> i \<le> maxi \<and> j \<ge> minj \<and> j \<le> maxj
         then let p = i - mini + dw * (j - minj) in
           if 0 \<le> p \<and> p < int (length img) then Some (img ! nat p) else None
         else Some color)"

definition convert_to_square :: "'c \<Rightarrow> 'c list \<Rightarrow> nat \<Rightarrow> nat \<Rightarrow> nat \<Rightarrow> 'c list option" where
  "convert_to_square zero src sw sh dw =
     those (map (\<lambda>(j, i). get_color src (int i) (int j) (int sw) (int sh) (int dw) zero)
       (List.product [0..<dw] [0..<dw]))"

section \<open>Chroma of the converted pattern\<close>

text \<open>The position of the chroma pair the loop uses for a pixel.\<close>

definition vu_used :: "nat \<Rightarrow> nat \<Rightarrow> nat \<Rightarrow> nat \<Rightarrow> nat" where
  "vu_used base width j i = base + width * (j div 2) + (if even j then 2 * (i div 2) else width - 2)"

lemma rd8_in: "p < length buf \<Longrightarrow> rd8 buf p = Some (buf ! p)"
  by (simp add: rd8_def)

lemma upt_pair: "[c..<c + 2 * Suc n] = c # Suc c # [c + 2..<c + 2 + 2 * n]"
  by (simp add: upt_rec [of c] upt_rec [of "Suc c"])

lemma nv21_even_row:
  assumes "even c" and "Yb + c + 2 * n \<le> length input" and "vu + 2 * n \<le> length input"
  shows "nv21_cols input True Yb [c..<c + 2 * n] (vu, U, V) =
    Some (map (\<lambda>k. YUVToRGB32 (input ! (Yb + k)) (input ! (vu + 2 * ((k - c) div 2) + 1))
        (input ! (vu + 2 * ((k - c) div 2)))) [c..<c + 2 * n],
      if n = 0 then (vu, U, V) else (vu + 2 * n, input ! (vu + 2 * n - 1), input ! (vu + 2 * n - 2)))"
  using assms
proof (induction n arbitrary: c vu U V)
  case (Suc n)
  have r: "rd8 input (Yb + c) = Some (input ! (Yb + c))" "rd8 input (Yb + Suc c) = Some (input ! (Yb + Suc c))"
    "rd8 input vu = Some (input ! vu)" "rd8 input (vu + 1) = Some (input ! (vu + 1))"
    using Suc.prems by (simp_all add: rd8_in)
  have mp: "map (\<lambda>k. YUVToRGB32 (input ! (Yb + k)) (input ! (vu + 2 + 2 * ((k - (c + 2)) div 2) + 1))
        (input ! (vu + 2 + 2 * ((k - (c + 2)) div 2)))) [c + 2..<c + 2 + 2 * n] =
      map (\<lambda>k. YUVToRGB32 (input ! (Yb + k)) (input ! (vu + 2 * ((k - c) div 2) + 1))
        (input ! (vu + 2 * ((k - c) div 2)))) [c + 2..<c + 2 + 2 * n]"
  proof (rule map_cong [OF refl])
    fix k assume "k \<in> set [c + 2..<c + 2 + 2 * n]"
    then have "k - c = k - (c + 2) + 2" by auto
    then have "(k - c) div 2 = Suc ((k - (c + 2)) div 2)" by simp
    then show "YUVToRGB32 (input ! (Yb + k)) (input ! (vu + 2 + 2 * ((k - (c + 2)) div 2) + 1))
        (input ! (vu + 2 + 2 * ((k - (c + 2)) div 2))) =
      YUVToRGB32 (input ! (Yb + k)) (input ! (vu + 2 * ((k - c) div 2) + 1))
        (input ! (vu + 2 * ((k - c) div 2)))" by simp
  qed
  have ih: "nv21_cols input True Yb [c + 2..<c + 2 + 2 * n] (vu + 2, input ! (vu + 1), input ! vu) =
    Some (map (\<lambda>k. YUVToRGB32 (input ! (Yb + k)) (input ! (vu + 2 + 2 * ((k - (c + 2)) div 2) + 1))
        (input ! (vu + 2 + 2 * ((k - (c + 2)) div 2)))) [c + 2..<c + 2 + 2 * n],
      if n = 0 then (vu + 2, input ! (vu + 1), input ! vu)
      else (vu + 2 + 2 * n, input ! (vu + 2 + 2 * n - 1), input ! (vu + 2 + 2 * n - 2)))"
    by (rule Suc.IH) (use Suc.prems in auto)
  have e: "even c = True" "even (Suc c) = False" using Suc.prems(1) by simp_all
  have st: "(if n = 0 then (vu + 2, input ! (vu + 1), input ! vu)
      else (vu + 2 + 2 * n, input ! (vu + 2 + 2 * n - 1), input ! (vu + 2 + 2 * n - 2))) =
    (vu + 2 * Suc n, input ! (vu + 2 * Suc n - 1), input ! (vu + 2 * Suc n - 2))"
    by simp
  have d: "(c - c) div 2 = 0" "(Suc c - c) div 2 = 0" by simp_all
  show ?case
    by (simp only: upt_pair nv21_cols.simps r e simp_thms if_True if_False bind.simps case_prod_conv ih mp st
        list.map fst_conv snd_conv d mult_0_right add_0_right nat.distinct)
qed simp

lemma nv21_odd_row:
  assumes "\<forall>i\<in>set is. Yb + i < length input"
  shows "nv21_cols input False Yb is (vu, U, V) = Some (map (\<lambda>i. YUVToRGB32 (input ! (Yb + i)) U V) is, vu, U, V)"
  using assms by (induction "is") (simp_all add: rd8_in)

lemma nv21_rows_pixels:
  assumes "width = 2 * Suc w" and "ys * (2 * a + 2 * m) \<le> length input" and "width \<le> ys"
    and "base + width * (a + m) \<le> length input"
  shows "nv21_rows input ys width [2 * a..<2 * a + 2 * m] (base + width * a, U, V) =
    Some (concat (map (\<lambda>j. map (\<lambda>i. YUVToRGB32 (input ! (j * ys + i)) (input ! (vu_used base width j i + 1))
      (input ! (vu_used base width j i))) [0..<width]) [2 * a..<2 * a + 2 * m]))"
  using assms(2,4)
proof (induction m arbitrary: a U V)
  case (Suc m)
  have "ys * (2 * a + 2) \<le> ys * (2 * a + 2 * Suc m)" by (intro mult_le_mono2) simp
  then have y: "2 * a * ys + 2 * ys \<le> length input" using Suc.prems(1) by (simp add: algebra_simps)
  have "width * Suc a \<le> width * (a + Suc m)" by (intro mult_le_mono2) simp
  then have v: "base + width * a + 2 * Suc w \<le> length input" using Suc.prems(2) assms(1) by simp
  have r0: "nv21_cols input True (2 * a * ys) [0..<width] (base + width * a, U, V) =
    Some (map (\<lambda>i. YUVToRGB32 (input ! (2 * a * ys + i)) (input ! (vu_used base width (2 * a) i + 1))
        (input ! (vu_used base width (2 * a) i))) [0..<width],
      base + width * Suc a, input ! (base + width * a + (width - 2) + 1), input ! (base + width * a + (width - 2)))"
    using nv21_even_row [of 0 "2 * a * ys" "Suc w" input "base + width * a" U V] y v assms(1,3)
    by (simp add: vu_used_def)
  have r1: "nv21_cols input False ((2 * a + 1) * ys) [0..<width] (s, U', V') =
      Some (map (\<lambda>i. YUVToRGB32 (input ! ((2 * a + 1) * ys + i)) U' V') [0..<width], s, U', V')" for s U' V'
    using y assms(3) by (intro nv21_odd_row) auto
  have u1: "vu_used base width (2 * a + 1) i = base + width * a + (width - 2)" for i
    by (simp add: vu_used_def)
  have "2 * a + 2 * Suc m = 2 * Suc a + 2 * m" by simp
  note ih = Suc.IH [of "Suc a"]
  have up: "[2 * a..<2 * a + 2 * Suc m] = 2 * a # (2 * a + 1) # [2 * Suc a..<2 * Suc a + 2 * m]"
    using upt_pair [of "2 * a" m] by simp
  have e: "even (2 * a) = True" "even (2 * a + 1) = False" by simp_all
  from Suc.prems ih have
    ih': "nv21_rows input ys width [2 * Suc a..<2 * Suc a + 2 * m] (base + width * Suc a, U', V') =
    Some (concat (map (\<lambda>j. map (\<lambda>i. YUVToRGB32 (input ! (j * ys + i)) (input ! (vu_used base width j i + 1))
      (input ! (vu_used base width j i))) [0..<width]) [2 * Suc a..<2 * Suc a + 2 * m]))" for U' V'
    by (simp add: algebra_simps)
  show ?case
    unfolding up nv21_rows.simps e r0 bind.simps case_prod_conv r1 ih' list.map concat.simps u1 append_assoc
    by (rule refl)
qed simp

text \<open>The colours of the converted pattern. In an even row each pixel gets the chroma of
  its own block, but in an odd row the chroma is not read again, so every pixel of an odd row gets the
  chroma of the last block of the row above it. No byte outside the image is read.\<close>

theorem rotating_pattern_chroma:
  assumes "even width" and "0 < width" and "even height"
    and "align16 width * height + width * (height div 2) \<le> length input"
  shows "nv21_to_rgba8888 u0 v0 input width height =
    Some (concat (map (\<lambda>j. map (\<lambda>i.
      let vu = align16 width * height + width * (j div 2) + (if even j then 2 * (i div 2) else width - 2)
      in YUVToRGB32 (input ! (j * align16 width + i)) (input ! (vu + 1)) (input ! vu)) [0..<width]) [0..<height]))"
proof -
  obtain w where w: "width = 2 * Suc w" using assms(1,2) by (metis evenE gr0_implies_Suc mult_0_right neq0_conv)
  obtain m where m: "height = 2 * m" using assms(3) by (rule evenE)
  have "align16 width * (2 * 0 + 2 * m) \<le> length input"
    and "align16 width * height + width * (0 + m) \<le> length input"
    using assms(4) m by auto
  from nv21_rows_pixels [OF w this(1) align16_ge this(2), of u0 v0] show ?thesis
    by (simp add: nv21_to_rgba8888_def m vu_used_def Let_def mult.commute)
qed

lemma rotating_pattern_chroma_witness:
  "\<exists>ps. nv21_to_rgba8888 0 0 (replicate 32 100 @ [128, 128, 128, 255]) 4 2 = Some ps \<and>
     ps ! 0 = \<lparr>px_r = 98, px_g = 98, px_b = 98\<rparr> \<and> ps ! 4 = \<lparr>px_r = 98, px_g = 48, px_b = 255\<rparr>"
proof -
  let ?f = "replicate 32 100 @ [128, 128, 128, 255] :: bytes"
  have al: "align16 4 = 16" by (simp add: align16_def)
  have "nv21_to_rgba8888 0 0 ?f 4 2 = Some (concat (map (\<lambda>j. map (\<lambda>i.
      let vu = 16 * 2 + 4 * (j div 2) + (if even j then 2 * (i div 2) else 4 - 2)
      in YUVToRGB32 (?f ! (j * 16 + i)) (?f ! (vu + 1)) (?f ! vu)) [0..<4]) [0..<2]))"
    using rotating_pattern_chroma [of 4 2 ?f 0 0] by (simp add: al)
  moreover have "concat (map (\<lambda>j. map (\<lambda>i.
      let vu = 16 * 2 + 4 * (j div 2) + (if even j then 2 * (i div 2) else 4 - 2)
      in YUVToRGB32 (?f ! (j * 16 + i)) (?f ! (vu + 1)) (?f ! vu)) [0..<4]) [0..<2]) ! 0 =
      \<lparr>px_r = 98, px_g = 98, px_b = 98\<rparr>" by code_simp
  moreover have "concat (map (\<lambda>j. map (\<lambda>i.
      let vu = 16 * 2 + 4 * (j div 2) + (if even j then 2 * (i div 2) else 4 - 2)
      in YUVToRGB32 (?f ! (j * 16 + i)) (?f ! (vu + 1)) (?f ! vu)) [0..<4]) [0..<2]) ! 4 =
      \<lparr>px_r = 98, px_g = 48, px_b = 255\<rparr>" by code_simp
  ultimately show ?thesis by blast
qed

section \<open>The square\<close>

lemma those_map_Some: "(\<And>x. x \<in> set xs \<Longrightarrow> f x = Some (g x)) \<Longrightarrow> those (map f xs) = Some (map g xs)"
  by (induction xs) simp_all

lemma map_product_rows:
  "map f (List.product xs ys) = concat (map (\<lambda>x. map (\<lambda>y. f (x, y)) ys) xs)"
  by (induction xs) (simp_all add: comp_def)

lemma concat_rows: "length src = n * w \<Longrightarrow> concat (map (\<lambda>k. map (\<lambda>i. src ! (i + w * k)) [0..<w]) [0..<n]) = src"
proof (induction n arbitrary: src)
  case (Suc n)
  have t: "map (\<lambda>k. map (\<lambda>i. take (n * w) src ! (i + w * k)) [0..<w]) [0..<n] =
      map (\<lambda>k. map (\<lambda>i. src ! (i + w * k)) [0..<w]) [0..<n]"
  proof (intro map_cong [OF refl] nth_take)
    fix k i assume "k \<in> set [0..<n]" "i \<in> set [0..<w]"
    then have "i + w * k < w * Suc k" and "w * Suc k \<le> w * n" by (simp, intro mult_le_mono2) simp
    then show "i + w * k < n * w" by (simp add: mult.commute)
  qed
  have "map (\<lambda>i. src ! (i + w * n)) [0..<w] = drop (n * w) src"
    using Suc.prems by (intro nth_equalityI) (simp_all add: mult.commute add.commute)
  with Suc.IH [of "take (n * w) src"] Suc.prems t show ?case by simp
qed simp

definition square_top :: "nat \<Rightarrow> nat \<Rightarrow> nat" where
  "square_top sh dw = dw div 2 - sh div 2"

definition square_row :: "'c \<Rightarrow> 'c list \<Rightarrow> nat \<Rightarrow> nat \<Rightarrow> nat \<Rightarrow> 'c list" where
  "square_row zero src sh dw j =
     (if square_top sh dw \<le> j \<and> j < square_top sh dw + sh
      then map (\<lambda>i. src ! (i + dw * (j - square_top sh dw))) [0..<dw] else replicate dw zero)"

lemma square_top_fits: "sh \<le> dw \<Longrightarrow> square_top sh dw + sh \<le> dw"
proof -
  assume le: "sh \<le> dw"
  have "dw = 2 * (dw div 2) + dw mod 2" "sh = 2 * (sh div 2) + sh mod 2" by simp_all
  moreover have "sh mod 2 < 2" "sh div 2 = dw div 2 \<or> sh div 2 < dw div 2"
    using div_le_mono [OF le, of 2] by auto
  ultimately show ?thesis using le unfolding square_top_def by linarith
qed

lemma get_color_row:
  assumes "length src = sh * dw" and "sh \<le> dw" and "i < dw"
  shows "get_color src (int i) (int j) (int dw) (int sh) (int dw) zero = Some (square_row zero src sh dw j ! i)"
proof -
  define top where "top = square_top sh dw"
  have mj: "int dw div 2 - int sh div 2 = int top"
    unfolding top_def square_top_def of_nat_diff [OF div_le_mono [OF assms(2)]] zdiv_int
    by (simp only: of_nat_numeral)
  show ?thesis
  proof (cases "top \<le> j \<and> j < top + sh")
    case True
    have e: "int i + int dw * (int j - int top) = int (i + dw * (j - top))" using True by (simp add: of_nat_diff)
    have "dw * Suc (j - top) \<le> dw * sh" using True by (intro mult_le_mono2) auto
    then have "i + dw * (j - top) < length src" using assms(1,3) by (simp add: mult.commute)
    then show ?thesis
      using True assms(3)
      by (simp add: get_color_def mj square_row_def top_def [symmetric] Let_def e del: of_nat_add of_nat_mult)
  next
    case False
    then have "\<not> (int top \<le> int j \<and> int j \<le> int top + int sh - 1)" by auto
    then show ?thesis
      using False assms(3) by (auto simp: get_color_def mj square_row_def top_def [symmetric] Let_def)
  qed
qed

lemma square_rows_concat:
  assumes "length src = sh * dw" and "sh \<le> dw"
  shows "concat (map (square_row zero src sh dw) [0..<dw]) =
    replicate (square_top sh dw * dw) zero @ src @ replicate ((dw - square_top sh dw - sh) * dw) zero"
proof -
  define top where "top = square_top sh dw"
  obtain r where r: "dw = top + sh + r" using square_top_fits [OF assms(2)] le_Suc_ex top_def by blast
  have blank: "concat (map (square_row zero src sh dw) [a..<a + n]) = replicate (n * dw) zero"
    if "\<forall>j. a \<le> j \<and> j < a + n \<longrightarrow> \<not> (top \<le> j \<and> j < top + sh)" for a n
  proof -
    have "square_row zero src sh dw j = replicate dw zero" if "j \<in> set [a..<a + n]" for j
      using that \<open>\<forall>j. a \<le> j \<and> j < a + n \<longrightarrow> \<not> (top \<le> j \<and> j < top + sh)\<close>
      by (auto simp: square_row_def top_def [symmetric])
    then have "map (square_row zero src sh dw) [a..<a + n] = map (\<lambda>_. replicate dw zero) [a..<a + n]"
      by (rule map_cong [OF refl])
    then have "map (square_row zero src sh dw) [a..<a + n] = replicate n (replicate dw zero)"
      by (simp add: map_replicate_const)
    moreover have "concat (replicate n (replicate dw zero)) = replicate (n * dw) zero"
      by (induction n) (simp_all add: replicate_add)
    ultimately show ?thesis by simp
  qed
  have "map (square_row zero src sh dw) [top..<top + sh] = map (\<lambda>k. map (\<lambda>i. src ! (i + dw * k)) [0..<dw]) [0..<sh]"
    by (intro nth_equalityI) (simp_all add: square_row_def top_def [symmetric])
  then have mid: "concat (map (square_row zero src sh dw) [top..<top + sh]) = src"
    using concat_rows [OF assms(1)] by simp
  have "[0..<dw] = [0..<0 + top] @ [top..<top + sh] @ [top + sh..<top + sh + r]"
    using upt_add_eq_append [of 0 top "sh + r"] upt_add_eq_append [of top "top + sh" r] by (subst r) (simp add: add.assoc)
  then have "concat (map (square_row zero src sh dw) [0..<dw]) = replicate (top * dw) zero @ src @ replicate (r * dw) zero"
    using blank [of 0 top] blank [of "top + sh" r] mid by simp
  moreover have "r = dw - square_top sh dw - sh" using r unfolding top_def by linarith
  ultimately show ?thesis unfolding top_def by (simp only:)
qed

text \<open>The square texture is the image with blank rows above and below. For an image as
  wide as the square and not higher, no pixel is lost, moved sideways or read out of range, and the
  image starts at half the difference of the heights.\<close>

theorem rotating_square:
  assumes "length src = sh * dw" and "sh \<le> dw"
  shows "convert_to_square zero src dw sh dw =
    (let top = dw div 2 - sh div 2 in
     Some (replicate (top * dw) zero @ src @ replicate ((dw - top - sh) * dw) zero))"
proof -
  have "convert_to_square zero src dw sh dw =
      Some (map (\<lambda>(j, i). square_row zero src sh dw j ! i) (List.product [0..<dw] [0..<dw]))"
    unfolding convert_to_square_def using get_color_row [OF assms] by (intro those_map_Some) auto
  moreover have "map (\<lambda>i. square_row zero src sh dw j ! i) [0..<dw] = square_row zero src sh dw j" for j
    by (intro nth_equalityI) (simp_all add: square_row_def)
  ultimately show ?thesis
    using square_rows_concat [OF assms, of zero] by (simp add: map_product_rows square_top_def Let_def)
qed

lemma rotating_square_witness:
  "convert_to_square (0 :: nat) [1, 2, 3, 4, 5, 6, 7, 8] 4 2 4 =
     Some [0, 0, 0, 0, 1, 2, 3, 4, 5, 6, 7, 8, 0, 0, 0, 0]"
proof -
  have "(let top = 4 div 2 - 2 div 2 in Some (replicate (top * 4) 0 @ [1, 2, 3, 4, 5, 6, 7, 8] @
      replicate ((4 - top - 2) * 4) (0 :: nat))) = Some [0, 0, 0, 0, 1, 2, 3, 4, 5, 6, 7, 8, 0, 0, 0, 0]"
    by code_simp
  then show ?thesis using rotating_square [of "[1, 2, 3, 4, 5, 6, 7, 8 :: nat]" 2 4 0] by simp
qed

end
