(* ===== verification/Camera_Pattern.thy ===== *)
theory Camera_Pattern
  imports Camera_Rotating
begin

text \<open>
  \<^verbatim>\<open>camera/acircles_pattern_1280_720.c\<close>: the test image of the rotating camera, 1280 by 720, as the
  array \<^verbatim>\<open>rawData\<close> of its bytes. The luma plane comes first, one row after the other. A band of rows
  is modelled as the list of its rows, each run-length encoded as pairs of a count and a byte. The
  bands here are the rows 0 to 183 (the white margin, the logo in the upper right corner and the first
  row of circles) and the white bands below; the other rows and the colour planes are not modelled.
\<close>

type_synonym band = "(nat \<times> u8) list list"

definition white_rows :: "nat \<Rightarrow> band" where
  "white_rows n = replicate n [(1280, 0xEB)]"

section \<open>Bands of the luma plane\<close>

definition acircles_0_33 :: band where
  "acircles_0_33 = white_rows 34"

definition acircles_34_44 :: band where
  "acircles_34_44 = [
     [(1126, 235), (1, 206), (1, 205), (62, 206), (1, 205), (1, 207), (88, 235)],
     [(1126, 235), (1, 206), (64, 205), (1, 206), (88, 235)],
     [(1126, 235), (1, 206), (64, 205), (1, 206), (88, 235)],
     [(1126, 235), (1, 206), (64, 205), (1, 206), (88, 235)],
     [(1126, 235), (1, 206), (64, 205), (1, 206), (88, 235)],
     [(1124, 235), (2, 234), (1, 206), (64, 205), (1, 206), (88, 235)],
     [(1124, 235), (2, 234), (1, 206), (64, 205), (1, 206), (88, 235)],
     [(1124, 235), (2, 234), (1, 206), (64, 205), (1, 206), (88, 235)],
     [(1124, 235), (2, 234), (1, 206), (64, 205), (1, 206), (88, 235)],
     [(1125, 235), (1, 234), (1, 206), (64, 205), (1, 206), (88, 235)],
     [(1125, 235), (1, 234), (1, 206), (64, 205), (1, 206), (88, 235)]]"

definition acircles_45_55 :: band where
  "acircles_45_55 = [
     [(1125, 235), (1, 234), (1, 206), (64, 205), (1, 206), (88, 235)],
     [(1126, 235), (1, 206), (64, 205), (1, 206), (88, 235)],
     [(1126, 235), (1, 206), (25, 205), (1, 210), (1, 207), (1, 205), (1, 208), (1, 209),
      (34, 205), (1, 206), (88, 235)],
     [(1126, 235), (1, 206), (24, 205), (1, 210), (1, 152), (1, 190), (1, 209), (1, 183), (1, 159),
      (1, 209), (33, 205), (1, 206), (88, 235)],
     [(1126, 235), (1, 206), (9, 205), (1, 207), (1, 206), (3, 205), (1, 206), (1, 207), (2, 205),
      (1, 206), (3, 207), (2, 205), (1, 210), (1, 16), (1, 128), (1, 210), (1, 99), (1, 16),
      (1, 210), (2, 205), (3, 207), (1, 206), (2, 205), (1, 206), (1, 207), (2, 205), (2, 207),
      (2, 205), (2, 207), (15, 205), (1, 206), (88, 235)],
     [(1126, 235), (1, 206), (8, 205), (1, 204), (1, 196), (1, 208), (1, 206), (1, 205), (1, 207),
      (1, 206), (1, 196), (1, 205), (1, 210), (1, 209), (1, 203), (1, 201), (1, 205), (1, 210),
      (1, 206), (1, 210), (1, 16), (1, 134), (1, 210), (1, 107), (1, 16), (1, 210), (1, 206),
      (1, 210), (1, 206), (2, 202), (1, 209), (1, 210), (1, 206), (1, 204), (1, 197), (1, 208),
      (1, 207), (1, 204), (1, 201), (2, 207), (1, 203), (1, 198), (1, 207), (14, 205), (1, 206),
      (88, 235)],
     [(1126, 235), (1, 206), (7, 205), (1, 207), (1, 194), (1, 16), (1, 99), (1, 210), (1, 206),
      (1, 209), (1, 67), (1, 16), (1, 210), (1, 168), (1, 27), (3, 16), (1, 99), (2, 210), (1, 16),
      (1, 134), (1, 210), (1, 107), (1, 16), (2, 210), (1, 92), (3, 16), (1, 35), (1, 166),
      (1, 210), (1, 153), (1, 16), (1, 181), (1, 210), (1, 33), (1, 16), (1, 161), (1, 210),
      (1, 51), (1, 39), (1, 210), (14, 205), (1, 206), (88, 235)],
     [(1126, 235), (1, 206), (8, 205), (1, 210), (1, 136), (1, 16), (1, 200), (1, 210), (1, 160),
      (1, 16), (1, 176), (1, 177), (1, 16), (1, 140), (2, 210), (1, 186), (1, 16), (1, 122),
      (1, 210), (1, 16), (1, 134), (1, 210), (1, 107), (1, 16), (1, 210), (1, 114), (1, 16),
      (1, 141), (1, 210), (1, 208), (1, 75), (1, 16), (1, 183), (1, 198), (1, 36), (1, 114),
      (1, 186), (1, 22), (1, 50), (1, 91), (1, 197), (1, 19), (1, 139), (1, 210), (14, 205),
      (1, 206), (88, 235)],
     [(1126, 235), (1, 206), (8, 205), (1, 207), (1, 210), (1, 55), (1, 63), (1, 210), (1, 26),
      (1, 86), (1, 210), (1, 135), (6, 16), (1, 76), (1, 210), (1, 16), (1, 134), (1, 210),
      (1, 107), (1, 16), (1, 210), (1, 52), (1, 58), (1, 210), (1, 208), (1, 210), (1, 203),
      (1, 16), (1, 159), (1, 210), (1, 84), (1, 54), (1, 129), (1, 50), (1, 165), (1, 19),
      (1, 176), (1, 16), (1, 206), (1, 207), (14, 205), (1, 206), (88, 235)],
     [(1126, 235), (1, 206), (9, 205), (1, 209), (1, 190), (1, 16), (1, 65), (1, 23), (1, 191),
      (1, 210), (1, 159), (1, 16), (1, 142), (1, 201), (1, 210), (1, 208), (1, 182), (1, 170),
      (1, 210), (1, 16), (1, 134), (1, 210), (1, 107), (1, 16), (1, 210), (1, 97), (1, 16),
      (1, 169), (2, 210), (1, 110), (1, 16), (1, 174), (1, 210), (1, 151), (1, 19), (1, 31),
      (1, 135), (1, 205), (1, 33), (1, 61), (1, 57), (1, 210), (1, 206), (14, 205), (1, 206),
      (88, 235)],
     [(1126, 235), (1, 206), (10, 205), (1, 210), (1, 99), (1, 16), (1, 128), (1, 210), (1, 206),
      (1, 210), (1, 135), (1, 21), (2, 30), (1, 31), (1, 28), (1, 100), (1, 210), (1, 16),
      (1, 128), (1, 210), (1, 99), (1, 16), (1, 210), (1, 208), (1, 48), (1, 16), (1, 26), (1, 22),
      (1, 16), (1, 127), (1, 209), (1, 207), (1, 210), (2, 16), (1, 191), (1, 210), (1, 86),
      (1, 16), (1, 123), (1, 210), (15, 205), (1, 206), (88, 235)]]"

definition acircles_56_66 :: band where
  "acircles_56_66 = [
     [(1126, 235), (1, 206), (9, 205), (1, 209), (1, 210), (1, 101), (1, 34), (1, 210), (1, 207),
      (1, 205), (1, 206), (1, 210), (1, 197), (1, 165), (1, 153), (1, 158), (1, 181), (1, 209),
      (1, 210), (1, 146), (1, 188), (1, 210), (1, 180), (1, 153), (1, 210), (1, 208), (1, 210),
      (1, 175), (1, 154), (1, 158), (1, 190), (1, 210), (1, 206), (1, 205), (1, 210), (1, 163),
      (1, 167), (1, 205), (1, 208), (1, 192), (1, 152), (1, 195), (1, 207), (15, 205), (1, 206),
      (88, 235)],
     [(1126, 235), (1, 206), (8, 205), (1, 209), (1, 157), (1, 62), (1, 16), (1, 143), (1, 210),
      (4, 205), (1, 207), (1, 209), (2, 210), (1, 208), (1, 206), (1, 205), (1, 210), (1, 207),
      (1, 205), (1, 208), (1, 210), (2, 205), (1, 206), (1, 209), (2, 210), (1, 208), (4, 205),
      (2, 209), (2, 205), (1, 207), (1, 210), (1, 207), (16, 205), (1, 206), (88, 235)],
     [(1126, 235), (1, 206), (8, 205), (1, 208), (1, 170), (1, 101), (1, 165), (1, 210), (51, 205),
      (1, 206), (88, 235)],
     [(1126, 235), (1, 206), (9, 205), (1, 208), (1, 210), (1, 209), (22, 205), (1, 210), (1, 208),
      (28, 205), (1, 206), (88, 235)],
     [(1126, 235), (1, 206), (33, 205), (1, 210), (1, 136), (1, 173), (1, 208), (27, 205),
      (1, 206), (88, 235)],
     [(1126, 235), (1, 206), (9, 205), (1, 207), (1, 209), (1, 206), (2, 208), (1, 206), (1, 205),
      (2, 208), (1, 207), (3, 205), (3, 208), (1, 206), (2, 205), (1, 207), (1, 208), (1, 206),
      (2, 208), (1, 210), (1, 16), (1, 103), (1, 210), (1, 205), (2, 208), (1, 206), (1, 207),
      (3, 208), (1, 206), (2, 205), (1, 208), (2, 207), (1, 208), (1, 206), (11, 205), (1, 206),
      (88, 235)],
     [(1126, 235), (1, 206), (8, 205), (1, 207), (1, 197), (1, 174), (1, 210), (1, 183), (1, 184),
      (1, 208), (1, 210), (1, 185), (1, 179), (1, 204), (1, 208), (1, 205), (1, 208), (1, 192),
      (1, 178), (1, 183), (1, 210), (2, 207), (1, 192), (1, 179), (1, 210), (1, 182), (1, 184),
      (1, 210), (1, 16), (1, 110), (2, 210), (1, 187), (1, 172), (1, 208), (1, 204), (1, 182),
      (1, 178), (1, 189), (1, 210), (1, 207), (1, 208), (1, 176), (1, 201), (1, 199), (1, 175),
      (1, 199), (1, 206), (10, 205), (1, 206), (88, 235)],
     [(1126, 235), (1, 206), (8, 205), (1, 210), (1, 130), (1, 16), (1, 95), (2, 16), (1, 107),
      (1, 105), (2, 16), (1, 61), (1, 196), (1, 210), (1, 128), (3, 16), (1, 88), (1, 205),
      (1, 210), (1, 99), (1, 16), (1, 87), (1, 16), (1, 55), (1, 210), (1, 16), (1, 114), (1, 210),
      (1, 117), (1, 16), (1, 116), (1, 150), (1, 32), (3, 16), (1, 63), (2, 210), (1, 16), (1, 57),
      (1, 42), (1, 16), (1, 157), (1, 209), (10, 205), (1, 206), (88, 235)],
     [(1126, 235), (1, 206), (8, 205), (1, 210), (1, 138), (1, 16), (1, 142), (1, 210), (1, 140),
      (1, 16), (1, 95), (1, 210), (1, 190), (1, 16), (1, 142), (1, 210), (1, 186), (1, 208),
      (1, 210), (1, 192), (1, 16), (1, 148), (1, 210), (1, 109), (1, 16), (1, 136), (3, 210),
      (1, 16), (1, 104), (1, 79), (1, 19), (1, 174), (1, 194), (1, 16), (1, 127), (2, 210),
      (1, 196), (1, 24), (1, 101), (1, 210), (1, 16), (1, 42), (1, 188), (1, 210), (1, 209),
      (11, 205), (1, 206), (88, 235)],
     [(1126, 235), (1, 206), (8, 205), (1, 210), (1, 138), (1, 16), (2, 210), (1, 188), (1, 16),
      (1, 185), (2, 210), (1, 16), (1, 133), (1, 210), (1, 111), (4, 16), (1, 134), (1, 210),
      (1, 107), (1, 16), (1, 210), (1, 207), (1, 205), (1, 210), (3, 16), (2, 210), (1, 152),
      (6, 16), (1, 54), (1, 210), (1, 16), (1, 115), (1, 210), (13, 205), (1, 206), (88, 235)],
     [(1126, 235), (1, 206), (8, 205), (1, 210), (1, 138), (1, 16), (1, 210), (1, 209), (1, 184),
      (1, 16), (1, 180), (1, 209), (1, 210), (1, 16), (1, 138), (1, 190), (1, 16), (1, 137),
      (1, 210), (1, 187), (1, 16), (1, 134), (1, 210), (1, 107), (1, 16), (1, 210), (2, 205),
      (1, 210), (1, 16), (1, 98), (1, 65), (1, 16), (1, 168), (1, 194), (1, 16), (1, 126),
      (3, 210), (1, 203), (1, 166), (1, 210), (1, 16), (1, 114), (1, 210), (13, 205), (1, 206),
      (88, 235)]]"

definition acircles_67_77 :: band where
  "acircles_67_77 = [
     [(1126, 235), (1, 206), (8, 205), (1, 210), (1, 130), (1, 16), (1, 210), (1, 209), (1, 180),
      (1, 16), (1, 176), (1, 209), (1, 210), (1, 16), (1, 128), (1, 207), (1, 57), (2, 16),
      (1, 97), (1, 16), (1, 127), (1, 210), (1, 98), (1, 16), (1, 210), (2, 205), (1, 210),
      (1, 16), (1, 106), (1, 210), (1, 91), (1, 16), (1, 114), (1, 156), (1, 39), (3, 16), (1, 19),
      (1, 94), (1, 210), (1, 16), (1, 104), (1, 210), (13, 205), (1, 206), (88, 235)],
     [(1126, 235), (1, 206), (8, 205), (1, 207), (1, 196), (1, 171), (1, 208), (1, 206), (1, 203),
      (1, 171), (1, 202), (1, 206), (1, 209), (1, 171), (1, 196), (1, 209), (1, 205), (1, 179),
      (1, 182), (1, 210), (1, 172), (1, 196), (1, 208), (1, 192), (1, 175), (1, 208), (2, 205),
      (1, 208), (1, 175), (1, 192), (2, 209), (1, 181), (1, 171), (2, 207), (1, 185), (1, 176),
      (1, 179), (1, 192), (1, 210), (1, 209), (1, 175), (1, 192), (1, 207), (13, 205), (1, 206),
      (88, 235)],
     [(1126, 235), (1, 206), (9, 205), (1, 207), (1, 209), (2, 205), (1, 206), (1, 209), (1, 206),
      (2, 205), (1, 209), (1, 207), (1, 205), (1, 207), (2, 208), (1, 206), (1, 209), (1, 207),
      (1, 205), (1, 207), (1, 208), (4, 205), (1, 208), (1, 207), (1, 205), (1, 206), (2, 208),
      (1, 206), (1, 207), (1, 208), (1, 209), (2, 208), (2, 205), (1, 208), (1, 207), (14, 205),
      (1, 206), (88, 235)],
     [(1126, 235), (1, 206), (64, 205), (1, 206), (88, 235)],
     [(1126, 235), (1, 206), (64, 205), (1, 206), (88, 235)],
     [(1126, 235), (1, 206), (64, 205), (1, 206), (88, 235)],
     [(1126, 235), (1, 206), (64, 205), (1, 206), (88, 235)],
     [(1126, 235), (1, 206), (64, 205), (1, 206), (88, 235)],
     [(1126, 235), (1, 206), (64, 205), (1, 206), (88, 235)],
     [(1126, 235), (66, 205), (88, 235)],
     [(1126, 235), (66, 223), (88, 235)]]"

definition acircles_78_122 :: band where
  "acircles_78_122 = white_rows 45"

definition acircles_123_132 :: band where
  "acircles_123_132 = [
     [(248, 235), (1, 130), (156, 235), (1, 133), (155, 235), (1, 199), (1, 195), (155, 235),
      (1, 136), (156, 235), (1, 129), (155, 235), (1, 205), (1, 189), (247, 235)],
     [(239, 235), (1, 148), (1, 125), (1, 142), (13, 16), (1, 92), (1, 133), (1, 116), (138, 235),
      (1, 116), (1, 133), (1, 91), (13, 16), (1, 141), (1, 125), (1, 150), (137, 235), (1, 205),
      (1, 121), (1, 137), (1, 36), (12, 16), (1, 32), (1, 137), (1, 121), (1, 202), (137, 235),
      (1, 154), (1, 125), (1, 141), (13, 16), (1, 86), (1, 133), (1, 116), (138, 235), (1, 116),
      (1, 132), (1, 96), (13, 16), (1, 141), (1, 126), (1, 146), (137, 235), (1, 210), (1, 120),
      (1, 136), (1, 42), (12, 16), (1, 27), (1, 138), (1, 122), (1, 196), (238, 235)],
     [(235, 235), (1, 232), (1, 156), (23, 16), (1, 126), (1, 195), (130, 235), (1, 194), (1, 124),
      (23, 16), (1, 156), (1, 234), (130, 235), (1, 157), (1, 71), (22, 16), (1, 67), (1, 154),
      (131, 235), (1, 155), (23, 16), (1, 120), (1, 191), (130, 235), (1, 198), (1, 129), (23, 16),
      (1, 157), (1, 230), (130, 235), (1, 160), (1, 76), (22, 16), (1, 62), (1, 150), (235, 235)],
     [(233, 235), (1, 176), (1, 68), (28, 16), (1, 183), (1, 226), (124, 235), (1, 225), (1, 183),
      (28, 16), (1, 70), (1, 175), (125, 235), (1, 197), (1, 128), (1, 19), (26, 16), (1, 19),
      (1, 124), (1, 195), (125, 235), (1, 175), (1, 74), (28, 16), (1, 178), (1, 222), (124, 235),
      (1, 227), (1, 183), (1, 18), (27, 16), (1, 64), (1, 176), (125, 235), (1, 200), (1, 134),
      (1, 18), (26, 16), (1, 19), (1, 118), (1, 192), (232, 235)],
     [(231, 235), (1, 120), (1, 41), (31, 16), (1, 26), (1, 69), (122, 235), (1, 67), (1, 25),
      (31, 16), (1, 42), (1, 122), (121, 235), (1, 195), (1, 38), (32, 16), (1, 38), (1, 189),
      (121, 235), (1, 126), (1, 43), (31, 16), (1, 25), (1, 64), (122, 235), (1, 73), (1, 27),
      (31, 16), (1, 40), (1, 117), (121, 235), (1, 202), (1, 37), (32, 16), (1, 39), (1, 181),
      (230, 235)],
     [(229, 235), (1, 129), (1, 56), (35, 16), (1, 32), (1, 78), (118, 235), (1, 75), (1, 31),
      (35, 16), (1, 57), (1, 130), (117, 235), (1, 193), (1, 66), (36, 16), (1, 66), (1, 188),
      (117, 235), (1, 135), (1, 58), (35, 16), (1, 29), (1, 73), (118, 235), (1, 80), (1, 33),
      (35, 16), (1, 54), (1, 125), (117, 235), (1, 200), (1, 65), (36, 16), (1, 67), (1, 181),
      (228, 235)],
     [(228, 235), (1, 58), (39, 16), (1, 21), (1, 209), (114, 235), (1, 207), (1, 20), (39, 16),
      (1, 62), (115, 235), (1, 153), (40, 16), (1, 150), (115, 235), (1, 68), (39, 16), (1, 18),
      (1, 203), (114, 235), (1, 213), (1, 24), (39, 16), (1, 51), (115, 235), (1, 159), (40, 16),
      (1, 145), (227, 235)],
     [(226, 235), (1, 219), (1, 17), (42, 16), (1, 168), (112, 235), (1, 167), (42, 16), (1, 19),
      (1, 221), (112, 235), (1, 66), (42, 16), (1, 62), (112, 235), (1, 224), (1, 22), (42, 16),
      (1, 159), (112, 235), (1, 172), (43, 16), (1, 215), (112, 235), (1, 72), (42, 16), (1, 58),
      (226, 235)],
     [(225, 235), (1, 159), (45, 16), (1, 73), (110, 235), (1, 71), (45, 16), (1, 164), (109, 235),
      (1, 221), (1, 19), (45, 16), (1, 219), (109, 235), (1, 171), (45, 16), (1, 68), (110, 235),
      (1, 77), (45, 16), (1, 153), (109, 235), (1, 226), (1, 23), (45, 16), (1, 214), (224, 235)],
     [(224, 235), (1, 85), (47, 16), (1, 31), (1, 223), (106, 235), (1, 221), (1, 30), (47, 16),
      (1, 87), (107, 235), (1, 166), (48, 16), (1, 160), (107, 235), (1, 90), (47, 16), (1, 25),
      (1, 220), (106, 235), (1, 225), (1, 36), (47, 16), (1, 81), (107, 235), (1, 176), (48, 16),
      (1, 150), (223, 235)]]"

definition acircles_133_142 :: band where
  "acircles_133_142 = [
     [(223, 235), (1, 43), (50, 16), (1, 229), (104, 235), (1, 226), (50, 16), (1, 46), (105, 235),
      (1, 145), (50, 16), (1, 138), (105, 235), (1, 53), (50, 16), (1, 220), (104, 235), (1, 234),
      (50, 16), (1, 36), (105, 235), (1, 153), (50, 16), (1, 130), (222, 235)],
     [(222, 235), (1, 122), (51, 16), (1, 57), (1, 233), (102, 235), (1, 232), (1, 54), (51, 16),
      (1, 123), (103, 235), (1, 183), (1, 21), (50, 16), (1, 20), (1, 179), (103, 235), (1, 127),
      (51, 16), (1, 50), (1, 232), (102, 235), (1, 233), (1, 62), (51, 16), (1, 117), (103, 235),
      (1, 191), (1, 23), (50, 16), (1, 19), (1, 172), (221, 235)],
     [(221, 235), (1, 172), (53, 16), (1, 85), (102, 235), (1, 82), (53, 16), (1, 176), (102, 235),
      (54, 16), (102, 235), (1, 183), (53, 16), (1, 76), (102, 235), (1, 91), (53, 16), (1, 166),
      (102, 235), (54, 16), (221, 235)],
     [(221, 235), (55, 16), (1, 189), (100, 235), (1, 185), (55, 16), (101, 235), (1, 85),
      (54, 16), (1, 77), (101, 235), (55, 16), (1, 177), (100, 235), (1, 194), (55, 16),
      (101, 235), (1, 94), (54, 16), (1, 68), (220, 235)],
     [(220, 235), (1, 69), (56, 16), (100, 235), (56, 16), (1, 72), (99, 235), (1, 184), (56, 16),
      (1, 178), (99, 235), (1, 80), (56, 16), (100, 235), (56, 16), (1, 62), (99, 235), (1, 195),
      (56, 16), (1, 166), (219, 235)],
     [(219, 235), (1, 170), (57, 16), (1, 74), (98, 235), (1, 70), (57, 16), (1, 173), (98, 235),
      (58, 16), (98, 235), (1, 181), (57, 16), (1, 63), (98, 235), (1, 80), (57, 16), (1, 164),
      (98, 235), (58, 16), (219, 235)],
     [(219, 235), (59, 16), (1, 165), (96, 235), (1, 164), (59, 16), (97, 235), (1, 78), (58, 16),
      (1, 72), (97, 235), (59, 16), (1, 157), (96, 235), (1, 171), (59, 16), (97, 235), (1, 87),
      (58, 16), (1, 63), (218, 235)],
     [(218, 235), (1, 205), (59, 16), (1, 122), (96, 235), (1, 121), (59, 16), (1, 208), (95, 235),
      (1, 233), (1, 50), (58, 16), (1, 46), (1, 233), (95, 235), (1, 214), (59, 16), (1, 116),
      (96, 235), (1, 128), (59, 16), (1, 198), (96, 235), (1, 58), (58, 16), (1, 40), (1, 232),
      (217, 235)],
     [(218, 235), (1, 37), (60, 16), (96, 235), (60, 16), (1, 40), (95, 235), (1, 141), (60, 16),
      (1, 135), (95, 235), (1, 46), (60, 16), (1, 230), (95, 235), (60, 16), (1, 31), (95, 235),
      (1, 150), (60, 16), (1, 124), (217, 235)],
     [(218, 235), (1, 53), (60, 16), (96, 235), (60, 16), (1, 55), (95, 235), (1, 148), (60, 16),
      (1, 143), (95, 235), (1, 62), (60, 16), (1, 231), (95, 235), (60, 16), (1, 46), (95, 235),
      (1, 157), (60, 16), (1, 134), (217, 235)]]"

definition acircles_143_152 :: band where
  "acircles_143_152 = [
     [(217, 235), (1, 122), (61, 16), (1, 31), (94, 235), (1, 27), (61, 16), (1, 125), (93, 235),
      (1, 228), (62, 16), (1, 221), (93, 235), (1, 131), (61, 16), (1, 21), (94, 235), (1, 36),
      (61, 16), (1, 116), (94, 235), (62, 16), (1, 212), (216, 235)],
     [(217, 235), (1, 133), (61, 16), (1, 49), (94, 235), (1, 45), (61, 16), (1, 136), (93, 235),
      (1, 231), (62, 16), (1, 225), (93, 235), (1, 141), (61, 16), (1, 38), (94, 235), (1, 54),
      (61, 16), (1, 128), (94, 235), (62, 16), (1, 216), (216, 235)],
     [(217, 235), (1, 133), (61, 16), (1, 49), (94, 235), (1, 45), (61, 16), (1, 136), (93, 235),
      (1, 231), (62, 16), (1, 225), (93, 235), (1, 141), (61, 16), (1, 38), (94, 235), (1, 54),
      (61, 16), (1, 128), (94, 235), (62, 16), (1, 216), (216, 235)],
     [(217, 235), (1, 136), (61, 16), (1, 50), (94, 235), (1, 46), (61, 16), (1, 140), (94, 235),
      (62, 16), (1, 228), (93, 235), (1, 145), (61, 16), (1, 40), (94, 235), (1, 55), (61, 16),
      (1, 131), (94, 235), (62, 16), (1, 220), (216, 235)],
     [(217, 235), (1, 102), (61, 16), (1, 37), (1, 228), (92, 235), (1, 228), (1, 36), (61, 16),
      (1, 104), (93, 235), (1, 189), (62, 16), (1, 183), (93, 235), (1, 109), (61, 16), (1, 31),
      (1, 227), (92, 235), (1, 229), (1, 42), (61, 16), (1, 98), (93, 235), (1, 197), (62, 16),
      (1, 173), (216, 235)],
     [(217, 235), (1, 80), (61, 16), (1, 30), (1, 208), (92, 235), (1, 208), (1, 28), (61, 16),
      (1, 82), (93, 235), (1, 159), (62, 16), (1, 153), (93, 235), (1, 86), (61, 16), (1, 25),
      (1, 206), (92, 235), (1, 210), (1, 33), (61, 16), (1, 77), (1, 232), (92, 235), (1, 167),
      (62, 16), (1, 144), (216, 235)],
     [(217, 235), (1, 138), (61, 16), (1, 50), (94, 235), (1, 47), (61, 16), (1, 141), (94, 235),
      (62, 16), (1, 231), (93, 235), (1, 147), (61, 16), (1, 40), (94, 235), (1, 56), (61, 16),
      (1, 133), (94, 235), (62, 16), (1, 222), (216, 235)],
     [(217, 235), (1, 133), (61, 16), (1, 49), (94, 235), (1, 45), (61, 16), (1, 136), (93, 235),
      (1, 231), (62, 16), (1, 225), (93, 235), (1, 141), (61, 16), (1, 38), (94, 235), (1, 54),
      (61, 16), (1, 128), (94, 235), (62, 16), (1, 216), (216, 235)],
     [(217, 235), (1, 133), (61, 16), (1, 49), (94, 235), (1, 45), (61, 16), (1, 136), (93, 235),
      (1, 231), (62, 16), (1, 225), (93, 235), (1, 141), (61, 16), (1, 38), (94, 235), (1, 54),
      (61, 16), (1, 128), (94, 235), (62, 16), (1, 216), (216, 235)],
     [(217, 235), (1, 122), (61, 16), (1, 33), (94, 235), (1, 30), (61, 16), (1, 126), (93, 235),
      (1, 228), (62, 16), (1, 221), (93, 235), (1, 132), (61, 16), (1, 24), (94, 235), (1, 38),
      (61, 16), (1, 117), (94, 235), (62, 16), (1, 212), (216, 235)]]"

definition acircles_153_162 :: band where
  "acircles_153_162 = [
     [(218, 235), (1, 45), (60, 16), (1, 212), (94, 235), (1, 208), (60, 16), (1, 47), (95, 235),
      (1, 126), (60, 16), (1, 122), (95, 235), (1, 52), (60, 16), (1, 203), (94, 235), (1, 218),
      (60, 16), (1, 40), (95, 235), (1, 133), (60, 16), (1, 113), (217, 235)],
     [(218, 235), (1, 41), (60, 16), (96, 235), (60, 16), (1, 43), (95, 235), (1, 144), (60, 16),
      (1, 139), (95, 235), (1, 50), (60, 16), (1, 232), (95, 235), (60, 16), (1, 34), (95, 235),
      (1, 153), (60, 16), (1, 128), (217, 235)],
     [(218, 235), (1, 177), (59, 16), (1, 100), (96, 235), (1, 98), (59, 16), (1, 180), (95, 235),
      (1, 218), (1, 43), (58, 16), (1, 40), (1, 217), (95, 235), (1, 186), (59, 16), (1, 94),
      (96, 235), (1, 104), (59, 16), (1, 171), (95, 235), (1, 220), (1, 50), (58, 16), (1, 35),
      (1, 214), (217, 235)],
     [(219, 235), (59, 16), (1, 153), (96, 235), (1, 151), (59, 16), (97, 235), (1, 51), (58, 16),
      (1, 45), (97, 235), (59, 16), (1, 144), (96, 235), (1, 160), (59, 16), (97, 235), (1, 62),
      (58, 16), (1, 37), (218, 235)],
     [(219, 235), (1, 167), (57, 16), (1, 67), (98, 235), (1, 62), (57, 16), (1, 171), (98, 235),
      (58, 16), (98, 235), (1, 179), (57, 16), (1, 56), (98, 235), (1, 73), (57, 16), (1, 161),
      (98, 235), (58, 16), (219, 235)],
     [(220, 235), (1, 65), (56, 16), (100, 235), (56, 16), (1, 67), (99, 235), (1, 170), (56, 16),
      (1, 164), (99, 235), (1, 74), (56, 16), (100, 235), (56, 16), (1, 57), (99, 235), (1, 180),
      (56, 16), (1, 153), (219, 235)],
     [(221, 235), (55, 16), (1, 162), (100, 235), (1, 159), (55, 16), (101, 235), (1, 73),
      (54, 16), (1, 67), (101, 235), (55, 16), (1, 152), (100, 235), (1, 167), (55, 16),
      (101, 235), (1, 81), (54, 16), (1, 58), (220, 235)],
     [(221, 235), (1, 146), (53, 16), (1, 72), (102, 235), (1, 68), (53, 16), (1, 149), (101, 235),
      (1, 230), (54, 16), (1, 229), (101, 235), (1, 156), (53, 16), (1, 64), (102, 235), (1, 76),
      (53, 16), (1, 140), (101, 235), (1, 232), (54, 16), (1, 228), (220, 235)],
     [(222, 235), (1, 83), (51, 16), (1, 27), (1, 214), (102, 235), (1, 214), (1, 25), (51, 16),
      (1, 86), (103, 235), (1, 149), (52, 16), (1, 144), (103, 235), (1, 88), (51, 16), (1, 21),
      (1, 212), (102, 235), (1, 215), (1, 31), (51, 16), (1, 80), (1, 233), (102, 235), (1, 159),
      (52, 16), (1, 135), (221, 235)],
     [(223, 235), (51, 16), (1, 226), (104, 235), (1, 223), (50, 16), (1, 19), (105, 235),
      (1, 126), (50, 16), (1, 119), (105, 235), (1, 25), (50, 16), (1, 216), (104, 235), (1, 232),
      (51, 16), (105, 235), (1, 135), (50, 16), (1, 110), (222, 235)]]"

definition acircles_163_172 :: band where
  "acircles_163_172 = [
     [(224, 235), (1, 52), (48, 16), (1, 208), (106, 235), (1, 206), (48, 16), (1, 54), (107, 235),
      (1, 137), (48, 16), (1, 130), (107, 235), (1, 56), (48, 16), (1, 203), (106, 235), (1, 211),
      (48, 16), (1, 48), (107, 235), (1, 148), (48, 16), (1, 119), (223, 235)],
     [(225, 235), (1, 131), (45, 16), (1, 50), (110, 235), (1, 49), (45, 16), (1, 135), (109, 235),
      (1, 202), (46, 16), (1, 198), (109, 235), (1, 141), (45, 16), (1, 46), (110, 235), (1, 53),
      (45, 16), (1, 125), (109, 235), (1, 207), (46, 16), (1, 193), (224, 235)],
     [(226, 235), (1, 183), (43, 16), (1, 130), (112, 235), (1, 129), (43, 16), (1, 184),
      (112, 235), (1, 43), (42, 16), (1, 40), (112, 235), (1, 188), (43, 16), (1, 122), (112, 235),
      (1, 135), (43, 16), (1, 178), (112, 235), (1, 47), (42, 16), (1, 37), (226, 235)],
     [(228, 235), (1, 33), (40, 16), (1, 171), (114, 235), (1, 169), (40, 16), (1, 36), (115, 235),
      (1, 116), (40, 16), (1, 112), (115, 235), (1, 41), (40, 16), (1, 165), (114, 235), (1, 177),
      (40, 16), (1, 27), (115, 235), (1, 121), (40, 16), (1, 106), (227, 235)],
     [(229, 235), (1, 92), (1, 27), (35, 16), (1, 17), (1, 42), (1, 226), (116, 235), (1, 226),
      (1, 40), (36, 16), (1, 28), (1, 95), (117, 235), (1, 159), (1, 30), (36, 16), (1, 31),
      (1, 153), (117, 235), (1, 98), (1, 29), (36, 16), (1, 37), (1, 224), (116, 235), (1, 227),
      (1, 45), (1, 18), (35, 16), (1, 26), (1, 90), (117, 235), (1, 168), (1, 29), (36, 16),
      (1, 31), (1, 146), (228, 235)],
     [(231, 235), (1, 85), (33, 16), (1, 33), (1, 223), (120, 235), (1, 222), (1, 31), (33, 16),
      (1, 86), (121, 235), (1, 165), (34, 16), (1, 159), (121, 235), (1, 90), (33, 16), (1, 28),
      (1, 220), (120, 235), (1, 225), (1, 37), (33, 16), (1, 81), (121, 235), (1, 175), (34, 16),
      (1, 150), (230, 235)],
     [(233, 235), (1, 140), (1, 34), (28, 16), (1, 148), (1, 215), (124, 235), (1, 214), (1, 147),
      (28, 16), (1, 37), (1, 139), (125, 235), (1, 172), (1, 93), (28, 16), (1, 90), (1, 170),
      (125, 235), (1, 139), (1, 40), (28, 16), (1, 143), (1, 211), (124, 235), (1, 218), (1, 147),
      (28, 16), (1, 30), (1, 140), (125, 235), (1, 177), (1, 99), (28, 16), (1, 85), (1, 165),
      (232, 235)],
     [(235, 235), (1, 227), (1, 119), (23, 16), (1, 95), (1, 176), (130, 235), (1, 174), (1, 93),
      (23, 16), (1, 119), (1, 229), (130, 235), (1, 122), (1, 49), (22, 16), (1, 45), (1, 119),
      (130, 235), (1, 232), (1, 118), (23, 16), (1, 90), (1, 171), (130, 235), (1, 179), (1, 98),
      (23, 16), (1, 120), (1, 223), (130, 235), (1, 128), (1, 53), (22, 16), (1, 41), (1, 114),
      (235, 235)],
     [(239, 235), (1, 118), (1, 92), (1, 106), (13, 16), (1, 68), (1, 98), (1, 82), (138, 235),
      (1, 82), (1, 98), (1, 68), (13, 16), (1, 105), (1, 92), (1, 120), (137, 235), (1, 182),
      (1, 86), (1, 102), (1, 27), (12, 16), (1, 25), (1, 102), (1, 87), (1, 177), (137, 235),
      (1, 124), (1, 92), (1, 105), (13, 16), (1, 64), (1, 98), (1, 82), (138, 235), (1, 81),
      (1, 98), (1, 71), (13, 16), (1, 104), (1, 92), (1, 115), (137, 235), (1, 187), (1, 86),
      (1, 102), (1, 31), (12, 16), (1, 20), (1, 103), (1, 87), (1, 171), (238, 235)],
     [(242, 235), (1, 217), (4, 220), (1, 231), (1, 98), (1, 231), (1, 221), (3, 220), (1, 218),
      (144, 235), (1, 218), (3, 220), (1, 221), (1, 228), (1, 99), (1, 231), (4, 220), (1, 218),
      (143, 235), (1, 231), (4, 220), (1, 226), (1, 166), (1, 162), (1, 226), (4, 220), (1, 230),
      (143, 235), (1, 219), (4, 220), (1, 231), (1, 104), (1, 224), (1, 221), (3, 220), (1, 218),
      (144, 235), (1, 218), (4, 220), (1, 232), (1, 97), (1, 232), (4, 220), (1, 217), (143, 235),
      (1, 232), (4, 220), (1, 226), (1, 172), (1, 156), (1, 226), (4, 220), (1, 229), (241, 235)]]"

definition acircles_173_183 :: band where
  "acircles_173_183 = white_rows 11"

definition acircles_234_243 :: band where
  "acircles_234_243 = white_rows 10"

definition acircles_294_304 :: band where
  "acircles_294_304 = white_rows 11"

definition acircles_355_365 :: band where
  "acircles_355_365 = white_rows 11"

definition acircles_477_477 :: band where
  "acircles_477_477 = white_rows 1"

definition acircles_645_646 :: band where
  "acircles_645_646 = white_rows 2"

definition acircles_717_719 :: band where
  "acircles_717_719 = white_rows 3"

definition acircles_bands :: "(nat \<times> band) list" where
  "acircles_bands = [
     (0, acircles_0_33),
     (34, acircles_34_44),
     (45, acircles_45_55),
     (56, acircles_56_66),
     (67, acircles_67_77),
     (78, acircles_78_122),
     (123, acircles_123_132),
     (133, acircles_133_142),
     (143, acircles_143_152),
     (153, acircles_153_162),
     (163, acircles_163_172),
     (173, acircles_173_183),
     (234, acircles_234_243),
     (294, acircles_294_304),
     (355, acircles_355_365),
     (477, acircles_477_477),
     (645, acircles_645_646),
     (717, acircles_717_719)]"

lemmas acircles_defs =
  acircles_0_33_def
  acircles_34_44_def
  acircles_45_55_def
  acircles_56_66_def
  acircles_67_77_def
  acircles_78_122_def
  acircles_123_132_def
  acircles_133_142_def
  acircles_143_152_def
  acircles_153_162_def
  acircles_163_172_def
  acircles_173_183_def
  acircles_234_243_def
  acircles_294_304_def
  acircles_355_365_def
  acircles_477_477_def
  acircles_645_646_def
  acircles_717_719_def

section \<open>Well-formedness\<close>

definition row_bytes :: "(nat \<times> u8) list \<Rightarrow> bytes" where
  "row_bytes runs = concat (map (\<lambda>(n, b). replicate n b) runs)"

definition row_ok :: "(nat \<times> u8) list \<Rightarrow> bool" where
  "row_ok runs \<longleftrightarrow> sum_list (map fst runs) = 1280 \<and> list_all (\<lambda>(n, b). 16 \<le> b \<and> b \<le> 235) runs"

lemma row_ok_bytes: "row_ok runs \<Longrightarrow> length (row_bytes runs) = 1280 \<and> (\<forall>b\<in>set (row_bytes runs). 16 \<le> b \<and> b \<le> 235)"
  by (auto simp: row_ok_def row_bytes_def length_concat comp_def case_prod_beta list_all_iff)

lemma acircles_0_33_ok: "list_all row_ok acircles_0_33 \<and> length acircles_0_33 = 34"
  by (simp add: acircles_0_33_def white_rows_def row_ok_def list_all_iff)

lemma acircles_34_44_ok: "list_all row_ok acircles_34_44 \<and> length acircles_34_44 = 11"
  by (simp add: acircles_34_44_def white_rows_def row_ok_def list_all_iff)

lemma acircles_45_55_ok: "list_all row_ok acircles_45_55 \<and> length acircles_45_55 = 11"
  by (simp add: acircles_45_55_def white_rows_def row_ok_def list_all_iff)

lemma acircles_56_66_ok: "list_all row_ok acircles_56_66 \<and> length acircles_56_66 = 11"
  by (simp add: acircles_56_66_def white_rows_def row_ok_def list_all_iff)

lemma acircles_67_77_ok: "list_all row_ok acircles_67_77 \<and> length acircles_67_77 = 11"
  by (simp add: acircles_67_77_def white_rows_def row_ok_def list_all_iff)

lemma acircles_78_122_ok: "list_all row_ok acircles_78_122 \<and> length acircles_78_122 = 45"
  by (simp add: acircles_78_122_def white_rows_def row_ok_def list_all_iff)

lemma acircles_123_132_ok: "list_all row_ok acircles_123_132 \<and> length acircles_123_132 = 10"
  by (simp add: acircles_123_132_def white_rows_def row_ok_def list_all_iff)

lemma acircles_133_142_ok: "list_all row_ok acircles_133_142 \<and> length acircles_133_142 = 10"
  by (simp add: acircles_133_142_def white_rows_def row_ok_def list_all_iff)

lemma acircles_143_152_ok: "list_all row_ok acircles_143_152 \<and> length acircles_143_152 = 10"
  by (simp add: acircles_143_152_def white_rows_def row_ok_def list_all_iff)

lemma acircles_153_162_ok: "list_all row_ok acircles_153_162 \<and> length acircles_153_162 = 10"
  by (simp add: acircles_153_162_def white_rows_def row_ok_def list_all_iff)

lemma acircles_163_172_ok: "list_all row_ok acircles_163_172 \<and> length acircles_163_172 = 10"
  by (simp add: acircles_163_172_def white_rows_def row_ok_def list_all_iff)

lemma acircles_173_183_ok: "list_all row_ok acircles_173_183 \<and> length acircles_173_183 = 11"
  by (simp add: acircles_173_183_def white_rows_def row_ok_def list_all_iff)

lemma acircles_234_243_ok: "list_all row_ok acircles_234_243 \<and> length acircles_234_243 = 10"
  by (simp add: acircles_234_243_def white_rows_def row_ok_def list_all_iff)

lemma acircles_294_304_ok: "list_all row_ok acircles_294_304 \<and> length acircles_294_304 = 11"
  by (simp add: acircles_294_304_def white_rows_def row_ok_def list_all_iff)

lemma acircles_355_365_ok: "list_all row_ok acircles_355_365 \<and> length acircles_355_365 = 11"
  by (simp add: acircles_355_365_def white_rows_def row_ok_def list_all_iff)

lemma acircles_477_477_ok: "list_all row_ok acircles_477_477 \<and> length acircles_477_477 = 1"
  by (simp add: acircles_477_477_def white_rows_def row_ok_def list_all_iff)

lemma acircles_645_646_ok: "list_all row_ok acircles_645_646 \<and> length acircles_645_646 = 2"
  by (simp add: acircles_645_646_def white_rows_def row_ok_def list_all_iff)

lemma acircles_717_719_ok: "list_all row_ok acircles_717_719 \<and> length acircles_717_719 = 3"
  by (simp add: acircles_717_719_def white_rows_def row_ok_def list_all_iff)

lemma white_pixel: "YUVToRGB32 0xEB 0x80 0x80 = \<lparr>px_r = 255, px_g = 255, px_b = 255\<rparr>"
  by code_simp

text \<open>Every modelled row of the pattern has 1280 bytes, all in the range 16 to 235 of
  video luma, and a byte of the white margin with neutral chroma converts to white.\<close>

theorem acircles_rows_wf:
  "(\<forall>(r, band)\<in>set acircles_bands. \<forall>runs\<in>set band.
      length (row_bytes runs) = 1280 \<and> (\<forall>b\<in>set (row_bytes runs). 16 \<le> b \<and> b \<le> 235)) \<and>
   YUVToRGB32 0xEB 0x80 0x80 = \<lparr>px_r = 255, px_g = 255, px_b = 255\<rparr>"
proof -
  have "list_all (\<lambda>(r, band). list_all row_ok band) acircles_bands"
    by (simp add: acircles_bands_def acircles_0_33_ok acircles_34_44_ok acircles_45_55_ok acircles_56_66_ok acircles_67_77_ok acircles_78_122_ok acircles_123_132_ok acircles_133_142_ok acircles_143_152_ok acircles_153_162_ok acircles_163_172_ok acircles_173_183_ok acircles_234_243_ok acircles_294_304_ok acircles_355_365_ok acircles_477_477_ok acircles_645_646_ok acircles_717_719_ok)
  then show ?thesis using row_ok_bytes white_pixel by (fastforce simp: list_all_iff)
qed

lemma acircles_rows_wf_witness:
  "length (row_bytes [(1280, 0xEB)]) = 1280 \<and> YUVToRGB32 0xEB 0x80 0x80 = \<lparr>px_r = 255, px_g = 255, px_b = 255\<rparr>"
proof -
  have "(0, acircles_0_33) \<in> set acircles_bands" and "[(1280, 0xEB)] \<in> set acircles_0_33"
    by (simp_all add: acircles_bands_def acircles_0_33_def white_rows_def)
  then show ?thesis using acircles_rows_wf by blast
qed

end
