(* ===== verification/Audio_Ring.thy ===== *)
theory Audio_Ring
  imports Goldfish_Prelude "HOL-Library.Monad_Syntax"
begin

text \<open>
  \<^verbatim>\<open>audio/ring_buffer.cpp\<close> and \<^verbatim>\<open>ring_buffer.h\<close>: the ring buffer between an audio stream and the
  sound device. Every operation holds the mutex, so each is one step. Cursors and counts are natural
  numbers (the class keeps them in \<^verbatim>\<open>int\<close>, below the capacity); the two wait functions only block and
  are the tests \<open>can_produce\<close> and \<open>can_consume\<close>. A fatal check, and a copy that reads past the end of
  its source, are the error \<open>None\<close>. The interface \<open>byte_fifo\<close> is what the streams rely on.
\<close>

section \<open>The class\<close>

record RingBuffer =
  mBuffer :: bytes
  mAvailableToConsume :: nat
  mProducePos :: nat
  mConsumePos :: nat

abbreviation mCapacity :: "RingBuffer \<Rightarrow> nat" where
  "mCapacity rb \<equiv> length (mBuffer rb)"

definition RingBuffer_new :: "bytes \<Rightarrow> RingBuffer" where
  "RingBuffer_new memory = \<lparr>mBuffer = memory, mAvailableToConsume = 0, mProducePos = 0, mConsumePos = 0\<rparr>"

definition availableToProduce :: "RingBuffer \<Rightarrow> nat" where
  "availableToProduce rb = mCapacity rb - mAvailableToConsume rb"

definition can_produce :: "RingBuffer \<Rightarrow> bool" where
  "can_produce rb \<longleftrightarrow> mAvailableToConsume rb < mCapacity rb"

definition can_consume :: "RingBuffer \<Rightarrow> bool" where
  "can_consume rb \<longleftrightarrow> mAvailableToConsume rb > 0"

definition makeRoomForProduce :: "nat \<Rightarrow> RingBuffer \<Rightarrow> (nat \<times> RingBuffer) option" where
  "makeRoomForProduce needed rb =
     (if needed \<ge> mCapacity rb then None
      else
        let toProduce = mCapacity rb - mAvailableToConsume rb;
            toDrop = (if needed \<le> toProduce then 0 else needed - toProduce)
        in Some (toDrop, rb\<lparr>mConsumePos := (mConsumePos rb + toDrop) mod mCapacity rb,
                            mAvailableToConsume := mAvailableToConsume rb - toDrop\<rparr>))"

text \<open>A chunk is a position in the buffer and a size.\<close>

definition getProduceChunk :: "RingBuffer \<Rightarrow> nat \<times> nat" where
  "getProduceChunk rb =
     (let availableToProduce = mCapacity rb - mAvailableToConsume rb in
      (mProducePos rb,
       if mProducePos rb \<ge> mConsumePos rb
       then min (mCapacity rb - mProducePos rb) availableToProduce
       else min (mConsumePos rb - mProducePos rb) availableToProduce))"

definition produce :: "nat \<Rightarrow> RingBuffer \<Rightarrow> nat \<times> RingBuffer" where
  "produce sz rb =
     (let sz = min sz (mCapacity rb - mAvailableToConsume rb) in
      (sz, rb\<lparr>mProducePos := (mProducePos rb + sz) mod mCapacity rb,
              mAvailableToConsume := mAvailableToConsume rb + sz\<rparr>))"

text \<open>\<open>produceSize\<close> is a signed count, and the size is converted to it; \<open>src\<close> is what is left of
  the source memory. Every pass copies at least one byte, so the loop ends.\<close>

function produce_loop :: "bytes \<Rightarrow> int \<Rightarrow> RingBuffer \<Rightarrow> RingBuffer option" where
  "produce_loop src produceSize rb =
     (if produceSize > 0 then
        let chunkSz = snd (getProduceChunk rb) in
        if chunkSz > length src \<or> chunkSz = 0 then None
        else produce_loop (drop chunkSz src) (produceSize - int chunkSz)
          (rb\<lparr>mBuffer := splice (mBuffer rb) (mProducePos rb) (take chunkSz src),
              mProducePos := (mProducePos rb + chunkSz) mod mCapacity rb,
              mAvailableToConsume := mAvailableToConsume rb + chunkSz\<rparr>)
      else Some rb)"
  by pat_completeness auto
termination by (relation "measure (\<lambda>(src, n, rb). length src)") auto

declare produce_loop.simps [simp del]

definition int_of_size :: "nat \<Rightarrow> int" where
  "int_of_size sz = sint (word_of_nat sz :: u32)"

definition produce_data :: "bytes \<Rightarrow> nat \<Rightarrow> RingBuffer \<Rightarrow> (int \<times> RingBuffer) option" where
  "produce_data src sz rb =
     (let produceSize = min (int (mCapacity rb) - int (mAvailableToConsume rb)) (int_of_size sz) in do {
        rb' \<leftarrow> produce_loop src produceSize rb;
        Some (produceSize, rb') })"

definition getConsumeChunk :: "RingBuffer \<Rightarrow> nat \<times> nat" where
  "getConsumeChunk rb =
     (mConsumePos rb,
      if mConsumePos rb \<ge> mProducePos rb
      then min (mCapacity rb - mConsumePos rb) (mAvailableToConsume rb)
      else min (mProducePos rb - mConsumePos rb) (mAvailableToConsume rb))"

definition consume :: "nat \<Rightarrow> RingBuffer \<Rightarrow> nat \<times> RingBuffer" where
  "consume sz rb =
     (let sz = min sz (mAvailableToConsume rb) in
      (sz, rb\<lparr>mConsumePos := (mConsumePos rb + sz) mod mCapacity rb,
              mAvailableToConsume := mAvailableToConsume rb - sz\<rparr>))"

text \<open>What a producer does with a chunk: it writes into it and moves the cursor.\<close>

definition write_chunk :: "bytes \<Rightarrow> RingBuffer \<Rightarrow> RingBuffer" where
  "write_chunk bs rb = snd (produce (length bs) (rb\<lparr>mBuffer := splice (mBuffer rb) (fst (getProduceChunk rb)) bs\<rparr>))"

text \<open>One pass of the playback thread of \<open>TinyalsaSink\<close> once bytes are available: it copies at most
  \<open>sz\<close> bytes, the size of its buffer, out of the ring.\<close>

definition consumeThread_pass :: "nat \<Rightarrow> RingBuffer \<Rightarrow> (bytes \<times> RingBuffer) option" where
  "consumeThread_pass sz rb =
     (let (pos, avail) = getConsumeChunk rb;
          szBytes = min sz avail;
          writeBuffer = take szBytes (drop pos (mBuffer rb));
          (m, rb) = consume szBytes rb
      in if m < szBytes then None else Some (writeBuffer, rb))"

text \<open>One pass of the capture thread of \<open>TinyalsaSource\<close>: \<open>n\<close> is the size of its read buffer and \<open>got\<close> what
  the sound device delivers (\<open>None\<close> when the read fails). It returns the number of bytes dropped to
  make room. A pass that trips a fatal check is \<open>None\<close>.\<close>

definition producerThread_pass :: "nat \<Rightarrow> bytes option \<Rightarrow> RingBuffer \<Rightarrow> (nat \<times> RingBuffer) option" where
  "producerThread_pass n got rb = do {
     (bytesLost, rb) \<leftarrow> makeRoomForProduce n rb;
     if snd (getProduceChunk rb) < n then
       (case got of
          None \<Rightarrow> Some (bytesLost, rb)
        | Some readBuf \<Rightarrow> do {
            (m, rb) \<leftarrow> produce_data readBuf n rb;
            if m < int n then None else Some (bytesLost, rb) })
     else
       (case got of
          None \<Rightarrow> Some (bytesLost, rb)
        | Some readBuf \<Rightarrow>
            let (m, rb) = produce n (rb\<lparr>mBuffer := splice (mBuffer rb) (fst (getProduceChunk rb)) readBuf\<rparr>) in
            if m < n then None else Some (bytesLost, rb)) }"

text \<open>A run interleaves passes of the two threads. Its log has what leaves the ring: what the consumer
  received (\<open>True\<close>) and what was dropped to make room (\<open>False\<close>).\<close>

datatype ring_op = Produce "bytes option" | Consume nat

fun pipe_run :: "('s \<Rightarrow> bytes) \<Rightarrow> (bytes option \<Rightarrow> 's \<Rightarrow> (nat \<times> 's) option) \<Rightarrow> (nat \<Rightarrow> 's \<Rightarrow> (bytes \<times> 's) option) \<Rightarrow>
    ring_op list \<Rightarrow> 's \<Rightarrow> ((bool \<times> bytes) list \<times> 's) option" where
  "pipe_run queue put get [] s = Some ([], s)"
| "pipe_run queue put get (Produce got # ops) s = do {
     (lost, s') \<leftarrow> put got s;
     (log, s'') \<leftarrow> pipe_run queue put get ops s';
     Some ((False, take lost (queue s)) # log, s'') }"
| "pipe_run queue put get (Consume k # ops) s = do {
     (bs, s') \<leftarrow> get k s;
     (log, s'') \<leftarrow> pipe_run queue put get ops s';
     Some ((True, bs) # log, s'') }"

fun produced :: "ring_op list \<Rightarrow> bytes" where
  "produced [] = []"
| "produced (Produce (Some bs) # ops) = bs @ produced ops"
| "produced (_ # ops) = produced ops"

fun reads_of_size :: "nat \<Rightarrow> ring_op list \<Rightarrow> bool" where
  "reads_of_size n [] = True"
| "reads_of_size n (Produce (Some bs) # ops) = (length bs = n \<and> reads_of_size n ops)"
| "reads_of_size n (_ # ops) = reads_of_size n ops"

section \<open>The queue it represents\<close>

definition rb_wf :: "RingBuffer \<Rightarrow> bool" where
  "rb_wf rb \<longleftrightarrow> 0 < mCapacity rb \<and> mAvailableToConsume rb \<le> mCapacity rb \<and> mConsumePos rb < mCapacity rb \<and>
     mProducePos rb = (mConsumePos rb + mAvailableToConsume rb) mod mCapacity rb"

definition rb_queue :: "RingBuffer \<Rightarrow> bytes" where
  "rb_queue rb = map (\<lambda>k. mBuffer rb ! ((mConsumePos rb + k) mod mCapacity rb)) [0..<mAvailableToConsume rb]"

lemma length_rb_queue [simp]: "length (rb_queue rb) = mAvailableToConsume rb"
  by (simp add: rb_queue_def)

lemma mod_sum_cases:
  fixes c a n :: nat
  assumes "c < n" and "a \<le> n"
  shows "(c + a) mod n = (if c + a < n then c + a else c + a - n)"
  using assms by (auto simp: le_mod_geq)

text \<open>The free space after the produce cursor is contiguous for the size of the chunk, and so are the
  bytes after the consume cursor.\<close>

lemma produce_chunk_pos:
  assumes "rb_wf rb" and "k < snd (getProduceChunk rb)"
  shows "(mConsumePos rb + mAvailableToConsume rb + k) mod mCapacity rb = mProducePos rb + k"
    and "mProducePos rb + k < mCapacity rb" and "mAvailableToConsume rb + k < mCapacity rb"
  using assms mod_sum_cases [of "mConsumePos rb" "mCapacity rb" "mAvailableToConsume rb"]
  by (auto simp: rb_wf_def getProduceChunk_def Let_def le_mod_geq split: if_splits)

lemma consume_chunk_pos:
  assumes "rb_wf rb" and "k < snd (getConsumeChunk rb)"
  shows "(mConsumePos rb + k) mod mCapacity rb = mConsumePos rb + k" and "mConsumePos rb + k < mCapacity rb"
    and "k < mAvailableToConsume rb"
  using assms mod_sum_cases [of "mConsumePos rb" "mCapacity rb" "mAvailableToConsume rb"]
  by (auto simp: rb_wf_def getConsumeChunk_def split: if_splits)

lemma chunk_fits:
  assumes "rb_wf rb"
  shows "n \<le> snd (getProduceChunk rb) \<Longrightarrow> mProducePos rb + n \<le> mCapacity rb"
    and "n \<le> snd (getConsumeChunk rb) \<Longrightarrow> mConsumePos rb + n \<le> mCapacity rb"
    and "n \<le> snd (getProduceChunk rb) \<Longrightarrow> mAvailableToConsume rb + n \<le> mCapacity rb"
  using assms mod_sum_cases [of "mConsumePos rb" "mCapacity rb" "mAvailableToConsume rb"]
  by (auto simp: rb_wf_def getProduceChunk_def getConsumeChunk_def Let_def split: if_splits)

lemma chunk_nonempty:
  assumes "rb_wf rb"
  shows "0 < snd (getProduceChunk rb) \<longleftrightarrow> can_produce rb" and "0 < snd (getConsumeChunk rb) \<longleftrightarrow> can_consume rb"
  using assms mod_sum_cases [of "mConsumePos rb" "mCapacity rb" "mAvailableToConsume rb"]
  by (auto simp: rb_wf_def getProduceChunk_def getConsumeChunk_def can_produce_def can_consume_def Let_def
      split: if_splits)

lemma nth_splice_inside:
  assumes "off + length ys \<le> length bs" and "i < length bs"
  shows "splice bs off ys ! i = (if off \<le> i \<and> i < off + length ys then ys ! (i - off) else bs ! i)"
  using assms by (auto simp: splice_inside nth_append min_def)

lemma mod_distinct:
  fixes c i j n :: nat
  assumes "(c + i) mod n = (c + j) mod n" and "i < n" and "j < n"
  shows "i = j"
proof -
  have "int ((c + i) mod n) = int ((c + j) mod n)" using assms(1) by simp
  then have "int n dvd int (c + i) - int (c + j)" unfolding zmod_int mod_eq_dvd_iff .
  then have "int n dvd int i - int j" by simp
  moreover have "\<bar>int i - int j\<bar> < int n" using assms(2,3) by linarith
  ultimately have "int i - int j = 0" by (metis dvd_imp_le_int abs_of_nat not_le)
  then show ?thesis by simp
qed

text \<open>Storing bytes in the free space after the produce cursor and advancing it appends to the queue.\<close>

lemma advance_appends:
  assumes "rb_wf rb" and n: "length bs \<le> snd (getProduceChunk rb)"
  defines "rb' \<equiv> rb\<lparr>mBuffer := splice (mBuffer rb) (mProducePos rb) bs,
      mProducePos := (mProducePos rb + length bs) mod mCapacity rb,
      mAvailableToConsume := mAvailableToConsume rb + length bs\<rparr>"
  shows "rb_wf rb'" and "rb_queue rb' = rb_queue rb @ bs" and "mCapacity rb' = mCapacity rb"
proof -
  let ?a = "mAvailableToConsume rb" and ?c = "mConsumePos rb" and ?N = "mCapacity rb"
  have fits: "mProducePos rb + length bs \<le> ?N" "?a + length bs \<le> ?N"
    using chunk_fits(1,3) [OF assms(1) n] by simp_all
  then show cap: "mCapacity rb' = ?N" by (simp add: rb'_def)
  show "rb_wf rb'"
    using assms(1) fits cap by (simp add: rb_wf_def rb'_def mod_simps add.assoc)
  have mods: "(?c + k) mod ?N < ?N" for k using assms(1) by (simp add: rb_wf_def)
  have old: "splice (mBuffer rb) (mProducePos rb) bs ! ((?c + k) mod ?N) = mBuffer rb ! ((?c + k) mod ?N)"
    if "k < ?a" for k
  proof -
    have "\<not> (mProducePos rb \<le> (?c + k) mod ?N \<and> (?c + k) mod ?N < mProducePos rb + length bs)"
    proof
      assume *: "mProducePos rb \<le> (?c + k) mod ?N \<and> (?c + k) mod ?N < mProducePos rb + length bs"
      define j where "j = (?c + k) mod ?N - mProducePos rb"
      have "j < length bs" and eq: "(?c + k) mod ?N = mProducePos rb + j" using * by (auto simp: j_def)
      then have "(?c + k) mod ?N = (?c + (?a + j)) mod ?N"
        using produce_chunk_pos(1) [OF assms(1), of j] n by (simp add: add.assoc)
      then have "k = ?a + j"
        by (rule mod_distinct) (use that fits \<open>j < length bs\<close> in linarith)+
      then show False using that by simp
    qed
    then show ?thesis using nth_splice_inside [OF fits(1) mods [of k]] by auto
  qed
  have new: "splice (mBuffer rb) (mProducePos rb) bs ! ((?c + (?a + k)) mod ?N) = bs ! k" if "k < length bs" for k
    using produce_chunk_pos(1,2) [OF assms(1), of k] that n fits
    by (simp add: nth_splice_inside add.assoc)
  show "rb_queue rb' = rb_queue rb @ bs"
  proof (rule nth_equalityI)
    fix i
    assume "i < length (rb_queue rb')"
    then have i: "i < ?a + length bs" by (simp add: rb'_def)
    then have "rb_queue rb' ! i = splice (mBuffer rb) (mProducePos rb) bs ! ((?c + i) mod ?N)"
      using cap by (simp add: rb_queue_def rb'_def)
    then show "rb_queue rb' ! i = (rb_queue rb @ bs) ! i"
      using old [of i] new [of "i - ?a"] i by (cases "i < ?a") (auto simp: nth_append rb_queue_def)
  qed (simp add: rb'_def)
qed

lemma write_chunk_appends:
  assumes "rb_wf rb" and "length bs \<le> snd (getProduceChunk rb)"
  shows "rb_wf (write_chunk bs rb)" and "rb_queue (write_chunk bs rb) = rb_queue rb @ bs"
    and "mCapacity (write_chunk bs rb) = mCapacity rb"
    and "mProducePos (write_chunk bs rb) = (mProducePos rb + length bs) mod mCapacity rb"
proof -
  have fits: "length bs \<le> mCapacity rb - mAvailableToConsume rb" "mProducePos rb + length bs \<le> mCapacity rb"
    using chunk_fits(1,3) [OF assms] by simp_all
  then have "write_chunk bs rb = rb\<lparr>mBuffer := splice (mBuffer rb) (mProducePos rb) bs,
      mProducePos := (mProducePos rb + length bs) mod mCapacity rb,
      mAvailableToConsume := mAvailableToConsume rb + length bs\<rparr>"
    by (simp add: write_chunk_def produce_def getProduceChunk_def Let_def max_def min_def)
  then show "rb_wf (write_chunk bs rb)" and "rb_queue (write_chunk bs rb) = rb_queue rb @ bs"
    and "mCapacity (write_chunk bs rb) = mCapacity rb"
    and "mProducePos (write_chunk bs rb) = (mProducePos rb + length bs) mod mCapacity rb"
    using advance_appends [OF assms] by simp_all
qed

text \<open>Moving the consume cursor removes the oldest bytes.\<close>

lemma skip_drops:
  assumes "rb_wf rb" and "k \<le> mAvailableToConsume rb"
  defines "rb' \<equiv> rb\<lparr>mConsumePos := (mConsumePos rb + k) mod mCapacity rb,
      mAvailableToConsume := mAvailableToConsume rb - k\<rparr>"
  shows "rb_wf rb'" and "rb_queue rb' = drop k (rb_queue rb)"
proof -
  have "(mConsumePos rb + k + (mAvailableToConsume rb - k)) mod mCapacity rb = mProducePos rb"
    using assms by (simp add: rb_wf_def)
  then have "((mConsumePos rb + k) mod mCapacity rb + (mAvailableToConsume rb - k)) mod mCapacity rb = mProducePos rb"
    by (simp only: mod_add_left_eq)
  then show "rb_wf rb'"
    using assms(1) unfolding rb_wf_def rb'_def by (simp add: le_trans [OF diff_le_self])
  show "rb_queue rb' = drop k (rb_queue rb)"
  proof (intro nth_equalityI)
    fix i
    assume "i < length (rb_queue rb')"
    then have "k + i < mAvailableToConsume rb" by (simp add: rb'_def less_diff_conv add.commute)
    moreover from this have "[0..<mAvailableToConsume rb] ! (k + i) = k + i" by simp
    ultimately show "rb_queue rb' ! i = drop k (rb_queue rb) ! i"
      by (simp add: rb_queue_def rb'_def mod_simps less_diff_conv ac_simps)
  qed (simp add: rb'_def)
qed

lemma consumeThread_pass_takes:
  assumes "rb_wf rb"
  obtains bs rb' where "consumeThread_pass n rb = Some (bs, rb')" and "rb_wf rb'" and "rb_queue rb = bs @ rb_queue rb'"
    and "mBuffer rb' = mBuffer rb" and "mProducePos rb' = mProducePos rb"
    and "length bs = min n (snd (getConsumeChunk rb))"
proof -
  define k where "k = min n (snd (getConsumeChunk rb))"
  have le: "k \<le> mAvailableToConsume rb" by (auto simp: k_def getConsumeChunk_def)
  let ?rb = "rb\<lparr>mConsumePos := (mConsumePos rb + k) mod mCapacity rb, mAvailableToConsume := mAvailableToConsume rb - k\<rparr>"
  let ?bs = "take k (drop (mConsumePos rb) (mBuffer rb))"
  have rd: "consumeThread_pass n rb = Some (?bs, ?rb)"
    using le by (simp add: consumeThread_pass_def k_def consume_def getConsumeChunk_def Let_def min_def)
  have fit: "mConsumePos rb + k \<le> mCapacity rb"
    using chunk_fits(2) [OF assms] by (simp add: k_def)
  have "?bs = take k (rb_queue rb)"
    using consume_chunk_pos [OF assms] fit le
    by (intro nth_equalityI) (auto simp: rb_queue_def k_def)
  then have "rb_queue rb = ?bs @ rb_queue ?rb" using skip_drops(2) [OF assms le] by simp
  then show ?thesis
    using that rd skip_drops(1) [OF assms le] fit by (simp flip: k_def)
qed

lemma makeRoomForProduce_drops:
  assumes "rb_wf rb" and "n < mCapacity rb"
  obtains lost rb' where "makeRoomForProduce n rb = Some (lost, rb')" and "rb_wf rb'"
    and "rb_queue rb' = drop lost (rb_queue rb)" and "n \<le> availableToProduce rb'"
    and "mBuffer rb' = mBuffer rb" and "mProducePos rb' = mProducePos rb" and "lost \<le> mAvailableToConsume rb"
    and "lost > 0 \<Longrightarrow> availableToProduce rb' = n"
proof -
  let ?k = "if n \<le> mCapacity rb - mAvailableToConsume rb then 0 else n - (mCapacity rb - mAvailableToConsume rb)"
  have le: "?k \<le> mAvailableToConsume rb" using assms by (auto simp: rb_wf_def)
  show ?thesis
    by (rule that [of ?k "rb\<lparr>mConsumePos := (mConsumePos rb + ?k) mod mCapacity rb,
        mAvailableToConsume := mAvailableToConsume rb - ?k\<rparr>"])
      (use assms skip_drops [OF assms(1) le] le in
        \<open>auto simp: makeRoomForProduce_def availableToProduce_def rb_wf_def Let_def split: if_splits\<close>)
qed

section \<open>The interface of the capture thread\<close>

text \<open>What a capture stream relies on: a put evicts some of the oldest bytes and appends its data
  (nothing when the device failed), a get takes a prefix.\<close>

locale capture_pipe =
  fixes wf :: "'s \<Rightarrow> bool" and queue :: "'s \<Rightarrow> bytes" and n :: nat
    and put :: "bytes option \<Rightarrow> 's \<Rightarrow> (nat \<times> 's) option" and get :: "nat \<Rightarrow> 's \<Rightarrow> (bytes \<times> 's) option"
  assumes put_law: "\<lbrakk>wf s; \<And>bs. got = Some bs \<Longrightarrow> length bs = n\<rbrakk> \<Longrightarrow>
      \<exists>lost s'. put got s = Some (lost, s') \<and> wf s' \<and>
        queue s' = drop lost (queue s) @ (case got of None \<Rightarrow> [] | Some bs \<Rightarrow> bs)"
    and get_law: "wf s \<Longrightarrow> \<exists>bs s'. get k s = Some (bs, s') \<and> wf s' \<and> queue s = bs @ queue s'"
begin

text \<open>No interleaving fails, and nothing is lost, duplicated or reordered: what left the pipe and what is still
  in it are what was put in.\<close>

lemma run_is_fifo:
  assumes "wf s" and "reads_of_size n ops"
  shows "\<exists>log s'. pipe_run queue put get ops s = Some (log, s') \<and> wf s' \<and>
    concat (map snd log) @ queue s' = queue s @ produced ops"
  using assms
proof (induction ops arbitrary: s)
  case (Cons op ops)
  show ?case
  proof (cases op)
    case (Produce got)
    obtain lost s1 where 1: "put got s = Some (lost, s1)" "wf s1"
        "queue s1 = drop lost (queue s) @ (case got of None \<Rightarrow> [] | Some bs \<Rightarrow> bs)"
      using put_law [of s got] Cons.prems Produce by (cases got) auto
    have "reads_of_size n ops" using Cons.prems(2) Produce by (cases got) auto
    with Cons.IH [OF 1(2)] obtain log s2 where 2: "pipe_run queue put get ops s1 = Some (log, s2)" "wf s2"
        "concat (map snd log) @ queue s2 = queue s1 @ produced ops"
      by blast
    have "take lost (queue s) @ queue s1 @ produced ops = queue s @ produced (op # ops)"
      using Produce 1(3) by (cases got) (simp_all flip: append_assoc)
    then show ?thesis using Produce 1(1) 2 by simp
  next
    case (Consume k)
    obtain bs s1 where 1: "get k s = Some (bs, s1)" and 2: "wf s1" "queue s = bs @ queue s1"
      using get_law [of s k] Cons.prems(1) by auto
    have "reads_of_size n ops" using Cons.prems(2) Consume by simp
    with Cons.IH [OF 2(1)] 1 2 show ?thesis using Consume by auto
  qed
qed simp

end

text \<open>The ring of a source holds three reads, and the capture thread writes whole reads only: its cursor stays on
  a multiple of the read size, so the free space is always contiguous for one read.\<close>

definition source_inv :: "nat \<Rightarrow> RingBuffer \<Rightarrow> bool" where
  "source_inv n rb \<longleftrightarrow> rb_wf rb \<and> 0 < n \<and> mCapacity rb = 3 * n \<and> n dvd mProducePos rb"

lemma source_room:
  assumes "source_inv n rb" and "n \<le> availableToProduce rb"
  shows "n \<le> snd (getProduceChunk rb)"
proof -
  obtain q where q: "mProducePos rb = q * n" using assms(1) by (auto simp: source_inv_def mult.commute elim: dvdE)
  have "q * n < 3 * n" using assms(1) q by (auto simp: source_inv_def rb_wf_def)
  then have "q < 3" by simp
  then have "n + q * n \<le> 3 * n" using mult_le_mono1 [of "Suc q" 3 n] by auto
  moreover have "mCapacity rb = 3 * n" using assms(1) by (simp add: source_inv_def)
  ultimately have "n \<le> mCapacity rb - mProducePos rb" using q by linarith
  moreover have "n \<le> mConsumePos rb - mProducePos rb" if "mProducePos rb < mConsumePos rb"
    using assms that mod_sum_cases [of "mConsumePos rb" "mCapacity rb" "mAvailableToConsume rb"]
    by (auto simp: source_inv_def rb_wf_def availableToProduce_def split: if_splits)
  ultimately show ?thesis
    using assms(2) by (auto simp: getProduceChunk_def availableToProduce_def Let_def)
qed

lemma producerThread_pass_source:
  assumes "source_inv n rb" and "\<And>bs. got = Some bs \<Longrightarrow> length bs = n"
  obtains lost rb' where "producerThread_pass n got rb = Some (lost, rb')" and "source_inv n rb'"
    and "rb_queue rb' = drop lost (rb_queue rb) @ (case got of None \<Rightarrow> [] | Some bs \<Rightarrow> bs)"
proof -
  have wf: "rb_wf rb" "n < mCapacity rb" using assms(1) by (auto simp: source_inv_def)
  obtain lost rb1 where 1: "makeRoomForProduce n rb = Some (lost, rb1)" "rb_wf rb1"
      "rb_queue rb1 = drop lost (rb_queue rb)" "n \<le> availableToProduce rb1"
      "mBuffer rb1 = mBuffer rb" "mProducePos rb1 = mProducePos rb"
    using makeRoomForProduce_drops [OF wf] by metis
  have inv: "source_inv n rb1" using assms(1) 1 by (simp add: source_inv_def)
  note room = source_room [OF inv 1(4)]
  show ?thesis
  proof (cases got)
    case None
    then show ?thesis using 1 inv room that by (simp add: producerThread_pass_def)
  next
    case (Some bs)
    then have len: "length bs = n" using assms(2) by simp
    note w = write_chunk_appends [OF 1(2), of bs, unfolded len, OF room]
    have "mProducePos rb1 + n \<le> mCapacity rb1"
      using chunk_fits(1) [OF 1(2) room] .
    then have "producerThread_pass n got rb = Some (lost, write_chunk bs rb1)"
      using Some 1(1,4) room len
      by (simp add: producerThread_pass_def write_chunk_def produce_def getProduceChunk_def availableToProduce_def
          Let_def max_def)
    moreover have "source_inv n (write_chunk bs rb1)"
      using inv w by (auto simp: source_inv_def dvd_mod)
    ultimately show ?thesis using that w(2) 1(3) Some by simp
  qed
qed

lemma consumeThread_pass_source:
  assumes "source_inv n rb"
  shows "\<exists>bs rb'. consumeThread_pass k rb = Some (bs, rb') \<and> source_inv n rb' \<and> rb_queue rb = bs @ rb_queue rb'"
  using assms consumeThread_pass_takes [of rb k] by (metis source_inv_def)

interpretation source: capture_pipe "source_inv n" rb_queue n "producerThread_pass n" consumeThread_pass for n
  by unfold_locales (metis producerThread_pass_source, rule consumeThread_pass_source)



section \<open>Copying into the ring\<close>

lemma produce_loop_step:
  assumes "rb_wf rb" and "0 < m" and "can_produce rb"
  defines "k \<equiv> snd (getProduceChunk rb)"
  shows "length src < k \<Longrightarrow> produce_loop src m rb = None"
    and "k \<le> length src \<Longrightarrow>
      \<exists>rb'. produce_loop src m rb = produce_loop (drop k src) (m - int k) rb' \<and> rb_wf rb' \<and>
        rb_queue rb' = rb_queue rb @ take k src \<and> availableToProduce rb' = availableToProduce rb - k \<and>
        mConsumePos rb' = mConsumePos rb \<and> mCapacity rb' = mCapacity rb"
proof -
  have "0 < k" using chunk_nonempty(1) [OF assms(1)] assms(3) by (simp add: k_def)
  then show "length src < k \<Longrightarrow> produce_loop src m rb = None"
    using assms(2) by (subst produce_loop.simps) (simp add: Let_def flip: k_def)
  assume k: "k \<le> length src"
  let ?rb = "rb\<lparr>mBuffer := splice (mBuffer rb) (mProducePos rb) (take k src),
    mProducePos := (mProducePos rb + k) mod mCapacity rb, mAvailableToConsume := mAvailableToConsume rb + k\<rparr>"
  have "produce_loop src m rb = produce_loop (drop k src) (m - int k) ?rb"
    using assms(2) k \<open>0 < k\<close> by (subst produce_loop.simps) (simp add: Let_def flip: k_def)
  moreover have "length (take k src) = k" using k by simp
  ultimately show "\<exists>rb'. produce_loop src m rb = produce_loop (drop k src) (m - int k) rb' \<and> rb_wf rb' \<and>
      rb_queue rb' = rb_queue rb @ take k src \<and> availableToProduce rb' = availableToProduce rb - k \<and>
      mConsumePos rb' = mConsumePos rb \<and> mCapacity rb' = mCapacity rb"
    using advance_appends [OF assms(1), of "take k src"] k
    by (intro exI [of _ ?rb]) (simp add: k_def availableToProduce_def)
qed

text \<open>The free space is the chunk after the produce cursor and, when it wraps around, one more chunk.\<close>

lemma second_chunk:
  assumes "rb_wf rb" and "rb_wf rb'" and "mConsumePos rb' = mConsumePos rb" and "mCapacity rb' = mCapacity rb"
    and "availableToProduce rb' = availableToProduce rb - snd (getProduceChunk rb)"
  shows "snd (getProduceChunk rb') = availableToProduce rb'"
proof (cases "availableToProduce rb' = 0")
  case True
  then show ?thesis by (simp add: availableToProduce_def getProduceChunk_def)
next
  case False
  let ?c = "mConsumePos rb" and ?a = "mAvailableToConsume rb" and ?N = "mCapacity rb"
  have wf: "?c < ?N" "?a \<le> ?N" "mProducePos rb = (?c + ?a) mod ?N" using assms(1) by (auto simp: rb_wf_def)
  have wrap: "?c + ?a < ?N"
  proof (rule ccontr)
    assume "\<not> ?c + ?a < ?N"
    then have "mProducePos rb = ?c + ?a - ?N" using mod_sum_cases [OF wf(1,2)] wf(3) by simp
    then have "snd (getProduceChunk rb) = ?N - ?a"
      using wf(1,2) \<open>\<not> ?c + ?a < ?N\<close> by (auto simp: getProduceChunk_def Let_def)
    then show False using False assms(5) by (simp add: availableToProduce_def)
  qed
  then have "snd (getProduceChunk rb) = ?N - ?c - ?a"
    using wf by (simp add: getProduceChunk_def Let_def)
  then have avail: "availableToProduce rb' = ?c"
    using assms(5) wrap by (simp add: availableToProduce_def)
  then have "mAvailableToConsume rb' = ?N - ?c"
    using assms(2,4) wf(1) by (auto simp: availableToProduce_def rb_wf_def)
  then have "mProducePos rb' = 0" using assms(2-4) wf(1) by (simp add: rb_wf_def)
  then show ?thesis using avail assms(3,4) False by (simp add: getProduceChunk_def availableToProduce_def Let_def)
qed

lemma produce_loop_done: "m \<le> 0 \<Longrightarrow> produce_loop src m rb = Some rb"
  by (subst produce_loop.simps) simp

lemma can_produce_iff: "can_produce rb \<longleftrightarrow> 0 < availableToProduce rb"
  by (auto simp: can_produce_def availableToProduce_def)

lemma int_of_size_small: "sz < 2 ^ 31 \<Longrightarrow> int_of_size sz = int sz"
  by (simp add: int_of_size_def signed_of_nat signed_take_bit_int_eq_self)

lemma produce_loop_exact:
  assumes "rb_wf rb" and "0 < m" and "m = min (availableToProduce rb) (length src)"
  shows "if length src = snd (getProduceChunk rb) \<or> availableToProduce rb \<le> length src
    then \<exists>rb'. produce_loop src (int m) rb = Some rb' \<and> rb_wf rb' \<and> rb_queue rb' = rb_queue rb @ take m src
    else produce_loop src (int m) rb = None"
proof -
  define k where "k = snd (getProduceChunk rb)"
  let ?A = "availableToProduce rb" and ?l = "length src"
  have can: "can_produce rb" using assms(2,3) by (simp add: can_produce_iff)
  have k: "k \<le> ?A" by (auto simp: k_def getProduceChunk_def availableToProduce_def Let_def)
  note step = produce_loop_step [OF assms(1), of "int m" src, folded k_def]
  have pos: "0 < int m" using assms(2) by simp
  show ?thesis
  proof (cases "?l < k")
    case True
    then show ?thesis using step(1) [OF pos can] k by (simp flip: k_def)
  next
    case False
    then obtain rb1 where 1: "produce_loop src (int m) rb = produce_loop (drop k src) (int m - int k) rb1"
        "rb_wf rb1" "rb_queue rb1 = rb_queue rb @ take k src" "availableToProduce rb1 = ?A - k"
        "mConsumePos rb1 = mConsumePos rb" "mCapacity rb1 = mCapacity rb"
      using step(2) [OF pos can] by auto
    have chunk1: "snd (getProduceChunk rb1) = ?A - k"
      using second_chunk [OF assms(1) 1(2,5,6)] 1(4) by (simp add: k_def)
    show ?thesis
    proof (cases "m = k")
      case True
      then have "produce_loop src (int m) rb = Some rb1" using 1(1) by (simp add: produce_loop_done)
      moreover have "?l = k \<or> ?A \<le> ?l" using True assms(3) by linarith
      ultimately show ?thesis using 1(2,3) True by (auto simp flip: k_def)
    next
      case ne: False
      then have m: "k < m" using False k assms(3) by linarith
      have can1: "can_produce rb1" using m assms(3) 1(4) by (simp add: can_produce_iff)
      have pos1: "0 < int m - int k" using m by simp
      note step1 = produce_loop_step [OF 1(2) pos1 can1, of "drop k src", unfolded chunk1]
      show ?thesis
      proof (cases "?A \<le> ?l")
        case True
        then obtain rb2 where 2: "produce_loop (drop k src) (int m - int k) rb1 =
              produce_loop (drop (?A - k) (drop k src)) (int m - int k - int (?A - k)) rb2"
            "rb_wf rb2" "rb_queue rb2 = rb_queue rb1 @ take (?A - k) (drop k src)"
          using step1(2) diff_le_mono [OF True] by auto
        have "m = ?A" using True assms(3) by simp
        moreover have "take k src @ take (?A - k) (drop k src) = take ?A src"
          using k take_add [of k "?A - k" src] by simp
        ultimately show ?thesis using 1 2 k True by (simp add: produce_loop_done flip: k_def)
      next
        case False
        then show ?thesis using step1(1) 1(1) m assms(3) by (auto simp flip: k_def)
      qed
    qed
  qed
qed

text \<open>What \<open>produce(data, size)\<close> does with a source of exactly \<open>size\<close> bytes. It appends as many bytes as
  fit, and reports that number, when the size is zero, or is the size of the contiguous chunk, or is at least
  the free space; in every other case the copy reads beyond the end of the source, since the size of a chunk
  is not bounded by what is left to copy.\<close>

theorem produce_data_exact:
  assumes "rb_wf rb" and "length src < 2 ^ 31"
  shows "if src = [] \<or> length src = snd (getProduceChunk rb) \<or> availableToProduce rb \<le> length src
    then \<exists>rb'. produce_data src (length src) rb = Some (int (min (availableToProduce rb) (length src)), rb') \<and>
      rb_wf rb' \<and> rb_queue rb' = rb_queue rb @ take (availableToProduce rb) src
    else produce_data src (length src) rb = None"
proof -
  define m where "m = min (availableToProduce rb) (length src)"
  have avail: "int (mCapacity rb) - int (mAvailableToConsume rb) = int (availableToProduce rb)"
    using assms(1) by (simp add: rb_wf_def availableToProduce_def)
  have "produce_data src (length src) rb = map_option (Pair (int m)) (produce_loop src (int m) rb)"
    by (cases "produce_loop src (int m) rb")
      (simp_all add: produce_data_def Let_def int_of_size_small [OF assms(2)] avail m_def of_nat_min)
  moreover have "take (availableToProduce rb) src = take m src" by (simp add: m_def min_def)
  moreover have "m \<noteq> 0 \<Longrightarrow> src \<noteq> []" by (auto simp: m_def)
  moreover have "m = 0 \<Longrightarrow> src = [] \<or> availableToProduce rb \<le> length src" by (auto simp: m_def min_def split: if_splits)
  ultimately show ?thesis
    using produce_loop_exact [OF assms(1) _ m_def] assms(1)
    by (cases "m = 0") (auto simp: produce_loop_done m_def [symmetric])
qed

theorem produce_data_exact_witness:
  "produce_data [1, 2, 3] 3 \<lparr>mBuffer = [0, 0, 0, 0, 0, 0, 0, 0], mAvailableToConsume = 0, mProducePos = 6, mConsumePos = 6\<rparr> = None"
proof -
  let ?rb = "\<lparr>mBuffer = [0, 0, 0, 0, 0, 0, 0, 0 :: u8], mAvailableToConsume = 0, mProducePos = 6, mConsumePos = 6\<rparr>"
  have "rb_wf ?rb" and "snd (getProduceChunk ?rb) = 2" and "availableToProduce ?rb = 8"
    by (simp_all add: rb_wf_def getProduceChunk_def availableToProduce_def Let_def)
  then show ?thesis using produce_data_exact [of ?rb "[1, 2, 3]"] by (simp add: numeral_3_eq_3)
qed

end
