(* ===== verification/C_Float.thy ===== *)
theory C_Float
  imports Goldfish_Prelude "HOL-Library.Log_Nat"
begin

text \<open>Single-precision rounding of integers, and its error.\<close>

section \<open>Single precision\<close>

text \<open>Rounding an integer to 24 significant bits, to nearest and ties to even. A value with a binary fraction is
  kept as an integer by a power of two, which does not change its significant bits.\<close>

definition round_shift :: "nat \<Rightarrow> nat \<Rightarrow> nat" where
  "round_shift k a =
     (let q = a div 2 ^ k; r = a mod 2 ^ k in
      (if 2 * r > 2 ^ k \<or> (2 * r = 2 ^ k \<and> odd q) then q + 1 else q) * 2 ^ k)"

definition f32_round :: "int \<Rightarrow> int" where
  "f32_round n = sgn n * int (round_shift (floorlog 2 (nat \<bar>n\<bar>) - 24) (nat \<bar>n\<bar>))"

lemma round_shift_error:
  fixes k a :: nat
  shows "\<bar>int (round_shift k a) - int a\<bar> * 2 \<le> 2 ^ k"
proof -
  let ?q = "a div 2 ^ k" and ?r = "a mod 2 ^ k"
  have two: "int (2 ^ k) = 2 ^ k" by simp
  have "int (?q * 2 ^ k + ?r) = int a" by (simp only: div_mult_mod_eq)
  then have a: "int a = int ?q * 2 ^ k + int ?r" by (simp only: of_nat_add of_nat_mult two)
  have "?r < 2 ^ k" by simp
  then have r: "int ?r < 2 ^ k" using two by linarith
  show ?thesis
  proof (cases "2 * ?r > 2 ^ k \<or> (2 * ?r = 2 ^ k \<and> odd ?q)")
    case True
    then have "int (round_shift k a) = (int ?q + 1) * 2 ^ k" by (simp add: round_shift_def Let_def algebra_simps)
    moreover have "2 * int ?r \<ge> 2 ^ k" using True two by linarith
    ultimately show ?thesis using a r by (simp add: algebra_simps)
  next
    case False
    then have "int (round_shift k a) = int ?q * 2 ^ k" by (auto simp: round_shift_def Let_def)
    moreover have "2 * int ?r \<le> 2 ^ k" using False two by linarith
    ultimately show ?thesis using a by simp
  qed
qed

text \<open>The relative error of a rounding is at most \<open>2\<^sup>-\<^sup>2\<^sup>4\<close>.\<close>

lemma f32_round_error: "\<bar>f32_round n - n\<bar> * 2 ^ 24 \<le> \<bar>n\<bar>"
proof (cases "n = 0")
  case False
  define a where "a = nat \<bar>n\<bar>"
  define k where "k = floorlog 2 a - 24"
  have "0 < a" using False by (simp add: a_def)
  have "f32_round n - n = sgn n * (int (round_shift k a) - int a)"
    using False by (simp add: f32_round_def a_def k_def sgn_if right_diff_distrib)
  then have e: "\<bar>f32_round n - n\<bar> = \<bar>int (round_shift k a) - int a\<bar>"
    using False by (simp add: abs_mult sgn_if)
  show ?thesis
  proof (cases "floorlog 2 a \<le> 24")
    case True
    then show ?thesis using e by (simp add: k_def round_shift_def)
  next
    case False
    then have "k + 23 = floorlog 2 a - 1" by (simp add: k_def)
    then have "2 ^ (k + 23) \<le> a" using floorlog_bounds [of a 2] \<open>0 < a\<close> by simp
    then have "2 ^ (k + 23) \<le> int a" by (metis of_nat_le_iff of_nat_numeral of_nat_power)
    then have "2 ^ k * 2 ^ 23 \<le> int a" by (simp add: power_add)
    moreover have "\<bar>int (round_shift k a) - int a\<bar> * 2 * 2 ^ 23 \<le> 2 ^ k * 2 ^ 23"
      using round_shift_error [of k a] by (intro mult_right_mono) auto
    ultimately show ?thesis using e by (simp add: a_def)
  qed
qed (simp add: f32_round_def)

lemma f32_round_near: "\<bar>n\<bar> \<le> e * 2 ^ 24 \<Longrightarrow> \<bar>f32_round n - n\<bar> \<le> e"
  using order_trans [OF f32_round_error] by (rule mult_right_le_imp_le) auto

end
