(* ===== verification/Camera3_Control.thy ===== *)
theory Camera3_Control
  imports C_Float
begin

text \<open>
  \<^verbatim>\<open>camera/EmulatedFakeCamera3.cpp\<close>: the simulated exposure, focus and white balance control
  (\<^verbatim>\<open>process3A\<close> and what it calls). The settings of a request are a record with one optional field
  for each metadata entry the code looks up; an enumeration of the camera metadata keeps the values
  the code distinguishes and one constructor for all others. What \<^verbatim>\<open>rand\<close> and \<^verbatim>\<open>pow\<close> give is part
  of the environment \<open>aaa_env\<close>. Times are nanoseconds in unbounded integers; the single-precision
  product that moves the exposure time is computed exactly as IEEE arithmetic rounds it.
\<close>

datatype status_t = OK | BAD_VALUE | INVALID_OPERATION | NO_INIT | TIMED_OUT

section \<open>Data\<close>

datatype control_mode = CONTROL_MODE_OFF | CONTROL_MODE_AUTO | CONTROL_MODE_USE_SCENE_MODE | CONTROL_MODE_other
datatype scene_mode = SCENE_MODE_FACE_PRIORITY | SCENE_MODE_other
datatype ae_mode = AE_MODE_OFF | AE_MODE_ON | AE_MODE_other
datatype ae_state = AE_INACTIVE | AE_SEARCHING | AE_CONVERGED | AE_LOCKED | AE_FLASH_REQUIRED | AE_PRECAPTURE
datatype af_mode = AF_MODE_OFF | AF_MODE_AUTO | AF_MODE_MACRO | AF_MODE_CONTINUOUS_VIDEO
  | AF_MODE_CONTINUOUS_PICTURE | AF_MODE_other
datatype af_trigger = AF_TRIGGER_IDLE | AF_TRIGGER_START | AF_TRIGGER_CANCEL | AF_TRIGGER_other
datatype af_state = AF_INACTIVE | AF_PASSIVE_SCAN | AF_PASSIVE_FOCUSED | AF_ACTIVE_SCAN | AF_FOCUSED_LOCKED
  | AF_NOT_FOCUSED_LOCKED | AF_PASSIVE_UNFOCUSED
datatype awb_mode = AWB_MODE_OFF | AWB_MODE_AUTO | AWB_MODE_INCANDESCENT | AWB_MODE_FLUORESCENT
  | AWB_MODE_DAYLIGHT | AWB_MODE_SHADE | AWB_MODE_other
datatype awb_state = AWB_INACTIVE | AWB_SEARCHING | AWB_CONVERGED | AWB_LOCKED
datatype lens_state = LENS_STATIONARY | LENS_MOVING

text \<open>A region is given by two corners and a weight, the crop region by a corner, a width and a height.\<close>

record region = x0 :: int  y0 :: int  x1 :: int  y1 :: int  weight :: int

record CameraMetadata =
  md_control_mode :: "control_mode option"
  md_scene_mode :: "scene_mode option"
  md_ae_mode :: "ae_mode option"
  md_ae_lock :: "bool option"                 \<comment> \<open>whether it is \<^verbatim>\<open>AE_LOCK_ON\<close>\<close>
  md_ae_precapture :: "bool option"           \<comment> \<open>whether it is \<^verbatim>\<open>PRECAPTURE_TRIGGER_START\<close>\<close>
  md_af_mode :: "af_mode option"
  md_af_trigger :: "af_trigger option"
  md_awb_mode :: "awb_mode option"
  md_awb_lock :: "bool option"
  md_crop :: "(int \<times> int \<times> int \<times> int) option"
  md_ae_regions :: "region option"
  md_af_regions :: "region option"
  md_awb_regions :: "region option"
  md_exposure_time :: "int option"
  md_frame_duration :: "int option"
  md_sensitivity :: "int option"
  md_ae_state :: "ae_state option"
  md_af_state :: "af_state option"
  md_awb_state :: "awb_state option"
  md_lens_state :: "lens_state option"

record AAA =
  mFacePriority :: bool
  mAeState :: ae_state
  mAfState :: af_state
  mAwbState :: awb_state
  mAeMode :: ae_mode
  mAfMode :: af_mode
  mAwbMode :: awb_mode
  mAeCounter :: int
  mAeCurrentExposureTime :: int
  mAeTargetExposureTime :: int
  mAeCurrentSensitivity :: int

record aaa_env =
  wander :: "int \<Rightarrow> int"        \<comment> \<open>multiplication by the random power of two\<close>
  focusRoll :: nat              \<comment> \<open>\<^verbatim>\<open>rand() % 3\<close>\<close>

definition kNormalExposureTime :: int where "kNormalExposureTime = 10 * 1000000"
definition kFacePriorityExposureTime :: int where "kFacePriorityExposureTime = 30 * 1000000"
definition kNormalSensitivity :: int where "kNormalSensitivity = 100"
definition kPrecaptureMinFrames :: int where "kPrecaptureMinFrames = 10"
definition kStableAeMaxFrames :: int where "kStableAeMaxFrames = 100"

lemmas aaa_consts = kNormalExposureTime_def kFacePriorityExposureTime_def kNormalSensitivity_def
  kPrecaptureMinFrames_def kStableAeMaxFrames_def

definition aaa_connect :: "AAA" where
  "aaa_connect = \<lparr>mFacePriority = False, mAeState = AE_INACTIVE, mAfState = AF_INACTIVE, mAwbState = AWB_INACTIVE,
     mAeMode = AE_MODE_ON, mAfMode = AF_MODE_AUTO, mAwbMode = AWB_MODE_AUTO, mAeCounter = 0,
     mAeCurrentExposureTime = kNormalExposureTime, mAeTargetExposureTime = kNormalExposureTime,
     mAeCurrentSensitivity = kNormalSensitivity\<rparr>"

section \<open>Tracking in single precision\<close>

text \<open>\<^verbatim>\<open>kExposureTrackRate\<close> is the single-precision number nearest to 0.2, which is this numerator over
  \<open>2\<^sup>26\<close>.\<close>

definition kExposureTrackRate :: int where "kExposureTrackRate = 13421773"

definition track_exposure :: "int \<Rightarrow> int \<Rightarrow> int" where
  "track_exposure current target =
     (let product = f32_round (f32_round (target - current) * kExposureTrackRate);
          sum = f32_round (f32_round current * 2 ^ 26 + product)
      in sgn sum * (\<bar>sum\<bar> div 2 ^ 26))"

section \<open>Exposure\<close>

text \<open>The result of a step is its status and the new state; what was set before an error stays set.
  \<open>legacy\<close> is the capability \<^verbatim>\<open>BACKWARD_COMPATIBLE\<close>.\<close>

definition target_time :: "AAA \<Rightarrow> int" where
  "target_time a = (if mFacePriority a then kFacePriorityExposureTime else kNormalExposureTime)"

definition ae_precapture :: "bool \<Rightarrow> AAA \<Rightarrow> AAA" where
  "ae_precapture aeLocked a =
     (let a = (if mAeState a \<noteq> AE_PRECAPTURE then a\<lparr>mAeCounter := 0\<rparr> else a);
          a = a\<lparr>mAeTargetExposureTime := target_time a\<rparr>
      in if mAeCounter a > kPrecaptureMinFrames \<and>
            mAeTargetExposureTime a - mAeCurrentExposureTime a < mAeTargetExposureTime a div 10
         then a\<lparr>mAeCounter := 0, mAeState := (if aeLocked then AE_LOCKED else AE_CONVERGED)\<rparr>
         else a\<lparr>mAeCurrentExposureTime := track_exposure (mAeCurrentExposureTime a) (mAeTargetExposureTime a),
                mAeCounter := mAeCounter a + 1, mAeState := AE_PRECAPTURE\<rparr>)"

definition ae_scan :: "aaa_env \<Rightarrow> AAA \<Rightarrow> status_t \<times> AAA" where
  "ae_scan env a =
     (case mAeState a of
        AE_INACTIVE \<Rightarrow> (OK, a\<lparr>mAeState := AE_SEARCHING\<rparr>)
      | AE_CONVERGED \<Rightarrow>
          let a = a\<lparr>mAeCounter := mAeCounter a + 1\<rparr> in
          (OK, if mAeCounter a > kStableAeMaxFrames
               then a\<lparr>mAeTargetExposureTime := wander env (target_time a), mAeState := AE_SEARCHING\<rparr>
               else a)
      | AE_SEARCHING \<Rightarrow>
          let a = a\<lparr>mAeCurrentExposureTime := track_exposure (mAeCurrentExposureTime a) (mAeTargetExposureTime a)\<rparr> in
          (OK, if \<bar>mAeTargetExposureTime a - mAeCurrentExposureTime a\<bar> < mAeTargetExposureTime a div 10
               then a\<lparr>mAeState := AE_CONVERGED, mAeCounter := 0\<rparr>
               else a)
      | AE_LOCKED \<Rightarrow> (OK, a\<lparr>mAeState := AE_CONVERGED, mAeCounter := 0\<rparr>)
      | _ \<Rightarrow> (INVALID_OPERATION, a))"

definition doFakeAE :: "bool \<Rightarrow> aaa_env \<Rightarrow> CameraMetadata \<Rightarrow> AAA \<Rightarrow> status_t \<times> AAA" where
  "doFakeAE legacy env settings a =
     (if md_ae_mode settings = None \<and> legacy then (BAD_VALUE, a)
      else
        let aeMode = case_option AE_MODE_ON id (md_ae_mode settings);
            a = a\<lparr>mAeMode := aeMode\<rparr>
        in if aeMode = AE_MODE_OFF then (OK, a\<lparr>mAeState := AE_INACTIVE\<rparr>)
           else
             let aeLocked = (md_ae_lock settings = Some True);
                 precaptureTrigger = (md_ae_precapture settings = Some True)
             in if precaptureTrigger \<or> mAeState a = AE_PRECAPTURE then (OK, ae_precapture aeLocked a)
                else if \<not> aeLocked then ae_scan env a
                else (OK, a\<lparr>mAeState := AE_LOCKED\<rparr>))"

section \<open>Focus\<close>

definition focus_result :: "aaa_env \<Rightarrow> af_state" where
  "focus_result env = (if focusRoll env \<noteq> 0 then AF_FOCUSED_LOCKED else AF_NOT_FOCUSED_LOCKED)"

definition autofocus :: "af_mode \<Rightarrow> bool" where
  "autofocus m \<longleftrightarrow> m = AF_MODE_AUTO \<or> m = AF_MODE_MACRO"

definition continuous :: "af_mode \<Rightarrow> bool" where
  "continuous m \<longleftrightarrow> m = AF_MODE_CONTINUOUS_VIDEO \<or> m = AF_MODE_CONTINUOUS_PICTURE"

definition af_transition :: "aaa_env \<Rightarrow> bool \<Rightarrow> bool \<Rightarrow> af_mode \<Rightarrow> af_state \<Rightarrow> af_state" where
  "af_transition env afTriggerStart afModeChanged afMode s =
     (case s of
        AF_INACTIVE \<Rightarrow>
          if afTriggerStart then
            (if autofocus afMode then AF_ACTIVE_SCAN
             else if continuous afMode then AF_NOT_FOCUSED_LOCKED else s)
          else if \<not> afModeChanged \<and> continuous afMode then AF_PASSIVE_SCAN
          else s
      | AF_PASSIVE_SCAN \<Rightarrow>
          if afTriggerStart then focus_result env
          else if focusRoll env = 0 then AF_PASSIVE_FOCUSED else s
      | AF_PASSIVE_FOCUSED \<Rightarrow> if afTriggerStart then focus_result env else s
      | AF_ACTIVE_SCAN \<Rightarrow> focus_result env
      | AF_FOCUSED_LOCKED \<Rightarrow> if afTriggerStart \<and> autofocus afMode then AF_ACTIVE_SCAN else s
      | AF_NOT_FOCUSED_LOCKED \<Rightarrow> if afTriggerStart \<and> autofocus afMode then AF_ACTIVE_SCAN else s
      | AF_PASSIVE_UNFOCUSED \<Rightarrow> s)"

definition doFakeAF :: "bool \<Rightarrow> aaa_env \<Rightarrow> CameraMetadata \<Rightarrow> AAA \<Rightarrow> status_t \<times> AAA" where
  "doFakeAF legacy env settings a =
     (if md_af_mode settings = None \<and> legacy then (BAD_VALUE, a)
      else
        let afMode = case_option AF_MODE_OFF id (md_af_mode settings);
            afTrigger = case_option AF_TRIGGER_IDLE id (md_af_trigger settings)
        in if afMode = AF_MODE_OFF then (OK, a\<lparr>mAfState := AF_INACTIVE\<rparr>)
           else if afMode = AF_MODE_other then (BAD_VALUE, a)
           else
             let afModeChanged = (mAfMode a \<noteq> afMode);
                 a = a\<lparr>mAfMode := afMode\<rparr>
             in (case afTrigger of
                   AF_TRIGGER_CANCEL \<Rightarrow> (OK, a\<lparr>mAfState := AF_INACTIVE\<rparr>)
                 | AF_TRIGGER_other \<Rightarrow> (BAD_VALUE, a)
                 | _ \<Rightarrow> (OK, a\<lparr>mAfState := af_transition env (afTrigger = AF_TRIGGER_START) afModeChanged afMode (mAfState a)\<rparr>)))"

section \<open>White balance\<close>

definition doFakeAWB :: "bool \<Rightarrow> CameraMetadata \<Rightarrow> AAA \<Rightarrow> status_t \<times> AAA" where
  "doFakeAWB legacy settings a =
     (if md_awb_mode settings = None \<and> legacy then (BAD_VALUE, a)
      else
        let awbMode = case_option AWB_MODE_AUTO id (md_awb_mode settings);
            awbLocked = (md_awb_lock settings = Some True)
        in (case awbMode of
              AWB_MODE_OFF \<Rightarrow> (OK, a\<lparr>mAwbState := AWB_INACTIVE\<rparr>)
            | AWB_MODE_other \<Rightarrow> (BAD_VALUE, a)
            | _ \<Rightarrow> (OK, a\<lparr>mAwbState := (if awbLocked then AWB_LOCKED else AWB_CONVERGED)\<rparr>)))"

section \<open>Reporting\<close>

definition update3ARegion :: "(int \<times> int \<times> int \<times> int) option \<Rightarrow> region option \<Rightarrow> region option" where
  "update3ARegion crop entry =
     (case (crop, entry) of
        (Some (cx, cy, cw, ch), Some r) \<Rightarrow>
          let crop2 = cw + cx; crop3 = ch + cy in
          if x0 r < crop2 \<and> cx < x1 r \<and> y0 r < crop3 \<and> cy < y1 r
          then Some \<lparr>x0 = max (x0 r) cx, y0 = max (y0 r) cy, x1 = min (x1 r) crop2, y1 = min (y1 r) crop3,
                     weight = weight r\<rparr>
          else entry
      | _ \<Rightarrow> entry)"

definition lens_of :: "af_state \<Rightarrow> lens_state" where
  "lens_of s = (case s of AF_PASSIVE_SCAN \<Rightarrow> LENS_MOVING | AF_ACTIVE_SCAN \<Rightarrow> LENS_MOVING | _ \<Rightarrow> LENS_STATIONARY)"

definition update3A :: "AAA \<Rightarrow> CameraMetadata \<Rightarrow> CameraMetadata" where
  "update3A a settings =
     (let settings = (if mAeMode a \<noteq> AE_MODE_OFF
                      then settings\<lparr>md_exposure_time := Some (mAeCurrentExposureTime a),
                                    md_sensitivity := Some (mAeCurrentSensitivity a)\<rparr>
                      else settings);
          settings = settings\<lparr>md_ae_state := Some (mAeState a), md_af_state := Some (mAfState a),
                              md_awb_state := Some (mAwbState a), md_lens_state := Some (lens_of (mAfState a))\<rparr>;
          crop = md_crop settings
      in settings\<lparr>md_ae_regions := update3ARegion crop (md_ae_regions settings),
                  md_af_regions := update3ARegion crop (md_af_regions settings),
                  md_awb_regions := update3ARegion crop (md_awb_regions settings)\<rparr>)"

section \<open>All three\<close>

definition aaa_off :: "AAA \<Rightarrow> AAA" where
  "aaa_off a = a\<lparr>mAeMode := AE_MODE_OFF, mAfMode := AF_MODE_OFF, mAwbMode := AWB_MODE_OFF,
     mAeState := AE_INACTIVE, mAfState := AF_INACTIVE, mAwbState := AWB_INACTIVE\<rparr>"

definition select_scene :: "bool \<Rightarrow> control_mode \<Rightarrow> CameraMetadata \<Rightarrow> AAA \<Rightarrow> AAA option" where
  "select_scene legacy controlMode settings a =
     (if controlMode = CONTROL_MODE_USE_SCENE_MODE then
        (if legacy \<and> md_scene_mode settings = Some SCENE_MODE_FACE_PRIORITY
         then Some (a\<lparr>mFacePriority := True\<rparr>) else None)
      else Some (a\<lparr>mFacePriority := False\<rparr>))"

definition process3A :: "bool \<Rightarrow> aaa_env \<Rightarrow> CameraMetadata \<Rightarrow> AAA \<Rightarrow> status_t \<times> AAA \<times> CameraMetadata" where
  "process3A legacy env settings a =
     (case md_control_mode settings of
        None \<Rightarrow> (BAD_VALUE, a, settings)
      | Some CONTROL_MODE_OFF \<Rightarrow> (OK, aaa_off a, update3A (aaa_off a) settings)
      | Some controlMode \<Rightarrow>
          (case select_scene legacy controlMode settings a of
             None \<Rightarrow> (BAD_VALUE, a, settings)
           | Some a \<Rightarrow>
               (case doFakeAE legacy env settings a of (res, a) \<Rightarrow>
                if res \<noteq> OK then (res, a, settings)
                else case doFakeAF legacy env settings a of (res, a) \<Rightarrow>
                if res \<noteq> OK then (res, a, settings)
                else case doFakeAWB legacy settings a of (res, a) \<Rightarrow>
                if res \<noteq> OK then (res, a, settings)
                else (OK, a, update3A a settings))))"

section \<open>Tracking the exposure\<close>

text \<open>One step of the tracking moves the exposure a fifth of the way to its target, up to a few nanoseconds.\<close>

lemma track_exposure_step:
  assumes "0 \<le> c" and "c \<le> 2 ^ 26" and "0 \<le> t" and "t \<le> 2 ^ 26"
  shows "\<bar>5 * track_exposure c t - (4 * c + t)\<bar> \<le> 80"
proof -
  define r1 where "r1 = f32_round (t - c)"
  define p where "p = f32_round (r1 * kExposureTrackRate)"
  define r2 where "r2 = f32_round c"
  define s where "s = f32_round (r2 * 2 ^ 26 + p)"
  have e1: "\<bar>r1 - (t - c)\<bar> \<le> 4" unfolding r1_def using assms by (intro f32_round_near) auto
  have e2: "\<bar>r2 - c\<bar> \<le> 4" unfolding r2_def using assms by (intro f32_round_near) auto
  have r1: "\<bar>r1\<bar> \<le> 67108868" using e1 assms by simp
  have ep: "\<bar>p - r1 * 13421773\<bar> \<le> 53687096"
    unfolding p_def kExposureTrackRate_def using r1 by (intro f32_round_near) (auto simp: abs_le_iff)
  have "\<bar>r2 * 67108864 + p\<bar> \<le> 536870912 * 2 ^ 24" using e2 ep r1 assms by (simp add: abs_le_iff)
  then have es: "\<bar>s - (r2 * 67108864 + p)\<bar> \<le> 536870912" using f32_round_near by (simp add: s_def)
  have tr: "\<bar>sgn s * (\<bar>s\<bar> div 2 ^ 26) * 67108864 - s\<bar> \<le> 67108864"
  proof -
    have "\<bar>s\<bar> div 67108864 * 67108864 \<le> \<bar>s\<bar>" "\<bar>s\<bar> < \<bar>s\<bar> div 67108864 * 67108864 + 67108864"
      using div_mult_mod_eq [of "\<bar>s\<bar>" 67108864] pos_mod_bound [of 67108864 "\<bar>s\<bar>"] pos_mod_sign [of 67108864 "\<bar>s\<bar>"]
      by linarith+
    then show ?thesis by (cases "s < 0"; cases "s = 0") (auto simp: sgn_if)
  qed
  have "track_exposure c t = sgn s * (\<bar>s\<bar> div 2 ^ 26)"
    by (simp add: track_exposure_def Let_def s_def r2_def p_def r1_def)
  then show ?thesis using tr es ep e1 e2 assms by (simp add: abs_le_iff)
qed

definition exposure_ok :: "int \<Rightarrow> bool" where
  "exposure_ok c \<longleftrightarrow> 0 \<le> c \<and> c \<le> 60000080"

lemma track_exposure_ok:
  assumes "exposure_ok c" and "2500000 \<le> t" and "t \<le> 60000000"
  shows "exposure_ok (track_exposure c t)"
proof -
  have "\<bar>5 * track_exposure c t - (4 * c + t)\<bar> \<le> 80"
    using assms by (intro track_exposure_step) (auto simp: exposure_ok_def)
  then show ?thesis using assms unfolding exposure_ok_def by linarith
qed

end
