(* ===== verification/Camera3_Device.thy ===== *)
theory Camera3_Device
  imports Camera3_Control "HOL-Library.Monad_Syntax" C_Strings
begin

text \<open>
  \<^verbatim>\<open>camera/EmulatedFakeCamera3.cpp\<close> and its base class \<^verbatim>\<open>EmulatedCamera3.cpp\<close>: the life cycle of the
  device, its stream configuration, the processing of capture requests, the readout thread that returns
  results, and the reservation of the JPEG compressor (\<^verbatim>\<open>fake-pipeline2/JpegCompressor.cpp\<close>).
  The streams belong to the framework and are kept in a store; a stream pointer is its key. Every operation
  runs under the device lock and is one step; the readout thread takes a request and delivers it in two
  steps, since requests may be queued in between. A wait is over at once or times out: a schedule in which another
  thread ends the wait has that thread's step first. Calls to the graphics mapper and to the framework are
  recorded as effects; their results, and those of the sensor, are arguments.
\<close>

section \<open>Data\<close>

datatype device_status = STATUS_ERROR | STATUS_CLOSED | STATUS_OPEN | STATUS_READY | STATUS_ACTIVE

datatype stream_type = CAMERA3_STREAM_OUTPUT | CAMERA3_STREAM_INPUT | CAMERA3_STREAM_BIDIRECTIONAL

datatype pixel_format = FORMAT_RAW16 | FORMAT_BLOB | FORMAT_RGBA_8888 | FORMAT_IMPLEMENTATION_DEFINED
  | FORMAT_YCbCr_420_888 | FORMAT_Y16 | FORMAT_RGB_888 | FORMAT_other

datatype usage_flag = USAGE_HW_CAMERA_WRITE | USAGE_HW_CAMERA_READ | USAGE_HW_TEXTURE | USAGE_HW_VIDEO_ENCODER
  | USAGE_other

text \<open>\<open>priv\<close> is the private stream information, \<open>None\<close> the null pointer: whether the stream is alive.\<close>

record camera3_stream =
  stream_type :: stream_type
  width :: nat
  height :: nat
  format :: pixel_format
  usage :: "usage_flag set"
  rotation :: int
  depth :: bool                    \<comment> \<open>whether the data space is \<^verbatim>\<open>HAL_DATASPACE_DEPTH\<close>\<close>
  max_buffers :: nat
  priv :: "bool option"

type_synonym stream_id = nat

record stream_buffer =
  buf_stream :: stream_id
  buf_ok :: bool                   \<comment> \<open>status \<^verbatim>\<open>CAMERA3_BUFFER_STATUS_OK\<close>\<close>
  release_fence :: int
  buf_handle :: "nat option"       \<comment> \<open>\<open>None\<close> is a null handle\<close>

record capture_request =
  frame_number :: nat
  req_settings :: "CameraMetadata option"
  input_buffer :: "stream_buffer option"
  output_buffers :: "stream_buffer list"

text \<open>A request in the in-flight queue.\<close>

record Request =
  frameNumber :: nat
  settings :: CameraMetadata
  buffers :: "stream_buffer list"

datatype cam_effect = Lock nat | Unlock nat | Capture_result nat "(nat \<times> bool) list" | Jpeg_result nat nat bool

record sensor_settings =
  exposureTime :: int
  frameDuration :: int
  sensitivity :: int
  sensorFrame :: nat

datatype AvailableCapabilities = BACKWARD_COMPATIBLE | MANUAL_SENSOR | MANUAL_POST_PROCESSING | RAW
  | PRIVATE_REPROCESSING | READ_SENSOR_SETTINGS | BURST_CAPTURE | YUV_REPROCESSING | DEPTH_OUTPUT
  | CONSTRAINED_HIGH_SPEED_VIDEO | MOTION_TRACKING | FULL_LEVEL

record Camera3 =
  mStatus :: device_status
  mCapabilities :: "AvailableCapabilities list"
  mSensorWidth :: nat
  mSensorHeight :: nat
  store :: "stream_id \<Rightarrow> camera3_stream"
  mStreams :: "stream_id list"
  mInputStream :: "stream_id option"
  mPrevSettings :: "CameraMetadata option"
  control :: AAA
  sensor :: sensor_settings
  mInFlightQueue :: "Request list"
  mCurrentRequest :: "Request option"
  mThreadActive :: bool
  mJpegWaiting :: "(nat \<times> nat) option"    \<comment> \<open>frame number and handle of the buffer being compressed\<close>
  mIsBusy :: bool                           \<comment> \<open>the compressor is reserved or running\<close>
  effects :: "cam_effect list"

definition kMaxBufferCount :: nat where "kMaxBufferCount = 4"
definition kMaxQueueSize :: nat where "kMaxQueueSize = 4"
definition kMinVerticalBlank :: int where "kMinVerticalBlank = 10000"
definition kExposureTimeMin :: int where "kExposureTimeMin = 1000"
definition kFrameDurationMin :: int where "kFrameDurationMin = 33331760"
definition kSensitivityMin :: int where "kSensitivityMin = 100"

definition kAvailableFormats :: "pixel_format list" where
  "kAvailableFormats = [FORMAT_RAW16, FORMAT_BLOB, FORMAT_RGBA_8888, FORMAT_IMPLEMENTATION_DEFINED,
     FORMAT_YCbCr_420_888, FORMAT_Y16]"

definition emit :: "cam_effect list \<Rightarrow> Camera3 \<Rightarrow> Camera3" where
  "emit es c = c\<lparr>effects := effects c @ es\<rparr>"

section \<open>Capabilities\<close>

text \<open>The names of the capabilities, and their enumeration in order. The array of names has
  \<^verbatim>\<open>NUM_CAPABILITIES\<close> elements but one initialiser less: its last element is a null pointer, which is \<open>None\<close>.\<close>

definition sAvailableCapabilitiesStrings :: "string option list" where
  "sAvailableCapabilitiesStrings = [Some ''BACKWARD_COMPATIBLE'', Some ''MANUAL_SENSOR'', Some ''MANUAL_POST_PROCESSING'',
     Some ''RAW'', Some ''PRIVATE_REPROCESSING'', Some ''READ_SENSOR_SETTINGS'', Some ''BURST_CAPTURE'',
     Some ''YUV_REPROCESSING'', Some ''DEPTH_OUTPUT'', Some ''CONSTRAINED_HIGH_SPEED_VIDEO'', Some ''FULL_LEVEL'', None]"

definition capabilities_in_order :: "AvailableCapabilities list" where
  "capabilities_in_order = [BACKWARD_COMPATIBLE, MANUAL_SENSOR, MANUAL_POST_PROCESSING, RAW, PRIVATE_REPROCESSING,
     READ_SENSOR_SETTINGS, BURST_CAPTURE, YUV_REPROCESSING, DEPTH_OUTPUT, CONSTRAINED_HIGH_SPEED_VIDEO, MOTION_TRACKING,
     FULL_LEVEL]"

text \<open>The search for one word: the outer \<open>None\<close> is a comparison with the null pointer.\<close>

fun find_capability :: "string \<Rightarrow> (string option \<times> AvailableCapabilities) list \<Rightarrow> AvailableCapabilities option option" where
  "find_capability cap [] = Some None"
| "find_capability cap ((None, v) # vs) = None"
| "find_capability cap ((Some n, v) # vs) = (if strcasecmp_eq cap n then Some (Some v) else find_capability cap vs)"

text \<open>The capabilities are kept in a sorted vector without duplicates, ordered by their enumeration.\<close>

primrec cap_value :: "AvailableCapabilities \<Rightarrow> nat" where
  "cap_value BACKWARD_COMPATIBLE = 0"
| "cap_value MANUAL_SENSOR = 1"
| "cap_value MANUAL_POST_PROCESSING = 2"
| "cap_value RAW = 3"
| "cap_value PRIVATE_REPROCESSING = 4"
| "cap_value READ_SENSOR_SETTINGS = 5"
| "cap_value BURST_CAPTURE = 6"
| "cap_value YUV_REPROCESSING = 7"
| "cap_value DEPTH_OUTPUT = 8"
| "cap_value CONSTRAINED_HIGH_SPEED_VIDEO = 9"
| "cap_value MOTION_TRACKING = 10"
| "cap_value FULL_LEVEL = 11"

lemma cap_value_inject: "cap_value v = cap_value w \<Longrightarrow> v = w"
  by (cases v; cases w) simp_all

instantiation AvailableCapabilities :: linorder
begin

definition less_eq_AvailableCapabilities :: "AvailableCapabilities \<Rightarrow> AvailableCapabilities \<Rightarrow> bool" where
  "v \<le> w \<longleftrightarrow> cap_value v \<le> cap_value w"

definition less_AvailableCapabilities :: "AvailableCapabilities \<Rightarrow> AvailableCapabilities \<Rightarrow> bool" where
  "v < w \<longleftrightarrow> cap_value v < cap_value w"

instance
  by standard (auto simp: less_eq_AvailableCapabilities_def less_AvailableCapabilities_def intro: cap_value_inject)

end

lemma capabilities_in_order_values: "map cap_value capabilities_in_order = [0..<12]"
  by code_simp

definition add_cap :: "AvailableCapabilities \<Rightarrow> AvailableCapabilities list \<Rightarrow> AvailableCapabilities list" where
  "add_cap v caps = insort_insert v caps"

fun parse_caps :: "string list \<Rightarrow> AvailableCapabilities list \<Rightarrow> AvailableCapabilities list option" where
  "parse_caps [] caps = Some caps"
| "parse_caps (w # ws) caps = do {
     r \<leftarrow> find_capability w (zip sAvailableCapabilitiesStrings capabilities_in_order);
     parse_caps ws (case r of None \<Rightarrow> caps | Some v \<Rightarrow> add_cap v caps) }"

definition level_caps :: "AvailableCapabilities list \<Rightarrow> AvailableCapabilities list" where
  "level_caps caps =
     (let caps = (if FULL_LEVEL \<in> set caps
                  then fold add_cap [BURST_CAPTURE, READ_SENSOR_SETTINGS, MANUAL_SENSOR, MANUAL_POST_PROCESSING] caps
                  else caps)
      in if list_ex (\<lambda>v. v \<in> set caps) [BURST_CAPTURE, READ_SENSOR_SETTINGS, RAW, MANUAL_SENSOR, MANUAL_POST_PROCESSING,
              PRIVATE_REPROCESSING, YUV_REPROCESSING, CONSTRAINED_HIGH_SPEED_VIDEO]
         then add_cap BACKWARD_COMPATIBLE caps else caps)"

text \<open>\<open>prop\<close> is the value of the property, empty when it is not set.\<close>

definition getCameraCapabilities :: "string \<Rightarrow> AvailableCapabilities list option" where
  "getCameraCapabilities prop = do {
     caps \<leftarrow> (if prop = [] then Some [] else parse_caps (strtok_all (\<lambda>c. c = CHR '' '' \<or> c = CHR '','') prop) []);
     Some (level_caps (if caps = [] then [FULL_LEVEL, RAW, MOTION_TRACKING] else caps)) }"

definition hasCapability :: "AvailableCapabilities \<Rightarrow> Camera3 \<Rightarrow> bool" where
  "hasCapability v c \<longleftrightarrow> v \<in> set (mCapabilities c)"

section \<open>Life cycle\<close>

text \<open>\<open>staticOk\<close> is the result of building the static metadata, \<open>started\<close> whether the sensor and the readout
  thread start; \<open>active\<close> is what the thread's flag holds before its first use.\<close>

definition Camera3_Initialize :: "string \<Rightarrow> status_t \<Rightarrow> Camera3 \<Rightarrow> (status_t \<times> Camera3) option" where
  "Camera3_Initialize prop staticOk c =
     (if mStatus c \<noteq> STATUS_ERROR then Some (INVALID_OPERATION, c)
      else do {
        caps \<leftarrow> getCameraCapabilities prop;
        let c = c\<lparr>mCapabilities := caps\<rparr>;
        Some (if staticOk \<noteq> OK then (staticOk, c) else (OK, c\<lparr>mStatus := STATUS_CLOSED\<rparr>)) })"

definition connectCamera :: "status_t \<Rightarrow> bool \<Rightarrow> Camera3 \<Rightarrow> status_t \<times> Camera3" where
  "connectCamera started active c =
     (if mStatus c \<noteq> STATUS_CLOSED then (INVALID_OPERATION, c)
      else
        let c = c\<lparr>mInFlightQueue := [], mCurrentRequest := None, mThreadActive := active, mJpegWaiting := None, mIsBusy := False\<rparr> in
        if started \<noteq> OK then (started, c)
        else (OK, c\<lparr>control := aaa_connect, mStatus := STATUS_OPEN\<rparr>))"

definition initializeDevice :: "bool \<Rightarrow> Camera3 \<Rightarrow> status_t \<times> Camera3" where
  "initializeDevice callbacks c =
     (if \<not> callbacks then (BAD_VALUE, c)
      else if mStatus c \<noteq> STATUS_OPEN then (INVALID_OPERATION, c)
      else (OK, c\<lparr>mStatus := STATUS_READY\<rparr>))"

definition clear_priv :: "stream_id list \<Rightarrow> (stream_id \<Rightarrow> camera3_stream) \<Rightarrow> stream_id \<Rightarrow> camera3_stream" where
  "clear_priv ids st = (\<lambda>i. if i \<in> set ids then (st i)\<lparr>priv := None\<rparr> else st i)"

definition closeCamera :: "status_t \<Rightarrow> Camera3 \<Rightarrow> status_t \<times> Camera3" where
  "closeCamera shutdown c =
     (if mStatus c = STATUS_CLOSED then (OK, c)
      else if shutdown \<noteq> OK then (shutdown, c)
      else (OK, c\<lparr>store := clear_priv (mStreams c) (store c), mStreams := [], mInFlightQueue := [],
                  mCurrentRequest := None, mStatus := STATUS_CLOSED\<rparr>))"

section \<open>Streams\<close>

definition stream_ok :: "Camera3 \<Rightarrow> camera3_stream \<Rightarrow> bool" where
  "stream_ok c s \<longleftrightarrow>
     (stream_type s \<noteq> CAMERA3_STREAM_INPUT \<longrightarrow> 0 \<le> rotation s \<and> rotation s \<le> 3) \<and>
     width s \<noteq> 0 \<and> height s \<noteq> 0 \<and> width s \<le> mSensorWidth c \<and> height s \<le> mSensorHeight c \<and>
     format s \<in> set kAvailableFormats"

text \<open>The checks in list order; a null entry is \<open>None\<close>. The result is the input stream.\<close>

fun check_streams :: "Camera3 \<Rightarrow> stream_id option list \<Rightarrow> stream_id option \<Rightarrow> stream_id option option" where
  "check_streams c [] inp = Some inp"
| "check_streams c (None # ids) inp = None"
| "check_streams c (Some i # ids) inp =
     (let s = store c i; reads = (stream_type s \<noteq> CAMERA3_STREAM_OUTPUT) in
      if reads \<and> inp \<noteq> None then None
      else if \<not> stream_ok c s then None
      else check_streams c ids (if reads then Some i else inp))"

definition stream_usage :: "stream_type \<Rightarrow> usage_flag set" where
  "stream_usage t =
     (case t of
        CAMERA3_STREAM_OUTPUT \<Rightarrow> {USAGE_HW_CAMERA_WRITE}
      | CAMERA3_STREAM_INPUT \<Rightarrow> {USAGE_HW_CAMERA_READ}
      | CAMERA3_STREAM_BIDIRECTIONAL \<Rightarrow> {USAGE_HW_CAMERA_READ, USAGE_HW_CAMERA_WRITE})"

definition gralloc_format :: "usage_flag set \<Rightarrow> pixel_format \<Rightarrow> pixel_format" where
  "gralloc_format u f =
     (if f = FORMAT_IMPLEMENTATION_DEFINED \<and> USAGE_HW_CAMERA_WRITE \<in> u
      then (if USAGE_HW_TEXTURE \<in> u \<or> USAGE_HW_VIDEO_ENCODER \<in> u then FORMAT_YCbCr_420_888 else FORMAT_RGB_888)
      else f)"

definition set_up_stream :: "camera3_stream \<Rightarrow> camera3_stream" where
  "set_up_stream s =
     (let u = usage s \<union> stream_usage (stream_type s) in
      s\<lparr>priv := Some True, max_buffers := kMaxBufferCount, usage := u, format := gralloc_format u (format s)\<rparr>)"

fun add_streams :: "stream_id list \<Rightarrow> (stream_id \<Rightarrow> camera3_stream) \<times> stream_id list \<Rightarrow>
    (stream_id \<Rightarrow> camera3_stream) \<times> stream_id list" where
  "add_streams [] p = p"
| "add_streams (i # ids) (st, ms) =
     add_streams ids (st(i := set_up_stream (st i)), if priv (st i) = None then ms @ [i] else ms)"

definition reap :: "(stream_id \<Rightarrow> camera3_stream) \<times> stream_id list \<Rightarrow> (stream_id \<Rightarrow> camera3_stream) \<times> stream_id list" where
  "reap p = (case p of (st, ms) \<Rightarrow>
     (clear_priv (filter (\<lambda>i. priv (st i) \<noteq> Some True) ms) st, filter (\<lambda>i. priv (st i) = Some True) ms))"

definition mark_dead :: "stream_id list \<Rightarrow> (stream_id \<Rightarrow> camera3_stream) \<Rightarrow> stream_id \<Rightarrow> camera3_stream" where
  "mark_dead ids st = (\<lambda>i. if i \<in> set ids then (st i)\<lparr>priv := Some False\<rparr> else st i)"

text \<open>\<open>streamList\<close> is the list given; an empty one stands for a null list too.\<close>

definition configureStreams :: "stream_id option list \<Rightarrow> Camera3 \<Rightarrow> status_t \<times> Camera3" where
  "configureStreams streamList c =
     (if mStatus c \<noteq> STATUS_OPEN \<and> mStatus c \<noteq> STATUS_READY then (NO_INIT, c)
      else if streamList = [] then (BAD_VALUE, c)
      else case check_streams c streamList None of
        None \<Rightarrow> (BAD_VALUE, c)
      | Some inp \<Rightarrow>
          let (st, ms) = reap (add_streams (map the streamList) (mark_dead (mStreams c) (store c), mStreams c)) in
          (OK, c\<lparr>mInputStream := inp, store := st, mStreams := ms, mPrevSettings := None\<rparr>))"

section \<open>Capture requests\<close>

definition buffer_valid :: "Camera3 \<Rightarrow> stream_buffer \<Rightarrow> bool" where
  "buffer_valid c b \<longleftrightarrow> priv (store c (buf_stream b)) = Some True \<and> buf_ok b \<and> release_fence b = -1 \<and> buf_handle b \<noteq> None"

text \<open>What the environment contributes to a request: the random numbers, the result of waiting for the fence
  of each output buffer and locking it, what an uninitialised format holds, and whether the sensor gives a
  vertical sync in time.\<close>

record request_env =
  aaa_rand :: aaa_env
  lock_results :: "status_t list"
  junk_format :: pixel_format
  vsync :: bool

definition dest_format :: "pixel_format \<Rightarrow> camera3_stream \<Rightarrow> pixel_format" where
  "dest_format junk s =
     (if format s = FORMAT_IMPLEMENTATION_DEFINED then
        (if USAGE_HW_CAMERA_WRITE \<in> usage s then
           (if USAGE_HW_TEXTURE \<in> usage s \<or> USAGE_HW_VIDEO_ENCODER \<in> usage s then FORMAT_YCbCr_420_888
            else if USAGE_HW_CAMERA_READ \<in> usage s then FORMAT_RGB_888
            else junk)
         else junk)
      else format s)"

text \<open>The loop over the output buffers: \<open>i\<close> is the index. Its result is whether a JPEG is needed, or \<open>None\<close> when it
  bailed out; when buffer \<open>i\<close> cannot be locked, the buffer at index \<open>i\<close> is unlocked \<open>i\<close> times.\<close>

fun lock_buffers :: "request_env \<Rightarrow> Camera3 \<Rightarrow> nat \<Rightarrow> stream_buffer list \<Rightarrow> status_t list \<Rightarrow> bool \<Rightarrow>
    bool option \<times> cam_effect list" where
  "lock_buffers env c i [] rs needJpeg = (Some needJpeg, [])"
| "lock_buffers env c i (b # bs) rs needJpeg =
     (let h = the (buf_handle b);
          needJpeg = (needJpeg \<or> dest_format (junk_format env) (store c (buf_stream b)) = FORMAT_BLOB);
          res = (case rs of [] \<Rightarrow> OK | r # _ \<Rightarrow> r)
      in if res \<noteq> OK then (None, replicate i (Unlock h))
         else case lock_buffers env c (i + 1) bs (tl rs) needJpeg of (r, es) \<Rightarrow> (r, Lock h # es))"

definition request_times :: "CameraMetadata \<Rightarrow> nat \<Rightarrow> sensor_settings \<times> CameraMetadata" where
  "request_times s frame =
     (let exposure = case_option kExposureTimeMin id (md_exposure_time s);
          duration = case_option kFrameDurationMin id (md_frame_duration s);
          sens = case_option kSensitivityMin id (md_sensitivity s);
          cfg = \<lparr>exposureTime = exposure, frameDuration = duration, sensitivity = sens, sensorFrame = frame\<rparr>
      in if exposure > duration
         then (cfg\<lparr>frameDuration := exposure + kMinVerticalBlank\<rparr>,
               s\<lparr>md_frame_duration := Some (exposure + kMinVerticalBlank)\<rparr>)
         else (cfg, s))"

text \<open>What happens once the buffers are locked.\<close>

definition submit_request :: "request_env \<Rightarrow> capture_request \<Rightarrow> bool \<Rightarrow> CameraMetadata \<Rightarrow> Camera3 \<Rightarrow> status_t \<times> Camera3" where
  "submit_request env req needJpeg s c =
     (if needJpeg \<and> mIsBusy c then (NO_INIT, c)
      else
        let c = c\<lparr>mIsBusy := mIsBusy c \<or> needJpeg\<rparr> in
        if length (mInFlightQueue c) \<ge> kMaxQueueSize then (NO_INIT, c)
        else if \<not> vsync env then (NO_INIT, c)
        else case request_times s (frame_number req) of (cfg, s) \<Rightarrow>
          (OK, c\<lparr>sensor := cfg,
                 mInFlightQueue := mInFlightQueue c @
                   [\<lparr>frameNumber = frame_number req, settings = s, buffers = output_buffers req\<rparr>],
                 mPrevSettings := Some s\<rparr>))"

definition processCaptureRequest :: "request_env \<Rightarrow> capture_request \<Rightarrow> Camera3 \<Rightarrow> status_t \<times> Camera3" where
  "processCaptureRequest env req c =
     (if mStatus c \<noteq> STATUS_READY \<and> mStatus c \<noteq> STATUS_ACTIVE then (INVALID_OPERATION, c)
      else if req_settings req = None \<and> mPrevSettings c = None then (BAD_VALUE, c)
      else if (case input_buffer req of None \<Rightarrow> False | Some b \<Rightarrow> Some (buf_stream b) \<noteq> mInputStream c) then (BAD_VALUE, c)
      else if output_buffers req = [] then (BAD_VALUE, c)
      else if \<not> list_all (buffer_valid c) (case_option [] (\<lambda>b. [b]) (input_buffer req) @ output_buffers req)
        then (BAD_VALUE, c)
      else
        let c = c\<lparr>mStatus := STATUS_ACTIVE\<rparr>;
            s = case_option (the (mPrevSettings c)) id (req_settings req);
            c = (if req_settings req = None then c\<lparr>mPrevSettings := None\<rparr> else c)
        in case process3A (hasCapability BACKWARD_COMPATIBLE c) (aaa_rand env) s (control c) of (res, a, s) \<Rightarrow>
        let c = c\<lparr>control := a\<rparr> in
        if res \<noteq> OK then (res, c)
        else case lock_buffers env c 0 (output_buffers req) (lock_results env) False of
          (None, es) \<Rightarrow> (NO_INIT, emit es c)
        | (Some needJpeg, es) \<Rightarrow> submit_request env req needJpeg s (emit es c))"

section \<open>The readout thread\<close>

definition readout_take :: "Camera3 \<Rightarrow> Camera3" where
  "readout_take c =
     (if mCurrentRequest c \<noteq> None then c
      else case mInFlightQueue c of
        [] \<Rightarrow> c
      | r # rs \<Rightarrow> c\<lparr>mCurrentRequest := Some r, mInFlightQueue := rs, mThreadActive := True\<rparr>)"

definition isIdle :: "Camera3 \<Rightarrow> bool" where
  "isIdle c \<longleftrightarrow> mInFlightQueue c = [] \<and> \<not> mThreadActive c"

definition signalReadoutIdle :: "Camera3 \<Rightarrow> Camera3" where
  "signalReadoutIdle c = (if mStatus c = STATUS_ACTIVE \<and> isIdle c then c\<lparr>mStatus := STATUS_READY\<rparr> else c)"

text \<open>The loop over the buffers: \<open>starts\<close> says whether the compression thread can be started. A buffer handed to
  the compressor leaves the list; every other one is unlocked and returned with its status.\<close>

fun finish_buffers :: "nat \<Rightarrow> bool \<Rightarrow> stream_buffer list \<Rightarrow> Camera3 \<Rightarrow> (nat \<times> bool) list \<times> Camera3" where
  "finish_buffers frame starts [] c = ([], c)"
| "finish_buffers frame starts (b # bs) c =
     (let s = store c (buf_stream b); h = the (buf_handle b);
          isJpeg = (format s = FORMAT_BLOB \<and> \<not> depth s);
          good = (mJpegWaiting c = None \<and> mIsBusy c \<and> starts)
      in if isJpeg \<and> good
         then finish_buffers frame starts bs (c\<lparr>mJpegWaiting := Some (frame, h)\<rparr>)
         else case finish_buffers frame starts bs (emit [Unlock h] c) of (rs, c) \<Rightarrow> ((h, \<not> isJpeg) # rs, c))"

definition readout_deliver :: "bool \<Rightarrow> Camera3 \<Rightarrow> Camera3" where
  "readout_deliver starts c =
     (case mCurrentRequest c of
        None \<Rightarrow> c
      | Some r \<Rightarrow>
          (case finish_buffers (frameNumber r) starts (buffers r) c of (rs, c) \<Rightarrow>
           let c = (if mInFlightQueue c = [] then signalReadoutIdle (c\<lparr>mThreadActive := False\<rparr>) else c)
           in emit [Capture_result (frameNumber r) rs] (c\<lparr>mCurrentRequest := None\<rparr>)))"

text \<open>The end of the compression thread: the listener returns the buffer, then the compressor is free again.\<close>

definition jpeg_done :: "bool \<Rightarrow> Camera3 \<Rightarrow> Camera3" where
  "jpeg_done success c =
     (case mJpegWaiting c of
        None \<Rightarrow> c
      | Some (frame, h) \<Rightarrow> (emit [Unlock h, Jpeg_result frame h success] c)\<lparr>mJpegWaiting := None, mIsBusy := False\<rparr>)"

end
