(* ===== verification/Camera3_Device_Props.thy ===== *)
theory Camera3_Device_Props
  imports Camera3_Device Camera3_Control_Props
begin

text \<open>
  Properties of the camera device of \<open>Camera3_Device\<close>: an invariant of every interleaving of framework calls and
  readout steps, delivery of results in the order of the requests (the interface \<open>in_order_service\<close>), the effect of a
  stream configuration, and the error paths of capture requests.
\<close>

section \<open>Operations and the invariant\<close>

datatype cam_op = Op_connect status_t bool | Op_initialize bool | Op_close status_t
  | Op_configure "stream_id option list" | Op_request request_env capture_request
  | Op_take | Op_deliver bool | Op_jpeg bool

fun cam_apply :: "cam_op \<Rightarrow> Camera3 \<Rightarrow> Camera3" where
  "cam_apply (Op_connect started active) c = snd (connectCamera started active c)"
| "cam_apply (Op_initialize cb) c = snd (initializeDevice cb c)"
| "cam_apply (Op_close res) c = snd (closeCamera res c)"
| "cam_apply (Op_configure ids) c = snd (configureStreams ids c)"
| "cam_apply (Op_request env req) c = snd (processCaptureRequest env req c)"
| "cam_apply Op_take c = readout_take c"
| "cam_apply (Op_deliver starts) c = readout_deliver starts c"
| "cam_apply (Op_jpeg success) c = jpeg_done success c"

fun op_ok :: "cam_op \<Rightarrow> bool" where
  "op_ok (Op_request env req) = env_ok (aaa_rand env)"
| "op_ok _ = True"

definition cam_wf :: "Camera3 \<Rightarrow> bool" where
  "cam_wf c \<longleftrightarrow> distinct (mStreams c) \<and>
     (\<forall>i. priv (store c i) = (if i \<in> set (mStreams c) then Some True else None)) \<and>
     length (mInFlightQueue c) \<le> kMaxQueueSize \<and>
     (mInFlightQueue c \<noteq> [] \<or> mCurrentRequest c \<noteq> None \<longrightarrow> mStatus c = STATUS_ACTIVE) \<and>
     (mCurrentRequest c \<noteq> None \<longrightarrow> mThreadActive c) \<and> (mJpegWaiting c \<noteq> None \<longrightarrow> mIsBusy c) \<and> aaa_ok (control c)"

lemma emit_fields [simp]:
  "mStatus (emit es c) = mStatus c" "mCapabilities (emit es c) = mCapabilities c" "mSensorWidth (emit es c) = mSensorWidth c"
  "mSensorHeight (emit es c) = mSensorHeight c" "store (emit es c) = store c" "mStreams (emit es c) = mStreams c"
  "mInputStream (emit es c) = mInputStream c" "mPrevSettings (emit es c) = mPrevSettings c" "control (emit es c) = control c"
  "mInFlightQueue (emit es c) = mInFlightQueue c" "mCurrentRequest (emit es c) = mCurrentRequest c"
  "mThreadActive (emit es c) = mThreadActive c" "mJpegWaiting (emit es c) = mJpegWaiting c" "mIsBusy (emit es c) = mIsBusy c"
  "effects (emit es c) = effects c @ es"
  by (simp_all add: emit_def)

subsection \<open>Configuration\<close>

lemma set_up_stream_simps [simp]:
  "priv (set_up_stream s) = Some True" "set_up_stream (set_up_stream s) = set_up_stream s"
  "set_up_stream (s\<lparr>priv := p\<rparr>) = set_up_stream s"
  by (auto simp: set_up_stream_def Let_def gralloc_format_def)

lemma add_streams_result:
  assumes "distinct ms" and "\<And>i. priv (st i) \<noteq> None \<longleftrightarrow> i \<in> set ms"
  shows "distinct (snd (add_streams ids (st, ms))) \<and> set (snd (add_streams ids (st, ms))) = set ms \<union> set ids \<and>
    fst (add_streams ids (st, ms)) = (\<lambda>i. if i \<in> set ids then set_up_stream (st i) else st i)"
  using assms
proof (induction ids arbitrary: st ms)
  case (Cons i ids)
  define st' ms' where "st' = st(i := set_up_stream (st i))" and "ms' = (if priv (st i) = None then ms @ [i] else ms)"
  have ms': "set ms' = insert i (set ms)" "distinct ms'"
    using Cons.prems(1) Cons.prems(2) [of i] by (auto simp: ms'_def)
  have "priv (st' j) \<noteq> None \<longleftrightarrow> j \<in> set ms'" for j
    using Cons.prems(2) [of j] by (simp add: st'_def ms' del: not_None_eq)
  with Cons.IH [OF ms'(2), of st'] have IH: "distinct (snd (add_streams ids (st', ms')))"
    "set (snd (add_streams ids (st', ms'))) = set ms' \<union> set ids"
    "fst (add_streams ids (st', ms')) = (\<lambda>j. if j \<in> set ids then set_up_stream (st' j) else st' j)"
    by blast+
  have "add_streams (i # ids) (st, ms) = add_streams ids (st', ms')" by (simp add: st'_def ms'_def)
  then show ?case using IH ms'(1) by (auto simp: st'_def fun_eq_iff)
qed simp

lemma check_streams_no_null: "check_streams c ids inp = Some r \<Longrightarrow> None \<notin> set ids"
  by (induction c ids inp rule: check_streams.induct) (auto simp: Let_def split: if_splits)

lemma check_streams_ok:
  "check_streams c ids inp = Some r \<Longrightarrow> Some i \<in> set ids \<Longrightarrow> stream_ok c (store c i)"
  by (induction c ids inp rule: check_streams.induct) (auto simp: Let_def split: if_splits)

lemma configureStreams_result:
  assumes "cam_wf c" and "check_streams c ids None = Some inp"
  defines "ids' \<equiv> map the ids"
  shows "reap (add_streams ids' (mark_dead (mStreams c) (store c), mStreams c)) =
      (let ms = filter (\<lambda>i. i \<in> set ids') (snd (add_streams ids' (mark_dead (mStreams c) (store c), mStreams c))) in
       (\<lambda>i. if i \<in> set ids' then set_up_stream (store c i) else (store c i)\<lparr>priv := None\<rparr>, ms)) \<and>
    distinct (filter (\<lambda>i. i \<in> set ids') (snd (add_streams ids' (mark_dead (mStreams c) (store c), mStreams c)))) \<and>
    set (filter (\<lambda>i. i \<in> set ids') (snd (add_streams ids' (mark_dead (mStreams c) (store c), mStreams c)))) = set ids'"
proof -
  let ?st = "mark_dead (mStreams c) (store c)"
  have wf: "distinct (mStreams c)" "\<And>i. priv (store c i) = (if i \<in> set (mStreams c) then Some True else None)"
    using assms(1) by (simp_all add: cam_wf_def)
  have dead: "priv (?st i) = (if i \<in> set (mStreams c) then Some False else None)" for i
    using wf(2) [of i] by (simp add: mark_dead_def)
  define r where "r = add_streams ids' (?st, mStreams c)"
  have "priv (?st i) \<noteq> None \<longleftrightarrow> i \<in> set (mStreams c)" for i using dead [of i] by (simp del: not_None_eq)
  note added = add_streams_result [OF wf(1) this, of ids', folded r_def]
  have r: "distinct (snd r)" "set (snd r) = set (mStreams c) \<union> set ids'"
    "fst r = (\<lambda>i. if i \<in> set ids' then set_up_stream (?st i) else ?st i)"
    using added by simp_all
  have up: "set_up_stream (?st i) = set_up_stream (store c i)" for i by (simp add: mark_dead_def)
  have alive: "priv (fst r i) = Some True \<longleftrightarrow> i \<in> set ids'" for i
    using dead [of i] by (simp add: r(3))
  have gone: "(store c i)\<lparr>priv := None\<rparr> = store c i" if "i \<notin> set (mStreams c)" for i
    using wf(2) [of i] that by (cases "store c i") simp
  have "clear_priv (filter (\<lambda>i. i \<notin> set ids') (snd r)) (fst r) =
      (\<lambda>i. if i \<in> set ids' then set_up_stream (store c i) else (store c i)\<lparr>priv := None\<rparr>)"
    using gone by (auto simp: clear_priv_def fun_eq_iff r(2,3) up mark_dead_def)
  then have "reap r = (\<lambda>i. if i \<in> set ids' then set_up_stream (store c i) else (store c i)\<lparr>priv := None\<rparr>,
      filter (\<lambda>i. i \<in> set ids') (snd r))"
    using alive by (simp add: reap_def case_prod_beta)
  then show ?thesis using r(1,2) by (auto simp: r_def Let_def)
qed

lemma configureStreams_cases:
  assumes "cam_wf c"
  obtains (refused) res where "configureStreams ids c = (res, c)" and "res \<noteq> OK"
  | (configured) inp ms where "mStatus c = STATUS_OPEN \<or> mStatus c = STATUS_READY" and "ids \<noteq> []"
      and "check_streams c ids None = Some inp" and "distinct ms" and "set ms = set (map the ids)"
      and "configureStreams ids c = (OK, c\<lparr>mInputStream := inp,
        store := (\<lambda>i. if i \<in> set ms then set_up_stream (store c i) else (store c i)\<lparr>priv := None\<rparr>),
        mStreams := ms, mPrevSettings := None\<rparr>)"
proof (cases "check_streams c ids None")
  case None
  then have "configureStreams ids c = (if mStatus c \<noteq> STATUS_OPEN \<and> mStatus c \<noteq> STATUS_READY then NO_INIT else BAD_VALUE, c)"
    by (simp add: configureStreams_def)
  then show ?thesis using refused by simp
next
  case (Some inp)
  show ?thesis
  proof (cases "(mStatus c = STATUS_OPEN \<or> mStatus c = STATUS_READY) \<and> ids \<noteq> []")
    case True
    note r = configureStreams_result [OF assms Some]
    show ?thesis
      by (rule configured [OF _ _ Some, of "filter (\<lambda>i. i \<in> set (map the ids))
            (snd (add_streams (map the ids) (mark_dead (mStreams c) (store c), mStreams c)))"])
        (use True Some r in \<open>auto simp: configureStreams_def Let_def\<close>)
  next
    case False
    then have "configureStreams ids c = (if mStatus c \<noteq> STATUS_OPEN \<and> mStatus c \<noteq> STATUS_READY then NO_INIT else BAD_VALUE, c)"
      by (auto simp: configureStreams_def)
    then show ?thesis using refused by simp
  qed
qed

subsection \<open>Requests\<close>

lemma submit_request_cases:
  obtains (refused) busy where "submit_request env req j s c = (NO_INIT, c\<lparr>mIsBusy := busy\<rparr>)" and "mIsBusy c \<longrightarrow> busy"
  | (queued) cfg s' busy where "submit_request env req j s c = (OK, c\<lparr>mIsBusy := busy, sensor := cfg,
      mInFlightQueue := mInFlightQueue c @ [\<lparr>frameNumber = frame_number req, settings = s', buffers = output_buffers req\<rparr>],
      mPrevSettings := Some s'\<rparr>)" and "busy \<longleftrightarrow> mIsBusy c \<or> j" and "length (mInFlightQueue c) < kMaxQueueSize"
      and "\<not> (j \<and> mIsBusy c)"
proof -
  obtain cfg s' where t: "request_times s (frame_number req) = (cfg, s')" by fastforce
  consider (busy) "j \<and> mIsBusy c" | (full) "\<not> (j \<and> mIsBusy c)" "length (mInFlightQueue c) \<ge> kMaxQueueSize \<or> \<not> vsync env"
    | (room) "\<not> (j \<and> mIsBusy c)" "length (mInFlightQueue c) < kMaxQueueSize" "vsync env"
    by linarith
  then show ?thesis
  proof cases
    case busy
    then have "submit_request env req j s c = (NO_INIT, c\<lparr>mIsBusy := True\<rparr>)" by (simp add: submit_request_def)
    then show ?thesis by (rule refused) simp
  next
    case full
    then have "submit_request env req j s c = (NO_INIT, c\<lparr>mIsBusy := mIsBusy c \<or> j\<rparr>)"
      by (auto simp: submit_request_def Let_def)
    then show ?thesis by (rule refused) simp
  next
    case room
    then have "submit_request env req j s c = (OK, c\<lparr>mIsBusy := mIsBusy c \<or> j, sensor := cfg,
      mInFlightQueue := mInFlightQueue c @ [\<lparr>frameNumber = frame_number req, settings = s', buffers = output_buffers req\<rparr>],
      mPrevSettings := Some s'\<rparr>)"
      by (simp add: submit_request_def Let_def t)
    then show ?thesis by (rule queued) (use room in auto)
  qed
qed

text \<open>The frame numbers of the results sent, and of the requests in flight.\<close>

fun result_frames :: "cam_effect list \<Rightarrow> nat list" where
  "result_frames [] = []"
| "result_frames (Capture_result f bs # es) = f # result_frames es"
| "result_frames (_ # es) = result_frames es"

lemma result_frames_append [simp]: "result_frames (es @ fs) = result_frames es @ result_frames fs"
  by (induction es rule: result_frames.induct) auto

lemma result_frames_unlocks [simp]: "result_frames (replicate k (Unlock h)) = []"
  by (induction k) auto

definition in_flight :: "Camera3 \<Rightarrow> Request list" where
  "in_flight c = case_option [] (\<lambda>r. [r]) (mCurrentRequest c) @ mInFlightQueue c"

lemma lock_buffers_frames [simp]: "result_frames (snd (lock_buffers env c i bs rs j)) = []"
  by (induction env c i bs rs j rule: lock_buffers.induct) (auto simp: Let_def split: prod.splits)

lemma lock_buffers_jpeg:
  "fst (lock_buffers env c i bs rs j) = Some j' \<Longrightarrow>
    j' \<longleftrightarrow> j \<or> (\<exists>b\<in>set bs. dest_format (junk_format env) (store c (buf_stream b)) = FORMAT_BLOB)"
  by (induction env c i bs rs j rule: lock_buffers.induct)
    (auto simp: Let_def split: prod.splits if_splits list.splits)

lemma lock_buffers_cong:
  "store c' = store c \<Longrightarrow> lock_buffers env c' i bs rs j = lock_buffers env c i bs rs j"
  by (induction env c i bs rs j rule: lock_buffers.induct) (auto simp: Let_def split: prod.splits)

text \<open>A request is refused without any effect, refused after it was started, or queued.\<close>

definition request_valid :: "capture_request \<Rightarrow> Camera3 \<Rightarrow> bool" where
  "request_valid req c \<longleftrightarrow>
     (mStatus c = STATUS_READY \<or> mStatus c = STATUS_ACTIVE) \<and> (req_settings req = None \<longrightarrow> mPrevSettings c \<noteq> None) \<and>
     (\<forall>b. input_buffer req = Some b \<longrightarrow> Some (buf_stream b) = mInputStream c) \<and> output_buffers req \<noteq> [] \<and>
     list_all (buffer_valid c) (case_option [] (\<lambda>b. [b]) (input_buffer req) @ output_buffers req)"

definition request_settings :: "capture_request \<Rightarrow> Camera3 \<Rightarrow> CameraMetadata" where
  "request_settings req c = case_option (the (mPrevSettings c)) id (req_settings req)"

definition request_control :: "request_env \<Rightarrow> capture_request \<Rightarrow> Camera3 \<Rightarrow> status_t \<times> AAA \<times> CameraMetadata" where
  "request_control env req c =
     process3A (hasCapability BACKWARD_COMPATIBLE c) (aaa_rand env) (request_settings req c) (control c)"

definition request_started :: "request_env \<Rightarrow> capture_request \<Rightarrow> Camera3 \<Rightarrow> Camera3" where
  "request_started env req c =
     c\<lparr>mStatus := STATUS_ACTIVE, mPrevSettings := (if req_settings req = None then None else mPrevSettings c),
       control := fst (snd (request_control env req c))\<rparr>"

lemma processCaptureRequest_invalid:
  assumes "\<not> request_valid req c"
  shows "fst (processCaptureRequest env req c) \<noteq> OK" and "snd (processCaptureRequest env req c) = c"
  using assms
  by (auto simp: processCaptureRequest_def request_valid_def list_all_iff split: option.splits)

lemma processCaptureRequest_valid:
  assumes "request_valid req c"
  shows "processCaptureRequest env req c =
    (if fst (request_control env req c) \<noteq> OK then (fst (request_control env req c), request_started env req c)
     else case lock_buffers env c 0 (output_buffers req) (lock_results env) False of
       (None, es) \<Rightarrow> (NO_INIT, emit es (request_started env req c))
     | (Some j, es) \<Rightarrow> submit_request env req j (snd (snd (request_control env req c))) (emit es (request_started env req c)))"
proof -
  let ?c = "request_started env req c"
  have s: "store ?c = store c" by (simp add: request_started_def)
  obtain res a s' where r: "request_control env req c = (res, a, s')" by (metis prod_cases3)
  have "processCaptureRequest env req c =
    (if res \<noteq> OK then (res, ?c)
     else case lock_buffers env ?c 0 (output_buffers req) (lock_results env) False of
       (None, es) \<Rightarrow> (NO_INIT, emit es ?c)
     | (Some j, es) \<Rightarrow> submit_request env req j s' (emit es ?c))"
    unfolding processCaptureRequest_def
    using assms r
    by (cases "req_settings req"; cases "input_buffer req")
      (auto simp: request_valid_def request_control_def request_settings_def request_started_def hasCapability_def
        Let_def split: prod.split option.split)
  moreover have "res = fst (request_control env req c)" "s' = snd (snd (request_control env req c))" by (simp_all add: r)
  ultimately show ?thesis by (simp only: lock_buffers_cong [OF s])
qed

text \<open>The three outcomes of a valid request.\<close>

lemma processCaptureRequest_cases:
  assumes "request_valid req c"
  obtains (refused) res es busy where "processCaptureRequest env req c =
      (res, (emit es (request_started env req c))\<lparr>mIsBusy := busy\<rparr>)" and "res \<noteq> OK" and "mIsBusy c \<longrightarrow> busy"
      and "result_frames es = []"
  | (accepted) es busy cfg s' where "processCaptureRequest env req c =
      (OK, (emit es (request_started env req c))\<lparr>mIsBusy := busy, sensor := cfg,
        mInFlightQueue := mInFlightQueue c @ [\<lparr>frameNumber = frame_number req, settings = s', buffers = output_buffers req\<rparr>],
        mPrevSettings := Some s'\<rparr>)" and "mIsBusy c \<longrightarrow> busy" and "length (mInFlightQueue c) < kMaxQueueSize"
      and "result_frames es = []" and "fst (request_control env req c) = OK"
      and "(\<exists>b\<in>set (output_buffers req). dest_format (junk_format env) (store c (buf_stream b)) = FORMAT_BLOB) \<longrightarrow> busy \<and> \<not> mIsBusy c"
proof -
  let ?c = "request_started env req c"
  obtain r es where lb: "lock_buffers env c 0 (output_buffers req) (lock_results env) False = (r, es)" by fastforce
  have es: "result_frames es = []" using lock_buffers_frames [of env c 0 "output_buffers req" "lock_results env" False] lb by simp
  note eq = processCaptureRequest_valid [OF assms, of env]
  have same: "?c = (emit [] ?c)\<lparr>mIsBusy := mIsBusy c\<rparr>" "emit es ?c = (emit es ?c)\<lparr>mIsBusy := mIsBusy c\<rparr>"
    by (simp_all add: emit_def request_started_def)
  show ?thesis
  proof (cases "fst (request_control env req c) = OK")
    case False
    then show ?thesis using refused [where es = "[]" and busy = "mIsBusy c"] eq same(1) by simp
  next
    case True
    show ?thesis
    proof (cases r)
      case None
      then show ?thesis using refused [where res = NO_INIT and es = es and busy = "mIsBusy c"] eq True lb es same(2) by simp
    next
      case (Some j)
      have j: "j \<longleftrightarrow> (\<exists>b\<in>set (output_buffers req). dest_format (junk_format env) (store c (buf_stream b)) = FORMAT_BLOB)"
        using lock_buffers_jpeg [of env c 0 "output_buffers req" "lock_results env" False j] lb Some by simp
      have q: "mInFlightQueue (emit es ?c) = mInFlightQueue c" "mIsBusy (emit es ?c) = mIsBusy c"
        by (simp_all add: request_started_def)
      have eq': "processCaptureRequest env req c =
          submit_request env req j (snd (snd (request_control env req c))) (emit es ?c)"
        using eq True lb Some by simp
      show ?thesis
      proof (cases rule: submit_request_cases [of env req j "snd (snd (request_control env req c))" "emit es ?c"])
        case (refused busy)
        then show ?thesis using that(1) [where res = NO_INIT and es = es and busy = busy] eq' es q by simp
      next
        case (queued cfg s' busy)
        have "processCaptureRequest env req c = (OK, (emit es ?c)\<lparr>mIsBusy := busy, sensor := cfg,
            mInFlightQueue := mInFlightQueue c @ [\<lparr>frameNumber = frame_number req, settings = s', buffers = output_buffers req\<rparr>],
            mPrevSettings := Some s'\<rparr>)"
          using queued(1) unfolding eq' q .
        then show ?thesis by (rule accepted) (use queued(2-4) q j es True in auto)
      qed
    qed
  qed
qed

subsection \<open>Preservation\<close>

lemma finish_buffers_fields:
  assumes "finish_buffers f st bs c = (rs, c')"
  shows "\<exists>es w. c' = (emit es c)\<lparr>mJpegWaiting := w\<rparr> \<and> result_frames es = [] \<and>
    (w \<noteq> mJpegWaiting c \<longrightarrow> mIsBusy c)"
  using assms
proof (induction bs arbitrary: c rs c')
  case Nil
  then show ?case by (intro exI [of _ "[]"] exI [of _ "mJpegWaiting c"]) (auto simp: emit_def)
next
  case (Cons b bs)
  let ?h = "the (buf_handle b)"
  let ?jpeg = "format (store c (buf_stream b)) = FORMAT_BLOB \<and> \<not> depth (store c (buf_stream b)) \<and>
    mJpegWaiting c = None \<and> mIsBusy c \<and> st"
  show ?case
  proof (cases ?jpeg)
    case True
    then have "finish_buffers f st bs (c\<lparr>mJpegWaiting := Some (f, ?h)\<rparr>) = (rs, c')"
      using Cons.prems by (simp add: Let_def)
    from Cons.IH [OF this] obtain es w where "c' = (emit es (c\<lparr>mJpegWaiting := Some (f, ?h)\<rparr>))\<lparr>mJpegWaiting := w\<rparr>"
      "result_frames es = []" by auto
    then show ?thesis using True by (intro exI [of _ es] exI [of _ w]) (simp add: emit_def)
  next
    case False
    then obtain rs' where "finish_buffers f st bs (emit [Unlock ?h] c) = (rs', c')"
      using Cons.prems by (auto simp: Let_def split: if_splits prod.splits)
    from Cons.IH [OF this] obtain es w where "c' = (emit es (emit [Unlock ?h] c))\<lparr>mJpegWaiting := w\<rparr>"
      "result_frames es = []" "w \<noteq> mJpegWaiting c \<longrightarrow> mIsBusy c" by auto
    then show ?thesis by (intro exI [of _ "Unlock ?h # es"] exI [of _ w]) (simp add: emit_def)
  qed
qed

lemma readout_deliver_cases:
  obtains (idle) "mCurrentRequest c = None" and "readout_deliver st c = c"
  | (delivered) r es w rs where "mCurrentRequest c = Some r" and "result_frames es = []" and "w \<noteq> mJpegWaiting c \<longrightarrow> mIsBusy c"
      and "readout_deliver st c = (emit (es @ [Capture_result (frameNumber r) rs]) c)\<lparr>mJpegWaiting := w, mCurrentRequest := None,
        mThreadActive := (mInFlightQueue c \<noteq> [] \<and> mThreadActive c),
        mStatus := (if mInFlightQueue c = [] \<and> mStatus c = STATUS_ACTIVE then STATUS_READY else mStatus c)\<rparr>"
proof (cases "mCurrentRequest c")
  case None
  then show ?thesis using idle by (simp add: readout_deliver_def)
next
  case (Some r)
  obtain rs c1 where f: "finish_buffers (frameNumber r) st (buffers r) c = (rs, c1)" by fastforce
  obtain es w where c1: "c1 = (emit es c)\<lparr>mJpegWaiting := w\<rparr>" "result_frames es = []" "w \<noteq> mJpegWaiting c \<longrightarrow> mIsBusy c"
    using finish_buffers_fields [OF f] by blast
  show ?thesis
    by (rule delivered [OF Some c1(2,3), where rs = rs])
      (use f Some in \<open>auto simp: readout_deliver_def c1(1) signalReadoutIdle_def isIdle_def emit_def\<close>)
qed

lemma request_control_ok:
  assumes "aaa_ok (control c)" and "env_ok (aaa_rand env)"
  shows "aaa_ok (fst (snd (request_control env req c)))"
  using process3A_ok [OF assms, of "hasCapability BACKWARD_COMPATIBLE c" "request_settings req c"]
  unfolding request_control_def by (metis fst_conv snd_conv)

lemma request_wf:
  assumes "cam_wf c" and "env_ok (aaa_rand env)"
  shows "cam_wf (snd (processCaptureRequest env req c))"
proof (cases "request_valid req c")
  case False
  then show ?thesis using processCaptureRequest_invalid(2) assms(1) by simp
next
  case True
  have "aaa_ok (fst (snd (request_control env req c)))"
    using request_control_ok assms by (simp add: cam_wf_def)
  then have started: "cam_wf (request_started env req c)"
    using assms(1) by (auto simp: cam_wf_def request_started_def)
  from True show ?thesis
  proof (cases rule: processCaptureRequest_cases [of req c env])
    case (refused res es busy)
    then show ?thesis using started by (auto simp: cam_wf_def request_started_def)
  next
    case (accepted es busy cfg s')
    then show ?thesis using started by (auto simp: cam_wf_def request_started_def)
  qed
qed

lemma deliver_wf:
  assumes "cam_wf c"
  shows "cam_wf (readout_deliver st c)"
proof (cases rule: readout_deliver_cases [of c st])
  case idle
  then show ?thesis using assms by simp
next
  case (delivered r es w rs)
  have "w \<noteq> None \<longrightarrow> mIsBusy c"
    using delivered(3) assms by (cases "w = mJpegWaiting c") (simp_all add: cam_wf_def)
  then show ?thesis using delivered(1,4) assms by (auto simp: cam_wf_def)
qed

lemma configure_wf:
  assumes "cam_wf c"
  shows "cam_wf (snd (configureStreams ids c))"
  using assms
proof (cases rule: configureStreams_cases [of c ids])
  case (configured inp ms)
  then show ?thesis using assms by (auto simp: cam_wf_def)
qed (use assms in simp)

lemma close_wf:
  assumes "cam_wf c"
  shows "cam_wf (snd (closeCamera res c))"
proof -
  have "priv (clear_priv (mStreams c) (store c) i) = None" for i
    using assms by (simp add: clear_priv_def cam_wf_def)
  then show ?thesis using assms by (auto simp: closeCamera_def cam_wf_def)
qed

lemma cam_apply_wf:
  assumes "cam_wf c" and "op_ok op"
  shows "cam_wf (cam_apply op c)"
proof (cases op)
  case (Op_connect st act)
  then show ?thesis using assms(1) aaa_connect_ok by (auto simp: cam_wf_def connectCamera_def Let_def)
next
  case (Op_initialize cb)
  then show ?thesis using assms(1) by (auto simp: cam_wf_def initializeDevice_def)
next
  case Op_take
  then show ?thesis using assms(1) by (auto simp: cam_wf_def readout_take_def split: list.split)
next
  case (Op_jpeg s)
  then show ?thesis using assms(1) by (auto simp: cam_wf_def jpeg_done_def split: option.split)
qed (use assms request_wf deliver_wf configure_wf close_wf in auto)

section \<open>Reachable states\<close>

inductive cam_step :: "Camera3 \<Rightarrow> Camera3 \<Rightarrow> bool" where
  "op_ok op \<Longrightarrow> cam_step c (cam_apply op c)"

inductive_cases cam_stepE: "cam_step c c'"

definition cam_init :: "Camera3 \<Rightarrow> bool" where
  "cam_init c \<longleftrightarrow> mStatus c = STATUS_CLOSED \<and> (\<forall>i. priv (store c i) = None) \<and> mStreams c = [] \<and> mInFlightQueue c = [] \<and>
     mCurrentRequest c = None \<and> mJpegWaiting c = None \<and> control c = aaa_connect"

interpretation camera: invariant_system cam_init cam_step cam_wf
proof
  show "cam_wf c" if "cam_init c" for c using that aaa_connect_ok by (auto simp: cam_init_def cam_wf_def)
  show "cam_wf c'" if "cam_step c c'" and "cam_wf c" for c c'
    using that by (auto elim!: cam_stepE intro: cam_apply_wf)
qed

lemma cam_steps: "list_all op_ok ops \<Longrightarrow> cam_step\<^sup>*\<^sup>* c (fold cam_apply ops c)"
proof (induction ops arbitrary: c)
  case (Cons op ops)
  have "cam_step c (cam_apply op c)" using Cons.prems by (intro cam_step.intros) simp
  with Cons.IH [of "cam_apply op c"] Cons.prems show ?case by (simp add: converse_rtranclp_into_rtranclp)
qed simp

definition demo_stream :: camera3_stream where
  "demo_stream = \<lparr>stream_type = CAMERA3_STREAM_OUTPUT, width = 640, height = 480, format = FORMAT_IMPLEMENTATION_DEFINED,
     usage = {USAGE_HW_TEXTURE}, rotation = 0, depth = False, max_buffers = 0, priv = None\<rparr>"

definition demo_camera :: Camera3 where
  "demo_camera = \<lparr>mStatus = STATUS_CLOSED, mCapabilities = [BACKWARD_COMPATIBLE], mSensorWidth = 640, mSensorHeight = 480,
     store = (\<lambda>i. demo_stream), mStreams = [], mInputStream = None, mPrevSettings = None, control = aaa_connect,
     sensor = \<lparr>exposureTime = 0, frameDuration = 0, sensitivity = 0, sensorFrame = 0\<rparr>, mInFlightQueue = [],
     mCurrentRequest = None, mThreadActive = False, mJpegWaiting = None, mIsBusy = False, effects = []\<rparr>"

lemma demo_camera_init: "cam_init demo_camera"
  by (simp add: cam_init_def demo_camera_def demo_stream_def)

lemma demo_camera_wf: "cam_wf demo_camera"
  using camera.init_inv [OF demo_camera_init] .



section \<open>Results in order\<close>

text \<open>A service that answers its requests in order: what it has answered, followed by what is pending, only grows by the
  requests it accepts.\<close>

locale in_order_service =
  fixes apply_op :: "'op \<Rightarrow> 's \<Rightarrow> 's" and accepts :: "'op \<Rightarrow> 's \<Rightarrow> 'r list"
    and answered :: "'s \<Rightarrow> 'r list" and pending :: "'s \<Rightarrow> 'r list" and session_op :: "'op \<Rightarrow> bool"
  assumes step_order: "session_op op \<Longrightarrow>
    answered (apply_op op s) @ pending (apply_op op s) = answered s @ pending s @ accepts op s"
begin

lemma run_order:
  assumes "list_all session_op ops"
  shows "answered (fold apply_op ops s) @ pending (fold apply_op ops s) =
    answered s @ pending s @ concat (map2 accepts ops (map (\<lambda>k. fold apply_op (take k ops) s) [0..<length ops]))"
  using assms
proof (induction ops arbitrary: s)
  case (Cons op ops)
  have "map (\<lambda>k. fold apply_op (take k (op # ops)) s) [0..<length (op # ops)] =
      s # map (\<lambda>k. fold apply_op (take k ops) (apply_op op s)) [0..<length ops]"
    by (simp add: upt_conv_Cons map_Suc_upt [symmetric] del: upt_Suc)
  then show ?case using Cons.IH [of "apply_op op s"] Cons.prems step_order [of op s] by simp
qed simp

end

text \<open>The frame number of a request that is accepted.\<close>

fun accepted_frames :: "cam_op \<Rightarrow> Camera3 \<Rightarrow> nat list" where
  "accepted_frames (Op_request env req) c = (if fst (processCaptureRequest env req c) = OK then [frame_number req] else [])"
| "accepted_frames _ c = []"

fun session_op :: "cam_op \<Rightarrow> bool" where
  "session_op (Op_connect _ _) = False"
| "session_op (Op_close _) = False"
| "session_op _ = True"

definition in_flight_frames :: "Camera3 \<Rightarrow> nat list" where
  "in_flight_frames c = map frameNumber (in_flight c)"

lemma frames_unchanged:
  "effects c' = effects c @ es \<Longrightarrow> result_frames es = [] \<Longrightarrow> mCurrentRequest c' = mCurrentRequest c \<Longrightarrow>
    mInFlightQueue c' = mInFlightQueue c @ rs \<Longrightarrow>
    result_frames (effects c') @ in_flight_frames c' = result_frames (effects c) @ in_flight_frames c @ map frameNumber rs"
  by (simp add: in_flight_frames_def in_flight_def)

lemma request_order:
  "result_frames (effects (snd (processCaptureRequest env req c))) @ in_flight_frames (snd (processCaptureRequest env req c)) =
    result_frames (effects c) @ in_flight_frames c @ accepted_frames (Op_request env req) c"
proof (cases "request_valid req c")
  case False
  then show ?thesis using processCaptureRequest_invalid [OF False, of env] by simp
next
  case True
  then show ?thesis
  proof (cases rule: processCaptureRequest_cases [of req c env])
    case (refused res es busy)
    then show ?thesis
      using frames_unchanged [of "snd (processCaptureRequest env req c)" c es "[]"] by (simp add: request_started_def)
  next
    case (accepted es busy cfg s')
    then show ?thesis
      using frames_unchanged [of "snd (processCaptureRequest env req c)" c es
          "[\<lparr>frameNumber = frame_number req, settings = s', buffers = output_buffers req\<rparr>]"]
      by (simp add: request_started_def)
  qed
qed

lemma cam_step_order:
  assumes "session_op op"
  shows "result_frames (effects (cam_apply op c)) @ in_flight_frames (cam_apply op c) =
    result_frames (effects c) @ in_flight_frames c @ accepted_frames op c"
proof (cases op)
  case (Op_configure ids)
  have "effects (snd (configureStreams ids c)) = effects c" "mCurrentRequest (snd (configureStreams ids c)) = mCurrentRequest c"
    "mInFlightQueue (snd (configureStreams ids c)) = mInFlightQueue c"
    by (auto simp: configureStreams_def split: option.split prod.split)
  then show ?thesis using Op_configure by (simp add: in_flight_frames_def in_flight_def)
next
  case (Op_request env req)
  then show ?thesis using request_order by simp
next
  case (Op_deliver st)
  then show ?thesis
    by (cases rule: readout_deliver_cases [of c st]) (auto simp: in_flight_frames_def in_flight_def)
qed (use assms in \<open>auto simp: in_flight_frames_def in_flight_def readout_take_def initializeDevice_def jpeg_done_def
      split: option.split list.split\<close>)

interpretation capture: in_order_service cam_apply accepted_frames "\<lambda>c. result_frames (effects c)" in_flight_frames session_op
  by unfold_locales (rule cam_step_order)


definition demo_env :: request_env where
  "demo_env = \<lparr>aaa_rand = plain_env, lock_results = [], junk_format = FORMAT_other, vsync = True\<rparr>"

definition demo_buffer :: stream_buffer where
  "demo_buffer = \<lparr>buf_stream = 0, buf_ok = True, release_fence = -1, buf_handle = Some 5\<rparr>"

definition demo_request :: capture_request where
  "demo_request = \<lparr>frame_number = 7, req_settings = Some plain_settings, input_buffer = None, output_buffers = [demo_buffer]\<rparr>"

definition demo_open :: Camera3 where
  "demo_open = snd (connectCamera OK False demo_camera)"

definition demo_ops :: "cam_op list" where
  "demo_ops = [Op_initialize True, Op_configure [Some 0], Op_request demo_env demo_request, Op_take, Op_deliver True]"

lemma demo_open_fields: "connectCamera OK False demo_camera = (OK, demo_open)" "effects demo_open = []"
  by (simp_all add: demo_open_def demo_camera_def connectCamera_def Let_def)

lemma demo_run:
  "in_flight_frames (fold cam_apply demo_ops demo_open) = []"
  "concat (map2 accepted_frames demo_ops (map (\<lambda>k. fold cam_apply (take k demo_ops) demo_open) [0..<length demo_ops])) = [7]"
  by code_simp+


section \<open>Stream configuration\<close>

lemma gralloc_format_defined: "USAGE_HW_CAMERA_WRITE \<in> u \<Longrightarrow> gralloc_format u f \<noteq> FORMAT_IMPLEMENTATION_DEFINED"
  by (simp add: gralloc_format_def)

lemma set_up_output_format:
  "stream_type s \<noteq> CAMERA3_STREAM_INPUT \<Longrightarrow> format (set_up_stream s) \<noteq> FORMAT_IMPLEMENTATION_DEFINED"
  by (cases "stream_type s") (auto simp: set_up_stream_def Let_def stream_usage_def intro!: gralloc_format_defined)

text \<open>Property C19: a configuration is all or nothing. A refused one changes nothing. After an accepted one the configured
  streams are exactly those of the list, each within the sensor's size, marked alive, with its usage
  extended for its direction; an output stream has a definite pixel format; every other stream has lost
  its private information; and the cached settings are dropped.\<close>

theorem configure_streams_exact:
  assumes "cam_wf c" and "configureStreams ids c = (res, c')"
  shows "if res = OK
    then None \<notin> set ids \<and> distinct (mStreams c') \<and> set (mStreams c') = {i. Some i \<in> set ids} \<and> mPrevSettings c' = None \<and>
      (\<forall>i. Some i \<in> set ids \<longrightarrow> stream_ok c (store c i) \<and> store c' i = set_up_stream (store c i) \<and>
        (stream_type (store c i) \<noteq> CAMERA3_STREAM_INPUT \<longrightarrow> format (store c' i) \<noteq> FORMAT_IMPLEMENTATION_DEFINED)) \<and>
      (\<forall>i. Some i \<notin> set ids \<longrightarrow> priv (store c' i) = None)
    else c' = c"
  using assms(1)
proof (cases rule: configureStreams_cases [of c ids])
  case (refused r)
  then show ?thesis using assms(2) by auto
next
  case (configured inp ms)
  have none: "None \<notin> set ids" using check_streams_no_null [OF configured(3)] .
  have "x = Some (the x)" if "x \<in> set ids" for x using that none by (metis option.exhaust_sel)
  then have ms: "set ms = {i. Some i \<in> set ids}" using configured(5) by (fastforce intro: image_eqI [of _ the])
  have res: "res = OK" and c': "store c' = (\<lambda>i. if i \<in> set ms then set_up_stream (store c i) else (store c i)\<lparr>priv := None\<rparr>)"
      "mStreams c' = ms" "mPrevSettings c' = None"
    using configured(6) assms(2) by auto
  show ?thesis
    using none configured(4) ms set_up_output_format check_streams_ok [OF configured(3)] by (simp add: res c')
qed

lemma demo_ready_wf: "cam_wf (fold cam_apply (take 2 demo_ops) demo_open)"
proof -
  have "fold cam_apply (take 2 demo_ops) demo_open = fold cam_apply (Op_connect OK False # take 2 demo_ops) demo_camera"
    by (simp add: demo_open_def)
  moreover have "list_all op_ok (Op_connect OK False # take 2 demo_ops)" by (simp add: demo_ops_def)
  ultimately show ?thesis using camera.steps_inv [OF cam_steps demo_camera_wf] by metis
qed

lemma configure_streams_exact_witness:
  "mStreams (snd (configureStreams [Some 3] (fold cam_apply (take 2 demo_ops) demo_open))) = [3]"
proof -
  let ?c = "fold cam_apply (take 2 demo_ops) demo_open"
  have "cam_wf ?c" by (rule demo_ready_wf)
  moreover obtain c' where c': "configureStreams [Some 3] ?c = (OK, c')"
  proof -
    have "fst (configureStreams [Some 3] ?c) = OK" by code_simp
    then show ?thesis using that by (metis prod.collapse)
  qed
  ultimately have "distinct (mStreams c')" "set (mStreams c') = {3}"
    using configure_streams_exact by force+
  then have "mStreams c' = [3]" by (cases "mStreams c'"; cases "tl (mStreams c')") auto
  then show ?thesis using c' by simp
qed

section \<open>Errors of requests\<close>

text \<open>What a request does when the \<open>k\<close>-th output buffer cannot be locked. The buffers before it have been
  locked, and none of them is unlocked again: the cleanup loop unlocks the buffer that failed, once for each of
  them. The device is left active.\<close>

theorem lock_failure_leaks:
  assumes "request_valid req c" and "fst (request_control env req c) = OK"
    and "output_buffers req = bs @ b # bs'" and "lock_results env = replicate (length bs) OK @ r # rs" and "r \<noteq> OK"
  shows "\<exists>c'. processCaptureRequest env req c = (NO_INIT, c') \<and> mStatus c' = STATUS_ACTIVE \<and>
    effects c' = effects c @ map (\<lambda>b. Lock (the (buf_handle b))) bs @ replicate (length bs) (Unlock (the (buf_handle b)))"
proof -
  have "lock_buffers env c i (bs @ b # bs') (replicate (length bs) OK @ r # rs) j =
      (None, map (\<lambda>b. Lock (the (buf_handle b))) bs @ replicate (i + length bs) (Unlock (the (buf_handle b))))" for i j
    using assms(5) by (induction bs arbitrary: i j) (simp_all add: Let_def)
  from this [of 0 False] show ?thesis
    using assms(2-4) by (simp add: processCaptureRequest_valid [OF assms(1)] request_started_def)
qed

lemma demo_fields:
  "buffer_valid (fold cam_apply (take 2 demo_ops) demo_open) demo_buffer"
  "mStatus (fold cam_apply (take 2 demo_ops) demo_open) = STATUS_READY"
  "effects (fold cam_apply (take 2 demo_ops) demo_open) = []"
  "settings_accepted (hasCapability BACKWARD_COMPATIBLE (fold cam_apply (take 2 demo_ops) demo_open)) plain_settings"
  by code_simp+

lemma demo_request_valid:
  "request_valid (demo_request\<lparr>output_buffers := [demo_buffer, demo_buffer\<lparr>buf_handle := Some 6\<rparr>]\<rparr>)
    (fold cam_apply (take 2 demo_ops) demo_open)"
  using demo_fields by (simp add: request_valid_def demo_request_def buffer_valid_def)

lemma request_control_accepted:
  assumes "aaa_ok (control c)" and "env_ok (aaa_rand env)"
    and "settings_accepted (hasCapability BACKWARD_COMPATIBLE c) (request_settings req c)"
  shows "fst (request_control env req c) = OK"
  using process3A_ok [OF assms(1,2), of "hasCapability BACKWARD_COMPATIBLE c" "request_settings req c"] assms(3)
  unfolding request_control_def by (metis fst_conv)

lemma lock_failure_leaks_witness:
  "effects (snd (processCaptureRequest (demo_env\<lparr>lock_results := [OK, TIMED_OUT]\<rparr>)
      (demo_request\<lparr>output_buffers := [demo_buffer, demo_buffer\<lparr>buf_handle := Some 6\<rparr>]\<rparr>)
      (fold cam_apply (take 2 demo_ops) demo_open))) = [Lock 5, Unlock 6]"
proof -
  let ?c = "fold cam_apply (take 2 demo_ops) demo_open" and ?env = "demo_env\<lparr>lock_results := [OK, TIMED_OUT]\<rparr>"
  let ?req = "demo_request\<lparr>output_buffers := [demo_buffer, demo_buffer\<lparr>buf_handle := Some 6\<rparr>]\<rparr>"
  have "aaa_ok (control ?c)" using demo_ready_wf by (simp add: cam_wf_def)
  moreover have "env_ok (aaa_rand ?env)" using plain_env_ok by (simp add: demo_env_def)
  moreover have "request_settings ?req ?c = plain_settings" by (simp add: request_settings_def demo_request_def)
  ultimately have "fst (request_control ?env ?req ?c) = OK"
    using request_control_accepted demo_fields(4) by simp
  from lock_failure_leaks [OF demo_request_valid this, of "[demo_buffer]" "demo_buffer\<lparr>buf_handle := Some 6\<rparr>" "[]" TIMED_OUT "[]"]
  show ?thesis using demo_fields(3) by (auto simp: demo_buffer_def)
qed

text \<open>A reserved compressor that no request in flight will start.\<close>

definition jpeg_stuck :: "Camera3 \<Rightarrow> bool" where
  "jpeg_stuck c \<longleftrightarrow> mIsBusy c \<and> mJpegWaiting c = None \<and>
     (\<forall>r\<in>set (in_flight c). \<forall>b\<in>set (buffers r). format (store c (buf_stream b)) = FORMAT_BLOB \<longrightarrow> depth (store c (buf_stream b)))"

lemma finish_buffers_no_jpeg:
  "\<forall>b\<in>set bs. format (store c (buf_stream b)) = FORMAT_BLOB \<longrightarrow> depth (store c (buf_stream b)) \<Longrightarrow>
    mJpegWaiting (snd (finish_buffers f st bs c)) = mJpegWaiting c"
proof (induction bs arbitrary: c)
  case (Cons b bs)
  have "mJpegWaiting (snd (finish_buffers f st bs (emit [Unlock (the (buf_handle b))] c))) = mJpegWaiting c"
    using Cons.IH [of "emit [Unlock (the (buf_handle b))] c"] Cons.prems by (simp add: emit_def)
  then show ?case using Cons.prems by (auto simp: Let_def split: prod.split)
qed simp

lemma deliver_waiting:
  "mCurrentRequest c = Some r \<Longrightarrow>
    mJpegWaiting (readout_deliver st c) = mJpegWaiting (snd (finish_buffers (frameNumber r) st (buffers r) c))"
  by (auto simp: readout_deliver_def signalReadoutIdle_def Let_def split: prod.split)

lemma dest_format_blob: "format s = FORMAT_BLOB \<Longrightarrow> dest_format junk s = FORMAT_BLOB"
  by (simp add: dest_format_def)

lemma blob_needs_free_compressor:
  assumes "mIsBusy c" and "b \<in> set (output_buffers req)" and "format (store c (buf_stream b)) = FORMAT_BLOB"
  shows "fst (processCaptureRequest env req c) \<noteq> OK"
proof (cases "request_valid req c")
  case True
  note blob = dest_format_blob [OF assms(3), of "junk_format env"]
  from True show ?thesis
    by (cases rule: processCaptureRequest_cases [of req c env]) (use assms blob in auto)
qed (rule processCaptureRequest_invalid(1))

lemma request_stuck:
  assumes "jpeg_stuck c"
  shows "jpeg_stuck (snd (processCaptureRequest env req c))"
proof (cases "request_valid req c")
  case False
  then show ?thesis using processCaptureRequest_invalid(2) [OF False] assms by simp
next
  case True
  then show ?thesis
  proof (cases rule: processCaptureRequest_cases [of req c env])
    case (refused res es busy)
    then show ?thesis using assms by (auto simp: jpeg_stuck_def in_flight_def request_started_def)
  next
    case (accepted es busy cfg s')
    have "\<forall>b\<in>set (output_buffers req). format (store c (buf_stream b)) \<noteq> FORMAT_BLOB"
      using blob_needs_free_compressor [of c _ req env] accepted(1) assms by (auto simp: jpeg_stuck_def)
    then show ?thesis using accepted(1,2) assms by (auto simp: jpeg_stuck_def in_flight_def request_started_def)
  qed
qed

lemma session_stuck:
  assumes "session_op op" and "cam_wf c" and "jpeg_stuck c"
  shows "jpeg_stuck (cam_apply op c)"
proof (cases op)
  case (Op_configure ids)
  from assms(2) show ?thesis
  proof (cases rule: configureStreams_cases [of c ids])
    case (refused res)
    then show ?thesis using Op_configure assms(3) by simp
  next
    case (configured inp ms)
    then have "in_flight c = []" using assms(2) by (auto simp: cam_wf_def in_flight_def)
    then show ?thesis using Op_configure configured(6) assms(3) by (simp add: jpeg_stuck_def in_flight_def)
  qed
next
  case (Op_deliver st)
  show ?thesis
  proof (cases rule: readout_deliver_cases [of c st])
    case (delivered r es w rs)
    have "mJpegWaiting (readout_deliver st c) = None"
      using deliver_waiting [OF delivered(1)] finish_buffers_no_jpeg [of "buffers r" c] delivered(1) assms(3)
      by (simp add: jpeg_stuck_def in_flight_def)
    then show ?thesis using Op_deliver delivered(1,4) assms(3) by (auto simp: jpeg_stuck_def in_flight_def)
  qed (use Op_deliver assms(3) in simp)
qed (use assms request_stuck in \<open>auto simp: jpeg_stuck_def in_flight_def initializeDevice_def readout_take_def jpeg_done_def
      split: list.splits option.splits\<close>)

lemma session_run_stuck:
  assumes "list_all session_op ops" and "list_all op_ok ops" and "cam_wf c" and "jpeg_stuck c"
  shows "jpeg_stuck (fold cam_apply ops c)"
  using assms
proof (induction ops arbitrary: c)
  case (Cons op ops)
  then show ?case using session_stuck [of op c] cam_apply_wf [of c op] by simp
qed simp

text \<open>A depth capture blocks the JPEG compressor. An accepted request whose only \<^verbatim>\<open>BLOB\<close> buffers hold depth
  data reserves the compressor, which only a colour \<^verbatim>\<open>BLOB\<close> buffer would start and release: from then on, until the
  camera is closed, every request with a \<^verbatim>\<open>BLOB\<close> buffer is refused.\<close>

theorem depth_capture_blocks_jpeg:
  assumes "cam_wf c" and "in_flight c = []" and "processCaptureRequest env req c = (OK, c1)" and "env_ok (aaa_rand env)"
    and "\<exists>b\<in>set (output_buffers req). format (store c (buf_stream b)) = FORMAT_BLOB"
    and "\<forall>b\<in>set (output_buffers req). format (store c (buf_stream b)) = FORMAT_BLOB \<longrightarrow> depth (store c (buf_stream b))"
    and "list_all session_op ops" and "list_all op_ok ops"
    and "b' \<in> set (output_buffers req')" and "format (store (fold cam_apply ops c1) (buf_stream b')) = FORMAT_BLOB"
  shows "fst (processCaptureRequest env' req' (fold cam_apply ops c1)) \<noteq> OK"
proof -
  have valid: "request_valid req c"
    using processCaptureRequest_invalid(1) [of req c env] assms(3) by (cases "request_valid req c") auto
  then have "jpeg_stuck c1"
  proof (cases rule: processCaptureRequest_cases [of req c env])
    case (accepted es busy cfg s')
    have "\<exists>b\<in>set (output_buffers req). dest_format (junk_format env) (store c (buf_stream b)) = FORMAT_BLOB"
      using assms(5) dest_format_blob by blast
    then have free: "\<not> mIsBusy c" "busy" using accepted(6) by auto
    then have "mJpegWaiting c = None" using assms(1) by (simp add: cam_wf_def del: not_None_eq)
    then show ?thesis
      using accepted(1) assms(2,3,6) free by (auto simp: jpeg_stuck_def in_flight_def request_started_def)
  qed (use assms(3) in simp)
  moreover have "cam_wf c1" using request_wf [OF assms(1,4), of req] assms(3) by simp
  ultimately have "jpeg_stuck (fold cam_apply ops c1)" using session_run_stuck assms(7,8) by blast
  then show ?thesis using blob_needs_free_compressor assms(9,10) by (auto simp: jpeg_stuck_def)
qed

definition depth_camera :: Camera3 where
  "depth_camera = demo_camera\<lparr>store := (\<lambda>i. demo_stream\<lparr>format := FORMAT_BLOB, depth := True\<rparr>)\<rparr>"

definition depth_ready :: Camera3 where
  "depth_ready = fold cam_apply [Op_connect OK False, Op_initialize True, Op_configure [Some 0]] depth_camera"

definition depth_after :: Camera3 where
  "depth_after = fold cam_apply [Op_take, Op_deliver True] (snd (processCaptureRequest demo_env demo_request depth_ready))"

lemma depth_ready_wf: "cam_wf depth_ready"
proof -
  have "cam_init depth_camera" by (simp add: cam_init_def depth_camera_def demo_camera_def demo_stream_def)
  then have "cam_wf depth_camera" by (rule camera.init_inv)
  moreover have "list_all op_ok [Op_connect OK False, Op_initialize True, Op_configure [Some 0]]" by simp
  ultimately show ?thesis unfolding depth_ready_def using camera.steps_inv [OF cam_steps] by blast
qed

lemma depth_ready_run:
  "in_flight depth_ready = []" "fst (processCaptureRequest demo_env demo_request depth_ready) = OK"
  "format (store depth_ready 0) = FORMAT_BLOB" "depth (store depth_ready 0)" "format (store depth_after 0) = FORMAT_BLOB"
  by code_simp+

lemma depth_capture_blocks_jpeg_witness:
  "fst (processCaptureRequest demo_env demo_request depth_after) \<noteq> OK"
proof -
  have "processCaptureRequest demo_env demo_request depth_ready =
      (OK, snd (processCaptureRequest demo_env demo_request depth_ready))"
    using depth_ready_run(2) by (metis prod.collapse)
  from depth_capture_blocks_jpeg [OF depth_ready_wf depth_ready_run(1) this, of "[Op_take, Op_deliver True]" demo_buffer demo_request demo_env]
  show ?thesis using depth_ready_run(3-5) plain_env_ok
    by (simp add: demo_env_def demo_request_def demo_buffer_def depth_after_def)
qed

text \<open>The steps of the readout thread and of the compressor.\<close>

fun thread_op :: "cam_op \<Rightarrow> bool" where
  "thread_op Op_take = True"
| "thread_op (Op_deliver _) = True"
| "thread_op (Op_jpeg _) = True"
| "thread_op _ = False"

definition idle_active :: "Camera3 \<Rightarrow> bool" where
  "idle_active c \<longleftrightarrow> mStatus c = STATUS_ACTIVE \<and> in_flight c = []"

lemma thread_op_idle_active: "idle_active c \<Longrightarrow> thread_op op \<Longrightarrow> idle_active (cam_apply op c)"
  by (cases op) (auto simp: idle_active_def in_flight_def readout_take_def readout_deliver_def jpeg_done_def emit_def
      split: option.splits)

lemma threads_idle_active: "idle_active c \<Longrightarrow> list_all thread_op ops \<Longrightarrow> idle_active (fold cam_apply ops c)"
  by (induction ops arbitrary: c) (auto intro: thread_op_idle_active)

text \<open>A request that passes the checks of its buffers but is then refused - by the camera control, by a
  buffer that cannot be locked, by a busy compressor or by a sensor that gives no sync - leaves an idle device
  active. No step of the readout thread or of the compressor makes it ready again, so it takes no stream configuration.\<close>

theorem refused_request_blocks_configuration:
  assumes "cam_wf c" and "mStatus c = STATUS_READY" and "request_valid req c" and "processCaptureRequest env req c = (res, c')"
    and "res \<noteq> OK" and "list_all thread_op ops"
  shows "in_flight c' = [] \<and> configureStreams ids (fold cam_apply ops c') = (NO_INIT, fold cam_apply ops c')"
proof -
  have "in_flight c = []" using assms(1,2) by (auto simp: cam_wf_def in_flight_def split: option.split)
  then have idle: "idle_active c'"
    using assms(4,5) by (cases rule: processCaptureRequest_cases [OF assms(3), of env])
      (auto simp: idle_active_def in_flight_def request_started_def)
  then show ?thesis
    using threads_idle_active [OF idle assms(6)] by (simp add: idle_active_def configureStreams_def)
qed

lemma refused_request_blocks_configuration_witness:
  "fst (configureStreams [Some 0] (fold cam_apply [Op_take, Op_deliver True]
      (snd (processCaptureRequest (demo_env\<lparr>vsync := False\<rparr>) demo_request (fold cam_apply (take 2 demo_ops) demo_open))))) = NO_INIT"
proof -
  let ?c = "fold cam_apply (take 2 demo_ops) demo_open" and ?env = "demo_env\<lparr>vsync := False\<rparr>"
  have "fst (processCaptureRequest ?env demo_request ?c) \<noteq> OK" by code_simp
  moreover have "request_valid demo_request ?c"
    using demo_fields by (simp add: request_valid_def demo_request_def)
  ultimately show ?thesis
    using refused_request_blocks_configuration [OF demo_ready_wf demo_fields(2), of demo_request ?env
        "fst (processCaptureRequest ?env demo_request ?c)" "snd (processCaptureRequest ?env demo_request ?c)" "[Op_take, Op_deliver True]" "[Some 0]"]
    by simp
qed

section \<open>Capabilities\<close>

lemma set_add_cap [simp]: "set (add_cap v caps) = insert v (set caps)"
  by (simp add: add_cap_def set_insort_insert)

text \<open>The capabilities by the position of their name: the last name that the array has stands for motion tracking.\<close>

definition cap_names :: "(string \<times> AvailableCapabilities) list" where
  "cap_names = zip (map the (butlast sAvailableCapabilitiesStrings)) capabilities_in_order"

definition cap_of :: "string \<Rightarrow> AvailableCapabilities option" where
  "cap_of w = map_option snd (find (\<lambda>(n, v). strcasecmp_eq w n) cap_names)"

lemma find_capability_names:
  "find_capability w (map (\<lambda>(n, v). (Some n, v)) ns @ [(None, u)]) =
    map_option (Some \<circ> snd) (find (\<lambda>(n, v). strcasecmp_eq w n) ns)"
  by (induction ns) auto

lemma find_capability_cap_of:
  "find_capability w (zip sAvailableCapabilitiesStrings capabilities_in_order) = map_option Some (cap_of w)"
proof -
  have "zip sAvailableCapabilitiesStrings capabilities_in_order = map (\<lambda>(n, v). (Some n, v)) cap_names @ [(None, FULL_LEVEL)]"
    by (simp add: sAvailableCapabilitiesStrings_def capabilities_in_order_def cap_names_def)
  then show ?thesis by (simp add: find_capability_names cap_of_def option.map_comp)
qed

lemma parse_caps_exact:
  "parse_caps ws caps = (if \<exists>w\<in>set ws. cap_of w = None then None else Some (fold add_cap (map (the \<circ> cap_of) ws) caps))"
proof (induction ws arbitrary: caps)
  case (Cons w ws)
  then show ?case by (cases "cap_of w") (simp_all add: find_capability_cap_of comp_def)
qed simp

lemma set_fold_add_cap [simp]: "set (fold add_cap vs caps) = set vs \<union> set caps"
  by (induction vs arbitrary: caps) auto

lemma cap_of_never_full: "cap_of w \<noteq> Some FULL_LEVEL"
proof
  assume "cap_of w = Some FULL_LEVEL"
  then have "FULL_LEVEL \<in> snd ` set cap_names"
    by (auto simp: cap_of_def find_Some_iff) (metis image_eqI nth_mem snd_conv)
  then show False by (simp add: cap_names_def sAvailableCapabilitiesStrings_def capabilities_in_order_def)
qed

lemma set_level_caps:
  assumes "FULL_LEVEL \<notin> set caps"
  shows "set (level_caps caps) - {BACKWARD_COMPATIBLE} = set caps - {BACKWARD_COMPATIBLE}"
  using assms by (auto simp: level_caps_def Let_def)

text \<open>What a capability list in the boot property gives. A word that is no capability's name makes the search
  compare it with a null pointer; otherwise the capabilities are those the words name by their position, where
  the word \<^verbatim>\<open>FULL_LEVEL\<close> stands for motion tracking, and at most backward compatibility is added. No list of words gives the
  full hardware level.\<close>

theorem capability_property_exact:
  assumes "ws = strtok_all (\<lambda>c. c = CHR '' '' \<or> c = CHR '','') prop" and "ws \<noteq> []"
  shows "(getCameraCapabilities prop = None \<longleftrightarrow> (\<exists>w\<in>set ws. cap_of w = None)) \<and>
    (\<forall>caps. getCameraCapabilities prop = Some caps \<longrightarrow>
       set caps - {BACKWARD_COMPATIBLE} = the ` cap_of ` set ws - {BACKWARD_COMPATIBLE} \<and>
       FULL_LEVEL \<notin> set caps \<and> (''FULL_LEVEL'' \<in> set ws \<longrightarrow> MOTION_TRACKING \<in> set caps))"
proof -
  let ?vs = "map (the \<circ> cap_of) ws"
  have given: "prop \<noteq> []" using assms by (auto simp: strtok_all.simps)
  have vs: "fold add_cap ?vs [] \<noteq> []"
    using set_fold_add_cap [of ?vs "[]"] assms(2) by (metis Un_empty_right image_is_empty list.set_map set_empty)
  have eq: "getCameraCapabilities prop =
      (if \<exists>w\<in>set ws. cap_of w = None then None else Some (level_caps (fold add_cap ?vs [])))"
    using given vs by (simp add: getCameraCapabilities_def parse_caps_exact assms(1) [symmetric])
  have motion: "the (cap_of ''FULL_LEVEL'') = MOTION_TRACKING" by code_simp
  have "set caps - {BACKWARD_COMPATIBLE} = the ` cap_of ` set ws - {BACKWARD_COMPATIBLE} \<and>
       FULL_LEVEL \<notin> set caps \<and> (''FULL_LEVEL'' \<in> set ws \<longrightarrow> MOTION_TRACKING \<in> set caps)"
    if "getCameraCapabilities prop = Some caps" for caps
  proof -
    have known: "\<forall>w\<in>set ws. cap_of w \<noteq> None" and caps: "caps = level_caps (fold add_cap ?vs [])"
      using that unfolding eq by (auto split: if_splits)
    have "FULL_LEVEL \<notin> the ` cap_of ` set ws" using known cap_of_never_full by (force simp: image_iff)
    then have same: "set caps - {BACKWARD_COMPATIBLE} = the ` cap_of ` set ws - {BACKWARD_COMPATIBLE}"
      using set_level_caps [of "fold add_cap ?vs []"] caps by (simp add: image_image)
    have "MOTION_TRACKING \<in> the ` cap_of ` set ws" if "''FULL_LEVEL'' \<in> set ws"
      using that motion by (metis image_eqI)
    with same \<open>FULL_LEVEL \<notin> the ` cap_of ` set ws\<close> show ?thesis by blast
  qed
  then show ?thesis unfolding eq by simp
qed

lemma capability_property_exact_witness:
  "\<exists>caps. getCameraCapabilities ''raw,FULL_LEVEL'' = Some caps \<and> set caps = {BACKWARD_COMPATIBLE, RAW, MOTION_TRACKING} \<and>
    FULL_LEVEL \<notin> set caps"
proof -
  have ws: "strtok_all (\<lambda>c. c = CHR '' '' \<or> c = CHR '','') ''raw,FULL_LEVEL'' = [''raw'', ''FULL_LEVEL'']"
    by code_simp
  have "getCameraCapabilities ''raw,FULL_LEVEL'' = Some [BACKWARD_COMPATIBLE, RAW, MOTION_TRACKING]" by code_simp
  with capability_property_exact [OF ws [symmetric]] show ?thesis by (metis list.discI list.simps(15) set_empty2)
qed

end
