(* ===== verification/C_Scanf.thy ===== *)
theory C_Scanf
  imports C_Strings Complex_Main "HOL-Library.Monad_Syntax"
begin

text \<open>
  \<^verbatim>\<open>sscanf\<close> with the conversions that the sources use, and what it reads from printed numbers. Values of type
  \<^verbatim>\<open>float\<close> and \<^verbatim>\<open>double\<close> are the rational numbers before rounding. A result \<open>None\<close> is undefined behaviour, or
  an infinity, a value that is not a number or a hexadecimal number, which this model leaves undetermined.
\<close>

section \<open>Formatted input\<close>

datatype conv = Lit char | Conv_d "nat option" | Conv_ld | Conv_u | Conv_c | Conv_lf | Conv_n

datatype sval = Int_val (int_val: int) | Char_val (char_val: char) | Float_val (float_val: rat) | Pos_val (pos_val: nat)

text \<open>\<^verbatim>\<open>%d\<close> and \<^verbatim>\<open>%<w>d\<close>: the width counts the sign and the digits.\<close>

definition scan_dw :: "nat option \<Rightarrow> string \<Rightarrow> (int \<times> string) option" where
  "scan_dw w s =
     (case w of
        None \<Rightarrow> scan_d s
      | Some k \<Rightarrow>
          let t = skip_spaces s in
          (case scan_d (take k t) of None \<Rightarrow> None | Some (v, r) \<Rightarrow> Some (v, r @ drop k t)))"

text \<open>\<^verbatim>\<open>%lf\<close>: a decimal fraction with an optional exponent. The spellings of infinities, of values that are not a number
  and of hexadecimal numbers are recognised only to be left undetermined.\<close>

definition scan_exp :: "string \<Rightarrow> int \<times> string" where
  "scan_exp s =
     (case s of
        [] \<Rightarrow> (0, s)
      | c # cs \<Rightarrow>
          if c = CHR ''e'' \<or> c = CHR ''E''
          then (case scan_sign cs of (sg, r) \<Rightarrow>
                 (case scan_digits 10 r of None \<Rightarrow> (0, s) | Some (n, rest) \<Rightarrow> (sg * int n, rest)))
          else (0, s))"

definition scale10 :: "rat \<Rightarrow> int \<Rightarrow> rat" where
  "scale10 v e = (if 0 \<le> e then v * 10 ^ nat e else v / 10 ^ nat (- e))"

definition split_fraction :: "string \<Rightarrow> string \<times> string" where
  "split_fraction s =
     (case s of
        [] \<Rightarrow> ([], s)
      | c # cs \<Rightarrow> if c = CHR ''.'' then (takeWhile (is_digit 10) cs, dropWhile (is_digit 10) cs) else ([], s))"

definition special_float :: "string \<Rightarrow> bool" where
  "special_float s \<longleftrightarrow>
     (case s of
        [] \<Rightarrow> False
      | c # cs \<Rightarrow> tolower c = CHR ''i'' \<or> tolower c = CHR ''n'' \<or> c = CHR ''0'' \<and> cs \<noteq> [] \<and> tolower (hd cs) = CHR ''x'')"

definition scan_lf :: "string \<Rightarrow> (rat \<times> string) option option" where
  "scan_lf s =
     (case scan_sign (skip_spaces s) of (sg, r) \<Rightarrow>
        if special_float r then None
        else
          let ip = takeWhile (is_digit 10) r in
          case split_fraction (dropWhile (is_digit 10) r) of (fp, r2) \<Rightarrow>
            if ip = [] \<and> fp = [] then Some None
            else case scan_exp r2 of (e, rest) \<Rightarrow>
              Some (Some (scale10 (of_int (sg * int (digits_value 10 0 (ip @ fp))) / 10 ^ length fp) e, rest)))"

definition int32 :: "int \<Rightarrow> bool" where
  "int32 v \<longleftrightarrow> - (2 ^ 31) \<le> v \<and> v < 2 ^ 31"

definition int64 :: "int \<Rightarrow> bool" where
  "int64 v \<longleftrightarrow> - (2 ^ 63) \<le> v \<and> v < 2 ^ 63"

text \<open>The conversions in order, until one fails; \<open>n\<close> is the length of the whole input. A number that its type
  cannot hold is undefined behaviour; an unsigned conversion takes a sign and wraps.\<close>

fun scan_convs :: "nat \<Rightarrow> conv list \<Rightarrow> string \<Rightarrow> sval list option" where
  "scan_convs n [] s = Some []"
| "scan_convs n (Lit c # cs) s = (case s of [] \<Rightarrow> Some [] | x # xs \<Rightarrow> if x = c then scan_convs n cs xs else Some [])"
| "scan_convs n (Conv_c # cs) s =
     (case s of [] \<Rightarrow> Some [] | x # xs \<Rightarrow> map_option (Cons (Char_val x)) (scan_convs n cs xs))"
| "scan_convs n (Conv_n # cs) s = map_option (Cons (Pos_val (n - length s))) (scan_convs n cs s)"
| "scan_convs n (Conv_d w # cs) s =
     (case scan_dw w s of
        None \<Rightarrow> Some []
      | Some (v, r) \<Rightarrow> if int32 v then map_option (Cons (Int_val v)) (scan_convs n cs r) else None)"
| "scan_convs n (Conv_ld # cs) s =
     (case scan_d s of
        None \<Rightarrow> Some []
      | Some (v, r) \<Rightarrow> if int64 v then map_option (Cons (Int_val v)) (scan_convs n cs r) else None)"
| "scan_convs n (Conv_u # cs) s =
     (case scan_d s of
        None \<Rightarrow> Some []
      | Some (v, r) \<Rightarrow> if \<bar>v\<bar> < 2 ^ 32 then map_option (Cons (Int_val (v mod 2 ^ 32))) (scan_convs n cs r) else None)"
| "scan_convs n (Conv_lf # cs) s =
     (case scan_lf s of
        None \<Rightarrow> None
      | Some None \<Rightarrow> Some []
      | Some (Some (v, r)) \<Rightarrow> map_option (Cons (Float_val v)) (scan_convs n cs r))"

definition sscanf :: "conv list \<Rightarrow> string \<Rightarrow> sval list option" where
  "sscanf cs s = (let s = c_str s in scan_convs (length s) cs s)"

text \<open>The number that \<^verbatim>\<open>sscanf\<close> returns: \<^verbatim>\<open>%n\<close> does not count.\<close>

fun is_assigned :: "sval \<Rightarrow> bool" where
  "is_assigned (Pos_val _) = False"
| "is_assigned _ = True"

definition assigned :: "sval list \<Rightarrow> nat" where
  "assigned vs = length (filter is_assigned vs)"

section \<open>Printed numbers\<close>

abbreviation dec :: "nat \<Rightarrow> nat \<Rightarrow> string" where
  "dec \<equiv> show_padded 10"

lemma dec_facts: "list_all (is_digit 10) (dec w n)" "dec w n \<noteq> []" "digits_value 10 0 (dec w n) = n"
  using show_padded_digits [of 10 w n] by auto

lemma dec_hd: "is_digit 10 (hd (dec w n))"
  using dec_facts(1,2) [of w n] by (cases "dec w n") auto

lemma scan_d_dec:
  assumes "rest = [] \<or> \<not> is_digit 10 (hd rest)"
  shows "scan_d (dec w n @ rest) = Some (int n, rest)"
proof -
  have "hd (dec w n @ rest) = hd (dec w n)" "dec w n @ rest \<noteq> []" using dec_facts(2) by auto
  then have "scan_sign (skip_spaces (dec w n @ rest)) = (1, dec w n @ rest)"
    using dec_hd by (simp add: skip_spaces_digit [of _ 10] scan_sign_digit [of _ 10])
  then show ?thesis using scan_digits_app [OF dec_facts(1,2) assms] dec_facts(3) by (simp add: scan_d_def)
qed

lemma scan_dw_dec:
  assumes "\<not> is_digit 10 c"
  shows "scan_dw None (dec w n @ c # rest) = Some (int n, c # rest)"
    and "n < 10 ^ k \<Longrightarrow> 0 < k \<Longrightarrow> scan_dw (Some k) (dec k n @ c # rest) = Some (int n, c # rest)"
proof -
  show "scan_dw None (dec w n @ c # rest) = Some (int n, c # rest)"
    using scan_d_dec [of "c # rest" w n] assms by (simp add: scan_dw_def)
  assume k: "n < 10 ^ k" "0 < k"
  have len: "length (dec k n) = k" using length_show_padded [of 10 n k] k by simp
  have "skip_spaces (dec k n @ c # rest) = dec k n @ c # rest"
    using dec_facts(2) dec_hd by (simp add: skip_spaces_digit [of _ 10])
  then show "scan_dw (Some k) (dec k n @ c # rest) = Some (int n, c # rest)"
    using scan_d_dec [of "[]" k n] len by (simp add: scan_dw_def Let_def)
qed

text \<open>A decimal fraction: its sign, the whole part, and the digits after the point.\<close>

record decimal =
  negative :: bool
  whole :: nat
  digits :: nat
  part :: nat

definition decimal_text :: "decimal \<Rightarrow> string" where
  "decimal_text d = (if negative d then ''-'' else []) @ dec 1 (whole d) @ CHR ''.'' # dec (digits d) (part d)"

definition decimal_value :: "decimal \<Rightarrow> rat" where
  "decimal_value d = (if negative d then -1 else 1) * (of_nat (whole d) + of_nat (part d) / 10 ^ digits d)"

definition decimal_ok :: "decimal \<Rightarrow> bool" where
  "decimal_ok d \<longleftrightarrow> 0 < digits d \<and> part d < 10 ^ digits d"

lemma digits_value_acc: "digits_value 10 acc s = acc * 10 ^ length s + digits_value 10 0 s"
proof (induction s arbitrary: acc)
  case (Cons c s)
  show ?case using Cons.IH [of "10 * acc + the (digit_val c)"] Cons.IH [of "the (digit_val c)"] by (simp add: algebra_simps)
qed simp

lemma span_digits:
  assumes "list_all (is_digit 10) ds" and "\<not> is_digit 10 c"
  shows "takeWhile (is_digit 10) (ds @ c # rest) = ds" "dropWhile (is_digit 10) (ds @ c # rest) = c # rest"
proof -
  have "\<And>x. x \<in> set ds \<Longrightarrow> is_digit 10 x" using assms(1) by (simp add: list_all_iff)
  then show "takeWhile (is_digit 10) (ds @ c # rest) = ds" "dropWhile (is_digit 10) (ds @ c # rest) = c # rest"
    using assms(2) by (auto simp: takeWhile_append2 dropWhile_append2)
qed

lemma not_digit_chars [simp]:
  "\<not> is_digit 10 (CHR ''.'')" "\<not> is_digit 10 (CHR '','')" "\<not> is_digit 10 (CHR ''*'')"
  by (simp_all add: is_digit_def digit_val_def)

lemma special_float_digits:
  assumes "list_all (is_digit 10) ds" and "ds \<noteq> []" and "tolower c \<noteq> CHR ''x''"
  shows "\<not> special_float (ds @ c # rest)"
proof -
  have letters: "tolower x \<noteq> CHR ''i''" "tolower x \<noteq> CHR ''n''" "tolower x \<noteq> CHR ''x''" if "is_digit 10 x" for x
    using that by (auto simp: is_digit_def digit_val_def tolower_def Let_def split: if_splits)
  obtain d ds' where "ds = d # ds'" using assms(2) by (cases ds) auto
  then show ?thesis using assms letters by (cases ds') (auto simp: special_float_def)
qed

text \<open>What may follow a number.\<close>

definition number_ends :: "string \<Rightarrow> bool" where
  "number_ends rest \<longleftrightarrow> rest = [] \<or> \<not> is_digit 10 (hd rest) \<and> hd rest \<noteq> CHR ''e'' \<and> hd rest \<noteq> CHR ''E''"

lemma span_digits_end:
  assumes "list_all (is_digit 10) ds" and "number_ends rest"
  shows "takeWhile (is_digit 10) (ds @ rest) = ds" "dropWhile (is_digit 10) (ds @ rest) = rest"
proof -
  have all: "\<And>x. x \<in> set ds \<Longrightarrow> is_digit 10 x" using assms(1) by (simp add: list_all_iff)
  show "takeWhile (is_digit 10) (ds @ rest) = ds" "dropWhile (is_digit 10) (ds @ rest) = rest"
    using all assms(2) by (cases rest; simp add: number_ends_def takeWhile_append2 dropWhile_append2)+
qed

lemma scan_sign_text:
  assumes "is_digit 10 (hd s)" and "s \<noteq> []"
  shows "scan_sign (skip_spaces ((if neg then ''-'' else []) @ s)) = (if neg then -1 else 1, s)"
  using assms by (simp add: skip_spaces_digit [of _ 10] scan_sign_digit [of _ 10]) (simp add: scan_sign_def skip_spaces_def isspace_def)

lemma scan_lf_decimal:
  assumes "decimal_ok d" and "number_ends rest"
  shows "scan_lf (decimal_text d @ rest) = Some (Some (decimal_value d, rest))"
proof -
  let ?w = "dec 1 (whole d)" and ?p = "dec (digits d) (part d)"
  let ?s = "?w @ CHR ''.'' # ?p @ rest"
  have len: "length ?p = digits d" using assms length_show_padded [of 10 "part d" "digits d"] by (simp add: decimal_ok_def)
  have "hd ?s = hd ?w" "?s \<noteq> []" using dec_facts(2) by auto
  then have start: "scan_sign (skip_spaces (decimal_text d @ rest)) = (if negative d then -1 else 1, ?s)"
    using scan_sign_text [of ?s "negative d"] dec_hd [of 1 "whole d"] by (simp add: decimal_text_def)
  have special: "\<not> special_float ?s" by (rule special_float_digits) (simp_all add: dec_facts tolower_def)
  have spans: "takeWhile (is_digit 10) ?s = ?w" "dropWhile (is_digit 10) ?s = CHR ''.'' # ?p @ rest"
    using span_digits [OF dec_facts(1)] by simp_all
  have fraction: "split_fraction (CHR ''.'' # ?p @ rest) = (?p, rest)"
    using span_digits_end [OF dec_facts(1) assms(2)] by (simp add: split_fraction_def)
  have exp: "scan_exp rest = (0, rest)" using assms(2) by (cases rest) (simp_all add: scan_exp_def number_ends_def)
  have "digits_value 10 0 (?w @ ?p) = whole d * 10 ^ digits d + part d"
    using digits_value_acc [of "whole d" ?p] dec_facts(3) len by (simp add: digits_value_append)
  then have "of_int ((if negative d then -1 else 1) * int (digits_value 10 0 (?w @ ?p))) / 10 ^ length ?p = decimal_value d"
    by (simp add: len decimal_value_def field_simps)
  then show ?thesis
    using start special spans fraction exp dec_facts(2) by (simp add: scan_lf_def Let_def scale10_def)
qed

end
