(* ===== verification/Gnss_Listener.thy ===== *)
theory Gnss_Listener
  imports C_Scanf "HOL-Library.Signed_Division"
begin

text \<open>
  \<^verbatim>\<open>gnss/gnss_hw_listener.cpp\<close>: the listener that collects the bytes of the emulated GPS receiver into NMEA
  sentences and turns the sentences \<^verbatim>\<open>GPRMC\<close> and \<^verbatim>\<open>GPGGA\<close> into reports. The buffer is a vector without a terminating
  zero, which \<^verbatim>\<open>sscanf\<close> reads as a C string: \<open>junk\<close> stands for the bytes that follow it in memory. A result \<open>None\<close>
  is undefined behaviour or an abort. Numbers of type \<^verbatim>\<open>double\<close> are kept as the rational numbers before rounding.
\<close>

section \<open>Fields\<close>

text \<open>A pointer range is the text from its begin to its end; the result is the text after the field.\<close>

fun testNmeaField :: "string \<Rightarrow> string \<Rightarrow> char \<Rightarrow> string option" where
  "testNmeaField [] v sep = None"
| "testNmeaField (x # xs) [] sep = (if x = sep then Some xs else None)"
| "testNmeaField (x # xs) (v # vs) sep = (if v = x then testNmeaField xs vs sep else None)"

fun skipAfter :: "string \<Rightarrow> char \<Rightarrow> string option" where
  "skipAfter [] c = None"
| "skipAfter (x # xs) c = (if x = c then Some xs else skipAfter xs c)"

text \<open>The power of ten is an \<^verbatim>\<open>int\<close>: ten or more places overflow.\<close>

definition convertDMMF :: "int \<Rightarrow> int \<Rightarrow> nat \<Rightarrow> rat option" where
  "convertDMMF dmm f p10 =
     (if 10 \<le> p10 then None
      else Some (of_int (dmm sdiv 100) + (of_int (dmm smod 100) + of_int f / 10 ^ p10) / 60))"

definition nmea_sign :: "char \<Rightarrow> char \<Rightarrow> rat" where
  "nmea_sign m positive = (if m = positive then 1 else -1)"

section \<open>Reports\<close>

datatype gnss_status = ENGINE_ON | ENGINE_OFF | SESSION_BEGIN | SESSION_END

record gnss_location =
  latitudeDegrees :: rat
  longitudeDegrees :: rat
  speedMetersPerSec :: rat
  bearingDegrees :: rat
  altitudeMeters :: "rat option"       \<comment> \<open>\<open>None\<close> without the flag \<^verbatim>\<open>HAS_ALTITUDE\<close>\<close>
  loc_timestamp :: int
  elapsedRealtime :: int

datatype report = Location gnss_location | SvStatus "int list" | Nmea int string | Status gnss_status

text \<open>The time of day and the elapsed time when a sentence ends.\<close>

record clock_now =
  utc_now :: int
  elapsed_now :: int

record GnssHwListener =
  m_buffer :: string
  m_altitude :: rat
  has_altitude :: bool      \<comment> \<open>the bit \<^verbatim>\<open>HAS_ALTITUDE\<close> of \<^verbatim>\<open>m_flags\<close>, which is not initialised\<close>

definition GnssHwListener_new :: "bool \<Rightarrow> GnssHwListener" where
  "GnssHwListener_new flag = \<lparr>m_buffer = [], m_altitude = 0, has_altitude = flag\<rparr>"

definition reset :: "GnssHwListener \<Rightarrow> GnssHwListener" where
  "reset l = l\<lparr>m_buffer := []\<rparr>"

section \<open>Sentences\<close>

definition comma :: conv where "comma = Lit (CHR '','')"

definition coord_format :: "conv list" where
  "coord_format = [Conv_d None, Lit (CHR ''.''), Conv_n, Conv_d None, Conv_n, comma, Conv_c, comma]"

definition gprmc_format :: "conv list" where
  "gprmc_format = [Conv_d (Some 6), comma, Conv_c, comma] @ coord_format @ coord_format @
     [Conv_lf, comma, Conv_lf, comma, Conv_d None, comma, Conv_lf, comma, Conv_c, Lit (CHR ''*'')]"

definition parseGPRMC :: "string \<Rightarrow> clock_now \<Rightarrow> GnssHwListener \<Rightarrow> report list option option" where
  "parseGPRMC flds now l = do {
     vs \<leftarrow> sscanf gprmc_format flds;
     if assigned vs \<noteq> 13 then Some None
     else if char_val (vs ! 1) \<noteq> CHR ''A'' then Some None
     else do {
       lat \<leftarrow> convertDMMF (int_val (vs ! 2)) (int_val (vs ! 4)) (pos_val (vs ! 5) - pos_val (vs ! 3));
       lon \<leftarrow> convertDMMF (int_val (vs ! 7)) (int_val (vs ! 9)) (pos_val (vs ! 10) - pos_val (vs ! 8));
       Some (Some [Location
         \<lparr>latitudeDegrees = lat * nmea_sign (char_val (vs ! 6)) (CHR ''N''),
          longitudeDegrees = lon * nmea_sign (char_val (vs ! 11)) (CHR ''E''),
          speedMetersPerSec = float_val (vs ! 12) * (514444 / 1000000),
          bearingDegrees = float_val (vs ! 13),
          altitudeMeters = (if has_altitude l then Some (m_altitude l) else None),
          loc_timestamp = utc_now now, elapsedRealtime = elapsed_now now\<rparr>]) } }"

definition gpgga_format :: "conv list" where
  "gpgga_format = [Conv_d (Some 6), comma] @ coord_format @ coord_format @ [Conv_d None, comma, Conv_d None, comma, Conv_n]"

definition altitude_format :: "conv list" where
  "altitude_format = [Conv_lf, comma, Conv_c, comma]"

text \<open>\<open>k\<close> is the number of bytes from \<open>flds\<close> to the end of the sentence. A negative number of satellites asks for a vector
  that cannot exist. Satellite numbers are 16-bit.\<close>

definition parseGPGGA :: "string \<Rightarrow> nat \<Rightarrow> GnssHwListener \<Rightarrow> (report list \<times> GnssHwListener) option option" where
  "parseGPGGA flds k l = do {
     vs \<leftarrow> sscanf gpgga_format flds;
     if assigned vs \<noteq> 9 then Some None
     else
       let consumed = (if length vs = 14 then pos_val (vs ! 13) else 0) in
       case skipAfter (drop consumed (take k flds)) (CHR '','') of
         None \<Rightarrow> Some None
       | Some r \<Rightarrow> do {
           ws \<leftarrow> sscanf altitude_format (drop (k - length r) flds);
           if assigned ws \<noteq> 2 then Some None
           else if char_val (ws ! 1) \<noteq> CHR ''M'' then Some None
           else
             let n = int_val (vs ! 12); l = l\<lparr>m_altitude := float_val (ws ! 0), has_altitude := True\<rparr> in
             if n < 0 then None
             else Some (Some ([SvStatus (map (\<lambda>i. signed_take_bit 15 (int i + 3)) [0..<nat n])], l)) } }"

text \<open>\<open>text\<close> is the memory from the begin on, \<open>n\<close> the number of bytes to the end. The result \<open>Some None\<close> is \<^verbatim>\<open>false\<close>.\<close>

definition parse :: "string \<Rightarrow> nat \<Rightarrow> clock_now \<Rightarrow> GnssHwListener \<Rightarrow> (report list \<times> GnssHwListener) option option" where
  "parse text n now l =
     (case testNmeaField (take n text) ''GPRMC'' (CHR '','') of
        Some r \<Rightarrow> map_option (map_option (\<lambda>rs. (rs, l))) (parseGPRMC (drop (n - length r) text) now l)
      | None \<Rightarrow>
          (case testNmeaField (take n text) ''GPGGA'' (CHR '','') of
             Some r \<Rightarrow> parseGPGGA (drop (n - length r) text) (length r) l
           | None \<Rightarrow> Some None))"

text \<open>A line that fails to parse has its last character overwritten, which an empty buffer does not have.\<close>

definition end_line :: "clock_now \<Rightarrow> string \<Rightarrow> GnssHwListener \<Rightarrow> (report list \<times> GnssHwListener) option" where
  "end_line now junk l = do {
     r \<leftarrow> parse (drop 1 (m_buffer l) @ junk) (length (m_buffer l) - 3) now l;
     case r of
       Some (rs, l') \<Rightarrow> Some (rs @ [Nmea (utc_now now) (m_buffer l')], l'\<lparr>m_buffer := []\<rparr>)
     | None \<Rightarrow> if m_buffer l = [] then None else Some ([], l\<lparr>m_buffer := []\<rparr>) }"

definition consume :: "clock_now \<Rightarrow> string \<Rightarrow> char \<Rightarrow> GnssHwListener \<Rightarrow> (report list \<times> GnssHwListener) option" where
  "consume now junk c l =
     (let l = (if c = CHR ''$'' \<or> m_buffer l \<noteq> [] then l\<lparr>m_buffer := m_buffer l @ [c]\<rparr> else l) in
      if c = CHR ''\<newline>'' then end_line now junk l
      else if 1024 \<le> length (m_buffer l) then Some ([], l\<lparr>m_buffer := []\<rparr>)
      else Some ([], l))"

text \<open>The loop over the bytes of a read.\<close>

fun consume_all :: "clock_now \<Rightarrow> string \<Rightarrow> string \<Rightarrow> GnssHwListener \<Rightarrow> (report list \<times> GnssHwListener) option" where
  "consume_all now junk [] l = Some ([], l)"
| "consume_all now junk (c # cs) l = do {
     (rs, l) \<leftarrow> consume now junk c l;
     (rs', l) \<leftarrow> consume_all now junk cs l;
     Some (rs @ rs', l) }"

end
