(* ===== verification/Gnss_Listener_Props.thy ===== *)
theory Gnss_Listener_Props
  imports Gnss_Listener
begin

text \<open>
  The listener of the GPS receiver: how bytes become sentences, and what a sentence reports. The main result is
  end to end: a printed fix comes back from the byte stream with its exact coordinates, however the stream is cut into reads.
\<close>

section \<open>Bytes\<close>

text \<open>A byte together with the time at which it is consumed and the memory behind the buffer then.\<close>

type_synonym timed_byte = "clock_now \<times> string \<times> char"

fun consume_bytes :: "timed_byte list \<Rightarrow> GnssHwListener \<Rightarrow> (report list \<times> GnssHwListener) option" where
  "consume_bytes [] l = Some ([], l)"
| "consume_bytes ((now, junk, c) # bs) l = do {
     (rs, l) \<leftarrow> consume now junk c l;
     (rs', l) \<leftarrow> consume_bytes bs l;
     Some (rs @ rs', l) }"

abbreviation byte_of :: "timed_byte \<Rightarrow> char" where
  "byte_of b \<equiv> snd (snd b)"

lemma consume_all_bytes: "consume_all now junk cs l = consume_bytes (map (\<lambda>c. (now, junk, c)) cs) l"
  by (induction cs arbitrary: l) simp_all

lemma consume_bytes_append:
  "consume_bytes (bs @ bs') l = do {
     (rs, l) \<leftarrow> consume_bytes bs l;
     (rs', l) \<leftarrow> consume_bytes bs' l;
     Some (rs @ rs', l) }"
proof (induction bs arbitrary: l)
  case Nil
  then show ?case by (cases "consume_bytes bs' l") auto
next
  case (Cons b bs)
  obtain now junk c where b: "b = (now, junk, c)" by (cases b)
  show ?case
  proof (cases "consume now junk c l")
    case (Some p)
    then obtain rs l1 where l1: "consume now junk c l = Some (rs, l1)" by (cases p) auto
    show ?thesis
    proof (cases "consume_bytes bs l1")
      case (Some p)
      then obtain rs2 l2 where "consume_bytes bs l1 = Some (rs2, l2)" by (cases p) auto
      then show ?thesis using Cons.IH [of l1] l1 by (cases "consume_bytes bs' l2") (auto simp: b)
    qed (use Cons.IH [of l1] l1 in \<open>simp add: b\<close>)
  qed (simp add: b)
qed

lemma consume_bytes_then:
  "consume_bytes bs l = Some (rs, l') \<Longrightarrow> consume_bytes (bs @ bs') l = map_option (\<lambda>(rs', l). (rs @ rs', l)) (consume_bytes bs' l')"
  by (cases "consume_bytes bs' l'") (auto simp: consume_bytes_append)

lemma consume_bytes_silent: "consume_bytes bs l = Some ([], l') \<Longrightarrow> consume_bytes (bs @ bs') l = consume_bytes bs' l'"
  by (cases "consume_bytes bs' l'") (auto simp: consume_bytes_append)

lemma consume_bytes_one: "consume_bytes [(now, junk, c)] l = consume now junk c l"
  by (cases "consume now junk c l") auto

lemma consume_inside:
  assumes "m_buffer l \<noteq> []" and "CHR ''\<newline>'' \<notin> byte_of ` set bs" and "length (m_buffer l) + length bs < 1024"
  shows "consume_bytes bs l = Some ([], l\<lparr>m_buffer := m_buffer l @ map byte_of bs\<rparr>)"
  using assms
proof (induction bs arbitrary: l)
  case (Cons b bs)
  obtain now junk c where b: "b = (now, junk, c)" by (cases b)
  have "consume now junk c l = Some ([], l\<lparr>m_buffer := m_buffer l @ [c]\<rparr>)"
    using Cons.prems by (auto simp: consume_def Let_def b)
  then show ?case using Cons.IH [of "l\<lparr>m_buffer := m_buffer l @ [c]\<rparr>"] Cons.prems by (simp add: b)
qed simp

text \<open>A sentence starts with a dollar sign and ends with the first line feed after it.\<close>

lemma consume_sentence:
  assumes "m_buffer l = []" and "map byte_of bs = CHR ''$'' # body @ [CHR ''\<newline>'']" and "CHR ''\<newline>'' \<notin> set body"
    and "length body < 1023"
  shows "\<exists>now junk. consume_bytes bs l = end_line now junk (l\<lparr>m_buffer := CHR ''$'' # body @ [CHR ''\<newline>'']\<rparr>)"
proof -
  obtain b bs' e where bs: "bs = b # bs' @ [e]" and bytes: "byte_of b = CHR ''$''" "map byte_of bs' = body"
      "byte_of e = CHR ''\<newline>''"
    using assms(2) by (auto simp: map_eq_Cons_conv map_eq_append_conv)
  obtain now1 junk1 where b: "b = (now1, junk1, CHR ''$'')" using bytes(1) by (metis prod.collapse)
  obtain now2 junk2 where e: "e = (now2, junk2, CHR ''\<newline>'')" using bytes(3) by (metis prod.collapse)
  have len: "length bs' = length body" using bytes(2) by auto
  let ?l = "l\<lparr>m_buffer := [CHR ''$'']\<rparr>"
  have "consume now1 junk1 (CHR ''$'') l = Some ([], ?l)" using assms(1) by (simp add: consume_def)
  moreover have "consume_bytes bs' ?l = Some ([], l\<lparr>m_buffer := CHR ''$'' # body\<rparr>)"
  proof -
    have "byte_of ` set bs' = set body" using bytes(2) by (metis set_map)
    then show ?thesis using consume_inside [of ?l bs'] bytes(2) assms(3,4) len by simp
  qed
  ultimately have "consume_bytes (b # bs') l = Some ([], l\<lparr>m_buffer := CHR ''$'' # body\<rparr>)" by (simp add: b)
  from consume_bytes_silent [OF this, of "[e]"]
  have "consume_bytes bs l = consume now2 junk2 (CHR ''\<newline>'') (l\<lparr>m_buffer := CHR ''$'' # body\<rparr>)"
    unfolding e consume_bytes_one bs by simp
  also have "\<dots> = end_line now2 junk2 (l\<lparr>m_buffer := CHR ''$'' # body @ [CHR ''\<newline>'']\<rparr>)"
    by (simp add: consume_def)
  finally show ?thesis by blast
qed

section \<open>Printed fixes\<close>

text \<open>A coordinate in degrees and minutes with decimal places, and the letter of its hemisphere.\<close>

record coord =
  degrees :: nat
  minutes :: nat
  places :: nat
  fraction :: nat
  hemisphere :: char

definition coord_ok :: "coord \<Rightarrow> bool" where
  "coord_ok c \<longleftrightarrow> degrees c \<le> 180 \<and> minutes c < 60 \<and> 0 < places c \<and> places c < 10 \<and> fraction c < 10 ^ places c \<and>
     hemisphere c \<noteq> CHR 0x00 \<and> hemisphere c \<noteq> CHR ''\<newline>''"

definition coord_text :: "coord \<Rightarrow> string" where
  "coord_text c = dec 4 (degrees c * 100 + minutes c) @ CHR ''.'' # dec (places c) (fraction c) @ [CHR '','', hemisphere c]"

definition coord_value :: "char \<Rightarrow> coord \<Rightarrow> rat" where
  "coord_value positive c =
     (of_nat (degrees c) + (of_nat (minutes c) + of_nat (fraction c) / 10 ^ places c) / 60) *
     (if hemisphere c = positive then 1 else -1)"

lemma convertDMMF_coord:
  assumes "coord_ok c"
  shows "map_option (\<lambda>v. v * nmea_sign (hemisphere c) positive)
      (convertDMMF (int (degrees c * 100 + minutes c)) (int (fraction c)) (places c)) = Some (coord_value positive c)"
proof -
  have "minutes c < 100" using assms by (simp add: coord_ok_def)
  then have "int (degrees c * 100 + minutes c) sdiv 100 = int (degrees c)" "int (degrees c * 100 + minutes c) smod 100 = int (minutes c)"
    by (simp_all add: signed_divide_int_def signed_modulo_int_def sgn_if)
  then show ?thesis using assms by (simp add: convertDMMF_def coord_ok_def coord_value_def nmea_sign_def)
qed

lemma scan_coord:
  assumes "coord_ok c" and "length (coord_text c @ CHR '','' # rest) \<le> n"
  shows "\<exists>p. scan_convs n (coord_format @ cs) (coord_text c @ CHR '','' # rest) =
    map_option (append [Int_val (int (degrees c * 100 + minutes c)), Pos_val p, Int_val (int (fraction c)),
      Pos_val (p + places c), Char_val (hemisphere c)]) (scan_convs n cs rest)"
proof -
  let ?f = "dec (places c) (fraction c)" and ?t = "CHR '','' # hemisphere c # CHR '','' # rest"
  have dmm: "int32 (int (degrees c * 100 + minutes c))" using assms(1) by (simp add: int32_def coord_ok_def)
  have "(10 :: nat) ^ places c \<le> 10 ^ 9" using assms(1) by (intro power_increasing) (simp_all add: coord_ok_def)
  then have "fraction c < 10 ^ 9" using assms(1) by (simp add: coord_ok_def)
  then have f: "int32 (int (fraction c))" by (simp add: int32_def)
  have len: "length ?f = places c" using assms(1) length_show_padded [of 10 "fraction c" "places c"] by (simp add: coord_ok_def)
  have pos: "n - length ?t = n - length (?f @ ?t) + places c" using assms(2) len by (simp add: coord_text_def)
  have scans: "scan_dw None (dec 4 (degrees c * 100 + minutes c) @ CHR ''.'' # ?f @ ?t) =
      Some (int (degrees c * 100 + minutes c), CHR ''.'' # ?f @ ?t)" "scan_dw None (?f @ ?t) = Some (int (fraction c), ?t)"
    by (rule scan_dw_dec; simp)+
  have printed: "coord_text c @ CHR '','' # rest = dec 4 (degrees c * 100 + minutes c) @ CHR ''.'' # ?f @ ?t"
    by (simp add: coord_text_def)
  have "scan_convs n (coord_format @ cs) (coord_text c @ CHR '','' # rest) =
    map_option (append [Int_val (int (degrees c * 100 + minutes c)), Pos_val (n - length (?f @ ?t)), Int_val (int (fraction c)),
      Pos_val (n - length ?t), Char_val (hemisphere c)]) (scan_convs n cs rest)"
    unfolding printed coord_format_def comma_def
    by (cases "scan_convs n cs rest") (simp_all add: scans dmm f del: length_append length_Cons of_nat_add of_nat_mult)
  then show ?thesis unfolding pos by blast
qed

text \<open>A fix as the emulator reports it, and its sentence.\<close>

record gps_fix =
  fix_time :: nat
  fix_lat :: coord
  fix_lon :: coord
  fix_speed :: decimal
  fix_course :: decimal
  fix_date :: nat
  fix_variation :: decimal
  fix_checksum :: string

definition fix_fields :: "gps_fix \<Rightarrow> string" where
  "fix_fields x = dec 6 (fix_time x) @ '',A,'' @ coord_text (fix_lat x) @ '','' @ coord_text (fix_lon x) @ '','' @
     decimal_text (fix_speed x) @ '','' @ decimal_text (fix_course x) @ '','' @ dec 6 (fix_date x) @ '','' @
     decimal_text (fix_variation x) @ '',E*'' @ fix_checksum x"

definition fix_sentence :: "gps_fix \<Rightarrow> string" where
  "fix_sentence x = CHR ''$'' # ''GPRMC,'' @ fix_fields x @ [CHR 0x0D, CHR 0x0A]"

definition fix_ok :: "gps_fix \<Rightarrow> bool" where
  "fix_ok x \<longleftrightarrow> fix_time x < 10 ^ 6 \<and> fix_date x < 10 ^ 6 \<and> coord_ok (fix_lat x) \<and> coord_ok (fix_lon x) \<and>
     decimal_ok (fix_speed x) \<and> decimal_ok (fix_course x) \<and> decimal_ok (fix_variation x) \<and>
     CHR ''\<newline>'' \<notin> set (fix_checksum x) \<and> CHR 0x00 \<notin> set (fix_checksum x) \<and> length (fix_sentence x) \<le> 1024"

definition fix_location :: "clock_now \<Rightarrow> GnssHwListener \<Rightarrow> gps_fix \<Rightarrow> gnss_location" where
  "fix_location now l x =
     \<lparr>latitudeDegrees = coord_value (CHR ''N'') (fix_lat x), longitudeDegrees = coord_value (CHR ''E'') (fix_lon x),
      speedMetersPerSec = decimal_value (fix_speed x) * (514444 / 1000000), bearingDegrees = decimal_value (fix_course x),
      altitudeMeters = (if has_altitude l then Some (m_altitude l) else None),
      loc_timestamp = utc_now now, elapsedRealtime = elapsed_now now\<rparr>"

lemma int32_small: "v < 10 ^ 6 \<Longrightarrow> int32 (int v)"
  by (simp add: int32_def)

lemma plain_text:
  "CHR 0x00 \<notin> set (dec w n)" "CHR ''\<newline>'' \<notin> set (dec w n)"
  "CHR 0x00 \<notin> set (decimal_text d)" "CHR ''\<newline>'' \<notin> set (decimal_text d)"
  "coord_ok c \<Longrightarrow> CHR 0x00 \<notin> set (coord_text c)" "coord_ok c \<Longrightarrow> CHR ''\<newline>'' \<notin> set (coord_text c)"
proof -
  have no_line: "\<not> is_digit 10 (CHR ''\<newline>'')" "\<not> is_digit 10 (CHR 0x00)" by (simp_all add: is_digit_def digit_val_def)
  then have dec: "CHR 0x00 \<notin> set (dec w n)" "CHR ''\<newline>'' \<notin> set (dec w n)" for w n
    using dec_facts(1) [of w n] by (auto simp: list_all_iff)
  then show "CHR 0x00 \<notin> set (dec w n)" "CHR ''\<newline>'' \<notin> set (dec w n)"
    "CHR 0x00 \<notin> set (decimal_text d)" "CHR ''\<newline>'' \<notin> set (decimal_text d)"
    "coord_ok c \<Longrightarrow> CHR 0x00 \<notin> set (coord_text c)" "coord_ok c \<Longrightarrow> CHR ''\<newline>'' \<notin> set (coord_text c)"
    by (auto simp: decimal_text_def coord_text_def coord_ok_def)
qed

lemma fix_fields_plain:
  assumes "fix_ok x"
  shows "CHR 0x00 \<notin> set (fix_fields x)" "CHR ''\<newline>'' \<notin> set (fix_fields x)"
  using assms plain_text by (simp_all add: fix_fields_def fix_ok_def)

lemma scan_fix:
  assumes "fix_ok x" and "n = length (fix_fields x @ rest)"
  shows "\<exists>p q. scan_convs n gprmc_format (fix_fields x @ rest) = Some
    [Int_val (int (fix_time x)), Char_val (CHR ''A''),
     Int_val (int (degrees (fix_lat x) * 100 + minutes (fix_lat x))), Pos_val p, Int_val (int (fraction (fix_lat x))),
     Pos_val (p + places (fix_lat x)), Char_val (hemisphere (fix_lat x)),
     Int_val (int (degrees (fix_lon x) * 100 + minutes (fix_lon x))), Pos_val q, Int_val (int (fraction (fix_lon x))),
     Pos_val (q + places (fix_lon x)), Char_val (hemisphere (fix_lon x)),
     Float_val (decimal_value (fix_speed x)), Float_val (decimal_value (fix_course x)), Int_val (int (fix_date x)),
     Float_val (decimal_value (fix_variation x)), Char_val (CHR ''E'')]"
proof -
  let ?c = "CHR '',''"
  let ?t5 = "fix_checksum x @ rest"
  let ?t4 = "dec 6 (fix_date x) @ ?c # decimal_text (fix_variation x) @ ?c # CHR ''E'' # CHR ''*'' # ?t5"
  let ?t3 = "decimal_text (fix_speed x) @ ?c # decimal_text (fix_course x) @ ?c # ?t4"
  let ?t2 = "coord_text (fix_lon x) @ ?c # ?t3" and ?t1 = "coord_text (fix_lat x) @ ?c # coord_text (fix_lon x) @ ?c # ?t3"
  let ?tail = "[Conv_lf, comma, Conv_lf, comma, Conv_d None, comma, Conv_lf, comma, Conv_c, Lit (CHR ''*'')]"
  have printed: "fix_fields x @ rest = dec 6 (fix_time x) @ ?c # CHR ''A'' # ?c # ?t1" by (simp add: fix_fields_def)
  have ok: "coord_ok (fix_lat x)" "coord_ok (fix_lon x)" "decimal_ok (fix_speed x)" "decimal_ok (fix_course x)"
      "decimal_ok (fix_variation x)" "fix_time x < 10 ^ 6" "fix_date x < 10 ^ 6" using assms(1) by (simp_all add: fix_ok_def)
  have tail: "scan_convs n ?tail ?t3 = Some
      [Float_val (decimal_value (fix_speed x)), Float_val (decimal_value (fix_course x)), Int_val (int (fix_date x)),
       Float_val (decimal_value (fix_variation x)), Char_val (CHR ''E'')]"
    using int32_small [OF ok(7)] ok(3-5) by (simp add: comma_def scan_dw_dec(1) scan_lf_decimal number_ends_def)
  have len: "length ?t1 \<le> n" "length ?t2 \<le> n" unfolding assms(2) printed by simp_all
  obtain q where lon: "scan_convs n (coord_format @ ?tail) ?t2 = map_option (append
      [Int_val (int (degrees (fix_lon x) * 100 + minutes (fix_lon x))), Pos_val q, Int_val (int (fraction (fix_lon x))),
       Pos_val (q + places (fix_lon x)), Char_val (hemisphere (fix_lon x))]) (scan_convs n ?tail ?t3)"
    using scan_coord [OF ok(2) len(2)] by blast
  obtain p where lat: "scan_convs n (coord_format @ coord_format @ ?tail) ?t1 = map_option (append
      [Int_val (int (degrees (fix_lat x) * 100 + minutes (fix_lat x))), Pos_val p, Int_val (int (fraction (fix_lat x))),
       Pos_val (p + places (fix_lat x)), Char_val (hemisphere (fix_lat x))]) (scan_convs n (coord_format @ ?tail) ?t2)"
    using scan_coord [OF ok(1) len(1)] by blast
  have time: "scan_dw (Some 6) (dec 6 (fix_time x) @ ?c # CHR ''A'' # ?c # ?t1) = Some (int (fix_time x), ?c # CHR ''A'' # ?c # ?t1)"
    by (rule scan_dw_dec(2)) (use ok(6) in simp_all)
  have "scan_convs n gprmc_format (fix_fields x @ rest) = map_option (append [Int_val (int (fix_time x)), Char_val (CHR ''A'')])
      (scan_convs n (coord_format @ coord_format @ ?tail) ?t1)"
    unfolding printed gprmc_format_def using time int32_small [OF ok(6)]
    by (cases "scan_convs n (coord_format @ coord_format @ ?tail) ?t1") (simp_all add: comma_def)
  then show ?thesis unfolding lat lon tail by (intro exI [of _ p] exI [of _ q]) simp
qed

lemma parse_fix:
  assumes "fix_ok x"
  shows "parseGPRMC (fix_fields x @ rest) now l = Some (Some [Location (fix_location now l x)])"
proof -
  have "c_str (fix_fields x @ rest) = fix_fields x @ c_str rest"
    using fix_fields_plain(1) [OF assms] by (subst c_str_def, subst takeWhile_append2) (auto simp: c_str_def)
  moreover obtain vs p q where scan: "scan_convs (length (fix_fields x @ c_str rest)) gprmc_format (fix_fields x @ c_str rest) = Some vs"
    and vs: "vs = [Int_val (int (fix_time x)), Char_val (CHR ''A''),
     Int_val (int (degrees (fix_lat x) * 100 + minutes (fix_lat x))), Pos_val p, Int_val (int (fraction (fix_lat x))),
     Pos_val (p + places (fix_lat x)), Char_val (hemisphere (fix_lat x)),
     Int_val (int (degrees (fix_lon x) * 100 + minutes (fix_lon x))), Pos_val q, Int_val (int (fraction (fix_lon x))),
     Pos_val (q + places (fix_lon x)), Char_val (hemisphere (fix_lon x)),
     Float_val (decimal_value (fix_speed x)), Float_val (decimal_value (fix_course x)), Int_val (int (fix_date x)),
     Float_val (decimal_value (fix_variation x)), Char_val (CHR ''E'')]"
    using scan_fix [OF assms refl, of "c_str rest"] by blast
  ultimately have scanned: "sscanf gprmc_format (fix_fields x @ rest) = Some vs" by (simp add: sscanf_def Let_def)
  have coords: "coord_ok (fix_lat x)" "coord_ok (fix_lon x)" using assms by (simp_all add: fix_ok_def)
  obtain lat where lat: "convertDMMF (int (degrees (fix_lat x) * 100 + minutes (fix_lat x))) (int (fraction (fix_lat x)))
      (places (fix_lat x)) = Some lat" "lat * nmea_sign (hemisphere (fix_lat x)) (CHR ''N'') = coord_value (CHR ''N'') (fix_lat x)"
    using convertDMMF_coord [OF coords(1)] by auto
  obtain lon where lon: "convertDMMF (int (degrees (fix_lon x) * 100 + minutes (fix_lon x))) (int (fraction (fix_lon x)))
      (places (fix_lon x)) = Some lon" "lon * nmea_sign (hemisphere (fix_lon x)) (CHR ''E'') = coord_value (CHR ''E'') (fix_lon x)"
    using convertDMMF_coord [OF coords(2)] by auto
  have "assigned vs = 13" by (simp add: vs assigned_def)
  then show ?thesis unfolding parseGPRMC_def scanned using lat lon by (simp add: vs fix_location_def)
qed

lemma testNmeaField_app: "testNmeaField (v @ sep # rest) v sep = Some rest"
  by (induction v) simp_all

lemma end_line_fix:
  assumes "fix_ok x" and "m_buffer l = fix_sentence x"
  shows "end_line now junk l =
    Some ([Location (fix_location now l x), Nmea (utc_now now) (fix_sentence x)], l\<lparr>m_buffer := []\<rparr>)"
proof -
  let ?body = "''GPRMC'' @ CHR '','' # fix_fields x"
  have n: "length (m_buffer l) - 3 = length ?body" and drop: "drop 1 (m_buffer l) @ junk = ?body @ [CHR 0x0D, CHR 0x0A] @ junk"
    by (simp_all add: assms(2) fix_sentence_def)
  have "testNmeaField (take (length ?body) (?body @ [CHR 0x0D, CHR 0x0A] @ junk)) ''GPRMC'' (CHR '','') = Some (fix_fields x)"
    using testNmeaField_app [of "''GPRMC''" "CHR '',''" "fix_fields x"] by simp
  moreover have "List.drop (length ?body - length (fix_fields x)) (?body @ [CHR 0x0D, CHR 0x0A] @ junk) =
      fix_fields x @ [CHR 0x0D, CHR 0x0A] @ junk" by simp
  ultimately have "parse (drop 1 (m_buffer l) @ junk) (length (m_buffer l) - 3) now l =
      Some (Some ([Location (fix_location now l x)], l))"
    unfolding parse_def n drop using parse_fix [OF assms(1)] by simp
  then show ?thesis by (simp add: end_line_def assms(2))
qed

section \<open>Streams of fixes\<close>

text \<open>The positions among the reports.\<close>

fun positions :: "report list \<Rightarrow> (rat \<times> rat) list" where
  "positions [] = []"
| "positions (Location loc # rs) = (latitudeDegrees loc, longitudeDegrees loc) # positions rs"
| "positions (_ # rs) = positions rs"

lemma positions_append [simp]: "positions (rs @ rs') = positions rs @ positions rs'"
  by (induction rs rule: positions.induct) auto

text \<open>A stream of fixes comes through. When the bytes that the listener consumes are the sentences of a list of fixes,
  one after the other, then however they are cut into reads, whatever the clock shows and whatever memory
  follows the buffer, no behaviour is undefined, exactly one position is reported for each fix, in the order of the fixes
  and with the exact coordinates, and the buffer is empty at the end.\<close>

lemma fixes_come_through:
  assumes "m_buffer l = []" and "map byte_of bs = concat (map fix_sentence xs)" and "list_all fix_ok xs"
  shows "\<exists>rs. consume_bytes bs l = Some (rs, l) \<and>
    positions rs = map (\<lambda>x. (coord_value (CHR ''N'') (fix_lat x), coord_value (CHR ''E'') (fix_lon x))) xs"
  using assms(2,3)
proof (induction xs arbitrary: bs)
  case (Cons x xs)
  then obtain bs1 bs2 where bs: "bs = bs1 @ bs2" "map byte_of bs1 = fix_sentence x" "map byte_of bs2 = concat (map fix_sentence xs)"
    by (auto simp: map_eq_append_conv)
  let ?body = "''GPRMC,'' @ fix_fields x @ [CHR 0x0D]"
  have x: "fix_ok x" using Cons.prems(2) by simp
  have sentence: "fix_sentence x = CHR ''$'' # ?body @ [CHR ''\<newline>'']" by (simp add: fix_sentence_def)
  moreover have "CHR ''\<newline>'' \<notin> set ?body" using fix_fields_plain(2) [OF x] by simp
  moreover have "length ?body < 1023" using x by (simp add: fix_ok_def fix_sentence_def)
  ultimately obtain now junk where "consume_bytes bs1 l = end_line now junk (l\<lparr>m_buffer := fix_sentence x\<rparr>)"
    using consume_sentence [OF assms(1), of bs1 ?body] bs(2) by metis
  then have one: "consume_bytes bs1 l =
      Some ([Location (fix_location now (l\<lparr>m_buffer := fix_sentence x\<rparr>) x), Nmea (utc_now now) (fix_sentence x)], l)"
    using end_line_fix [OF x, of "l\<lparr>m_buffer := fix_sentence x\<rparr>"] assms(1) by simp
  obtain rs where rest: "consume_bytes bs2 l = Some (rs, l)"
    "positions rs = map (\<lambda>x. (coord_value (CHR ''N'') (fix_lat x), coord_value (CHR ''E'') (fix_lon x))) xs"
    using Cons.IH [OF bs(3)] Cons.prems(2) by auto
  show ?case using consume_bytes_then [OF one, of bs2] rest by (simp add: bs(1) fix_location_def)
qed (use assms(1) in simp)

definition demo_fix :: gps_fix where
  "demo_fix = \<lparr>fix_time = 195206,
     fix_lat = \<lparr>degrees = 10, minutes = 30, places = 4, fraction = 5000, hemisphere = CHR ''N''\<rparr>,
     fix_lon = \<lparr>degrees = 100, minutes = 0, places = 4, fraction = 0, hemisphere = CHR ''W''\<rparr>,
     fix_speed = \<lparr>negative = False, whole = 173, digits = 1, part = 8\<rparr>, fix_course = \<lparr>negative = False, whole = 231, digits = 1, part = 8\<rparr>, fix_date = 10420,
     fix_variation = \<lparr>negative = False, whole = 4, digits = 1, part = 2\<rparr>, fix_checksum = ''47''\<rparr>"

lemma demo_fix_sentence:
  "fix_sentence demo_fix = ''$GPRMC,195206,A,1030.5000,N,10000.0000,W,173.8,231.8,010420,4.2,E*47'' @ [CHR 0x0D, CHR 0x0A]"
  by (simp add: fix_sentence_def fix_fields_def demo_fix_def coord_text_def decimal_text_def show_padded_def Let_def
      show_base.simps digit_char_def) code_simp

lemma demo_fix_ok: "fix_ok demo_fix"
  unfolding fix_ok_def demo_fix_sentence by (simp add: demo_fix_def coord_ok_def decimal_ok_def)

section \<open>Lines that are no sentence\<close>

text \<open>A line that does not contain a dollar sign makes the listener write before the start of its buffer.\<close>

lemma consume_skip:
  "m_buffer l = [] \<Longrightarrow> CHR ''$'' \<notin> set cs \<Longrightarrow> CHR ''\<newline>'' \<notin> set cs \<Longrightarrow> consume_all now junk cs l = Some ([], l)"
  by (induction cs) (auto simp: consume_def)

lemma line_without_sentence_undefined:
  assumes "m_buffer l = []" and "CHR ''$'' \<notin> set cs" and "CHR ''\<newline>'' \<notin> set cs"
  shows "consume_all now junk (cs @ [CHR ''\<newline>'']) l = None"
proof -
  have "consume_bytes (map (\<lambda>c. (now, junk, c)) cs) l = Some ([], l)"
    using consume_skip [OF assms] by (simp add: consume_all_bytes)
  moreover have "consume now junk (CHR ''\<newline>'') l = None" using assms(1) by (simp add: consume_def end_line_def parse_def)
  ultimately show ?thesis using consume_bytes_silent by (simp add: consume_all_bytes)
qed

end
