(* ===== verification/Gnss_Service.thy ===== *)
theory Gnss_Service
  imports Gnss_Listener_Props
begin

text \<open>
  The GPS service around the listener: the worker thread that reads the device and takes commands
  (\<^verbatim>\<open>gnss/gnss_hw_conn.cpp\<close>), the sink that passes reports on to the framework's callback
  (\<^verbatim>\<open>gnss/data_sink.cpp\<close>), and the service calls (\<^verbatim>\<open>gnss/gnss.cpp\<close>). The service has one thread for its
  calls, so calls do not overlap; the worker thread runs between them, and during \<^verbatim>\<open>cleanup\<close>, which waits for it.
\<close>

section \<open>The worker thread\<close>

definition kCMD_QUIT :: char where "kCMD_QUIT = CHR ''q''"
definition kCMD_START :: char where "kCMD_START = CHR ''a''"
definition kCMD_STOP :: char where "kCMD_STOP = CHR ''o''"

record worker =
  running :: bool
  listener :: GnssHwListener

definition worker_new :: "bool \<Rightarrow> worker" where
  "worker_new flag = \<lparr>running = False, listener = GnssHwListener_new flag\<rparr>"

text \<open>One successful read of the device: the clock, the memory behind the listener's buffer, and the bytes.\<close>

type_synonym dev_read = "clock_now \<times> string \<times> string"

text \<open>What a wake-up finds: a failed wait, an error of a descriptor, input of the device (the reads until one fails), a
  command (\<open>None\<close> if the byte cannot be read), or another descriptor.\<close>

datatype worker_event = Wait_failed | Dev_error | Dev_input "dev_read list" | Cmd_error | Cmd_input "char option" | Other_fd

fun read_loop :: "dev_read list \<Rightarrow> worker \<Rightarrow> (report list \<times> worker) option" where
  "read_loop [] w = Some ([], w)"
| "read_loop ((now, junk, bytes) # reads) w =
     (if running w
      then do {
        (rs, l) \<leftarrow> consume_all now junk bytes (listener w);
        (rs', w) \<leftarrow> read_loop reads (w\<lparr>listener := l\<rparr>);
        Some (rs @ rs', w) }
      else read_loop reads w)"

text \<open>The command switch: the inner \<open>None\<close> ends the thread, the outer one aborts the process.\<close>

definition do_command :: "char option \<Rightarrow> worker \<Rightarrow> (report list \<times> worker option) option" where
  "do_command cmd w =
     (if cmd = Some kCMD_QUIT then Some ([], None)
      else if cmd = Some kCMD_START then
        Some (if \<not> running w
              then ([Status SESSION_BEGIN], Some (w\<lparr>running := True, listener := reset (listener w)\<rparr>))
              else ([], Some w))
      else if cmd = Some kCMD_STOP then
        Some (if running w then ([Status SESSION_END], Some (w\<lparr>running := False\<rparr>)) else ([], Some w))
      else None)"

fun without_input :: "worker_event \<Rightarrow> bool" where
  "without_input (Dev_input _) = False"
| "without_input (Cmd_input _) = False"
| "without_input _ = True"

definition handle_event :: "worker_event \<Rightarrow> worker \<Rightarrow> (report list \<times> worker option) option" where
  "handle_event ev w =
     (case ev of
        Wait_failed \<Rightarrow> Some ([], Some w)
      | Dev_error \<Rightarrow> None
      | Dev_input reads \<Rightarrow> map_option (map_prod id Some) (read_loop reads w)
      | Cmd_error \<Rightarrow> None
      | Cmd_input cmd \<Rightarrow> do_command cmd w
      | Other_fd \<Rightarrow> Some ([], Some w))"

fun workerThread :: "worker_event list \<Rightarrow> worker \<Rightarrow> (report list \<times> worker option) option" where
  "workerThread [] w = Some ([], Some w)"
| "workerThread (ev # evs) w = do {
     (rs, w') \<leftarrow> handle_event ev w;
     case w' of
       None \<Rightarrow> Some (rs, None)
     | Some w \<Rightarrow> do {
         (rs', w) \<leftarrow> workerThread evs w;
         Some (rs @ rs', w) } }"

section \<open>The service\<close>

datatype thread_phase = Starting | Looping | Finished

record conn =
  phase :: thread_phase
  pending :: string           \<comment> \<open>commands written and not read yet\<close>
  wk :: worker

datatype callback_call = Set_capabilities | Set_name | Set_system_info int | Report report

record Gnss20 =
  m_gnssHwConn :: "conn option"
  cb20 :: bool
  warmedUpTime :: int         \<comment> \<open>milliseconds of the steady clock\<close>
  cleaning :: bool            \<comment> \<open>\<^verbatim>\<open>cleanup\<close> waits for the worker thread\<close>

definition Gnss20_new :: Gnss20 where
  "Gnss20_new = \<lparr>m_gnssHwConn = None, cb20 = False, warmedUpTime = 0, cleaning = False\<rparr>"

definition sink_start :: "int \<Rightarrow> Gnss20 \<Rightarrow> Gnss20" where
  "sink_start now g = g\<lparr>warmedUpTime := now + 3500\<rparr>"

definition isWarmedUd :: "int \<Rightarrow> Gnss20 \<Rightarrow> bool" where
  "isWarmedUd now g \<longleftrightarrow> warmedUpTime g \<le> now"

fun sink_passes :: "int \<Rightarrow> Gnss20 \<Rightarrow> report \<Rightarrow> bool" where
  "sink_passes now g (Location _) \<longleftrightarrow> cb20 g \<and> isWarmedUd now g"
| "sink_passes now g (SvStatus _) \<longleftrightarrow> cb20 g"
| "sink_passes now g (Nmea _ _) \<longleftrightarrow> cb20 g \<and> isWarmedUd now g"
| "sink_passes now g (Status _) \<longleftrightarrow> cb20 g"

definition deliver :: "int \<Rightarrow> Gnss20 \<Rightarrow> report list \<Rightarrow> callback_call list" where
  "deliver now g rs = map Report (filter (sink_passes now g) rs)"

text \<open>\<open>opens\<close> says whether the device and the socket pair can be opened; \<open>flag\<close> is what the new listener's flags hold.\<close>

definition open_conn :: "bool \<Rightarrow> bool \<Rightarrow> Gnss20 \<Rightarrow> bool \<times> Gnss20" where
  "open_conn opens flag g =
     (if m_gnssHwConn g \<noteq> None then (True, g)
      else if opens
      then (True, g\<lparr>m_gnssHwConn := Some \<lparr>phase = Starting, pending = [], wk = worker_new flag\<rparr>\<rparr>)
      else (False, g))"

definition setCallback_2_0 :: "bool \<Rightarrow> bool \<Rightarrow> bool \<Rightarrow> Gnss20 \<Rightarrow> bool \<times> callback_call list \<times> Gnss20" where
  "setCallback_2_0 callback opens flag g =
     (if \<not> callback then (False, [], g)
      else case open_conn opens flag g of (ok, g) \<Rightarrow>
        if ok then (True, [Set_capabilities, Set_name, Set_system_info 2020], g\<lparr>cb20 := True\<rparr>) else (False, [], g))"

definition send_command :: "char \<Rightarrow> bool \<Rightarrow> conn \<Rightarrow> bool \<times> conn" where
  "send_command cmd written c = (written, if written then c\<lparr>pending := pending c @ [cmd]\<rparr> else c)"

definition gnss_start :: "int \<Rightarrow> bool \<Rightarrow> Gnss20 \<Rightarrow> bool \<times> Gnss20" where
  "gnss_start now written g =
     (case m_gnssHwConn g of
        None \<Rightarrow> (False, g)
      | Some c \<Rightarrow> (case send_command kCMD_START written c of (ok, c) \<Rightarrow> (ok, (sink_start now g)\<lparr>m_gnssHwConn := Some c\<rparr>)))"

definition gnss_stop :: "bool \<Rightarrow> Gnss20 \<Rightarrow> bool \<times> Gnss20" where
  "gnss_stop written g =
     (case m_gnssHwConn g of
        None \<Rightarrow> (False, g)
      | Some c \<Rightarrow> (case send_command kCMD_STOP written c of (ok, c) \<Rightarrow> (ok, g\<lparr>m_gnssHwConn := Some c\<rparr>)))"

text \<open>\<^verbatim>\<open>cleanup\<close> first asks the worker to quit, then waits for the end of its thread.\<close>

definition cleanup_call :: "bool \<Rightarrow> Gnss20 \<Rightarrow> Gnss20" where
  "cleanup_call written g =
     (case m_gnssHwConn g of
        None \<Rightarrow> g\<lparr>cb20 := False\<rparr>
      | Some c \<Rightarrow> g\<lparr>m_gnssHwConn := Some (snd (send_command kCMD_QUIT written c)), cleaning := True\<rparr>)"

definition cleanup_return :: "Gnss20 \<Rightarrow> Gnss20" where
  "cleanup_return g =
     (case m_gnssHwConn g of
        Some c \<Rightarrow> if cleaning g \<and> phase c = Finished then g\<lparr>m_gnssHwConn := None, cb20 := False, cleaning := False\<rparr> else g
      | None \<Rightarrow> g)"

text \<open>A step of the worker thread: it starts, or handles an event. A command event takes the first command that
  was written.\<close>

definition thread_begin :: "int \<Rightarrow> Gnss20 \<Rightarrow> callback_call list \<times> Gnss20" where
  "thread_begin now g =
     (case m_gnssHwConn g of
        Some c \<Rightarrow> if phase c = Starting
                  then (deliver now g [Status ENGINE_ON], g\<lparr>m_gnssHwConn := Some (c\<lparr>phase := Looping\<rparr>)\<rparr>) else ([], g)
      | None \<Rightarrow> ([], g))"

definition thread_handle :: "int \<Rightarrow> worker_event \<Rightarrow> conn \<Rightarrow> Gnss20 \<Rightarrow> (callback_call list \<times> Gnss20) option" where
  "thread_handle now ev c g = do {
     (rs, w) \<leftarrow> handle_event ev (wk c);
     Some (case w of
             Some w \<Rightarrow> (deliver now g rs, g\<lparr>m_gnssHwConn := Some (c\<lparr>wk := w\<rparr>)\<rparr>)
           | None \<Rightarrow> (deliver now g (rs @ [Status ENGINE_OFF]), g\<lparr>m_gnssHwConn := Some (c\<lparr>phase := Finished\<rparr>)\<rparr>)) }"

datatype service_op =
    Set_callback bool bool bool
  | Start bool
  | Stop bool
  | Cleanup bool
  | Cleanup_return
  | Thread_begin
  | Thread_read dev_read
  | Thread_command
  | Thread_event worker_event

text \<open>A step at a time: the result of the call (\<^verbatim>\<open>true\<close> for what has none), the callbacks, and the new state. While
  \<^verbatim>\<open>cleanup\<close> waits no other call runs.\<close>

definition service_step :: "int \<Rightarrow> service_op \<Rightarrow> Gnss20 \<Rightarrow> (bool \<times> callback_call list \<times> Gnss20) option" where
  "service_step now op g =
     (case op of
        Set_callback cb opens flag \<Rightarrow> Some (if cleaning g then (False, [], g) else setCallback_2_0 cb opens flag g)
      | Start written \<Rightarrow>
          Some (if cleaning g then (False, [], g) else case gnss_start now written g of (ok, g) \<Rightarrow> (ok, [], g))
      | Stop written \<Rightarrow> Some (if cleaning g then (False, [], g) else case gnss_stop written g of (ok, g) \<Rightarrow> (ok, [], g))
      | Cleanup written \<Rightarrow> Some (True, [], if cleaning g then g else cleanup_call written g)
      | Cleanup_return \<Rightarrow> Some (True, [], cleanup_return g)
      | Thread_begin \<Rightarrow> Some (True, thread_begin now g)
      | Thread_read r \<Rightarrow>
          (case m_gnssHwConn g of
             Some c \<Rightarrow> if phase c = Looping then map_option (Pair True) (thread_handle now (Dev_input [r]) c g) else Some (True, [], g)
           | None \<Rightarrow> Some (True, [], g))
      | Thread_command \<Rightarrow>
          (case m_gnssHwConn g of
             Some c \<Rightarrow>
               (case pending c of
                  [] \<Rightarrow> Some (True, [], g)
                | cmd # rest \<Rightarrow>
                    if phase c = Looping
                    then map_option (Pair True) (thread_handle now (Cmd_input (Some cmd)) (c\<lparr>pending := rest\<rparr>) g)
                    else Some (True, [], g))
           | None \<Rightarrow> Some (True, [], g))
      | Thread_event ev \<Rightarrow>
          (case m_gnssHwConn g of
             Some c \<Rightarrow>
               if phase c = Looping \<and> without_input ev
               then map_option (Pair True) (thread_handle now ev c g) else Some (True, [], g)
           | None \<Rightarrow> Some (True, [], g)))"

section \<open>Sessions\<close>

text \<open>The reports of a worker thread as a word of a regular language: data only inside a session, sessions begin and end in turn.
  The result is whether a session is open at the end.\<close>

fun sessions :: "bool \<Rightarrow> report list \<Rightarrow> bool option" where
  "sessions open_now [] = Some open_now"
| "sessions open_now (Status SESSION_BEGIN # rs) = (if open_now then None else sessions True rs)"
| "sessions open_now (Status SESSION_END # rs) = (if open_now then sessions False rs else None)"
| "sessions open_now (Status _ # rs) = None"
| "sessions open_now (_ # rs) = (if open_now then sessions open_now rs else None)"

fun is_data :: "report \<Rightarrow> bool" where
  "is_data (Status _) = False"
| "is_data _ = True"

lemma sessions_append: "sessions b (rs @ rs') = Option.bind (sessions b rs) (\<lambda>b. sessions b rs')"
  by (induction b rs rule: sessions.induct) auto

lemma sessions_data: "list_all is_data rs \<Longrightarrow> sessions True rs = Some True"
proof (induction rs)
  case (Cons r rs)
  then show ?case by (cases r) auto
qed simp

lemma parse_data: "parse s n now l = Some (Some (rs, l')) \<Longrightarrow> list_all is_data rs"
  by (auto simp: parse_def parseGPRMC_def parseGPGGA_def Let_def bind_eq_Some_conv split: option.splits if_splits)

lemma consume_data: "consume now junk c l = Some (rs, l') \<Longrightarrow> list_all is_data rs"
  by (auto simp: consume_def end_line_def Let_def bind_eq_Some_conv split: if_splits option.splits dest!: parse_data)

lemma consume_all_data: "consume_all now junk cs l = Some (rs, l') \<Longrightarrow> list_all is_data rs"
  by (induction cs arbitrary: l rs l') (auto simp: bind_eq_Some_conv dest: consume_data)

lemma read_loop_sessions:
  "read_loop reads w = Some (rs, w') \<Longrightarrow> sessions (running w) rs = Some (running w') \<and> running w' = running w \<and> list_all is_data rs"
proof (induction reads w arbitrary: rs w' rule: read_loop.induct)
  case (2 now junk bytes reads w)
  show ?case
  proof (cases "running w")
    case True
    then obtain rs1 l rs2 where l: "consume_all now junk bytes (listener w) = Some (rs1, l)"
      "read_loop reads (w\<lparr>listener := l\<rparr>) = Some (rs2, w')" "rs = rs1 @ rs2"
      using "2.prems" by (auto simp: bind_eq_Some_conv)
    then have "running w'" "list_all is_data rs2" using "2.IH"(1) [OF True l(1) [unfolded prod.inject] _ l(2)] True by auto
    then show ?thesis using l(3) consume_all_data [OF l(1)] True sessions_data by auto
  next
    case False
    then show ?thesis using "2.IH"(2) [OF False] "2.prems" by simp
  qed
qed simp

lemma handle_sessions:
  assumes "handle_event ev w = Some (rs, w')"
  shows "\<exists>b. sessions (running w) rs = Some b \<and> (\<forall>v. w' = Some v \<longrightarrow> running v = b)"
  using assms by (cases ev) (auto simp: handle_event_def do_command_def dest!: read_loop_sessions split: if_splits)

text \<open>The reports of a worker thread. Whatever events it handles, it reports data only inside a session, and the
  beginnings and ends of sessions alternate, starting with a beginning; a session is open exactly while the
  thread is in its running state.\<close>

theorem worker_sessions:
  assumes "workerThread evs (worker_new flag) = Some (rs, w)"
  shows "\<exists>b. sessions False rs = Some b \<and> (\<forall>v. w = Some v \<longrightarrow> running v = b)"
proof -
  have "\<exists>b. sessions (running u) rs = Some b \<and> (\<forall>v. w = Some v \<longrightarrow> running v = b)"
    if "workerThread evs u = Some (rs, w)" for evs u rs w
    using that
  proof (induction evs arbitrary: u rs)
    case (Cons ev evs)
    then obtain rs1 u1 where u1: "handle_event ev u = Some (rs1, u1)" by (cases "handle_event ev u") auto
    show ?case
    proof (cases u1)
      case None
      then show ?thesis using Cons.prems u1 handle_sessions [OF u1] by auto
    next
      case (Some v)
      then obtain rs2 where rs: "workerThread evs v = Some (rs2, w)" "rs = rs1 @ rs2"
        using Cons.prems u1 by (auto simp: bind_eq_Some_conv)
      then show ?thesis using Cons.IH [OF rs(1)] handle_sessions [OF u1] Some by (auto simp: sessions_append)
    qed
  qed auto
  from this [OF assms] show ?thesis by (simp add: worker_new_def)
qed

lemma worker_sessions_witness:
  "\<exists>b rs. workerThread [Cmd_input (Some kCMD_START), Cmd_input (Some kCMD_STOP)] (worker_new False) =
      Some (rs, Some (worker_new False)) \<and> rs = [Status SESSION_BEGIN, Status SESSION_END] \<and> sessions False rs = Some b"
proof -
  have run: "workerThread [Cmd_input (Some kCMD_START), Cmd_input (Some kCMD_STOP)] (worker_new False) =
      Some ([Status SESSION_BEGIN, Status SESSION_END], Some (worker_new False))"
    by (simp add: handle_event_def do_command_def kCMD_START_def kCMD_STOP_def kCMD_QUIT_def worker_new_def reset_def
        GnssHwListener_new_def)
  with worker_sessions [OF run] show ?thesis by blast
qed

section \<open>The service\<close>

text \<open>A history of the service: time, step, result and callbacks.\<close>

type_synonym service_history = "(int \<times> service_op \<times> bool \<times> callback_call list) list"

inductive service_run :: "service_history \<Rightarrow> int \<Rightarrow> Gnss20 \<Rightarrow> bool" where
  fresh: "service_run [] now Gnss20_new"
| step: "service_run h t g \<Longrightarrow> t \<le> now \<Longrightarrow> service_step now op g = Some (ok, out, g') \<Longrightarrow>
    service_run (h @ [(now, op, ok, out)]) now g'"

fun needs_warm_up :: "report \<Rightarrow> bool" where
  "needs_warm_up (Location _) = True"
| "needs_warm_up (Nmea _ _) = True"
| "needs_warm_up _ = False"

definition started_at :: "service_history \<Rightarrow> int set" where
  "started_at h = {t. \<exists>written out. (t, Start written, True, out) \<in> set h}"

definition started_inv :: "service_history \<Rightarrow> int \<Rightarrow> Gnss20 \<Rightarrow> bool" where
  "started_inv h t g \<longleftrightarrow> (\<forall>t0\<in>started_at h. t0 \<le> t \<and> t0 + 3500 \<le> warmedUpTime g) \<and>
     (\<forall>c. m_gnssHwConn g = Some c \<longrightarrow> running (wk c) \<or> kCMD_START \<in> set (pending c) \<longrightarrow> started_at h \<noteq> {})"

lemma started_at_snoc:
  "started_at (h @ [(now, op, ok, out)]) = started_at h \<union> (if ok then case op of Start _ \<Rightarrow> {now} | _ \<Rightarrow> {} else {})"
  by (auto simp: started_at_def split: service_op.splits)

text \<open>What a step of the worker changes.\<close>

lemma handle_running:
  "handle_event ev w = Some (rs, Some w') \<Longrightarrow> running w' \<Longrightarrow> running w \<or> ev = Cmd_input (Some kCMD_START)"
  by (cases ev) (auto simp: handle_event_def do_command_def dest!: read_loop_sessions split: if_splits)

lemma thread_handle_changes:
  assumes "thread_handle now ev c g = Some (out, g')"
  shows "warmedUpTime g' = warmedUpTime g \<and> (\<exists>c'. m_gnssHwConn g' = Some c' \<and> pending c' = pending c \<and>
    (running (wk c') \<longrightarrow> running (wk c) \<or> ev = Cmd_input (Some kCMD_START)))"
proof -
  obtain rs w where w: "handle_event ev (wk c) = Some (rs, w)" using assms by (auto simp: thread_handle_def bind_eq_Some_conv)
  show ?thesis
  proof (cases w)
    case None
    then show ?thesis using assms w by (auto simp: thread_handle_def)
  next
    case (Some v)
    then show ?thesis using assms w handle_running [of ev "wk c" rs v] by (auto simp: thread_handle_def)
  qed
qed

lemma started_inv_quiet:
  assumes "started_inv h t g" and "t \<le> now" and "warmedUpTime g' = warmedUpTime g" and "\<forall>w. op \<noteq> Start w"
    and "\<And>c. m_gnssHwConn g' = Some c \<Longrightarrow> running (wk c) \<or> kCMD_START \<in> set (pending c) \<Longrightarrow>
      \<exists>c0. m_gnssHwConn g = Some c0 \<and> (running (wk c0) \<or> kCMD_START \<in> set (pending c0))"
  shows "started_inv (h @ [(now, op, ok, out)]) now g'"
  using assms by (cases op) (fastforce simp: started_inv_def started_at_snoc)+

lemma service_step_inv:
  assumes inv: "started_inv h t g" and "t \<le> now" and "service_step now op g = Some (ok, out, g')"
  shows "started_inv (h @ [(now, op, ok, out)]) now g'"
proof (cases op)
  case (Start written)
  then show ?thesis using assms
    by (auto simp: service_step_def gnss_start_def send_command_def sink_start_def started_inv_def started_at_snoc
        split: if_splits option.splits)
next
  case (Thread_read r)
  show ?thesis
    by (rule started_inv_quiet [OF assms(1,2)])
      (use assms(3) Thread_read in \<open>auto simp: service_step_def split: option.splits if_splits dest!: thread_handle_changes\<close>)
next
  case Thread_command
  show ?thesis
    by (rule started_inv_quiet [OF assms(1,2)])
      (use assms(3) Thread_command in \<open>auto simp: service_step_def split: option.splits if_splits list.splits dest!: thread_handle_changes\<close>)
next
  case (Thread_event ev)
  show ?thesis
    by (rule started_inv_quiet [OF assms(1,2)])
      (use assms(3) Thread_event in \<open>auto simp: service_step_def split: option.splits if_splits dest!: thread_handle_changes\<close>)
qed (rule started_inv_quiet [OF assms(1,2)], use assms(3) in \<open>auto simp: service_step_def setCallback_2_0_def open_conn_def worker_new_def
      gnss_stop_def send_command_def cleanup_call_def cleanup_return_def thread_begin_def kCMD_START_def kCMD_STOP_def kCMD_QUIT_def
      split: option.splits if_splits prod.splits\<close>)+

lemma service_run_inv: "service_run h t g \<Longrightarrow> started_inv h t g"
proof (induction rule: service_run.induct)
  case (fresh now)
  then show ?case by (simp add: started_inv_def started_at_def Gnss20_new_def)
next
  case (step h t g now op ok out g')
  then show ?case using service_step_inv by blast
qed

lemma deliver_mem: "Report r \<in> set (deliver now g rs) \<longleftrightarrow> r \<in> set rs \<and> sink_passes now g r"
  by (auto simp: deliver_def)

text \<open>Data reach the callback only from a read of a running session.\<close>

lemma handle_data:
  assumes "handle_event ev w = Some (rs, w')" and "r \<in> set rs" and "needs_warm_up r"
  shows "running w"
proof (cases ev)
  case (Dev_input reads)
  then obtain v where v: "read_loop reads w = Some (rs, v)" using assms(1) by (auto simp: handle_event_def)
  show ?thesis
  proof (rule ccontr)
    assume "\<not> running w"
    then have "sessions False rs \<noteq> None" "list_all is_data rs" using read_loop_sessions [OF v] by auto
    then show False using assms(2,3) by (cases rs; cases "hd rs") auto
  qed
qed (use assms in \<open>auto simp: handle_event_def do_command_def split: if_splits\<close>)

lemma thread_handle_data:
  assumes "thread_handle now ev c g = Some (out, g')" and "Report r \<in> set out" and "needs_warm_up r"
  shows "running (wk c) \<and> sink_passes now g r"
proof -
  obtain rs w where w: "handle_event ev (wk c) = Some (rs, w)" using assms(1) by (auto simp: thread_handle_def bind_eq_Some_conv)
  have "r \<in> set rs \<and> sink_passes now g r"
    using assms w by (cases w) (auto simp: thread_handle_def deliver_mem)
  then show ?thesis using handle_data [OF w _ assms(3)] by blast
qed

lemma service_data:
  assumes "service_step now op g = Some (ok, out, g')" and "Report r \<in> set out" and "needs_warm_up r"
  shows "(\<exists>c. m_gnssHwConn g = Some c \<and> running (wk c)) \<and> sink_passes now g r"
proof (cases op)
  case (Thread_read rd)
  then show ?thesis using assms by (auto simp: service_step_def split: option.splits if_splits dest!: thread_handle_data)
next
  case Thread_command
  then show ?thesis using assms
    by (auto simp: service_step_def split: option.splits if_splits list.splits dest!: thread_handle_data)
next
  case (Thread_event ev)
  then show ?thesis using assms by (auto simp: service_step_def split: option.splits if_splits dest!: thread_handle_data)
qed (use assms in \<open>auto simp: service_step_def setCallback_2_0_def thread_begin_def deliver_mem
      split: option.splits if_splits prod.splits\<close>)

text \<open>Property C25: the service warms up. In every history of calls, worker steps and reads, with a clock that does not run
  backwards, when a position or a sentence is passed to the framework then a callback is set, a start call has
  succeeded before, and every start call that succeeded lies at least 3.5 seconds back.\<close>

theorem service_warms_up:
  assumes "service_run h t g" and "t \<le> now" and "service_step now op g = Some (ok, out, g')"
    and "Report r \<in> set out" and "needs_warm_up r"
  shows "cb20 g \<and> started_at h \<noteq> {} \<and> (\<forall>t0\<in>started_at h. t0 + 3500 \<le> now)"
proof -
  obtain c where c: "m_gnssHwConn g = Some c" "running (wk c)" "sink_passes now g r"
    using service_data [OF assms(3-5)] by blast
  have "cb20 g" "warmedUpTime g \<le> now" using c(3) assms(5) by (cases r; simp add: isWarmedUd_def)+
  moreover have "\<forall>t0\<in>started_at h. t0 + 3500 \<le> warmedUpTime g" "started_at h \<noteq> {}"
    using service_run_inv [OF assms(1)] c(1,2) by (auto simp: started_inv_def)
  ultimately show ?thesis by force
qed

section \<open>From the device to the framework\<close>

fun service_all :: "(int \<times> service_op) list \<Rightarrow> Gnss20 \<Rightarrow> (callback_call list \<times> Gnss20) option" where
  "service_all [] g = Some ([], g)"
| "service_all ((now, op) # ops) g = do {
     (ok, out, g) \<leftarrow> service_step now op g;
     (out', g) \<leftarrow> service_all ops g;
     Some (out @ out', g) }"

fun reports :: "callback_call list \<Rightarrow> report list" where
  "reports [] = []"
| "reports (Report r # cs) = r # reports cs"
| "reports (_ # cs) = reports cs"

lemma reports_map [simp]: "reports (map Report rs) = rs"
  by (induction rs) auto

text \<open>The bytes of a read with the clock and the memory they meet.\<close>

fun timed :: "dev_read \<Rightarrow> timed_byte list" where
  "timed (now, junk, bytes) = map (\<lambda>b. (now, junk, b)) bytes"

lemma byte_of_timed: "map byte_of (timed r) = snd (snd r)"
  by (cases r) (simp add: comp_def)

lemma deliver_all: "cb20 g \<Longrightarrow> isWarmedUd now g \<Longrightarrow> deliver now g rs = map Report rs"
proof -
  assume "cb20 g" "isWarmedUd now g"
  then have "sink_passes now g r" for r by (cases r) simp_all
  then show ?thesis by (simp add: deliver_def)
qed

lemma service_reads:
  assumes "m_gnssHwConn g = Some c" and "phase c = Looping" and "running (wk c)" and "cb20 g"
    and "list_all (\<lambda>(now, r). isWarmedUd now g) reads"
    and "consume_bytes (concat (map (\<lambda>r. timed (snd r)) reads)) (listener (wk c)) = Some (rs, l)"
  shows "\<exists>g'. service_all (map (\<lambda>(t, r). (t, Thread_read r)) reads) g = Some (map Report rs, g')"
  using assms
proof (induction reads arbitrary: g c rs)
  case (Cons rd reads)
  obtain now clk junk bytes where rd: "rd = (now, clk, junk, bytes)" by (cases rd)
  obtain rs1 l1 rs2 where split: "consume_bytes (timed (clk, junk, bytes)) (listener (wk c)) = Some (rs1, l1)"
    "consume_bytes (concat (map (\<lambda>r. timed (snd r)) reads)) l1 = Some (rs2, l)" "rs = rs1 @ rs2"
    using Cons.prems(6) by (auto simp: rd consume_bytes_append bind_eq_Some_conv)
  let ?c = "c\<lparr>wk := wk c\<lparr>listener := l1\<rparr>\<rparr>" and ?g = "\<lambda>c. g\<lparr>m_gnssHwConn := Some c\<rparr>"
  have "read_loop [(clk, junk, bytes)] (wk c) = Some (rs1, wk c\<lparr>listener := l1\<rparr>)"
    using split(1) Cons.prems(3) by (simp add: consume_all_bytes)
  moreover have "isWarmedUd now g" using Cons.prems(5) by (simp add: rd)
  ultimately have "service_step now (Thread_read (clk, junk, bytes)) g = Some (True, map Report rs1, ?g ?c)"
    using Cons.prems(1,2,4) by (simp add: service_step_def thread_handle_def handle_event_def deliver_all del: read_loop.simps)
  moreover have "\<exists>g'. service_all (map (\<lambda>(t, r). (t, Thread_read r)) reads) (?g ?c) = Some (map Report rs2, g')"
    by (rule Cons.IH [where c = ?c]) (use Cons.prems split(2) in \<open>simp_all add: isWarmedUd_def\<close>)
  ultimately show ?case using split(3) by (auto simp: rd)
qed simp


definition demo_gnss :: Gnss20 where
  "demo_gnss = \<lparr>m_gnssHwConn = Some \<lparr>phase = Looping, pending = [], wk = worker_new False\<rparr>, cb20 = True, warmedUpTime = 0, cleaning = False\<rparr>"

definition demo_clock :: clock_now where
  "demo_clock = \<lparr>utc_now = 1, elapsed_now = 2\<rparr>"

text \<open>The sentence of the fix in two reads.\<close>

definition demo_reads :: "(int \<times> dev_read) list" where
  "demo_reads = [(4000, demo_clock, [], take 20 (fix_sentence demo_fix)), (4001, demo_clock, [], drop 20 (fix_sentence demo_fix))]"


lemma demo_history:
  "service_run [(0, Set_callback True True False, True, [Set_capabilities, Set_name, Set_system_info 2020]),
      (1, Thread_begin, True, [Report (Status ENGINE_ON)]), (2, Start True, True, []),
      (3, Thread_command, True, [Report (Status SESSION_BEGIN)])] 3
    \<lparr>m_gnssHwConn = Some \<lparr>phase = Looping, pending = [], wk = \<lparr>running = True, listener = GnssHwListener_new False\<rparr>\<rparr>,
      cb20 = True, warmedUpTime = 3502, cleaning = False\<rparr>"
proof -
  let ?conn = "\<lambda>ph cmds w. Some \<lparr>phase = ph, pending = cmds, wk = w\<rparr>"
  let ?g1 = "\<lparr>m_gnssHwConn = ?conn Starting [] (worker_new False), cb20 = True, warmedUpTime = 0, cleaning = False\<rparr>"
  let ?g2 = "?g1\<lparr>m_gnssHwConn := ?conn Looping [] (worker_new False)\<rparr>"
  let ?g3 = "?g2\<lparr>m_gnssHwConn := ?conn Looping [kCMD_START] (worker_new False), warmedUpTime := 3502\<rparr>"
  note simps = service_step_def setCallback_2_0_def open_conn_def thread_begin_def deliver_def gnss_start_def send_command_def
    sink_start_def thread_handle_def handle_event_def do_command_def kCMD_START_def kCMD_QUIT_def worker_new_def reset_def
    GnssHwListener_new_def Gnss20_new_def
  have "service_run [] 0 Gnss20_new" by (rule service_run.fresh)
  from service_run.step [OF this order_refl, of "Set_callback True True False" True _ ?g1]
  have "service_run [(0, Set_callback True True False, True, [Set_capabilities, Set_name, Set_system_info 2020])] 0 ?g1"
    by (simp add: simps)
  from service_run.step [OF this, of 1 Thread_begin True "[Report (Status ENGINE_ON)]" ?g2]
  have "service_run [(0, Set_callback True True False, True, [Set_capabilities, Set_name, Set_system_info 2020]),
      (1, Thread_begin, True, [Report (Status ENGINE_ON)])] 1 ?g2" by (simp add: simps)
  from service_run.step [OF this, of 2 "Start True" True "[]" ?g3]
  have "service_run [(0, Set_callback True True False, True, [Set_capabilities, Set_name, Set_system_info 2020]),
      (1, Thread_begin, True, [Report (Status ENGINE_ON)]), (2, Start True, True, [])] 2 ?g3" by (simp add: simps)
  from service_run.step [OF this, of 3 Thread_command True "[Report (Status SESSION_BEGIN)]"] show ?thesis
    by (simp add: simps)
qed

lemma service_warms_up_witness:
  "\<exists>out g'. service_step 4000 (Thread_read (demo_clock, [], fix_sentence demo_fix))
      \<lparr>m_gnssHwConn = Some \<lparr>phase = Looping, pending = [], wk = \<lparr>running = True, listener = GnssHwListener_new False\<rparr>\<rparr>,
        cb20 = True, warmedUpTime = 3502, cleaning = False\<rparr> = Some (True, out, g') \<and>
    (\<exists>r. Report r \<in> set out \<and> needs_warm_up r) \<and> (2 :: int) + 3500 \<le> 4000"
proof -
  let ?w = "\<lparr>running = True, listener = GnssHwListener_new False\<rparr>"
  let ?g = "\<lparr>m_gnssHwConn = Some \<lparr>phase = Looping, pending = [], wk = ?w\<rparr>, cb20 = True, warmedUpTime = 3502, cleaning = False\<rparr>"
  let ?op = "Thread_read (demo_clock, [], fix_sentence demo_fix)"
  have "map byte_of (timed (demo_clock, [], fix_sentence demo_fix)) = concat (map fix_sentence [demo_fix])"
    using byte_of_timed [of "(demo_clock, [], fix_sentence demo_fix)"] by simp
  from fixes_come_through [OF _ this, of "GnssHwListener_new False"] obtain rs where
    rs: "consume_all demo_clock [] (fix_sentence demo_fix) (GnssHwListener_new False) = Some (rs, GnssHwListener_new False)"
      "positions rs \<noteq> []"
    using demo_fix_ok by (auto simp: GnssHwListener_new_def consume_all_bytes)
  have "\<exists>r\<in>set rs. needs_warm_up r" using rs(2) by (induction rs rule: positions.induct) auto
  then obtain r where r: "r \<in> set rs" "needs_warm_up r" by blast
  have "cb20 ?g" "isWarmedUd 4000 ?g" by (simp_all add: isWarmedUd_def)
  then have step: "service_step 4000 ?op ?g = Some (True, map Report rs, ?g)"
    using rs(1) by (simp add: service_step_def thread_handle_def handle_event_def deliver_all)
  then have "\<forall>t0\<in>started_at [(0, Set_callback True True False, True, [Set_capabilities, Set_name, Set_system_info 2020]),
      (1, Thread_begin, True, [Report (Status ENGINE_ON)]), (2, Start True, True, []),
      (3, Thread_command, True, [Report (Status SESSION_BEGIN)])]. t0 + 3500 \<le> 4000"
    using service_warms_up [OF demo_history _ step, of r] r by auto
  moreover have "2 \<in> started_at [(0, Set_callback True True False, True, [Set_capabilities, Set_name, Set_system_info 2020]),
      (1, Thread_begin, True, [Report (Status ENGINE_ON)]), (2, Start True, True, []),
      (3, Thread_command, True, [Report (Status SESSION_BEGIN)])]" by (auto simp: started_at_def)
  ultimately have "(2 :: int) + 3500 \<le> 4000" by blast
  then show ?thesis using step r by auto
qed

end
