(* ===== verification/Gnss_Measurement.thy ===== *)
theory Gnss_Measurement
  imports Goldfish_Prelude
begin

text \<open>
  \<^verbatim>\<open>gnss/gnss_measurement.cpp\<close>: the thread that sends measurements once a second, and the two calls that start and stop
  it. The calls arrive on the service's only call thread; they interleave with the measurement thread at every access
  to the flag, the mutex and the thread object. A step that has to wait is \<open>Blocked\<close>; a step that ends the process
  - joining no thread, overwriting a running one, calling a null callback - is \<open>Crash\<close>.
\<close>

section \<open>The two threads\<close>

datatype lock_owner = Caller | Measurer

datatype api_pc = Api_idle | Set_enter | Set_test | Set_join | Set_store | Set_spawn | Set_flag | Set_unlock
  | Close_enter | Close_test | Close_join | Close_clear

datatype thread_pc = No_thread | T_test | T_lock | T_update | T_sleep | T_done

record GnssMeasurement20 =
  m_isRunning :: bool
  m_mtx :: "lock_owner option"
  m_callback :: bool              \<comment> \<open>whether the callback is set\<close>
  m_gnssDataIndex :: nat
  api :: api_pc
  m_thread :: thread_pc
  sent :: nat                     \<comment> \<open>measurements sent\<close>

definition m_gnssData_size :: nat where
  "m_gnssData_size = 1"

text \<open>The flag is not initialised by the constructor: \<open>flag\<close> is what its memory holds.\<close>

definition GnssMeasurement20_new :: "bool \<Rightarrow> GnssMeasurement20" where
  "GnssMeasurement20_new flag = \<lparr>m_isRunning = flag, m_mtx = None, m_callback = False, m_gnssDataIndex = 0, api = Api_idle,
     m_thread = No_thread, sent = 0\<rparr>"

datatype outcome = Blocked | Crash | Next GnssMeasurement20

definition lock_mutex :: "lock_owner \<Rightarrow> GnssMeasurement20 \<Rightarrow> (GnssMeasurement20 \<Rightarrow> GnssMeasurement20) \<Rightarrow> outcome" where
  "lock_mutex who m f = (if m_mtx m = None then Next (f (m\<lparr>m_mtx := Some who\<rparr>)) else Blocked)"

text \<open>\<^verbatim>\<open>stopLocked\<close>: the flag is cleared, then the thread is joined.\<close>

definition join_thread :: "GnssMeasurement20 \<Rightarrow> (GnssMeasurement20 \<Rightarrow> GnssMeasurement20) \<Rightarrow> outcome" where
  "join_thread m f =
     (case m_thread m of
        No_thread \<Rightarrow> Crash
      | T_done \<Rightarrow> Next (f (m\<lparr>m_thread := No_thread\<rparr>))
      | _ \<Rightarrow> Blocked)"

definition api_step :: "GnssMeasurement20 \<Rightarrow> outcome" where
  "api_step m =
     (case api m of
        Api_idle \<Rightarrow> Blocked
      | Set_enter \<Rightarrow> lock_mutex Caller m (\<lambda>m. m\<lparr>api := Set_test\<rparr>)
      | Set_test \<Rightarrow> Next (if m_isRunning m then m\<lparr>m_isRunning := False, api := Set_join\<rparr> else m\<lparr>api := Set_store\<rparr>)
      | Set_join \<Rightarrow> join_thread m (\<lambda>m. m\<lparr>api := Set_store\<rparr>)
      | Set_store \<Rightarrow> Next (m\<lparr>m_callback := True, api := Set_spawn\<rparr>)
      | Set_spawn \<Rightarrow> if m_thread m = No_thread then Next (m\<lparr>m_thread := T_test, api := Set_flag\<rparr>) else Crash
      | Set_flag \<Rightarrow> Next (m\<lparr>m_isRunning := True, api := Set_unlock\<rparr>)
      | Set_unlock \<Rightarrow> Next (m\<lparr>m_mtx := None, api := Api_idle\<rparr>)
      | Close_enter \<Rightarrow> lock_mutex Caller m (\<lambda>m. m\<lparr>api := Close_test\<rparr>)
      | Close_test \<Rightarrow> Next (if m_isRunning m then m\<lparr>m_isRunning := False, api := Close_join\<rparr> else m\<lparr>api := Close_clear\<rparr>)
      | Close_join \<Rightarrow> join_thread m (\<lambda>m. m\<lparr>api := Close_clear\<rparr>)
      | Close_clear \<Rightarrow> Next (m\<lparr>m_callback := False, m_mtx := None, api := Api_idle\<rparr>))"

text \<open>The loop of the thread: \<^verbatim>\<open>update\<close> holds the mutex while it calls the callback.\<close>

definition thread_step :: "GnssMeasurement20 \<Rightarrow> outcome" where
  "thread_step m =
     (case m_thread m of
        No_thread \<Rightarrow> Blocked
      | T_test \<Rightarrow> Next (m\<lparr>m_thread := if m_isRunning m then T_lock else T_done\<rparr>)
      | T_lock \<Rightarrow> lock_mutex Measurer m (\<lambda>m. m\<lparr>m_thread := T_update\<rparr>)
      | T_update \<Rightarrow>
          if m_callback m
          then Next (m\<lparr>m_gnssDataIndex := (m_gnssDataIndex m + 1) mod m_gnssData_size, sent := sent m + 1, m_mtx := None,
                       m_thread := T_sleep\<rparr>)
          else Crash
      | T_sleep \<Rightarrow> Next (m\<lparr>m_thread := T_test\<rparr>)
      | T_done \<Rightarrow> Blocked)"

text \<open>A call with a null callback returns an error at once and is left out.\<close>

definition call_step :: "api_pc \<Rightarrow> GnssMeasurement20 \<Rightarrow> outcome" where
  "call_step pc m = (if api m = Api_idle \<and> pc \<in> {Set_enter, Close_enter} then Next (m\<lparr>api := pc\<rparr>) else Blocked)"

inductive meas_step :: "GnssMeasurement20 \<Rightarrow> GnssMeasurement20 \<Rightarrow> bool" where
  call: "call_step pc m = Next m' \<Longrightarrow> meas_step m m'"
| api: "api_step m = Next m' \<Longrightarrow> meas_step m m'"
| thread: "thread_step m = Next m' \<Longrightarrow> meas_step m m'"

inductive_cases meas_stepE: "meas_step m m'"

section \<open>Safety\<close>

definition caller_holds :: "api_pc \<Rightarrow> bool" where
  "caller_holds pc \<longleftrightarrow> pc \<notin> {Api_idle, Set_enter, Close_enter}"

text \<open>The lock is held by the thread that is inside; a thread object exists exactly while the flag is set, apart from the
  steps that change one of them; and it has a callback.\<close>

definition meas_inv :: "GnssMeasurement20 \<Rightarrow> bool" where
  "meas_inv m \<longleftrightarrow>
     (m_mtx m = Some Caller \<longleftrightarrow> caller_holds (api m)) \<and> (m_mtx m = Some Measurer \<longleftrightarrow> m_thread m = T_update) \<and>
     m_gnssDataIndex m < m_gnssData_size \<and>
     (api m \<in> {Set_join, Close_join} \<longrightarrow> m_thread m \<noteq> No_thread \<and> \<not> m_isRunning m) \<and>
     (api m \<in> {Set_store, Set_spawn, Close_clear} \<longrightarrow> m_thread m = No_thread \<and> \<not> m_isRunning m) \<and>
     (api m = Set_flag \<longrightarrow> m_thread m \<in> {T_test, T_done}) \<and>
     (api m \<notin> {Set_join, Close_join, Set_flag} \<longrightarrow> (m_thread m \<noteq> No_thread \<longleftrightarrow> m_isRunning m)) \<and>
     (api m = Set_flag \<longrightarrow> \<not> m_isRunning m) \<and> (api m = Set_spawn \<longrightarrow> m_callback m) \<and>
     (m_thread m \<noteq> No_thread \<longrightarrow> m_callback m)"

lemmas meas_step_defs = api_step_def thread_step_def call_step_def lock_mutex_def join_thread_def

primrec holds_next :: "(GnssMeasurement20 \<Rightarrow> bool) \<Rightarrow> outcome \<Rightarrow> bool" where
  "holds_next P Blocked = True"
| "holds_next P Crash = True"
| "holds_next P (Next m) = P m"

lemma api_step_inv: "meas_inv m \<Longrightarrow> holds_next meas_inv (api_step m)"
  by (cases "api m"; cases "m_thread m"; simp add: api_step_def lock_mutex_def join_thread_def meas_inv_def caller_holds_def) auto

lemma thread_step_inv: "meas_inv m \<Longrightarrow> holds_next meas_inv (thread_step m)"
  by (cases "m_thread m"; cases "api m";
      simp add: thread_step_def lock_mutex_def meas_inv_def caller_holds_def m_gnssData_size_def) auto

lemma call_step_inv: "meas_inv m \<Longrightarrow> call_step pc m = Next m' \<Longrightarrow> meas_inv m'"
  by (auto simp: call_step_def meas_inv_def caller_holds_def split: if_splits)

interpretation measurement: invariant_system "\<lambda>m. m = GnssMeasurement20_new False" meas_step meas_inv
proof
  fix m :: GnssMeasurement20
  assume "m = GnssMeasurement20_new False"
  then show "meas_inv m" by (simp add: meas_inv_def GnssMeasurement20_new_def caller_holds_def m_gnssData_size_def)
next
  fix m m'
  assume "meas_step m m'" and "meas_inv m"
  then show "meas_inv m'"
    by (cases rule: meas_step.cases) (use call_step_inv api_step_inv [of m] thread_step_inv [of m] in auto)
qed

text \<open>With the flag initialised to false, no interleaving of calls with the measurement thread ends the process: the
  thread never calls a null callback, no call joins a thread that does not exist or overwrites one that does,
  the mutex is held by the one that is inside, and the data index stays in range.\<close>

theorem measurement_safe:
  assumes "meas_step\<^sup>*\<^sup>* (GnssMeasurement20_new False) m"
  shows "api_step m \<noteq> Crash \<and> thread_step m \<noteq> Crash \<and> (m_thread m = T_update \<longrightarrow> m_mtx m = Some Measurer \<and> m_callback m) \<and>
    m_gnssDataIndex m < m_gnssData_size"
proof -
  have inv: "meas_inv m" using measurement.reachable_inv [OF refl assms] .
  then have "api_step m \<noteq> Crash" by (cases "api m"; cases "m_thread m") (auto simp: meas_step_defs meas_inv_def)
  moreover have "thread_step m \<noteq> Crash" using inv by (cases "m_thread m") (auto simp: meas_step_defs meas_inv_def)
  ultimately show ?thesis using inv by (auto simp: meas_inv_def)
qed

section \<open>Deadlock and lost start\<close>

text \<open>Runs as sequences of steps: a call of one of the two operations, a step of the caller, a step of the thread.\<close>

datatype meas_action = Call_set | Call_close | Caller_step | Thread_step

primrec act :: "meas_action \<Rightarrow> GnssMeasurement20 \<Rightarrow> outcome" where
  "act Call_set m = call_step Set_enter m"
| "act Call_close m = call_step Close_enter m"
| "act Caller_step m = api_step m"
| "act Thread_step m = thread_step m"

fun run_acts :: "meas_action list \<Rightarrow> GnssMeasurement20 \<Rightarrow> GnssMeasurement20 option" where
  "run_acts [] m = Some m"
| "run_acts (a # as) m = (case act a m of Next m' \<Rightarrow> run_acts as m' | _ \<Rightarrow> None)"

lemma act_step: "act a m = Next m' \<Longrightarrow> meas_step m m'"
  by (cases a) (auto intro: meas_step.intros)

lemma run_acts_steps: "run_acts as m = Some m' \<Longrightarrow> meas_step\<^sup>*\<^sup>* m m'"
proof (induction as arbitrary: m)
  case (Cons a as)
  then show ?case by (auto split: outcome.splits dest!: act_step intro: converse_rtranclp_into_rtranclp)
qed simp

lemma mutex_cases: "m_mtx m = None \<or> m_mtx m = Some Caller \<or> m_mtx m = Some Measurer"
  by (cases "m_mtx m"; cases "the (m_mtx m)") auto

definition deadlock_run :: "meas_action list" where
  "deadlock_run = Call_set # replicate 6 Caller_step @ [Thread_step, Call_close, Caller_step, Caller_step]"

text \<open>Property C26: the calls can deadlock with the measurement thread. Among the reachable states those without any further step
  are exactly those in which a call waits for the end of the thread while it holds the mutex that the thread
  waits for in \<^verbatim>\<open>update\<close>; and such a state is reachable, by a close shortly after the callback was set.\<close>

theorem measurement_deadlock:
  "(\<forall>m. meas_step\<^sup>*\<^sup>* (GnssMeasurement20_new False) m \<longrightarrow>
      ((\<nexists>m'. meas_step m m') \<longleftrightarrow> api m \<in> {Set_join, Close_join} \<and> m_thread m = T_lock)) \<and>
   (\<exists>m. meas_step\<^sup>*\<^sup>* (GnssMeasurement20_new False) m \<and> (\<nexists>m'. meas_step m m'))"
proof (intro conjI allI impI)
  fix m
  assume reach: "meas_step\<^sup>*\<^sup>* (GnssMeasurement20_new False) m"
  have inv: "meas_inv m" using measurement.reachable_inv [OF refl reach] .
  show "(\<nexists>m'. meas_step m m') \<longleftrightarrow> api m \<in> {Set_join, Close_join} \<and> m_thread m = T_lock"
  proof
    assume "\<nexists>m'. meas_step m m'"
    then have "\<forall>m'. api_step m \<noteq> Next m'" "\<forall>m'. thread_step m \<noteq> Next m'" "\<forall>m'. call_step Set_enter m \<noteq> Next m'"
      by (auto intro: meas_step.intros)
    then show "api m \<in> {Set_join, Close_join} \<and> m_thread m = T_lock" using inv mutex_cases [of m]
      by (cases "api m"; cases "m_thread m") (auto simp: meas_step_defs meas_inv_def caller_holds_def split: if_splits)
  next
    assume "api m \<in> {Set_join, Close_join} \<and> m_thread m = T_lock"
    then have "api_step m = Blocked" "thread_step m = Blocked" "call_step pc m = Blocked" for pc
      using inv by (auto simp: meas_step_defs meas_inv_def caller_holds_def)
    then show "\<nexists>m'. meas_step m m'" by (auto elim: meas_stepE)
  qed
next
  have "map_option (\<lambda>m. (api m, m_thread m, m_mtx m)) (run_acts deadlock_run (GnssMeasurement20_new False)) =
      Some (Close_join, T_lock, Some Caller)" by code_simp
  then obtain m where m: "run_acts deadlock_run (GnssMeasurement20_new False) = Some m" "api m = Close_join"
      "m_thread m = T_lock" "m_mtx m = Some Caller" by auto
  then have "api_step m = Blocked" "thread_step m = Blocked" "call_step pc m = Blocked" for pc by (simp_all add: meas_step_defs)
  then have "\<nexists>m'. meas_step m m'" by (auto elim: meas_stepE)
  then show "\<exists>m. meas_step\<^sup>*\<^sup>* (GnssMeasurement20_new False) m \<and> (\<nexists>m'. meas_step m m')"
    using run_acts_steps [OF m(1)] by blast
qed

definition lost_start_run :: "meas_action list" where
  "lost_start_run = Call_set # replicate 4 Caller_step @ [Thread_step, Caller_step, Caller_step]"

text \<open>Whether a step is one of the measurement thread or of no call at all.\<close>

lemma thread_done_sends_nothing:
  assumes "run_acts as m = Some m'" and "m_thread m = T_done" and "api m = Api_idle" and "set as \<subseteq> {Caller_step, Thread_step}"
  shows "m' = m"
  using assms by (cases as) (auto simp: api_step_def thread_step_def split: outcome.splits)

text \<open>Setting a callback may start nothing. The thread is created before the flag is set: when it tests the flag first,
  it ends at once, and the call still returns success with the flag set; no measurement is sent until the next call. And when
  the memory of the flag, which the constructor leaves uninitialised, happens not to be zero, the first call ends the process by joining a thread
  that was never created.\<close>

theorem measurement_lost_start:
  "(\<exists>m. run_acts lost_start_run (GnssMeasurement20_new False) = Some m \<and> api m = Api_idle \<and> m_isRunning m \<and> m_callback m \<and>
      m_thread m = T_done \<and> (\<forall>as m'. set as \<subseteq> {Caller_step, Thread_step} \<longrightarrow> run_acts as m = Some m' \<longrightarrow> sent m' = 0)) \<and>
   (\<exists>m. run_acts [Call_set, Caller_step, Caller_step] (GnssMeasurement20_new True) = Some m \<and> api_step m = Crash)"
proof
  have "map_option (\<lambda>m. (api m, m_thread m, m_isRunning m, m_callback m, sent m)) (run_acts lost_start_run (GnssMeasurement20_new False)) =
      Some (Api_idle, T_done, True, True, 0)" by code_simp
  then obtain m where m: "run_acts lost_start_run (GnssMeasurement20_new False) = Some m" "api m = Api_idle" "m_isRunning m"
      "m_callback m" "m_thread m = T_done" "sent m = 0" by auto
  have "sent m' = 0" if "set as \<subseteq> {Caller_step, Thread_step}" "run_acts as m = Some m'" for as m'
    using thread_done_sends_nothing [OF that(2) m(5,2) that(1)] m(6) by simp
  with m show "\<exists>m. run_acts lost_start_run (GnssMeasurement20_new False) = Some m \<and> api m = Api_idle \<and> m_isRunning m \<and> m_callback m \<and>
      m_thread m = T_done \<and> (\<forall>as m'. set as \<subseteq> {Caller_step, Thread_step} \<longrightarrow> run_acts as m = Some m' \<longrightarrow> sent m' = 0)" by blast
next
  have "map_option api_step (run_acts [Call_set, Caller_step, Caller_step] (GnssMeasurement20_new True)) = Some Crash" by code_simp
  then show "\<exists>m. run_acts [Call_set, Caller_step, Caller_step] (GnssMeasurement20_new True) = Some m \<and> api_step m = Crash" by auto
qed

lemma measurement_safe_witness:
  "\<exists>m. run_acts (Call_set # replicate 6 Caller_step @ [Thread_step, Thread_step]) (GnssMeasurement20_new False) = Some m \<and>
     m_thread m = T_update \<and> m_mtx m = Some Measurer \<and> m_callback m"
proof -
  have "map_option m_thread (run_acts (Call_set # replicate 6 Caller_step @ [Thread_step, Thread_step]) (GnssMeasurement20_new False)) =
      Some T_update" by code_simp
  then obtain m where m: "run_acts (Call_set # replicate 6 Caller_step @ [Thread_step, Thread_step]) (GnssMeasurement20_new False) = Some m"
      "m_thread m = T_update" by auto
  then show ?thesis using measurement_safe [OF run_acts_steps [OF m(1)]] by blast
qed

lemma measurement_lost_start_witness:
  "\<exists>m. run_acts lost_start_run (GnssMeasurement20_new False) = Some m \<and> run_acts [] m = Some m \<and> m_isRunning m \<and> sent m = 0"
proof -
  obtain m where m: "run_acts lost_start_run (GnssMeasurement20_new False) = Some m" "m_isRunning m"
    and sent: "set as \<subseteq> {Caller_step, Thread_step} \<Longrightarrow> run_acts as m = Some m' \<Longrightarrow> sent m' = 0" for as m'
    using measurement_lost_start by blast
  show ?thesis using m sent [of "[]" m] by simp
qed

lemma measurement_deadlock_witness:
  "\<exists>m. run_acts deadlock_run (GnssMeasurement20_new False) = Some m \<and> \<not> (\<exists>m'. meas_step m m')"
proof -
  have "map_option (\<lambda>m. (api m, m_thread m)) (run_acts deadlock_run (GnssMeasurement20_new False)) = Some (Close_join, T_lock)"
    by code_simp
  then obtain m where m: "run_acts deadlock_run (GnssMeasurement20_new False) = Some m" "api m = Close_join" "m_thread m = T_lock"
    by auto
  then show ?thesis using measurement_deadlock run_acts_steps [OF m(1)] by blast
qed

end
