(* ===== verification/Sensors.thy ===== *)
theory Sensors
  imports C_Scanf C_Float "HOL-Library.Signed_Division"
begin

text \<open>
  \<^verbatim>\<open>sensors/\<close>: the sensor list, the protocol with the emulator (\<^verbatim>\<open>multihal_sensors_qemu.cpp\<close>), the calls of the
  sensor service and the thread that delivers the samples of continuous sensors (\<^verbatim>\<open>multihal_sensors.cpp\<close>). The messages to
  the emulator and the events for the framework are effects; whether a message could be sent, the clock and the random
  errors are arguments. A result \<open>None\<close> is an abort of the process or undefined behaviour. Values of type \<^verbatim>\<open>float\<close> are the rational
  numbers before rounding, except for the measurement number of the wrist sensor, whose rounding matters.
\<close>

section \<open>Sensor list\<close>

text \<open>The flag bits and the kinds of sensors of the service interface.\<close>

definition WAKE_UP :: u32 where "WAKE_UP = 1"
definition CONTINUOUS_MODE :: u32 where "CONTINUOUS_MODE = 0"
definition ON_CHANGE_MODE :: u32 where "ON_CHANGE_MODE = 2"
definition SPECIAL_REPORTING_MODE :: u32 where "SPECIAL_REPORTING_MODE = 6"
definition DATA_INJECTION_FLAG :: u32 where "DATA_INJECTION_FLAG = 0x10"
definition ADDITIONAL_INFO_FLAG :: u32 where "ADDITIONAL_INFO_FLAG = 0x40"

datatype sensor_type = META_DATA | ACCELEROMETER | MAGNETIC_FIELD | ORIENTATION | GYROSCOPE | LIGHT | PRESSURE | PROXIMITY
  | RELATIVE_HUMIDITY | AMBIENT_TEMPERATURE | MAGNETIC_FIELD_UNCALIBRATED | GYROSCOPE_UNCALIBRATED | HEART_RATE
  | WRIST_TILT_GESTURE | ACCELEROMETER_UNCALIBRATED | HINGE_ANGLE | ADDITIONAL_INFO

record SensorInfo =
  s_handle :: int
  s_name :: string
  s_vendor :: string
  s_version :: int
  s_type :: sensor_type
  typeAsString :: string
  maxRange :: rat
  resolution :: rat
  s_power :: rat
  minDelay :: int           \<comment> \<open>in microseconds\<close>
  fifoReservedEventCount :: nat
  fifoMaxEventCount :: nat
  requiredPermission :: string
  maxDelay :: int
  s_flags :: u32

definition kAospVendor :: string where
  "kAospVendor = ''The Android Open Source Project''"

definition sensor_accelerometer :: SensorInfo where
  "sensor_accelerometer = \<lparr>s_handle = 0, s_name = ''Goldfish 3-axis Accelerometer'', s_vendor = kAospVendor,
     s_version = 1, s_type = ACCELEROMETER, typeAsString = ''android.sensor.accelerometer'',
     maxRange = 393 / 10, resolution = 1 / 4032, s_power = 3, minDelay = 10000,
     fifoReservedEventCount = 0, fifoMaxEventCount = 0, requiredPermission = '''',
     maxDelay = 500000, s_flags = DATA_INJECTION_FLAG OR ADDITIONAL_INFO_FLAG OR CONTINUOUS_MODE\<rparr>"

definition sensor_gyroscope :: SensorInfo where
  "sensor_gyroscope = \<lparr>s_handle = 1, s_name = ''Goldfish 3-axis Gyroscope'', s_vendor = kAospVendor,
     s_version = 1, s_type = GYROSCOPE, typeAsString = ''android.sensor.gyroscope'',
     maxRange = 823 / 50, resolution = 1 / 1000, s_power = 3, minDelay = 10000,
     fifoReservedEventCount = 0, fifoMaxEventCount = 0, requiredPermission = '''',
     maxDelay = 500000, s_flags = DATA_INJECTION_FLAG OR ADDITIONAL_INFO_FLAG OR CONTINUOUS_MODE\<rparr>"

definition sensor_magnetic_field :: SensorInfo where
  "sensor_magnetic_field = \<lparr>s_handle = 2, s_name = ''Goldfish 3-axis Magnetic field sensor'', s_vendor = kAospVendor,
     s_version = 1, s_type = MAGNETIC_FIELD, typeAsString = ''android.sensor.magnetic_field'',
     maxRange = 2000, resolution = 1 / 2, s_power = 67 / 10, minDelay = 10000,
     fifoReservedEventCount = 0, fifoMaxEventCount = 0, requiredPermission = '''',
     maxDelay = 500000, s_flags = DATA_INJECTION_FLAG OR CONTINUOUS_MODE\<rparr>"

definition sensor_orientation :: SensorInfo where
  "sensor_orientation = \<lparr>s_handle = 3, s_name = ''Goldfish Orientation sensor'', s_vendor = kAospVendor,
     s_version = 1, s_type = ORIENTATION, typeAsString = ''android.sensor.orientation'',
     maxRange = 360, resolution = 1, s_power = 97 / 10, minDelay = 10000,
     fifoReservedEventCount = 0, fifoMaxEventCount = 0, requiredPermission = '''',
     maxDelay = 500000, s_flags = DATA_INJECTION_FLAG OR CONTINUOUS_MODE\<rparr>"

definition sensor_ambient_temperature :: SensorInfo where
  "sensor_ambient_temperature = \<lparr>s_handle = 4, s_name = ''Goldfish Ambient Temperature sensor'', s_vendor = kAospVendor,
     s_version = 1, s_type = AMBIENT_TEMPERATURE, typeAsString = ''android.sensor.ambient_temperature'',
     maxRange = 80, resolution = 1, s_power = 0, minDelay = 0,
     fifoReservedEventCount = 0, fifoMaxEventCount = 0, requiredPermission = '''',
     maxDelay = 0, s_flags = DATA_INJECTION_FLAG OR ON_CHANGE_MODE\<rparr>"

definition sensor_proximity :: SensorInfo where
  "sensor_proximity = \<lparr>s_handle = 5, s_name = ''Goldfish Proximity sensor'', s_vendor = kAospVendor,
     s_version = 1, s_type = PROXIMITY, typeAsString = ''android.sensor.proximity'',
     maxRange = 1, resolution = 1, s_power = 20, minDelay = 0,
     fifoReservedEventCount = 0, fifoMaxEventCount = 0, requiredPermission = '''',
     maxDelay = 0, s_flags = DATA_INJECTION_FLAG OR ON_CHANGE_MODE OR WAKE_UP\<rparr>"

definition sensor_light :: SensorInfo where
  "sensor_light = \<lparr>s_handle = 6, s_name = ''Goldfish Light sensor'', s_vendor = kAospVendor,
     s_version = 1, s_type = LIGHT, typeAsString = ''android.sensor.light'',
     maxRange = 40000, resolution = 1, s_power = 20, minDelay = 0,
     fifoReservedEventCount = 0, fifoMaxEventCount = 0, requiredPermission = '''',
     maxDelay = 0, s_flags = DATA_INJECTION_FLAG OR ON_CHANGE_MODE\<rparr>"

definition sensor_pressure :: SensorInfo where
  "sensor_pressure = \<lparr>s_handle = 7, s_name = ''Goldfish Pressure sensor'', s_vendor = kAospVendor,
     s_version = 1, s_type = PRESSURE, typeAsString = ''android.sensor.pressure'',
     maxRange = 800, resolution = 1, s_power = 20, minDelay = 10000,
     fifoReservedEventCount = 0, fifoMaxEventCount = 0, requiredPermission = '''',
     maxDelay = 500000, s_flags = DATA_INJECTION_FLAG OR CONTINUOUS_MODE\<rparr>"

definition sensor_relative_humidity :: SensorInfo where
  "sensor_relative_humidity = \<lparr>s_handle = 8, s_name = ''Goldfish Humidity sensor'', s_vendor = kAospVendor,
     s_version = 1, s_type = RELATIVE_HUMIDITY, typeAsString = ''android.sensor.relative_humidity'',
     maxRange = 100, resolution = 1, s_power = 20, minDelay = 0,
     fifoReservedEventCount = 0, fifoMaxEventCount = 0, requiredPermission = '''',
     maxDelay = 0, s_flags = DATA_INJECTION_FLAG OR ON_CHANGE_MODE\<rparr>"

definition sensor_magnetic_field_uncalibrated :: SensorInfo where
  "sensor_magnetic_field_uncalibrated = \<lparr>s_handle = 9, s_name = ''Goldfish 3-axis Magnetic field sensor (uncalibrated)'', s_vendor = kAospVendor,
     s_version = 1, s_type = MAGNETIC_FIELD_UNCALIBRATED, typeAsString = ''android.sensor.magnetic_field_uncalibrated'',
     maxRange = 2000, resolution = 1 / 2, s_power = 67 / 10, minDelay = 10000,
     fifoReservedEventCount = 0, fifoMaxEventCount = 0, requiredPermission = '''',
     maxDelay = 500000, s_flags = DATA_INJECTION_FLAG OR 0\<rparr>"

definition sensor_gyroscope_field_uncalibrated :: SensorInfo where
  "sensor_gyroscope_field_uncalibrated = \<lparr>s_handle = 10, s_name = ''Goldfish 3-axis Gyroscope (uncalibrated)'', s_vendor = kAospVendor,
     s_version = 1, s_type = GYROSCOPE_UNCALIBRATED, typeAsString = ''android.sensor.gyroscope_uncalibrated'',
     maxRange = 823 / 50, resolution = 1 / 1000, s_power = 3, minDelay = 10000,
     fifoReservedEventCount = 0, fifoMaxEventCount = 0, requiredPermission = '''',
     maxDelay = 500000, s_flags = DATA_INJECTION_FLAG OR CONTINUOUS_MODE\<rparr>"

definition sensor_hinge_angle0 :: SensorInfo where
  "sensor_hinge_angle0 = \<lparr>s_handle = 11, s_name = ''Goldfish hinge sensor0 (in degrees)'', s_vendor = kAospVendor,
     s_version = 1, s_type = HINGE_ANGLE, typeAsString = ''android.sensor.hinge_angle'',
     maxRange = 360, resolution = 1, s_power = 3, minDelay = 0,
     fifoReservedEventCount = 0, fifoMaxEventCount = 0, requiredPermission = '''',
     maxDelay = 0, s_flags = DATA_INJECTION_FLAG OR ON_CHANGE_MODE OR WAKE_UP\<rparr>"

definition sensor_hinge_angle1 :: SensorInfo where
  "sensor_hinge_angle1 = \<lparr>s_handle = 12, s_name = ''Goldfish hinge sensor1 (in degrees)'', s_vendor = kAospVendor,
     s_version = 1, s_type = HINGE_ANGLE, typeAsString = ''android.sensor.hinge_angle'',
     maxRange = 360, resolution = 1, s_power = 3, minDelay = 0,
     fifoReservedEventCount = 0, fifoMaxEventCount = 0, requiredPermission = '''',
     maxDelay = 0, s_flags = DATA_INJECTION_FLAG OR ON_CHANGE_MODE OR WAKE_UP\<rparr>"

definition sensor_hinge_angle2 :: SensorInfo where
  "sensor_hinge_angle2 = \<lparr>s_handle = 13, s_name = ''Goldfish hinge sensor2 (in degrees)'', s_vendor = kAospVendor,
     s_version = 1, s_type = HINGE_ANGLE, typeAsString = ''android.sensor.hinge_angle'',
     maxRange = 360, resolution = 1, s_power = 3, minDelay = 0,
     fifoReservedEventCount = 0, fifoMaxEventCount = 0, requiredPermission = '''',
     maxDelay = 0, s_flags = DATA_INJECTION_FLAG OR ON_CHANGE_MODE OR WAKE_UP\<rparr>"

definition sensor_heart_rate :: SensorInfo where
  "sensor_heart_rate = \<lparr>s_handle = 14, s_name = ''Goldfish Heart rate sensor'', s_vendor = kAospVendor,
     s_version = 1, s_type = HEART_RATE, typeAsString = ''android.sensor.heart_rate'',
     maxRange = 500, resolution = 1, s_power = 20, minDelay = 0,
     fifoReservedEventCount = 0, fifoMaxEventCount = 0, requiredPermission = ''android.permission.BODY_SENSORS'',
     maxDelay = 500000, s_flags = DATA_INJECTION_FLAG OR ON_CHANGE_MODE\<rparr>"

text \<open>The entry of the colour sensor is empty: all its fields are zero.\<close>

definition sensor_rgbc_light :: SensorInfo where
  "sensor_rgbc_light = \<lparr>s_handle = 0, s_name = '''', s_vendor = '''',
     s_version = 0, s_type = META_DATA, typeAsString = '''',
     maxRange = 0, resolution = 0, s_power = 0, minDelay = 0,
     fifoReservedEventCount = 0, fifoMaxEventCount = 0, requiredPermission = '''',
     maxDelay = 0, s_flags = 0\<rparr>"

definition sensor_wrist_tilt :: SensorInfo where
  "sensor_wrist_tilt = \<lparr>s_handle = 16, s_name = ''Goldfish wrist tilt gesture sensor'', s_vendor = kAospVendor,
     s_version = 1, s_type = WRIST_TILT_GESTURE, typeAsString = ''android.sensor.wrist_tilt_gesture'',
     maxRange = 1, resolution = 1, s_power = 20, minDelay = 0,
     fifoReservedEventCount = 0, fifoMaxEventCount = 0, requiredPermission = '''',
     maxDelay = 500000, s_flags = DATA_INJECTION_FLAG OR SPECIAL_REPORTING_MODE OR WAKE_UP\<rparr>"

definition sensor_accelerometer_uncalibrated :: SensorInfo where
  "sensor_accelerometer_uncalibrated = \<lparr>s_handle = 17, s_name = ''Goldfish 3-axis Accelerometer Uncalibrated'', s_vendor = kAospVendor,
     s_version = 1, s_type = ACCELEROMETER_UNCALIBRATED, typeAsString = ''android.sensor.accelerometer_uncalibrated'',
     maxRange = 393 / 10, resolution = 1 / 4032, s_power = 3, minDelay = 10000,
     fifoReservedEventCount = 0, fifoMaxEventCount = 0, requiredPermission = '''',
     maxDelay = 500000, s_flags = DATA_INJECTION_FLAG OR ADDITIONAL_INFO_FLAG OR CONTINUOUS_MODE\<rparr>"

lemmas sensor_entries = sensor_accelerometer_def sensor_gyroscope_def sensor_magnetic_field_def sensor_orientation_def
  sensor_ambient_temperature_def sensor_proximity_def sensor_light_def sensor_pressure_def
  sensor_relative_humidity_def sensor_magnetic_field_uncalibrated_def sensor_gyroscope_field_uncalibrated_def sensor_hinge_angle0_def
  sensor_hinge_angle1_def sensor_hinge_angle2_def sensor_heart_rate_def sensor_rgbc_light_def
  sensor_wrist_tilt_def sensor_accelerometer_uncalibrated_def

definition kAllSensors :: "SensorInfo list" where
  "kAllSensors =
    [sensor_accelerometer, sensor_gyroscope, sensor_magnetic_field, sensor_orientation,
     sensor_ambient_temperature, sensor_proximity, sensor_light, sensor_pressure,
     sensor_relative_humidity, sensor_magnetic_field_uncalibrated, sensor_gyroscope_field_uncalibrated, sensor_hinge_angle0,
     sensor_hinge_angle1, sensor_hinge_angle2, sensor_heart_rate, sensor_rgbc_light,
     sensor_wrist_tilt, sensor_accelerometer_uncalibrated]"

definition kQemuSensorName :: "string list" where
  "kQemuSensorName =
    [''acceleration'', ''gyroscope'', ''magnetic-field'', ''orientation'', ''temperature'', ''proximity'', ''light'',
     ''pressure'', ''humidity'', ''magnetic-field-uncalibrated'', ''gyroscope-uncalibrated'', ''hinge-angle0'',
     ''hinge-angle1'', ''hinge-angle2'', ''heart-rate'', ''rgbc-light'', ''wrist-tilt'', ''acceleration-uncalibrated'']"

definition kSensorNumber :: nat where "kSensorNumber = 18"

definition list_handle_valid :: "int \<Rightarrow> bool" where
  "list_handle_valid h \<longleftrightarrow> 0 \<le> h \<and> h < int kSensorNumber"

definition on_change :: "nat \<Rightarrow> bool" where
  "on_change h \<longleftrightarrow> s_flags (kAllSensors ! h) AND ON_CHANGE_MODE \<noteq> 0"

definition wakes_up :: "nat \<Rightarrow> bool" where
  "wakes_up h \<longleftrightarrow> s_flags (kAllSensors ! h) AND WAKE_UP \<noteq> 0"

section \<open>Events\<close>

datatype sensor_status = UNRELIABLE | ACCURACY_MEDIUM | ACCURACY_HIGH

datatype payload = Vec3 rat rat rat sensor_status | Uncal "rat list" "rat list" | Scalar rat | HeartRate rat sensor_status
  | Flush_complete | Additional_info nat | No_payload

record sensor_event =
  ev_time :: int
  ev_handle :: nat
  ev_type :: sensor_type
  ev_payload :: payload

datatype sensor_effect = Post_events "sensor_event list" bool | Send string

record BatchEventRef =
  ref_time :: int
  ref_handle :: nat
  ref_generation :: int

record BatchInfo =
  bi_event :: sensor_event
  samplingPeriodNs :: int
  generation :: int

datatype OperationMode = NORMAL | DATA_INJECTION

datatype sensor_result = R_OK | R_BAD_VALUE | R_INVALID_OPERATION

record MultihalSensors =
  m_availableSensorsMask :: u32
  m_activeSensorsMask :: u32
  m_opMode :: OperationMode
  m_halProxyCallback :: bool          \<comment> \<open>whether it is set\<close>
  m_batchQueue :: "BatchEventRef list"
  m_batchInfo :: "BatchInfo list"

definition no_event :: sensor_event where
  "no_event = \<lparr>ev_time = 0, ev_handle = 0, ev_type = META_DATA, ev_payload = No_payload\<rparr>"

text \<open>The constructor: \<open>reply\<close> is the answer to the list of sensors, \<open>None\<close> when an exchange failed.\<close>

definition MultihalSensors_new :: "int \<Rightarrow> string option \<Rightarrow> (sensor_effect list \<times> MultihalSensors) option" where
  "MultihalSensors_new now reply =
     (case reply of
        None \<Rightarrow> None
      | Some buffer \<Rightarrow> do {
          vs \<leftarrow> sscanf [Conv_u] buffer;
          if assigned vs \<noteq> 1 then None
          else Some ([Send (''time:'' @ show_int now), Send ''list-sensors''],
            \<lparr>m_availableSensorsMask = word_of_int (int_val (vs ! 0)) AND (push_bit kSensorNumber 1 - 1),
             m_activeSensorsMask = 0, m_opMode = NORMAL, m_halProxyCallback = False, m_batchQueue = [],
             m_batchInfo = replicate kSensorNumber \<lparr>bi_event = no_event, samplingPeriodNs = 0, generation = 0\<rparr>\<rparr>) })"

definition isSensorActive :: "nat \<Rightarrow> MultihalSensors \<Rightarrow> bool" where
  "isSensorActive h s \<longleftrightarrow> m_activeSensorsMask s AND push_bit h 1 \<noteq> 0"

definition isSensorHandleValid :: "int \<Rightarrow> MultihalSensors \<Rightarrow> bool" where
  "isSensorHandleValid h s \<longleftrightarrow> list_handle_valid h \<and> m_availableSensorsMask s AND push_bit (nat h) 1 \<noteq> 0"

definition getSensorsList_2_1 :: "MultihalSensors \<Rightarrow> SensorInfo list" where
  "getSensorsList_2_1 s = map (\<lambda>i. kAllSensors ! i) (filter (\<lambda>i. bit (m_availableSensorsMask s) i) [0..<kSensorNumber])"

text \<open>\<^verbatim>\<open>doPostSensorEventLocked\<close> and \<^verbatim>\<open>sendAdditionalInfoReport\<close> call through the callback, which must be set.\<close>

definition doPostSensorEventLocked :: "nat \<Rightarrow> sensor_event \<Rightarrow> MultihalSensors \<Rightarrow> sensor_effect list option" where
  "doPostSensorEventLocked h e s = (if m_halProxyCallback s then Some [Post_events [e] (wakes_up h)] else None)"

definition sendAdditionalInfoReport :: "int \<Rightarrow> nat \<Rightarrow> MultihalSensors \<Rightarrow> sensor_effect list option" where
  "sendAdditionalInfoReport now h s =
     (if m_halProxyCallback s
      then Some [Post_events (map (\<lambda>k. \<lparr>ev_time = now, ev_handle = h, ev_type = ADDITIONAL_INFO, ev_payload = Additional_info k\<rparr>) [0, 1, 2])
                 (wakes_up h)]
      else None)"

section \<open>Calls\<close>

definition setOperationMode :: "OperationMode \<Rightarrow> MultihalSensors \<Rightarrow> sensor_result \<times> MultihalSensors" where
  "setOperationMode mode s =
     (if m_activeSensorsMask s \<noteq> 0 then (R_INVALID_OPERATION, s) else (R_OK, s\<lparr>m_opMode := mode\<rparr>))"

definition upd_info :: "nat \<Rightarrow> (BatchInfo \<Rightarrow> BatchInfo) \<Rightarrow> MultihalSensors \<Rightarrow> MultihalSensors" where
  "upd_info h f s = s\<lparr>m_batchInfo := (m_batchInfo s)[h := f (m_batchInfo s ! h)]\<rparr>"

text \<open>The part of \<^verbatim>\<open>activate\<close> for a continuous sensor: a new generation, and its first event in the queue.\<close>

definition start_batch :: "int \<Rightarrow> nat \<Rightarrow> MultihalSensors \<Rightarrow> MultihalSensors" where
  "start_batch now h s =
     (let info = m_batchInfo s ! h; g = generation info + 1 in
      (upd_info h (\<lambda>i. i\<lparr>generation := g\<rparr>) s)\<lparr>m_batchQueue := m_batchQueue s @
         [\<lparr>ref_time = now + samplingPeriodNs info, ref_handle = h, ref_generation = g\<rparr>]\<rparr>)"

definition activate :: "int \<Rightarrow> int \<Rightarrow> bool \<Rightarrow> MultihalSensors \<Rightarrow>
    (sensor_result \<times> sensor_effect list \<times> MultihalSensors) option" where
  "activate now sensorHandle enabled s =
     (if \<not> isSensorHandleValid sensorHandle s then Some (R_BAD_VALUE, [], s)
      else
        let h = nat sensorHandle in
        if \<not> enabled then Some (R_OK, [], s\<lparr>m_activeSensorsMask := m_activeSensorsMask s AND NOT (push_bit h 1)\<rparr>)
        else if \<not> on_change h \<and> samplingPeriodNs (m_batchInfo s ! h) \<le> 0 then Some (R_BAD_VALUE, [], s)
        else do {
          let s' = (if on_change h then s else start_batch now h s);
          es \<leftarrow> (if on_change h \<and> s_type (kAllSensors ! h) = HEART_RATE
                 then doPostSensorEventLocked h
                        \<lparr>ev_time = now, ev_handle = h, ev_type = HEART_RATE, ev_payload = HeartRate 0 UNRELIABLE\<rparr> s
                 else Some []);
          es' \<leftarrow> sendAdditionalInfoReport now h s;
          Some (R_OK, es @ es', s'\<lparr>m_activeSensorsMask := m_activeSensorsMask s OR push_bit h 1\<rparr>) })"

definition kMaxSamplingPeriodNs :: int where "kMaxSamplingPeriodNs = 1000000000"

text \<open>The smallest positive period of an active sensor, in list order.\<close>

fun min_period :: "u32 \<Rightarrow> BatchInfo list \<Rightarrow> int \<Rightarrow> int" where
  "min_period act [] m = m"
| "min_period act (b # bs) m =
     min_period (drop_bit 1 act) bs
       (if act AND 1 \<noteq> 0 \<and> 0 < samplingPeriodNs b \<and> samplingPeriodNs b < m then samplingPeriodNs b else m)"

definition delay_ms :: "MultihalSensors \<Rightarrow> int" where
  "delay_ms s = max 1 (min_period (m_activeSensorsMask s) (m_batchInfo s) kMaxSamplingPeriodNs div 1000000)"

text \<open>\<open>sent\<close> says whether the message could be sent; the process aborts otherwise.\<close>

definition batch :: "bool \<Rightarrow> int \<Rightarrow> int \<Rightarrow> MultihalSensors \<Rightarrow> (sensor_result \<times> sensor_effect list \<times> MultihalSensors) option" where
  "batch sent sensorHandle periodNs s =
     (if \<not> isSensorHandleValid sensorHandle s then Some (R_BAD_VALUE, [], s)
      else if periodNs < minDelay (kAllSensors ! nat sensorHandle) then Some (R_BAD_VALUE, [], s)
      else if m_opMode s = NORMAL then
        let s = upd_info (nat sensorHandle) (\<lambda>i. i\<lparr>samplingPeriodNs := periodNs\<rparr>) s in
        if sent then Some (R_OK, [Send (''set-delay:'' @ show_int (delay_ms s))], s) else None
      else Some (R_OK, [], s))"

text \<open>The time of the event is not set: \<open>junk\<close> is what it holds.\<close>

definition flush :: "int \<Rightarrow> int \<Rightarrow> int \<Rightarrow> MultihalSensors \<Rightarrow> (sensor_result \<times> sensor_effect list) option" where
  "flush junk now sensorHandle s =
     (if \<not> isSensorHandleValid sensorHandle s then Some (R_BAD_VALUE, [])
      else if \<not> isSensorActive (nat sensorHandle) s then Some (R_BAD_VALUE, [])
      else do {
        es \<leftarrow> doPostSensorEventLocked (nat sensorHandle)
                \<lparr>ev_time = junk, ev_handle = nat sensorHandle, ev_type = META_DATA, ev_payload = Flush_complete\<rparr> s;
        es' \<leftarrow> sendAdditionalInfoReport now (nat sensorHandle) s;
        Some (R_OK, es @ es') })"

definition injectSensorData_2_1 :: "sensor_event \<Rightarrow> MultihalSensors \<Rightarrow> (sensor_result \<times> sensor_effect list) option" where
  "injectSensorData_2_1 e s =
     (if \<not> isSensorHandleValid (int (ev_handle e)) s then Some (R_BAD_VALUE, [])
      else if ev_type e = ADDITIONAL_INFO then Some (R_OK, [])
      else if m_opMode s \<noteq> DATA_INJECTION then Some (R_INVALID_OPERATION, [])
      else if s_type (kAllSensors ! ev_handle e) \<noteq> ev_type e then Some (R_BAD_VALUE, [])
      else map_option (Pair R_OK) (doPostSensorEventLocked (ev_handle e) e s))"

definition set_message :: "nat \<Rightarrow> bool \<Rightarrow> string" where
  "set_message h enabled = snprintf_buf 64 (''set:'' @ kQemuSensorName ! h @ '':'' @ (if enabled then ''1'' else ''0''))"

text \<open>The loop stops at the first message that cannot be sent: \<open>sends\<close> are the results.\<close>

fun set_sensors :: "bool \<Rightarrow> nat list \<Rightarrow> bool list \<Rightarrow> sensor_effect list" where
  "set_sensors enabled [] sends = []"
| "set_sensors enabled (h # hs) sends =
     (if (case sends of [] \<Rightarrow> True | ok # _ \<Rightarrow> ok) then Send (set_message h enabled) # set_sensors enabled hs (tl sends) else [])"

definition setAllQemuSensors :: "bool \<Rightarrow> bool list \<Rightarrow> MultihalSensors \<Rightarrow> sensor_effect list" where
  "setAllQemuSensors enabled sends s =
     set_sensors enabled (filter (\<lambda>i. bit (m_availableSensorsMask s) i) [0..<kSensorNumber]) sends"

definition initialize :: "bool \<Rightarrow> bool list \<Rightarrow> MultihalSensors \<Rightarrow> sensor_effect list \<times> MultihalSensors" where
  "initialize callback sends s =
     (setAllQemuSensors True sends s, s\<lparr>m_opMode := NORMAL, m_halProxyCallback := callback\<rparr>)"

definition postSensorEvent :: "sensor_event \<Rightarrow> MultihalSensors \<Rightarrow> (sensor_effect list \<times> MultihalSensors) option" where
  "postSensorEvent e s =
     (let h = ev_handle e in
      if on_change h
      then (if isSensorActive h s then map_option (\<lambda>es. (es, s)) (doPostSensorEventLocked h e s) else Some ([], s))
      else Some ([], upd_info h (\<lambda>i. i\<lparr>bi_event := e\<rparr>) s))"

section \<open>The batch thread\<close>

text \<open>The top of the priority queue: a reference with the smallest time. Among equal times a heap may give any; the oldest is
  taken here.\<close>

fun earliest :: "BatchEventRef \<Rightarrow> BatchEventRef list \<Rightarrow> BatchEventRef" where
  "earliest r [] = r"
| "earliest r (x # xs) = earliest (if ref_time x < ref_time r then x else r) xs"

definition queue_top :: "BatchEventRef list \<Rightarrow> BatchEventRef" where
  "queue_top q = earliest (hd q) (tl q)"

lemma earliest_mem: "earliest r q \<in> insert r (set q)"
proof (induction q arbitrary: r)
  case (Cons x q)
  show ?case using Cons [of "if ref_time x < ref_time r then x else r"] by (auto split: if_splits)
qed simp

lemma queue_top_mem: "q \<noteq> [] \<Longrightarrow> queue_top q \<in> set q"
  using earliest_mem [of "hd q" "tl q"] by (cases q) (auto simp: queue_top_def)

text \<open>What one reference gives: the event, if the host has provided a value, and the reference to queue again, if it belongs to
  the last activation. An inactive sensor gives nothing.\<close>

definition batch_one :: "BatchEventRef \<Rightarrow> MultihalSensors \<Rightarrow> (sensor_effect list \<times> MultihalSensors) option" where
  "batch_one r s =
     (let h = ref_handle r; info = m_batchInfo s ! h in
      if kSensorNumber \<le> h then None
      else if \<not> isSensorActive h s then Some ([], s)
      else do {
        (es, s) \<leftarrow> (if ev_type (bi_event info) = META_DATA then Some ([], s)
                    else let e = (bi_event info)\<lparr>ev_time := ref_time r\<rparr> in
                      map_option (\<lambda>es. (es, upd_info h (\<lambda>i. i\<lparr>bi_event := e\<rparr>) s)) (doPostSensorEventLocked h e s));
        if ref_generation r = generation info then
          (if samplingPeriodNs info \<le> 0 then None
           else Some (es, s\<lparr>m_batchQueue := m_batchQueue s @ [r\<lparr>ref_time := ref_time r + samplingPeriodNs info\<rparr>]\<rparr>))
        else Some (es, s) })"

lemma batch_one_queue:
  assumes "batch_one r s = Some (es, s')"
  shows "m_batchQueue s' = m_batchQueue s \<or> 0 < samplingPeriodNs (m_batchInfo s ! ref_handle r) \<and>
    m_batchQueue s' = m_batchQueue s @ [r\<lparr>ref_time := ref_time r + samplingPeriodNs (m_batchInfo s ! ref_handle r)\<rparr>]"
  using assms by (auto simp: batch_one_def Let_def upd_info_def bind_eq_Some_conv split: if_splits)

text \<open>The inner loop of the thread: how far the queued times lie back bounds its rounds.\<close>

definition backlog :: "int \<Rightarrow> BatchEventRef list \<Rightarrow> nat" where
  "backlog now q = (\<Sum>r\<leftarrow>q. nat (now + 1 - ref_time r))"

lemma backlog_remove1: "r \<in> set q \<Longrightarrow> backlog now q = nat (now + 1 - ref_time r) + backlog now (remove1 r q)"
  by (simp add: backlog_def sum_list_map_remove1)

function batch_loop :: "int \<Rightarrow> MultihalSensors \<Rightarrow> (sensor_effect list \<times> MultihalSensors) option" where
  "batch_loop now s =
     (if m_batchQueue s = [] then Some ([], s)
      else
        let r = queue_top (m_batchQueue s) in
        if now < ref_time r then Some ([], s)
        else case batch_one r (s\<lparr>m_batchQueue := remove1 r (m_batchQueue s)\<rparr>) of
          None \<Rightarrow> None
        | Some (es, s') \<Rightarrow> map_option (\<lambda>(es', s). (es @ es', s)) (batch_loop now s'))"
  by pat_completeness auto

termination
proof (relation "measure (\<lambda>(now, s). backlog now (m_batchQueue s))", goal_cases)
  case (2 now s r p es s')
  have mem: "r \<in> set (m_batchQueue s)" using 2 queue_top_mem by simp
  have "backlog now (m_batchQueue s') < backlog now (m_batchQueue s)"
    using batch_one_queue [of r "s\<lparr>m_batchQueue := remove1 r (m_batchQueue s)\<rparr>" es s'] 2 backlog_remove1 [OF mem, of now]
    by (auto simp: backlog_def)
  then show ?case by simp
qed simp

declare batch_loop.simps [simp del]

section \<open>The protocol with the emulator\<close>

record QemuSensorsProtocolState =
  timeBiasNs :: int
  last_value :: "nat \<Rightarrow> rat"         \<comment> \<open>the last value of an on-change sensor, by its handle\<close>
  lastWristTiltMeasurement :: int     \<comment> \<open>a \<^verbatim>\<open>float\<close>\<close>

definition kSensorNoValue :: rat where "kSensorNoValue = - (10 ^ 30)"

definition protocol_new :: QemuSensorsProtocolState where
  "protocol_new = \<lparr>timeBiasNs = -500000000, last_value = (\<lambda>h. kSensorNoValue), lastWristTiltMeasurement = -1\<rparr>"

fun testPrefix :: "string \<Rightarrow> string \<Rightarrow> char \<Rightarrow> string option" where
  "testPrefix [] v sep = None"
| "testPrefix (x # xs) [] sep = (if x = sep then Some xs else None)"
| "testPrefix (x # xs) (v # vs) sep = (if v = x then testPrefix xs vs sep else None)"

definition approximatelyEqual :: "rat \<Rightarrow> rat \<Rightarrow> rat \<Rightarrow> bool" where
  "approximatelyEqual a b eps \<longleftrightarrow> \<bar>a - b\<bar> \<le> max \<bar>a\<bar> \<bar>b\<bar> * eps"

definition weigthedAverage :: "int \<Rightarrow> int \<Rightarrow> int \<Rightarrow> int \<Rightarrow> int" where
  "weigthedAverage a aw b bw = (a * aw + b * bw) sdiv (aw + bw)"

text \<open>What a message with a known prefix means: three values with a status, three values of an uncalibrated sensor with
  the ranges of the random errors added to the values, one value that is always reported, one value that is reported
  when it has changed, the same for a hinge, the heart rate, the wrist sensor, and the two kinds of synchronisation.\<close>

datatype message_kind = M_vec3 nat sensor_type sensor_status | M_uncal nat sensor_type bool | M_scalar nat sensor_type
  | M_changed nat sensor_type | M_hinge nat | M_heart | M_wrist | M_guest_sync | M_sync

text \<open>The tests in their order. A prefix that starts another one does not match it, because of the separator.\<close>

definition message_kinds :: "(string \<times> message_kind) list" where
  "message_kinds =
    [(''acceleration'', M_vec3 0 ACCELEROMETER ACCURACY_MEDIUM),
     (''acceleration-uncalibrated'', M_uncal 17 ACCELEROMETER_UNCALIBRATED False),
     (''gyroscope'', M_vec3 1 GYROSCOPE ACCURACY_MEDIUM),
     (''gyroscope-uncalibrated'', M_uncal 10 GYROSCOPE_UNCALIBRATED True),
     (''orientation'', M_vec3 3 ORIENTATION ACCURACY_HIGH),
     (''magnetic'', M_vec3 2 MAGNETIC_FIELD ACCURACY_HIGH),
     (''magnetic-uncalibrated'', M_uncal 9 MAGNETIC_FIELD_UNCALIBRATED False),
     (''temperature'', M_changed 4 AMBIENT_TEMPERATURE),
     (''proximity'', M_changed 5 PROXIMITY),
     (''light'', M_changed 6 LIGHT),
     (''pressure'', M_scalar 7 PRESSURE),
     (''humidity'', M_changed 8 RELATIVE_HUMIDITY),
     (''hinge-angle0'', M_hinge 11),
     (''hinge-angle1'', M_hinge 12),
     (''hinge-angle2'', M_hinge 13),
     (''heart-rate'', M_heart),
     (''wrist-tilt'', M_wrist),
     (''guest-sync'', M_guest_sync),
     (''sync'', M_sync)]"

fun find_message :: "string \<Rightarrow> (string \<times> message_kind) list \<Rightarrow> (message_kind \<times> string) option" where
  "find_message buf [] = None"
| "find_message buf ((pre, k) # ks) =
     (case testPrefix buf pre (CHR '':'') of Some values \<Rightarrow> Some (k, values) | None \<Rightarrow> find_message buf ks)"

definition vec_format :: "conv list" where
  "vec_format = [Conv_lf, Lit (CHR '':''), Conv_lf, Lit (CHR '':''), Conv_lf]"

text \<open>The time of reception and the random errors: of the values and of the bias.\<close>

record message_env =
  now_ns :: int
  value_error :: "rat list"
  bias_error :: "rat list"

definition message_event :: "int \<Rightarrow> nat \<Rightarrow> sensor_type \<Rightarrow> payload \<Rightarrow> sensor_event" where
  "message_event t h ty p = \<lparr>ev_time = t, ev_handle = h, ev_type = ty, ev_payload = p\<rparr>"

text \<open>A value that is reported when it differs from the last one: \<open>tracked\<close> says whether the sensor's state is followed.\<close>

definition post_changed :: "int \<Rightarrow> nat \<Rightarrow> sensor_type \<Rightarrow> payload \<Rightarrow> rat \<Rightarrow> bool \<Rightarrow> QemuSensorsProtocolState \<Rightarrow> MultihalSensors \<Rightarrow>
    (sensor_effect list \<times> QemuSensorsProtocolState \<times> MultihalSensors) option" where
  "post_changed t h ty p v tracked st s =
     (if \<not> approximatelyEqual (last_value st h) v (1 / 1000) \<and> tracked
      then do {
        (es, s) \<leftarrow> postSensorEvent (message_event t h ty p) s;
        Some (es, st\<lparr>last_value := (last_value st)(h := v)\<rparr>, s) }
      else Some ([], st, s))"

definition posted :: "QemuSensorsProtocolState \<Rightarrow> (sensor_effect list \<times> MultihalSensors) option \<Rightarrow>
    (sensor_effect list \<times> QemuSensorsProtocolState \<times> MultihalSensors) option" where
  "posted st r = map_option (\<lambda>(es, s). (es, st, s)) r"

definition handle_message :: "message_env \<Rightarrow> message_kind \<Rightarrow> string \<Rightarrow> QemuSensorsProtocolState \<Rightarrow> MultihalSensors \<Rightarrow>
    (sensor_effect list \<times> QemuSensorsProtocolState \<times> MultihalSensors) option" where
  "handle_message env k values st s =
     (let t = now_ns env + timeBiasNs st; nothing = Some ([], st, s) in
      case k of
        M_vec3 h ty q \<Rightarrow> do {
          vs \<leftarrow> sscanf vec_format values;
          if assigned vs = 3
          then posted st (postSensorEvent (message_event t h ty
                 (Vec3 (float_val (vs ! 0)) (float_val (vs ! 1)) (float_val (vs ! 2)) q)) s)
          else nothing }
      | M_uncal h ty shifted \<Rightarrow> do {
          vs \<leftarrow> sscanf vec_format values;
          if assigned vs = 3
          then posted st (postSensorEvent (message_event t h ty
                 (Uncal (map2 (+) (map float_val vs) (if shifted then value_error env else [0, 0, 0])) (bias_error env))) s)
          else nothing }
      | M_scalar h ty \<Rightarrow> do {
          vs \<leftarrow> sscanf [Conv_lf] values;
          if assigned vs = 1 then posted st (postSensorEvent (message_event t h ty (Scalar (float_val (vs ! 0)))) s) else nothing }
      | M_changed h ty \<Rightarrow> do {
          vs \<leftarrow> sscanf [Conv_lf] values;
          if assigned vs = 1 then post_changed t h ty (Scalar (float_val (vs ! 0))) (float_val (vs ! 0)) True st s else nothing }
      | M_hinge h \<Rightarrow> do {
          vs \<leftarrow> sscanf [Conv_lf] values;
          if assigned vs = 1
          then post_changed t h HINGE_ANGLE (Scalar (float_val (vs ! 0))) (float_val (vs ! 0)) (isSensorActive h s) st s
          else nothing }
      | M_heart \<Rightarrow> do {
          vs \<leftarrow> sscanf [Conv_lf] values;
          if assigned vs = 1
          then post_changed t 14 HEART_RATE (HeartRate (float_val (vs ! 0)) ACCURACY_HIGH) (float_val (vs ! 0)) True st s
          else nothing }
      | M_wrist \<Rightarrow> do {
          vs \<leftarrow> sscanf [Conv_lf, Lit (CHR '':''), Conv_ld] values;
          if assigned vs = 2 \<and> lastWristTiltMeasurement st \<noteq> f32_round (int_val (vs ! 1))
          then posted (st\<lparr>lastWristTiltMeasurement := f32_round (int_val (vs ! 1))\<rparr>)
                 (postSensorEvent (message_event t 16 WRIST_TILT_GESTURE (Scalar (float_val (vs ! 0)))) s)
          else nothing }
      | M_guest_sync \<Rightarrow> do {
          vs \<leftarrow> sscanf [Conv_ld] values;
          if assigned vs = 1 \<and> 0 \<le> int_val (vs ! 0) then
            (let guest = int_val (vs ! 0) * 1000; bias = guest - now_ns env;
                 total = timeBiasNs st * 3 + bias in
             if int64 guest \<and> int64 bias \<and> int64 (timeBiasNs st * 3) \<and> int64 total
             then Some ([], st\<lparr>timeBiasNs := min 0 (weigthedAverage (timeBiasNs st) 3 bias 1)\<rparr>, s)
             else None)
          else nothing }
      | M_sync \<Rightarrow> nothing)"

text \<open>A failed reception has the length \<open>-1\<close>, and a zero is written before the buffer.\<close>

definition parseQemuSensorEvent :: "message_env \<Rightarrow> string option \<Rightarrow> QemuSensorsProtocolState \<Rightarrow> MultihalSensors \<Rightarrow>
    (sensor_effect list \<times> QemuSensorsProtocolState \<times> MultihalSensors) option" where
  "parseQemuSensorEvent env msg st s =
     (case msg of
        None \<Rightarrow> None
      | Some buf \<Rightarrow>
          (case find_message buf message_kinds of
             None \<Rightarrow> Some ([], st, s)
           | Some (k, values) \<Rightarrow> handle_message env k values st s))"

section \<open>The listener thread\<close>

text \<open>What \<^verbatim>\<open>epoll_wait\<close> gives: an event of the emulator's channel, with the message that is then received, a command byte (or
  a failed read), an error on one of the two, another descriptor, or a failed wait.\<close>

datatype listener_event = Channel_message message_env "string option" | Command "char option" | Descriptor_error | Unknown_descriptor | Wait_failed

definition sensors_CMD_QUIT :: char where "sensors_CMD_QUIT = CHR ''q''"

text \<open>The thread ends at the command to quit; the state it then has is the result. The remaining events are not looked at.\<close>

fun qemuSensorListenerThread :: "listener_event list \<Rightarrow> QemuSensorsProtocolState \<Rightarrow> MultihalSensors \<Rightarrow>
    (sensor_effect list \<times> QemuSensorsProtocolState \<times> MultihalSensors) option" where
  "qemuSensorListenerThread [] st s = Some ([], st, s)"
| "qemuSensorListenerThread (Channel_message env msg # evs) st s = do {
     (es, st, s) \<leftarrow> parseQemuSensorEvent env msg st s;
     (es', r) \<leftarrow> qemuSensorListenerThread evs st s;
     Some (es @ es', r) }"
| "qemuSensorListenerThread (Command c # evs) st s = (if c = Some sensors_CMD_QUIT then Some ([], st, s) else None)"
| "qemuSensorListenerThread (Descriptor_error # evs) st s = None"
| "qemuSensorListenerThread (Unknown_descriptor # evs) st s = qemuSensorListenerThread evs st s"
| "qemuSensorListenerThread (Wait_failed # evs) st s = qemuSensorListenerThread evs st s"

end
