(* ===== verification/Sensors_Props.thy ===== *)
theory Sensors_Props
  imports Sensors
begin

text \<open>
  The sensor service: what holds whatever calls, messages and rounds of the batch thread follow each other, when the samples of a continuous
  sensor are delivered, and what becomes of the values of the sensors that report changes.
\<close>

section \<open>Masks\<close>

lemma push_bit_one_bit: "(w AND push_bit h 1 \<noteq> 0) = bit (w :: u32) h"
  by (simp add: and_exp_eq_0_iff_not_bit)

lemma kSensorNumber_small: "h < kSensorNumber \<Longrightarrow> h < 32"
  by (simp add: kSensorNumber_def)

lemma active_bit: "isSensorActive h s = bit (m_activeSensorsMask s) h"
  unfolding isSensorActive_def by (rule push_bit_one_bit)

lemma valid_bit: "isSensorHandleValid h s \<longleftrightarrow> 0 \<le> h \<and> nat h < kSensorNumber \<and> bit (m_availableSensorsMask s) (nat h)"
  unfolding isSensorHandleValid_def push_bit_one_bit list_handle_valid_def by auto

lemma mask_updates:
  "i < 32 \<Longrightarrow> bit (w OR push_bit h 1 :: u32) i \<longleftrightarrow> bit w i \<or> i = h"
  "bit (w AND NOT (push_bit h 1) :: u32) i \<Longrightarrow> bit w i"
  by (auto simp: bit_simps)

declare push_bit_of_1 [simp del]

lemma continuous_min_delay:
  assumes "h < kSensorNumber" and "\<not> on_change h" and "h \<noteq> 15"
  shows "0 < minDelay (kAllSensors ! h)"
proof -
  have "list_all (\<lambda>h. \<not> on_change h \<longrightarrow> h = 15 \<or> 0 < minDelay (kAllSensors ! h)) [0..<18]" by code_simp
  then show ?thesis using assms by (auto simp: list_all_iff kSensorNumber_def)
qed

text \<open>Every entry of the list carries its own handle, except the empty one, which the framework sees as a second sensor 0.\<close>

lemma sensor_list_handles: "h < kSensorNumber \<Longrightarrow> s_handle (kAllSensors ! h) = (if h = 15 then 0 else int h)"
proof -
  have "list_all (\<lambda>h. s_handle (kAllSensors ! h) = (if h = 15 then 0 else int h)) [0..<18]" by code_simp
  then show "h < kSensorNumber \<Longrightarrow> ?thesis" by (simp add: list_all_iff kSensorNumber_def)
qed

section \<open>The invariant\<close>

text \<open>The references of a sensor's last activation.\<close>

definition current_refs :: "nat \<Rightarrow> MultihalSensors \<Rightarrow> BatchEventRef list" where
  "current_refs h s = filter (\<lambda>r. ref_handle r = h \<and> ref_generation r = generation (m_batchInfo s ! h)) (m_batchQueue s)"

definition sens_inv :: "MultihalSensors \<Rightarrow> bool" where
  "sens_inv s \<longleftrightarrow> length (m_batchInfo s) = kSensorNumber \<and>
     (\<forall>i<32. bit (m_activeSensorsMask s) i \<longrightarrow> i < kSensorNumber \<and> bit (m_availableSensorsMask s) i) \<and>
     (\<forall>r\<in>set (m_batchQueue s). ref_handle r < kSensorNumber \<and> \<not> on_change (ref_handle r) \<and> ref_generation r \<le> generation (m_batchInfo s ! ref_handle r)) \<and>
     (\<forall>h<kSensorNumber. ev_type (bi_event (m_batchInfo s ! h)) \<noteq> META_DATA \<longrightarrow> ev_handle (bi_event (m_batchInfo s ! h)) = h) \<and>
     (\<forall>h<kSensorNumber. \<not> on_change h \<and> bit (m_activeSensorsMask s) h \<longrightarrow>
        0 < samplingPeriodNs (m_batchInfo s ! h) \<and> length (current_refs h s) = 1) \<and>
     \<not> bit (m_availableSensorsMask s) 15"

lemma new_inv:
  assumes "MultihalSensors_new now reply = Some (es, s)" and "\<not> bit (m_availableSensorsMask s) 15"
  shows "sens_inv s"
  using assms by (auto simp: MultihalSensors_new_def sens_inv_def current_refs_def no_event_def bind_eq_Some_conv
      split: option.splits if_splits)

text \<open>A step that leaves the announced sensors alone keeps the invariant when it keeps these parts of it.\<close>

lemma sens_inv_step:
  assumes "sens_inv s" and "m_availableSensorsMask s' = m_availableSensorsMask s" and "length (m_batchInfo s') = length (m_batchInfo s)"
    and "\<And>i. i < 32 \<Longrightarrow> bit (m_activeSensorsMask s') i \<Longrightarrow> bit (m_activeSensorsMask s) i \<or> i < kSensorNumber \<and> bit (m_availableSensorsMask s) i"
    and "\<And>r. r \<in> set (m_batchQueue s') \<Longrightarrow> ref_handle r < kSensorNumber \<and> \<not> on_change (ref_handle r) \<and> ref_generation r \<le> generation (m_batchInfo s' ! ref_handle r)"
    and "\<And>h. h < kSensorNumber \<Longrightarrow> ev_type (bi_event (m_batchInfo s' ! h)) \<noteq> META_DATA \<Longrightarrow> ev_handle (bi_event (m_batchInfo s' ! h)) = h"
    and "\<And>h. h < kSensorNumber \<Longrightarrow> \<not> on_change h \<Longrightarrow> bit (m_activeSensorsMask s') h \<Longrightarrow>
      0 < samplingPeriodNs (m_batchInfo s' ! h) \<and> length (current_refs h s') = 1"
  shows "sens_inv s'"
proof -
  have "length (m_batchInfo s) = kSensorNumber" "\<not> bit (m_availableSensorsMask s) 15"
    and act: "i < 32 \<Longrightarrow> bit (m_activeSensorsMask s) i \<Longrightarrow> i < kSensorNumber \<and> bit (m_availableSensorsMask s) i" for i
    using assms(1) by (simp_all add: sens_inv_def)
  moreover have "i < kSensorNumber \<and> bit (m_availableSensorsMask s) i" if "i < 32" "bit (m_activeSensorsMask s') i" for i
    using assms(4) [OF that] act [OF that(1)] by blast
  ultimately show ?thesis unfolding sens_inv_def assms(2,3) using assms(5-7) by simp
qed

lemma sens_inv_parts:
  assumes "sens_inv s"
  shows "length (m_batchInfo s) = kSensorNumber"
    and "r \<in> set (m_batchQueue s) \<Longrightarrow> ref_handle r < kSensorNumber \<and> \<not> on_change (ref_handle r) \<and> ref_generation r \<le> generation (m_batchInfo s ! ref_handle r)"
    and "h < kSensorNumber \<Longrightarrow> ev_type (bi_event (m_batchInfo s ! h)) \<noteq> META_DATA \<Longrightarrow> ev_handle (bi_event (m_batchInfo s ! h)) = h"
    and "h < kSensorNumber \<Longrightarrow> \<not> on_change h \<Longrightarrow> bit (m_activeSensorsMask s) h \<Longrightarrow>
      0 < samplingPeriodNs (m_batchInfo s ! h) \<and> length (current_refs h s) = 1"
    and "\<not> bit (m_availableSensorsMask s) 15"
  using assms by (simp_all add: sens_inv_def)

lemma sens_inv_fewer:
  assumes "sens_inv s" and "\<And>i. bit m i \<Longrightarrow> bit (m_activeSensorsMask s) i"
  shows "sens_inv (s\<lparr>m_activeSensorsMask := m\<rparr>)"
  using assms unfolding sens_inv_def current_refs_def by simp

lemma activate_inv:
  assumes "sens_inv s" and "activate now h en s = Some (res, es, s')"
  shows "sens_inv s'"
proof (cases "isSensorHandleValid h s \<and> en \<and> \<not> (\<not> on_change (nat h) \<and> samplingPeriodNs (m_batchInfo s ! nat h) \<le> 0)")
  case False
  then have "s' = s \<or> s' = s\<lparr>m_activeSensorsMask := m_activeSensorsMask s AND NOT (push_bit (nat h) 1)\<rparr>"
    using assms(2) by (auto simp: activate_def Let_def split: if_splits)
  moreover have "sens_inv (s\<lparr>m_activeSensorsMask := m_activeSensorsMask s AND NOT (push_bit (nat h) 1)\<rparr>)"
    by (rule sens_inv_fewer [OF assms(1)]) (rule mask_updates(2))
  ultimately show ?thesis using assms(1) by metis
next
  case True
  then have h: "nat h < kSensorNumber" "bit (m_availableSensorsMask s) (nat h)" by (simp_all add: valid_bit)
  have mask: "bit (m_activeSensorsMask s OR push_bit (nat h) 1) i \<longleftrightarrow> bit (m_activeSensorsMask s) i \<or> i = nat h"
    if "i < kSensorNumber" for i
    using that mask_updates(1) kSensorNumber_small by blast
  show ?thesis
  proof (cases "on_change (nat h)")
    case oc: True
    then have "s' = s\<lparr>m_activeSensorsMask := m_activeSensorsMask s OR push_bit (nat h) 1\<rparr>"
      using assms(2) True by (auto simp: activate_def Let_def bind_eq_Some_conv split: if_splits)
    then show ?thesis using assms(1) h oc mask_updates(1) mask by (auto simp: sens_inv_def current_refs_def)
  next
    case oc: False
    let ?s = "start_batch now (nat h) s"
    have s': "s' = ?s\<lparr>m_activeSensorsMask := m_activeSensorsMask s OR push_bit (nat h) 1\<rparr>"
      using assms(2) True oc by (auto simp: activate_def Let_def bind_eq_Some_conv split: if_splits)
    have period: "0 < samplingPeriodNs (m_batchInfo s ! nat h)" using True oc by simp
    have len: "length (m_batchInfo s) = kSensorNumber" and old: "\<forall>r\<in>set (m_batchQueue s). ref_handle r < kSensorNumber \<and> \<not> on_change (ref_handle r) \<and>
        ref_generation r \<le> generation (m_batchInfo s ! ref_handle r)" using assms(1) by (simp_all add: sens_inv_def)
    have "filter (\<lambda>r. ref_handle r = nat h \<and> ref_generation r = generation (m_batchInfo s ! nat h) + 1) (m_batchQueue s) = []"
      using old by (fastforce simp: filter_empty_conv)
    then have "length (current_refs (nat h) s') = 1"
      using h(1) len by (simp add: s' start_batch_def current_refs_def upd_info_def Let_def)
    moreover have "current_refs i s' = current_refs i s" if "i \<noteq> nat h" for i
      using that by (simp add: s' start_batch_def current_refs_def upd_info_def Let_def)
    ultimately have refs: "length (current_refs i s') = (if i = nat h then 1 else length (current_refs i s))" for i by simp
    have info: "m_batchInfo s' ! i = (if i = nat h then (m_batchInfo s ! i)\<lparr>generation := generation (m_batchInfo s ! i) + 1\<rparr>
        else m_batchInfo s ! i)" for i using h(1) len by (simp add: s' start_batch_def upd_info_def Let_def nth_list_update)
    have queue: "m_batchQueue s' = m_batchQueue s @ [\<lparr>ref_time = now + samplingPeriodNs (m_batchInfo s ! nat h), ref_handle = nat h,
        ref_generation = generation (m_batchInfo s ! nat h) + 1\<rparr>]" by (simp add: s' start_batch_def upd_info_def Let_def)
    have masks: "m_activeSensorsMask s' = m_activeSensorsMask s OR push_bit (nat h) 1" by (simp add: s')
    show ?thesis
    proof (rule sens_inv_step [OF assms(1)])
      fix r
      assume "r \<in> set (m_batchQueue s')"
      then consider "r \<in> set (m_batchQueue s)" | "ref_handle r = nat h" "ref_generation r = generation (m_batchInfo s ! nat h) + 1"
        unfolding queue by auto
      then show "ref_handle r < kSensorNumber \<and> \<not> on_change (ref_handle r) \<and> ref_generation r \<le> generation (m_batchInfo s' ! ref_handle r)"
        using h(1) oc sens_inv_parts(2) [OF assms(1), of r] by cases (auto simp: info)
    next
      fix i
      assume "i < kSensorNumber" "\<not> on_change i" "bit (m_activeSensorsMask s') i"
      then show "0 < samplingPeriodNs (m_batchInfo s' ! i) \<and> length (current_refs i s') = 1"
        using sens_inv_parts(4) [OF assms(1), of i] period mask [of i] unfolding masks refs info by auto
    next
      fix i
      assume "i < 32" "bit (m_activeSensorsMask s') i"
      then show "bit (m_activeSensorsMask s) i \<or> i < kSensorNumber \<and> bit (m_availableSensorsMask s) i"
        unfolding masks using mask_updates(1) [of i "m_activeSensorsMask s" "nat h"] h by auto
    next
      fix i
      assume "i < kSensorNumber" "ev_type (bi_event (m_batchInfo s' ! i)) \<noteq> META_DATA"
      then show "ev_handle (bi_event (m_batchInfo s' ! i)) = i"
        using sens_inv_parts(3) [OF assms(1), of i] by (auto simp: info split: if_splits)
    qed (simp_all add: s' start_batch_def upd_info_def Let_def)
  qed
qed

lemma batch_inv:
  assumes "sens_inv s" and "batch sent h p s = Some (res, es, s')"
  shows "sens_inv s'"
proof (cases "isSensorHandleValid h s \<and> minDelay (kAllSensors ! nat h) \<le> p \<and> m_opMode s = NORMAL")
  case False
  then have "s' = s" using assms(2) by (auto simp: batch_def Let_def split: if_splits)
  then show ?thesis using assms(1) by simp
next
  case True
  then have s': "s' = upd_info (nat h) (\<lambda>i. i\<lparr>samplingPeriodNs := p\<rparr>) s"
    using assms(2) by (auto simp: batch_def Let_def split: if_splits)
  have h: "nat h < kSensorNumber" "nat h \<noteq> 15" using True assms(1) by (auto simp: valid_bit sens_inv_def)
  have period: "0 < p" if "\<not> on_change (nat h)" using continuous_min_delay [OF h(1) that h(2)] True by simp
  have len: "length (m_batchInfo s) = kSensorNumber" using assms(1) by (simp add: sens_inv_def)
  have info: "m_batchInfo s' ! i = (if i = nat h then (m_batchInfo s ! nat h)\<lparr>samplingPeriodNs := p\<rparr> else m_batchInfo s ! i)" for i
    using h(1) len by (simp add: s' upd_info_def nth_list_update)
  then have "generation (m_batchInfo s' ! i) = generation (m_batchInfo s ! i)" "bi_event (m_batchInfo s' ! i) = bi_event (m_batchInfo s ! i)" for i
    by simp_all
  moreover have "m_batchQueue s' = m_batchQueue s" "m_activeSensorsMask s' = m_activeSensorsMask s"
      "m_availableSensorsMask s' = m_availableSensorsMask s" "length (m_batchInfo s') = length (m_batchInfo s)"
    by (simp_all add: s' upd_info_def)
  moreover have "0 < samplingPeriodNs (m_batchInfo s' ! i)" if "\<not> on_change i" "0 < samplingPeriodNs (m_batchInfo s ! i)" for i
    using info [of i] period that by auto
  ultimately show ?thesis using assms(1) by (auto simp: sens_inv_def current_refs_def)
qed

lemma set_event_inv:
  assumes "sens_inv s" and "h < kSensorNumber" and "ev_handle e = h"
  shows "sens_inv (upd_info h (\<lambda>i. i\<lparr>bi_event := e\<rparr>) s)"
proof -
  let ?s = "upd_info h (\<lambda>i. i\<lparr>bi_event := e\<rparr>) s"
  have len: "length (m_batchInfo s) = kSensorNumber" using assms(1) by (simp add: sens_inv_def)
  have info: "m_batchInfo ?s ! i = (if i = h then (m_batchInfo s ! h)\<lparr>bi_event := e\<rparr> else m_batchInfo s ! i)" for i
    using assms(2) len by (simp add: upd_info_def nth_list_update)
  then have "generation (m_batchInfo ?s ! i) = generation (m_batchInfo s ! i)"
      "samplingPeriodNs (m_batchInfo ?s ! i) = samplingPeriodNs (m_batchInfo s ! i)" for i by simp_all
  moreover have "m_batchQueue ?s = m_batchQueue s" "m_activeSensorsMask ?s = m_activeSensorsMask s"
      "m_availableSensorsMask ?s = m_availableSensorsMask s" "length (m_batchInfo ?s) = length (m_batchInfo s)"
    by (simp_all add: upd_info_def)
  moreover have "ev_handle (bi_event (m_batchInfo ?s ! i)) = i"
    if "ev_type (bi_event (m_batchInfo s ! i)) \<noteq> META_DATA \<longrightarrow> ev_handle (bi_event (m_batchInfo s ! i)) = i"
       "ev_type (bi_event (m_batchInfo ?s ! i)) \<noteq> META_DATA" for i
    using info [of i] that assms(3) by (auto split: if_splits)
  ultimately show ?thesis using assms(1) by (auto simp: sens_inv_def current_refs_def)
qed

lemma post_inv:
  assumes "sens_inv s" and "postSensorEvent e s = Some (es, s')" and "ev_handle e < kSensorNumber"
  shows "sens_inv s'"
  using assms(2) set_event_inv [OF assms(1,3) refl] assms(1) by (auto simp: postSensorEvent_def Let_def split: if_splits)

section \<open>Rounds of the batch thread\<close>

text \<open>One round of the inner loop, on the earliest reference.\<close>

definition batch_round :: "MultihalSensors \<Rightarrow> (sensor_effect list \<times> MultihalSensors) option" where
  "batch_round s = batch_one (queue_top (m_batchQueue s)) (s\<lparr>m_batchQueue := remove1 (queue_top (m_batchQueue s)) (m_batchQueue s)\<rparr>)"

lemma batch_one_info:
  assumes "batch_one r s = Some (es, s')" and "ref_handle r < length (m_batchInfo s)"
  shows "m_activeSensorsMask s' = m_activeSensorsMask s \<and> m_availableSensorsMask s' = m_availableSensorsMask s \<and>
    m_halProxyCallback s' = m_halProxyCallback s \<and> length (m_batchInfo s') = length (m_batchInfo s) \<and>
    (\<forall>i. generation (m_batchInfo s' ! i) = generation (m_batchInfo s ! i) \<and>
         samplingPeriodNs (m_batchInfo s' ! i) = samplingPeriodNs (m_batchInfo s ! i) \<and>
         ev_type (bi_event (m_batchInfo s' ! i)) = ev_type (bi_event (m_batchInfo s ! i)) \<and>
         ev_handle (bi_event (m_batchInfo s' ! i)) = ev_handle (bi_event (m_batchInfo s ! i)) \<and>
         ev_payload (bi_event (m_batchInfo s' ! i)) = ev_payload (bi_event (m_batchInfo s ! i)))"
  using assms by (auto simp: batch_one_def Let_def upd_info_def bind_eq_Some_conv nth_list_update split: if_splits)

lemma batch_one_total:
  assumes "ref_handle r < kSensorNumber" and "m_halProxyCallback s"
    and "isSensorActive (ref_handle r) s \<Longrightarrow> ref_generation r = generation (m_batchInfo s ! ref_handle r) \<Longrightarrow>
      0 < samplingPeriodNs (m_batchInfo s ! ref_handle r)"
  shows "\<exists>es s'. batch_one r s = Some (es, s')"
  using assms by (auto simp: batch_one_def Let_def doPostSensorEventLocked_def)

lemma length_filter_remove1:
  assumes "x \<in> set xs"
  shows "length (filter P (remove1 x xs)) = (if P x then length (filter P xs) - 1 else length (filter P xs))"
proof -
  have "filter P (remove1 x xs) = (if P x then remove1 x (filter P xs) else filter P xs)"
    using filter_remove1 [of P x xs] by (simp add: remove1_idem)
  then show ?thesis using assms by (simp add: length_remove1)
qed

text \<open>The current references of a sensor are as many after a round as before, if the sensor is active.\<close>

lemma batch_round_refs:
  assumes "batch_round s = Some (es, s')" and "m_batchQueue s \<noteq> []" and "sens_inv s"
    and "h < kSensorNumber" and "isSensorActive h s"
  shows "length (current_refs h s') = length (current_refs h s)"
proof -
  let ?r = "queue_top (m_batchQueue s)" and ?s = "s\<lparr>m_batchQueue := remove1 (queue_top (m_batchQueue s)) (m_batchQueue s)\<rparr>"
  let ?P = "\<lambda>r. ref_handle r = h \<and> ref_generation r = generation (m_batchInfo s ! h)"
  have mem: "?r \<in> set (m_batchQueue s)" using queue_top_mem [OF assms(2)] .
  have one: "batch_one ?r ?s = Some (es, s')" using assms(1) by (simp add: batch_round_def)
  have r: "ref_handle ?r < length (m_batchInfo ?s)" using sens_inv_parts(1,2) [OF assms(3)] mem by simp
  have gen: "generation (m_batchInfo s' ! h) = generation (m_batchInfo s ! h)" using batch_one_info [OF one r] by simp
  have rest: "length (filter ?P (remove1 ?r (m_batchQueue s))) = (if ?P ?r then length (filter ?P (m_batchQueue s)) - 1
      else length (filter ?P (m_batchQueue s)))" using length_filter_remove1 [OF mem, of ?P] .
  show ?thesis
  proof (cases "?P ?r")
    case True
    then have "m_batchQueue s' = remove1 ?r (m_batchQueue s) @
        [?r\<lparr>ref_time := ref_time ?r + samplingPeriodNs (m_batchInfo s ! ref_handle ?r)\<rparr>]"
      using one assms(5) by (auto simp: batch_one_def Let_def bind_eq_Some_conv upd_info_def isSensorActive_def split: if_splits)
    moreover have "0 < length (filter ?P (m_batchQueue s))" using mem True by (auto simp: filter_empty_conv)
    ultimately show ?thesis using True rest by (simp add: current_refs_def gen)
  next
    case False
    then have "filter ?P (m_batchQueue s') = filter ?P (remove1 ?r (m_batchQueue s))"
      using batch_one_queue [OF one] by auto
    moreover have "length (filter ?P (remove1 ?r (m_batchQueue s))) = length (filter ?P (m_batchQueue s))"
      using rest False by presburger
    ultimately show ?thesis unfolding current_refs_def gen by presburger
  qed
qed

lemma batch_round_inv:
  assumes "batch_round s = Some (es, s')" and "m_batchQueue s \<noteq> []" and "sens_inv s"
  shows "sens_inv s' \<and> m_halProxyCallback s' = m_halProxyCallback s"
proof -
  let ?r = "queue_top (m_batchQueue s)" and ?s = "s\<lparr>m_batchQueue := remove1 (queue_top (m_batchQueue s)) (m_batchQueue s)\<rparr>"
  have mem: "?r \<in> set (m_batchQueue s)" using queue_top_mem [OF assms(2)] .
  have one: "batch_one ?r ?s = Some (es, s')" using assms(1) by (simp add: batch_round_def)
  have r: "ref_handle ?r < length (m_batchInfo ?s)" using sens_inv_parts(1,2) [OF assms(3)] mem by simp
  note same = batch_one_info [OF one r]
  have old: "r \<in> set (remove1 ?r (m_batchQueue s)) \<Longrightarrow> r \<in> set (m_batchQueue s)" for r by (meson notin_set_remove1)
  have "sens_inv s'"
  proof (rule sens_inv_step [OF assms(3)])
    fix r
    assume "r \<in> set (m_batchQueue s')"
    then have "r \<in> set (m_batchQueue s) \<or> ref_handle r = ref_handle ?r \<and> ref_generation r = ref_generation ?r"
      using batch_one_queue [OF one] old by auto
    then show "ref_handle r < kSensorNumber \<and> \<not> on_change (ref_handle r) \<and> ref_generation r \<le> generation (m_batchInfo s' ! ref_handle r)"
      using sens_inv_parts(2) [OF assms(3), of r] sens_inv_parts(2) [OF assms(3) mem] same by auto
  next
    fix h
    assume h: "h < kSensorNumber" "\<not> on_change h" "bit (m_activeSensorsMask s') h"
    then have "isSensorActive h s" using same by (simp add: active_bit)
    then show "0 < samplingPeriodNs (m_batchInfo s' ! h) \<and> length (current_refs h s') = 1"
      using batch_round_refs [OF assms h(1)] sens_inv_parts(4) [OF assms(3) h(1,2)] same by (simp add: active_bit)
  qed (use same sens_inv_parts(3) [OF assms(3)] in simp_all)
  then show ?thesis using same by simp
qed

lemma batch_round_total:
  assumes "sens_inv s" and "m_batchQueue s \<noteq> []" and "m_halProxyCallback s"
  shows "\<exists>es s'. batch_round s = Some (es, s')"
proof -
  let ?r = "queue_top (m_batchQueue s)"
  have mem: "?r \<in> set (m_batchQueue s)" using queue_top_mem [OF assms(2)] .
  then have r: "ref_handle ?r < kSensorNumber" "\<not> on_change (ref_handle ?r)" using sens_inv_parts(2) [OF assms(1)] by auto
  show ?thesis unfolding batch_round_def
    by (rule batch_one_total) (use r assms(3) sens_inv_parts(4) [OF assms(1) r] in \<open>simp_all add: active_bit\<close>)
qed

section \<open>Reachable states\<close>

text \<open>The calls of the service, the messages and the passes of the batch thread; the state is the one of the protocol with the
  one of the service. The first call of the service sets the callback; a call that aborts has no step.\<close>

inductive sens_step :: "QemuSensorsProtocolState \<times> MultihalSensors \<Rightarrow> sensor_effect list \<Rightarrow>
    QemuSensorsProtocolState \<times> MultihalSensors \<Rightarrow> bool" where
  step_initialize: "initialize True sends s = (es, s') \<Longrightarrow> sens_step (st, s) es (st, s')"
| step_mode: "setOperationMode mode s = (res, s') \<Longrightarrow> sens_step (st, s) [] (st, s')"
| step_activate: "activate now h en s = Some (res, es, s') \<Longrightarrow> sens_step (st, s) es (st, s')"
| step_batch: "batch sent h p s = Some (res, es, s') \<Longrightarrow> sens_step (st, s) es (st, s')"
| step_flush: "flush junk now h s = Some (res, es) \<Longrightarrow> sens_step (st, s) es (st, s)"
| step_inject: "injectSensorData_2_1 e s = Some (res, es) \<Longrightarrow> sens_step (st, s) es (st, s)"
| step_message: "parseQemuSensorEvent env (Some buf) st s = Some (es, st', s') \<Longrightarrow> sens_step (st, s) es (st', s')"
| step_batches: "batch_loop now s = Some (es, s') \<Longrightarrow> sens_step (st, s) es (st, s')"

definition sens_init :: "QemuSensorsProtocolState \<times> MultihalSensors \<Rightarrow> bool" where
  "sens_init c \<longleftrightarrow> fst c = protocol_new \<and> (\<exists>now reply es. MultihalSensors_new now reply = Some (es, snd c))"

definition sens_move :: "QemuSensorsProtocolState \<times> MultihalSensors \<Rightarrow> QemuSensorsProtocolState \<times> MultihalSensors \<Rightarrow> bool" where
  "sens_move c c' \<longleftrightarrow> (\<exists>es. sens_step c es c')"

definition sens_reachable :: "QemuSensorsProtocolState \<times> MultihalSensors \<Rightarrow> bool" where
  "sens_reachable c \<longleftrightarrow> (\<exists>c0. sens_init c0 \<and> sens_move\<^sup>*\<^sup>* c0 c)"

lemma reach_new: "MultihalSensors_new now reply = Some (es, s) \<Longrightarrow> sens_reachable (protocol_new, s)"
  unfolding sens_reachable_def sens_init_def by fastforce

lemma reach_step: "sens_reachable c \<Longrightarrow> sens_step c es c' \<Longrightarrow> sens_reachable c'"
proof -
  assume "sens_reachable c" and "sens_step c es c'"
  then have "\<exists>c0. sens_init c0 \<and> sens_move\<^sup>*\<^sup>* c0 c" and "sens_move c c'" by (auto simp: sens_reachable_def sens_move_def)
  then show ?thesis unfolding sens_reachable_def by (meson rtranclp.rtrancl_into_rtrancl)
qed

lemma find_message_mem: "find_message buf ks = Some (k, v) \<Longrightarrow> \<exists>pre. (pre, k) \<in> set ks"
  by (induction buf ks rule: find_message.induct) (auto split: option.splits)

text \<open>What a message does to the service is what \<^verbatim>\<open>postSensorEvent\<close> does with some event of a listed sensor, or nothing.\<close>

fun kind_handle :: "message_kind \<Rightarrow> nat" where
  "kind_handle (M_vec3 h _ _) = h" | "kind_handle (M_uncal h _ _) = h" | "kind_handle (M_scalar h _) = h"
| "kind_handle (M_changed h _) = h" | "kind_handle (M_hinge h) = h" | "kind_handle M_heart = 14" | "kind_handle M_wrist = 16"
| "kind_handle M_guest_sync = 0" | "kind_handle M_sync = 0"

lemma post_changed_posts:
  "post_changed t h ty p v tr st s = Some (es, st', s') \<Longrightarrow>
     s' = s \<and> es = [] \<and> st' = st \<or>
     postSensorEvent (message_event t h ty p) s = Some (es, s') \<and> st' = st\<lparr>last_value := (last_value st)(h := v)\<rparr>"
  by (auto simp: post_changed_def bind_eq_Some_conv split: if_splits)

lemma posted_Some: "posted st r = Some (es, st', s') \<longleftrightarrow> st' = st \<and> r = Some (es, s')"
  by (auto simp: posted_def)

lemma handle_message_posts:
  assumes "handle_message env k v st s = Some (es, st', s')"
  shows "s' = s \<and> es = [] \<or> (\<exists>ty p. postSensorEvent (message_event (now_ns env + timeBiasNs st) (kind_handle k) ty p) s = Some (es, s'))"
  using assms by (cases k)
    (auto simp: handle_message_def Let_def bind_eq_Some_conv posted_Some dest: post_changed_posts split: if_splits)

lemma parse_posts:
  assumes "parseQemuSensorEvent env (Some buf) st s = Some (es, st', s')"
  shows "s' = s \<and> es = [] \<or> (\<exists>h ty p. h < kSensorNumber \<and> postSensorEvent (message_event (now_ns env + timeBiasNs st) h ty p) s = Some (es, s'))"
proof -
  have "\<forall>(pre, k)\<in>set message_kinds. kind_handle k < kSensorNumber" by (simp add: message_kinds_def kSensorNumber_def)
  then have small: "kind_handle k < kSensorNumber" if "find_message buf message_kinds = Some (k, v)" for k v
    using find_message_mem [OF that] by auto
  show ?thesis
    using assms handle_message_posts small by (fastforce simp: parseQemuSensorEvent_def split: option.splits)
qed

lemma earliest_le: "ref_time (earliest r q) \<le> ref_time r \<and> (\<forall>x\<in>set q. ref_time (earliest r q) \<le> ref_time x)"
proof (induction q arbitrary: r)
  case (Cons x q)
  show ?case using Cons [of "if ref_time x < ref_time r then x else r"] by (auto split: if_splits)
qed simp

lemma queue_top_le: "r \<in> set q \<Longrightarrow> ref_time (queue_top q) \<le> ref_time r"
  using earliest_le [of "hd q" "tl q"] by (cases q) (auto simp: queue_top_def)

text \<open>The loop as rounds.\<close>

lemma batch_loop_rounds:
  "batch_loop now s =
     (if m_batchQueue s = [] \<or> now < ref_time (queue_top (m_batchQueue s)) then Some ([], s)
      else case batch_round s of None \<Rightarrow> None | Some (es, s') \<Rightarrow> map_option (\<lambda>(es', s). (es @ es', s)) (batch_loop now s'))"
  by (simp add: batch_loop.simps [of now s] batch_round_def Let_def)

lemma batch_loop_round_induct:
  assumes "\<And>s. (\<And>es s'. m_batchQueue s \<noteq> [] \<Longrightarrow> ref_time (queue_top (m_batchQueue s)) \<le> now \<Longrightarrow> batch_round s = Some (es, s') \<Longrightarrow> P s')
      \<Longrightarrow> P s"
  shows "P s"
  using assms
proof (induction now s rule: batch_loop.induct)
  case (1 now s)
  show ?case
  proof (rule 1(2))
    fix es s'
    assume r: "m_batchQueue s \<noteq> []" "ref_time (queue_top (m_batchQueue s)) \<le> now" "batch_round s = Some (es, s')"
    show "P s'"
      by (rule 1(1) [OF r(1) refl _ _ refl]) (use r(2,3) 1(2) in \<open>auto simp: not_less batch_round_def\<close>)
  qed
qed

lemma batch_round_frame:
  assumes "batch_round s = Some (es, s')" and "m_batchQueue s \<noteq> []" and "sens_inv s"
  shows "m_activeSensorsMask s' = m_activeSensorsMask s" "m_availableSensorsMask s' = m_availableSensorsMask s"
    "m_halProxyCallback s' = m_halProxyCallback s" "generation (m_batchInfo s' ! i) = generation (m_batchInfo s ! i)"
    "samplingPeriodNs (m_batchInfo s' ! i) = samplingPeriodNs (m_batchInfo s ! i)"
proof -
  have "ref_handle (queue_top (m_batchQueue s)) < length (m_batchInfo s)"
    using sens_inv_parts(1,2) [OF assms(3)] queue_top_mem [OF assms(2)] by simp
  then show "m_activeSensorsMask s' = m_activeSensorsMask s" "m_availableSensorsMask s' = m_availableSensorsMask s"
    "m_halProxyCallback s' = m_halProxyCallback s" "generation (m_batchInfo s' ! i) = generation (m_batchInfo s ! i)"
    "samplingPeriodNs (m_batchInfo s' ! i) = samplingPeriodNs (m_batchInfo s ! i)"
    using batch_one_info [of _ "s\<lparr>m_batchQueue := remove1 (queue_top (m_batchQueue s)) (m_batchQueue s)\<rparr>" es s'] assms(1)
    by (auto simp: batch_round_def)
qed

text \<open>A pass of the thread ends, with nothing left that is due.\<close>

lemma batch_loop_ok:
  assumes "sens_inv s" and "m_batchQueue s \<noteq> [] \<Longrightarrow> m_halProxyCallback s"
  shows "\<exists>es s'. batch_loop now s = Some (es, s') \<and> sens_inv s' \<and> m_activeSensorsMask s' = m_activeSensorsMask s \<and>
    m_availableSensorsMask s' = m_availableSensorsMask s \<and> m_halProxyCallback s' = m_halProxyCallback s \<and>
    (\<forall>h. samplingPeriodNs (m_batchInfo s' ! h) = samplingPeriodNs (m_batchInfo s ! h)) \<and>
    (m_batchQueue s = [] \<longrightarrow> m_batchQueue s' = []) \<and> (\<forall>r\<in>set (m_batchQueue s'). now < ref_time r)"
  using assms
proof (induction s rule: batch_loop_round_induct [where now = now])
  case (1 s)
  show ?case
  proof (cases "m_batchQueue s = [] \<or> now < ref_time (queue_top (m_batchQueue s))")
    case True
    then show ?thesis using 1(2) queue_top_le [of _ "m_batchQueue s"] by (force simp: batch_loop_rounds [of now s])
  next
    case False
    then obtain es s' where r: "batch_round s = Some (es, s')" using batch_round_total [OF 1(2)] 1(3) by blast
    have inv: "sens_inv s'" "m_halProxyCallback s'" using batch_round_inv [OF r _ 1(2)] False 1(3) by auto
    note frame = batch_round_frame [OF r _ 1(2)]
    from 1(1) [OF _ _ r inv(1)] False inv(2) obtain es2 s2 where "batch_loop now s' = Some (es2, s2)" "sens_inv s2"
      "m_activeSensorsMask s2 = m_activeSensorsMask s'" "m_availableSensorsMask s2 = m_availableSensorsMask s'"
      "m_halProxyCallback s2 = m_halProxyCallback s'" "\<forall>h. samplingPeriodNs (m_batchInfo s2 ! h) = samplingPeriodNs (m_batchInfo s' ! h)"
      "\<forall>r\<in>set (m_batchQueue s2). now < ref_time r" by auto
    then show ?thesis using False r frame by (auto simp: batch_loop_rounds [of now s])
  qed
qed

text \<open>Events are posted only through a callback that is set.\<close>

definition callback_set :: "MultihalSensors \<Rightarrow> bool" where
  "callback_set s \<longleftrightarrow> (m_batchQueue s \<noteq> [] \<or> m_activeSensorsMask s \<noteq> 0 \<longrightarrow> m_halProxyCallback s)"

lemma activate_frame:
  assumes "activate now h en s = Some (res, es, s')" and "callback_set s"
  shows "m_availableSensorsMask s' = m_availableSensorsMask s \<and> callback_set s'"
  using assms by (auto simp: activate_def start_batch_def upd_info_def sendAdditionalInfoReport_def Let_def bind_eq_Some_conv
      callback_set_def split: if_splits)

lemma batch_frame:
  assumes "batch sent h p s = Some (res, es, s')"
  shows "m_availableSensorsMask s' = m_availableSensorsMask s \<and> (callback_set s \<longrightarrow> callback_set s')"
  using assms by (auto simp: batch_def upd_info_def Let_def callback_set_def split: if_splits)

lemma post_frame:
  assumes "postSensorEvent e s = Some (es, s')"
  shows "m_availableSensorsMask s' = m_availableSensorsMask s \<and> (callback_set s \<longrightarrow> callback_set s')"
  using assms by (auto simp: postSensorEvent_def upd_info_def Let_def callback_set_def split: if_splits)

lemma parse_frame:
  assumes "parseQemuSensorEvent env (Some buf) st s = Some (es, st', s')"
  shows "m_availableSensorsMask s' = m_availableSensorsMask s \<and> (callback_set s \<longrightarrow> callback_set s') \<and> (sens_inv s \<longrightarrow> sens_inv s')"
  using parse_posts [OF assms] post_frame post_inv by (fastforce simp: message_event_def)


lemma loop_available: "batch_loop now s = Some (es, s') \<Longrightarrow> m_availableSensorsMask s' = m_availableSensorsMask s"
proof (induction s arbitrary: es rule: batch_loop_round_induct [where now = now])
  case (1 s)
  have one: "batch_round s = Some (es, s'') \<Longrightarrow> m_availableSensorsMask s'' = m_availableSensorsMask s" for es s''
    by (auto simp: batch_round_def batch_one_def Let_def upd_info_def bind_eq_Some_conv split: if_splits)
  show ?case
  proof (cases "m_batchQueue s = [] \<or> now < ref_time (queue_top (m_batchQueue s))")
    case True
    then show ?thesis using 1(2) by (auto simp: batch_loop_rounds [of now s])
  next
    case False
    then obtain es1 s1 es2 where r: "batch_round s = Some (es1, s1)" "batch_loop now s1 = Some (es2, s')"
      using 1(2) by (auto simp: batch_loop_rounds [of now s] split: option.splits)
    have "m_availableSensorsMask s' = m_availableSensorsMask s1" by (rule 1(1) [OF _ _ r]) (use False in simp_all)
    then show ?thesis using one [OF r(1)] by (rule trans)
  qed
qed

lemma sens_step_ready:
  assumes "sens_step (st, s) es (st', s')" and "\<not> bit (m_availableSensorsMask s) 15 \<longrightarrow> sens_inv s \<and> callback_set s"
  shows "m_availableSensorsMask s' = m_availableSensorsMask s \<and> (\<not> bit (m_availableSensorsMask s) 15 \<longrightarrow> sens_inv s' \<and> callback_set s')"
  using assms(1)
proof cases
  case (step_initialize sends)
  then show ?thesis using assms(2) by (auto simp: initialize_def callback_set_def sens_inv_def current_refs_def)
next
  case (step_mode mode res)
  then show ?thesis using assms(2) by (auto simp: setOperationMode_def callback_set_def sens_inv_def current_refs_def split: if_splits)
next
  case (step_activate now h en res)
  have "m_availableSensorsMask s' = m_availableSensorsMask s"
    using step_activate by (auto simp: activate_def start_batch_def upd_info_def Let_def bind_eq_Some_conv split: if_splits)
  then show ?thesis using assms(2) activate_inv [OF _ step_activate(2)] activate_frame [OF step_activate(2)] by blast
next
  case (step_batch sent h p res)
  then show ?thesis using assms(2) batch_inv [OF _ step_batch(2)] batch_frame [OF step_batch(2)] by blast
next
  case (step_message env buf)
  then show ?thesis using assms(2) parse_frame by blast
next
  case (step_batches now)
  have "sens_inv s \<and> callback_set s \<Longrightarrow> sens_inv s' \<and> callback_set s'"
    using batch_loop_ok [of s now] step_batches by (auto simp: callback_set_def)
  then show ?thesis using assms(2) loop_available [OF step_batches(2)] by blast
qed (use assms(2) in auto)

definition sens_ready :: "QemuSensorsProtocolState \<times> MultihalSensors \<Rightarrow> bool" where
  "sens_ready c \<longleftrightarrow> (\<not> bit (m_availableSensorsMask (snd c)) 15 \<longrightarrow> sens_inv (snd c) \<and> callback_set (snd c))"

interpretation sensors: invariant_system sens_init sens_move sens_ready
proof
  fix c
  assume "sens_init c"
  then obtain now reply es where new: "MultihalSensors_new now reply = Some (es, snd c)" by (auto simp: sens_init_def)
  then have "m_activeSensorsMask (snd c) = 0 \<and> m_batchQueue (snd c) = []"
    by (auto simp: MultihalSensors_new_def bind_eq_Some_conv split: option.splits if_splits dest!: sym [of _ "snd c"])
  then show "sens_ready c" using new_inv [OF new] by (simp add: sens_ready_def callback_set_def)
next
  fix c c'
  assume "sens_move c c'" and "sens_ready c"
  then show "sens_ready c'"
    using sens_step_ready [of "fst c" "snd c" _ "fst c'" "snd c'"] by (auto simp: sens_move_def sens_ready_def)
qed

lemma reachable_ready:
  assumes "sens_reachable c" and "\<not> bit (m_availableSensorsMask (snd c)) 15"
  shows "sens_inv (snd c) \<and> callback_set (snd c)"
  using assms sensors.reachable_inv [of _ c] unfolding sens_reachable_def sens_ready_def by blast

text \<open>What the listener thread does is steps: the state it leaves behind is reachable.\<close>

lemma listener_reachable:
  assumes "qemuSensorListenerThread evs st s = Some (es, st', s')" and "sens_reachable (st, s)"
  shows "sens_reachable (st', s')"
  using assms
proof (induction evs st s arbitrary: es rule: qemuSensorListenerThread.induct)
  case (2 env msg evs st s)
  then obtain es1 st1 s1 es2 where one: "parseQemuSensorEvent env msg st s = Some (es1, st1, s1)"
      and rest: "qemuSensorListenerThread evs st1 s1 = Some (es2, st', s')" by (auto simp: bind_eq_Some_conv)
  obtain buf where "msg = Some buf" using one by (cases msg) (simp_all add: parseQemuSensorEvent_def)
  then have "sens_reachable (st1, s1)" using one 2(3) reach_step step_message by blast
  then show ?case using 2(1) [OF one refl refl rest] by simp
qed (auto split: if_splits)

end
