(* ===== verification/Sensors_Flow.thy ===== *)
theory Sensors_Flow
  imports Sensors_Props
begin

text \<open>
  The sensor service end to end: the batch thread in every reachable state, the samples that a continuous sensor delivers, and
  what becomes of the values of the sensors that report changes.
\<close>

section \<open>Samples\<close>

text \<open>The times that are due: from \<open>t\<close> in steps of \<open>p\<close> until \<open>now\<close>.\<close>

definition due :: "int \<Rightarrow> int \<Rightarrow> int \<Rightarrow> int list" where
  "due t p now = map (\<lambda>k. t + int k * p) [0..<nat ((now - t) div p + 1)]"

lemma due_none: "now < t \<Longrightarrow> 0 < p \<Longrightarrow> due t p now = []"
proof -
  assume "now < t" "0 < p"
  then have "(now - t) div p < 0" by (simp add: neg_imp_zdiv_neg_iff pos_imp_zdiv_neg_iff)
  then show ?thesis by (simp add: due_def)
qed

lemma due_step:
  assumes "t \<le> now" and "0 < p"
  shows "due t p now = t # due (t + p) p now"
proof -
  let ?n = "nat ((now - t) div p)"
  have "(now - (t + p)) div p = (now - t) div p - 1"
  proof -
    have "now - (t + p) = now - t + (- 1) * p" by simp
    then show ?thesis using assms(2) by (metis add.commute div_mult_self1 diff_minus_eq_add less_irrefl minus_diff_eq uminus_add_conv_diff)
  qed
  then have rest: "due (t + p) p now = map (\<lambda>k. t + p + int k * p) [0..<?n]" by (simp add: due_def)
  have "0 \<le> (now - t) div p" using assms by (simp add: pos_imp_zdiv_nonneg_iff)
  then have "nat ((now - t) div p + 1) = Suc ?n" by (simp add: Suc_nat_eq_nat_zadd1)
  then show ?thesis unfolding rest unfolding due_def
    by (simp add: upt_conv_Cons map_Suc_upt [symmetric] algebra_simps del: upt_Suc)
qed

text \<open>The events posted for a sensor.\<close>

fun effect_events :: "sensor_effect \<Rightarrow> sensor_event list" where
  "effect_events (Post_events es w) = es"
| "effect_events (Send m) = []"

definition posted_of :: "nat \<Rightarrow> sensor_effect list \<Rightarrow> sensor_event list" where
  "posted_of h es = filter (\<lambda>e. ev_handle e = h) (concat (map effect_events es))"

lemma posted_of_append: "posted_of h (es @ es') = posted_of h es @ posted_of h es'"
  by (simp add: posted_of_def)

definition refs_of :: "nat \<Rightarrow> MultihalSensors \<Rightarrow> BatchEventRef list" where
  "refs_of h s = filter (\<lambda>r. ref_handle r = h) (m_batchQueue s)"

text \<open>A round on another sensor's reference changes nothing for the sensor.\<close>

lemma batch_round_other:
  assumes "batch_round s = Some (es, s')" and "m_batchQueue s \<noteq> []" and "sens_inv s" and "ref_handle (queue_top (m_batchQueue s)) \<noteq> h"
  shows "refs_of h s' = refs_of h s \<and> m_batchInfo s' ! h = m_batchInfo s ! h \<and> posted_of h es = []"
proof -
  let ?r = "queue_top (m_batchQueue s)" and ?s = "s\<lparr>m_batchQueue := remove1 (queue_top (m_batchQueue s)) (m_batchQueue s)\<rparr>"
  have one: "batch_one ?r ?s = Some (es, s')" using assms(1) by (simp add: batch_round_def)
  have mem: "?r \<in> set (m_batchQueue s)" using queue_top_mem [OF assms(2)] .
  have ev: "ev_type (bi_event (m_batchInfo s ! ref_handle ?r)) \<noteq> META_DATA \<Longrightarrow>
      ev_handle (bi_event (m_batchInfo s ! ref_handle ?r)) = ref_handle ?r"
    using sens_inv_parts(2) [OF assms(3) mem] sens_inv_parts(3) [OF assms(3)] by blast
  have "refs_of h ?s = refs_of h s" using assms(4) by (simp add: refs_of_def filter_remove1 remove1_idem)
  moreover have "refs_of h s' = refs_of h ?s" using batch_one_queue [OF one] assms(4) by (auto simp: refs_of_def)
  moreover have "m_batchInfo s' ! h = m_batchInfo s ! h \<and> posted_of h es = []"
    using one ev assms(4) by (auto simp: batch_one_def Let_def upd_info_def doPostSensorEventLocked_def posted_of_def bind_eq_Some_conv
        split: if_splits)
  ultimately show ?thesis by simp
qed

text \<open>A round on the sensor's own, only reference posts its value and queues the next time.\<close>

lemma batch_round_own:
  assumes "batch_round s = Some (es, s')" and "m_batchQueue s \<noteq> []" and "sens_inv s" and "ref_handle (queue_top (m_batchQueue s)) = h"
    and "refs_of h s = [r]" and "ref_generation r = generation (m_batchInfo s ! h)" and "isSensorActive h s"
  shows "queue_top (m_batchQueue s) = r \<and>
    refs_of h s' = [r\<lparr>ref_time := ref_time r + samplingPeriodNs (m_batchInfo s ! h)\<rparr>] \<and>
    ev_type (bi_event (m_batchInfo s' ! h)) = ev_type (bi_event (m_batchInfo s ! h)) \<and>
    (\<forall>t. bi_event (m_batchInfo s' ! h)\<lparr>ev_time := t\<rparr> = bi_event (m_batchInfo s ! h)\<lparr>ev_time := t\<rparr>) \<and>
    posted_of h es = (if ev_type (bi_event (m_batchInfo s ! h)) = META_DATA then []
      else [bi_event (m_batchInfo s ! h)\<lparr>ev_time := ref_time r\<rparr>])"
proof -
  have mem: "queue_top (m_batchQueue s) \<in> set (m_batchQueue s)" using queue_top_mem [OF assms(2)] .
  then have "queue_top (m_batchQueue s) \<in> set (refs_of h s)" using assms(4) by (simp add: refs_of_def)
  then have top: "queue_top (m_batchQueue s) = r" using assms(5) by simp
  let ?s = "s\<lparr>m_batchQueue := remove1 r (m_batchQueue s)\<rparr>"
  have r: "ref_handle r = h" "h < kSensorNumber" using assms(4) top sens_inv_parts(2) [OF assms(3) mem] by auto
  have one: "batch_one r ?s = Some (es, s')" using assms(1) by (simp add: batch_round_def top)
  have ev: "ev_type (bi_event (m_batchInfo s ! h)) \<noteq> META_DATA \<Longrightarrow> ev_handle (bi_event (m_batchInfo s ! h)) = h"
    using sens_inv_parts(3) [OF assms(3) r(2)] .
  have gone: "filter (\<lambda>x. ref_handle x = h) (remove1 r (m_batchQueue s)) = []"
    using assms(5) by (simp add: refs_of_def filter_remove1)
  have act: "isSensorActive h ?s" using assms(7) by (simp add: isSensorActive_def)
  show ?thesis
    using one ev gone act r assms(6) sens_inv_parts(1) [OF assms(3)]
    by (auto simp: top batch_one_def Let_def upd_info_def doPostSensorEventLocked_def posted_of_def refs_of_def bind_eq_Some_conv
        split: if_splits)
qed

lemma batch_loop_samples:
  assumes "sens_inv s" and "refs_of h s = [r]" and "ref_generation r = generation (m_batchInfo s ! h)" and "isSensorActive h s"
    and "m_halProxyCallback s" and "h < kSensorNumber" and "\<not> on_change h"
    and "batch_loop now s = Some (es, s')"
  shows "posted_of h es = (if ev_type (bi_event (m_batchInfo s ! h)) = META_DATA then []
      else map (\<lambda>t. bi_event (m_batchInfo s ! h)\<lparr>ev_time := t\<rparr>) (due (ref_time r) (samplingPeriodNs (m_batchInfo s ! h)) now)) \<and>
    refs_of h s' = [r\<lparr>ref_time := ref_time r + samplingPeriodNs (m_batchInfo s ! h) *
      int (length (due (ref_time r) (samplingPeriodNs (m_batchInfo s ! h)) now))\<rparr>]"
  using assms(1-5,8)
proof (induction s arbitrary: r es rule: batch_loop_round_induct [where now = now])
  case (1 s)
  let ?p = "samplingPeriodNs (m_batchInfo s ! h)" and ?e = "bi_event (m_batchInfo s ! h)"
  have period: "0 < ?p" using sens_inv_parts(4) [OF 1(2) assms(6,7)] 1(5) by (simp add: active_bit)
  have r: "r \<in> set (m_batchQueue s)" "ref_handle r = h" using 1(3) by (auto simp: refs_of_def dest: filter_eq_ConsD)
  show ?case
  proof (cases "now < ref_time (queue_top (m_batchQueue s))")
    case True
    then have "now < ref_time r" using queue_top_le [OF r(1)] by simp
    then show ?thesis using 1(3,7) True due_none [OF _ period] by (auto simp: batch_loop_rounds [of now s] posted_of_def)
  next
    case False
    have ne: "m_batchQueue s \<noteq> []" using r(1) by auto
    obtain es1 s1 es2 where round: "batch_round s = Some (es1, s1)" and rest: "batch_loop now s1 = Some (es2, s')" and es: "es = es1 @ es2"
      using 1(7) False ne by (auto simp: batch_loop_rounds [of now s] split: option.splits)
    note inv = batch_round_inv [OF round ne 1(2)] and frame = batch_round_frame [OF round ne 1(2)]
    have later: "sens_inv s1" "isSensorActive h s1" "m_halProxyCallback s1" using inv frame 1(5,6) by (simp_all add: active_bit)
    note IH = 1(1) [OF ne _ round later(1) _ _ later(2,3) rest]
    show ?thesis
    proof (cases "ref_handle (queue_top (m_batchQueue s)) = h")
      case True
      note own = batch_round_own [OF round ne 1(2) True 1(3,4,5)]
      have "ref_time r \<le> now" using own False by simp
      then have "due (ref_time r) ?p now = ref_time r # due (ref_time r + ?p) ?p now" using due_step period by simp
      then show ?thesis using IH [of "r\<lparr>ref_time := ref_time r + ?p\<rparr>"] own False 1(4) frame(4,5) [of h]
        by (simp add: es posted_of_append algebra_simps)
    next
      case other: False
      note other = batch_round_other [OF round ne 1(2) other]
      then show ?thesis using IH [of r] False 1(3,4) by (simp add: es posted_of_append)
    qed
  qed
qed

section \<open>A service in use\<close>

text \<open>The sensors 0 to 6 are announced, and the accelerometer is active with a period of 20 ms.\<close>

definition example_announced :: MultihalSensors where
  "example_announced = \<lparr>m_availableSensorsMask = 0x7F, m_activeSensorsMask = 0, m_opMode = NORMAL, m_halProxyCallback = False,
     m_batchQueue = [], m_batchInfo = replicate kSensorNumber \<lparr>bi_event = no_event, samplingPeriodNs = 0, generation = 0\<rparr>\<rparr>"

definition example_ready :: MultihalSensors where
  "example_ready = example_announced\<lparr>m_halProxyCallback := True\<rparr>"

definition example_active :: MultihalSensors where
  "example_active = example_ready\<lparr>m_activeSensorsMask := 1,
     m_batchQueue := [\<lparr>ref_time = 30000000, ref_handle = 0, ref_generation = 1\<rparr>],
     m_batchInfo := \<lparr>bi_event = no_event, samplingPeriodNs = 20000000, generation = 1\<rparr> #
       replicate 17 \<lparr>bi_event = no_event, samplingPeriodNs = 0, generation = 0\<rparr>\<rparr>"

lemma example_ready_reachable: "sens_reachable (protocol_new, example_ready)"
proof -
  have "MultihalSensors_new 0 (Some ''127'') = Some ([Send ''time:0'', Send ''list-sensors''], example_announced)" by code_simp
  moreover have "initialize True [] example_announced = (setAllQemuSensors True [] example_announced, example_ready)"
    by (simp add: initialize_def example_ready_def example_announced_def)
  ultimately show ?thesis using reach_new reach_step step_initialize by blast
qed

lemma example_active_reachable: "sens_reachable (protocol_new, example_active)"
proof -
  let ?s = "example_ready\<lparr>m_batchInfo := \<lparr>bi_event = no_event, samplingPeriodNs = 20000000, generation = 0\<rparr> #
       replicate 17 \<lparr>bi_event = no_event, samplingPeriodNs = 0, generation = 0\<rparr>\<rparr>"
  have valid: "isSensorHandleValid 0 example_ready" "isSensorHandleValid 0 ?s"
    by (simp_all add: valid_bit example_ready_def example_announced_def kSensorNumber_def)
  have flags: "\<not> on_change 0" by code_simp
  have rep: "replicate kSensorNumber x = x # replicate 17 x" for x :: BatchInfo by (simp add: kSensorNumber_def numeral_eq_Suc)
  have b: "batch True 0 20000000 example_ready = Some (R_OK, [Send (''set-delay:'' @ show_int (delay_ms ?s))], ?s)"
    using valid(1) by (simp add: batch_def Let_def upd_info_def kAllSensors_def sensor_entries example_ready_def example_announced_def rep)
  obtain es where a: "activate 10000000 0 True ?s = Some (R_OK, es, example_active)"
    using valid(2) flags by (simp add: activate_def Let_def start_batch_def upd_info_def sendAdditionalInfoReport_def example_active_def
        example_ready_def example_announced_def)
  show ?thesis by (rule reach_step [OF reach_step [OF example_ready_reachable step_batch [OF b]] step_activate [OF a]])
qed

section \<open>The batch thread\<close>



section \<open>Messages with three values\<close>

text \<open>A name before the separator selects its entry, although one name may start another.\<close>

lemma testPrefix_name:
  "CHR '':'' \<notin> set n \<Longrightarrow> CHR '':'' \<notin> set v \<Longrightarrow>
     testPrefix (n @ CHR '':'' # rest) v (CHR '':'') = (if n = v then Some rest else None)"
proof (induction n arbitrary: v)
  case (Cons c n)
  then show ?case by (cases v) auto
next
  case Nil
  then show ?case by (cases v) auto
qed

lemma find_message_name:
  assumes "CHR '':'' \<notin> set n" and "list_all (\<lambda>(v, k). CHR '':'' \<notin> set v) ks"
  shows "find_message (n @ CHR '':'' # rest) ks = map_option (\<lambda>k. (k, rest)) (map_of ks n)"
  using assms(2) by (induction ks) (auto simp: testPrefix_name [OF assms(1)])

lemma find_message_text:
  assumes "(n, k) \<in> set message_kinds"
  shows "find_message (n @ CHR '':'' # rest) message_kinds = Some (k, rest)"
proof -
  have names: "list_all (\<lambda>(v, k). CHR '':'' \<notin> set v) message_kinds" and "distinct (map fst message_kinds)" by code_simp+
  moreover have "CHR '':'' \<notin> set n" using names assms by (auto simp: list_all_iff)
  ultimately show ?thesis using assms by (simp add: find_message_name)
qed

definition vec_text :: "decimal \<Rightarrow> decimal \<Rightarrow> decimal \<Rightarrow> string" where
  "vec_text x y z = decimal_text x @ CHR '':'' # decimal_text y @ CHR '':'' # decimal_text z"

lemma decimal_text_no_nul: "CHR 0x00 \<notin> set (decimal_text d)"
  using dec_facts(1) by (auto simp: decimal_text_def list_all_iff dest: digit_not_nul)

lemma scan_vec:
  assumes "decimal_ok x" and "decimal_ok y" and "decimal_ok z"
  shows "sscanf vec_format (vec_text x y z) = Some [Float_val (decimal_value x), Float_val (decimal_value y), Float_val (decimal_value z)]"
proof -
  have colon: "number_ends (CHR '':'' # rest)" for rest by (simp add: number_ends_def is_digit_def digit_val_def)
  have z: "scan_lf (decimal_text z) = Some (Some (decimal_value z, []))"
    using scan_lf_decimal [OF assms(3), of "[]"] by (simp add: number_ends_def)
  have "c_str (vec_text x y z) = vec_text x y z"
    by (rule c_str_no_nul) (use decimal_text_no_nul in \<open>auto simp: vec_text_def\<close>)
  then show ?thesis
    using scan_lf_decimal [OF assms(1) colon] scan_lf_decimal [OF assms(2) colon] z
    by (simp add: sscanf_def vec_format_def vec_text_def Let_def)
qed



section \<open>Values that report changes\<close>

lemma scan_scalar:
  assumes "decimal_ok d"
  shows "sscanf [Conv_lf] (decimal_text d) = Some [Float_val (decimal_value d)]"
  using scan_lf_decimal [OF assms, of "[]"] c_str_no_nul [OF decimal_text_no_nul]
  by (simp add: sscanf_def Let_def number_ends_def)

lemma changed_kinds:
  assumes "(name, M_changed h ty) \<in> set message_kinds"
  shows "h < kSensorNumber \<and> on_change h \<and> s_type (kAllSensors ! h) \<noteq> HEART_RATE"
proof -
  have "list_all (\<lambda>(n, k). case k of M_changed h ty \<Rightarrow> h < kSensorNumber \<and> on_change h \<and> s_type (kAllSensors ! h) \<noteq> HEART_RATE
      | _ \<Rightarrow> True) message_kinds" by code_simp
  then show ?thesis using assms by (auto simp: list_all_iff)
qed

lemma changed_message:
  assumes "(name, M_changed h ty) \<in> set message_kinds" and "decimal_ok d"
  shows "parseQemuSensorEvent env (Some (name @ CHR '':'' # decimal_text d)) st s =
    post_changed (now_ns env + timeBiasNs st) h ty (Scalar (decimal_value d)) (decimal_value d) True st s"
  using scan_scalar [OF assms(2)]
  by (simp add: parseQemuSensorEvent_def find_message_text [OF assms(1)] handle_message_def Let_def assigned_def)

lemma approximatelyEqual_same: "0 \<le> eps \<Longrightarrow> approximatelyEqual v v eps"
  by (simp add: approximatelyEqual_def)

text \<open>A new temperature, proximity, light or humidity that arrives while the sensor is not active is taken as the last reported value
  although nothing is posted; when a client then activates the sensor, it gets no value, and messages with the same value post nothing.\<close>

theorem inactive_change_lost:
  assumes "(name, M_changed h ty) \<in> set message_kinds" and "decimal_ok d" and "isSensorHandleValid (int h) s"
    and "\<not> isSensorActive h s" and "m_halProxyCallback s"
  shows "\<exists>st' es s2. parseQemuSensorEvent env (Some (name @ CHR '':'' # decimal_text d)) st s = Some ([], st', s) \<and>
    activate now (int h) True s = Some (R_OK, es, s2) \<and> isSensorActive h s2 \<and>
    (\<forall>e\<in>set (posted_of h es). ev_type e = ADDITIONAL_INFO) \<and>
    parseQemuSensorEvent env' (Some (name @ CHR '':'' # decimal_text d)) st' s2 = Some ([], st', s2)"
proof -
  note kind = changed_kinds [OF assms(1)] and message = changed_message [OF assms(1,2)]
  let ?v = "decimal_value d"
  let ?st = "if approximatelyEqual (last_value st h) ?v (1 / 1000) then st else st\<lparr>last_value := (last_value st)(h := ?v)\<rparr>"
  let ?s = "s\<lparr>m_activeSensorsMask := m_activeSensorsMask s OR push_bit h 1\<rparr>"
  have "parseQemuSensorEvent env (Some (name @ CHR '':'' # decimal_text d)) st s = Some ([], ?st, s)"
    using kind assms(4) by (simp add: message post_changed_def postSensorEvent_def message_event_def)
  moreover have "approximatelyEqual (last_value ?st h) ?v (1 / 1000)" using approximatelyEqual_same by simp
  then have "parseQemuSensorEvent env' (Some (name @ CHR '':'' # decimal_text d)) ?st ?s = Some ([], ?st, ?s)"
    unfolding message post_changed_def by simp
  moreover have "\<exists>es. activate now (int h) True s = Some (R_OK, es, ?s) \<and> (\<forall>e\<in>set (posted_of h es). ev_type e = ADDITIONAL_INFO)"
    using kind assms(3,5) by (simp add: activate_def Let_def sendAdditionalInfoReport_def posted_of_def) (metis sensor_event.select_convs(3))
  moreover have "isSensorActive h ?s" using kind kSensorNumber_small mask_updates(1) by (simp add: active_bit)
  ultimately show ?thesis by blast
qed

theorem inactive_change_lost_witness:
  "\<exists>st' es s2. parseQemuSensorEvent \<lparr>now_ns = 1, value_error = [], bias_error = []\<rparr> (Some ''light:120.5'') protocol_new example_ready =
      Some ([], st', example_ready) \<and> activate 2 6 True example_ready = Some (R_OK, es, s2) \<and> isSensorActive 6 s2 \<and>
    parseQemuSensorEvent \<lparr>now_ns = 3, value_error = [], bias_error = []\<rparr> (Some ''light:120.5'') st' s2 = Some ([], st', s2)"
proof -
  let ?d = "\<lparr>negative = False, whole = 120, digits = 1, part = 5\<rparr>"
  have name: "(''light'', M_changed 6 LIGHT) \<in> set message_kinds" by (simp add: message_kinds_def)
  have message: "''light'' @ CHR '':'' # decimal_text ?d = ''light:120.5''" by code_simp
  have ok: "decimal_ok ?d" by (simp add: decimal_ok_def)
  have six: "int 6 = 6" by simp
  have state: "isSensorHandleValid (int 6) example_ready" "\<not> isSensorActive 6 example_ready" "m_halProxyCallback example_ready" by code_simp+
  show ?thesis
    using inactive_change_lost [OF name ok state, of "\<lparr>now_ns = 1, value_error = [], bias_error = []\<rparr>" protocol_new 2
        "\<lparr>now_ns = 3, value_error = [], bias_error = []\<rparr>"] unfolding message six by blast
qed

section \<open>The colour sensor\<close>

text \<open>The entry of the colour sensor is empty, so that its least delay is zero and its mode continuous.\<close>

definition colour_info :: "int \<Rightarrow> int \<Rightarrow> BatchInfo list" where
  "colour_info p g = (replicate kSensorNumber \<lparr>bi_event = no_event, samplingPeriodNs = 0, generation = 0\<rparr>)
     [15 := \<lparr>bi_event = no_event, samplingPeriodNs = p, generation = g\<rparr>]"

definition colour_state :: "u32 \<Rightarrow> bool \<Rightarrow> BatchEventRef list \<Rightarrow> int \<Rightarrow> int \<Rightarrow> MultihalSensors" where
  "colour_state act cb q p g = \<lparr>m_availableSensorsMask = 0x8000, m_activeSensorsMask = act, m_opMode = NORMAL, m_halProxyCallback = cb,
     m_batchQueue = q, m_batchInfo = colour_info p g\<rparr>"

lemma colour_facts:
  "isSensorHandleValid 15 (colour_state act cb q p g)" "\<not> on_change 15" "m_batchInfo (colour_state act cb q p g) = colour_info p g"
  "samplingPeriodNs (colour_info p g ! 15) = p" "generation (colour_info p g ! 15) = g" "bi_event (colour_info p g ! 15) = no_event"
  "minDelay (kAllSensors ! 15) = 0"
proof -
  show "\<not> on_change 15" by code_simp
qed (simp_all add: valid_bit colour_state_def colour_info_def kSensorNumber_def kAllSensors_def sensor_entries bit_simps numeral_eq_Suc)

lemma colour_updates:
  "upd_info 15 (\<lambda>i. i\<lparr>samplingPeriodNs := p'\<rparr>) (colour_state act cb q p g) = colour_state act cb q p' g"
  "upd_info 15 (\<lambda>i. i\<lparr>generation := g'\<rparr>) (colour_state act cb q p g) = colour_state act cb q p g'"
  by (simp_all add: upd_info_def colour_state_def colour_info_def kSensorNumber_def)

lemma colour_batch:
  assumes "0 \<le> p'"
  shows "\<exists>es. batch True 15 p' (colour_state act cb q p g) = Some (R_OK, es, colour_state act cb q p' g)"
  using assms colour_facts by (simp add: batch_def Let_def colour_updates) (simp add: colour_state_def)

lemma colour_new: "\<exists>es. MultihalSensors_new 0 (Some ''32768'') = Some (es, colour_state 0 False [] 0 0)"
proof -
  have "sscanf [Conv_u] ''32768'' = Some [Int_val 32768]"
    by (simp add: sscanf_def c_str_def scan_d_def skip_spaces_def isspace_def scan_sign_def scan_digits_def is_digit_def digit_val_def Let_def)
  moreover have "(word_of_int 32768 AND (push_bit kSensorNumber 1 - 1) :: u32) = 0x8000" by code_simp
  moreover have "colour_info 0 0 = replicate kSensorNumber \<lparr>bi_event = no_event, samplingPeriodNs = 0, generation = 0\<rparr>" by code_simp
  ultimately show ?thesis by (simp add: MultihalSensors_new_def colour_state_def assigned_def)
qed

text \<open>When the emulator announces the colour sensor, a client that sets its period, activates it and then sets the period zero, which is
  accepted, brings the batch thread to its fatal check: the process aborts.\<close>

theorem colour_sensor_aborts: "\<exists>st s now. sens_reachable (st, s) \<and> batch_loop now s = None"
proof -
  let ?r = "\<lparr>ref_time = 5, ref_handle = 15, ref_generation = 1\<rparr>"
  obtain e0 where new: "MultihalSensors_new 0 (Some ''32768'') = Some (e0, colour_state 0 False [] 0 0)" using colour_new by blast
  obtain e1 where init: "initialize True [] (colour_state 0 False [] 0 0) = (e1, colour_state 0 True [] 0 0)"
    by (simp add: initialize_def colour_state_def)
  obtain e2 where batch5: "batch True 15 5 (colour_state 0 True [] 0 0) = Some (R_OK, e2, colour_state 0 True [] 5 0)"
    using colour_batch [of 5 0 True "[]" 0 0] by auto
  obtain e3 where act: "activate 0 15 True (colour_state 0 True [] 5 0) = Some (R_OK, e3, colour_state (push_bit 15 1) True [?r] 5 1)"
    using colour_facts by (simp add: activate_def start_batch_def Let_def colour_updates sendAdditionalInfoReport_def) (simp add: colour_state_def)
  obtain e4 where batch0: "batch True 15 0 (colour_state (push_bit 15 1) True [?r] 5 1) =
      Some (R_OK, e4, colour_state (push_bit 15 1) True [?r] 0 1)" using colour_batch [of 0 "push_bit 15 1" True "[?r]" 5 1] by auto
  have "sens_reachable (protocol_new, colour_state (push_bit 15 1) True [?r] 0 1)"
    by (rule reach_step [OF reach_step [OF reach_step [OF reach_step [OF reach_new [OF new] step_initialize [OF init]] step_batch [OF batch5]]
        step_activate [OF act]] step_batch [OF batch0]])
  moreover have "batch_one ?r (colour_state (push_bit 15 1) True [] 0 1) = None"
  proof -
    have "isSensorActive 15 (colour_state (push_bit 15 1) True [] 0 1)" by code_simp
    then show ?thesis using colour_facts by (simp add: batch_one_def Let_def kSensorNumber_def no_event_def)
  qed
  then have "batch_loop 10 (colour_state (push_bit 15 1) True [?r] 0 1) = None"
    by (simp add: batch_loop.simps colour_state_def queue_top_def)
  ultimately show ?thesis by blast
qed

end
