(* ===== verification/Boot_Props.thy ===== *)
theory Boot_Props
  imports Qemud
begin

text \<open>
  \<^verbatim>\<open>qemu-props/\<close>: the program that copies the boot properties of the emulator into system properties, names the ports of the virtual
  serial device and reports the end of the boot. The qemud channel is the one of \<open>Qemud\<close>; \<open>pset\<close> is
  \<^verbatim>\<open>property_set\<close>, of the system library. A loop over what the host sends may go on for ever: its result is \<open>None\<close> then.
\<close>

section \<open>Boot properties\<close>

definition k_properties_to_ignore :: "string list" where
  "k_properties_to_ignore = [''dalvik.vm.heapsize'', ''ro.opengles.version'', ''qemu.adb.secure'']"

definition k_system_properties :: "string list" where
  "k_system_properties = [''qemu.sf.lcd_density'', ''qemu.hw.mainkeys'']"

fun check_if_property_in_list :: "string \<Rightarrow> string list \<Rightarrow> bool" where
  "check_if_property_in_list prop_name [] = False"
| "check_if_property_in_list prop_name (p # prop_list) = (prop_name = p \<or> check_if_property_in_list prop_name prop_list)"

lemma check_if_property_in_list_iff [simp]: "check_if_property_in_list p ps \<longleftrightarrow> p \<in> set ps"
  by (induction ps) auto

definition k_vendor_prefix :: string where "k_vendor_prefix = ''vendor.''"

definition need_prepend_prefix :: "string \<Rightarrow> string \<Rightarrow> bool" where
  "need_prepend_prefix prop prefix \<longleftrightarrow>
     \<not> strncmp_eq prefix prop (length prefix) \<and> \<not> check_if_property_in_list prop k_system_properties"

definition BUFF_SIZE :: nat where "BUFF_SIZE = 32 + 92 + 2"

definition final_prop_name :: "string \<Rightarrow> string" where
  "final_prop_name prop =
     (if need_prepend_prefix prop k_vendor_prefix then snprintf_buf BUFF_SIZE (k_vendor_prefix @ prop) else prop)"

text \<open>One line: the name and the value are split at the first \<open>=\<close>. The result is what is set, if anything.\<close>

definition parse_line :: "string \<Rightarrow> (string \<times> string) option" where
  "parse_line temp =
     (let line = c_str temp; name = takeWhile (\<lambda>c. c \<noteq> CHR ''='') line in
      if length name = length line then None
      else if check_if_property_in_list name k_properties_to_ignore then None
      else Some (final_prop_name name, drop (length name + 1) line))"

text \<open>The loop over the lines: \<open>junk\<close> is what the buffer holds before a line is received, which only a line of length 0 leaves
  there. The results are the properties set, in order, how many of these calls succeeded, and the channel.\<close>

partial_function (option) receive_properties :: "'p pipe_read \<Rightarrow> (string \<Rightarrow> string \<Rightarrow> int) \<Rightarrow> char \<Rightarrow> 'p \<Rightarrow>
    (string \<times> string) list \<Rightarrow> nat \<Rightarrow> ((string \<times> string) list \<times> nat \<times> 'p) option" where
  "receive_properties rd pset junk pipe sets count =
     (case qemud_channel_recv rd pipe (int (BUFF_SIZE - 1)) of
        ((len, msg), pipe) \<Rightarrow>
          if len < 0 \<or> int (BUFF_SIZE - 1) < len \<or> hd (msg @ [junk]) = CHR 0x00 then Some (sets, count, pipe)
          else case parse_line msg of
            None \<Rightarrow> receive_properties rd pset junk pipe sets count
          | Some (name, prop_value) \<Rightarrow>
              receive_properties rd pset junk pipe (sets @ [(name, prop_value)])
                (if pset name prop_value < 0 then count else count + 1))"

definition MAX_TRIES :: nat where "MAX_TRIES = 5"

text \<open>Connecting: \<open>opens\<close> are the results of the attempts, a failure where there are none left.\<close>

fun connect :: "nat \<Rightarrow> 'p option list \<Rightarrow> 'p option" where
  "connect tries [] = None"
| "connect tries (Some p # opens) = Some p"
| "connect tries (None # opens) = (if tries \<le> 1 then None else connect (tries - 1) opens)"

section \<open>Ports of the virtual serial device\<close>

text \<open>\<^verbatim>\<open>android::base::Trim\<close> removes white space at both ends; \<^verbatim>\<open>std::getline\<close> splits at line feeds, and a last line that is empty does not count.\<close>

definition Trim :: "string \<Rightarrow> string" where
  "Trim s = rev (dropWhile isspace (rev (dropWhile isspace s)))"

function get_lines :: "string \<Rightarrow> string list" where
  "get_lines s = (if s = [] then [] else
     takeWhile (\<lambda>c. c \<noteq> CHR 0x0A) s # get_lines (drop (length (takeWhile (\<lambda>c. c \<noteq> CHR 0x0A) s) + 1) s))"
  by pat_completeness auto
termination by (relation "measure length") auto

declare get_lines.simps [simp del]

text \<open>What one port file sets: the name of each line, to the device of the port.\<close>

definition set_port_prop :: "string option \<Rightarrow> string \<Rightarrow> (string \<times> string) list" where
  "set_port_prop contents portname =
     (case contents of
        None \<Rightarrow> []
      | Some text \<Rightarrow> map (\<lambda>line. (''vendor.qemu.vport.'' @ Trim line, ''/dev/'' @ portname)) (filter (\<lambda>line. Trim line \<noteq> []) (get_lines text)))"

text \<open>The directory is the names in it, \<open>None\<close> if it cannot be opened; \<open>files\<close> gives the contents of a file by its name.\<close>

definition read_virio_ports_dir :: "string list option \<Rightarrow> (string \<Rightarrow> string option) \<Rightarrow> string \<Rightarrow> (string \<times> string) list" where
  "read_virio_ports_dir dir files cpath =
     (case dir of
        None \<Rightarrow> []
      | Some names \<Rightarrow> concat (map (\<lambda>d. set_port_prop (files (cpath @ ''/'' @ d @ ''/name'')) d)
          (filter (\<lambda>d. d \<noteq> ''.'' \<and> d \<noteq> ''..'') names)))"

definition parse_virtio_serial :: "(string \<Rightarrow> string list option) \<Rightarrow> (string \<Rightarrow> string option) \<Rightarrow> (string \<times> string) list" where
  "parse_virtio_serial dir files = read_virio_ports_dir (dir ''/sys/class/virtio-ports'') files ''/sys/class/virtio-ports''"

section \<open>Messages to the host's miscellaneous pipe\<close>

text \<open>The pipe primitives are parameters as in \<open>Qemud\<close>, here on bytes; the result of a write is not looked at. The state has the pipe, if it is
  open, the results of the openings to come, and the messages written so far.\<close>

type_synonym 'm misc_write = "'m \<Rightarrow> bytes \<Rightarrow> int \<times> 'm"
type_synonym 'm misc_read = "'m \<Rightarrow> nat \<Rightarrow> bytes option \<times> 'm"

record 'm misc =
  s_QemuMiscPipe :: "'m option"
  openings :: "'m option list"
  messages :: "string list"

text \<open>Skipping the reply in pieces of at most 64 bytes; \<open>None\<close> is a failed read.\<close>

function skip_reply :: "'m misc_read \<Rightarrow> int \<Rightarrow> 'm \<Rightarrow> 'm option" where
  "skip_reply rd cmd_len m =
     (if cmd_len \<le> 0 then Some m
      else case rd m (nat (min cmd_len 64)) of
        (None, m) \<Rightarrow> None
      | (Some buf, m) \<Rightarrow> skip_reply rd (cmd_len - min cmd_len 64) m)"
  by pat_completeness auto
termination by (relation "measure (\<lambda>(rd, n, m). nat n)") auto

declare skip_reply.simps [simp del]

lemma skip_reply_done: "skip_reply rd 0 m = Some m"
  by (subst skip_reply.simps) simp

definition le32_int :: "bytes \<Rightarrow> int" where
  "le32_int bs = sint (word_of_nat (le_to_nat bs) :: u32)"

text \<open>What follows the opening of the pipe: the length with the terminating zero, the text with it, and the reply.\<close>

definition exchange :: "'m misc_write \<Rightarrow> 'm misc_read \<Rightarrow> string \<Rightarrow> 'm \<Rightarrow> 'm option" where
  "exchange wr rd mesg m =
     (let m = snd (wr m (nat_to_le 4 (length mesg + 1)));
          m = snd (wr m (map (\<lambda>c. word_of_nat (of_char c)) mesg @ [0])) in
      case rd m 4 of
        (None, m) \<Rightarrow> None
      | (Some bs, m) \<Rightarrow> if le32_int bs < 0 then None else skip_reply rd (le32_int bs) m)"

definition next_opening :: "'m misc \<Rightarrow> 'm misc" where
  "next_opening w = (case openings w of [] \<Rightarrow> w | r # rs \<Rightarrow> w\<lparr>s_QemuMiscPipe := r, openings := rs\<rparr>)"

definition sendMessage :: "'m misc_write \<Rightarrow> 'm misc_read \<Rightarrow> string \<Rightarrow> 'm misc \<Rightarrow> 'm misc" where
  "sendMessage wr rd mesg w =
     (let w = (if s_QemuMiscPipe w = None then next_opening w else w) in
      case s_QemuMiscPipe w of
        None \<Rightarrow> w
      | Some m \<Rightarrow> w\<lparr>s_QemuMiscPipe := exchange wr rd mesg m, messages := messages w @ [mesg]\<rparr>)"

definition sendHeartBeat :: "'m misc_write \<Rightarrow> 'm misc_read \<Rightarrow> 'm misc \<Rightarrow> 'm misc" where
  "sendHeartBeat wr rd = sendMessage wr rd ''heartbeat''"

definition notifyHostBootComplete :: "'m misc_write \<Rightarrow> 'm misc_read \<Rightarrow> 'm misc \<Rightarrow> 'm misc" where
  "notifyHostBootComplete wr rd = sendMessage wr rd ''bootcomplete''"

definition closeMiscPipe :: "'m misc \<Rightarrow> 'm misc" where
  "closeMiscPipe w = w\<lparr>s_QemuMiscPipe := None\<rparr>"

text \<open>The loop until the end of the boot: \<open>ticks\<close> are the values of the property after every five seconds. Whether the
  loop has ended is the first result.\<close>

fun boot_wait :: "'m misc_write \<Rightarrow> 'm misc_read \<Rightarrow> string list \<Rightarrow> 'm misc \<Rightarrow> bool \<times> 'm misc" where
  "boot_wait wr rd [] w = (s_QemuMiscPipe w = None, w)"
| "boot_wait wr rd (t # ticks) w =
     (if s_QemuMiscPipe w = None then (True, w)
      else let w = sendHeartBeat wr rd w in
        if strncmp_eq (c_str t) ''1'' 1 then (True, notifyHostBootComplete wr rd w) else boot_wait wr rd ticks w)"

text \<open>The loop afterwards, for \<open>n\<close> times thirty seconds.\<close>

fun beat_wait :: "'m misc_write \<Rightarrow> 'm misc_read \<Rightarrow> nat \<Rightarrow> 'm misc \<Rightarrow> bool \<times> 'm misc" where
  "beat_wait wr rd 0 w = (s_QemuMiscPipe w = None, w)"
| "beat_wait wr rd (Suc n) w = (if s_QemuMiscPipe w = None then (True, w) else beat_wait wr rd n (sendHeartBeat wr rd w))"

definition beats :: "'m misc_write \<Rightarrow> 'm misc_read \<Rightarrow> string list \<Rightarrow> nat \<Rightarrow> 'm misc \<Rightarrow> bool \<times> 'm misc" where
  "beats wr rd ticks n w =
     (case boot_wait wr rd ticks (sendHeartBeat wr rd w) of
        (False, w) \<Rightarrow> (False, w)
      | (True, w) \<Rightarrow> (case beat_wait wr rd n w of (e, w) \<Rightarrow> (e, if e then closeMiscPipe w else w)))"

text \<open>The program: the exit code, or \<open>None\<close> while it still runs; the properties set; and the state of the pipe. A failed start ends it with 1.\<close>

definition qemu_props_main :: "'p pipe_write \<Rightarrow> 'p pipe_read \<Rightarrow> (string \<Rightarrow> string \<Rightarrow> int) \<Rightarrow> char \<Rightarrow> 'p option list \<Rightarrow>
    (string \<Rightarrow> string list option) \<Rightarrow> (string \<Rightarrow> string option) \<Rightarrow> 'm misc_write \<Rightarrow> 'm misc_read \<Rightarrow> string list \<Rightarrow> nat \<Rightarrow> 'm misc \<Rightarrow>
    (int option \<times> (string \<times> string) list \<times> 'm misc) option" where
  "qemu_props_main pwr prd pset junk opens dir files wr rd ticks n w =
     (case connect MAX_TRIES opens of
        None \<Rightarrow> Some (Some 1, [], w)
      | Some p \<Rightarrow>
          (case qemud_channel_send pwr p ''list'' (-1) of (e, p) \<Rightarrow>
             if e < 0 then Some (Some 1, [], w)
             else case receive_properties prd pset junk p [] 0 of
               None \<Rightarrow> None
             | Some (sets, count, p) \<Rightarrow>
                 (case beats wr rd ticks n w of (ended, w) \<Rightarrow>
                    Some (if ended then Some 0 else None, sets @ parse_virtio_serial dir files, w))))"

section \<open>What the lines of the host set\<close>

definition vendor_name :: "string \<Rightarrow> string" where
  "vendor_name n = (if take 7 n = ''vendor.'' \<or> n \<in> {''qemu.sf.lcd_density'', ''qemu.hw.mainkeys''} then n else ''vendor.'' @ n)"

definition boot_line :: "string \<times> string \<Rightarrow> string" where
  "boot_line = (\<lambda>(n, v). n @ CHR ''='' # v)"

text \<open>A line that fits the buffer, also with the prefix before its name.\<close>

definition boot_line_ok :: "string \<times> string \<Rightarrow> bool" where
  "boot_line_ok = (\<lambda>(n, v). n \<noteq> [] \<and> CHR ''='' \<notin> set n \<and> CHR 0x00 \<notin> set n \<and> CHR 0x00 \<notin> set v \<and>
     length n \<le> 118 \<and> length n + 1 + length v \<le> 125)"

lemma final_prop_name_vendor: "length n \<le> 118 \<Longrightarrow> final_prop_name n = vendor_name n"
  by (auto simp: final_prop_name_def vendor_name_def need_prepend_prefix_def strncmp_eq_def k_vendor_prefix_def k_system_properties_def
      snprintf_buf_def BUFF_SIZE_def numeral_eq_Suc)

lemma parse_boot_line:
  assumes "boot_line_ok (n, v)"
  shows "parse_line (boot_line (n, v)) = (if n \<in> set k_properties_to_ignore then None else Some (vendor_name n, v))"
proof -
  have "c_str (boot_line (n, v)) = boot_line (n, v)" by (rule c_str_no_nul) (use assms in \<open>auto simp: boot_line_def boot_line_ok_def\<close>)
  moreover have "takeWhile (\<lambda>c. c \<noteq> CHR ''='') (boot_line (n, v)) = n"
    using assms by (auto simp: boot_line_def boot_line_ok_def takeWhile_tail takeWhile_eq_all_conv [THEN iffD2])
  ultimately show ?thesis using assms final_prop_name_vendor [of n]
    by (simp add: parse_line_def Let_def boot_line_def boot_line_ok_def)
qed

definition wanted :: "(string \<times> string) list \<Rightarrow> (string \<times> string) list" where
  "wanted ps = map (\<lambda>(n, v). (vendor_name n, v)) (filter (\<lambda>(n, v). n \<notin> set k_properties_to_ignore) ps)"

lemma receive_lines:
  assumes "pipe_reads rd contents" and "list_all boot_line_ok ps"
    and "contents p = concat (map (\<lambda>l. frame qemud_header (boot_line l)) ps) @ frame qemud_header [CHR 0x00] @ rest"
  shows "\<exists>p'. receive_properties rd pset junk p sets count =
    Some (sets @ wanted ps, count + length (filter (\<lambda>(n, v). 0 \<le> pset n v) (wanted ps)), p') \<and> contents p' = rest"
  using assms(2,3)
proof (induction ps arbitrary: p sets count)
  case Nil
  obtain p' where "qemud_channel_recv rd p (int (BUFF_SIZE - 1)) = ((1, [CHR 0x00]), p')" "contents p' = rest"
    using recv_frame [OF assms(1), of "[CHR 0x00]" "int (BUFF_SIZE - 1)" p rest] Nil by (auto simp: BUFF_SIZE_def)
  then show ?case by (subst receive_properties.simps) (simp add: wanted_def)
next
  case (Cons l ps)
  obtain n v where l: "l = (n, v)" by force
  have ok: "boot_line_ok (n, v)" using Cons.prems(1) l by simp
  then have len: "length (boot_line l) \<le> 125" by (auto simp: l boot_line_def boot_line_ok_def)
  obtain p1 where recv: "qemud_channel_recv rd p (int (BUFF_SIZE - 1)) = ((int (length (boot_line l)), boot_line l), p1)"
      and rest: "contents p1 = concat (map (\<lambda>l. frame qemud_header (boot_line l)) ps) @ frame qemud_header [CHR 0x00] @ rest"
    by (rule recv_frame [OF assms(1), of "boot_line l" "int (BUFF_SIZE - 1)" p]) (use len Cons.prems(2) in \<open>auto simp: BUFF_SIZE_def\<close>)
  have "hd (boot_line l @ [junk]) \<noteq> CHR 0x00" using ok by (cases n) (auto simp: l boot_line_def boot_line_ok_def)
  then have step: "receive_properties rd pset junk p sets count =
      (case parse_line (boot_line l) of None \<Rightarrow> receive_properties rd pset junk p1 sets count
       | Some (name, value) \<Rightarrow> receive_properties rd pset junk p1 (sets @ [(name, value)]) (if pset name value < 0 then count else count + 1))"
    using len by (subst receive_properties.simps, unfold recv prod.case) (simp add: BUFF_SIZE_def)
  note IH = Cons.IH [OF _ rest]
  show ?case
    using IH [of sets count] IH [of "sets @ [(vendor_name n, v)]" "if pset (vendor_name n) v < 0 then count else count + 1"] Cons.prems(1)
    by (auto simp: step l parse_boot_line [OF ok] wanted_def not_less)
qed

section \<open>Reporting the end of the boot\<close>

lemma send_open:
  assumes "\<And>m mesg. exchange wr rd mesg m \<noteq> None" and "s_QemuMiscPipe w \<noteq> None"
  shows "s_QemuMiscPipe (sendMessage wr rd mesg w) \<noteq> None \<and> messages (sendMessage wr rd mesg w) = messages w @ [mesg]"
  using assms by (auto simp: sendMessage_def Let_def)

lemma boot_wait_reports:
  assumes "\<And>m mesg. exchange wr rd mesg m \<noteq> None"
  shows "s_QemuMiscPipe w \<noteq> None \<Longrightarrow> \<forall>t\<in>set ts. take 1 (c_str t) \<noteq> ''1'' \<Longrightarrow> take 1 (c_str t) = ''1'' \<Longrightarrow>
    \<exists>w'. boot_wait wr rd (ts @ t # later) w = (True, w') \<and> s_QemuMiscPipe w' \<noteq> None \<and>
      messages w' = messages w @ replicate (length ts + 1) ''heartbeat'' @ [''bootcomplete'']"
proof (induction ts arbitrary: w)
  case Nil
  note one = send_open [OF assms Nil(1), of "''heartbeat''"]
  show ?case using Nil one send_open [OF assms, of "sendHeartBeat wr rd w" "''bootcomplete''"]
    by (simp add: strncmp_eq_def Let_def notifyHostBootComplete_def sendHeartBeat_def)
next
  case (Cons x ts)
  note one = send_open [OF assms Cons(2), of "''heartbeat''"]
  show ?case using Cons.IH [of "sendHeartBeat wr rd w"] Cons.prems one
    by (simp add: strncmp_eq_def Let_def sendHeartBeat_def)
qed

lemma beat_wait_open:
  assumes "\<And>m mesg. exchange wr rd mesg m \<noteq> None" and "s_QemuMiscPipe w \<noteq> None"
  shows "\<exists>w'. beat_wait wr rd n w = (False, w') \<and> s_QemuMiscPipe w' \<noteq> None \<and> messages w' = messages w @ replicate n ''heartbeat''"
  using assms(2)
proof (induction n arbitrary: w)
  case (Suc n)
  then show ?case using send_open [OF assms(1) Suc(2), of "''heartbeat''"] Suc.IH [of "sendHeartBeat wr rd w"]
    by (auto simp: sendHeartBeat_def)
qed simp

text \<open>While the host answers every message, the end of the boot is reported exactly once, at the first tick at which the property
  is set, with a heartbeat at the start and one at every tick before and after.\<close>

lemma boot_complete_reported:
  assumes "\<forall>m mesg. exchange wr rd mesg m \<noteq> None" and "openings w = Some m # os" and "s_QemuMiscPipe w = None" and "messages w = []"
    and "\<forall>t\<in>set ts. take 1 (c_str t) \<noteq> ''1''" and "take 1 (c_str t) = ''1''"
  shows "\<exists>w'. beats wr rd (ts @ t # later) n w = (False, w') \<and>
    messages w' = replicate (length ts + 2) ''heartbeat'' @ [''bootcomplete''] @ replicate n ''heartbeat''"
proof -
  have ok: "\<And>m mesg. exchange wr rd mesg m \<noteq> None" using assms(1) by blast
  let ?w = "sendHeartBeat wr rd w"
  have start: "s_QemuMiscPipe ?w \<noteq> None" "messages ?w = [''heartbeat'']"
    using assms(2-4) ok by (auto simp: sendHeartBeat_def sendMessage_def next_opening_def Let_def)
  obtain w1 where w1: "boot_wait wr rd (ts @ t # later) ?w = (True, w1)" "s_QemuMiscPipe w1 \<noteq> None"
      "messages w1 = messages ?w @ replicate (length ts + 1) ''heartbeat'' @ [''bootcomplete'']"
    using boot_wait_reports [OF ok start(1) assms(5,6)] by blast
  obtain w2 where "beat_wait wr rd n w1 = (False, w2)" "messages w2 = messages w1 @ replicate n ''heartbeat''"
    using beat_wait_open [OF ok w1(2)] by blast
  then show ?thesis using w1 start(2) by (simp add: beats_def)
qed

text \<open>A single heartbeat that the host does not answer before the boot has ended stops everything: no further message is written, so
  that the end of the boot is never reported, whatever the property becomes; only a host that is gone at the very tick is asked again.\<close>

theorem boot_complete_lost:
  assumes "s_QemuMiscPipe w = Some m" and "exchange wr rd ''heartbeat'' m = None" and "take 1 (c_str t) \<noteq> ''1''"
  shows "\<exists>w'. boot_wait wr rd (t # later) w = (True, w') \<and> s_QemuMiscPipe w' = None \<and> messages w' = messages w @ [''heartbeat''] \<and>
    beat_wait wr rd n w' = (True, w')"
proof -
  let ?w = "sendHeartBeat wr rd w"
  have w: "s_QemuMiscPipe ?w = None" "messages ?w = messages w @ [''heartbeat'']"
    using assms(1,2) by (simp_all add: sendHeartBeat_def sendMessage_def Let_def)
  have "boot_wait wr rd (t # later) w = boot_wait wr rd later ?w" using assms(1,3) by (simp add: strncmp_eq_def Let_def)
  moreover have "boot_wait wr rd later ?w = (True, ?w)" using w(1) by (cases later) simp_all
  moreover have "beat_wait wr rd n ?w = (True, ?w)" using w(1) by (cases n) simp_all
  ultimately show ?thesis using w by auto
qed

theorem boot_complete_lost_witness:
  "\<exists>w'. boot_wait (\<lambda>m bs. (0, m)) (\<lambda>m n. (None, m)) [''0'', ''1''] \<lparr>s_QemuMiscPipe = Some (), openings = [Some ()], messages = []\<rparr> =
      (True, w') \<and> messages w' = [''heartbeat'']"
proof -
  have "exchange (\<lambda>m bs. (0, m)) (\<lambda>m n. (None, m)) ''heartbeat'' () = None" by (simp add: exchange_def)
  moreover have "take 1 (c_str ''0'') \<noteq> ''1''" by (simp add: c_str_def)
  ultimately show ?thesis
    using boot_complete_lost [of "\<lparr>s_QemuMiscPipe = Some (), openings = [Some ()], messages = []\<rparr>" "()" "\<lambda>m bs. (0, m)"
        "\<lambda>m n. (None, m)" "''0''" "[''1'']" 0] by simp blast
qed

section \<open>The program\<close>

lemma connect_retries: "k < tries \<Longrightarrow> connect tries (replicate k None @ Some p # os) = Some p"
  by (induction k arbitrary: tries) auto

lemma get_lines_one: "s \<noteq> [] \<Longrightarrow> CHR 0x0A \<notin> set s \<Longrightarrow> get_lines (s @ [CHR 0x0A]) = [s]"
proof -
  assume s: "s \<noteq> []" "CHR 0x0A \<notin> set s"
  have "takeWhile (\<lambda>c. c \<noteq> CHR 0x0A) (s @ [CHR 0x0A]) = s" using s(2) by (subst takeWhile_append2) auto
  then show ?thesis using s(1) by (subst get_lines.simps) (simp add: get_lines.simps)
qed

text \<open>The name of a port as the kernel writes it: one line without white space at its ends.\<close>

definition port_name_ok :: "string \<Rightarrow> bool" where
  "port_name_ok s \<longleftrightarrow> s \<noteq> [] \<and> CHR 0x0A \<notin> set s \<and> \<not> isspace (hd s) \<and> \<not> isspace (last s)"

lemma Trim_port_name: "port_name_ok s \<Longrightarrow> Trim s = s"
proof -
  assume ok: "port_name_ok s"
  then have "dropWhile isspace s = s" by (cases s) (simp_all add: port_name_ok_def)
  moreover have "dropWhile isspace (rev s) = rev s" using ok by (cases s rule: rev_cases) (simp_all add: port_name_ok_def)
  ultimately show ?thesis by (simp add: Trim_def)
qed

lemma virtio_ports_exact:
  assumes "dir ''/sys/class/virtio-ports'' = Some names"
    and "\<forall>d\<in>set names. d \<notin> {''.'', ''..''} \<longrightarrow> port_name_ok (port d) \<and>
      files (''/sys/class/virtio-ports/'' @ d @ ''/name'') = Some (port d @ [CHR 0x0A])"
  shows "parse_virtio_serial dir files =
    map (\<lambda>d. (''vendor.qemu.vport.'' @ port d, ''/dev/'' @ d)) (filter (\<lambda>d. d \<notin> {''.'', ''..''}) names)"
proof -
  have one: "set_port_prop (files (''/sys/class/virtio-ports'' @ ''/'' @ d @ ''/name'')) d = [(''vendor.qemu.vport.'' @ port d, ''/dev/'' @ d)]"
    if "d \<in> set names" "d \<noteq> ''.''" "d \<noteq> ''..''" for d
  proof -
    have "port_name_ok (port d)" "files (''/sys/class/virtio-ports/'' @ d @ ''/name'') = Some (port d @ [CHR 0x0A])"
      using assms(2) that by auto
    then show ?thesis using get_lines_one [of "port d"] Trim_port_name [of "port d"]
      by (simp add: set_port_prop_def port_name_ok_def)
  qed
  have "concat (map (\<lambda>d. set_port_prop (files (''/sys/class/virtio-ports'' @ ''/'' @ d @ ''/name'')) d) ds) =
      map (\<lambda>d. (''vendor.qemu.vport.'' @ port d, ''/dev/'' @ d)) ds" if "set ds \<subseteq> {d \<in> set names. d \<noteq> ''.'' \<and> d \<noteq> ''..''}" for ds
    using that by (induction ds) (use one in auto)
  from this [of "filter (\<lambda>d. d \<noteq> ''.'' \<and> d \<noteq> ''..'') names"] show ?thesis
    unfolding parse_virtio_serial_def read_virio_ports_dir_def assms(1) option.case by fastforce
qed

text \<open>Property C9: with a host that lists its properties line by line and answers on the other pipe, the program sets exactly the listed
  properties that are not to be ignored, with the vendor prefix where it is missing, then the ports of the virtual serial device under
  their names, in order, and reports the end of the boot exactly once, at the first tick at which the property is set; it does not exit. Up to
  four failed attempts to connect do not matter.\<close>

theorem qemu_props_end_to_end:
  assumes "pipe_reads prd inbox" and "\<forall>p xs. fst (pwr p xs) = 0 \<and> inbox (snd (pwr p xs)) = inbox p"
    and "opens = replicate k None @ Some p # os" and "k < 5"
    and "list_all boot_line_ok ps"
    and "inbox p = concat (map (\<lambda>l. frame qemud_header (boot_line l)) ps) @ frame qemud_header [CHR 0x00] @ rest"
    and "dir ''/sys/class/virtio-ports'' = Some names"
    and "\<forall>d\<in>set names. d \<notin> {''.'', ''..''} \<longrightarrow> port_name_ok (port d) \<and>
      files (''/sys/class/virtio-ports/'' @ d @ ''/name'') = Some (port d @ [CHR 0x0A])"
    and "\<forall>m mesg. exchange wr rd mesg m \<noteq> None" and "w = \<lparr>s_QemuMiscPipe = None, openings = Some m # ms, messages = []\<rparr>"
    and "\<forall>t\<in>set ts. take 1 (c_str t) \<noteq> ''1''" and "take 1 (c_str t) = ''1''"
  shows "\<exists>w'. qemu_props_main pwr prd pset junk opens dir files wr rd (ts @ t # later) n w =
      Some (None, wanted ps @ map (\<lambda>d. (''vendor.qemu.vport.'' @ port d, ''/dev/'' @ d)) (filter (\<lambda>d. d \<notin> {''.'', ''..''}) names), w') \<and>
    messages w' = replicate (length ts + 2) ''heartbeat'' @ [''bootcomplete''] @ replicate n ''heartbeat''"
proof -
  have conn: "connect MAX_TRIES opens = Some p" using connect_retries [of k MAX_TRIES p os] assms(3,4) by (simp add: MAX_TRIES_def)
  obtain p1 where sent: "qemud_channel_send pwr p ''list'' (-1) = (0, p1)" "inbox p1 = inbox p"
  proof -
    have w: "\<exists>q. pwr p0 xs = (0, q) \<and> inbox q = inbox p0" for p0 xs using assms(2) by (metis prod.collapse)
    obtain q1 where 1: "pwr p (qemud_header 4) = (0, q1)" "inbox q1 = inbox p" using w by blast
    obtain q2 where 2: "pwr q1 ''list'' = (0, q2)" "inbox q2 = inbox q1" using w by blast
    have "c_str ''list'' = ''list''" by (simp add: c_str_def)
    then show thesis using 1 2 by (intro that [of q2]) (simp_all add: qemud_channel_send_def Let_def)
  qed
  obtain p2 where recv: "receive_properties prd pset junk p1 [] 0 = Some (wanted ps, length (filter (\<lambda>(n, v). 0 \<le> pset n v) (wanted ps)), p2)"
    using receive_lines [OF assms(1,5), of p1 rest pset junk "[]" 0] assms(6) sent(2) by auto
  obtain w' where beat: "beats wr rd (ts @ t # later) n w = (False, w')"
      "messages w' = replicate (length ts + 2) ''heartbeat'' @ [''bootcomplete''] @ replicate n ''heartbeat''"
    using boot_complete_reported [OF assms(9), of w m ms ts t later n] assms(10-12) by auto
  show ?thesis using conn sent(1) recv beat virtio_ports_exact [of dir names port files, OF assms(7,8)] by (simp add: qemu_props_main_def)
qed

text \<open>A channel with what the host has sent and what was sent to it.\<close>

definition duplex_write :: "(string \<times> string) pipe_write" where
  "duplex_write p xs = (0, (fst p, snd p @ xs))"

definition duplex_read :: "(string \<times> string) pipe_read" where
  "duplex_read p n = (if n \<le> length (fst p) then (Some (take n (fst p)), (drop n (fst p), snd p)) else (None, p))"

theorem qemu_props_end_to_end_witness:
  "\<exists>w'. qemu_props_main duplex_write duplex_read (\<lambda>n v. 0) CHR ''x''
      [None, Some (concat (map (\<lambda>l. frame qemud_header (boot_line l)) [(''qemu.sf.lcd_density'', ''420''), (''dalvik.vm.heapsize'', ''512m''),
        (''avd.name'', ''pixel'')]) @ frame qemud_header [CHR 0x00], [])]
      (\<lambda>d. Some [''.'', ''..'', ''vport8p0'']) (\<lambda>f. Some (''bluetooth'' @ [CHR 0x0A]))
      (\<lambda>m bs. (0, m)) (\<lambda>m n. (Some (replicate n 0), m)) [''0'', ''1''] 1 \<lparr>s_QemuMiscPipe = None, openings = [Some ()], messages = []\<rparr> =
      Some (None, [(''qemu.sf.lcd_density'', ''420''), (''vendor.avd.name'', ''pixel''), (''vendor.qemu.vport.bluetooth'', ''/dev/vport8p0'')], w') \<and>
    messages w' = [''heartbeat'', ''heartbeat'', ''heartbeat'', ''bootcomplete'', ''heartbeat'']"
proof -
  let ?ps = "[(''qemu.sf.lcd_density'', ''420''), (''dalvik.vm.heapsize'', ''512m''), (''avd.name'', ''pixel'')]"
  let ?in = "concat (map (\<lambda>l. frame qemud_header (boot_line l)) ?ps) @ frame qemud_header [CHR 0x00] @ []"
  have reads: "pipe_reads duplex_read fst" by (simp add: pipe_reads_def duplex_read_def)
  have writes: "\<forall>p xs. fst (duplex_write p xs) = 0 \<and> fst (snd (duplex_write p xs)) = fst p" by (simp add: duplex_write_def)
  have lines: "list_all boot_line_ok ?ps" by (simp add: boot_line_ok_def)
  have sets: "wanted ?ps = [(''qemu.sf.lcd_density'', ''420''), (''vendor.avd.name'', ''pixel'')]" by code_simp
  have "le32_int (replicate 4 0) = 0" by (simp add: le32_int_def numeral_eq_Suc)
  then have answers: "\<forall>(m :: unit) mesg. exchange (\<lambda>m bs. (0, m)) (\<lambda>m n. (Some (replicate n 0), m)) mesg m \<noteq> None"
    by (simp add: exchange_def skip_reply_done)
  have ticks: "\<forall>t\<in>set [''0'']. take 1 (c_str t) \<noteq> ''1''" "take 1 (c_str ''1'') = ''1''" by (simp_all add: c_str_def)
  have port: "port_name_ok ''bluetooth''" by code_simp
  show ?thesis
    using qemu_props_end_to_end [OF reads writes _ _ lines _ _ _ answers _ ticks, where opens = "[None, Some (?in, [])]" and k = 1
        and p = "(?in, [])" and os = "[]" and rest = "[]" and dir = "\<lambda>d. Some [''.'', ''..'', ''vport8p0'']"
        and names = "[''.'', ''..'', ''vport8p0'']" and port = "\<lambda>d. ''bluetooth''" and files = "\<lambda>f. Some (''bluetooth'' @ [CHR 0x0A])"
        and m = "()" and ms = "[]" and pset = "\<lambda>n v. 0" and junk = "CHR ''x''" and later = "[]" and n = 1
        and w = "\<lparr>s_QemuMiscPipe = None, openings = [Some ()], messages = []\<rparr>"] port
    unfolding sets by (simp add: numeral_eq_Suc)
qed

end
