(* ===== verification/Camera_Client.thy ===== *)
theory Camera_Client
  imports Qemud
begin

text \<open>
  \<^verbatim>\<open>camera/QemuClient.cpp\<close>: queries to the camera service of the emulator. A query is a string with its terminating zero; the reply has its
  size in front, as eight hexadecimal digits, and starts with \<^verbatim>\<open>ok\<close> or \<^verbatim>\<open>ko\<close>. The pipe primitives are
  the parameters of \<open>Qemud\<close>; \<open>alloc\<close> says whether memory of a size can be had, \<open>err\<close> is what \<^verbatim>\<open>errno\<close> holds after a failure.
\<close>

section \<open>Queries\<close>

definition NO_ERR :: int where "NO_ERR = 0"
definition EIO :: int where "EIO = 5"
definition ENOMEM :: int where "ENOMEM = 12"
definition EINVAL :: int where "EINVAL = 22"

lemmas errno_defs = NO_ERR_def EIO_def EINVAL_def ENOMEM_def

record QemuQuery =
  mQuery :: string
  mQueryDeliveryStatus :: int
  mReplyBuffer :: "string option"     \<comment> \<open>the bytes of the reply\<close>
  mReplyData :: "string option"       \<comment> \<open>what follows the status\<close>
  mReplySize :: nat
  mReplyDataSize :: nat
  mReplyStatus :: int

definition resetQuery :: QemuQuery where
  "resetQuery = \<lparr>mQuery = [], mQueryDeliveryStatus = NO_ERR, mReplyBuffer = None, mReplyData = None, mReplySize = 0, mReplyDataSize = 0,
     mReplyStatus = 0\<rparr>"

text \<open>\<open>param\<close> is empty for a null pointer. The buffer of 256 bytes is replaced by a larger one where it is needed.\<close>

definition createQuery :: "string \<Rightarrow> string \<Rightarrow> int \<times> QemuQuery" where
  "createQuery name param =
     (if name = [] then (EINVAL, resetQuery\<lparr>mQueryDeliveryStatus := EINVAL\<rparr>)
      else (NO_ERR, resetQuery\<lparr>mQuery := (if param \<noteq> [] then name @ '' '' @ param else name)\<rparr>))"

definition QemuQuery_new :: "string \<Rightarrow> QemuQuery" where
  "QemuQuery_new query_string = (case createQuery query_string [] of (st, q) \<Rightarrow> q\<lparr>mQueryDeliveryStatus := st\<rparr>)"

definition completeQuery :: "int \<Rightarrow> QemuQuery \<Rightarrow> int \<times> QemuQuery" where
  "completeQuery status q0 =
     (let q = q0\<lparr>mQueryDeliveryStatus := status\<rparr>; invalid = \<lambda>q. (EINVAL, q\<lparr>mQueryDeliveryStatus := EINVAL\<rparr>) in
      if status \<noteq> NO_ERR then (status, q)
      else case mReplyBuffer q of
        None \<Rightarrow> invalid q
      | Some buf \<Rightarrow>
          if mReplySize q < 3 then invalid q
          else if take 2 buf \<noteq> ''ok'' \<and> take 2 buf \<noteq> ''ko'' then invalid q
          else
            let q = q\<lparr>mReplyStatus := (if take 2 buf = ''ok'' then 1 else 0)\<rparr> in
            if mReplySize q > 3 then
              (if buf ! 2 \<noteq> CHR '':'' then invalid q
               else (NO_ERR, q\<lparr>mReplyData := Some (drop 3 buf), mReplyDataSize := mReplySize q - 3\<rparr>))
            else if buf ! 2 \<noteq> CHR 0x00 then invalid q
            else (NO_ERR, q))"

definition isQuerySucceeded :: "QemuQuery \<Rightarrow> bool" where
  "isQuerySucceeded q \<longleftrightarrow> mQueryDeliveryStatus q = NO_ERR \<and> mReplyStatus q \<noteq> 0"

definition getCompletionStatus :: "QemuQuery \<Rightarrow> int" where
  "getCompletionStatus q =
     (if mQueryDeliveryStatus q = NO_ERR then (if mReplyStatus q \<noteq> 0 then NO_ERR else EINVAL) else mQueryDeliveryStatus q)"

section \<open>Client\<close>

text \<open>The client is its pipe, if it is connected. \<open>opened\<close> is the result of opening a channel by its name.\<close>

definition mCameraServiceName :: string where "mCameraServiceName = ''camera''"

definition or_err :: "int \<Rightarrow> int \<Rightarrow> int" where
  "or_err err e = (if err \<noteq> 0 then err else e)"

definition channel_name :: "string \<Rightarrow> string" where
  "channel_name param = (if param = [] then mCameraServiceName else snprintf_buf 256 (mCameraServiceName @ '':'' @ param))"

definition connectClient :: "(string \<Rightarrow> 'p option) \<Rightarrow> int \<Rightarrow> string \<Rightarrow> 'p option \<Rightarrow> int \<times> 'p option" where
  "connectClient opened err param mPipeFD =
     (if mPipeFD \<noteq> None then (EINVAL, mPipeFD)
      else case opened (channel_name param) of None \<Rightarrow> (or_err err EINVAL, None) | Some p \<Rightarrow> (NO_ERR, Some p))"

definition disconnectClient :: "'p option \<Rightarrow> 'p option" where
  "disconnectClient mPipeFD = None"

definition client_sendMessage :: "'p pipe_write \<Rightarrow> int \<Rightarrow> string \<Rightarrow> 'p option \<Rightarrow> int \<times> 'p option" where
  "client_sendMessage wr err data mPipeFD =
     (case mPipeFD of
        None \<Rightarrow> (EINVAL, None)
      | Some p \<Rightarrow> (case wr p data of (e, p) \<Rightarrow> (if e \<noteq> 0 then or_err err EIO else NO_ERR, Some p)))"

text \<open>\<^verbatim>\<open>strtol(s, NULL, 16)\<close> of eight characters, which cannot overflow; no digits give 0.\<close>

definition strtol16 :: "string \<Rightarrow> int" where
  "strtol16 s = (case scan_x 8 s of Some v \<Rightarrow> v | None \<Rightarrow> 0)"

definition receiveMessage :: "'p pipe_read \<Rightarrow> (nat \<Rightarrow> bool) \<Rightarrow> int \<Rightarrow> 'p option \<Rightarrow> (int \<times> string option \<times> nat) \<times> 'p option" where
  "receiveMessage rd alloc err mPipeFD =
     (case mPipeFD of
        None \<Rightarrow> ((EINVAL, None, 0), None)
      | Some p \<Rightarrow>
          (case rd p 8 of
             (None, p) \<Rightarrow> ((or_err err EIO, None, 0), Some p)
           | (Some payload_size_str, p) \<Rightarrow>
               let payload_size = to_size_t (strtol16 (c_str payload_size_str)) in
               if \<not> alloc payload_size then ((ENOMEM, None, 0), Some p)
               else case rd p payload_size of
                 (None, p) \<Rightarrow> ((or_err err EIO, None, 0), Some p)
               | (Some data, p) \<Rightarrow> ((NO_ERR, Some data, payload_size), Some p)))"

definition doQuery :: "'p pipe_write \<Rightarrow> 'p pipe_read \<Rightarrow> (nat \<Rightarrow> bool) \<Rightarrow> int \<Rightarrow> QemuQuery \<Rightarrow> 'p option \<Rightarrow> int \<times> QemuQuery \<times> 'p option" where
  "doQuery wr rd alloc err q mPipeFD =
     (if mQueryDeliveryStatus q \<noteq> NO_ERR then (mQueryDeliveryStatus q, q, mPipeFD)
      else case client_sendMessage wr err (mQuery q @ [CHR 0x00]) mPipeFD of
        (res, mPipeFD) \<Rightarrow>
          if res \<noteq> NO_ERR then (case completeQuery res q of (r, q) \<Rightarrow> (r, q, mPipeFD))
          else case receiveMessage rd alloc err mPipeFD of
            ((res, buf, n), mPipeFD) \<Rightarrow>
              (case completeQuery res (q\<lparr>mReplyBuffer := buf, mReplySize := n\<rparr>) of (r, q) \<Rightarrow> (r, q, mPipeFD)))"

text \<open>The query for the list of cameras: the list is handed over in memory of its size.\<close>

definition listCameras :: "'p pipe_write \<Rightarrow> 'p pipe_read \<Rightarrow> (nat \<Rightarrow> bool) \<Rightarrow> int \<Rightarrow> 'p option \<Rightarrow> (int \<times> string option) \<times> 'p option" where
  "listCameras wr rd alloc err mPipeFD =
     (case doQuery wr rd alloc err (QemuQuery_new ''list'') mPipeFD of
        (r, q, mPipeFD) \<Rightarrow>
          if r \<noteq> NO_ERR \<or> \<not> isQuerySucceeded q then ((getCompletionStatus q, None), mPipeFD)
          else if mReplyDataSize q = 0 then ((EINVAL, None), mPipeFD)
          else if \<not> alloc (mReplyDataSize q) then ((ENOMEM, None), mPipeFD)
          else ((NO_ERR, mReplyData q), mPipeFD))"

text \<open>The queries whose reply is only a status.\<close>

definition status_query :: "string \<Rightarrow> 'p pipe_write \<Rightarrow> 'p pipe_read \<Rightarrow> (nat \<Rightarrow> bool) \<Rightarrow> int \<Rightarrow> 'p option \<Rightarrow> int \<times> 'p option" where
  "status_query query_str wr rd alloc err mPipeFD =
     (case doQuery wr rd alloc err (QemuQuery_new query_str) mPipeFD of (_, q, mPipeFD) \<Rightarrow> (getCompletionStatus q, mPipeFD))"

definition queryConnect :: "'p pipe_write \<Rightarrow> 'p pipe_read \<Rightarrow> (nat \<Rightarrow> bool) \<Rightarrow> int \<Rightarrow> 'p option \<Rightarrow> int \<times> 'p option" where
  "queryConnect = status_query ''connect''"

definition queryDisconnect :: "'p pipe_write \<Rightarrow> 'p pipe_read \<Rightarrow> (nat \<Rightarrow> bool) \<Rightarrow> int \<Rightarrow> 'p option \<Rightarrow> int \<times> 'p option" where
  "queryDisconnect = status_query ''disconnect''"

definition queryStop :: "'p pipe_write \<Rightarrow> 'p pipe_read \<Rightarrow> (nat \<Rightarrow> bool) \<Rightarrow> int \<Rightarrow> 'p option \<Rightarrow> int \<times> 'p option" where
  "queryStop = status_query ''stop''"

text \<open>A pixel format is an unsigned number of 32 bits, printed as a signed one.\<close>

definition start_text :: "u32 \<Rightarrow> int \<Rightarrow> int \<Rightarrow> string" where
  "start_text pixel_format width height =
     snprintf_buf 256 (''start dim='' @ show_int width @ ''x'' @ show_int height @ '' pix='' @ show_int (sint pixel_format))"

definition queryStart :: "u32 \<Rightarrow> int \<Rightarrow> int \<Rightarrow> 'p pipe_write \<Rightarrow> 'p pipe_read \<Rightarrow> (nat \<Rightarrow> bool) \<Rightarrow> int \<Rightarrow> 'p option \<Rightarrow> int \<times> 'p option" where
  "queryStart pixel_format width height = status_query (start_text pixel_format width height)"

text \<open>The query for a frame: \<open>fmt\<close> is the printed white balance and exposure. The results are the status, the two buffers and the time,
  where a missing buffer, or one of size 0, is \<open>None\<close>; a time is asked for when \<open>timed\<close>.\<close>

definition frame_text :: "string \<Rightarrow> nat \<Rightarrow> nat \<Rightarrow> bool \<Rightarrow> string" where
  "frame_text fmt vsize psize timed =
     snprintf_buf 256 (''frame video='' @ show_base 10 vsize @ '' preview='' @ show_base 10 psize @ fmt @ '' time='' @ (if timed then ''1'' else ''0''))"

definition wanted_size :: "string option \<Rightarrow> nat \<Rightarrow> nat" where
  "wanted_size buf n = (if buf \<noteq> None then n else 0)"

definition le64_int :: "string \<Rightarrow> int" where
  "le64_int s = sint (dec_le64 (map (\<lambda>c. word_of_nat (of_char c)) s))"

definition queryFrame :: "string \<Rightarrow> string option \<Rightarrow> string option \<Rightarrow> nat \<Rightarrow> nat \<Rightarrow> int option \<Rightarrow> 'p pipe_write \<Rightarrow> 'p pipe_read \<Rightarrow>
    (nat \<Rightarrow> bool) \<Rightarrow> int \<Rightarrow> 'p option \<Rightarrow> (int \<times> string option \<times> string option \<times> int option) \<times> 'p option" where
  "queryFrame fmt vframe pframe vframe_size pframe_size frame_time wr rd alloc err mPipeFD =
     (let vsize = wanted_size vframe vframe_size; psize = wanted_size pframe pframe_size in
      case doQuery wr rd alloc err (QemuQuery_new (frame_text fmt vsize psize (frame_time \<noteq> None))) mPipeFD of
        (_, q, mPipeFD) \<Rightarrow>
          if getCompletionStatus q \<noteq> NO_ERR then ((getCompletionStatus q, vframe, pframe, frame_time), mPipeFD)
          else
            let frame = (case mReplyData q of Some d \<Rightarrow> d | None \<Rightarrow> []) in
            if mReplyDataSize q < vsize then ((EINVAL, vframe, pframe, frame_time), mPipeFD)
            else
              let vframe = (if vsize = 0 then vframe else Some (take vsize frame @ drop vsize (the vframe))) in
              if mReplyDataSize q - vsize < psize then ((EINVAL, vframe, pframe, frame_time), mPipeFD)
              else
                let pframe = (if psize = 0 then pframe else Some (take psize (drop vsize frame) @ drop psize (the pframe)));
                    cur_offset = vsize + psize;
                    frame_time = (case frame_time of None \<Rightarrow> None
                      | Some _ \<Rightarrow> if 8 \<le> mReplyDataSize q - cur_offset then Some (le64_int (take 8 (drop cur_offset frame))) else Some 0) in
                ((NO_ERR, vframe, pframe, frame_time), mPipeFD))"

text \<open>The start without parameters, and the query for a frame that the host writes to its own memory at an offset.\<close>

definition queryStart_plain :: "'p pipe_write \<Rightarrow> 'p pipe_read \<Rightarrow> (nat \<Rightarrow> bool) \<Rightarrow> int \<Rightarrow> 'p option \<Rightarrow> int \<times> 'p option" where
  "queryStart_plain = status_query ''start''"

definition offset_text :: "string \<Rightarrow> int \<Rightarrow> int \<Rightarrow> u32 \<Rightarrow> nat \<Rightarrow> bool \<Rightarrow> string" where
  "offset_text fmt width height pixel_format offset timed =
     snprintf_buf 256 (''frame dim='' @ show_int width @ ''x'' @ show_int height @ '' pix='' @ show_int (sint pixel_format) @
       '' offset='' @ show_base 10 offset @ fmt @ '' time='' @ (if timed then ''1'' else ''0''))"

definition queryFrame_offset :: "string \<Rightarrow> int \<Rightarrow> int \<Rightarrow> u32 \<Rightarrow> nat \<Rightarrow> int option \<Rightarrow> 'p pipe_write \<Rightarrow> 'p pipe_read \<Rightarrow>
    (nat \<Rightarrow> bool) \<Rightarrow> int \<Rightarrow> 'p option \<Rightarrow> (int \<times> int option) \<times> 'p option" where
  "queryFrame_offset fmt width height pixel_format offset frame_time wr rd alloc err mPipeFD =
     (case doQuery wr rd alloc err (QemuQuery_new (offset_text fmt width height pixel_format offset (frame_time \<noteq> None))) mPipeFD of
        (_, q, mPipeFD) \<Rightarrow>
          if getCompletionStatus q \<noteq> NO_ERR then ((getCompletionStatus q, frame_time), mPipeFD)
          else
            let frame = (case mReplyData q of Some d \<Rightarrow> d | None \<Rightarrow> []) in
            ((NO_ERR, case frame_time of None \<Rightarrow> None
               | Some _ \<Rightarrow> if 8 \<le> mReplyDataSize q then Some (le64_int (take 8 frame)) else Some 0), mPipeFD))"

section \<open>Replies\<close>

interpretation camera_frame: length_prefix 8 "show_padded 16 8" "\<lambda>h. nat (strtol16 h)" "2 ^ 32 - 1"
proof
  fix n :: nat
  assume "n \<le> 2 ^ 32 - 1"
  then have n: "n < 16 ^ 8" by simp
  show "length (show_padded 16 8 n) = 8" using length_show_padded [of 16 n 8] n by simp
  show "nat (strtol16 (show_padded 16 8 n)) = n" using n scan_x_padded [of n 8] by (simp add: strtol16_def)
qed simp

text \<open>A pipe in both directions: what there is to read and what was written are kept apart.\<close>

definition pipe_duplex :: "'p pipe_write \<Rightarrow> 'p pipe_read \<Rightarrow> ('p \<Rightarrow> string) \<Rightarrow> ('p \<Rightarrow> string) \<Rightarrow> bool" where
  "pipe_duplex wr rd inbox outbox \<longleftrightarrow> pipe_reads rd inbox \<and> (\<forall>p n. outbox (snd (rd p n)) = outbox p) \<and>
     (\<forall>p xs. fst (wr p xs) = 0 \<and> inbox (snd (wr p xs)) = inbox p \<and> outbox (snd (wr p xs)) = outbox p @ xs)"

lemma duplex_write_ok:
  assumes "pipe_duplex wr rd inbox outbox"
  obtains p' where "wr p xs = (0, p')" and "inbox p' = inbox p" and "outbox p' = outbox p @ xs"
  using assms unfolding pipe_duplex_def by (metis prod.collapse)

lemma duplex_read_ok:
  assumes "pipe_duplex wr rd inbox outbox" and "n \<le> length (inbox p)"
  obtains p' where "rd p n = (Some (take n (inbox p)), p')" and "inbox p' = drop n (inbox p)" and "outbox p' = outbox p"
  using assms unfolding pipe_duplex_def pipe_reads_def by (metis prod.collapse)

lemma receive_reply:
  assumes "pipe_duplex wr rd inbox outbox" and "length r < 2 ^ 32" and "alloc (length r)" and "inbox p = frame (show_padded 16 8) r @ rest"
  obtains p' where "receiveMessage rd alloc err (Some p) = ((NO_ERR, Some r, length r), Some p')"
    and "inbox p' = rest" and "outbox p' = outbox p"
proof -
  let ?h = "show_padded 16 8 (length r)"
  have h: "length ?h = 8" using camera_frame.length_hdr [of "length r"] assms(2) by simp
  have inb: "inbox p = ?h @ r @ rest" using assms(4) by (simp add: frame_def)
  obtain p1 where 1: "rd p 8 = (Some ?h, p1)" "inbox p1 = r @ rest" "outbox p1 = outbox p"
    using duplex_read_ok [OF assms(1), of 8 p] inb h by auto
  obtain p2 where 2: "rd p1 (length r) = (Some r, p2)" "inbox p2 = rest" "outbox p2 = outbox p1"
    using duplex_read_ok [OF assms(1), of "length r" p1] 1(2) by auto
  have "c_str ?h = ?h" by (rule c_str_digits [of 16]) (rule show_padded_digits, simp_all)
  moreover have "strtol16 ?h = int (length r)" using scan_x_padded [of "length r" 8] assms(2) by (simp add: strtol16_def)
  moreover have "to_size_t (int (length r)) = length r" using assms(2) by (simp add: to_size_t_def)
  ultimately show thesis using 1 2 assms(3) by (intro that [of p2]) (simp_all add: receiveMessage_def Let_def)
qed

text \<open>The data of an accepted reply.\<close>

definition reply_data :: "string \<Rightarrow> string option" where
  "reply_data r = (if r = ''ok'' @ [CHR 0x00] then Some [] else if take 3 r = ''ok:'' \<and> 3 < length r then Some (drop 3 r) else None)"

text \<open>The status of a completed query is the one of its reply.\<close>

lemma complete_reply:
  assumes "completeQuery NO_ERR (QemuQuery_new s\<lparr>mReplyBuffer := Some r, mReplySize := length r\<rparr>) = (st, q)" and "s \<noteq> []"
  shows "getCompletionStatus q = (if reply_data r = None then EINVAL else NO_ERR) \<and>
    (\<forall>d. reply_data r = Some d \<longrightarrow> mReplyDataSize q = length d \<and> (case mReplyData q of Some d \<Rightarrow> d | None \<Rightarrow> []) = d)"
proof -
  have new: "QemuQuery_new s = resetQuery\<lparr>mQuery := s\<rparr>" using assms(2) by (simp add: QemuQuery_new_def createQuery_def resetQuery_def)
  consider "length r < 3" | a b c where "r = [a, b, c]" | a b c d ds where "r = a # b # c # d # ds"
    by (metis (no_types, opaque_lifting) One_nat_def Suc_1 length_Cons linorder_not_less list.size(3) neq_Nil_conv not_less_eq numeral_3_eq_3
        order_less_le_trans zero_less_Suc)
  then show ?thesis
  proof cases
    case 1
    then show ?thesis using assms(1)
      by (auto simp: new completeQuery_def resetQuery_def Let_def reply_data_def getCompletionStatus_def errno_defs)
  next
    case 2
    then show ?thesis using assms(1)
      by (auto simp: new completeQuery_def resetQuery_def Let_def reply_data_def getCompletionStatus_def errno_defs split: if_splits)
  next
    case 3
    then show ?thesis using assms(1)
      by (auto simp: new completeQuery_def resetQuery_def Let_def reply_data_def getCompletionStatus_def errno_defs numeral_3_eq_3 split: if_splits)
  qed
qed

lemma query_reply:
  assumes "pipe_duplex wr rd inbox outbox" and "length r < 2 ^ 32" and "alloc (length r)" and "inbox p = frame (show_padded 16 8) r @ rest" and "s \<noteq> []"
  obtains st q p' where "doQuery wr rd alloc err (QemuQuery_new s) (Some p) = (st, q, Some p')" and "inbox p' = rest"
    and "outbox p' = outbox p @ s @ [CHR 0x00]" and "getCompletionStatus q = (if reply_data r = None then EINVAL else NO_ERR)"
    and "\<And>d. reply_data r = Some d \<Longrightarrow> mReplyDataSize q = length d \<and> (case mReplyData q of Some d \<Rightarrow> d | None \<Rightarrow> []) = d"
proof -
  have new: "QemuQuery_new s = resetQuery\<lparr>mQuery := s\<rparr>" using assms(5) by (simp add: QemuQuery_new_def createQuery_def resetQuery_def)
  obtain p1 where 1: "wr p (s @ [CHR 0x00]) = (0, p1)" "inbox p1 = inbox p" "outbox p1 = outbox p @ s @ [CHR 0x00]"
    using duplex_write_ok [OF assms(1)] .
  obtain p2 where 2: "receiveMessage rd alloc err (Some p1) = ((NO_ERR, Some r, length r), Some p2)" "inbox p2 = rest" "outbox p2 = outbox p1"
    using receive_reply [of wr rd inbox outbox r alloc p1 rest, OF assms(1-3)] assms(4) 1(2) by metis
  obtain st q where c: "completeQuery NO_ERR (QemuQuery_new s\<lparr>mReplyBuffer := Some r, mReplySize := length r\<rparr>) = (st, q)" by force
  have "doQuery wr rd alloc err (QemuQuery_new s) (Some p) = (st, q, Some p2)"
    using 1(1) 2(1) c by (simp add: doQuery_def new client_sendMessage_def) (simp add: resetQuery_def)
  then show thesis using that 1(3) 2(2,3) complete_reply [OF c assms(5)] by metis
qed

text \<open>A query that is answered with a bare \<^verbatim>\<open>ok\<close> succeeds.\<close>

lemma status_query_ok:
  assumes "pipe_duplex wr rd inbox outbox" and "alloc 3" and "inbox p = frame (show_padded 16 8) (''ok'' @ [CHR 0x00]) @ rest" and "s \<noteq> []"
  obtains p' where "status_query s wr rd alloc err (Some p) = (NO_ERR, Some p')" and "inbox p' = rest"
proof -
  let ?r = "''ok'' @ [CHR 0x00]"
  have len: "length ?r = 3" by simp
  have r: "length ?r < 2 ^ 32" "alloc (length ?r)" unfolding len using assms(2) by simp_all
  have data: "reply_data ?r = Some []" by (simp add: reply_data_def)
  show thesis
    by (rule query_reply [of wr rd inbox outbox ?r alloc p rest s err, OF assms(1) r assms(3,4)])
      (use data in \<open>auto intro: that simp: status_query_def\<close>)
qed

text \<open>A read that succeeds delivers the number of bytes that was asked for; then a query that succeeds has the size of its data.\<close>

definition reads_exact :: "'p pipe_read \<Rightarrow> bool" where
  "reads_exact rd \<longleftrightarrow> (\<forall>p n xs p'. rd p n = (Some xs, p') \<longrightarrow> length xs = n)"

lemma receive_size:
  assumes "reads_exact rd" and "receiveMessage rd alloc err c = ((NO_ERR, buf, n), c')"
  shows "\<exists>r. buf = Some r \<and> n = length r"
proof -
  have exact: "rd p n = (Some xs, p') \<Longrightarrow> length xs = n" for p n xs p' using assms(1) unfolding reads_exact_def by blast
  show ?thesis using assms(2) exact
    by (auto simp: receiveMessage_def Let_def or_err_def errno_defs split: option.splits prod.splits if_splits)
qed

lemma complete_failed: "st \<noteq> NO_ERR \<Longrightarrow> getCompletionStatus (snd (completeQuery st q)) \<noteq> NO_ERR"
  by (simp add: completeQuery_def Let_def getCompletionStatus_def)

lemma query_data_size:
  assumes "reads_exact rd" and "s \<noteq> []" and "doQuery wr rd alloc err (QemuQuery_new s) c = (st, q, c')" and "getCompletionStatus q = NO_ERR"
  shows "mReplyDataSize q = length (case mReplyData q of Some d \<Rightarrow> d | None \<Rightarrow> [])"
proof -
  have new: "mQueryDeliveryStatus (QemuQuery_new s) = NO_ERR" using assms(2) by (simp add: QemuQuery_new_def createQuery_def)
  obtain res c1 where send: "client_sendMessage wr err (mQuery (QemuQuery_new s) @ [CHR 0x00]) c = (res, c1)" by force
  have res: "res = NO_ERR" using assms(3,4) complete_failed [of res "QemuQuery_new s"] new send
    by (cases "res = NO_ERR") (auto simp: doQuery_def split: prod.splits)
  obtain res2 buf n c2 where recv: "receiveMessage rd alloc err c1 = ((res2, buf, n), c2)" by (metis prod.exhaust)
  have compl: "completeQuery res2 (QemuQuery_new s\<lparr>mReplyBuffer := buf, mReplySize := n\<rparr>) = (st, q)"
    using assms(3) new send res recv by (auto simp: doQuery_def split: prod.splits)
  then have res2: "res2 = NO_ERR" using assms(4) complete_failed [of res2 "QemuQuery_new s\<lparr>mReplyBuffer := buf, mReplySize := n\<rparr>"] by auto
  then obtain r where r: "buf = Some r" "n = length r" using receive_size [OF assms(1)] recv by blast
  have "reply_data r \<noteq> None" using complete_reply [of r s st q] compl res2 r assms(2,4) by (auto simp: errno_defs split: if_splits)
  then show ?thesis using complete_reply [of r s st q] compl res2 r assms(2) by auto
qed

lemma camera_frame_reply:
  assumes "pipe_duplex wr rd inbox outbox" and "length r < 2 ^ 32" and "alloc (length r)" and "inbox p = frame (show_padded 16 8) r @ rest"
    and "0 < length v" and "0 < length b"
  shows "\<exists>p' res. queryFrame fmt (Some v) (Some b) (length v) (length b) (Some t) wr rd alloc err (Some p) = (res, Some p') \<and> inbox p' = rest \<and>
    outbox p' = outbox p @ frame_text fmt (length v) (length b) True @ [CHR 0x00] \<and>
    (case reply_data r of
       None \<Rightarrow> fst res = EINVAL
     | Some d \<Rightarrow> if length v + length b \<le> length d
         then res = (NO_ERR, Some (take (length v) d), Some (take (length b) (drop (length v) d)),
           Some (if length v + length b + 8 \<le> length d then le64_int (take 8 (drop (length v + length b) d)) else 0))
         else fst res = EINVAL)"
proof -
  let ?s = "frame_text fmt (length v) (length b) True"
  have ne: "?s \<noteq> []" by (simp add: frame_text_def snprintf_buf_def)
  obtain st q p' where q: "doQuery wr rd alloc err (QemuQuery_new ?s) (Some p) = (st, q, Some p')" "inbox p' = rest"
      "outbox p' = outbox p @ ?s @ [CHR 0x00]" "getCompletionStatus q = (if reply_data r = None then EINVAL else NO_ERR)"
      "\<And>d. reply_data r = Some d \<Longrightarrow> mReplyDataSize q = length d \<and> (case mReplyData q of Some d \<Rightarrow> d | None \<Rightarrow> []) = d"
    by (rule query_reply [of wr rd inbox outbox r alloc p rest ?s err, OF assms(1-4) ne]) (rule that)
  show ?thesis
  proof (cases "reply_data r")
    case None
    then show ?thesis using q by (simp add: queryFrame_def wanted_size_def Let_def errno_defs)
  next
    case (Some d)
    have n: "mReplyDataSize q = length d" "(case mReplyData q of Some d \<Rightarrow> d | None \<Rightarrow> []) = d" using q(5) [OF Some] by simp_all
    show ?thesis using q(1-4) assms(5,6) Some n by (auto simp: queryFrame_def wanted_size_def Let_def errno_defs less_diff_conv le_diff_conv2)
  qed
qed

text \<open>A query for a video and a preview frame writes the query with its terminating zero and takes exactly one reply from the
  pipe. The two buffers and the time are filled from the data of the reply, in this order, exactly when the reply is accepted and long enough for both
  frames; a time that is missing is 0. Every other reply gives an error.\<close>

theorem camera_frame_exact:
  assumes "pipe_duplex wr rd inbox outbox" and "length r < 2 ^ 32" and "alloc (length r)" and "inbox p = frame (show_padded 16 8) r @ rest"
    and "0 < length v" and "0 < length b"
  shows "\<exists>p' res. queryFrame fmt (Some v) (Some b) (length v) (length b) (Some t) wr rd alloc err (Some p) = (res, Some p') \<and> inbox p' = rest \<and>
    outbox p' = outbox p @ frame_text fmt (length v) (length b) True @ [CHR 0x00] \<and>
    (case reply_data r of
       None \<Rightarrow> fst res = EINVAL
     | Some d \<Rightarrow> if length v + length b \<le> length d
         then res = (NO_ERR, Some (take (length v) d), Some (take (length b) (drop (length v) d)),
           Some (if length v + length b + 8 \<le> length d then le64_int (take 8 (drop (length v + length b) d)) else 0))
         else fst res = EINVAL)"
  using camera_frame_reply [of wr rd inbox outbox r alloc p rest v b fmt t err, OF assms] .

theorem camera_frame_exact_witness:
  "\<exists>p' res. queryFrame '' whiteb=1,1,1 expcomp=1'' (Some ''....'') (Some ''..'') 4 2 (Some 7)
      (\<lambda>p xs. (0, (fst p, snd p @ xs))) (\<lambda>p n. if n \<le> length (fst p) then (Some (take n (fst p)), (drop n (fst p), snd p)) else (None, p))
      (\<lambda>n. True) 0 (Some (frame (show_padded 16 8) (''ok:'' @ ''abcdef'') @ ''xy'', [])) = (res, Some p') \<and>
    p' = (''xy'', frame_text '' whiteb=1,1,1 expcomp=1'' 4 2 True @ [CHR 0x00]) \<and> res = (NO_ERR, Some ''abcd'', Some ''ef'', Some 0)"
proof -
  let ?wr = "\<lambda>(p :: string \<times> string) (xs :: string). (0 :: int, (fst p, snd p @ xs))"
  let ?rd = "\<lambda>(p :: string \<times> string) n. if n \<le> length (fst p) then (Some (take n (fst p)), (drop n (fst p), snd p)) else (None, p)"
  let ?p = "(frame (show_padded 16 8) (''ok:'' @ ''abcdef'') @ ''xy'', []) :: string \<times> string"
  have duplex: "pipe_duplex ?wr ?rd fst snd" by (simp add: pipe_duplex_def pipe_reads_def)
  have data: "reply_data (''ok:'' @ ''abcdef'') = Some ''abcdef''" by code_simp
  have sizes: "length ''....'' = 4" "length ''..'' = 2" by simp_all
  obtain p' res where "queryFrame '' whiteb=1,1,1 expcomp=1'' (Some ''....'') (Some ''..'') 4 2 (Some 7) ?wr ?rd (\<lambda>n. True) 0 (Some ?p) = (res, Some p')"
      "fst p' = ''xy''" "snd p' = snd ?p @ frame_text '' whiteb=1,1,1 expcomp=1'' 4 2 True @ [CHR 0x00]"
      "res = (NO_ERR, Some (take 4 ''abcdef''), Some (take 2 (drop 4 ''abcdef'')), Some 0)"
    using camera_frame_exact [OF duplex, of "''ok:'' @ ''abcdef''" "\<lambda>n. True" ?p "''xy''" "''....''" "''..''" "'' whiteb=1,1,1 expcomp=1''" 7 0]
    unfolding data sizes by auto
  moreover have "take 4 ''abcdef'' = ''abcd''" "take 2 (drop 4 ''abcdef'') = ''ef''" by simp_all
  ultimately show ?thesis by (metis append_Nil prod.collapse snd_conv)
qed

end
