(* ===== verification/Camera_Qemu_Device.thy ===== *)
theory Camera_Qemu_Device
  imports Camera_Client Camera_Converters
begin

text \<open>
  \<^verbatim>\<open>camera/EmulatedCameraDevice.cpp\<close> and \<^verbatim>\<open>EmulatedQemuCameraDevice.cpp\<close>: the device of the first camera interface whose frames come from the
  emulator. The state has the frame format, the two pairs of buffers, the thread that produces frames and the client of the host. Widths and
  heights are natural numbers that do not overflow. The result \<open>None\<close> is the use of a null pointer or a copy out of bounds.
\<close>

section \<open>State\<close>

definition V4L2_PIX_FMT_YVU420 :: u32 where "V4L2_PIX_FMT_YVU420 = 0x32315659"
definition V4L2_PIX_FMT_YUV420 :: u32 where "V4L2_PIX_FMT_YUV420 = 0x32315559"
definition V4L2_PIX_FMT_NV21 :: u32 where "V4L2_PIX_FMT_NV21 = 0x3132564E"
definition V4L2_PIX_FMT_NV12 :: u32 where "V4L2_PIX_FMT_NV12 = 0x3231564E"

lemmas pix_fmt_defs = V4L2_PIX_FMT_YVU420_def V4L2_PIX_FMT_YUV420_def V4L2_PIX_FMT_NV21_def V4L2_PIX_FMT_NV12_def

datatype EmulatedCameraDeviceState = ECDS_CONSTRUCTED | ECDS_INITIALIZED | ECDS_CONNECTED | ECDS_STARTED

text \<open>The producer: which of the two pairs of buffers is the primary one (\<open>False\<close> the first), the times, and whether there is a frame.\<close>

record FrameProducer =
  mPrimaryBuffer :: bool
  mPrimaryTimestamp :: int
  mSecondaryTimestamp :: int
  mHasFrame :: bool

record restart_request =
  mRestartWidth :: nat
  mRestartHeight :: nat
  mRestartPixelFormat :: u32
  mRestartTakingPicture :: bool
  mRestartOneBurst :: bool

text \<open>The camera thread, with its producer, the restart that was asked for, and whether it ends after one frame.\<close>

record CameraThread =
  mFrameProducer :: "FrameProducer option"
  mRestartRequested :: "restart_request option"
  mOneBurst :: bool

record frame_format =
  mFrameWidth :: nat
  mFrameHeight :: nat
  mPixelFormat :: u32
  mTotalPixels :: nat
  mYStride :: nat
  mUVStride :: nat
  mFrameBufferSize :: nat

type_synonym frame_pair = "string \<times> string"

record 'p QemuDevice =
  mState :: EmulatedCameraDeviceState
  fmt :: frame_format
  buffers :: "frame_pair \<times> frame_pair"       \<comment> \<open>\<^verbatim>\<open>mFrameBufferPairs\<close>: frame and preview, twice\<close>
  mCameraThread :: "CameraThread option"
  mQemuClient :: "'p option"

definition isInitialized :: "'p QemuDevice \<Rightarrow> bool" where
  "isInitialized d \<longleftrightarrow> mState d \<noteq> ECDS_CONSTRUCTED"

definition isConnected :: "'p QemuDevice \<Rightarrow> bool" where
  "isConnected d \<longleftrightarrow> mState d = ECDS_CONNECTED \<or> mState d = ECDS_STARTED"

definition isStarted :: "'p QemuDevice \<Rightarrow> bool" where
  "isStarted d \<longleftrightarrow> mState d = ECDS_STARTED"

section \<open>Format\<close>

text \<open>The strides and the size of a frame of the format; \<open>None\<close> for an unknown one.\<close>

definition commonStartDevice :: "nat \<Rightarrow> nat \<Rightarrow> u32 \<Rightarrow> frame_format option" where
  "commonStartDevice width height pix_fmt =
     (let with_strides = \<lambda>ys uvs n. Some \<lparr>mFrameWidth = width, mFrameHeight = height, mPixelFormat = pix_fmt, mTotalPixels = width * height,
          mYStride = ys, mUVStride = uvs, mFrameBufferSize = n\<rparr> in
      if pix_fmt = V4L2_PIX_FMT_YVU420 \<or> pix_fmt = V4L2_PIX_FMT_YUV420 then
        (let ys = align16 width; uvs = align16 (ys div 2) in with_strides ys uvs (ys * height + uvs * height))
      else if pix_fmt = V4L2_PIX_FMT_NV21 \<or> pix_fmt = V4L2_PIX_FMT_NV12 then with_strides width width (width * height + width * (height div 2))
      else None)"

definition commonStopDevice :: "frame_format \<Rightarrow> frame_format" where
  "commonStopDevice f = f\<lparr>mFrameWidth := 0, mFrameHeight := 0, mTotalPixels := 0, mPixelFormat := 0\<rparr>"

text \<open>A copy of \<open>n\<close> bytes from \<open>s\<close> in the source to \<open>d\<close> in the destination.\<close>

definition copy_bytes :: "'a list \<Rightarrow> nat \<Rightarrow> nat \<Rightarrow> nat \<Rightarrow> 'a list \<Rightarrow> 'a list option" where
  "copy_bytes source s n d dest =
     (if s + n \<le> length source \<and> d + n \<le> length dest
      then Some (take d dest @ take n (drop s source) @ drop (d + n) dest) else None)"

text \<open>The loops that strip the alignment, row by row.\<close>

fun copy_rows :: "'a list \<Rightarrow> nat \<Rightarrow> nat \<Rightarrow> nat \<Rightarrow> nat \<Rightarrow> nat \<Rightarrow> 'a list \<Rightarrow> 'a list option" where
  "copy_rows source s stride width d 0 dest = Some dest"
| "copy_rows source s stride width d (Suc rows) dest =
     Option.bind (copy_bytes source s width d dest) (copy_rows source (s + stride) stride width (d + width) rows)"

definition getCurrentFrameImpl :: "frame_format \<Rightarrow> 'a list \<Rightarrow> 'a list \<Rightarrow> u32 \<Rightarrow> (int \<times> 'a list) option" where
  "getCurrentFrameImpl f source dest pixelFormat =
     (let w = mFrameWidth f; h = mFrameHeight f; ySize = mYStride f * h; uvSize = mUVStride f * (h div 2) in
      if pixelFormat = mPixelFormat f then map_option (Pair NO_ERR) (copy_bytes source 0 (mFrameBufferSize f) 0 dest)
      else if pixelFormat = V4L2_PIX_FMT_YUV420 \<and> mPixelFormat f = V4L2_PIX_FMT_YVU420 then do {
        dest \<leftarrow> (if mYStride f = w then copy_bytes source 0 ySize 0 dest else copy_rows source 0 (mYStride f) w 0 h dest);
        dest \<leftarrow> (if mUVStride f = w div 2
                 then Option.bind (copy_bytes source (ySize + uvSize) uvSize ySize dest) (copy_bytes source ySize uvSize (ySize + uvSize))
                 else Option.bind (copy_rows source (ySize + uvSize) (mUVStride f) (w div 2) (w * h) (h div 2) dest)
                        (copy_rows source ySize (mUVStride f) (w div 2) (w * h + (h div 2) * (w div 2)) (h div 2)));
        Some (NO_ERR, dest) }
      else Some (EINVAL, dest))"

section \<open>Calls\<close>

definition device_Initialize :: "(string \<Rightarrow> 'p option) \<Rightarrow> int \<Rightarrow> string \<Rightarrow> 'p QemuDevice \<Rightarrow> int \<times> 'p QemuDevice" where
  "device_Initialize opened err device_name d =
     (case connectClient opened err (snprintf_buf 256 (''name='' @ device_name)) (mQemuClient d) of
        (res, c) \<Rightarrow> if res \<noteq> NO_ERR then (res, d\<lparr>mQemuClient := c\<rparr>)
          else (NO_ERR, d\<lparr>mQemuClient := c, mState := (if isInitialized d then mState d else ECDS_INITIALIZED)\<rparr>))"

text \<open>The parameters of the client's queries: writing, reading, memory, and the error number.\<close>

record 'p host =
  h_write :: "'p pipe_write"
  h_read :: "'p pipe_read"
  h_alloc :: "nat \<Rightarrow> bool"
  h_errno :: int

definition connectDevice :: "'p host \<Rightarrow> 'p QemuDevice \<Rightarrow> int \<times> 'p QemuDevice" where
  "connectDevice h d =
     (if \<not> isInitialized d then (EINVAL, d)
      else if isConnected d then (NO_ERR, d)
      else case queryConnect (h_write h) (h_read h) (h_alloc h) (h_errno h) (mQemuClient d) of
        (res, c) \<Rightarrow> (res, d\<lparr>mQemuClient := c, mState := (if res = NO_ERR then ECDS_CONNECTED else mState d)\<rparr>))"

definition disconnectDevice :: "'p host \<Rightarrow> 'p QemuDevice \<Rightarrow> int \<times> 'p QemuDevice" where
  "disconnectDevice h d =
     (if \<not> isConnected d then (NO_ERR, d)
      else if isStarted d then (EINVAL, d)
      else case queryDisconnect (h_write h) (h_read h) (h_alloc h) (h_errno h) (mQemuClient d) of
        (res, c) \<Rightarrow> (res, d\<lparr>mQemuClient := c, mState := (if res = NO_ERR then ECDS_INITIALIZED else mState d)\<rparr>))"

text \<open>\<^verbatim>\<open>resize\<close> keeps what is there and fills with zeros.\<close>

definition resize :: "nat \<Rightarrow> string \<Rightarrow> string" where
  "resize n s = take n s @ replicate (n - length s) CHR 0x00"

definition startDevice :: "'p host \<Rightarrow> nat \<Rightarrow> nat \<Rightarrow> u32 \<Rightarrow> 'p QemuDevice \<Rightarrow> int \<times> 'p QemuDevice" where
  "startDevice h width height pix_fmt d =
     (if \<not> isConnected d then (EINVAL, d)
      else if isStarted d then (NO_ERR, d)
      else case commonStartDevice width height pix_fmt of
        None \<Rightarrow> (EINVAL, d)
      | Some f \<Rightarrow>
          let sized = \<lambda>(frame, preview). (resize (mFrameBufferSize f) frame, resize (4 * mTotalPixels f) preview);
              d = d\<lparr>fmt := f, buffers := map_prod sized sized (buffers d)\<rparr> in
          (case queryStart (mPixelFormat f) (int (mFrameWidth f)) (int (mFrameHeight f)) (h_write h) (h_read h) (h_alloc h) (h_errno h) (mQemuClient d) of
             (res, c) \<Rightarrow> (res, d\<lparr>mQemuClient := c, mState := (if res = NO_ERR then ECDS_STARTED else mState d)\<rparr>)))"

definition stopDevice :: "'p host \<Rightarrow> 'p QemuDevice \<Rightarrow> int \<times> 'p QemuDevice" where
  "stopDevice h d =
     (if \<not> isStarted d then (NO_ERR, d)
      else case queryStop (h_write h) (h_read h) (h_alloc h) (h_errno h) (mQemuClient d) of
        (res, c) \<Rightarrow>
          if res = NO_ERR
          then (res, d\<lparr>mQemuClient := c, buffers := (([], []), ([], [])), fmt := commonStopDevice (fmt d), mState := ECDS_CONNECTED\<rparr>)
          else (res, d\<lparr>mQemuClient := c\<rparr>))"

definition FrameProducer_new :: FrameProducer where
  "FrameProducer_new = \<lparr>mPrimaryBuffer = False, mPrimaryTimestamp = 0, mSecondaryTimestamp = 0, mHasFrame = False\<rparr>"

text \<open>The camera thread and, when it runs, its producer. Starting the threads succeeds.\<close>

definition startDeliveringFrames :: "bool \<Rightarrow> 'p QemuDevice \<Rightarrow> int \<times> 'p QemuDevice" where
  "startDeliveringFrames one_burst d =
     (if \<not> isStarted d then (EINVAL, d)
      else (NO_ERR, d\<lparr>mCameraThread := Some \<lparr>mFrameProducer = Some FrameProducer_new, mRestartRequested = None, mOneBurst = one_burst\<rparr>\<rparr>))"

definition stopDeliveringFrames :: "'p QemuDevice \<Rightarrow> (int \<times> 'p QemuDevice) option" where
  "stopDeliveringFrames d =
     (if \<not> isStarted d then Some (NO_ERR, d)
      else if mCameraThread d = None then None
      else Some (NO_ERR, d\<lparr>mCameraThread := None\<rparr>))"

definition requestRestart :: "nat \<Rightarrow> nat \<Rightarrow> u32 \<Rightarrow> bool \<Rightarrow> bool \<Rightarrow> 'p QemuDevice \<Rightarrow> bool \<times> 'p QemuDevice" where
  "requestRestart width height pixelFormat takingPicture oneBurst d =
     (case mCameraThread d of
        None \<Rightarrow> (False, d)
      | Some t \<Rightarrow> (True, d\<lparr>mCameraThread := Some (t\<lparr>mRestartRequested :=
          Some \<lparr>mRestartWidth = width, mRestartHeight = height, mRestartPixelFormat = pixelFormat,
            mRestartTakingPicture = takingPicture, mRestartOneBurst = oneBurst\<rparr>\<rparr>)\<rparr>))"

text \<open>\<^verbatim>\<open>checkRestartRequest\<close>: the producer is stopped before the device. The result says whether the thread goes on.\<close>

definition checkRestartRequest :: "'p host \<Rightarrow> CameraThread \<Rightarrow> 'p QemuDevice \<Rightarrow> bool \<times> 'p QemuDevice" where
  "checkRestartRequest h t d =
     (case mRestartRequested t of
        None \<Rightarrow> (True, d)
      | Some r \<Rightarrow>
          let d = d\<lparr>mCameraThread := Some (t\<lparr>mFrameProducer := None, mRestartRequested := None\<rparr>)\<rparr> in
          case stopDevice h d of (res, d) \<Rightarrow>
            if res \<noteq> NO_ERR then (False, d)
            else case startDevice h (mRestartWidth r) (mRestartHeight r) (mRestartPixelFormat r) d of (res, d) \<Rightarrow>
              if res \<noteq> NO_ERR then (False, d)
              else (True, d\<lparr>mCameraThread := Some \<lparr>mFrameProducer = Some FrameProducer_new, mRestartRequested = None, mOneBurst = mRestartOneBurst r\<rparr>\<rparr>))"

text \<open>One pass of the producer: a frame of the host into the secondary buffers, which then become the primary ones. After a failure the
  thread ends; what was written stays in the secondary buffers.\<close>

definition pick :: "bool \<Rightarrow> 'a \<times> 'a \<Rightarrow> 'a" where
  "pick second bs = (if second then snd bs else fst bs)"

definition put :: "bool \<Rightarrow> 'a \<Rightarrow> 'a \<times> 'a \<Rightarrow> 'a \<times> 'a" where
  "put second b bs = (if second then (fst bs, b) else (b, snd bs))"

definition producer_pass :: "'p host \<Rightarrow> string \<Rightarrow> CameraThread \<Rightarrow> FrameProducer \<Rightarrow> 'p QemuDevice \<Rightarrow> bool \<times> 'p QemuDevice" where
  "producer_pass h wb t pr d =
     (case pick (\<not> mPrimaryBuffer pr) (buffers d) of (rawFrame, previewFrame) \<Rightarrow>
        (case queryFrame wb (Some rawFrame) (Some previewFrame) (mFrameBufferSize (fmt d)) (4 * mTotalPixels (fmt d)) (Some (mSecondaryTimestamp pr))
            (h_write h) (h_read h) (h_alloc h) (h_errno h) (mQemuClient d) of
          ((res, v, b, ts), c) \<Rightarrow>
            let d = d\<lparr>mQemuClient := c, buffers := put (\<not> mPrimaryBuffer pr) (the v, the b) (buffers d)\<rparr> in
            if res \<noteq> NO_ERR then (False, d\<lparr>mCameraThread := Some (t\<lparr>mFrameProducer := Some (pr\<lparr>mSecondaryTimestamp := the ts\<rparr>)\<rparr>)\<rparr>)
            else (True, d\<lparr>mCameraThread := Some (t\<lparr>mFrameProducer :=
              Some (pr\<lparr>mPrimaryBuffer := \<not> mPrimaryBuffer pr, mPrimaryTimestamp := the ts, mSecondaryTimestamp := mPrimaryTimestamp pr,
                mHasFrame := True\<rparr>)\<rparr>)\<rparr>)))"

definition getCurrentFrame :: "string option \<Rightarrow> u32 \<Rightarrow> 'p QemuDevice \<Rightarrow> (int \<times> string option \<times> int) option" where
  "getCurrentFrame buffer pixelFormat d =
     (if \<not> isStarted d then Some (EINVAL, buffer, 0)
      else case buffer of
        None \<Rightarrow> Some (EINVAL, None, 0)
      | Some dest \<Rightarrow> do {
          t \<leftarrow> mCameraThread d;
          pr \<leftarrow> mFrameProducer t;
          (res, dest) \<leftarrow> getCurrentFrameImpl (fmt d) (fst (pick (mPrimaryBuffer pr) (buffers d))) dest pixelFormat;
          Some (res, Some dest, mPrimaryTimestamp pr) })"

definition getCurrentPreviewFrame :: "string option \<Rightarrow> 'p QemuDevice \<Rightarrow> (int \<times> string option \<times> int) option" where
  "getCurrentPreviewFrame buffer d =
     (if \<not> isStarted d then Some (EINVAL, buffer, 0)
      else case buffer of
        None \<Rightarrow> Some (EINVAL, None, 0)
      | Some dest \<Rightarrow> do {
          t \<leftarrow> mCameraThread d;
          pr \<leftarrow> mFrameProducer t;
          dest \<leftarrow> copy_bytes (snd (pick (mPrimaryBuffer pr) (buffers d))) 0 (4 * mTotalPixels (fmt d)) 0 dest;
          Some (NO_ERR, Some dest, mPrimaryTimestamp pr) })"

section \<open>Formats\<close>

text \<open>\<open>n\<close> rows of \<open>w\<close> bytes that lie \<open>stride\<close> apart, one after the other.\<close>

definition rows :: "'a list \<Rightarrow> nat \<Rightarrow> nat \<Rightarrow> nat \<Rightarrow> nat \<Rightarrow> 'a list" where
  "rows src s stride w n = concat (map (\<lambda>y. take w (drop (s + y * stride) src)) [0..<n])"

lemma rows_Suc: "rows src s stride w (Suc n) = take w (drop s src) @ rows src (s + stride) stride w n"
  unfolding rows_def by (simp add: upt_conv_Cons map_Suc_upt [symmetric] o_def add.assoc del: upt_Suc)

lemma length_rows:
  assumes "w \<le> stride" and "s + n * stride \<le> length src"
  shows "length (rows src s stride w n) = n * w"
  using assms(2)
proof (induction n arbitrary: s)
  case (Suc n)
  then show ?case using Suc.IH [of "s + stride"] assms(1) by (simp add: rows_Suc)
qed (simp add: rows_def)

lemma copy_rows_exact:
  assumes "w \<le> stride" and "s + n * stride \<le> length src" and "d + n * w \<le> length dest"
  shows "copy_rows src s stride w d n dest = Some (take d dest @ rows src s stride w n @ drop (d + n * w) dest)"
  using assms(2,3)
proof (induction n arbitrary: s d dest)
  case 0
  then show ?case by (simp add: rows_def)
next
  case (Suc n)
  let ?row = "take w (drop s src)" and ?dest = "take d dest @ take w (drop s src) @ drop (d + w) dest"
  have len: "length ?row = w" "d + w + n * w \<le> length dest" using Suc.prems assms(1) by (simp_all add: algebra_simps)
  have one: "copy_bytes src s w d dest = Some ?dest" using Suc.prems assms(1) by (simp add: copy_bytes_def)
  have "copy_rows src (s + stride) stride w (d + w) n ?dest =
      Some (take (d + w) ?dest @ rows src (s + stride) stride w n @ drop (d + w + n * w) ?dest)"
    by (rule Suc.IH) (use Suc.prems len in simp_all)
  then show ?case using one len by (simp add: rows_Suc add.assoc add.commute)
qed

lemma copy_rows_append:
  assumes "w \<le> stride" and "s + n * stride \<le> length src" and "n * w \<le> length post" and "length pre = d"
  shows "copy_rows src s stride w d n (pre @ post) = Some (pre @ rows src s stride w n @ drop (n * w) post)"
  using copy_rows_exact [OF assms(1,2), of d "pre @ post"] assms(3,4) by simp

lemma rows_contiguous:
  assumes "s + n * w \<le> length src"
  shows "rows src s w w n = take (n * w) (drop s src)"
  using assms
proof (induction n arbitrary: s)
  case (Suc n)
  then show ?case by (simp add: rows_Suc take_add add.commute)
qed (simp add: rows_def)

lemma align16_bounds: "x \<le> align16 x" "align16 x mod 16 = 0"
  by (simp_all add: align16_def)

text \<open>The strides of a planar format leave room for the rows, and the chroma is packed only if the luma is.\<close>

lemma planar_strides:
  fixes w :: nat
  defines "ys \<equiv> align16 w"
  defines "uvs \<equiv> align16 (ys div 2)"
  shows "w \<le> ys" "w div 2 \<le> uvs" "uvs = w div 2 \<Longrightarrow> ys = w"
proof -
  show "w \<le> ys" using align16_bounds(1) by (simp add: ys_def)
  moreover have u: "ys div 2 \<le> uvs" using align16_bounds(1) by (simp add: uvs_def)
  ultimately show "w div 2 \<le> uvs" by linarith
  have "even ys" using align16_bounds(2) [of w] unfolding ys_def by presburger
  then show "uvs = w div 2 \<Longrightarrow> ys = w" using u \<open>w \<le> ys\<close> by presburger
qed

text \<open>The planes of a YV12 frame, in the order of YUV420 and without alignment.\<close>

definition compact_yuv420 :: "nat \<Rightarrow> nat \<Rightarrow> 'a list \<Rightarrow> 'a list" where
  "compact_yuv420 w h src =
     (let ys = align16 w; uvs = align16 (ys div 2); v = ys * h; u = v + uvs * (h div 2) in
      rows src 0 ys w h @ rows src u uvs (w div 2) (h div 2) @ rows src v uvs (w div 2) (h div 2))"

lemma frame_conversion:
  assumes "commonStartDevice w h pf = Some f" and "length src = mFrameBufferSize f"
    and "pixelFormat = pf \<Longrightarrow> mFrameBufferSize f \<le> length dest"
    and "w * h + 2 * ((w div 2) * (h div 2)) \<le> length dest"
  shows "getCurrentFrameImpl f src dest pixelFormat =
    (if pixelFormat = pf then Some (NO_ERR, src @ drop (length src) dest)
     else if pixelFormat = V4L2_PIX_FMT_YUV420 \<and> pf = V4L2_PIX_FMT_YVU420
     then Some (NO_ERR, compact_yuv420 w h src @ drop (w * h + 2 * ((w div 2) * (h div 2))) dest)
     else Some (EINVAL, dest))"
proof -
  have f: "mPixelFormat f = pf" "mFrameWidth f = w" "mFrameHeight f = h"
    using assms(1) by (auto simp: commonStartDevice_def Let_def split: if_splits)
  consider (own) "pixelFormat = pf" | (planar) "pixelFormat \<noteq> pf" "pixelFormat = V4L2_PIX_FMT_YUV420" "pf = V4L2_PIX_FMT_YVU420"
    | (other) "pixelFormat \<noteq> pf" "\<not> (pixelFormat = V4L2_PIX_FMT_YUV420 \<and> pf = V4L2_PIX_FMT_YVU420)" by blast
  then show ?thesis
  proof cases
    case own
    then show ?thesis using f assms(2,3) by (simp add: getCurrentFrameImpl_def Let_def copy_bytes_def)
  next
    case other
    then show ?thesis unfolding getCurrentFrameImpl_def Let_def f by (simp only: if_False if_not_P simp_thms)
  next
    case planar
    define ys where "ys = align16 w"
    define uvs where "uvs = align16 (ys div 2)"
    have s: "mYStride f = ys" "mUVStride f = uvs" "length src = ys * h + uvs * h"
      using assms(1,2) planar(3) by (auto simp: commonStartDevice_def Let_def ys_def uvs_def)
    let ?q = "(w div 2) * (h div 2)" and ?u = "ys * h + uvs * (h div 2)"
    let ?Y = "rows src 0 ys w h" and ?U = "rows src ?u uvs (w div 2) (h div 2)" and ?V = "rows src (ys * h) uvs (w div 2) (h div 2)"
    note st = planar_strides [of w, folded ys_def, folded uvs_def]
    have "h div 2 + h div 2 \<le> h" by linarith
    then have "(h div 2 + h div 2) * uvs \<le> h * uvs" by (rule mult_le_mono1)
    then have half: "uvs * (h div 2) + uvs * (h div 2) \<le> h * uvs" by (simp only: distrib_right mult.commute [of uvs])
    have fit: "?u + (h div 2) * uvs \<le> length src" "ys * h + (h div 2) * uvs \<le> length src" "0 + h * ys \<le> length src"
      using half s(3) by (simp_all add: mult.commute)
    have lens: "length ?Y = h * w" "length ?U = ?q" "length ?V = ?q"
      using length_rows [OF st(1) fit(3)] length_rows [OF st(2) fit(1)] length_rows [OF st(2) fit(2)] by (simp_all add: mult.commute)
    have dest: "w * h + ?q + ?q \<le> length dest" using assms(4) by simp
    have y: "(if ys = w then copy_bytes src 0 (ys * h) 0 dest else copy_rows src 0 ys w 0 h dest) = Some (?Y @ drop (w * h) dest)"
    proof (cases "ys = w")
      case True
      then show ?thesis using rows_contiguous [of 0 h w src] fit(3) dest by (simp add: copy_bytes_def mult.commute)
    next
      case False
      then show ?thesis using copy_rows_exact [OF st(1) fit(3), of 0 dest] dest by (simp add: mult.commute)
    qed
    let ?d = "?Y @ drop (w * h) dest" and ?r = "drop (w * h + 2 * ?q) dest"
    have uv: "(if uvs = w div 2 then Option.bind (copy_bytes src ?u (uvs * (h div 2)) (ys * h) ?d) (copy_bytes src (ys * h) (uvs * (h div 2)) ?u)
        else Option.bind (copy_rows src ?u uvs (w div 2) (w * h) (h div 2) ?d)
          (copy_rows src (ys * h) uvs (w div 2) (w * h + (h div 2) * (w div 2)) (h div 2))) = Some (?Y @ ?U @ ?V @ ?r)"
    proof (cases "uvs = w div 2")
      case True
      then have "ys = w" using st(3) by simp
      moreover have "?U = take ?q (drop ?u src)" "?V = take ?q (drop (ys * h) src)"
        using rows_contiguous [of ?u "h div 2" "w div 2" src] rows_contiguous [of "ys * h" "h div 2" "w div 2" src] fit(1,2) True
        by (simp_all add: mult.commute)
      ultimately show ?thesis using True lens dest fit(1,2)
        by (simp add: copy_bytes_def ac_simps mult_2)
    next
      case False
      let ?n = "(h div 2) * (w div 2)"
      have room: "?n \<le> length (drop (w * h) dest)" "?n \<le> length (drop ?n (drop (w * h) dest))" using dest by (simp_all add: mult.commute)
      have 1: "copy_rows src ?u uvs (w div 2) (w * h) (h div 2) ?d = Some (?Y @ ?U @ drop ?n (drop (w * h) dest))"
        by (rule copy_rows_append [OF st(2) fit(1) room(1)]) (simp add: lens(1) mult.commute)
      have 2: "copy_rows src (ys * h) uvs (w div 2) (w * h + ?n) (h div 2) ((?Y @ ?U) @ drop ?n (drop (w * h) dest)) =
          Some ((?Y @ ?U) @ ?V @ drop ?n (drop ?n (drop (w * h) dest)))"
        by (rule copy_rows_append [OF st(2) fit(2) room(2)]) (unfold length_append lens(1,2), rule arg_cong2 [where f = "(+)"]; rule mult.commute)
      have "drop ?n (drop ?n (drop (w * h) dest)) = ?r" by (simp add: mult.commute [of "h div 2"] mult_2 add.commute add.left_commute)
      then show ?thesis using False 1 2 by simp
    qed
    have "getCurrentFrameImpl f src dest pixelFormat = Some (NO_ERR, ?Y @ ?U @ ?V @ ?r)"
      unfolding getCurrentFrameImpl_def Let_def f s(1,2) y using planar uv by simp
    then show ?thesis using planar unfolding compact_yuv420_def Let_def ys_def [symmetric] uvs_def [symmetric] by simp
  qed
qed

text \<open>Property C23: a frame in the device's own format is handed out byte for byte, and a YV12 frame that is asked for as YUV420
  as its planes without alignment and with the chroma planes swapped, whichever of the copies the strides select; no copy leaves the buffers when
  the destination has room for the frame, and what lies behind the frame in it is kept. Every other format is refused.\<close>

theorem frame_conversion_exact:
  assumes "commonStartDevice w h pf = Some f" and "length src = mFrameBufferSize f"
    and "pixelFormat = pf \<Longrightarrow> mFrameBufferSize f \<le> length dest"
    and "w * h + 2 * ((w div 2) * (h div 2)) \<le> length dest"
  shows "getCurrentFrameImpl f src dest pixelFormat =
    (if pixelFormat = pf then Some (NO_ERR, src @ drop (length src) dest)
     else if pixelFormat = V4L2_PIX_FMT_YUV420 \<and> pf = V4L2_PIX_FMT_YVU420
     then Some (NO_ERR, compact_yuv420 w h src @ drop (w * h + 2 * ((w div 2) * (h div 2))) dest)
     else Some (EINVAL, dest))"
  using frame_conversion [OF assms] .

theorem frame_conversion_exact_witness:
  "\<exists>f. commonStartDevice 2 2 V4L2_PIX_FMT_YVU420 = Some f \<and>
     getCurrentFrameImpl f [0..<64] (replicate 7 99) V4L2_PIX_FMT_YUV420 = Some (NO_ERR, [0, 1, 16, 17, 48, 32, 99])"
proof -
  let ?f = "\<lparr>mFrameWidth = 2, mFrameHeight = 2, mPixelFormat = V4L2_PIX_FMT_YVU420, mTotalPixels = 4, mYStride = 16, mUVStride = 16,
      mFrameBufferSize = 64\<rparr>"
  have f: "commonStartDevice 2 2 V4L2_PIX_FMT_YVU420 = Some ?f" by code_simp
  have "compact_yuv420 2 2 [0..<64] = [0, 1, 16, 17, 48, 32]" by code_simp
  moreover have "V4L2_PIX_FMT_YUV420 \<noteq> V4L2_PIX_FMT_YVU420" by code_simp
  ultimately show ?thesis using frame_conversion_exact [OF f, of "[0..<64]" V4L2_PIX_FMT_YUV420 "replicate 7 99"] f
    by (simp add: numeral_eq_Suc)
qed

section \<open>Delivery\<close>

definition producing :: "'p QemuDevice \<Rightarrow> FrameProducer option" where
  "producing d = Option.bind (mCameraThread d) mFrameProducer"

text \<open>The buffers have the sizes of the format.\<close>

definition sized :: "frame_format \<Rightarrow> frame_pair \<Rightarrow> bool" where
  "sized f b \<longleftrightarrow> length (fst b) = mFrameBufferSize f \<and> length (snd b) = 4 * mTotalPixels f"

definition dev_inv :: "'p QemuDevice \<Rightarrow> bool" where
  "dev_inv d \<longleftrightarrow>
     (isStarted d \<longrightarrow> commonStartDevice (mFrameWidth (fmt d)) (mFrameHeight (fmt d)) (mPixelFormat (fmt d)) = Some (fmt d) \<and>
        sized (fmt d) (fst (buffers d)) \<and> sized (fmt d) (snd (buffers d))) \<and>
     (producing d \<noteq> None \<longrightarrow> isStarted d)"

text \<open>The calls, and the passes of the two threads. The callers stop the threads before the device (\<^verbatim>\<open>EmulatedCamera.cpp\<close>), which is a
  condition here; the pipe and the host are arbitrary and may differ
  from call to call, but a read that succeeds delivers what was asked for.\<close>

inductive dev_step :: "'p QemuDevice \<Rightarrow> 'p QemuDevice \<Rightarrow> bool" where
  s_init: "device_Initialize opened err name d = (res, d') \<Longrightarrow> dev_step d d'"
| s_connect: "connectDevice h d = (res, d') \<Longrightarrow> dev_step d d'"
| s_disconnect: "disconnectDevice h d = (res, d') \<Longrightarrow> dev_step d d'"
| s_start: "startDevice h width height pf d = (res, d') \<Longrightarrow> dev_step d d'"
| s_stop: "stopDevice h d = (res, d') \<Longrightarrow> producing d = None \<Longrightarrow> dev_step d d'"
| s_deliver: "startDeliveringFrames burst d = (res, d') \<Longrightarrow> dev_step d d'"
| s_undeliver: "stopDeliveringFrames d = Some (res, d') \<Longrightarrow> dev_step d d'"
| s_request: "requestRestart width height pf taking burst d = (ok, d') \<Longrightarrow> dev_step d d'"
| s_restart: "mCameraThread d = Some t \<Longrightarrow> checkRestartRequest h t d = (ok, d') \<Longrightarrow> dev_step d d'"
| s_produce: "reads_exact (h_read h) \<Longrightarrow> mCameraThread d = Some t \<Longrightarrow> mFrameProducer t = Some pr \<Longrightarrow> producer_pass h wb t pr d = (ok, d') \<Longrightarrow> dev_step d d'"

lemma commonStartDevice_fields:
  "commonStartDevice w h pf = Some f \<Longrightarrow> mFrameWidth f = w \<and> mFrameHeight f = h \<and> mPixelFormat f = pf \<and> mTotalPixels f = w * h"
  by (auto simp: commonStartDevice_def Let_def split: if_splits)

lemma length_resize [simp]: "length (resize n s) = n"
  by (simp add: resize_def)

lemma startDevice_inv:
  assumes "startDevice h w ht pf d = (res, d')" and "dev_inv d"
  shows "dev_inv d' \<and> mCameraThread d' = mCameraThread d \<and> (res = NO_ERR \<longrightarrow> isStarted d')"
  using assms commonStartDevice_fields [of w ht pf]
  by (auto simp: startDevice_def Let_def errno_defs dev_inv_def isStarted_def isConnected_def producing_def sized_def split: if_splits option.splits prod.splits)

lemma stopDevice_inv:
  assumes "stopDevice h d = (res, d')" and "dev_inv d" and "producing d = None"
  shows "dev_inv d' \<and> producing d' = None"
  using assms by (auto simp: stopDevice_def dev_inv_def isStarted_def producing_def split: if_splits prod.splits)

text \<open>A query for frames keeps the sizes of the buffers.\<close>

lemma queryFrame_sizes:
  assumes "reads_exact rd" and "queryFrame wb (Some v) (Some b) (length v) (length b) (Some t) wr rd alloc err c = ((res, v', b', t'), c')"
  shows "\<exists>x y z. v' = Some x \<and> b' = Some y \<and> t' = Some z \<and> length x = length v \<and> length y = length b"
proof -
  let ?s = "frame_text wb (length v) (length b) True"
  have ne: "?s \<noteq> []" by (simp add: frame_text_def snprintf_buf_def)
  obtain st q c1 where q: "doQuery wr rd alloc err (QemuQuery_new ?s) c = (st, q, c1)" by (metis prod.exhaust)
  show ?thesis
  proof (cases "getCompletionStatus q = NO_ERR")
    case True
    let ?d = "case mReplyData q of Some d \<Rightarrow> d | None \<Rightarrow> []"
    have "mReplyDataSize q = length ?d" using query_data_size [OF assms(1) ne q True] .
    then show ?thesis using assms(2) q True by (auto simp: queryFrame_def wanted_size_def Let_def split: if_splits)
  next
    case False
    then show ?thesis using assms(2) q by (auto simp: queryFrame_def wanted_size_def Let_def)
  qed
qed

lemma producer_pass_inv:
  assumes "reads_exact (h_read h)" and "mCameraThread d = Some t" and "mFrameProducer t = Some pr" and "producer_pass h wb t pr d = (ok, d')"
    and "dev_inv d"
  shows "dev_inv d'"
proof -
  obtain v b where vb: "pick (\<not> mPrimaryBuffer pr) (buffers d) = (v, b)" by force
  have st: "isStarted d" "sized (fmt d) (fst (buffers d))" "sized (fmt d) (snd (buffers d))"
      "commonStartDevice (mFrameWidth (fmt d)) (mFrameHeight (fmt d)) (mPixelFormat (fmt d)) = Some (fmt d)"
    using assms(2,3,5) by (auto simp: dev_inv_def producing_def)
  have len: "mFrameBufferSize (fmt d) = length v" "4 * mTotalPixels (fmt d) = length b"
    using vb st(2,3) by (auto simp: pick_def sized_def split: if_splits)
  obtain res v' b' t' c where q: "queryFrame wb (Some v) (Some b) (length v) (length b) (Some (mSecondaryTimestamp pr)) (h_write h) (h_read h)
      (h_alloc h) (h_errno h) (mQemuClient d) = ((res, v', b', t'), c)" by (metis prod.exhaust)
  obtain x y where "v' = Some x" "b' = Some y" "length x = length v" "length y = length b" using queryFrame_sizes [OF assms(1) q] by blast
  then have put: "sized (fmt d) (fst (put s (the v', the b') (buffers d))) \<and> sized (fmt d) (snd (put s (the v', the b') (buffers d)))" for s
    using st(2,3) len by (auto simp: put_def sized_def)
  show ?thesis using assms(4) put st(1,4) unfolding producer_pass_def vb len by (auto simp: q dev_inv_def isStarted_def Let_def split: if_splits)
qed

lemma restart_inv:
  assumes "mCameraThread d = Some t" and "checkRestartRequest h t d = (ok, d')" and "dev_inv d"
  shows "dev_inv d'"
proof (cases "mRestartRequested t")
  case None
  then show ?thesis using assms by (simp add: checkRestartRequest_def)
next
  case (Some r)
  let ?d = "d\<lparr>mCameraThread := Some (t\<lparr>mFrameProducer := None, mRestartRequested := None\<rparr>)\<rparr>"
  obtain res1 d1 where 1: "stopDevice h ?d = (res1, d1)" by force
  have d1: "dev_inv d1" "producing d1 = None"
    using stopDevice_inv [OF 1] assms(3) by (auto simp: dev_inv_def producing_def isStarted_def)
  obtain res2 d2 where 2: "startDevice h (mRestartWidth r) (mRestartHeight r) (mRestartPixelFormat r) d1 = (res2, d2)" by force
  show ?thesis using assms(2) Some 1 2 d1 startDevice_inv [OF 2 d1(1)]
    by (auto simp: checkRestartRequest_def Let_def dev_inv_def isStarted_def producing_def split: if_splits)
qed

definition dev_init :: "'p QemuDevice \<Rightarrow> bool" where
  "dev_init d \<longleftrightarrow> mState d = ECDS_CONSTRUCTED \<and> mCameraThread d = None \<and> mQemuClient d = None"

lemma dev_step_inv:
  assumes "dev_step d d'" and "dev_inv d"
  shows "dev_inv d'"
  using assms(1)
proof cases
  case (s_restart t h ok)
  then show ?thesis using restart_inv assms(2) by blast
next
  case (s_produce h t pr wb ok)
  then show ?thesis using producer_pass_inv assms(2) by blast
next
  case (s_start h width height pf res)
  then show ?thesis using startDevice_inv assms(2) by blast
next
  case (s_stop h res)
  then show ?thesis using stopDevice_inv assms(2) by blast
next
  case (s_init opened err name res)
  then show ?thesis using assms(2)
    by (auto simp: device_Initialize_def dev_inv_def isStarted_def isInitialized_def producing_def split: prod.splits if_splits)
next
  case (s_connect h res)
  then show ?thesis using assms(2)
    by (auto simp: connectDevice_def dev_inv_def isStarted_def isConnected_def producing_def split: prod.splits if_splits)
next
  case (s_disconnect h res)
  then show ?thesis using assms(2)
    by (auto simp: disconnectDevice_def dev_inv_def isStarted_def isConnected_def producing_def split: prod.splits if_splits)
next
  case (s_deliver burst res)
  then show ?thesis using assms(2) by (auto simp: startDeliveringFrames_def dev_inv_def isStarted_def split: if_splits)
next
  case (s_undeliver res)
  then show ?thesis using assms(2) by (auto simp: stopDeliveringFrames_def dev_inv_def isStarted_def producing_def split: if_splits)
next
  case (s_request width height pf taking burst ok)
  then show ?thesis using assms(2)
    by (auto simp: requestRestart_def dev_inv_def isStarted_def producing_def split: option.splits)
qed

interpretation qemu_camera: invariant_system dev_init dev_step dev_inv
proof
  show "dev_init d \<Longrightarrow> dev_inv d" for d :: "'a QemuDevice" by (auto simp: dev_init_def dev_inv_def isStarted_def producing_def)
qed (rule dev_step_inv)

text \<open>A pass of the producer with a reply of the host that has both frames and a time.\<close>

lemma producer_frame:
  assumes "dev_inv d" and "mCameraThread d = Some t" and "mFrameProducer t = Some pr"
    and "0 < mFrameBufferSize (fmt d)" and "0 < mTotalPixels (fmt d)"
    and "pipe_duplex (h_write h) (h_read h) inbox outbox" and "mQemuClient d = Some p" and "h_alloc h (3 + length v + length b + 8)"
    and "inbox p = frame (show_padded 16 8) (''ok:'' @ v @ b @ ts) @ rest"
    and "length v = mFrameBufferSize (fmt d)" and "length b = 4 * mTotalPixels (fmt d)" and "length ts = 8" and "length v + length b + 11 < 2 ^ 32"
  shows "\<exists>p'. producer_pass h wb t pr d = (True, d\<lparr>mQemuClient := Some p', buffers := put (\<not> mPrimaryBuffer pr) (v, b) (buffers d),
      mCameraThread := Some (t\<lparr>mFrameProducer := Some (pr\<lparr>mPrimaryBuffer := \<not> mPrimaryBuffer pr, mPrimaryTimestamp := le64_int ts,
        mSecondaryTimestamp := mPrimaryTimestamp pr, mHasFrame := True\<rparr>)\<rparr>)\<rparr>)"
proof -
  have st: "sized (fmt d) (fst (buffers d))" "sized (fmt d) (snd (buffers d))"
    using assms(1-3) by (auto simp: dev_inv_def producing_def)
  obtain raw prev where vb: "pick (\<not> mPrimaryBuffer pr) (buffers d) = (raw, prev)" by force
  have len: "mFrameBufferSize (fmt d) = length raw" "4 * mTotalPixels (fmt d) = length prev"
    using vb st by (auto simp: pick_def sized_def split: if_splits)
  have pos: "0 < length raw" "0 < length prev" using assms(4,5) len by linarith+
  let ?r = "''ok:'' @ v @ b @ ts"
  have data: "reply_data ?r = Some (v @ b @ ts)" using assms(12) by (simp add: reply_data_def)
  have "length ?r = 3 + length v + length b + 8" using assms(12) by simp
  then have r: "length ?r < 2 ^ 32" "h_alloc h (length ?r)" using assms(8,13) by (linarith, metis)
  obtain p' where q: "queryFrame wb (Some raw) (Some prev) (length raw) (length prev) (Some (mSecondaryTimestamp pr)) (h_write h) (h_read h)
      (h_alloc h) (h_errno h) (Some p) = ((NO_ERR, Some v, Some b, Some (le64_int ts)), Some p')"
    using camera_frame_reply [of "h_write h" "h_read h" inbox outbox ?r "h_alloc h" p rest raw prev wb "mSecondaryTimestamp pr" "h_errno h",
        OF assms(6) r assms(9) pos] assms(10,11,12) len data by auto
  show ?thesis unfolding producer_pass_def vb len by (intro exI [of _ p']) (simp add: q assms(7) Let_def)
qed

lemma pick_put [simp]: "pick x (put x y bs) = y"
  by (simp add: pick_def put_def)

text \<open>Property C22: in every reachable state with a running producer, a reply of the host with a video frame, a preview frame and a time is delivered to the
  client of the device byte for byte: after the pass of the producer the current frame is the video frame, the current preview frame the
  preview, both with the time of the host. No copy leaves its buffer when the client's buffers have the sizes of the format.\<close>

theorem host_frame_delivered:
  assumes "dev_init d0" and "dev_step\<^sup>*\<^sup>* d0 d" and "mCameraThread d = Some t" and "mFrameProducer t = Some pr"
    and "0 < mFrameBufferSize (fmt d)" and "0 < mTotalPixels (fmt d)"
    and "pipe_duplex (h_write h) (h_read h) inbox outbox" and "mQemuClient d = Some p" and "h_alloc h (3 + length v + length b + 8)"
    and "inbox p = frame (show_padded 16 8) (''ok:'' @ v @ b @ ts) @ rest"
    and "length v = mFrameBufferSize (fmt d)" and "length b = 4 * mTotalPixels (fmt d)" and "length ts = 8" and "length v + length b + 11 < 2 ^ 32"
    and "length vbuf = length v" and "length pbuf = length b"
  shows "\<exists>d'. producer_pass h wb t pr d = (True, d') \<and>
    getCurrentFrame (Some vbuf) (mPixelFormat (fmt d)) d' = Some (NO_ERR, Some v, le64_int ts) \<and>
    getCurrentPreviewFrame (Some pbuf) d' = Some (NO_ERR, Some b, le64_int ts)"
proof -
  have inv: "dev_inv d" using qemu_camera.reachable_inv [OF assms(1,2)] .
  then have st: "isStarted d" using assms(3,4) by (auto simp: dev_inv_def producing_def)
  let ?d = "\<lambda>p'. d\<lparr>mQemuClient := Some p', buffers := put (\<not> mPrimaryBuffer pr) (v, b) (buffers d),
      mCameraThread := Some (t\<lparr>mFrameProducer := Some (pr\<lparr>mPrimaryBuffer := \<not> mPrimaryBuffer pr, mPrimaryTimestamp := le64_int ts,
        mSecondaryTimestamp := mPrimaryTimestamp pr, mHasFrame := True\<rparr>)\<rparr>)\<rparr>"
  obtain p' where pass: "producer_pass h wb t pr d = (True, ?d p')" using producer_frame [OF inv assms(3-14)] by blast
  have "getCurrentFrame (Some vbuf) (mPixelFormat (fmt d)) (?d p') = Some (NO_ERR, Some v, le64_int ts)"
      "getCurrentPreviewFrame (Some pbuf) (?d p') = Some (NO_ERR, Some b, le64_int ts)"
    using st assms(11,12,15,16)
    by (simp_all add: getCurrentFrame_def getCurrentPreviewFrame_def isStarted_def getCurrentFrameImpl_def copy_bytes_def Let_def)
  then show ?thesis using pass by blast
qed

text \<open>A device that has been started for frames of two by two pixels, with a host that has sent three replies.\<close>

definition example_host :: "(string \<times> string) host" where
  "example_host = \<lparr>h_write = (\<lambda>p xs. (0, (fst p, snd p @ xs))),
     h_read = (\<lambda>p n. if n \<le> length (fst p) then (Some (take n (fst p)), (drop n (fst p), snd p)) else (None, p)),
     h_alloc = (\<lambda>n. True), h_errno = 0\<rparr>"

definition example_reply :: string where
  "example_reply = frame (show_padded 16 8) (''ok:'' @ ''yyyyuv'' @ ''rgbargbargbargba'' @ replicate 8 CHR 0x00) @ ''more''"

definition example_new :: "(string \<times> string) QemuDevice" where
  "example_new = \<lparr>mState = ECDS_CONSTRUCTED, fmt = \<lparr>mFrameWidth = 0, mFrameHeight = 0, mPixelFormat = 0, mTotalPixels = 0, mYStride = 0, mUVStride = 0,
     mFrameBufferSize = 0\<rparr>, buffers = (([], []), ([], [])), mCameraThread = None, mQemuClient = None\<rparr>"

lemma example_duplex: "pipe_duplex (h_write example_host) (h_read example_host) fst snd"
  by (simp add: pipe_duplex_def pipe_reads_def example_host_def)

definition example_ok :: string where
  "example_ok = frame (show_padded 16 8) (''ok'' @ [CHR 0x00])"

lemma example_query:
  assumes "fst p = example_ok @ rest" and "q \<noteq> []"
  obtains p' where "status_query q (h_write example_host) (h_read example_host) (h_alloc example_host) (h_errno example_host) (Some p) = (NO_ERR, Some p')"
    and "fst p' = rest"
proof -
  have "h_alloc example_host 3" by (simp add: example_host_def)
  then show thesis
    using status_query_ok [OF example_duplex, of "h_alloc example_host" p rest q "h_errno example_host"] assms that by (auto simp: example_ok_def)
qed

text \<open>The calls that start the device, on a host that has sent two replies and \<open>rest\<close>.\<close>

lemma example_calls:
  fixes rest :: string
  obtains d1 d2 d3 p where
    "device_Initialize (\<lambda>n. Some (example_ok @ example_ok @ rest, [])) 0 ''webcam0'' example_new = (NO_ERR, d1)"
    and "connectDevice example_host d1 = (NO_ERR, d2)" and "startDevice example_host 2 2 V4L2_PIX_FMT_NV21 d2 = (NO_ERR, d3)"
    and "mState d1 = ECDS_INITIALIZED" and "mState d2 = ECDS_CONNECTED" and "isStarted d3" and "mCameraThread d3 = None"
    and "mFrameBufferSize (fmt d3) = 6" and "mTotalPixels (fmt d3) = 4" and "mPixelFormat (fmt d3) = V4L2_PIX_FMT_NV21"
    and "mQemuClient d3 = Some p" and "fst p = rest"
proof -
  let ?h = example_host and ?p0 = "(example_ok @ example_ok @ rest, [])"
  let ?d1 = "example_new\<lparr>mQemuClient := Some ?p0, mState := ECDS_INITIALIZED\<rparr>"
  have 1: "device_Initialize (\<lambda>n. Some ?p0) 0 ''webcam0'' example_new = (NO_ERR, ?d1)"
    by (simp add: device_Initialize_def connectClient_def example_new_def isInitialized_def)
  obtain p1 where p1: "queryConnect (h_write ?h) (h_read ?h) (h_alloc ?h) (h_errno ?h) (Some ?p0) = (NO_ERR, Some p1)" "fst p1 = example_ok @ rest"
    unfolding queryConnect_def using example_query [of ?p0 "example_ok @ rest" "''connect''"] by auto
  let ?d2 = "?d1\<lparr>mQemuClient := Some p1, mState := ECDS_CONNECTED\<rparr>"
  have 2: "connectDevice ?h ?d1 = (NO_ERR, ?d2)" using p1(1) by (simp add: connectDevice_def isInitialized_def isConnected_def)
  have start: "start_text V4L2_PIX_FMT_NV21 2 2 \<noteq> []" by (simp add: start_text_def snprintf_buf_def)
  obtain p2 where p2: "queryStart V4L2_PIX_FMT_NV21 2 2 (h_write ?h) (h_read ?h) (h_alloc ?h) (h_errno ?h) (Some p1) = (NO_ERR, Some p2)"
      "fst p2 = rest"
    unfolding queryStart_def using example_query [OF p1(2) start] by auto
  let ?f = "\<lparr>mFrameWidth = 2, mFrameHeight = 2, mPixelFormat = V4L2_PIX_FMT_NV21, mTotalPixels = 4, mYStride = 2, mUVStride = 2, mFrameBufferSize = 6\<rparr>"
  have f: "commonStartDevice 2 2 V4L2_PIX_FMT_NV21 = Some ?f" by (simp add: commonStartDevice_def pix_fmt_defs)
  let ?b = "(resize 6 [], resize 16 [])"
  let ?d3 = "?d2\<lparr>fmt := ?f, buffers := (?b, ?b), mQemuClient := Some p2, mState := ECDS_STARTED\<rparr>"
  have 3: "startDevice ?h 2 2 V4L2_PIX_FMT_NV21 ?d2 = (NO_ERR, ?d3)"
    using p2(1) by (simp add: startDevice_def f Let_def isConnected_def isStarted_def example_new_def)
  show thesis
    using that [OF 1 2 3] p2(2) by (simp add: isStarted_def example_new_def)
qed

lemma example_started:
  obtains d p where "dev_step\<^sup>*\<^sup>* example_new d"
    and "mCameraThread d = Some \<lparr>mFrameProducer = Some FrameProducer_new, mRestartRequested = None, mOneBurst = False\<rparr>"
    and "mFrameBufferSize (fmt d) = 6" and "mTotalPixels (fmt d) = 4" and "mPixelFormat (fmt d) = V4L2_PIX_FMT_NV21"
    and "mQemuClient d = Some p" and "fst p = example_reply"
proof -
  obtain d1 d2 d3 p where d: "device_Initialize (\<lambda>n. Some (example_ok @ example_ok @ example_reply, [])) 0 ''webcam0'' example_new = (NO_ERR, d1)"
    "connectDevice example_host d1 = (NO_ERR, d2)" "startDevice example_host 2 2 V4L2_PIX_FMT_NV21 d2 = (NO_ERR, d3)"
    "isStarted d3" "mFrameBufferSize (fmt d3) = 6" "mTotalPixels (fmt d3) = 4" "mPixelFormat (fmt d3) = V4L2_PIX_FMT_NV21"
    "mQemuClient d3 = Some p" "fst p = example_reply"
    by (rule example_calls [of example_reply])
  let ?d4 = "d3\<lparr>mCameraThread := Some \<lparr>mFrameProducer = Some FrameProducer_new, mRestartRequested = None, mOneBurst = False\<rparr>\<rparr>"
  have "startDeliveringFrames False d3 = (NO_ERR, ?d4)" using d(4) by (simp add: startDeliveringFrames_def)
  then have "dev_step\<^sup>*\<^sup>* example_new ?d4"
    using s_init [OF d(1)] s_connect [OF d(2)] s_start [OF d(3)] s_deliver by (meson converse_rtranclp_into_rtranclp rtranclp.rtrancl_refl)
  then show thesis using that [of ?d4 p] d(5-9) by simp
qed

theorem host_frame_delivered_witness:
  "\<exists>d t pr d'. dev_step\<^sup>*\<^sup>* example_new d \<and> producer_pass example_host [] t pr d = (True, d') \<and>
    getCurrentFrame (Some ''......'') V4L2_PIX_FMT_NV21 d' = Some (NO_ERR, Some ''yyyyuv'', le64_int (replicate 8 CHR 0x00)) \<and>
    getCurrentPreviewFrame (Some ''................'') d' = Some (NO_ERR, Some ''rgbargbargbargba'', le64_int (replicate 8 CHR 0x00))"
proof -
  obtain d p where d: "dev_step\<^sup>*\<^sup>* example_new d" "mCameraThread d = Some \<lparr>mFrameProducer = Some FrameProducer_new, mRestartRequested = None, mOneBurst = False\<rparr>"
    "mFrameBufferSize (fmt d) = 6" "mTotalPixels (fmt d) = 4" "mPixelFormat (fmt d) = V4L2_PIX_FMT_NV21" "mQemuClient d = Some p" "fst p = example_reply"
    using example_started .
  have init: "dev_init example_new" by (simp add: dev_init_def example_new_def)
  have alloc: "h_alloc example_host n" for n by (simp add: example_host_def)
  show ?thesis
    using host_frame_delivered [OF init d(1,2) _ _ _ example_duplex d(6) alloc, of FrameProducer_new "''yyyyuv''" "''rgbargbargbargba''" "replicate 8 CHR 0x00"
        "''more''" "''......''" "''................''" "[]"] d
    by (simp add: example_reply_def) blast
qed

end
