(* ===== verification/Camera1.thy ===== *)
theory Camera1
  imports Camera_Qemu_Device C_Scanf "HOL-Library.Sublist"
begin

text \<open>
  The first camera interface on the device of the emulator: \<^verbatim>\<open>camera/EmulatedCamera.cpp\<close>, \<^verbatim>\<open>PreviewWindow.cpp\<close>, \<^verbatim>\<open>CallbackNotifier.cpp\<close>,
  \<^verbatim>\<open>EmulatedQemuCamera.cpp\<close> and the camera thread of \<^verbatim>\<open>EmulatedCameraDevice.cpp\<close>. The parameters of the camera are a class of the
  framework, whose functions are arguments; so are the memory and the buffers that the client hands out and the JPEG compressor. The result
  \<open>None\<close> is a null pointer used, a copy out of bounds, or a division by zero. What is sent to the client is the list \<open>out\<close>.
\<close>

section \<open>Parameters\<close>

definition bad_value :: int where "bad_value = - 22"
definition invalid_operation :: int where "invalid_operation = - 38"
definition unknown_error :: int where "unknown_error = - 2147483648"

definition V4L2_PIX_FMT_RGB32 :: u32 where "V4L2_PIX_FMT_RGB32 = 0x34424752"

text \<open>The class of the parameters: the text of a key, a number (\<open>- 1\<close> when there is none), a size (\<open>- 1\<close> twice when there is none), a fraction, and a change of a
  key.\<close>

record 'c params =
  cp_get :: "'c \<Rightarrow> string \<Rightarrow> string option"
  cp_int :: "'c \<Rightarrow> string \<Rightarrow> int"
  cp_size :: "'c \<Rightarrow> string \<Rightarrow> int \<times> int"
  cp_float :: "'c \<Rightarrow> string \<Rightarrow> rat"
  cp_set :: "string \<Rightarrow> string \<Rightarrow> 'c \<Rightarrow> 'c"

definition GetFourCcFormatFromCameraParam :: "string \<Rightarrow> u32 option" where
  "GetFourCcFormatFromCameraParam fmt_str =
     (if fmt_str = ''yuv420p'' then Some V4L2_PIX_FMT_YVU420
      else if fmt_str = ''rgba8888'' then Some V4L2_PIX_FMT_RGB32
      else if fmt_str = ''yuv420sp'' then Some V4L2_PIX_FMT_NV21
      else None)"

definition kValidFocusModes :: "string list" where
  "kValidFocusModes = [''auto'', ''infinity'', ''macro'', ''fixed'', ''edof'', ''continuous-video'', ''continuous-picture'']"

definition IsValueInList :: "string \<Rightarrow> string list \<Rightarrow> bool" where
  "IsValueInList v xs = list_ex (\<lambda>x. v = x) xs"

text \<open>The parameters that the camera starts with.\<close>

definition initial_parameters :: "(string \<times> string) list" where
  "initial_parameters = [
     (''recording-hint'', ''false''), (''jpeg-thumbnail-size-values'', ''320x240,0x0''), (''jpeg-thumbnail-width'', ''320''),
     (''jpeg-thumbnail-height'', ''240''), (''jpeg-quality'', ''90''), (''focal-length'', ''4.90''), (''horizontal-view-angle'', ''61.0''),
     (''vertical-view-angle'', ''45.8''), (''jpeg-thumbnail-quality'', ''90''),
     (''preview-format-values'', ''yuv420sp,yuv420p,rgba8888''), (''preview-format'', ''yuv420sp''),
     (''preview-frame-rate-values'', ''30,24,20,15,10,5''), (''preview-fps-range-values'', ''(30000,30000)''), (''preview-fps-range'', ''30000,30000''),
     (''preview-frame-rate'', ''30''), (''video-frame-format'', ''yuv420p''), (''picture-format-values'', ''jpeg''), (''picture-format'', ''jpeg''),
     (''max-exposure-compensation'', ''6''), (''min-exposure-compensation'', ''-6''), (''exposure-compensation-step'', ''0.5''),
     (''exposure-compensation'', ''0''), (''whitebalance-values'', ''auto,incandescent,daylight,twilight''), (''whitebalance'', ''auto''),
     (''antibanding-values'', ''auto''), (''antibanding'', ''auto''), (''effect-values'', ''none''), (''effect'', ''none''),
     (''focus-distances'', ''Infinity,Infinity,Infinity''), (''focus-mode-values'', ''fixed''), (''focus-mode'', ''fixed'')]"

section \<open>State\<close>

text \<open>What the client receives: a notification, a video frame with its time, a frame of the preview, a picture, and a buffer of the preview window with its
  time.\<close>

datatype client_event = Ev_notify u32 int | Ev_video int string | Ev_preview string | Ev_jpeg string | Ev_window int string

definition CAMERA_MSG_ERROR :: u32 where "CAMERA_MSG_ERROR = 0x1"
definition CAMERA_MSG_SHUTTER :: u32 where "CAMERA_MSG_SHUTTER = 0x2"
definition CAMERA_MSG_FOCUS :: u32 where "CAMERA_MSG_FOCUS = 0x4"
definition CAMERA_MSG_PREVIEW_FRAME :: u32 where "CAMERA_MSG_PREVIEW_FRAME = 0x10"
definition CAMERA_MSG_VIDEO_FRAME :: u32 where "CAMERA_MSG_VIDEO_FRAME = 0x20"
definition CAMERA_MSG_COMPRESSED_IMAGE :: u32 where "CAMERA_MSG_COMPRESSED_IMAGE = 0x100"
definition CAMERA_MSG_RAW_IMAGE_NOTIFY :: u32 where "CAMERA_MSG_RAW_IMAGE_NOTIFY = 0x200"
definition CAMERA_ERROR_SERVER_DIED :: int where "CAMERA_ERROR_SERVER_DIED = 100"

lemmas msg_defs = CAMERA_MSG_ERROR_def CAMERA_MSG_SHUTTER_def CAMERA_MSG_FOCUS_def CAMERA_MSG_PREVIEW_FRAME_def CAMERA_MSG_VIDEO_FRAME_def
  CAMERA_MSG_COMPRESSED_IMAGE_def CAMERA_MSG_RAW_IMAGE_NOTIFY_def

text \<open>The functions of the client, each set or null.\<close>

record callbacks =
  mNotifyCB :: bool
  mDataCB :: bool
  mDataCBTimestamp :: bool
  mGetMemoryCB :: bool

text \<open>\<open>mCameraMemoryTs\<close> are the addresses of the video frames that the client has not returned, \<open>freed\<close> those that were released.\<close>

record CallbackNotifier =
  cbs :: callbacks
  mLastFrameTimestamp :: int
  mFrameRefreshFreq :: int
  mMessageEnabler :: u32
  mJpegQuality :: int
  mVideoRecEnabled :: bool
  mTakingPicture :: bool
  mCameraMemoryTs :: "nat list"
  freed :: "nat list"

record PreviewWindow =
  mPreviewWindow :: bool
  mPreviewFrameWidth :: nat
  mPreviewFrameHeight :: nat
  mPreviewEnabled :: bool

text \<open>The camera. \<open>mTriggerAutoFocus\<close>, \<open>mFramesPerSecond\<close>, the exposure and the white balance belong to the device; \<open>restarted\<close> says that the camera
  thread waits for the first frame after a restart.\<close>

record ('p, 'c) EmulatedCamera =
  mParameters :: 'c
  win :: PreviewWindow
  notifier :: CallbackNotifier
  dev :: "'p QemuDevice"
  mTriggerAutoFocus :: bool
  mFramesPerSecond :: int
  exposure :: rat
  white_balance :: string
  restarted :: bool
  out :: "client_event list"

definition no_callbacks :: callbacks where
  "no_callbacks = \<lparr>mNotifyCB = False, mDataCB = False, mDataCBTimestamp = False, mGetMemoryCB = False\<rparr>"

definition CallbackNotifier_new :: CallbackNotifier where
  "CallbackNotifier_new = \<lparr>cbs = no_callbacks, mLastFrameTimestamp = 0, mFrameRefreshFreq = 0, mMessageEnabler = 0, mJpegQuality = 90,
     mVideoRecEnabled = False, mTakingPicture = False, mCameraMemoryTs = [], freed = []\<rparr>"

definition PreviewWindow_new :: PreviewWindow where
  "PreviewWindow_new = \<lparr>mPreviewWindow = False, mPreviewFrameWidth = 0, mPreviewFrameHeight = 0, mPreviewEnabled = False\<rparr>"

section \<open>Notifier\<close>

definition setCallbacks :: "callbacks \<Rightarrow> CallbackNotifier \<Rightarrow> CallbackNotifier" where
  "setCallbacks fs n = n\<lparr>cbs := fs\<rparr>"

definition enableMessage :: "u32 \<Rightarrow> CallbackNotifier \<Rightarrow> CallbackNotifier" where
  "enableMessage msg_type n = n\<lparr>mMessageEnabler := mMessageEnabler n OR msg_type\<rparr>"

definition disableMessage :: "u32 \<Rightarrow> CallbackNotifier \<Rightarrow> CallbackNotifier" where
  "disableMessage msg_type n = n\<lparr>mMessageEnabler := mMessageEnabler n AND NOT msg_type\<rparr>"

definition isMessageEnabled :: "u32 \<Rightarrow> CallbackNotifier \<Rightarrow> bool" where
  "isMessageEnabled msg_type n \<longleftrightarrow> mMessageEnabler n AND msg_type \<noteq> 0"

text \<open>C divides towards zero.\<close>

definition enableVideoRecording :: "int \<Rightarrow> CallbackNotifier \<Rightarrow> CallbackNotifier option" where
  "enableVideoRecording fps n =
     (if fps = 0 then None
      else Some (n\<lparr>mVideoRecEnabled := True, mLastFrameTimestamp := 0, mFrameRefreshFreq := sgn fps * (1000000000 div \<bar>fps\<bar>)\<rparr>))"

definition disableVideoRecording :: "CallbackNotifier \<Rightarrow> CallbackNotifier" where
  "disableVideoRecording n = n\<lparr>mVideoRecEnabled := False, mLastFrameTimestamp := 0, mFrameRefreshFreq := 0\<rparr>"

definition releaseRecordingFrame :: "nat \<Rightarrow> CallbackNotifier \<Rightarrow> CallbackNotifier" where
  "releaseRecordingFrame opaque n =
     (if opaque \<in> set (mCameraMemoryTs n)
      then n\<lparr>mCameraMemoryTs := remove1 opaque (mCameraMemoryTs n), freed := freed n @ [opaque]\<rparr> else n)"

definition storeMetaDataInBuffers :: "bool \<Rightarrow> int" where
  "storeMetaDataInBuffers enable = (if enable then invalid_operation else NO_ERR)"

definition cleanupCBNotifier :: "CallbackNotifier \<Rightarrow> CallbackNotifier" where
  "cleanupCBNotifier n = n\<lparr>mMessageEnabler := 0, cbs := no_callbacks, mLastFrameTimestamp := 0, mFrameRefreshFreq := 0, mJpegQuality := 90,
     mVideoRecEnabled := False, mTakingPicture := False\<rparr>"

definition isNewVideoFrameTime :: "int \<Rightarrow> CallbackNotifier \<Rightarrow> bool \<times> CallbackNotifier" where
  "isNewVideoFrameTime timestamp n =
     (if mFrameRefreshFreq n \<le> timestamp - mLastFrameTimestamp n then (True, n\<lparr>mLastFrameTimestamp := timestamp\<rparr>) else (False, n))"

text \<open>What the client's memory function gives for a request (the video frame, the frame of the preview, the picture) of a size: an address and the bytes
  there. And the compressor: a picture for a frame, or none.\<close>

datatype mem_request = Mem_video | Mem_preview | Mem_jpeg

record client =
  get_memory :: "mem_request \<Rightarrow> nat \<Rightarrow> (nat \<times> string) option"
  compressRawImage :: "string \<Rightarrow> nat \<Rightarrow> nat \<Rightarrow> int \<Rightarrow> string option"
  set_usage :: bool                              \<comment> \<open>whether the window's functions succeed\<close>
  set_buffers_geometry :: bool
  dequeue_buffer :: bool
  lock_buffer :: bool
  gbm_lock :: "string option"                    \<comment> \<open>the memory of the buffer\<close>

definition getVideoFrameBufferSize :: "frame_format \<Rightarrow> nat" where
  "getVideoFrameBufferSize f = mFrameWidth f * mFrameHeight f * 12 div 8"

text \<open>Each part of \<^verbatim>\<open>CallbackNotifier::onNextFrameAvailable\<close>: the video frame, whose conversion is not checked, \<dots>\<close>

definition notify_video :: "client \<Rightarrow> int \<Rightarrow> 'p QemuDevice \<Rightarrow> CallbackNotifier \<Rightarrow> (CallbackNotifier \<times> client_event list) option" where
  "notify_video cl timestamp d n =
     (if isMessageEnabled CAMERA_MSG_VIDEO_FRAME n \<and> mVideoRecEnabled n then
        (case isNewVideoFrameTime timestamp n of (new, n) \<Rightarrow>
           if \<not> new then Some (n, [])
           else if \<not> mGetMemoryCB (cbs n) then None
           else (case get_memory cl Mem_video (getVideoFrameBufferSize (fmt d)) of
             None \<Rightarrow> Some (n, [])
           | Some (addr, mem) \<Rightarrow> do {
               (res, buf, ts) \<leftarrow> getCurrentFrame (Some mem) V4L2_PIX_FMT_YUV420 d;
               if \<not> mDataCBTimestamp (cbs n) then None
               else Some (n\<lparr>mCameraMemoryTs := mCameraMemoryTs n @ [addr]\<rparr>, [Ev_video (if ts \<noteq> 0 then ts else timestamp) (the buf)]) }))
      else Some (n, []))"

text \<open>\<dots> the frame of the preview, \<dots>\<close>

definition notify_preview :: "client \<Rightarrow> 'p QemuDevice \<Rightarrow> CallbackNotifier \<Rightarrow> (CallbackNotifier \<times> client_event list) option" where
  "notify_preview cl d n =
     (if isMessageEnabled CAMERA_MSG_PREVIEW_FRAME n then
        if \<not> mGetMemoryCB (cbs n) then None
        else (case get_memory cl Mem_preview (mFrameBufferSize (fmt d)) of
          None \<Rightarrow> Some (n, [])
        | Some (addr, mem) \<Rightarrow> do {
            (res, buf, ts) \<leftarrow> getCurrentFrame (Some mem) (mPixelFormat (fmt d)) d;
            if \<not> mDataCB (cbs n) then None else Some (n, [Ev_preview (the buf)]) })
      else Some (n, []))"

text \<open>\<dots> and the picture, of the frame that the camera thread's producer has. The picture with its thumbnail and other data is the compressor's.\<close>

definition primary_frame :: "'p QemuDevice \<Rightarrow> string option" where
  "primary_frame d = do { t \<leftarrow> mCameraThread d; pr \<leftarrow> mFrameProducer t; Some (fst (pick (mPrimaryBuffer pr) (buffers d))) }"

definition notify_picture :: "client \<Rightarrow> 'p QemuDevice \<Rightarrow> CallbackNotifier \<Rightarrow> (CallbackNotifier \<times> client_event list) option" where
  "notify_picture cl d n =
     (if \<not> mTakingPicture n then Some (n, [])
      else if (isMessageEnabled CAMERA_MSG_SHUTTER n \<or> isMessageEnabled CAMERA_MSG_RAW_IMAGE_NOTIFY n) \<and> \<not> mNotifyCB (cbs n) then None
      else let n = n\<lparr>mTakingPicture := False\<rparr>;
               notes = (if isMessageEnabled CAMERA_MSG_SHUTTER n then [Ev_notify CAMERA_MSG_SHUTTER 0] else []) @
                 (if isMessageEnabled CAMERA_MSG_RAW_IMAGE_NOTIFY n then [Ev_notify CAMERA_MSG_RAW_IMAGE_NOTIFY 0] else []) in
        if \<not> isMessageEnabled CAMERA_MSG_COMPRESSED_IMAGE n then Some (n, notes)
        else do {
          frame \<leftarrow> primary_frame d;
          case compressRawImage cl frame (mFrameWidth (fmt d)) (mFrameHeight (fmt d)) (mJpegQuality n) of
            None \<Rightarrow> Some (n, notes)
          | Some jpeg \<Rightarrow>
              if \<not> mGetMemoryCB (cbs n) then None
              else (case get_memory cl Mem_jpeg (length jpeg) of
                None \<Rightarrow> Some (n, notes)
              | Some (addr, mem) \<Rightarrow> if \<not> mDataCB (cbs n) then None else Some (n, notes @ [Ev_jpeg jpeg])) })"

definition notifier_onNextFrameAvailable :: "client \<Rightarrow> int \<Rightarrow> 'p QemuDevice \<Rightarrow> CallbackNotifier \<Rightarrow> (CallbackNotifier \<times> client_event list) option" where
  "notifier_onNextFrameAvailable cl timestamp d n = do {
     (n, e1) \<leftarrow> notify_video cl timestamp d n;
     (n, e2) \<leftarrow> notify_preview cl d n;
     (n, e3) \<leftarrow> notify_picture cl d n;
     Some (n, e1 @ e2 @ e3) }"

definition notifier_onCameraDeviceError :: "int \<Rightarrow> CallbackNotifier \<Rightarrow> client_event list" where
  "notifier_onCameraDeviceError err n =
     (if isMessageEnabled CAMERA_MSG_ERROR n \<and> mNotifyCB (cbs n) then [Ev_notify CAMERA_MSG_ERROR err] else [])"

definition notifier_autoFocusComplete :: "CallbackNotifier \<Rightarrow> client_event list option" where
  "notifier_autoFocusComplete n = (if mNotifyCB (cbs n) then Some [Ev_notify CAMERA_MSG_FOCUS 1] else None)"

section \<open>Preview window\<close>

definition setPreviewWindow :: "client \<Rightarrow> bool \<Rightarrow> PreviewWindow \<Rightarrow> bool \<times> PreviewWindow" where
  "setPreviewWindow cl window w =
     (let ok = window \<longrightarrow> set_usage cl in
      (ok, w\<lparr>mPreviewFrameWidth := 0, mPreviewFrameHeight := 0, mPreviewWindow := window \<and> ok\<rparr>))"

definition window_startPreview :: "PreviewWindow \<Rightarrow> PreviewWindow" where "window_startPreview w = w\<lparr>mPreviewEnabled := True\<rparr>"
definition window_stopPreview :: "PreviewWindow \<Rightarrow> PreviewWindow" where "window_stopPreview w = w\<lparr>mPreviewEnabled := False\<rparr>"

definition adjustPreviewDimensions :: "frame_format \<Rightarrow> PreviewWindow \<Rightarrow> bool \<times> PreviewWindow" where
  "adjustPreviewDimensions f w =
     (if mPreviewFrameWidth w = mFrameWidth f \<and> mPreviewFrameHeight w = mFrameHeight f then (False, w)
      else (True, w\<lparr>mPreviewFrameWidth := mFrameWidth f, mPreviewFrameHeight := mFrameHeight f\<rparr>))"

definition window_onNextFrameAvailable :: "client \<Rightarrow> int \<Rightarrow> 'p QemuDevice \<Rightarrow> PreviewWindow \<Rightarrow> (PreviewWindow \<times> client_event list) option" where
  "window_onNextFrameAvailable cl timestamp d w =
     (if \<not> mPreviewEnabled w \<or> \<not> mPreviewWindow w then Some (w, [])
      else case adjustPreviewDimensions (fmt d) w of (adjusted, w) \<Rightarrow>
        if adjusted \<and> \<not> set_buffers_geometry cl then Some (w, [])
        else if \<not> dequeue_buffer cl then Some (w, [])
        else if \<not> lock_buffer cl then Some (w, [])
        else case gbm_lock cl of
          None \<Rightarrow> Some (w, [])
        | Some img \<Rightarrow> do {
            (res, buf, ts) \<leftarrow> getCurrentPreviewFrame (Some img) d;
            Some (w, if res = NO_ERR then [Ev_window (if ts \<noteq> 0 then ts else timestamp) (the buf)] else []) })"

section \<open>Camera\<close>

text \<open>\<^verbatim>\<open>EmulatedCamera::Initialize\<close>, which also runs when the camera is closed.\<close>

definition camera_Initialize :: "'c params \<Rightarrow> ('p, 'c) EmulatedCamera \<Rightarrow> ('p, 'c) EmulatedCamera" where
  "camera_Initialize cp c = c\<lparr>mParameters := fold (\<lambda>(k, v). cp_set cp k v) initial_parameters (mParameters c), white_balance := ''auto''\<rparr>"

definition connectCamera :: "'p host \<Rightarrow> ('p, 'c) EmulatedCamera \<Rightarrow> int \<times> ('p, 'c) EmulatedCamera" where
  "connectCamera h c = (case connectDevice h (dev c) of (res, d) \<Rightarrow> (- res, c\<lparr>dev := d\<rparr>))"

definition getConfiguredPixelFormat :: "'c params \<Rightarrow> ('p, 'c) EmulatedCamera \<Rightarrow> u32 option" where
  "getConfiguredPixelFormat cp c =
     (let get = cp_get cp (mParameters c);
          recording = get ''recording-hint'' = Some ''true'' \<or> mVideoRecEnabled (notifier c);
          video_fmt = (if recording then get ''video-frame-format'' else None);
          pix_fmt = (if video_fmt = None then get ''preview-format'' else video_fmt) in
      Option.bind pix_fmt GetFourCcFormatFromCameraParam)"

definition getConfiguredFrameSize :: "'c params \<Rightarrow> 'c \<Rightarrow> (nat \<times> nat) option" where
  "getConfiguredFrameSize cp ps =
     (case cp_size cp ps (if cp_get cp ps ''video-size'' \<noteq> None then ''video-size'' else ''preview-size'') of
        (width, height) \<Rightarrow> if width < 0 \<or> height < 0 then None else Some (nat width, nat height))"

definition setPreviewFrameRate :: "int \<Rightarrow> ('p, 'c) EmulatedCamera \<Rightarrow> ('p, 'c) EmulatedCamera" where
  "setPreviewFrameRate framesPerSecond c = (if framesPerSecond \<le> 0 then c else c\<lparr>mFramesPerSecond := framesPerSecond\<rparr>)"

text \<open>Stopping the frames joins the camera thread, whose wait for a frame ends.\<close>

definition stop_delivery :: "('p, 'c) EmulatedCamera \<Rightarrow> ('p, 'c) EmulatedCamera option" where
  "stop_delivery c = map_option (\<lambda>(res, d). c\<lparr>dev := d, restarted := False\<rparr>) (stopDeliveringFrames (dev c))"

definition stop_device :: "'p host \<Rightarrow> ('p, 'c) EmulatedCamera \<Rightarrow> int \<times> ('p, 'c) EmulatedCamera" where
  "stop_device h c = (case stopDevice h (dev c) of (res, d) \<Rightarrow> (res, c\<lparr>dev := d\<rparr>))"

definition set_enabled :: "bool \<Rightarrow> ('p, 'c) EmulatedCamera \<Rightarrow> ('p, 'c) EmulatedCamera" where
  "set_enabled b c = c\<lparr>win := (if b then window_startPreview (win c) else window_stopPreview (win c))\<rparr>"

text \<open>The start with the device connected: the size, the format and the rate come from the parameters.\<close>

definition start_configured :: "'p host \<Rightarrow> 'c params \<Rightarrow> ('p, 'c) EmulatedCamera \<Rightarrow> int \<times> ('p, 'c) EmulatedCamera" where
  "start_configured h cp c =
     (case getConfiguredFrameSize cp (mParameters c) of
        None \<Rightarrow> (EINVAL, set_enabled False c)
      | Some (width, height) \<Rightarrow>
          (case getConfiguredPixelFormat cp c of
             None \<Rightarrow> (EINVAL, set_enabled False c)
           | Some org_fmt \<Rightarrow>
               let c = setPreviewFrameRate (cp_int cp (mParameters c) ''preview-frame-rate'') c in
               case startDevice h width height org_fmt (dev c) of (res, d) \<Rightarrow>
                 if res \<noteq> NO_ERR then (res, set_enabled False (c\<lparr>dev := d\<rparr>))
                 else case startDeliveringFrames False d of (res, d) \<Rightarrow>
                   if res \<noteq> NO_ERR then (res, set_enabled False (snd (stop_device h (c\<lparr>dev := d\<rparr>)))) else (res, c\<lparr>dev := d\<rparr>)))"

definition doStartPreview :: "'p host \<Rightarrow> 'c params \<Rightarrow> ('p, 'c) EmulatedCamera \<Rightarrow> (int \<times> ('p, 'c) EmulatedCamera) option" where
  "doStartPreview h cp c = do {
     c \<leftarrow> (if isStarted (dev c) then map_option (\<lambda>c. snd (stop_device h c)) (stop_delivery c) else Some c);
     (case (if isConnected (dev c) then (NO_ERR, dev c) else connectDevice h (dev c)) of (res, d) \<Rightarrow>
        let c = (set_enabled True c)\<lparr>dev := d\<rparr> in
        Some (if res \<noteq> NO_ERR then (res, set_enabled False c) else start_configured h cp c)) }"

definition doStopPreview :: "'p host \<Rightarrow> ('p, 'c) EmulatedCamera \<Rightarrow> (int \<times> ('p, 'c) EmulatedCamera) option" where
  "doStopPreview h c =
     (if \<not> mPreviewEnabled (win c) then Some (NO_ERR, c)
      else if isStarted (dev c) then do {
        c \<leftarrow> stop_delivery c;
        Some (case stop_device h c of (res, c) \<Rightarrow> (NO_ERR, if res = NO_ERR then set_enabled False c else c)) }
      else Some (NO_ERR, set_enabled False c))"

definition startPreview :: "'p host \<Rightarrow> 'c params \<Rightarrow> ('p, 'c) EmulatedCamera \<Rightarrow> (int \<times> ('p, 'c) EmulatedCamera) option" where
  "startPreview h cp c = map_option (\<lambda>(res, c). (- res, c)) (doStartPreview h cp c)"

definition stopPreview :: "'p host \<Rightarrow> client \<Rightarrow> ('p, 'c) EmulatedCamera \<Rightarrow> ('p, 'c) EmulatedCamera option" where
  "stopPreview h cl c = map_option snd (doStopPreview h (c\<lparr>win := snd (setPreviewWindow cl False (win c))\<rparr>))"

definition stopRecording :: "('p, 'c) EmulatedCamera \<Rightarrow> ('p, 'c) EmulatedCamera" where
  "stopRecording c = c\<lparr>notifier := disableVideoRecording (notifier c)\<rparr>"

definition startRecording :: "'c params \<Rightarrow> ('p, 'c) EmulatedCamera \<Rightarrow> (int \<times> ('p, 'c) EmulatedCamera) option" where
  "startRecording cp c =
     (if \<not> mPreviewEnabled (win c) then Some (invalid_operation, c)
      else do {
        n \<leftarrow> enableVideoRecording (cp_int cp (mParameters c) ''preview-frame-rate'') (notifier c);
        let c = c\<lparr>notifier := n\<rparr>;
        if \<not> isStarted (dev c) then Some (NO_ERR, c)
        else (case (getConfiguredPixelFormat cp c, getConfiguredFrameSize cp (mParameters c)) of
          (Some conf_fmt, Some (conf_width, conf_height)) \<Rightarrow>
            if mPixelFormat (fmt (dev c)) \<noteq> conf_fmt \<or> mFrameWidth (fmt (dev c)) \<noteq> conf_width \<or> mFrameHeight (fmt (dev c)) \<noteq> conf_height
            then (case requestRestart conf_width conf_height conf_fmt False False (dev c) of (ok, d) \<Rightarrow>
              if ok then Some (NO_ERR, c\<lparr>dev := d\<rparr>) else Some (- EINVAL, stopRecording (c\<lparr>dev := d\<rparr>)))
            else Some (NO_ERR, c)
        | _ \<Rightarrow> Some (- EINVAL, stopRecording c)) })"

definition setAutoFocus :: "('p, 'c) EmulatedCamera \<Rightarrow> int \<times> ('p, 'c) EmulatedCamera" where
  "setAutoFocus c =
     (if \<not> mPreviewEnabled (win c) then (EINVAL, c)
      else if isStarted (dev c) then (NO_ERR, c\<lparr>mTriggerAutoFocus := True\<rparr>) else (EINVAL, c))"

definition cancelAutoFocus :: "('p, 'c) EmulatedCamera \<Rightarrow> int \<times> ('p, 'c) EmulatedCamera" where
  "cancelAutoFocus c = (if isStarted (dev c) then (NO_ERR, c\<lparr>mTriggerAutoFocus := False\<rparr>) else (EINVAL, c))"

text \<open>Taking a picture: the size of the picture is set and not negative. A format that is missing is a null pointer.\<close>

definition takePicture :: "'c params \<Rightarrow> ('p, 'c) EmulatedCamera \<Rightarrow> (int \<times> ('p, 'c) EmulatedCamera) option" where
  "takePicture cp c =
     (case cp_size cp (mParameters c) ''picture-size'' of (width, height) \<Rightarrow> do {
        pix_fmt \<leftarrow> cp_get cp (mParameters c) ''picture-format'';
        (case (case GetFourCcFormatFromCameraParam pix_fmt of Some f \<Rightarrow> Some f
                | None \<Rightarrow> if pix_fmt = ''jpeg'' then Some V4L2_PIX_FMT_NV21 else None) of
           None \<Rightarrow> Some (EINVAL, c)
         | Some org_fmt \<Rightarrow>
             (let q = cp_int cp (mParameters c) ''jpeg-quality'';
                  c = c\<lparr>notifier := (notifier c)\<lparr>mJpegQuality := (if q \<le> 0 then 90 else q)\<rparr>\<rparr> in
              if mPreviewEnabled (win c) then
                (case requestRestart (nat width) (nat height) org_fmt True True (dev c) of (ok, d) \<Rightarrow>
                   let c = (set_enabled False c)\<lparr>dev := d\<rparr> in Some (if ok then NO_ERR else unknown_error, c))
              else Some (EINVAL, c))) })"

text \<open>The parts of \<^verbatim>\<open>setParameters\<close>: exposure and white balance, the checks, and whether the preview restarts.\<close>

definition set_exposure :: "'c params \<Rightarrow> 'c \<Rightarrow> ('p, 'c) EmulatedCamera \<Rightarrow> ('p, 'c) EmulatedCamera" where
  "set_exposure cp np c =
     (let v = cp_int cp np ''exposure-compensation''; lo = cp_int cp np ''min-exposure-compensation''; hi = cp_int cp np ''max-exposure-compensation'' in
      if lo \<noteq> 0 \<or> hi \<noteq> 0 then
        (let v = (if v > hi then hi else v); v = (if v < lo then lo else v) in
         if cp_int cp (mParameters c) ''exposure-compensation'' \<noteq> v
         then c\<lparr>exposure := of_int v * cp_float cp np ''exposure-compensation-step''\<rparr> else c)
      else c)"

definition set_white_balance :: "'c params \<Rightarrow> 'c \<Rightarrow> ('p, 'c) EmulatedCamera \<Rightarrow> ('p, 'c) EmulatedCamera" where
  "set_white_balance cp np c =
     (case (cp_get cp np ''whitebalance-values'', cp_get cp np ''whitebalance'') of
        (Some supported, Some new) \<Rightarrow>
          if sublist new supported \<and> cp_get cp (mParameters c) ''whitebalance'' \<noteq> Some new then c\<lparr>white_balance := new\<rparr> else c
      | _ \<Rightarrow> c)"

text \<open>\<open>None\<close>: a number in the range that does not fit an \<^verbatim>\<open>int\<close>.\<close>

definition valid_fps_range :: "string \<Rightarrow> bool option" where
  "valid_fps_range text =
     (case sscanf [Conv_d None, Lit CHR '','', Conv_d None] (snprintf_buf 1024 text) of
        None \<Rightarrow> None
      | Some [Int_val low, Int_val high] \<Rightarrow> Some (\<not> (low < 0 \<or> high < 0) \<and> \<not> low > high)
      | Some _ \<Rightarrow> Some False)"

definition valid_parameters :: "'c params \<Rightarrow> 'c \<Rightarrow> bool option" where
  "valid_parameters cp np = do {
     fps \<leftarrow> (case cp_get cp np ''preview-fps-range'' of None \<Rightarrow> Some True | Some text \<Rightarrow> valid_fps_range text);
     Some (fps \<and> (case cp_get cp np ''focus-mode'' of None \<Rightarrow> True | Some mode \<Rightarrow> IsValueInList mode kValidFocusModes) \<and>
       (case cp_size cp np ''preview-size'' of (width, height) \<Rightarrow> \<not> (width < 0 \<or> height < 0))) }"

definition needs_restart :: "'c params \<Rightarrow> 'c \<Rightarrow> 'c \<Rightarrow> bool" where
  "needs_restart cp old new \<longleftrightarrow>
     cp_size cp old ''preview-size'' \<noteq> cp_size cp new ''preview-size'' \<or> cp_size cp old ''video-size'' \<noteq> cp_size cp new ''video-size'' \<or>
     cp_get cp old ''preview-format'' \<noteq> cp_get cp new ''preview-format'' \<or> cp_get cp old ''recording-hint'' \<noteq> cp_get cp new ''recording-hint''"

definition setParameters :: "'p host \<Rightarrow> 'c params \<Rightarrow> 'c \<Rightarrow> ('p, 'c) EmulatedCamera \<Rightarrow> (int \<times> ('p, 'c) EmulatedCamera) option" where
  "setParameters h cp np c =
     (let c = set_white_balance cp np (set_exposure cp np c);
          rate = cp_int cp np ''preview-frame-rate'';
          c = (if cp_int cp (mParameters c) ''preview-frame-rate'' \<noteq> rate then setPreviewFrameRate rate c else c) in
      do {
        ok \<leftarrow> valid_parameters cp np;
        if \<not> ok then Some (bad_value, c)
        else let restart = needs_restart cp (mParameters c) np; c = c\<lparr>mParameters := np\<rparr> in
          if restart \<and> mPreviewEnabled (win c) then do { (_, c) \<leftarrow> doStopPreview h c; doStartPreview h cp c }
          else Some (NO_ERR, c) })"

definition sendCommand :: "nat \<Rightarrow> int" where
  "sendCommand cmd = (if cmd = 6 \<or> cmd = 7 then bad_value else 0)"

text \<open>Closing the camera.\<close>

definition cleanupCamera :: "'p host \<Rightarrow> 'c params \<Rightarrow> ('p, 'c) EmulatedCamera \<Rightarrow> (int \<times> ('p, 'c) EmulatedCamera) option" where
  "cleanupCamera h cp c = do {
     (_, c) \<leftarrow> doStopPreview h c;
     (res, c) \<leftarrow> (if isStarted (dev c) then map_option (stop_device h) (stop_delivery c) else Some (NO_ERR, c));
     if res \<noteq> NO_ERR then Some (- res, c)
     else Some (case (if isConnected (dev c) then disconnectDevice h (dev c) else (NO_ERR, dev c)) of (res, d) \<Rightarrow>
       if res \<noteq> NO_ERR then (- res, c\<lparr>dev := d\<rparr>)
       else (NO_ERR, camera_Initialize cp (c\<lparr>dev := d, notifier := cleanupCBNotifier (notifier c)\<rparr>))) }"

section \<open>Camera thread\<close>

text \<open>Sending to the client, and the end of the camera thread, which also ends its producer.\<close>

definition emit :: "client_event list \<Rightarrow> ('p, 'c) EmulatedCamera \<Rightarrow> ('p, 'c) EmulatedCamera" where
  "emit es c = c\<lparr>out := out c @ es\<rparr>"

definition onThreadExit :: "('p, 'c) EmulatedCamera \<Rightarrow> ('p, 'c) EmulatedCamera" where
  "onThreadExit c =
     (case mCameraThread (dev c) of
        None \<Rightarrow> c\<lparr>restarted := False\<rparr>
      | Some t \<Rightarrow> c\<lparr>dev := (dev c)\<lparr>mCameraThread := Some (t\<lparr>mFrameProducer := None\<rparr>)\<rparr>, restarted := False\<rparr>)"

text \<open>After the wait and the restart: the focus, the window, the notifier, and the end of a burst.\<close>

definition thread_deliver :: "client \<Rightarrow> int \<Rightarrow> ('p, 'c) EmulatedCamera \<Rightarrow> ('p, 'c) EmulatedCamera option" where
  "thread_deliver cl now c = do {
     focus \<leftarrow> (if mTriggerAutoFocus c then notifier_autoFocusComplete (notifier c) else Some []);
     (w, e1) \<leftarrow> window_onNextFrameAvailable cl now (dev c) (win c);
     (n, e2) \<leftarrow> notifier_onNextFrameAvailable cl now (dev c) (notifier c);
     t \<leftarrow> mCameraThread (dev c);
     let c = (emit (focus @ e1 @ e2) c)\<lparr>mTriggerAutoFocus := False, win := w, notifier := n, restarted := False\<rparr>;
     Some (if mOneBurst t then onThreadExit c else c) }"

text \<open>A pass of the camera thread that finds a frame: a restart that was asked for is done and the thread waits for the first frame, or it delivers. A pass
  after a restart delivers. A restart that fails is reported and ends the thread.\<close>

definition thread_pass :: "'p host \<Rightarrow> client \<Rightarrow> int \<Rightarrow> ('p, 'c) EmulatedCamera \<Rightarrow> ('p, 'c) EmulatedCamera option" where
  "thread_pass h cl now c = do {
     t \<leftarrow> mCameraThread (dev c);
     case mRestartRequested t of
       Some r \<Rightarrow>
         if restarted c then thread_deliver cl now c
         else (case checkRestartRequest h t (dev c) of (ok, d) \<Rightarrow>
           let c = c\<lparr>dev := d\<rparr> in
           if ok then Some (c\<lparr>restarted := True, notifier := (notifier c)\<lparr>mTakingPicture := mRestartTakingPicture r \<or> mTakingPicture (notifier c)\<rparr>\<rparr>)
           else Some (onThreadExit (emit (notifier_onCameraDeviceError CAMERA_ERROR_SERVER_DIED (notifier c)) c)))
     | None \<Rightarrow> thread_deliver cl now c }"

text \<open>A pass of the producer; a frame that the host does not give is an error.\<close>

definition producer_step :: "'p host \<Rightarrow> string \<Rightarrow> CameraThread \<Rightarrow> FrameProducer \<Rightarrow> ('p, 'c) EmulatedCamera \<Rightarrow> ('p, 'c) EmulatedCamera" where
  "producer_step h wb t pr c =
     (case producer_pass h wb t pr (dev c) of (ok, d) \<Rightarrow>
        emit (if ok then [] else notifier_onCameraDeviceError CAMERA_ERROR_SERVER_DIED (notifier c)) (c\<lparr>dev := d\<rparr>))"

section \<open>Resolutions of the emulator's camera\<close>

text \<open>\<^verbatim>\<open>EmulatedQemuCamera::Initialize\<close>: the entries of the list that are two numbers, and of those the ones that fit the resolution with the largest
  area. \<open>None\<close> is a number or an area that does not fit an \<^verbatim>\<open>int\<close>.\<close>

fun split_commas :: "string \<Rightarrow> string \<Rightarrow> string list" where
  "split_commas acc [] = (if acc = [] then [] else [rev acc])"
| "split_commas acc (x # xs) = (if x = CHR '','' then rev acc # split_commas [] xs else split_commas (x # acc) xs)"

definition parse_resolution :: "string \<Rightarrow> (int \<times> int) option option" where
  "parse_resolution text =
     (case sscanf [Conv_d None, Lit CHR ''x'', Conv_d None, Conv_c] text of
        None \<Rightarrow> None
      | Some [Int_val w, Int_val h] \<Rightarrow> Some (Some (w, h))
      | Some _ \<Rightarrow> Some None)"

fun parse_resolutions :: "string list \<Rightarrow> (int \<times> int) list option" where
  "parse_resolutions [] = Some []"
| "parse_resolutions (x # xs) = do {
     r \<leftarrow> parse_resolution x;
     rs \<leftarrow> parse_resolutions xs;
     Some (case r of None \<Rightarrow> rs | Some wh \<Rightarrow> wh # rs) }"

text \<open>The loop over the resolutions, with the largest area so far and its width and height.\<close>

fun max_area :: "int \<times> int \<times> int \<Rightarrow> (int \<times> int) list \<Rightarrow> (int \<times> int \<times> int) option" where
  "max_area m [] = Some m"
| "max_area (a, w, h) ((x, y) # rs) =
     (if \<not> int32 (x * y) then None else max_area (if x * y > a then (x * y, x, y) else (a, w, h)) rs)"

definition usable_resolutions :: "(int \<times> int) list \<Rightarrow> (int \<times> int) list option" where
  "usable_resolutions rs = map_option (\<lambda>(a, w, h). filter (\<lambda>(x, y). \<not> (x > w \<or> y > h)) rs) (max_area (0, 0, 0) rs)"

definition qemu_camera_resolutions :: "string \<Rightarrow> (int \<times> int) list option" where
  "qemu_camera_resolutions frame_dims = Option.bind (parse_resolutions (split_commas [] (c_str frame_dims))) usable_resolutions"

end
