(* ===== verification/Camera1_Props.thy ===== *)
theory Camera1_Props
  imports Camera1
begin

text \<open>
  What holds of the first camera interface: the state of the device over all calls and passes of the threads, the frames that reach the client, the
  picture, and the resolutions of the emulator's camera.
\<close>

section \<open>Reachable states\<close>

text \<open>The formats that the camera asks its device for.\<close>

definition camera_format :: "u32 \<Rightarrow> bool" where
  "camera_format f \<longleftrightarrow> f = V4L2_PIX_FMT_YVU420 \<or> f = V4L2_PIX_FMT_NV21 \<or> f = V4L2_PIX_FMT_RGB32"

lemma fourcc_format: "GetFourCcFormatFromCameraParam s = Some f \<Longrightarrow> camera_format f"
  by (auto simp: GetFourCcFormatFromCameraParam_def camera_format_def split: if_splits)

lemma configured_format: "getConfiguredPixelFormat cp c = Some f \<Longrightarrow> camera_format f"
  by (auto simp: getConfiguredPixelFormat_def Let_def bind_eq_Some_conv dest: fourcc_format)

text \<open>The device is in order, its format and that of a pending restart are ones of the camera, and a thread that waits after a restart has a producer.\<close>

definition dev_ok :: "'p QemuDevice \<Rightarrow> bool" where
  "dev_ok d \<longleftrightarrow> dev_inv d \<and> (isStarted d \<longrightarrow> camera_format (mPixelFormat (fmt d))) \<and>
     (\<forall>t r. mCameraThread d = Some t \<longrightarrow> mRestartRequested t = Some r \<longrightarrow> camera_format (mRestartPixelFormat r))"

definition cam1_inv :: "('p, 'c) EmulatedCamera \<Rightarrow> bool" where
  "cam1_inv c \<longleftrightarrow> dev_ok (dev c)"

lemma stopDevice_ok: "stopDevice h d = (res, d') \<Longrightarrow> dev_ok d \<Longrightarrow> producing d = None \<Longrightarrow> dev_ok d' \<and> producing d' = None"
  using stopDevice_inv [of h d res d']
  by (auto simp: dev_ok_def stopDevice_def isStarted_def split: if_splits prod.splits)

lemma startDevice_ok:
  assumes "startDevice h w ht pf d = (res, d')" and "dev_ok d" and "camera_format pf"
  shows "dev_ok d' \<and> mCameraThread d' = mCameraThread d \<and> (res = NO_ERR \<longrightarrow> isStarted d')"
proof -
  have "dev_inv d" using assms(2) by (simp add: dev_ok_def)
  note inv = startDevice_inv [OF assms(1) this]
  have "isStarted d' \<longrightarrow> camera_format (mPixelFormat (fmt d'))"
    using assms commonStartDevice_fields [of w ht pf]
    by (auto simp: startDevice_def Let_def dev_ok_def isStarted_def split: if_splits option.splits prod.splits)
  with inv assms(2) show ?thesis by (simp add: dev_ok_def)
qed

lemma connectDevice_ok: "connectDevice h d = (res, d') \<Longrightarrow> dev_ok d \<Longrightarrow> dev_ok d'"
  using dev_step_inv [OF s_connect, of h d res d']
  by (auto simp: dev_ok_def connectDevice_def isStarted_def isConnected_def split: if_splits prod.splits)

lemma disconnectDevice_ok: "disconnectDevice h d = (res, d') \<Longrightarrow> dev_ok d \<Longrightarrow> dev_ok d'"
  using dev_step_inv [OF s_disconnect, of h d res d']
  by (auto simp: dev_ok_def disconnectDevice_def isStarted_def isConnected_def split: if_splits prod.splits)

lemma stopDelivering_ok:
  "stopDeliveringFrames d = Some (res, d') \<Longrightarrow> dev_ok d \<Longrightarrow> dev_ok d' \<and> (isStarted d \<longrightarrow> producing d' = None)"
  using dev_step_inv [OF s_undeliver, of d res d']
  by (auto simp: dev_ok_def stopDeliveringFrames_def isStarted_def producing_def split: if_splits)

lemma startDelivering_ok: "startDeliveringFrames b d = (res, d') \<Longrightarrow> dev_ok d \<Longrightarrow> dev_ok d'"
  using dev_step_inv [OF s_deliver, of b d res d']
  by (auto simp: dev_ok_def startDeliveringFrames_def isStarted_def split: if_splits)

lemma requestRestart_ok: "requestRestart w h pf tk b d = (ok, d') \<Longrightarrow> dev_ok d \<Longrightarrow> camera_format pf \<Longrightarrow> dev_ok d'"
  using dev_step_inv [OF s_request, of w h pf tk b d ok d']
  by (auto simp: dev_ok_def requestRestart_def isStarted_def split: option.splits)

lemma device_Initialize_ok: "device_Initialize opened err name d = (res, d') \<Longrightarrow> dev_ok d \<Longrightarrow> dev_ok d'"
  using dev_step_inv [OF s_init, of opened err name d res d']
  by (auto simp: dev_ok_def device_Initialize_def isStarted_def isInitialized_def split: if_splits prod.splits)

lemma checkRestart_ok:
  assumes "mCameraThread d = Some t" and "checkRestartRequest h t d = (ok, d')" and "dev_ok d"
  shows "dev_ok d'"
proof (cases "mRestartRequested t")
  case None
  then show ?thesis using assms by (simp add: checkRestartRequest_def)
next
  case (Some r)
  let ?d = "d\<lparr>mCameraThread := Some (t\<lparr>mFrameProducer := None, mRestartRequested := None\<rparr>)\<rparr>"
  have d: "dev_ok ?d" "producing ?d = None"
    using assms(3) by (auto simp: dev_ok_def dev_inv_def producing_def isStarted_def)
  have pf: "camera_format (mRestartPixelFormat r)" using assms(1,3) Some by (simp add: dev_ok_def)
  obtain res1 d1 where 1: "stopDevice h ?d = (res1, d1)" by force
  note d1 = stopDevice_ok [OF 1 d]
  obtain res2 d2 where 2: "startDevice h (mRestartWidth r) (mRestartHeight r) (mRestartPixelFormat r) d1 = (res2, d2)" by force
  note d2 = startDevice_ok [OF 2 _ pf]
  show ?thesis using assms(2) Some 1 2 d1 d2
    by (auto simp: checkRestartRequest_def Let_def dev_ok_def dev_inv_def isStarted_def producing_def split: if_splits)
qed

lemma producer_pass_ok:
  assumes "reads_exact (h_read h)" and "mCameraThread d = Some t" and "mFrameProducer t = Some pr" and "producer_pass h wb t pr d = (ok, d')"
    and "dev_ok d"
  shows "dev_ok d'"
proof -
  have "dev_inv d'" using producer_pass_inv [OF assms(1-4)] assms(5) by (simp add: dev_ok_def)
  then show ?thesis using assms(2,4,5)
    by (auto simp: dev_ok_def producer_pass_def isStarted_def Let_def split: prod.splits if_splits)
qed

section \<open>Calls\<close>

lemma stop_delivery_ok: "stop_delivery c = Some c' \<Longrightarrow> dev_ok (dev c) \<Longrightarrow> dev_ok (dev c') \<and> (isStarted (dev c) \<longrightarrow> producing (dev c') = None)"
  by (auto simp: stop_delivery_def dest!: stopDelivering_ok)

lemma stop_device_ok: "stop_device h c = (res, c') \<Longrightarrow> dev_ok (dev c) \<Longrightarrow> producing (dev c) = None \<Longrightarrow> dev_ok (dev c')"
  by (auto simp: stop_device_def dest: stopDevice_ok split: prod.splits)

lemma dev_of_simple [simp]:
  "dev (set_enabled b c) = dev c" "dev (setPreviewFrameRate r c) = dev c" "dev (stopRecording c) = dev c" "dev (camera_Initialize cp c) = dev c"
  "dev (set_exposure cp np c) = dev c" "dev (set_white_balance cp np c) = dev c" "dev (emit es c) = dev c"
  by (auto simp: set_enabled_def setPreviewFrameRate_def stopRecording_def camera_Initialize_def set_exposure_def set_white_balance_def emit_def Let_def
      split: option.splits)

lemma stop_both_ok:
  "stop_delivery c = Some c1 \<Longrightarrow> stop_device h c1 = (res, c2) \<Longrightarrow> isStarted (dev c) \<Longrightarrow> dev_ok (dev c) \<Longrightarrow> dev_ok (dev c2)"
  using stop_delivery_ok [of c c1] stop_device_ok [of h c1 res c2] by blast

lemma doStopPreview_ok:
  assumes "doStopPreview h c = Some (res, c')" and "dev_ok (dev c)"
  shows "dev_ok (dev c')"
proof (cases "mPreviewEnabled (win c) \<and> isStarted (dev c)")
  case True
  then obtain c1 where 1: "stop_delivery c = Some c1" using assms(1) by (auto simp: doStopPreview_def bind_eq_Some_conv)
  obtain r c2 where 2: "stop_device h c1 = (r, c2)" by force
  have "dev_ok (dev c2)" using stop_both_ok [OF 1 2] True assms(2) by blast
  then show ?thesis using assms(1) True 1 2 by (auto simp: doStopPreview_def)
qed (use assms in \<open>auto simp: doStopPreview_def split: if_splits\<close>)

lemma start_configured_ok:
  assumes "start_configured h cp c = (res, c')" and "dev_ok (dev c)"
  shows "dev_ok (dev c')"
proof (cases "getConfiguredFrameSize cp (mParameters c) = None \<or> getConfiguredPixelFormat cp c = None")
  case True
  then show ?thesis using assms by (auto simp: start_configured_def split: option.splits)
next
  case False
  then obtain w ht pf where cf: "getConfiguredFrameSize cp (mParameters c) = Some (w, ht)" "getConfiguredPixelFormat cp c = Some pf" by (metis option.exhaust prod.exhaust)
  obtain r3 d3 where 3: "startDevice h w ht pf (dev c) = (r3, d3)" by force
  obtain r4 d4 where 4: "startDeliveringFrames False d3 = (r4, d4)" by force
  note ok = startDevice_ok [OF 3 assms(2) configured_format [OF cf(2)]]
  have "r3 = NO_ERR \<Longrightarrow> r4 = NO_ERR" using ok 4 by (simp add: startDeliveringFrames_def)
  then show ?thesis using assms(1) cf 3 4 ok startDelivering_ok [OF 4] by (auto simp: start_configured_def Let_def split: if_splits)
qed

lemma doStartPreview_ok:
  assumes "doStartPreview h cp c = Some (res, c')" and "dev_ok (dev c)"
  shows "dev_ok (dev c')"
proof -
  obtain c1 where c1: "(if isStarted (dev c) then map_option (\<lambda>c. snd (stop_device h c)) (stop_delivery c) else Some c) = Some c1"
    using assms(1) by (auto simp: doStartPreview_def bind_eq_Some_conv)
  have ok1: "dev_ok (dev c1)"
    using c1 assms(2) by (auto split: if_splits dest: stop_both_ok [OF _ surjective_pairing])
  obtain res2 d2 where c2: "(if isConnected (dev c1) then (NO_ERR, dev c1) else connectDevice h (dev c1)) = (res2, d2)" by force
  have ok2: "dev_ok d2" using c2 ok1 by (auto split: if_splits dest: connectDevice_ok)
  show ?thesis
    using assms(1) c1 c2 ok2 start_configured_ok [of h cp "(set_enabled True c1)\<lparr>dev := d2\<rparr>" res c']
    by (auto simp: doStartPreview_def Let_def split: if_splits)
qed

lemma startRecording_ok: "startRecording cp c = Some (res, c') \<Longrightarrow> dev_ok (dev c) \<Longrightarrow> dev_ok (dev c')"
  by (auto simp: startRecording_def bind_eq_Some_conv Let_def dest: requestRestart_ok configured_format split: if_splits option.splits prod.splits)

lemma takePicture_ok: "takePicture cp c = Some (res, c') \<Longrightarrow> dev_ok (dev c) \<Longrightarrow> dev_ok (dev c')"
  by (auto simp: takePicture_def bind_eq_Some_conv Let_def camera_format_def dest: fourcc_format elim!: requestRestart_ok
      split: if_splits option.splits prod.splits)

lemma setParameters_ok: "setParameters h cp np c = Some (res, c') \<Longrightarrow> dev_ok (dev c) \<Longrightarrow> dev_ok (dev c')"
  by (auto simp: setParameters_def bind_eq_Some_conv Let_def elim!: doStartPreview_ok doStopPreview_ok split: if_splits)

lemma cleanupCamera_ok:
  assumes "cleanupCamera h cp c = Some (res, c')" and "dev_ok (dev c)"
  shows "dev_ok (dev c')"
proof -
  obtain r0 c0 r1 c1 where 0: "doStopPreview h c = Some (r0, c0)"
    and 1: "(if isStarted (dev c0) then map_option (stop_device h) (stop_delivery c0) else Some (NO_ERR, c0)) = Some (r1, c1)"
    using assms(1) by (auto simp: cleanupCamera_def bind_eq_Some_conv)
  have "dev_ok (dev c0)" using doStopPreview_ok [OF 0 assms(2)] .
  then have ok1: "dev_ok (dev c1)" using 1 by (auto split: if_splits dest: stop_both_ok)
  obtain r2 d2 where 2: "(if isConnected (dev c1) then disconnectDevice h (dev c1) else (NO_ERR, dev c1)) = (r2, d2)" by force
  have "dev_ok d2" using 2 ok1 by (auto split: if_splits dest: disconnectDevice_ok)
  then show ?thesis using assms(1) 0 1 2 ok1 by (auto simp: cleanupCamera_def split: if_splits)
qed

section \<open>Frames\<close>

text \<open>The client's memory has the sizes that are asked for, and all its functions are set.\<close>

definition client_ok :: "client \<Rightarrow> 'p QemuDevice \<Rightarrow> CallbackNotifier \<Rightarrow> bool" where
  "client_ok cl d n \<longleftrightarrow>
     mNotifyCB (cbs n) \<and> mDataCB (cbs n) \<and> mDataCBTimestamp (cbs n) \<and> mGetMemoryCB (cbs n) \<and>
     (\<forall>r k a mem. get_memory cl r k = Some (a, mem) \<longrightarrow> length mem = k) \<and>
     (\<forall>img. gbm_lock cl = Some img \<longrightarrow> length img = 4 * mTotalPixels (fmt d))"

lemma video_room: "w * h + 2 * ((w div 2) * (h div 2)) \<le> w * h * 12 div (8 :: nat)"
proof -
  have "(w div 2 * 2) * (h div 2 * 2) \<le> w * h" by (intro mult_le_mono) auto
  then have "4 * ((w div 2) * (h div 2)) \<le> w * h" by (simp add: ac_simps)
  then show ?thesis by presburger
qed

text \<open>A running producer of a device that is in order: the buffers have the sizes of the format.\<close>

lemma producing_buffers:
  assumes "dev_ok d" and "producing d = Some pr"
  shows "isStarted d" and "commonStartDevice (mFrameWidth (fmt d)) (mFrameHeight (fmt d)) (mPixelFormat (fmt d)) = Some (fmt d)"
    and "length (fst (pick b (buffers d))) = mFrameBufferSize (fmt d)" and "length (snd (pick b (buffers d))) = 4 * mTotalPixels (fmt d)"
    and "camera_format (mPixelFormat (fmt d))"
  using assms by (auto simp: dev_ok_def dev_inv_def sized_def pick_def)

lemma producing_thread: "producing d = Some pr \<longleftrightarrow> (\<exists>t. mCameraThread d = Some t \<and> mFrameProducer t = Some pr)"
  by (auto simp: producing_def bind_eq_Some_conv)

lemma preview_frame_copied:
  assumes "dev_ok d" and "producing d = Some pr" and "length mem = mFrameBufferSize (fmt d)"
  shows "getCurrentFrame (Some mem) (mPixelFormat (fmt d)) d = Some (NO_ERR, Some (fst (pick (mPrimaryBuffer pr) (buffers d))), mPrimaryTimestamp pr)"
  using producing_buffers [OF assms(1,2)] assms(2,3)
  by (auto simp: producing_thread getCurrentFrame_def getCurrentFrameImpl_def copy_bytes_def Let_def)

lemma window_frame_copied:
  assumes "dev_ok d" and "producing d = Some pr" and "length mem = 4 * mTotalPixels (fmt d)"
  shows "getCurrentPreviewFrame (Some mem) d = Some (NO_ERR, Some (snd (pick (mPrimaryBuffer pr) (buffers d))), mPrimaryTimestamp pr)"
  using producing_buffers [OF assms(1,2)] assms(2,3)
  by (auto simp: producing_thread getCurrentPreviewFrame_def copy_bytes_def)

text \<open>A video frame is the planes of the frame, in the order of YUV420, and fills the client's memory up to a last byte of an odd size; with another format
  the client gets its memory back as it was.\<close>

lemma video_frame_copied:
  assumes "dev_ok d" and "producing d = Some pr" and "length mem = getVideoFrameBufferSize (fmt d)"
  shows "getCurrentFrame (Some mem) V4L2_PIX_FMT_YUV420 d =
    (if mPixelFormat (fmt d) = V4L2_PIX_FMT_YVU420
     then Some (NO_ERR, Some (compact_yuv420 (mFrameWidth (fmt d)) (mFrameHeight (fmt d)) (fst (pick (mPrimaryBuffer pr) (buffers d))) @
       drop (mFrameWidth (fmt d) * mFrameHeight (fmt d) + 2 * ((mFrameWidth (fmt d) div 2) * (mFrameHeight (fmt d) div 2))) mem), mPrimaryTimestamp pr)
     else Some (EINVAL, Some mem, mPrimaryTimestamp pr))"
proof -
  note b = producing_buffers [OF assms(1,2)]
  have other: "mPixelFormat (fmt d) \<noteq> V4L2_PIX_FMT_YUV420"
    using b(5) by (auto simp: camera_format_def V4L2_PIX_FMT_RGB32_def pix_fmt_defs)
  have conv: "getCurrentFrameImpl (fmt d) (fst (pick (mPrimaryBuffer pr) (buffers d))) mem V4L2_PIX_FMT_YUV420 =
      (if mPixelFormat (fmt d) = V4L2_PIX_FMT_YVU420
       then Some (NO_ERR, compact_yuv420 (mFrameWidth (fmt d)) (mFrameHeight (fmt d)) (fst (pick (mPrimaryBuffer pr) (buffers d))) @
         drop (mFrameWidth (fmt d) * mFrameHeight (fmt d) + 2 * ((mFrameWidth (fmt d) div 2) * (mFrameHeight (fmt d) div 2))) mem)
       else Some (EINVAL, mem))"
    using frame_conversion [OF b(2) b(3), of V4L2_PIX_FMT_YUV420 mem] other video_room [of "mFrameWidth (fmt d)" "mFrameHeight (fmt d)"] assms(3)
    by (simp add: getVideoFrameBufferSize_def)
  show ?thesis using b(1) assms(2) by (auto simp: producing_thread getCurrentFrame_def conv)
qed

lemma primary_frame_producing: "producing d = Some pr \<Longrightarrow> primary_frame d = Some (fst (pick (mPrimaryBuffer pr) (buffers d)))"
  by (auto simp: producing_thread primary_frame_def)

section \<open>Passes of the camera thread\<close>

lemma notify_frame:
  assumes "isNewVideoFrameTime ts n = (new, n')"
  shows "cbs n' = cbs n" "mMessageEnabler n' = mMessageEnabler n" "mTakingPicture n' = mTakingPicture n" "mJpegQuality n' = mJpegQuality n"
  using assms by (auto simp: isNewVideoFrameTime_def split: if_splits)

lemma notify_video_some:
  assumes "dev_ok d" and "producing d = Some pr" and "client_ok cl d n"
  shows "\<exists>n' e. notify_video cl ts d n = Some (n', e) \<and> cbs n' = cbs n \<and> mMessageEnabler n' = mMessageEnabler n \<and>
    mTakingPicture n' = mTakingPicture n \<and> mJpegQuality n' = mJpegQuality n"
proof -
  obtain new n1 where n1: "isNewVideoFrameTime ts n = (new, n1)" by force
  note keep = notify_frame [OF n1]
  show ?thesis
  proof (cases "get_memory cl Mem_video (getVideoFrameBufferSize (fmt d))")
    case None
    then show ?thesis using n1 keep assms(3) by (auto simp: notify_video_def client_ok_def)
  next
    case (Some am)
    then obtain a mem where am: "get_memory cl Mem_video (getVideoFrameBufferSize (fmt d)) = Some (a, mem)" by force
    then have "length mem = getVideoFrameBufferSize (fmt d)" using assms(3) by (auto simp: client_ok_def)
    from video_frame_copied [OF assms(1,2) this] obtain r b t where
      "getCurrentFrame (Some mem) V4L2_PIX_FMT_YUV420 d = Some (r, b, t)" by (metis (full_types))
    then show ?thesis using n1 keep am assms(3) by (auto simp: notify_video_def client_ok_def)
  qed
qed

lemma notify_preview_some:
  assumes "dev_ok d" and "producing d = Some pr" and "client_ok cl d n"
  shows "\<exists>e. notify_preview cl d n = Some (n, e)"
proof (cases "get_memory cl Mem_preview (mFrameBufferSize (fmt d))")
  case None
  then show ?thesis using assms(3) by (auto simp: notify_preview_def client_ok_def)
next
  case (Some am)
  obtain a mem where "am = (a, mem)" by force
  then show ?thesis
    using Some preview_frame_copied [OF assms(1,2), of mem] assms(3) by (auto simp: notify_preview_def client_ok_def)
qed

lemma notify_picture_some:
  assumes "producing d = Some pr" and "client_ok cl d n"
  shows "\<exists>n' e. notify_picture cl d n = Some (n', e)"
  using primary_frame_producing [OF assms(1)] assms(2)
  by (auto simp: notify_picture_def client_ok_def Let_def split: option.splits)

lemma window_some:
  assumes "dev_ok d" and "producing d = Some pr" and "client_ok cl d n"
  shows "\<exists>w' e. window_onNextFrameAvailable cl ts d w = Some (w', e)"
proof (cases "gbm_lock cl")
  case None
  then show ?thesis by (auto simp: window_onNextFrameAvailable_def split: prod.splits)
next
  case (Some img)
  then show ?thesis using window_frame_copied [OF assms(1,2), of img] assms(3)
    by (auto simp: window_onNextFrameAvailable_def client_ok_def split: prod.splits)
qed

lemma thread_deliver_some:
  assumes "dev_ok (dev c)" and "producing (dev c) = Some pr" and "client_ok cl (dev c) (notifier c)"
  shows "\<exists>c'. thread_deliver cl now c = Some c'"
proof -
  obtain w e1 where 1: "window_onNextFrameAvailable cl now (dev c) (win c) = Some (w, e1)" using window_some [OF assms] by blast
  obtain n1 e2 where 2: "notify_video cl now (dev c) (notifier c) = Some (n1, e2)" and n1: "cbs n1 = cbs (notifier c)"
    using notify_video_some [OF assms] by blast
  have ok: "client_ok cl (dev c) n1" using assms(3) n1 by (simp add: client_ok_def)
  obtain e3 where 3: "notify_preview cl (dev c) n1 = Some (n1, e3)" using notify_preview_some [OF assms(1,2) ok] by blast
  obtain n2 e4 where 4: "notify_picture cl (dev c) n1 = Some (n2, e4)" using notify_picture_some [OF assms(2) ok] by blast
  obtain t where t: "mCameraThread (dev c) = Some t" using assms(2) by (auto simp: producing_thread)
  have "mNotifyCB (cbs (notifier c))" using assms(3) by (simp add: client_ok_def)
  then show ?thesis using 1 2 3 4 t
    by (simp add: thread_deliver_def notifier_onNextFrameAvailable_def notifier_autoFocusComplete_def Let_def)
qed

lemma onThreadExit_ok: "dev_ok (dev c) \<Longrightarrow> dev_ok (dev (onThreadExit c))"
  by (cases "mCameraThread (dev c)") (auto simp: onThreadExit_def dev_ok_def dev_inv_def producing_def isStarted_def)

lemma thread_deliver_ok: "thread_deliver cl now c = Some c' \<Longrightarrow> dev_ok (dev c) \<Longrightarrow> dev_ok (dev c')"
  by (auto simp: thread_deliver_def bind_eq_Some_conv Let_def intro!: onThreadExit_ok split: if_splits)

lemma thread_pass_ok:
  assumes "thread_pass h cl now c = Some c'" and "dev_ok (dev c)"
  shows "dev_ok (dev c')"
proof -
  obtain t where t: "mCameraThread (dev c) = Some t" using assms(1) by (auto simp: thread_pass_def bind_eq_Some_conv)
  obtain ok d where d: "checkRestartRequest h t (dev c) = (ok, d)" by force
  have "dev_ok d" using checkRestart_ok [OF t d assms(2)] .
  then show ?thesis using assms t d thread_deliver_ok [of cl now c c']
    by (auto simp: thread_pass_def Let_def intro!: onThreadExit_ok split: option.splits if_splits)
qed

lemma producer_step_ok:
  "reads_exact (h_read h) \<Longrightarrow> mCameraThread (dev c) = Some t \<Longrightarrow> mFrameProducer t = Some pr \<Longrightarrow> dev_ok (dev c) \<Longrightarrow> dev_ok (dev (producer_step h wb t pr c))"
  by (auto simp: producer_step_def split: prod.splits dest: producer_pass_ok)

text \<open>The calls of the framework and the passes of the threads, in any order and with any host, client and parameters. A pass of the camera thread needs a
  frame of its producer. Calls that touch the notifier or the window only are the last rule.\<close>

inductive cam1_step :: "('p, 'c) EmulatedCamera \<Rightarrow> ('p, 'c) EmulatedCamera \<Rightarrow> bool" where
  c_init: "device_Initialize opened err name (dev c) = (res, d) \<Longrightarrow> cam1_step c (camera_Initialize cp (c\<lparr>dev := d\<rparr>))"
| c_connect: "connectCamera h c = (res, c') \<Longrightarrow> cam1_step c c'"
| c_start: "startPreview h cp c = Some (res, c') \<Longrightarrow> cam1_step c c'"
| c_stop: "stopPreview h cl c = Some c' \<Longrightarrow> cam1_step c c'"
| c_record: "startRecording cp c = Some (res, c') \<Longrightarrow> cam1_step c c'"
| c_picture: "takePicture cp c = Some (res, c') \<Longrightarrow> cam1_step c c'"
| c_parameters: "setParameters h cp np c = Some (res, c') \<Longrightarrow> cam1_step c c'"
| c_cleanup: "cleanupCamera h cp c = Some (res, c') \<Longrightarrow> cam1_step c c'"
| c_thread: "producing (dev c) = Some pr \<Longrightarrow> mHasFrame pr \<Longrightarrow> thread_pass h cl now c = Some c' \<Longrightarrow> cam1_step c c'"
| c_produce: "reads_exact (h_read h) \<Longrightarrow> mCameraThread (dev c) = Some t \<Longrightarrow> mFrameProducer t = Some pr \<Longrightarrow> cam1_step c (producer_step h wb t pr c)"
| c_local: "cam1_step c (c\<lparr>notifier := n, win := w, mTriggerAutoFocus := af\<rparr>)"

definition cam1_init :: "('p, 'c) EmulatedCamera \<Rightarrow> bool" where
  "cam1_init c \<longleftrightarrow> dev_init (dev c)"

lemma cam1_step_inv:
  assumes "cam1_step c c'" and "cam1_inv c"
  shows "cam1_inv c'"
  using assms
  unfolding cam1_inv_def
proof (induction rule: cam1_step.induct)
  case (c_init opened err name c res d cp)
  then show ?case using device_Initialize_ok by force
next
  case (c_connect h c res c')
  then show ?case by (auto simp: connectCamera_def dest: connectDevice_ok split: prod.splits)
next
  case (c_start h cp c res c')
  then show ?case by (auto simp: startPreview_def dest: doStartPreview_ok)
next
  case (c_stop h cl c c')
  then show ?case by (auto simp: stopPreview_def dest!: doStopPreview_ok)
next
  case (c_record cp c res c')
  then show ?case using startRecording_ok by blast
next
  case (c_picture cp c res c')
  then show ?case using takePicture_ok by blast
next
  case (c_parameters h cp np c res c')
  then show ?case by (rule setParameters_ok)
next
  case (c_cleanup h cp c res c')
  then show ?case using cleanupCamera_ok by blast
next
  case (c_thread c pr h cl now c')
  then show ?case using thread_pass_ok by blast
next
  case (c_produce h c t pr wb)
  then show ?case using producer_step_ok by blast
qed simp

interpretation camera1: invariant_system cam1_init cam1_step cam1_inv
proof
  show "cam1_init c \<Longrightarrow> cam1_inv c" for c :: "('a, 'b) EmulatedCamera"
    by (auto simp: cam1_init_def cam1_inv_def dev_ok_def dev_inv_def dev_init_def isStarted_def producing_def)
qed (rule cam1_step_inv)

section \<open>Restarts and pictures\<close>

lemma restart_format:
  assumes "checkRestartRequest h t d = (True, d')" and "mRestartRequested t = Some r"
  shows "mFrameWidth (fmt d') = mRestartWidth r \<and> mFrameHeight (fmt d') = mRestartHeight r \<and> mPixelFormat (fmt d') = mRestartPixelFormat r \<and>
    mCameraThread d' = Some \<lparr>mFrameProducer = Some FrameProducer_new, mRestartRequested = None, mOneBurst = mRestartOneBurst r\<rparr>"
  using assms commonStartDevice_fields [of "mRestartWidth r" "mRestartHeight r" "mRestartPixelFormat r"]
  by (auto simp: checkRestartRequest_def Let_def stopDevice_def startDevice_def isStarted_def isConnected_def errno_defs
      split: if_splits prod.splits option.splits)

lemma producer_pass_format: "producer_pass h wb t pr d = (ok, d') \<Longrightarrow> fmt d' = fmt d"
  by (auto simp: producer_pass_def Let_def split: prod.splits if_splits)

lemma producer_pass_thread:
  "producer_pass h wb t pr d = (True, d') \<Longrightarrow> \<exists>pr'. mCameraThread d' = Some (t\<lparr>mFrameProducer := Some pr'\<rparr>) \<and> mHasFrame pr'"
  by (auto simp: producer_pass_def Let_def split: prod.splits if_splits)

text \<open>The delivery of a frame while a picture is taken, with the preview disabled and no other messages on.\<close>

definition picture_only :: "CallbackNotifier \<Rightarrow> bool" where
  "picture_only n \<longleftrightarrow> mNotifyCB (cbs n) \<and> mDataCB (cbs n) \<and> mGetMemoryCB (cbs n) \<and> isMessageEnabled CAMERA_MSG_SHUTTER n \<and>
     isMessageEnabled CAMERA_MSG_RAW_IMAGE_NOTIFY n \<and> isMessageEnabled CAMERA_MSG_COMPRESSED_IMAGE n \<and>
     \<not> isMessageEnabled CAMERA_MSG_VIDEO_FRAME n \<and> \<not> isMessageEnabled CAMERA_MSG_PREVIEW_FRAME n"

lemma picture_only_upd [simp]:
  "picture_only (n\<lparr>mTakingPicture := b\<rparr>) = picture_only n" "picture_only (n\<lparr>mJpegQuality := q\<rparr>) = picture_only n"
  by (simp_all add: picture_only_def isMessageEnabled_def)

lemma deliver_picture:
  assumes "picture_only (notifier c)" and "mTakingPicture (notifier c)" and "\<not> mPreviewEnabled (win c)" and "\<not> mTriggerAutoFocus c"
    and "mCameraThread (dev c) = Some t" and "mFrameProducer t = Some pr" and "mOneBurst t"
    and "compressRawImage cl (fst (pick (mPrimaryBuffer pr) (buffers (dev c)))) (mFrameWidth (fmt (dev c))) (mFrameHeight (fmt (dev c)))
      (mJpegQuality (notifier c)) = Some jpeg"
    and "get_memory cl Mem_jpeg (length jpeg) = Some am"
  shows "thread_deliver cl now c = Some (onThreadExit ((emit [Ev_notify CAMERA_MSG_SHUTTER 0, Ev_notify CAMERA_MSG_RAW_IMAGE_NOTIFY 0, Ev_jpeg jpeg] c)
    \<lparr>mTriggerAutoFocus := False, win := win c, notifier := (notifier c)\<lparr>mTakingPicture := False\<rparr>, restarted := False\<rparr>))"
  using assms
  by (cases am) (simp add: thread_deliver_def window_onNextFrameAvailable_def notifier_onNextFrameAvailable_def notify_video_def notify_preview_def
      notify_picture_def primary_frame_def picture_only_def isMessageEnabled_def Let_def)

section \<open>An example\<close>

text \<open>A camera whose parameters ask for frames and pictures of two by two pixels, a client, and a host that answers two calls and then \<open>rest\<close>.\<close>

definition example_params :: "unit params" where
  "example_params = \<lparr>cp_get = (\<lambda>_ k. if k = ''preview-format'' then Some ''yuv420sp'' else if k = ''picture-format'' then Some ''jpeg'' else None),
     cp_int = (\<lambda>_ k. 30), cp_size = (\<lambda>_ k. (2, 2)), cp_float = (\<lambda>_ k. 0), cp_set = (\<lambda>k v c. c)\<rparr>"

definition example_client :: client where
  "example_client = \<lparr>get_memory = (\<lambda>_ k. Some (7, replicate k CHR 0x00)), compressRawImage = (\<lambda>f w h q. Some f),
     set_usage = True, set_buffers_geometry = True, dequeue_buffer = True, lock_buffer = True, gbm_lock = Some (replicate 16 CHR 0x00)\<rparr>"

definition example_notifier :: CallbackNotifier where
  "example_notifier = CallbackNotifier_new\<lparr>cbs := \<lparr>mNotifyCB = True, mDataCB = True, mDataCBTimestamp = True, mGetMemoryCB = True\<rparr>,
     mMessageEnabler := 0x302\<rparr>"

definition example_window :: PreviewWindow where
  "example_window = PreviewWindow_new\<lparr>mPreviewWindow := True, mPreviewEnabled := True\<rparr>"

definition example_camera :: "(string \<times> string, unit) EmulatedCamera" where
  "example_camera = \<lparr>mParameters = (), win = PreviewWindow_new, notifier = CallbackNotifier_new, dev = example_new, mTriggerAutoFocus = False,
     mFramesPerSecond = 30, exposure = 0, white_balance = ''auto'', restarted = False, out = []\<rparr>"

lemma example_running:
  fixes rest :: string
  obtains c p where "cam1_step\<^sup>*\<^sup>* example_camera c"
    and "mCameraThread (dev c) = Some \<lparr>mFrameProducer = Some FrameProducer_new, mRestartRequested = None, mOneBurst = False\<rparr>"
    and "isStarted (dev c)" and "mTotalPixels (fmt (dev c)) = 4" and "mQemuClient (dev c) = Some p" and "fst p = rest"
    and "notifier c = example_notifier" and "win c = example_window" and "\<not> restarted c" and "\<not> mTriggerAutoFocus c" and "out c = []"
proof -
  obtain d1 d2 d3 p where d: "device_Initialize (\<lambda>n. Some (example_ok @ example_ok @ rest, [])) 0 ''webcam0'' example_new = (NO_ERR, d1)"
    "connectDevice example_host d1 = (NO_ERR, d2)" "startDevice example_host 2 2 V4L2_PIX_FMT_NV21 d2 = (NO_ERR, d3)"
    "mState d1 = ECDS_INITIALIZED" "isStarted d3" "mTotalPixels (fmt d3) = 4" "mQemuClient d3 = Some p" "fst p = rest"
    by (rule example_calls [of rest])
  let ?c1 = "camera_Initialize example_params (example_camera\<lparr>dev := d1\<rparr>)"
  let ?d4 = "d3\<lparr>mCameraThread := Some \<lparr>mFrameProducer = Some FrameProducer_new, mRestartRequested = None, mOneBurst = False\<rparr>\<rparr>"
  let ?c2 = "(setPreviewFrameRate 30 ((set_enabled True ?c1)\<lparr>dev := d2\<rparr>))\<lparr>dev := ?d4\<rparr>"
  have 1: "cam1_step example_camera ?c1"
    using c_init [of "\<lambda>n. Some (example_ok @ example_ok @ rest, [])" 0 "''webcam0''" example_camera NO_ERR d1 example_params] d(1)
    by (simp add: example_camera_def)
  have unit: "x = y" for x y :: unit by simp
  have cfg: "getConfiguredFrameSize example_params x = Some (2, 2)" "getConfiguredPixelFormat example_params c = Some V4L2_PIX_FMT_NV21"
    if "\<not> mVideoRecEnabled (notifier c)" for x and c :: "(string \<times> string, unit) EmulatedCamera"
    using that by (simp_all add: getConfiguredFrameSize_def getConfiguredPixelFormat_def example_params_def GetFourCcFormatFromCameraParam_def)
  have n: "\<not> mVideoRecEnabled (notifier ((set_enabled True ?c1)\<lparr>dev := d2\<rparr>))"
    by (simp add: set_enabled_def camera_Initialize_def example_camera_def CallbackNotifier_new_def)
  have "start_configured example_host example_params ((set_enabled True ?c1)\<lparr>dev := d2\<rparr>) = (NO_ERR, ?c2)"
    using d(3,5) cfg [OF n] by (simp add: start_configured_def Let_def startDeliveringFrames_def setPreviewFrameRate_def example_params_def)
  then have "startPreview example_host example_params ?c1 = Some (- NO_ERR, ?c2)"
    using d(2,4) by (simp add: startPreview_def doStartPreview_def isStarted_def isConnected_def camera_Initialize_def)
  then have 2: "cam1_step ?c1 ?c2" by (rule c_start)
  have 3: "cam1_step ?c2 (?c2\<lparr>notifier := example_notifier, win := example_window, mTriggerAutoFocus := False\<rparr>)" by (rule c_local)
  have "cam1_step\<^sup>*\<^sup>* example_camera (?c2\<lparr>notifier := example_notifier, win := example_window, mTriggerAutoFocus := False\<rparr>)"
    using 1 2 3 by (meson converse_rtranclp_into_rtranclp rtranclp.rtrancl_refl)
  then show thesis
    using that d(5-8) by (simp add: isStarted_def setPreviewFrameRate_def set_enabled_def camera_Initialize_def example_camera_def)
qed

lemma example_clients:
  "mTotalPixels (fmt d) = 4 \<Longrightarrow> client_ok example_client d example_notifier" "picture_only example_notifier"
  by (simp_all add: client_ok_def picture_only_def example_client_def example_notifier_def CallbackNotifier_new_def isMessageEnabled_def msg_defs)

section \<open>Properties\<close>



text \<open>
  Property C21: A picture is taken once. With the preview running and the messages of a picture on, \<^verbatim>\<open>takePicture\<close> succeeds and disables the preview; the camera
  thread restarts the device for the picture and, after the producer's first frame, sends the shutter, the notification of the raw image and the picture
  compressed from that frame at the size of the picture, in this order and nothing else. Then the thread has ended, no picture is pending,
  and another \<^verbatim>\<open>takePicture\<close> is refused until the preview is started again.
\<close>

theorem picture_taken_once:
  assumes "mPreviewEnabled (win c)" and "\<not> restarted c" and "\<not> mTriggerAutoFocus c" and "picture_only (notifier c)"
    and "cp_get cp (mParameters c) ''picture-format'' = Some ''jpeg''" and "cp_size cp (mParameters c) ''picture-size'' = (int w, int ht)"
    and "cp_int cp (mParameters c) ''jpeg-quality'' = q" and "0 < q"
    and "requestRestart w ht V4L2_PIX_FMT_NV21 True True (dev c) = (True, d1)" and "mCameraThread d1 = Some t1"
    and "checkRestartRequest h t1 d1 = (True, d2)" and "mCameraThread d2 = Some t2"
    and "producer_pass h wb t2 FrameProducer_new d2 = (True, d3)" and "producing d3 = Some pr"
    and "compressRawImage cl (fst (pick (mPrimaryBuffer pr) (buffers d3))) w ht q = Some jpeg" and "get_memory cl Mem_jpeg (length jpeg) = Some am"
  shows "\<exists>c1 c2 c4. takePicture cp c = Some (NO_ERR, c1) \<and> thread_pass h cl now1 c1 = Some c2 \<and>
    thread_pass h cl now2 (producer_step h wb t2 FrameProducer_new c2) = Some c4 \<and>
    out c4 = out c @ [Ev_notify CAMERA_MSG_SHUTTER 0, Ev_notify CAMERA_MSG_RAW_IMAGE_NOTIFY 0, Ev_jpeg jpeg] \<and>
    \<not> mTakingPicture (notifier c4) \<and> producing (dev c4) = None \<and> map_option fst (takePicture cp c4) = Some EINVAL"
proof -
  let ?c1 = "(set_enabled False (c\<lparr>notifier := (notifier c)\<lparr>mJpegQuality := q\<rparr>\<rparr>))\<lparr>dev := d1\<rparr>"
  let ?c2 = "?c1\<lparr>dev := d2, restarted := True, notifier := (notifier ?c1)\<lparr>mTakingPicture := True\<rparr>\<rparr>"
  let ?c3 = "?c2\<lparr>dev := d3\<rparr>"
  let ?es = "[Ev_notify CAMERA_MSG_SHUTTER 0, Ev_notify CAMERA_MSG_RAW_IMAGE_NOTIFY 0, Ev_jpeg jpeg]"
  let ?c4 = "onThreadExit ((emit ?es ?c3)\<lparr>mTriggerAutoFocus := False, win := win ?c3, notifier := (notifier ?c3)\<lparr>mTakingPicture := False\<rparr>, restarted := False\<rparr>)"
  obtain r where r: "mRestartRequested t1 = Some r" "mRestartWidth r = w" "mRestartHeight r = ht" "mRestartTakingPicture r" "mRestartOneBurst r"
    using assms(9,10) by (auto simp: requestRestart_def split: option.splits)
  note rf = restart_format [OF assms(11) r(1)]
  have t2: "mRestartRequested t2 = None" "mOneBurst t2" using rf assms(12) r(5) by auto
  have jpeg: "GetFourCcFormatFromCameraParam ''jpeg'' = None" by (simp add: GetFourCcFormatFromCameraParam_def)
  have 1: "takePicture cp c = Some (NO_ERR, ?c1)"
    using assms(1,5-9) jpeg by (simp add: takePicture_def Let_def set_enabled_def)
  have 2: "thread_pass h cl now1 ?c1 = Some ?c2"
    using assms(2,10,11) r by (simp add: thread_pass_def Let_def set_enabled_def)
  have 3: "producer_step h wb t2 FrameProducer_new ?c2 = ?c3"
    using assms(13) by (simp add: producer_step_def emit_def)
  obtain t3 where t3: "mCameraThread d3 = Some t3" "mFrameProducer t3 = Some pr" "mRestartRequested t3 = None" "mOneBurst t3"
    using assms(14) producer_pass_thread [OF assms(13)] t2 by (auto simp: producing_thread)
  have fmt: "mFrameWidth (fmt d3) = w" "mFrameHeight (fmt d3) = ht"
    using producer_pass_format [OF assms(13)] rf r(2,3) by simp_all
  have "thread_deliver cl now2 ?c3 = Some ?c4"
    using assms(1,3,4,15,16) t3 fmt by (intro deliver_picture [where t = t3 and pr = pr and am = am]) (simp_all add: set_enabled_def window_stopPreview_def)
  then have 4: "thread_pass h cl now2 ?c3 = Some ?c4" using t3 by (simp add: thread_pass_def)
  have "out ?c4 = out c @ ?es" "\<not> mTakingPicture (notifier ?c4)" "producing (dev ?c4) = None"
    using t3 by (simp_all add: onThreadExit_def emit_def set_enabled_def producing_def)
  moreover have "map_option fst (takePicture cp ?c4) = Some EINVAL"
    using t3 assms(5,6) jpeg by (simp add: takePicture_def Let_def onThreadExit_def emit_def set_enabled_def window_stopPreview_def)
  ultimately show ?thesis using 1 2 3 4 by (intro exI [of _ ?c1] exI [of _ ?c2] exI [of _ ?c4]) simp
qed

text \<open>The restart for a picture and its frame, in the example.\<close>

lemma example_restart:
  assumes "isStarted d" and "mCameraThread d = Some t" and "mRestartRequested t = Some r" and "mRestartWidth r = 2" and "mRestartHeight r = 2"
    and "mRestartPixelFormat r = V4L2_PIX_FMT_NV21" and "mQemuClient d = Some p" and "fst p = example_ok @ example_ok @ rest"
  obtains d' p' where "checkRestartRequest example_host t d = (True, d')" and "mQemuClient d' = Some p'" and "fst p' = rest"
    and "mFrameBufferSize (fmt d') = 6" and "mTotalPixels (fmt d') = 4"
proof -
  let ?h = example_host
  obtain p1 where p1: "queryStop (h_write ?h) (h_read ?h) (h_alloc ?h) (h_errno ?h) (Some p) = (NO_ERR, Some p1)" "fst p1 = example_ok @ rest"
    unfolding queryStop_def using example_query [OF assms(8), of "''stop''"] by auto
  have start: "start_text V4L2_PIX_FMT_NV21 2 2 \<noteq> []" by (simp add: start_text_def snprintf_buf_def)
  obtain p2 where p2: "queryStart V4L2_PIX_FMT_NV21 2 2 (h_write ?h) (h_read ?h) (h_alloc ?h) (h_errno ?h) (Some p1) = (NO_ERR, Some p2)"
      "fst p2 = rest"
    unfolding queryStart_def using example_query [OF p1(2) start] by auto
  let ?f = "\<lparr>mFrameWidth = 2, mFrameHeight = 2, mPixelFormat = V4L2_PIX_FMT_NV21, mTotalPixels = 4, mYStride = 2, mUVStride = 2, mFrameBufferSize = 6\<rparr>"
  have f: "commonStartDevice 2 2 V4L2_PIX_FMT_NV21 = Some ?f" by (simp add: commonStartDevice_def pix_fmt_defs)
  show thesis
    using that assms(1-7) p1(1) p2 by (simp add: checkRestartRequest_def stopDevice_def startDevice_def isStarted_def isConnected_def f Let_def)
qed

lemma picture_taken_once_witness:
  "\<exists>c t2 c1 c2 c4 jpeg. cam1_step\<^sup>*\<^sup>* example_camera c \<and> takePicture example_params c = Some (NO_ERR, c1) \<and>
     thread_pass example_host example_client 0 c1 = Some c2 \<and>
     thread_pass example_host example_client 0 (producer_step example_host [] t2 FrameProducer_new c2) = Some c4 \<and>
     out c4 = [Ev_notify CAMERA_MSG_SHUTTER 0, Ev_notify CAMERA_MSG_RAW_IMAGE_NOTIFY 0, Ev_jpeg jpeg]"
proof -
  let ?h = example_host
  obtain c p where c: "cam1_step\<^sup>*\<^sup>* example_camera c"
    "mCameraThread (dev c) = Some \<lparr>mFrameProducer = Some FrameProducer_new, mRestartRequested = None, mOneBurst = False\<rparr>"
    "isStarted (dev c)" "mQemuClient (dev c) = Some p" "fst p = example_ok @ example_ok @ example_reply"
    "notifier c = example_notifier" "win c = example_window" "\<not> restarted c" "\<not> mTriggerAutoFocus c" "out c = []"
    by (rule example_running [of "example_ok @ example_ok @ example_reply"])
  have init: "cam1_init example_camera" by (simp add: cam1_init_def dev_init_def example_camera_def example_new_def)
  have inv: "dev_ok (dev c)" using camera1.reachable_inv [OF init c(1)] by (simp add: cam1_inv_def)
  obtain d1 where d1: "requestRestart 2 2 V4L2_PIX_FMT_NV21 True True (dev c) = (True, d1)" using c(2) by (simp add: requestRestart_def)
  then obtain t1 r where t1: "mCameraThread d1 = Some t1" "mRestartRequested t1 = Some r" "mRestartWidth r = 2" "mRestartHeight r = 2"
      "mRestartPixelFormat r = V4L2_PIX_FMT_NV21" "isStarted d1" "mQemuClient d1 = Some p"
    using c(2-4) by (auto simp: requestRestart_def isStarted_def)
  have inv1: "dev_ok d1" using requestRestart_ok [OF d1 inv] by (simp add: camera_format_def)
  obtain d2 p2 where d2: "checkRestartRequest ?h t1 d1 = (True, d2)" "mQemuClient d2 = Some p2" "fst p2 = example_reply"
      "mFrameBufferSize (fmt d2) = 6" "mTotalPixels (fmt d2) = 4"
    using example_restart [OF t1(6,1-5,7) c(5)] by blast
  have inv2: "dev_inv d2" using checkRestart_ok [OF t1(1) d2(1) inv1] by (simp add: dev_ok_def)
  obtain t2 where t2: "mCameraThread d2 = Some t2" "mFrameProducer t2 = Some FrameProducer_new"
    using restart_format [OF d2(1) t1(2)] by auto
  have alloc: "h_alloc ?h k" for k by (simp add: example_host_def)
  obtain d3 pr where d3: "producer_pass ?h [] t2 FrameProducer_new d2 = (True, d3)" "producing d3 = Some pr"
    using producer_frame [OF inv2 t2 _ _ example_duplex d2(2) alloc, of "''yyyyuv''" "''rgbargbargbargba''" "replicate 8 CHR 0x00" "''more''" "[]"]
      d2(3-5) by (fastforce simp: example_reply_def producing_def)
  have en: "mPreviewEnabled (win c)" using c(7) by (simp add: example_window_def)
  have n: "picture_only (notifier c)" using c(6) example_clients(2) by simp
  have params: "cp_get example_params x ''picture-format'' = Some ''jpeg''" "cp_size example_params x ''picture-size'' = (int 2, int 2)"
      "cp_int example_params x ''jpeg-quality'' = 30" for x by (simp_all add: example_params_def)
  show ?thesis
    using picture_taken_once [OF en c(8,9) n params _ d1 t1(1) d2(1) t2(1) d3, of example_client] c(1,10)
    by (simp add: example_client_def) blast
qed

text \<open>
  Property C37: A stop that the host refuses makes the next call fatal. The preview of a started device is stopped with success reported although the
  device stays started, and its thread is gone: closing the camera, starting the preview or changing its size then uses the missing thread,
  whatever the host answers later.
\<close>

theorem refused_stop_is_fatal:
  assumes "mPreviewEnabled (win c)" and "isStarted (dev c)" and "mCameraThread (dev c) = Some t"
    and "fst (queryStop (h_write h) (h_read h) (h_alloc h) (h_errno h) (mQemuClient (dev c))) \<noteq> NO_ERR"
  shows "\<exists>c'. doStopPreview h c = Some (NO_ERR, c') \<and> mPreviewEnabled (win c') \<and>
    cleanupCamera h' cp c' = None \<and> startPreview h' cp c' = None"
proof -
  let ?c1 = "c\<lparr>dev := (dev c)\<lparr>mCameraThread := None\<rparr>, restarted := False\<rparr>"
  obtain res q where q: "queryStop (h_write h) (h_read h) (h_alloc h) (h_errno h) (mQemuClient (dev c)) = (res, q)" by force
  let ?c2 = "?c1\<lparr>dev := (dev ?c1)\<lparr>mQemuClient := q\<rparr>\<rparr>"
  have 1: "stop_delivery c = Some ?c1" using assms(2,3) by (simp add: stop_delivery_def stopDeliveringFrames_def)
  have 2: "stop_device h ?c1 = (res, ?c2)" "res \<noteq> NO_ERR"
    using assms(2,4) q by (simp_all add: stop_device_def stopDevice_def isStarted_def)
  have 3: "doStopPreview h c = Some (NO_ERR, ?c2)" using assms(1,2) 1 2 by (simp add: doStopPreview_def)
  have started: "isStarted (dev ?c2)" "mCameraThread (dev ?c2) = None" "mPreviewEnabled (win ?c2)"
    using assms(1,2) by (simp_all add: isStarted_def)
  then have none: "stop_delivery ?c2 = None" by (simp add: stop_delivery_def stopDeliveringFrames_def)
  then have "cleanupCamera h' cp ?c2 = None" "startPreview h' cp ?c2 = None"
    using started by (simp_all add: cleanupCamera_def doStopPreview_def startPreview_def doStartPreview_def)
  then show ?thesis using 3 started(3) by blast
qed

lemma refused_stop_is_fatal_witness:
  "\<exists>c c'. cam1_step\<^sup>*\<^sup>* example_camera c \<and> doStopPreview example_host c = Some (NO_ERR, c') \<and> cleanupCamera example_host example_params c' = None"
proof -
  obtain c p where c: "cam1_step\<^sup>*\<^sup>* example_camera c"
    "mCameraThread (dev c) = Some \<lparr>mFrameProducer = Some FrameProducer_new, mRestartRequested = None, mOneBurst = False\<rparr>"
    "isStarted (dev c)" "mQemuClient (dev c) = Some p" "fst p = []" "win c = example_window"
    by (rule example_running [of "[]"])
  have "fst (queryStop (h_write example_host) (h_read example_host) (h_alloc example_host) (h_errno example_host) (mQemuClient (dev c))) \<noteq> NO_ERR"
    using c(4,5) by (simp add: queryStop_def status_query_def doQuery_def QemuQuery_new_def createQuery_def resetQuery_def completeQuery_def
        getCompletionStatus_def client_sendMessage_def receiveMessage_def example_host_def or_err_def errno_defs isQuerySucceeded_def split: prod.splits)
  moreover have "mPreviewEnabled (win c)" using c(6) by (simp add: example_window_def)
  ultimately show ?thesis using refused_stop_is_fatal [OF _ c(3,2), of example_host example_host example_params] c(1) by blast
qed

text \<open>The largest resolution in the loop is one of the list with the largest area, when an area is positive.\<close>

lemma max_area_spec:
  assumes "max_area (a, w, h) rs = Some (a', w', h')" and "a = w * h" and "0 \<le> a"
  shows "a' = w' * h' \<and> 0 \<le> a' \<and> a \<le> a' \<and> (\<forall>(x, y)\<in>set rs. x * y \<le> a') \<and> ((w', h') = (w, h) \<or> (w', h') \<in> set rs)"
  using assms
proof (induction rs arbitrary: a w h)
  case (Cons r rs)
  obtain x y where r: "r = (x, y)" by force
  show ?case
  proof (cases "x * y > a")
    case True
    then have "max_area (x * y, x, y) rs = Some (a', w', h')" using Cons.prems(1) r by (simp split: if_splits)
    then show ?thesis using Cons.IH [of "x * y" x y] Cons.prems(2,3) True r by auto
  next
    case False
    then have "max_area (a, w, h) rs = Some (a', w', h')" using Cons.prems(1) r by (simp split: if_splits)
    then show ?thesis using Cons.IH [of a w h] Cons.prems(2,3) False r by auto
  qed
qed auto

text \<open>
  The resolutions of the emulator's camera are cut to the sensor. When an entry of the list has a positive area and no area overflows, the
  resolutions kept have one of the largest area, every other one kept fits in it in both dimensions, and every entry that fits is kept, in
  the order of the list.
\<close>

lemma usable_resolutions_fit_sensor:
  assumes "usable_resolutions rs = Some us" and "(x, y) \<in> set rs" and "0 < x * y"
  shows "\<exists>w h. (w, h) \<in> set us \<and> (\<forall>(a, b)\<in>set rs. a * b \<le> w * h) \<and> us = filter (\<lambda>(a, b). a \<le> w \<and> b \<le> h) rs"
proof -
  obtain a w h where m: "max_area (0, 0, 0) rs = Some (a, w, h)" and us: "us = filter (\<lambda>(x, y). \<not> (x > w \<or> y > h)) rs"
    using assms(1) by (auto simp: usable_resolutions_def)
  note spec = max_area_spec [OF m, simplified]
  have "(w, h) \<in> set rs" using spec assms(2,3) by fastforce
  moreover have "us = filter (\<lambda>(a, b). a \<le> w \<and> b \<le> h) rs" unfolding us by (rule filter_cong) auto
  ultimately show ?thesis using spec by (intro exI [of _ w] exI [of _ h]) auto
qed

lemma usable_resolutions_fit_sensor_witness:
  "qemu_camera_resolutions ''640x480,352x288,8x500,junk'' = Some [(640, 480), (352, 288)] \<and>
    (\<exists>w h. (w, h) \<in> set [(640 :: int, 480 :: int), (352, 288)] \<and> (\<forall>(a, b)\<in>set [(640, 480), (352, 288), (8, 500)]. a * b \<le> w * h))"
proof -
  have "usable_resolutions [(640, 480), (352, 288), (8, 500)] = Some [(640, 480), (352, 288)]" by code_simp
  from usable_resolutions_fit_sensor [OF this, of 640 480]
  have "\<exists>w h. (w, h) \<in> set [(640 :: int, 480 :: int), (352, 288)] \<and> (\<forall>(a, b)\<in>set [(640, 480), (352, 288), (8, 500)]. a * b \<le> w * h)" by auto
  moreover have "qemu_camera_resolutions ''640x480,352x288,8x500,junk'' = Some [(640, 480), (352, 288)]" by code_simp
  ultimately show ?thesis by blast
qed

section \<open>Further cases\<close>

text \<open>The format \<^verbatim>\<open>rgba8888\<close> is announced among the formats of the preview, but no device starts with it.\<close>

lemma rgba_preview_fails:
  assumes "getConfiguredPixelFormat cp c = Some V4L2_PIX_FMT_RGB32" and "\<not> isStarted (dev c)" and "isConnected (dev c)"
  shows "\<exists>c'. startPreview h cp c = Some (- EINVAL, c') \<and> \<not> mPreviewEnabled (win c')"
proof -
  have bad: "commonStartDevice w ht V4L2_PIX_FMT_RGB32 = None" for w ht by (simp add: commonStartDevice_def V4L2_PIX_FMT_RGB32_def pix_fmt_defs)
  let ?c = "(set_enabled True c)\<lparr>dev := dev c\<rparr>"
  have fmt: "getConfiguredPixelFormat cp ?c = Some V4L2_PIX_FMT_RGB32"
    using assms(1) by (simp add: getConfiguredPixelFormat_def set_enabled_def)
  have "\<exists>c'. start_configured h cp ?c = (EINVAL, c') \<and> \<not> mPreviewEnabled (win c')"
    using assms(2,3) fmt bad
    by (auto simp: start_configured_def startDevice_def Let_def setPreviewFrameRate_def set_enabled_def window_stopPreview_def errno_defs
        split: option.splits)
  then show ?thesis using assms(2,3) by (auto simp: startPreview_def doStartPreview_def)
qed

text \<open>A frame rate of zero, which the parameters may have, is divided by when a recording starts.\<close>

lemma recording_divides_by_zero:
  "mPreviewEnabled (win c) \<Longrightarrow> cp_int cp (mParameters c) ''preview-frame-rate'' = 0 \<Longrightarrow> startRecording cp c = None"
  by (simp add: startRecording_def enableVideoRecording_def)

text \<open>A video frame of a device that still has the format of the preview is sent as the client's memory was.\<close>

lemma video_frame_unconverted:
  assumes "dev_ok d" and "producing d = Some pr" and "mPixelFormat (fmt d) = V4L2_PIX_FMT_NV21" and "client_ok cl d n"
    and "isMessageEnabled CAMERA_MSG_VIDEO_FRAME n" and "mVideoRecEnabled n" and "mFrameRefreshFreq n \<le> ts - mLastFrameTimestamp n"
    and "get_memory cl Mem_video (getVideoFrameBufferSize (fmt d)) = Some (a, mem)"
  shows "map_option snd (notify_video cl ts d n) = Some [Ev_video (if mPrimaryTimestamp pr \<noteq> 0 then mPrimaryTimestamp pr else ts) mem]"
proof -
  have "length mem = getVideoFrameBufferSize (fmt d)" using assms(4,8) by (auto simp: client_ok_def)
  moreover have "V4L2_PIX_FMT_NV21 \<noteq> V4L2_PIX_FMT_YVU420" by (simp add: pix_fmt_defs)
  ultimately have "getCurrentFrame (Some mem) V4L2_PIX_FMT_YUV420 d = Some (EINVAL, Some mem, mPrimaryTimestamp pr)"
    using video_frame_copied [OF assms(1,2), of mem] assms(3) by simp
  then show ?thesis using assms(4-8) by (simp add: notify_video_def isNewVideoFrameTime_def client_ok_def)
qed

end
