(* ===== verification/Wifi_Netlink.thy ===== *)
theory Wifi_Netlink
  imports C_Strings "HOL-Library.Monad_Syntax"
begin

text \<open>
  \<^verbatim>\<open>wifi/wifi_hal/netlink.cpp\<close>, \<^verbatim>\<open>netlinkmessage.cpp\<close> and \<^verbatim>\<open>interface.cpp\<close>: messages to the kernel and their replies, on a little
  endian machine, and the calls of the network interface. A message is its bytes. The search for an attribute is a function of the netlink library and a
  parameter. Reading or writing outside a buffer is the result \<open>None\<close>.
\<close>

section \<open>Messages\<close>

definition sizeof_nlmsghdr :: nat where "sizeof_nlmsghdr = 16"
definition sizeof_ifinfomsg :: nat where "sizeof_ifinfomsg = 16"
definition NLMSG_ERROR :: nat where "NLMSG_ERROR = 2"
definition RTM_NEWLINK :: nat where "RTM_NEWLINK = 16"
definition RTM_GETLINK :: nat where "RTM_GETLINK = 18"
definition NLM_F_REQUEST :: nat where "NLM_F_REQUEST = 1"

definition le_at :: "nat \<Rightarrow> nat \<Rightarrow> bytes \<Rightarrow> nat" where
  "le_at off n bs = le_to_nat (take n (drop off bs))"

definition nlmsg_len :: "bytes \<Rightarrow> nat" where "nlmsg_len bs = le_at 0 4 bs"
definition nlmsg_type :: "bytes \<Rightarrow> nat" where "nlmsg_type bs = le_at 4 2 bs"
definition nlmsg_seq :: "bytes \<Rightarrow> nat" where "nlmsg_seq bs = le_at 8 4 bs"

definition getSpaceForMessageType :: "nat \<Rightarrow> nat" where
  "getSpaceForMessageType type = (if type = RTM_NEWLINK \<or> type = RTM_GETLINK then sizeof_nlmsghdr + sizeof_ifinfomsg else 0)"

text \<open>The constructor writes the header into the memory of the message, which an unknown type leaves without room.\<close>

definition NetlinkMessage_new :: "nat \<Rightarrow> nat \<Rightarrow> nat \<Rightarrow> bytes option" where
  "NetlinkMessage_new type sequence pid =
     (let n = getSpaceForMessageType type in
      if n < sizeof_nlmsghdr then None
      else Some (nat_to_le 4 n @ nat_to_le 2 type @ nat_to_le 2 NLM_F_REQUEST @ nat_to_le 4 sequence @ nat_to_le 4 pid @
        replicate (n - sizeof_nlmsghdr) 0))"

text \<open>The sequence number of a message, which lies in its bytes 8 to 11.\<close>

definition message_sequence :: "bytes \<Rightarrow> nat option" where
  "message_sequence m = (if length m < 12 then None else Some (nlmsg_seq m))"

text \<open>\<^verbatim>\<open>nlmsg_find_attr\<close>: where the attribute starts in the message and the length in its header, of four bytes. The size that the
  caller passes is replaced by that length.\<close>

type_synonym find_attr = "bytes \<Rightarrow> nat \<Rightarrow> (nat \<times> nat) option"

definition NLA_HDRLEN :: nat where "NLA_HDRLEN = 4"

definition getAttribute :: "find_attr \<Rightarrow> nat \<Rightarrow> bytes \<Rightarrow> bytes \<Rightarrow> (bool \<times> bytes) option" where
  "getAttribute nlmsg_find_attr attributeId message data =
     (case nlmsg_find_attr message attributeId of
        None \<Rightarrow> Some (False, data)
      | Some (attr, nla_len) \<Rightarrow>
          if attr + NLA_HDRLEN + nla_len \<le> length message \<and> nla_len \<le> length data
          then Some (True, take nla_len (drop (attr + NLA_HDRLEN) message) @ drop nla_len data)
          else None)"

section \<open>Requests and replies\<close>

text \<open>The handler of a reply is the number that the framework gave the request. \<open>answered\<close> are the sequence numbers of the requests whose
  caller may go on, \<open>results\<close> the statistics handed to the framework (the request, packets sent, packets received).\<close>

record Netlink =
  mNextSequenceNumber :: u32
  mHandlers :: "nat \<rightharpoonup> nat"
  answered :: "nat list"
  results :: "(nat \<times> nat \<times> nat) list"

definition Netlink_new :: Netlink where
  "Netlink_new = \<lparr>mNextSequenceNumber = 1, mHandlers = Map.empty, answered = [], results = []\<rparr>"

definition getSequenceNumber :: "Netlink \<Rightarrow> nat \<times> Netlink" where
  "getSequenceNumber n = (unat (mNextSequenceNumber n), n\<lparr>mNextSequenceNumber := mNextSequenceNumber n + 1\<rparr>)"

text \<open>What \<^verbatim>\<open>send\<close> returns, again and again while it is interrupted: a number of bytes, or an error with whether it was an interrupt. The result
  is \<open>None\<close> while no attempt was the last.\<close>

datatype send_result = Sent nat | Send_error bool

fun send_loop :: "nat \<Rightarrow> send_result list \<Rightarrow> bool option" where
  "send_loop nbytes [] = None"
| "send_loop nbytes (Sent k # rs) = Some (0 < k \<and> k = nbytes)"
| "send_loop nbytes (Send_error interrupted # rs) = (if interrupted then send_loop nbytes rs else Some False)"

definition sendMessage :: "bytes \<Rightarrow> nat \<Rightarrow> send_result list \<Rightarrow> Netlink \<Rightarrow> bool option \<times> Netlink" where
  "sendMessage message handler sends n =
     (let s = nlmsg_seq message; n = n\<lparr>mHandlers := (mHandlers n)(s \<mapsto> handler)\<rparr> in
      case send_loop (length message) sends of
        Some False \<Rightarrow> (Some False, n\<lparr>mHandlers := (mHandlers n)(s := None)\<rparr>)
      | r \<Rightarrow> (r, n))"

definition IFLA_STATS :: nat where "IFLA_STATS = 7"
definition IFLA_STATS64 :: nat where "IFLA_STATS64 = 23"

text \<open>The structures that the statistics are copied to, as their memory before the copy. They begin with the numbers of packets received and
  sent.\<close>

record stats_mem =
  netlinkStats64 :: bytes
  netlinkStats :: bytes

definition onLinkStatsReply :: "find_attr \<Rightarrow> stats_mem \<Rightarrow> nat \<Rightarrow> bytes \<Rightarrow> Netlink \<Rightarrow> Netlink option" where
  "onLinkStatsReply nlmsg_find_attr mem requestId message n =
     (if length message < sizeof_nlmsghdr + sizeof_ifinfomsg then Some n
      else if nlmsg_type message \<noteq> RTM_NEWLINK then Some n
      else do {
        (ok64, d64) \<leftarrow> getAttribute nlmsg_find_attr IFLA_STATS64 message (netlinkStats64 mem);
        if ok64 then Some (n\<lparr>results := results n @ [(requestId, le_at 8 8 d64, le_at 0 8 d64)]\<rparr>)
        else do {
          (ok32, d32) \<leftarrow> getAttribute nlmsg_find_attr IFLA_STATS message (netlinkStats mem);
          Some (if ok32 then n\<lparr>results := results n @ [(requestId, le_at 4 4 d32, le_at 0 4 d32)]\<rparr> else n) } })"

text \<open>The callback that \<^verbatim>\<open>getLinkStats\<close> registers hands the reply on and then releases the caller.\<close>

definition notifyHandler :: "find_attr \<Rightarrow> stats_mem \<Rightarrow> bytes \<Rightarrow> Netlink \<Rightarrow> Netlink option" where
  "notifyHandler nlmsg_find_attr mem message n = do {
     s \<leftarrow> message_sequence message;
     case mHandlers n s of
       None \<Rightarrow> Some n
     | Some requestId \<Rightarrow> do {
         n \<leftarrow> onLinkStatsReply nlmsg_find_attr mem requestId message (n\<lparr>mHandlers := (mHandlers n)(s := None)\<rparr>);
         Some (n\<lparr>answered := answered n @ [s]\<rparr>) } }"

text \<open>The messages of one datagram. A message without room for its sequence number faults in \<^verbatim>\<open>notifyHandler\<close>, so that the loop advances.\<close>

function read_messages :: "find_attr \<Rightarrow> stats_mem \<Rightarrow> bytes \<Rightarrow> Netlink \<Rightarrow> (bool \<times> Netlink) option" where
  "read_messages nlmsg_find_attr mem data n =
     (if data = [] then Some (True, n)
      else if length data < sizeof_nlmsghdr then Some (False, n)
      else if length data < nlmsg_len data then Some (False, n)
      else if nlmsg_type data = NLMSG_ERROR then Some (False, n)
      else if nlmsg_len data < 12 then None
      else Option.bind (notifyHandler nlmsg_find_attr mem (take (nlmsg_len data) data) n)
        (read_messages nlmsg_find_attr mem (drop (nlmsg_len data) data)))"
  by pat_completeness auto
termination by (relation "measure (\<lambda>(fa, mem, data, n). length data)") auto

declare read_messages.simps [simp del]

text \<open>\<^verbatim>\<open>recv\<close> is tried again while it is interrupted and then fails, which is \<open>None\<close>, or fills at most the 8 KiB of the buffer.\<close>

definition readNetlinkMessage :: "find_attr \<Rightarrow> stats_mem \<Rightarrow> bytes option \<Rightarrow> Netlink \<Rightarrow> (bool \<times> Netlink) option" where
  "readNetlinkMessage nlmsg_find_attr mem received n =
     (case received of None \<Rightarrow> Some (False, n) | Some data \<Rightarrow> read_messages nlmsg_find_attr mem (take (8 * 1024) data) n)"

section \<open>The interface\<close>

datatype wifi_error = WIFI_SUCCESS | WIFI_ERROR_UNKNOWN | WIFI_ERROR_INVALID_ARGS | WIFI_ERROR_NOT_SUPPORTED

text \<open>The request for the statistics of the interface. The result of sending it, its sequence number and the state: when it was sent, the caller
  waits for the callback.\<close>

definition link_request :: "nat \<Rightarrow> nat \<Rightarrow> nat \<Rightarrow> bytes" where
  "link_request index sequence pid =
     (case NetlinkMessage_new RTM_GETLINK sequence pid of
        None \<Rightarrow> []
      | Some m \<Rightarrow> take sizeof_nlmsghdr m @ [0, 0] @ nat_to_le 2 1 @ nat_to_le 4 index @ nat_to_le 4 0 @ replicate 4 0xFF)"

definition getLinkStats :: "nat \<Rightarrow> nat \<Rightarrow> nat \<Rightarrow> send_result list \<Rightarrow> Netlink \<Rightarrow> bool option \<times> nat \<times> Netlink" where
  "getLinkStats index pid requestId sends n =
     (case getSequenceNumber n of (sequence, n) \<Rightarrow>
        (case sendMessage (link_request index sequence pid) requestId sends n of (success, n) \<Rightarrow> (success, sequence, n)))"

text \<open>What the call returns, \<open>None\<close> while it waits.\<close>

definition getLinkStats_result :: "bool option \<Rightarrow> nat \<Rightarrow> Netlink \<Rightarrow> wifi_error option" where
  "getLinkStats_result success sequence n =
     (case success of
        None \<Rightarrow> None
      | Some ok \<Rightarrow> if \<not> ok then Some WIFI_ERROR_UNKNOWN else if sequence \<in> set (answered n) then Some WIFI_SUCCESS else None)"

definition k2p4Channels :: "nat list" where
  "k2p4Channels = [2412, 2417, 2422, 2427, 2432, 2437, 2442, 2447, 2452, 2457, 2462, 2467, 2472, 2484]"

definition WIFI_BAND_BG :: int where "WIFI_BAND_BG = 1"

text \<open>The memory of the channels is bytes, four for each; \<open>numChannels\<close> bytes of them are copied.\<close>

definition getValidChannels :: "int \<Rightarrow> int \<Rightarrow> bytes option \<Rightarrow> nat option \<Rightarrow> (wifi_error \<times> bytes option \<times> nat option) option" where
  "getValidChannels band maxChannels channels numChannels =
     (case channels of
        None \<Rightarrow> Some (WIFI_ERROR_INVALID_ARGS, channels, numChannels)
      | Some mem \<Rightarrow>
          if numChannels = None \<or> maxChannels < 0 then Some (WIFI_ERROR_INVALID_ARGS, channels, numChannels)
          else if band = WIFI_BAND_BG then
            (let k = min (nat maxChannels) (length k2p4Channels) in
             if length mem < k then None
             else Some (WIFI_SUCCESS, Some (take k (concat (map (nat_to_le 4) k2p4Channels)) @ drop k mem), Some k))
          else Some (WIFI_ERROR_NOT_SUPPORTED, channels, numChannels))"

text \<open>Copying a string to memory of \<open>capacity\<close> bytes, a fault when it does not fit; the bound that the call checks is what the caller says it has.\<close>

definition copy_string :: "string \<Rightarrow> bytes \<Rightarrow> bytes option" where
  "copy_string str mem =
     (if length mem < length str + 1 then None else Some (map (word_of_nat \<circ> of_char) str @ [0] @ drop (length str + 1) mem))"

definition getName :: "string \<Rightarrow> bytes \<Rightarrow> nat \<Rightarrow> (wifi_error \<times> bytes) option" where
  "getName mName name sz =
     (if sz < length mName + 1 then Some (WIFI_ERROR_INVALID_ARGS, name) else map_option (Pair WIFI_SUCCESS) (copy_string mName name))"

definition kFirmwareVersion :: string where "kFirmwareVersion = ''1.0''"
definition kDriverVersion :: string where "kDriverVersion = ''1.0''"

definition getFirmwareVersion :: "bytes \<Rightarrow> nat \<Rightarrow> (wifi_error \<times> bytes) option" where
  "getFirmwareVersion buffer sz =
     (if sz < length kFirmwareVersion + 1 then Some (WIFI_ERROR_INVALID_ARGS, buffer)
      else map_option (Pair WIFI_SUCCESS) (copy_string kFirmwareVersion buffer))"

definition getDriverVersion :: "bytes \<Rightarrow> nat \<Rightarrow> (wifi_error \<times> bytes) option" where
  "getDriverVersion buffer sz =
     (if sz < length kDriverVersion + 1 then Some (WIFI_ERROR_INVALID_ARGS, buffer)
      else map_option (Pair WIFI_SUCCESS) (copy_string kDriverVersion buffer))"

text \<open>A pointer is \<open>None\<close> when it is null and the value it points to otherwise. The status of a ring is its name here; the rest of it is zero.\<close>

definition getSupportedFeatureSet :: "nat option \<Rightarrow> wifi_error \<times> nat option" where
  "getSupportedFeatureSet p = (case p of None \<Rightarrow> (WIFI_ERROR_INVALID_ARGS, None) | Some _ \<Rightarrow> (WIFI_SUCCESS, Some 0))"

definition getLoggerSupportedFeatureSet :: "nat option \<Rightarrow> wifi_error \<times> nat option" where
  "getLoggerSupportedFeatureSet p = (case p of None \<Rightarrow> (WIFI_ERROR_INVALID_ARGS, None) | Some _ \<Rightarrow> (WIFI_SUCCESS, Some 0))"

definition getTxPacketFates :: "nat option \<Rightarrow> wifi_error \<times> nat option" where
  "getTxPacketFates p = (case p of None \<Rightarrow> (WIFI_ERROR_INVALID_ARGS, None) | Some _ \<Rightarrow> (WIFI_SUCCESS, Some 0))"

definition getRxPacketFates :: "nat option \<Rightarrow> wifi_error \<times> nat option" where
  "getRxPacketFates p = (case p of None \<Rightarrow> (WIFI_ERROR_INVALID_ARGS, None) | Some _ \<Rightarrow> (WIFI_SUCCESS, Some 0))"

definition getPacketFilterCapabilities :: "nat option \<Rightarrow> nat option \<Rightarrow> wifi_error \<times> nat option \<times> nat option" where
  "getPacketFilterCapabilities version maxLength =
     (if version = None \<or> maxLength = None then (WIFI_ERROR_INVALID_ARGS, version, maxLength) else (WIFI_SUCCESS, Some 0, Some 0))"

definition clearLinkStats :: "nat option \<Rightarrow> nat option \<Rightarrow> wifi_error" where
  "clearLinkStats responseMask response = (if responseMask = None \<or> response = None then WIFI_ERROR_INVALID_ARGS else WIFI_SUCCESS)"

definition getRingBuffersStatus :: "nat option \<Rightarrow> string option \<Rightarrow> wifi_error \<times> nat option \<times> string option" where
  "getRingBuffersStatus numRings status =
     (if numRings = None \<or> status = None \<or> numRings = Some 0 then (WIFI_ERROR_INVALID_ARGS, numRings, status)
      else (WIFI_SUCCESS, Some 1, Some ''ring0''))"

text \<open>The entry points of the HAL on the interface, which check the handle. The sizes of the version buffers are \<^verbatim>\<open>int\<close>s that become
  \<^verbatim>\<open>size_t\<close>.\<close>

definition wifi_get_iface_name :: "string option \<Rightarrow> bytes option \<Rightarrow> nat \<Rightarrow> (wifi_error \<times> bytes) option" where
  "wifi_get_iface_name handle name sz =
     (case handle of
        None \<Rightarrow> Some (WIFI_ERROR_INVALID_ARGS, case name of None \<Rightarrow> [] | Some mem \<Rightarrow> mem)
      | Some mName \<Rightarrow> if name = None \<and> 0 < sz then Some (WIFI_ERROR_INVALID_ARGS, []) else getName mName (case name of None \<Rightarrow> [] | Some mem \<Rightarrow> mem) sz)"

definition wifi_get_firmware_version :: "bool \<Rightarrow> bytes \<Rightarrow> int \<Rightarrow> (wifi_error \<times> bytes) option" where
  "wifi_get_firmware_version handle buffer buffer_size =
     (if \<not> handle then Some (WIFI_ERROR_INVALID_ARGS, buffer) else getFirmwareVersion buffer (unat (word_of_int buffer_size :: u64)))"

definition wifi_get_driver_version :: "bool \<Rightarrow> bytes \<Rightarrow> int \<Rightarrow> (wifi_error \<times> bytes) option" where
  "wifi_get_driver_version handle buffer buffer_size =
     (if \<not> handle then Some (WIFI_ERROR_INVALID_ARGS, buffer) else getDriverVersion buffer (unat (word_of_int buffer_size :: u64)))"

definition wifi_get_valid_channels ::
    "bool \<Rightarrow> int \<Rightarrow> int \<Rightarrow> bytes option \<Rightarrow> nat option \<Rightarrow> (wifi_error \<times> bytes option \<times> nat option) option" where
  "wifi_get_valid_channels handle band max_channels channels num_channels =
     (if \<not> handle then Some (WIFI_ERROR_INVALID_ARGS, channels, num_channels)
      else getValidChannels band max_channels channels num_channels)"

end
