(* ===== verification/Wifi_Netlink_Props.thy ===== *)
theory Wifi_Netlink_Props
  imports Wifi_Netlink
begin

text \<open>
  What holds of the requests of the Wi-Fi HAL: the bytes of a request, what one datagram of replies does, that every request sent is answered once or
  still registered, and the cases in which a caller waits for ever or memory is overrun.
\<close>

section \<open>Fields of a message\<close>

lemma le_at_append: "off + k \<le> length xs \<Longrightarrow> le_at off k (xs @ ys) = le_at off k xs"
  by (simp add: le_at_def)

lemma le_at_drop: "le_at a k (drop b bs) = le_at (b + a) k bs"
  by (simp add: le_at_def add.commute)

lemma le_at_take: "a + k \<le> b \<Longrightarrow> le_at a k (take b bs) = le_at a k bs"
  by (simp add: le_at_def drop_take min_def)

lemma length_link_request [simp]: "length (link_request index s pid) = 32"
  by (simp add: link_request_def NetlinkMessage_new_def getSpaceForMessageType_def RTM_GETLINK_def sizeof_nlmsghdr_def sizeof_ifinfomsg_def)

lemma seq_link_request: "s < 2 ^ 32 \<Longrightarrow> nlmsg_seq (link_request index s pid) = s"
  by (simp add: link_request_def NetlinkMessage_new_def getSpaceForMessageType_def RTM_GETLINK_def sizeof_nlmsghdr_def
      sizeof_ifinfomsg_def nlmsg_seq_def le_at_def le_to_nat_to_le)

section \<open>One datagram\<close>

text \<open>A message as the kernel writes it that does not report an error, and a reply whose statistics fit the memory they are copied to.\<close>

definition nl_message :: "bytes \<Rightarrow> bool" where
  "nl_message m \<longleftrightarrow> sizeof_nlmsghdr \<le> length m \<and> nlmsg_len m = length m \<and> nlmsg_type m \<noteq> NLMSG_ERROR"

definition attr_fits :: "(nat \<times> nat) \<Rightarrow> bytes \<Rightarrow> bytes \<Rightarrow> bool" where
  "attr_fits al m data \<longleftrightarrow> fst al + NLA_HDRLEN + snd al \<le> length m \<and> snd al \<le> length data"

definition reply_safe :: "find_attr \<Rightarrow> stats_mem \<Rightarrow> bytes \<Rightarrow> bool" where
  "reply_safe fa mem m \<longleftrightarrow>
     length m < sizeof_nlmsghdr + sizeof_ifinfomsg \<or> nlmsg_type m \<noteq> RTM_NEWLINK \<or>
     (case fa m IFLA_STATS64 of
        Some al \<Rightarrow> attr_fits al m (netlinkStats64 mem)
      | None \<Rightarrow> (case fa m IFLA_STATS of Some al \<Rightarrow> attr_fits al m (netlinkStats mem) | None \<Rightarrow> True))"

lemma reply_safe_iff: "reply_safe fa mem m \<longleftrightarrow> onLinkStatsReply fa mem r m n \<noteq> None"
  by (auto simp: reply_safe_def onLinkStatsReply_def getAttribute_def attr_fits_def split: option.splits prod.splits)

text \<open>A reply adds to the results only.\<close>

lemma onLinkStatsReply_frame:
  assumes "onLinkStatsReply fa mem r m n = Some n'"
  shows "mHandlers n' = mHandlers n" "answered n' = answered n" "mNextSequenceNumber n' = mNextSequenceNumber n"
  using assms
  by (auto simp: onLinkStatsReply_def getAttribute_def split: if_splits option.splits prod.splits bind_splits)

text \<open>What reading replies does to the handlers: some of them are called, each once, and erased.\<close>

definition handlers_called :: "nat list \<Rightarrow> Netlink \<Rightarrow> Netlink \<Rightarrow> bool" where
  "handlers_called A n n' \<longleftrightarrow>
     answered n' = answered n @ A \<and> distinct A \<and> set A \<subseteq> dom (mHandlers n) \<and> mHandlers n' = mHandlers n |` (- set A) \<and>
     mNextSequenceNumber n' = mNextSequenceNumber n"

lemma restrict_map_UNIV [simp]: "h |` UNIV = h"
  by (simp add: restrict_map_def)

lemma handlers_called_Nil [simp]: "handlers_called [] n n"
  by (simp add: handlers_called_def)

lemma handlers_called_trans:
  "handlers_called A n n' \<Longrightarrow> handlers_called B n' n'' \<Longrightarrow> handlers_called (A @ B) n n''"
  by (auto simp: handlers_called_def)

lemma notifyHandler_called:
  assumes "12 \<le> length m" and "notifyHandler fa mem m n = Some n'"
  shows "handlers_called (if nlmsg_seq m \<in> dom (mHandlers n) then [nlmsg_seq m] else []) n n'"
proof (cases "mHandlers n (nlmsg_seq m)")
  case None
  with assms show ?thesis by (simp add: notifyHandler_def message_sequence_def domIff)
next
  case (Some r)
  let ?n = "n\<lparr>mHandlers := (mHandlers n)(nlmsg_seq m := None)\<rparr>"
  from assms Some obtain n1 where reply: "onLinkStatsReply fa mem r m ?n = Some n1"
    and n': "n' = n1\<lparr>answered := answered n1 @ [nlmsg_seq m]\<rparr>"
    by (auto simp: notifyHandler_def message_sequence_def split: bind_splits)
  from onLinkStatsReply_frame [OF reply] Some n' show ?thesis
    by (auto simp: handlers_called_def restrict_map_def fun_eq_iff)
qed

lemma notifyHandler_safe:
  "12 \<le> length m \<Longrightarrow> reply_safe fa mem m \<Longrightarrow> \<exists>n'. notifyHandler fa mem m n = Some n'"
  by (auto simp: notifyHandler_def message_sequence_def bind_eq_Some_conv reply_safe_iff [of fa mem m "the (mHandlers n (nlmsg_seq m))"
        "n\<lparr>mHandlers := (mHandlers n)(nlmsg_seq m := None)\<rparr>"] split: option.splits)

lemma read_messages_called:
  "read_messages fa mem data n = Some (ok, n') \<Longrightarrow> \<exists>A. handlers_called A n n'"
proof (induction fa mem data n arbitrary: ok n' rule: read_messages.induct)
  case (1 fa mem data n)
  show ?case
  proof (cases "data = [] \<or> length data < sizeof_nlmsghdr \<or> length data < nlmsg_len data \<or> nlmsg_type data = NLMSG_ERROR")
    case True
    with "1.prems" have "n' = n" by (subst (asm) read_messages.simps) (auto split: if_splits)
    then show ?thesis using handlers_called_Nil by blast
  next
    case False
    with "1.prems" obtain n1 where len: "12 \<le> nlmsg_len data"
      and notify: "notifyHandler fa mem (take (nlmsg_len data) data) n = Some n1"
      and rest: "read_messages fa mem (drop (nlmsg_len data) data) n1 = Some (ok, n')"
      by (subst (asm) read_messages.simps) (auto split: if_splits bind_splits)
    from False len have "12 \<le> length (take (nlmsg_len data) data)" by auto
    from notifyHandler_called [OF this notify] obtain A where "handlers_called A n n1" by blast
    moreover have "\<exists>B. handlers_called B n1 n'"
      by (rule "1.IH" [OF _ _ _ _ _ notify rest]) (use False len in auto)
    ultimately show ?thesis using handlers_called_trans by blast
  qed
qed

lemma read_messages_Cons:
  assumes "nl_message m"
  shows "read_messages fa mem (m @ rest) n = Option.bind (notifyHandler fa mem m n) (read_messages fa mem rest)"
proof -
  from assms have "nlmsg_len (m @ rest) = length m" "nlmsg_type (m @ rest) = nlmsg_type m" "16 \<le> length m"
    by (auto simp: nl_message_def nlmsg_len_def nlmsg_type_def le_at_append sizeof_nlmsghdr_def)
  with assms show ?thesis
    by (subst read_messages.simps) (auto simp: nl_message_def sizeof_nlmsghdr_def)
qed

lemma read_messages_Nil [simp]: "read_messages fa mem [] n = Some (True, n)"
  by (subst read_messages.simps) simp

lemma read_messages_concat:
  assumes "\<forall>m\<in>set ms. nl_message m \<and> reply_safe fa mem m"
  shows "\<exists>n'. (\<forall>rest. read_messages fa mem (concat ms @ rest) n = read_messages fa mem rest n') \<and>
    set (answered n') = set (answered n) \<union> (nlmsg_seq ` set ms \<inter> dom (mHandlers n)) \<and>
    mHandlers n' = mHandlers n |` (- nlmsg_seq ` set ms)"
  using assms
proof (induction ms arbitrary: n)
  case Nil
  then show ?case by auto
next
  case (Cons m ms)
  then have m: "nl_message m" "reply_safe fa mem m" "12 \<le> length m" by (auto simp: nl_message_def sizeof_nlmsghdr_def)
  obtain n1 where n1: "notifyHandler fa mem m n = Some n1" using notifyHandler_safe [OF m(3,2)] by blast
  have called: "handlers_called (if nlmsg_seq m \<in> dom (mHandlers n) then [nlmsg_seq m] else []) n n1"
    by (rule notifyHandler_called [OF m(3) n1])
  from Cons obtain n' where n': "\<forall>rest. read_messages fa mem (concat ms @ rest) n1 = read_messages fa mem rest n'"
    "set (answered n') = set (answered n1) \<union> (nlmsg_seq ` set ms \<inter> dom (mHandlers n1))"
    "mHandlers n' = mHandlers n1 |` (- nlmsg_seq ` set ms)"
    by (metis list.set_intros(2))
  have "\<forall>rest. read_messages fa mem (concat (m # ms) @ rest) n = read_messages fa mem rest n'"
    using m n1 n'(1) by (simp add: read_messages_Cons)
  moreover have "mHandlers n' = mHandlers n |` (- nlmsg_seq ` set (m # ms))"
    using called n'(3) by (auto simp: handlers_called_def restrict_map_def fun_eq_iff split: if_splits)
  moreover have "set (answered n') = set (answered n) \<union> (nlmsg_seq ` set (m # ms) \<inter> dom (mHandlers n))"
    using called n'(2) by (auto simp: handlers_called_def split: if_splits)
  ultimately show ?case by blast
qed

text \<open>An error message ends the reading of a datagram with whatever follows it.\<close>

lemma read_messages_error:
  assumes "sizeof_nlmsghdr \<le> length e" and "nlmsg_len e \<le> length e" and "nlmsg_type e = NLMSG_ERROR"
  shows "read_messages fa mem (e @ rest) n = Some (False, n)"
proof -
  have "nlmsg_len (e @ rest) = nlmsg_len e" "nlmsg_type (e @ rest) = nlmsg_type e"
    using assms(1) by (simp_all add: nlmsg_len_def nlmsg_type_def le_at_append sizeof_nlmsghdr_def)
  with assms show ?thesis by (subst read_messages.simps) (auto simp: sizeof_nlmsghdr_def)
qed

section \<open>The life of a request\<close>

text \<open>A call of \<^verbatim>\<open>getLinkStats\<close> takes the next number and leaves its handler registered exactly if the request was sent.\<close>

lemma getLinkStats_sent:
  assumes "getLinkStats index pid r sends n = (Some ok, s, n')"
  shows "s = unat (mNextSequenceNumber n)"
    and "n' = n\<lparr>mNextSequenceNumber := mNextSequenceNumber n + 1, mHandlers := (mHandlers n)(s := (if ok then Some r else None))\<rparr>"
proof -
  show s: "s = unat (mNextSequenceNumber n)"
    using assms by (auto simp: getLinkStats_def getSequenceNumber_def split: prod.splits)
  have seq: "nlmsg_seq (link_request index s pid) = s"
    unfolding s using unsigned_less [where 'b = 32, of "mNextSequenceNumber n"] by (intro seq_link_request) simp
  show "n' = n\<lparr>mNextSequenceNumber := mNextSequenceNumber n + 1, mHandlers := (mHandlers n)(s := (if ok then Some r else None))\<rparr>"
    using assms seq [unfolded s] s
    by (auto simp: getLinkStats_def getSequenceNumber_def sendMessage_def Let_def split: prod.splits option.splits bool.splits)
qed

text \<open>The HAL as a transition system: calls that return from \<^verbatim>\<open>sendMessage\<close> and datagrams that are read without a fault, in any order.
  \<open>sent\<close> are the sequence numbers of the requests that were sent, \<open>issued\<close> counts the calls.\<close>

record nl_run =
  link :: Netlink
  sent :: "nat list"
  issued :: nat

definition nl_init :: "nl_run \<Rightarrow> bool" where
  "nl_init r \<longleftrightarrow> r = \<lparr>link = Netlink_new, sent = [], issued = 0\<rparr>"

inductive nl_step :: "find_attr \<Rightarrow> stats_mem \<Rightarrow> nl_run \<Rightarrow> nl_run \<Rightarrow> bool" for fa mem where
  request: "getLinkStats index pid rid sends (link r) = (Some ok, s, n) \<Longrightarrow>
    nl_step fa mem r (r\<lparr>link := n, sent := (if ok then sent r @ [s] else sent r), issued := Suc (issued r)\<rparr>)"
| datagram: "readNetlinkMessage fa mem d (link r) = Some (ok, n) \<Longrightarrow> nl_step fa mem r (r\<lparr>link := n\<rparr>)"

definition accounted :: "nl_run \<Rightarrow> bool" where
  "accounted r \<longleftrightarrow>
     distinct (sent r) \<and> distinct (answered (link r)) \<and> set (answered (link r)) \<inter> dom (mHandlers (link r)) = {} \<and>
     set (sent r) = set (answered (link r)) \<union> dom (mHandlers (link r))"

definition nl_inv :: "nl_run \<Rightarrow> bool" where
  "nl_inv r \<longleftrightarrow>
     mNextSequenceNumber (link r) = word_of_nat (Suc (issued r)) \<and>
     (issued r < 2 ^ 32 \<longrightarrow> accounted r \<and> (\<forall>s\<in>set (sent r). s \<le> issued r))"

lemma nl_inv_request:
  assumes "getLinkStats index pid rid sends (link r) = (Some ok, s, n)" and inv: "nl_inv r"
  shows "nl_inv (r\<lparr>link := n, sent := (if ok then sent r @ [s] else sent r), issued := Suc (issued r)\<rparr>)" (is "nl_inv ?t")
proof -
  note call = getLinkStats_sent [OF assms(1)]
  have "accounted ?t \<and> (\<forall>x\<in>set (sent ?t). x \<le> issued ?t)" if bound: "Suc (issued r) < 2 ^ 32"
  proof -
    from inv bound have acc: "accounted r" and old: "\<forall>x\<in>set (sent r). x \<le> issued r"
      and s: "s = Suc (issued r)"
      using call(1) by (auto simp: nl_inv_def unsigned_of_nat take_bit_nat_eq_self simp del: of_nat_Suc)
    have fresh: "s \<notin> set (sent r)" using old s by auto
    have "\<forall>x\<in>set (sent ?t). x \<le> issued ?t" using old s by (auto intro: le_SucI)
    moreover have "accounted ?t" using acc fresh unfolding call(2) accounted_def by auto
    ultimately show ?thesis by blast
  qed
  moreover have "mNextSequenceNumber n = word_of_nat (Suc (Suc (issued r)))"
    using inv call(2) by (simp add: nl_inv_def)
  ultimately show ?thesis by (simp add: nl_inv_def)
qed

lemma nl_inv_datagram:
  assumes "readNetlinkMessage fa mem d (link r) = Some (ok, n)" and inv: "nl_inv r"
  shows "nl_inv (r\<lparr>link := n\<rparr>)"
proof -
  have "\<exists>A. handlers_called A (link r) n"
  proof (cases d)
    case None
    with assms(1) show ?thesis by (auto simp: readNetlinkMessage_def intro: exI [of _ "[]"])
  next
    case (Some data)
    with assms(1) show ?thesis by (auto simp: readNetlinkMessage_def dest: read_messages_called)
  qed
  then obtain A where "handlers_called A (link r) n" ..
  with inv show ?thesis
    by (auto simp: nl_inv_def accounted_def handlers_called_def)
qed

interpretation netlink: invariant_system nl_init "nl_step fa mem" nl_inv for fa mem
proof unfold_locales
  show "nl_inv r" if "nl_init r" for r
    using that by (simp add: nl_init_def nl_inv_def accounted_def Netlink_new_def)
  show "nl_inv t" if "nl_step fa mem r t" "nl_inv r" for r t
    using that by (induction rule: nl_step.induct) (rule nl_inv_request, assumption+, rule nl_inv_datagram, assumption+)
qed

section \<open>Properties\<close>

lemma accounted_unfold:
  "accounted r \<Longrightarrow>
     distinct (sent r) \<and> distinct (answered (link r)) \<and> set (answered (link r)) \<inter> dom (mHandlers (link r)) = {} \<and>
     set (sent r) = set (answered (link r)) \<union> dom (mHandlers (link r))"
  by (simp add: accounted_def)

text \<open>
  Property C13: Requests of the Wi-Fi HAL are neither lost nor answered twice. After any sequence of calls and datagrams, with fewer than \<open>2 ^ 32\<close>
  calls so that the sequence numbers have not wrapped, the requests that were sent are the ones answered, each once, and the ones whose handler
  is still registered, and no request is both.
\<close>

theorem netlink_requests_accounted:
  assumes "nl_init r" and "(nl_step fa mem)\<^sup>*\<^sup>* r t" and "issued t < 2 ^ 32"
  shows "distinct (sent t) \<and> distinct (answered (link t)) \<and> set (answered (link t)) \<inter> dom (mHandlers (link t)) = {} \<and>
    set (sent t) = set (answered (link t)) \<union> dom (mHandlers (link t))"
  using netlink.reachable_inv [OF assms(1,2)] assms(3) by (intro accounted_unfold) (simp add: nl_inv_def)

text \<open>A request that is sent, and a reply that is ignored by the handler but releases the caller.\<close>

definition witness_stats :: stats_mem where
  "witness_stats = \<lparr>netlinkStats64 = replicate 24 7, netlinkStats = replicate 12 7\<rparr>"

definition witness_reply :: "nat \<Rightarrow> nat \<Rightarrow> bytes \<Rightarrow> bytes" where
  "witness_reply type s payload =
     nat_to_le 4 (16 + length payload) @ nat_to_le 2 type @ nat_to_le 2 0 @ nat_to_le 4 s @ nat_to_le 4 0 @ payload"

definition witness_request :: nl_run where
  "witness_request = \<lparr>link = snd (snd (getLinkStats 3 99 5 [Send_error True, Sent 32] Netlink_new)), sent = [1], issued = 1\<rparr>"

lemma witness_request_step:
  "nl_step fa mem \<lparr>link = Netlink_new, sent = [], issued = 0\<rparr> witness_request"
  using request [of 3 99 5 "[Send_error True, Sent 32]" "\<lparr>link = Netlink_new, sent = [], issued = 0\<rparr>" True 1
      "link witness_request" fa mem]
  by (simp add: witness_request_def getLinkStats_def getSequenceNumber_def Netlink_new_def sendMessage_def Let_def)

lemma netlink_requests_accounted_witness:
  "issued witness_request = 1 \<and> distinct (sent witness_request) \<and>
    set (sent witness_request) = set (answered (link witness_request)) \<union> dom (mHandlers (link witness_request))"
  using netlink_requests_accounted [of "\<lparr>link = Netlink_new, sent = [], issued = 0\<rparr>" "\<lambda>m a. None" witness_stats witness_request]
    r_into_rtranclp [of "nl_step (\<lambda>m a. None) witness_stats", OF witness_request_step]
  by (simp add: nl_init_def) (simp add: witness_request_def)

text \<open>
  One datagram of replies is processed to its end. When the datagram fits the buffer and consists of messages as the kernel writes
  them, none an error and each with statistics that fit the memory they are copied to, then reading it succeeds, the requests whose
  sequence numbers occur in it and that are outstanding are answered, and exactly their handlers are erased.
\<close>

lemma datagram_answers_requests:
  assumes "\<forall>m\<in>set ms. nl_message m \<and> reply_safe fa mem m" and "length (concat ms) \<le> 8 * 1024"
  shows "\<exists>n'. readNetlinkMessage fa mem (Some (concat ms)) n = Some (True, n') \<and>
    set (answered n') = set (answered n) \<union> (nlmsg_seq ` set ms \<inter> dom (mHandlers n)) \<and>
    mHandlers n' = mHandlers n |` (- nlmsg_seq ` set ms)"
  using read_messages_concat [OF assms(1), of n] assms(2)
  by (auto simp: readNetlinkMessage_def simp del: length_concat dest: spec [of _ "[]"])

lemma datagram_answers_requests_witness:
  "\<exists>n'. readNetlinkMessage (\<lambda>m a. None) witness_stats (Some (concat [witness_reply 3 1 [], witness_reply 16 2 (replicate 16 0)]))
      (Netlink_new\<lparr>mHandlers := [1 \<mapsto> 5, 4 \<mapsto> 6]\<rparr>) = Some (True, n') \<and> set (answered n') = {1} \<and> mHandlers n' 4 = Some 6"
  using datagram_answers_requests [of "[witness_reply 3 1 [], witness_reply 16 2 (replicate 16 0)]" "\<lambda>m a. None" witness_stats
      "Netlink_new\<lparr>mHandlers := [1 \<mapsto> 5, 4 \<mapsto> 6]\<rparr>"]
  by (auto simp: witness_reply_def nl_message_def reply_safe_def nlmsg_len_def nlmsg_type_def nlmsg_seq_def le_at_def le_to_nat_to_le
      sizeof_nlmsghdr_def sizeof_ifinfomsg_def NLMSG_ERROR_def RTM_NEWLINK_def Netlink_new_def)

text \<open>
  Property C33: An error of the kernel strands its caller. An error message ends the reading of the datagram without calling the handler of the
  request it answers: every request outstanding before the datagram that no message before the error answers keeps its handler, is
  not answered, and its \<^verbatim>\<open>getLinkStats\<close> goes on waiting, whatever follows the error in the datagram.
\<close>

theorem error_reply_strands_callers:
  assumes "\<forall>m\<in>set ms. nl_message m \<and> reply_safe fa mem m" and "length (concat ms @ e @ rest) \<le> 8 * 1024"
    and "sizeof_nlmsghdr \<le> length e" and "nlmsg_len e \<le> length e" and "nlmsg_type e = NLMSG_ERROR"
    and "s \<in> dom (mHandlers n)" and "s \<notin> set (answered n)" and "s \<notin> nlmsg_seq ` set ms"
  shows "\<exists>n'. readNetlinkMessage fa mem (Some (concat ms @ e @ rest)) n = Some (False, n') \<and>
    mHandlers n' s = mHandlers n s \<and> getLinkStats_result (Some True) s n' = None"
proof -
  obtain n' where n': "\<forall>rest. read_messages fa mem (concat ms @ rest) n = read_messages fa mem rest n'"
    "set (answered n') = set (answered n) \<union> (nlmsg_seq ` set ms \<inter> dom (mHandlers n))" "mHandlers n' = mHandlers n |` (- nlmsg_seq ` set ms)"
    using read_messages_concat [OF assms(1), of n] by blast
  have "readNetlinkMessage fa mem (Some (concat ms @ e @ rest)) n = Some (False, n')"
    using assms(2) n'(1) read_messages_error [OF assms(3-5)] by (simp add: readNetlinkMessage_def)
  then show ?thesis using n'(2,3) assms(6-8) by (auto simp: getLinkStats_result_def)
qed

lemma error_reply_strands_callers_witness:
  "\<exists>n'. readNetlinkMessage (\<lambda>m a. None) witness_stats
       (Some (concat [witness_reply 3 1 []] @ witness_reply 2 2 [0, 0, 0, 0] @ witness_reply 3 4 []))
       (Netlink_new\<lparr>mHandlers := [1 \<mapsto> 5, 2 \<mapsto> 6, 4 \<mapsto> 7]\<rparr>) = Some (False, n') \<and>
     mHandlers n' 2 = Some 6 \<and> getLinkStats_result (Some True) 2 n' = None"
  using error_reply_strands_callers [of "[witness_reply 3 1 []]" "\<lambda>m a. None" witness_stats "witness_reply 2 2 [0, 0, 0, 0]" "witness_reply 3 4 []"
      2 "Netlink_new\<lparr>mHandlers := [1 \<mapsto> 5, 2 \<mapsto> 6, 4 \<mapsto> 7]\<rparr>"]
  by (simp add: witness_reply_def nl_message_def reply_safe_def nlmsg_len_def nlmsg_type_def nlmsg_seq_def le_at_def le_to_nat_to_le
      sizeof_nlmsghdr_def sizeof_ifinfomsg_def NLMSG_ERROR_def RTM_NEWLINK_def Netlink_new_def)

text \<open>
  Property C34: The statistics in a reply are copied with the length in the header of their attribute, which counts the four bytes of the header too.
  When the attribute of the 64 bit statistics holds exactly the structure they are copied to, as the netlink protocol lays it out, the
  copy writes past the end of the structure, whatever the state: the reply to a request that is outstanding faults.
\<close>

theorem link_stats_copy_overruns:
  assumes "nl_message m" and "sizeof_nlmsghdr + sizeof_ifinfomsg \<le> length m" and "nlmsg_type m = RTM_NEWLINK"
    and "fa m IFLA_STATS64 = Some (attr, NLA_HDRLEN + length (netlinkStats64 mem))"
    and "nlmsg_seq m \<in> dom (mHandlers n)" and "length (m @ rest) \<le> 8 * 1024"
  shows "readNetlinkMessage fa mem (Some (m @ rest)) n = None"
proof -
  have "\<not> reply_safe fa mem m" using assms(2-4) by (simp add: reply_safe_def attr_fits_def NLA_HDRLEN_def)
  then have "onLinkStatsReply fa mem r m n' = None" for r n' using reply_safe_iff [of fa mem m r n'] by simp
  then have "notifyHandler fa mem m n = None"
    using assms(2,5) by (auto simp: notifyHandler_def message_sequence_def sizeof_nlmsghdr_def)
  then show ?thesis using assms(6) by (simp add: readNetlinkMessage_def read_messages_Cons [OF assms(1)])
qed

lemma link_stats_copy_overruns_witness:
  "readNetlinkMessage (\<lambda>m a. if a = IFLA_STATS64 then Some (32, 28) else None) witness_stats
     (Some (witness_reply 16 1 (replicate 16 0 @ [28, 0, 23, 0] @ replicate 24 9) @ [])) (Netlink_new\<lparr>mHandlers := [1 \<mapsto> 5]\<rparr>) = None"
  using link_stats_copy_overruns [of "witness_reply 16 1 (replicate 16 0 @ [28, 0, 23, 0] @ replicate 24 9)"
      "\<lambda>m a. if a = IFLA_STATS64 then Some (32, 28) else None" 32 witness_stats "Netlink_new\<lparr>mHandlers := [1 \<mapsto> 5]\<rparr>" "[]"]
  by (simp add: witness_reply_def witness_stats_def nl_message_def nlmsg_len_def nlmsg_type_def nlmsg_seq_def le_at_def le_to_nat_to_le
      sizeof_nlmsghdr_def sizeof_ifinfomsg_def NLMSG_ERROR_def RTM_NEWLINK_def NLA_HDRLEN_def Netlink_new_def)


lemma witness_request_sent: "getLinkStats 3 99 5 [Send_error True, Sent 32] Netlink_new = (Some True, 1, link witness_request)"
  by (simp add: witness_request_def getLinkStats_def getSequenceNumber_def Netlink_new_def sendMessage_def Let_def)


lemma channel_bytes: "i < 3 \<Longrightarrow> le_at (4 * i) 4 (concat (map (nat_to_le 4) k2p4Channels)) = k2p4Channels ! i"
  by (auto simp: less_Suc_eq numeral_3_eq_3 k2p4Channels_def le_at_def le_to_nat_to_le)

lemma length_channel_bytes: "length (concat (map (nat_to_le 4) k2p4Channels)) = 56"
  by (simp add: k2p4Channels_def)

text \<open>
  The list of valid channels is copied as far as as many bytes as it has channels. A call that succeeds reports the smaller of the
  caller's maximum and fourteen channels, but only a quarter of them, rounded down, are in the memory of the caller; every channel that
  lies past the bytes copied is what the caller had there.
\<close>

lemma valid_channels_copy:
  assumes "0 \<le> maxChannels" and "k = min (nat maxChannels) 14" and "4 * k \<le> length mem"
  shows "\<exists>mem'. wifi_get_valid_channels True WIFI_BAND_BG maxChannels (Some mem) (Some x) = Some (WIFI_SUCCESS, Some mem', Some k) \<and>
    (\<forall>i<k div 4. le_at (4 * i) 4 mem' = k2p4Channels ! i) \<and> (\<forall>i. k \<le> 4 * i \<longrightarrow> le_at (4 * i) 4 mem' = le_at (4 * i) 4 mem)"
proof (intro exI conjI allI impI)
  let ?mem' = "take k (concat (map (nat_to_le 4) k2p4Channels)) @ drop k mem"
  have k: "k = min (nat maxChannels) (length k2p4Channels)" "k \<le> 14" using assms(2) by (simp_all add: k2p4Channels_def)
  show "wifi_get_valid_channels True WIFI_BAND_BG maxChannels (Some mem) (Some x) = Some (WIFI_SUCCESS, Some ?mem', Some k)"
    using assms(1,3) by (simp add: wifi_get_valid_channels_def getValidChannels_def Let_def flip: k(1))
  show "le_at (4 * i) 4 ?mem' = k2p4Channels ! i" if "i < k div 4" for i
  proof -
    have "i < 3" "4 * i + 4 \<le> k" using that k(2) by auto
    then show ?thesis
      using k(2) by (simp add: le_at_append le_at_take channel_bytes length_channel_bytes del: length_concat)
  qed
  show "le_at (4 * i) 4 ?mem' = le_at (4 * i) 4 mem" if "k \<le> 4 * i" for i
    using that k(2) by (simp add: le_at_def length_channel_bytes del: length_concat)
qed

lemma valid_channels_copy_witness:
  "\<exists>mem'. wifi_get_valid_channels True WIFI_BAND_BG 4 (Some (replicate 16 0)) (Some 9) = Some (WIFI_SUCCESS, Some mem', Some 4) \<and>
    le_at 0 4 mem' = 2412 \<and> le_at 4 4 mem' = 0"
proof -
  obtain mem' where "wifi_get_valid_channels True WIFI_BAND_BG 4 (Some (replicate 16 0)) (Some 9) = Some (WIFI_SUCCESS, Some mem', Some 4)"
    and copied: "\<forall>i<4 div 4. le_at (4 * i) 4 mem' = k2p4Channels ! i"
    and kept: "\<forall>i. 4 \<le> 4 * i \<longrightarrow> le_at (4 * i) 4 mem' = le_at (4 * i) 4 (replicate 16 0)"
    using valid_channels_copy [of 4 4 "replicate 16 0" 9] by auto
  moreover have "le_at 0 4 mem' = 2412" using copied by (simp add: k2p4Channels_def)
  moreover have "le_at 4 4 mem' = 0" using kept [THEN spec [of _ 1]] by (simp add: le_at_def numeral_eq_Suc)
  ultimately show ?thesis by blast
qed

text \<open>A negative size of the buffer for a version becomes a huge one, so that the version is copied whatever the room.\<close>

lemma negative_version_size:
  assumes "- (2 ^ 31) \<le> buffer_size" and "buffer_size < 0" and "length buffer < 4"
  shows "wifi_get_firmware_version True buffer buffer_size = None" and "wifi_get_driver_version True buffer buffer_size = None"
proof -
  have "uint (word_of_int buffer_size :: u64) = buffer_size + 2 ^ 64"
    using assms(1,2) mod_pos_pos_trivial [of "buffer_size + 2 ^ 64" "2 ^ 64"] by (simp add: uint_word_of_int)
  then have "\<not> unat (word_of_int buffer_size :: u64) < 4"
    using assms(1) by (simp add: unat_eq_nat_uint)
  then show "wifi_get_firmware_version True buffer buffer_size = None" and "wifi_get_driver_version True buffer buffer_size = None"
    using assms(3) by (simp_all add: wifi_get_firmware_version_def wifi_get_driver_version_def getFirmwareVersion_def getDriverVersion_def
        copy_string_def kFirmwareVersion_def kDriverVersion_def)
qed

end
