(* ===== verification/Wifi_Hal_State.thy ===== *)
theory Wifi_Hal_State
  imports Wifi_Netlink
begin

text \<open>
  \<^verbatim>\<open>wifi/wifi_hal/halstate.cpp\<close>, \<^verbatim>\<open>info.cpp\<close>, the control pipe of \<^verbatim>\<open>netlink.cpp\<close> and the calls of \<^verbatim>\<open>wifi_hal.cpp\<close>
  that start and stop the HAL. Two threads share the state: the framework, which calls \<^verbatim>\<open>wifi_initialize\<close> and
  \<^verbatim>\<open>wifi_cleanup\<close>, and the thread that it lets run \<^verbatim>\<open>wifi_event_loop\<close>. What a thread does without the mutex of the state is split into the
  steps between which the other thread may run.
\<close>

section \<open>The state of the HAL\<close>

datatype State = Constructed | Initialized | Running | Stopping | Stopped

text \<open>Where the framework is in \<^verbatim>\<open>wifi_cleanup\<close>: outside of it, after \<^verbatim>\<open>mState = State::Stopping\<close>, after \<^verbatim>\<open>mStopHandler = handler\<close>, and in the
  wait for \<^verbatim>\<open>stopped\<close>. And where the other thread is in \<^verbatim>\<open>wifi_event_loop\<close>: outside of it, before \<^verbatim>\<open>mInfo->eventLoop()\<close>, at \<^verbatim>\<open>poll\<close>, with the copy of
  the stop handler in hand, and in \<^verbatim>\<open>HalState::onStop\<close> before \<^verbatim>\<open>mInfo.reset()\<close> and before \<^verbatim>\<open>mState = State::Stopped\<close>.\<close>

datatype api_pc = A_idle | A_requested | A_writing | A_waiting
datatype loop_pc = L_out | L_enter | L_poll | L_handler | L_reset | L_state

text \<open>\<open>mInfo\<close> says whether the object exists; \<open>mStopHandler\<close> and \<open>controlBytes\<close> belong to it and are new with it. \<open>stopped\<close> is the
  variable of the last call of \<^verbatim>\<open>wifi_cleanup\<close>, \<open>cleaned\<close> counts the calls of the framework's handler.\<close>

record HalState =
  mState :: State
  mInfo :: bool
  mStopHandler :: bool
  controlBytes :: nat
  stopped :: bool
  cleaned :: nat
  api :: api_pc
  loop :: loop_pc

definition HalState_new :: HalState where
  "HalState_new = \<lparr>mState = Constructed, mInfo = False, mStopHandler = False, controlBytes = 0, stopped = False, cleaned = 0,
     api = A_idle, loop = L_out\<rparr>"

section \<open>Starting\<close>

text \<open>\<^verbatim>\<open>Netlink::init\<close> on a new object: the results of creating the pipe and the socket and of binding it. \<^verbatim>\<open>Info::init\<close> then looks up the index of each
  interface, which is zero when there is none of the name.\<close>

definition Netlink_init :: "bool \<Rightarrow> bool \<Rightarrow> bool \<Rightarrow> bool" where
  "Netlink_init pipe2_ok socket_ok bind_ok = (if \<not> pipe2_ok then False else if \<not> socket_ok then False else bind_ok)"

definition Interface_init :: "nat \<Rightarrow> bool" where
  "Interface_init mInterfaceIndex = (mInterfaceIndex \<noteq> 0)"

definition kInterfaceName :: string where "kInterfaceName = ''wlan0''"

definition Info_init :: "bool \<Rightarrow> (string \<Rightarrow> nat) \<Rightarrow> bool" where
  "Info_init netlink_ok if_nametoindex = (netlink_ok \<and> list_all (\<lambda>name. Interface_init (if_nametoindex name)) [kInterfaceName])"

definition HalState_init :: "bool \<Rightarrow> HalState \<Rightarrow> bool \<times> HalState" where
  "HalState_init info_ok s =
     (if mState s \<noteq> Stopped \<and> mState s \<noteq> Constructed then (False, s)
      else if mInfo s then (False, s)
      else if info_ok then (True, s\<lparr>mInfo := True, mStopHandler := False, controlBytes := 0, mState := Initialized\<rparr>)
      else (False, s))"

definition wifi_initialize :: "bool \<Rightarrow> bool \<Rightarrow> HalState \<Rightarrow> wifi_error \<times> HalState" where
  "wifi_initialize handle info_ok s =
     (if \<not> handle then (WIFI_ERROR_INVALID_ARGS, s)
      else case HalState_init info_ok s of (ok, s) \<Rightarrow> (if ok then WIFI_SUCCESS else WIFI_ERROR_UNKNOWN, s))"

section \<open>Stopping\<close>

text \<open>The part of \<^verbatim>\<open>HalState::stop\<close> under the mutex: whether the stop goes on.\<close>

definition HalState_stop :: "HalState \<Rightarrow> bool \<times> HalState" where
  "HalState_stop s =
     (if mState s = Stopping \<or> mState s = Stopped then (False, s)
      else if mState s \<noteq> Running then (False, s\<lparr>mInfo := False, mState := Stopped\<rparr>)
      else (True, s\<lparr>mState := Stopping\<rparr>))"

text \<open>\<^verbatim>\<open>wifi_cleanup\<close> up to the first use of \<^verbatim>\<open>mInfo\<close>, or to its end when there is nothing to wait for.\<close>

definition wifi_cleanup :: "bool \<Rightarrow> HalState \<Rightarrow> HalState" where
  "wifi_cleanup handle s =
     (if \<not> handle then s
      else case HalState_stop s of (waits, s) \<Rightarrow>
        if waits then s\<lparr>stopped := False, api := A_requested\<rparr> else s\<lparr>cleaned := Suc (cleaned s)\<rparr>)"

definition Netlink_stop_handler :: "HalState \<Rightarrow> HalState" where
  "Netlink_stop_handler s = s\<lparr>mStopHandler := True, api := A_writing\<rparr>"

definition Netlink_stop_write :: "HalState \<Rightarrow> HalState" where
  "Netlink_stop_write s = s\<lparr>controlBytes := Suc (controlBytes s), api := A_waiting\<rparr>"

definition wifi_cleanup_wake :: "HalState \<Rightarrow> HalState" where
  "wifi_cleanup_wake s = (if stopped s then s\<lparr>api := A_idle, cleaned := Suc (cleaned s)\<rparr> else s)"

section \<open>The event loop\<close>

definition HalState_eventLoop :: "HalState \<Rightarrow> bool \<times> HalState" where
  "HalState_eventLoop s =
     (if mState s \<noteq> Initialized \<or> \<not> mInfo s then (False, s) else (True, s\<lparr>mState := Running, loop := L_enter\<rparr>))"

definition wifi_event_loop :: "bool \<Rightarrow> HalState \<Rightarrow> HalState" where
  "wifi_event_loop handle s = (if \<not> handle then s else snd (HalState_eventLoop s))"

text \<open>\<^verbatim>\<open>readControlMessage\<close>: the results of \<^verbatim>\<open>recv\<close> on the pipe, a number of bytes or an error with whether it was an interrupt; any other error, such as
  that of a descriptor that is not a socket, counts as a message. The result is whether there is a message and the bytes taken from the pipe.\<close>

datatype recv_result = Received nat | Recv_error bool

fun readControlMessage :: "recv_result list \<Rightarrow> (bool \<times> nat) option" where
  "readControlMessage [] = None"
| "readControlMessage (Received k # rs) = Some (k \<noteq> 0, k)"
| "readControlMessage (Recv_error interrupted # rs) = (if interrupted then readControlMessage rs else Some (True, 0))"

text \<open>The control pipe is readable: when there is a message, the handler is copied and called, or there is none and the loop ends.\<close>

definition loop_control :: "recv_result list \<Rightarrow> HalState \<Rightarrow> HalState option" where
  "loop_control recvs s =
     (case readControlMessage recvs of
        None \<Rightarrow> None
      | Some (message, taken) \<Rightarrow>
          Some (if message then s\<lparr>controlBytes := controlBytes s - taken, loop := (if mStopHandler s then L_handler else L_out)\<rparr> else s))"

text \<open>\<^verbatim>\<open>HalState::onStop\<close>: the lambda of \<^verbatim>\<open>wifi_cleanup\<close>, which needs the mutex that \<^verbatim>\<open>wifi_cleanup\<close> holds until it waits, the reset and the state.\<close>

definition onStop_handler :: "HalState \<Rightarrow> HalState" where "onStop_handler s = s\<lparr>stopped := True, loop := L_reset\<rparr>"
definition onStop_reset :: "HalState \<Rightarrow> HalState" where "onStop_reset s = s\<lparr>mInfo := False, loop := L_state\<rparr>"
definition onStop_state :: "HalState \<Rightarrow> HalState" where "onStop_state s = s\<lparr>mState := Stopped, loop := L_out\<rparr>"

text \<open>The interfaces of the HAL, one of them: a null \<^verbatim>\<open>mInfo\<close> is used as an object, a fault.\<close>

definition wifi_get_ifaces :: "bool \<Rightarrow> nat option \<Rightarrow> nat list option \<Rightarrow> HalState \<Rightarrow> (wifi_error \<times> nat option \<times> nat list option) option" where
  "wifi_get_ifaces handle num interfaces s =
     (if \<not> handle then Some (WIFI_ERROR_INVALID_ARGS, num, interfaces)
      else if num = None \<or> interfaces = None then Some (WIFI_ERROR_INVALID_ARGS, num, interfaces)
      else if \<not> mInfo s then None
      else Some (WIFI_SUCCESS, Some 1, Some [0]))"

section \<open>The two threads\<close>

inductive api_step :: "HalState \<Rightarrow> HalState \<Rightarrow> bool" where
  api_initialize: "api s = A_idle \<Longrightarrow> api_step s (snd (wifi_initialize handle info_ok s))"
| api_cleanup: "api s = A_idle \<Longrightarrow> api_step s (wifi_cleanup handle s)"
| api_handler: "api s = A_requested \<Longrightarrow> api_step s (Netlink_stop_handler s)"
| api_write: "api s = A_writing \<Longrightarrow> api_step s (Netlink_stop_write s)"
| api_wake: "api s = A_waiting \<Longrightarrow> api_step s (wifi_cleanup_wake s)"

inductive loop_step :: "HalState \<Rightarrow> HalState \<Rightarrow> bool" where
  loop_start: "loop s = L_out \<Longrightarrow> loop_step s (wifi_event_loop handle s)"
| loop_enter: "loop s = L_enter \<Longrightarrow> loop_step s (s\<lparr>loop := L_poll\<rparr>)"
| loop_readable: "loop s = L_poll \<Longrightarrow> 0 < controlBytes s \<Longrightarrow> loop_control recvs s = Some t \<Longrightarrow> loop_step s t"
| loop_handler: "loop s = L_handler \<Longrightarrow> api s = A_waiting \<Longrightarrow> loop_step s (onStop_handler s)"
| loop_reset: "loop s = L_reset \<Longrightarrow> loop_step s (onStop_reset s)"
| loop_state: "loop s = L_state \<Longrightarrow> loop_step s (onStop_state s)"

text \<open>\<^verbatim>\<open>poll\<close> fails for another reason than an interrupt.\<close>

inductive poll_fails :: "HalState \<Rightarrow> HalState \<Rightarrow> bool" where
  poll_error: "loop s = L_poll \<Longrightarrow> poll_fails s (s\<lparr>loop := L_out\<rparr>)"

inductive hal_step :: "HalState \<Rightarrow> HalState \<Rightarrow> bool" where
  step_api: "api_step s t \<Longrightarrow> hal_step s t"
| step_loop: "loop_step s t \<Longrightarrow> hal_step s t"
| step_poll: "poll_fails s t \<Longrightarrow> hal_step s t"

definition hal_init :: "HalState \<Rightarrow> bool" where "hal_init s \<longleftrightarrow> s = HalState_new"

text \<open>The points at which a thread is about to use the object of \<^verbatim>\<open>mInfo\<close>.\<close>

definition uses_info :: "HalState \<Rightarrow> bool" where
  "uses_info s \<longleftrightarrow> api s = A_requested \<or> api s = A_writing \<or> loop s = L_enter \<or> loop s = L_poll"

section \<open>The invariant\<close>

fun hal_inv_in :: "State \<Rightarrow> HalState \<Rightarrow> bool" where
  "hal_inv_in Constructed s = (\<not> mInfo s \<and> loop s = L_out \<and> api s = A_idle)"
| "hal_inv_in Initialized s = (mInfo s \<and> \<not> mStopHandler s \<and> controlBytes s = 0 \<and> loop s = L_out \<and> api s = A_idle)"
| "hal_inv_in Running s =
     (mInfo s \<and> \<not> mStopHandler s \<and> controlBytes s = 0 \<and> (loop s = L_out \<or> loop s = L_enter \<or> loop s = L_poll) \<and> api s = A_idle)"
| "hal_inv_in Stopping s =
     (if \<not> stopped s
      then mInfo s \<and> api s \<noteq> A_idle \<and> (api s = A_requested \<or> mStopHandler s) \<and>
        (loop s = L_handler \<and> api s = A_waiting \<or>
         (loop s = L_out \<or> loop s = L_enter \<or> loop s = L_poll) \<and> (api s = A_waiting \<longleftrightarrow> 0 < controlBytes s))
      else (api s = A_idle \<or> api s = A_waiting) \<and> (loop s = L_reset \<and> mInfo s \<or> loop s = L_state \<and> \<not> mInfo s))"
| "hal_inv_in Stopped s = (\<not> mInfo s \<and> loop s = L_out \<and> (api s = A_idle \<or> api s = A_waiting \<and> stopped s))"

definition hal_inv :: "HalState \<Rightarrow> bool" where "hal_inv s \<longleftrightarrow> hal_inv_in (mState s) s"

lemma hal_api_step_inv: "api_step s t \<Longrightarrow> hal_inv s \<Longrightarrow> hal_inv t"
proof (induction rule: api_step.induct)
  case (api_initialize s handle info_ok)
  then show ?case
    by (cases "mState s") (auto simp: hal_inv_def wifi_initialize_def HalState_init_def split: if_splits)
next
  case (api_cleanup s handle)
  then show ?case
    by (cases "mState s") (auto simp: hal_inv_def wifi_cleanup_def HalState_stop_def split: if_splits)
next
  case (api_handler s)
  then show ?case by (cases "mState s") (auto simp: hal_inv_def Netlink_stop_handler_def split: if_splits)
next
  case (api_write s)
  then show ?case by (cases "mState s") (auto simp: hal_inv_def Netlink_stop_write_def split: if_splits)
next
  case (api_wake s)
  then show ?case by (cases "mState s") (auto simp: hal_inv_def wifi_cleanup_wake_def split: if_splits)
qed

lemma hal_loop_step_inv: "loop_step s t \<Longrightarrow> hal_inv s \<Longrightarrow> hal_inv t"
proof (induction rule: loop_step.induct)
  case (loop_start s handle)
  then show ?case by (cases "mState s") (auto simp: hal_inv_def wifi_event_loop_def HalState_eventLoop_def split: if_splits)
next
  case (loop_enter s)
  then show ?case by (cases "mState s") (auto simp: hal_inv_def split: if_splits)
next
  case (loop_readable s recvs t)
  then show ?case by (cases "mState s") (auto simp: hal_inv_def loop_control_def split: if_splits option.splits prod.splits)
next
  case (loop_handler s)
  then show ?case by (cases "mState s") (auto simp: hal_inv_def onStop_handler_def split: if_splits)
next
  case (loop_reset s)
  then show ?case by (cases "mState s") (auto simp: hal_inv_def onStop_reset_def split: if_splits)
next
  case (loop_state s)
  then show ?case by (cases "mState s") (auto simp: hal_inv_def onStop_state_def split: if_splits)
qed

lemma poll_fails_inv: "poll_fails s t \<Longrightarrow> hal_inv s \<Longrightarrow> hal_inv t"
  by (cases "mState s") (auto elim!: poll_fails.cases simp: hal_inv_def split: if_splits)

interpretation hal: invariant_system hal_init hal_step hal_inv
proof unfold_locales
  show "hal_inv s" if "hal_init s" for s using that by (simp add: hal_init_def hal_inv_def HalState_new_def)
  show "hal_inv t" if "hal_step s t" "hal_inv s" for s t
    using that by (induction rule: hal_step.induct) (blast intro: hal_api_step_inv hal_loop_step_inv poll_fails_inv)+
qed

section \<open>Progress\<close>

definition thread_step :: "HalState \<Rightarrow> HalState \<Rightarrow> bool" where
  "thread_step s t \<longleftrightarrow> api_step s t \<or> loop_step s t"

text \<open>A call of \<^verbatim>\<open>wifi_cleanup\<close> is under way and the event loop has not died; the steps left of both threads.\<close>

definition cleaning :: "HalState \<Rightarrow> bool" where
  "cleaning s \<longleftrightarrow> api s \<noteq> A_idle \<and> (loop s \<noteq> L_out \<or> stopped s)"

definition cleanup_rank :: "HalState \<Rightarrow> nat" where
  "cleanup_rank s =
     (case api s of A_idle \<Rightarrow> 0 | A_waiting \<Rightarrow> 1 | A_writing \<Rightarrow> 2 | A_requested \<Rightarrow> 3) +
     (case loop s of L_out \<Rightarrow> 0 | L_state \<Rightarrow> 1 | L_reset \<Rightarrow> 2 | L_handler \<Rightarrow> 3 | L_poll \<Rightarrow> 4 | L_enter \<Rightarrow> 5)"

lemma cleaning_state: "hal_inv s \<Longrightarrow> cleaning s \<Longrightarrow> mState s = Stopping \<or> mState s = Stopped \<and> stopped s \<and> api s = A_waiting \<and> loop s = L_out"
  by (cases "mState s") (auto simp: hal_inv_def cleaning_def)

lemma cleaning_api_step:
  "api_step s t \<Longrightarrow> hal_inv s \<Longrightarrow> cleaning s \<Longrightarrow> t \<noteq> s \<Longrightarrow>
    api t = A_idle \<and> cleaned t = Suc (cleaned s) \<or> cleaning t \<and> cleaned t = cleaned s \<and> cleanup_rank t < cleanup_rank s"
  by (induction rule: api_step.induct)
    (auto simp: cleaning_def cleanup_rank_def Netlink_stop_handler_def Netlink_stop_write_def wifi_cleanup_wake_def split: if_splits)

lemma cleaning_loop_step:
  assumes "loop_step s t" and "hal_inv s" and "cleaning s" and "t \<noteq> s"
  shows "cleaning t \<and> cleaned t = cleaned s \<and> cleanup_rank t < cleanup_rank s"
  using assms
proof (induction rule: loop_step.induct)
  case (loop_start s handle)
  then show ?case
    using cleaning_state [of s] by (auto simp: wifi_event_loop_def HalState_eventLoop_def split: if_splits)
next
  case (loop_readable s recvs t)
  then show ?case
    using cleaning_state [of s]
    by (auto simp: loop_control_def cleaning_def cleanup_rank_def hal_inv_def split: if_splits option.splits prod.splits)
next
  case (loop_state s)
  then show ?case
    by (cases "mState s") (auto simp: onStop_state_def cleaning_def cleanup_rank_def hal_inv_def split: if_splits)
qed (auto simp: cleaning_def cleanup_rank_def onStop_handler_def onStop_reset_def)

lemma readControlMessage_pipe: "loop_control [Recv_error False] s = Some (s\<lparr>loop := (if mStopHandler s then L_handler else L_out)\<rparr>)"
  by (simp add: loop_control_def)

lemma pc_changes:
  "api s = A_requested \<Longrightarrow> Netlink_stop_handler s \<noteq> s" "api s = A_writing \<Longrightarrow> Netlink_stop_write s \<noteq> s"
  "api s = A_waiting \<Longrightarrow> stopped s \<Longrightarrow> wifi_cleanup_wake s \<noteq> s" "loop s = L_enter \<Longrightarrow> s\<lparr>loop := L_poll\<rparr> \<noteq> s"
  "loop s = L_handler \<Longrightarrow> onStop_handler s \<noteq> s" "loop s = L_poll \<Longrightarrow> s\<lparr>loop := L_handler\<rparr> \<noteq> s"
  by (auto simp: Netlink_stop_handler_def Netlink_stop_write_def wifi_cleanup_wake_def onStop_handler_def dest: arg_cong [of _ _ api] arg_cong [of _ _ loop])

lemma cleaning_not_stuck:
  assumes "hal_inv s" and "cleaning s"
  shows "\<exists>t. thread_step s t \<and> t \<noteq> s"
proof (cases "api s")
  case A_idle
  with assms show ?thesis by (simp add: cleaning_def)
next
  case A_requested
  then show ?thesis using api_handler [of s] pc_changes(1) [of s] unfolding thread_step_def by blast
next
  case A_writing
  then show ?thesis using api_write [of s] pc_changes(2) [of s] unfolding thread_step_def by blast
next
  case A_waiting
  show ?thesis
  proof (cases "stopped s")
    case True
    then show ?thesis using A_waiting api_wake [of s] pc_changes(3) [of s] unfolding thread_step_def by blast
  next
    case False
    with assms A_waiting have "mState s = Stopping" using cleaning_state by blast
    with assms A_waiting False consider "loop s = L_enter" | "loop s = L_poll" "0 < controlBytes s" "mStopHandler s" | "loop s = L_handler"
      by (auto simp: hal_inv_def cleaning_def)
    then show ?thesis
    proof cases
      case 1
      then show ?thesis using loop_enter [of s] pc_changes(4) [of s] unfolding thread_step_def by blast
    next
      case 2
      then have "loop_step s (s\<lparr>loop := L_handler\<rparr>)"
        using loop_readable [of s "[Recv_error False]" "s\<lparr>loop := L_handler\<rparr>"] by (simp add: readControlMessage_pipe)
      then show ?thesis using 2 pc_changes(6) [of s] unfolding thread_step_def by blast
    next
      case 3
      then show ?thesis using A_waiting loop_handler [of s] pc_changes(5) [of s] unfolding thread_step_def by blast
    qed
  qed
qed

section \<open>Properties\<close>


text \<open>A run: the HAL is initialised, its event loop starts, the framework stops it and waits, and the loop handles the stop.\<close>

definition run_waiting :: HalState where
  "run_waiting = Netlink_stop_write (Netlink_stop_handler (wifi_cleanup True
     ((wifi_event_loop True (snd (wifi_initialize True True HalState_new)))\<lparr>loop := L_poll\<rparr>)))"

definition run_cleaned :: HalState where
  "run_cleaned = wifi_cleanup_wake (onStop_handler (run_waiting\<lparr>loop := L_handler\<rparr>))"

lemmas hal_ops = wifi_initialize_def HalState_init_def wifi_cleanup_def HalState_stop_def Netlink_stop_handler_def Netlink_stop_write_def
  wifi_cleanup_wake_def wifi_event_loop_def HalState_eventLoop_def onStop_handler_def onStop_reset_def onStop_state_def HalState_new_def

lemma run_started: "hal_step\<^sup>*\<^sup>* HalState_new ((wifi_event_loop True (snd (wifi_initialize True True HalState_new)))\<lparr>loop := L_poll\<rparr>)"
proof -
  have "hal_step HalState_new (snd (wifi_initialize True True HalState_new))"
    by (intro step_api api_initialize) (simp add: hal_ops)
  moreover have "hal_step (snd (wifi_initialize True True HalState_new)) (wifi_event_loop True (snd (wifi_initialize True True HalState_new)))"
    by (intro step_loop loop_start) (simp add: hal_ops)
  moreover have "hal_step (wifi_event_loop True (snd (wifi_initialize True True HalState_new)))
      ((wifi_event_loop True (snd (wifi_initialize True True HalState_new)))\<lparr>loop := L_poll\<rparr>)"
    by (intro step_loop loop_enter) (simp add: hal_ops)
  ultimately show ?thesis by (meson rtranclp.rtrancl_into_rtrancl rtranclp.rtrancl_refl)
qed

lemma run_waiting_reachable: "hal_step\<^sup>*\<^sup>* HalState_new run_waiting"
proof -
  let ?r = "(wifi_event_loop True (snd (wifi_initialize True True HalState_new)))\<lparr>loop := L_poll\<rparr>"
  have "hal_step ?r (wifi_cleanup True ?r)" by (intro step_api api_cleanup) (simp add: hal_ops)
  moreover have "hal_step (wifi_cleanup True ?r) (Netlink_stop_handler (wifi_cleanup True ?r))"
    by (intro step_api api_handler) (simp add: hal_ops)
  moreover have "hal_step (Netlink_stop_handler (wifi_cleanup True ?r)) run_waiting"
    unfolding run_waiting_def by (intro step_api api_write) (simp add: hal_ops)
  ultimately show ?thesis using run_started by (meson rtranclp.rtrancl_into_rtrancl)
qed

lemma run_cleaned_reachable: "hal_step\<^sup>*\<^sup>* HalState_new run_cleaned"
proof -
  have "hal_step run_waiting (run_waiting\<lparr>loop := L_handler\<rparr>)"
    using loop_readable [of run_waiting "[Recv_error False]" "run_waiting\<lparr>loop := L_handler\<rparr>"]
    by (auto intro: step_loop simp: readControlMessage_pipe run_waiting_def hal_ops)
  moreover have "hal_step (run_waiting\<lparr>loop := L_handler\<rparr>) (onStop_handler (run_waiting\<lparr>loop := L_handler\<rparr>))"
    by (intro step_loop loop_handler) (simp_all add: run_waiting_def hal_ops)
  moreover have "hal_step (onStop_handler (run_waiting\<lparr>loop := L_handler\<rparr>)) run_cleaned"
    unfolding run_cleaned_def by (intro step_api api_wake) (simp add: run_waiting_def hal_ops)
  ultimately show ?thesis using run_waiting_reachable by (meson rtranclp.rtrancl_into_rtrancl)
qed


text \<open>
  Property C12: \<^verbatim>\<open>wifi_cleanup\<close> ends. In every reachable state in which it is under way and the event loop has not died, a step is possible, and every step of a
  thread that changes the state either lets it return, having called the handler of the framework once, or leaves it under way with fewer steps to go,
  of which there are at most eight.
\<close>

theorem cleanup_returns:
  assumes "hal_init s" and "hal_step\<^sup>*\<^sup>* s t" and "cleaning t"
  shows "(\<exists>u. thread_step t u \<and> u \<noteq> t) \<and> cleanup_rank t \<le> 8 \<and>
    (\<forall>u. thread_step t u \<and> u \<noteq> t \<longrightarrow>
      api u = A_idle \<and> cleaned u = Suc (cleaned t) \<or> cleaning u \<and> cleaned u = cleaned t \<and> cleanup_rank u < cleanup_rank t)"
proof -
  have inv: "hal_inv t" by (rule hal.reachable_inv [OF assms(1,2)])
  have "cleanup_rank t \<le> 8" by (simp add: cleanup_rank_def split: api_pc.splits loop_pc.splits)
  with cleaning_not_stuck [OF inv assms(3)] cleaning_api_step [OF _ inv assms(3)] cleaning_loop_step [OF _ inv assms(3)]
  show ?thesis unfolding thread_step_def by blast
qed

lemma cleanup_returns_witness: "cleaning run_waiting \<and> (\<exists>u. thread_step run_waiting u \<and> u \<noteq> run_waiting)"
proof -
  have "cleaning run_waiting" by (simp add: cleaning_def run_waiting_def hal_ops)
  then show ?thesis using cleanup_returns [OF _ run_waiting_reachable] by (simp add: hal_init_def)
qed

text \<open>
  Property C35: Starting again after \<^verbatim>\<open>wifi_cleanup\<close> is a race. In a reachable state with no call under way and the HAL neither initialised nor running,
  \<^verbatim>\<open>wifi_initialize\<close>, with the resources it needs, succeeds exactly if the thread of the event loop has left \<^verbatim>\<open>wifi_event_loop\<close>: the stop handler releases
  \<^verbatim>\<open>wifi_cleanup\<close> before the state becomes stopped, and until then the call fails and changes nothing.
\<close>

theorem restart_after_cleanup:
  assumes "hal_init s" and "hal_step\<^sup>*\<^sup>* s t" and "api t = A_idle" and "mState t \<noteq> Initialized" and "mState t \<noteq> Running"
  shows "if loop t = L_out then fst (wifi_initialize True True t) = WIFI_SUCCESS
    else wifi_initialize True True t = (WIFI_ERROR_UNKNOWN, t)"
  using hal.reachable_inv [OF assms(1,2)] assms(3-5)
  by (cases "mState t") (auto simp: hal_inv_def wifi_initialize_def HalState_init_def split: if_splits)

lemma restart_after_cleanup_witness:
  "api run_cleaned = A_idle \<and> cleaned run_cleaned = 1 \<and> wifi_initialize True True run_cleaned = (WIFI_ERROR_UNKNOWN, run_cleaned)"
proof -
  have "api run_cleaned = A_idle" "mState run_cleaned = Stopping" "loop run_cleaned = L_reset" "cleaned run_cleaned = 1"
    by (simp_all add: run_cleaned_def run_waiting_def hal_ops)
  then show ?thesis using restart_after_cleanup [OF _ run_cleaned_reachable] by (simp add: hal_init_def)
qed

text \<open>The HAL stays in the wait for an event loop that has died.\<close>

definition stranded :: "HalState \<Rightarrow> bool" where
  "stranded s \<longleftrightarrow> mState s = Stopping \<and> \<not> stopped s \<and> loop s = L_out \<and> api s \<noteq> A_idle"

lemma stranded_step: "hal_step s t \<Longrightarrow> stranded s \<Longrightarrow> stranded t \<and> cleaned t = cleaned s"
  by (auto elim!: hal_step.cases api_step.cases loop_step.cases poll_fails.cases simp: stranded_def hal_ops split: if_splits)

lemma stranded_steps: "hal_step\<^sup>*\<^sup>* s t \<Longrightarrow> stranded s \<Longrightarrow> stranded t \<and> cleaned t = cleaned s"
  by (induction rule: rtranclp_induct) (auto dest: stranded_step)

text \<open>
  After \<^verbatim>\<open>poll\<close> has failed, \<^verbatim>\<open>wifi_cleanup\<close> never returns. The event loop leaves without changing the state, so that the state
  stays running with no thread to read the control pipe: a stop from there waits in every later state.
\<close>

lemma poll_failure_strands_cleanup:
  assumes "mState s = Running" and "api s = A_idle" and "poll_fails s t" and "hal_step\<^sup>*\<^sup>* (wifi_cleanup True t) u"
  shows "api u \<noteq> A_idle \<and> cleaned u = cleaned s"
proof -
  have "stranded (wifi_cleanup True t)" "cleaned (wifi_cleanup True t) = cleaned s"
    using assms(1-3) by (auto elim!: poll_fails.cases simp: stranded_def hal_ops)
  then show ?thesis using stranded_steps [OF assms(4)] by (simp add: stranded_def)
qed

lemma poll_failure_strands_cleanup_witness:
  "let r = (wifi_event_loop True (snd (wifi_initialize True True HalState_new)))\<lparr>loop := L_poll\<rparr>
   in hal_step\<^sup>*\<^sup>* HalState_new r \<and> api (wifi_cleanup True (r\<lparr>loop := L_out\<rparr>)) \<noteq> A_idle"
proof -
  let ?r = "(wifi_event_loop True (snd (wifi_initialize True True HalState_new)))\<lparr>loop := L_poll\<rparr>"
  have "poll_fails ?r (?r\<lparr>loop := L_out\<rparr>)" by (intro poll_error) simp
  moreover have "mState ?r = Running" "api ?r = A_idle" by (simp_all add: hal_ops)
  ultimately show ?thesis using poll_failure_strands_cleanup run_started unfolding Let_def by blast
qed

text \<open>Asking for the interfaces once the object is gone uses a null pointer.\<close>

lemma get_ifaces_after_cleanup:
  assumes "hal_init s" and "hal_step\<^sup>*\<^sup>* s t" and "mState t = Stopped"
  shows "wifi_get_ifaces True (Some k) (Some l) t = None"
  using hal.reachable_inv [OF assms(1,2)] assms(3) by (simp add: hal_inv_def wifi_get_ifaces_def)

end
