(* ===== verification/Spec2Isabelle.thy ===== *)
theory Spec2Isabelle
  imports Fingerprint_Flow Dhcp_Client_Props Record_Stream Qemud RIL_Daemon RIL_Codes Wifi_Driver RIL_Requests
    Camera_Pattern Audio_Ring Camera3_Device_Props Gnss_Service Gnss_Measurement Sensors_Flow Boot_Props Camera1_Props Wifi_Netlink_Props Wifi_Hal_State
begin

text \<open>
  A verification development for the \<^emph>\<open>goldfish\<close> device: the hardware abstraction layers (HALs), daemons and network helpers
  of the Android emulator.

  \<^bold>\<open>The program.\<close> The parts under \<^verbatim>\<open>src/\<close> are separate programs and libraries that talk to two sides. On one side is the
  emulator host, over a qemu pipe: bare bytes (GPS sentences), or messages with a hexadecimal length in front (\<^verbatim>\<open>qemud/\<close>, used by
  the fingerprint, sensor and camera services). On the other side is the Android framework, by calls into a HAL and callbacks out of
  it, or over a socket of length-prefixed records (\<^verbatim>\<open>radio/\<close>). Most HALs have at least one thread of their own that waits for the
  host, so that their state is shared between the calls and the thread under a mutex. The DHCP client and server
  (\<^verbatim>\<open>dhcp/\<close>) give the guest its address.

  \<^bold>\<open>How it is modelled.\<close> Each component is a theory with the state as a record, the constants and enumerations of the source, and one
  function for each operation, in the order of the source. Calls and passes of a thread that hold the mutex are single steps; a component whose
  interleaving matters has a step relation over them and an invariant by the locale \<^verbatim>\<open>invariant_system\<close>. The operating system,
  the clock, random numbers and the results of system calls are arguments; writes, callbacks and messages are lists of
  effects. An abort, a failed assertion or undefined behaviour (a read out of bounds, a signed overflow, a null callback) is the result \<open>None\<close> or an
  error value. Machine integers are words where they wrap and \<open>int\<close> or \<open>nat\<close> where they do not or where an overflow is an
  error. Double-precision values are the rational numbers before rounding; single precision is rounded (\<^verbatim>\<open>C_Float\<close>) where the
  rounding decides a result.

  \<^bold>\<open>Shared theories.\<close>
  \<^item> \<^verbatim>\<open>Goldfish_Prelude\<close>: word types, byte codecs in both orders, the locales \<^verbatim>\<open>byte_codec\<close> and \<^verbatim>\<open>invariant_system\<close>.
  \<^item> \<^verbatim>\<open>C_Strings\<close>, \<^verbatim>\<open>C_Scanf\<close>, \<^verbatim>\<open>C_Float\<close>: the parts of the C library in use, with the facts that reading what was printed
    gives the number back.
  \<^item> \<^verbatim>\<open>Framing\<close>: length-prefixed messages on a byte stream, the locale \<^verbatim>\<open>length_prefix\<close> that the record stream and the qemud
    channel are instances of.

  \<^bold>\<open>Components.\<close>
  \<^item> \<^verbatim>\<open>Fingerprint\<close>, \<^verbatim>\<open>Fingerprint_Props\<close>, \<^verbatim>\<open>Fingerprint_Flow\<close> (\<^verbatim>\<open>fingerprint/fingerprint.c\<close>): the device, its template
    table and file, the HAL calls and the listener. Shown: the invariant over all interleavings, agreement of memory with the file,
    enrolment by two touches, what a scan may report, removal of all templates (the fuel of \<^verbatim>\<open>remove_all_loop\<close> is the
    table's size and one, since every round clears a slot), freedom from faults once a callback is set.
  \<^item> \<^verbatim>\<open>Record_Stream\<close> (\<^verbatim>\<open>radio/librilutils/record_stream.c\<close>), \<^verbatim>\<open>Qemud\<close> (\<^verbatim>\<open>qemud/qemud.cpp\<close>): every record is delivered once and
    in order however the bytes arrive, cursors in bounds, the exact condition of the assertion; send and receive are inverse.
  \<^item> \<^verbatim>\<open>RIL_Daemon\<close>, \<^verbatim>\<open>RIL_Codes\<close>, \<^verbatim>\<open>RIL_Enums\<close>, \<^verbatim>\<open>RIL_Requests\<close> (\<^verbatim>\<open>radio/\<close>): the start of the radio daemon with its argument vector,
    network codes, and the numbers of the interface.
  \<^item> \<^verbatim>\<open>Wifi_Driver\<close> (\<^verbatim>\<open>wpa_supplicant_8_lib/driver_cmd_nl80211.c\<close>): the driver commands.
  \<^item> \<^verbatim>\<open>Dhcp_Message\<close>, \<^verbatim>\<open>Dhcp_Socket\<close>, \<^verbatim>\<open>Dhcp_Client\<close>, \<^verbatim>\<open>Dhcp_Client_Props\<close> (\<^verbatim>\<open>dhcp/\<close>): messages and options, checksums and raw datagrams,
    the client's state machine. Shown: what is built parses back, checksums verify, the reachable states, that only an
    acknowledgement binds, a lease from the repository's own server end to end, and when the client gives up. \<^verbatim>\<open>wait_loop\<close> runs over the
    list of what arrives, so that it ends with the list.
  \<^item> \<^verbatim>\<open>Camera_Converters\<close>, \<^verbatim>\<open>Camera_Rotating\<close>, \<^verbatim>\<open>Camera_Pattern\<close> (\<^verbatim>\<open>camera/\<close>): colour conversions against a pixel-wise reference,
    the pixel work of the rotating camera, and the first rows of its test image.
  \<^item> \<^verbatim>\<open>Camera3_Control\<close>, \<^verbatim>\<open>Camera3_Device\<close> with their \<^verbatim>\<open>_Props\<close> (\<^verbatim>\<open>camera/EmulatedFakeCamera3.cpp\<close>, \<^verbatim>\<open>EmulatedCamera3.cpp\<close>):
    exposure, focus and white balance; streams, requests, the readout thread. Shown: the reachable states, that the results come in
    the order of the requests (the locale \<^verbatim>\<open>in_order_service\<close>), the exact set of streams after a configuration, and three ways to a blocked camera.
  \<^item> \<^verbatim>\<open>Audio_Ring\<close> (\<^verbatim>\<open>audio/ring_buffer.cpp\<close> and the threads of \<^verbatim>\<open>device_port_*.cpp\<close>): the ring buffer as a queue that loses only its oldest
    bytes (the locale \<^verbatim>\<open>capture_pipe\<close>); \<^verbatim>\<open>produce_loop\<close> ends because the source gets shorter.
  \<^item> \<^verbatim>\<open>Gnss_Listener\<close>, \<^verbatim>\<open>Gnss_Listener_Props\<close>, \<^verbatim>\<open>Gnss_Service\<close>, \<^verbatim>\<open>Gnss_Measurement\<close> (\<^verbatim>\<open>gnss/\<close>): NMEA sentences, the worker thread and the
    sink, the measurement thread at the level of its mutex and flag. Shown: a printed fix is reported with its exact coordinates however the
    stream is cut, nothing is reported before the warm-up, and the deadlock of the measurement thread.
  \<^item> \<^verbatim>\<open>Sensors\<close>, \<^verbatim>\<open>Sensors_Props\<close>, \<^verbatim>\<open>Sensors_Flow\<close> (\<^verbatim>\<open>sensors/\<close>): the sensor list, calls, messages, listener and batch thread. Shown: the batch
    thread in every reachable state, the exact sequence of samples, a lost value and an abort. \<^verbatim>\<open>batch_loop\<close> ends because every
    round moves a queued time forward.

  \<^bold>\<open>Not modelled.\<close> OpenGL rendering, the JPEG and EXIF libraries, the floating-point simulation of the camera's scene and sensor, the parts
  that only hand over to kernel interfaces (netlink, mixer, sockets set-up), generated and Java code. The second and first
  generation cameras and the two variants of the third repeat the modelled device. The list of components says so part by part.

  \<^bold>\<open>Plan.\<close> Boot properties on top of \<^verbatim>\<open>Qemud\<close>; the camera's client of the host; the Wi-Fi HAL's state; the audio streams.
\<close>

end
